(* ===== verification/Prelude.thy ===== *)
theory Prelude
  imports Main "HOL-Library.Word"
begin

text \<open>
  Types and automation shared by the component theories.

  C's fixed-width unsigned integers are words of the same width.  A pointer is a
  32-bit word, as on the Cortex-M0+ the firmware runs on, with \<open>0\<close> for \<open>NULL\<close>.
  Signed status codes (\<open>int32_t\<close> returns from \<open>err_codes.h\<close> and \<open>hpl_usb.h\<close>) are
  integers: they are never computed with, only compared and passed on.

  A C call that may fail to return (a loop over a cyclic list, an \<open>ASSERT\<close> that
  stops the core at a breakpoint) is modelled by an option: \<open>None\<close> is a call that does
  not return.
\<close>

unbundle bit_operations_syntax

type_synonym u8 = "8 word"
type_synonym u16 = "16 word"
type_synonym u32 = "32 word"
type_synonym ptr = "32 word"
type_synonym rc = int

abbreviation (input) NULL :: ptr where
  "NULL \<equiv> 0"

named_theorems c_defs \<open>definitions of straight-line C helpers, unfolded by the component proofs\<close>
named_theorems c_codes \<open>the numeric values of status codes and register masks\<close>

subsection \<open>Status codes (err\_codes.h)\<close>

abbreviation (input) ERR_NONE :: rc where "ERR_NONE \<equiv> 0"
abbreviation (input) ERR_INVALID_DATA :: rc where "ERR_INVALID_DATA \<equiv> - 1"
abbreviation (input) ERR_NO_CHANGE :: rc where "ERR_NO_CHANGE \<equiv> - 2"
abbreviation (input) ERR_BUSY :: rc where "ERR_BUSY \<equiv> - 4"
abbreviation (input) ERR_BAD_DATA :: rc where "ERR_BAD_DATA \<equiv> - 9"
abbreviation (input) ERR_NOT_FOUND :: rc where "ERR_NOT_FOUND \<equiv> - 10"
abbreviation (input) ERR_INVALID_ARG :: rc where "ERR_INVALID_ARG \<equiv> - 13"
abbreviation (input) ERR_BAD_ADDRESS :: rc where "ERR_BAD_ADDRESS \<equiv> - 14"
abbreviation (input) ERR_DENIED :: rc where "ERR_DENIED \<equiv> - 17"
abbreviation (input) ERR_ALREADY_INITIALIZED :: rc where "ERR_ALREADY_INITIALIZED \<equiv> - 18"
abbreviation (input) ERR_OVERFLOW :: rc where "ERR_OVERFLOW \<equiv> - 19"
abbreviation (input) ERR_NOT_INITIALIZED :: rc where "ERR_NOT_INITIALIZED \<equiv> - 20"
abbreviation (input) ERR_UNSUPPORTED_OP :: rc where "ERR_UNSUPPORTED_OP \<equiv> - 27"
abbreviation (input) ERR_NO_RESOURCE :: rc where "ERR_NO_RESOURCE \<equiv> - 28"

subsection \<open>Assertions\<close>

text \<open>
  \<open>ASSERT\<close> of \<open>utils_assert.h\<close>: with \<open>DEBUG\<close> defined (as the firmware's Makefile does) a
  condition that is false, or whose evaluation does not return, stops the call; without
  it the condition is not evaluated at all.
\<close>

definition c_assert :: "bool \<Rightarrow> bool option \<Rightarrow> 'a option \<Rightarrow> 'a option" where
  "c_assert debug cond k =
     (if debug then (case cond of Some True \<Rightarrow> k | _ \<Rightarrow> None) else k)"

lemma c_assert_simps [simp]:
  "c_assert False c k = k"
  "c_assert debug (Some True) k = k"
  "c_assert True (Some False) k = None"
  "c_assert True None k = None"
  by (simp_all add: c_assert_def)

subsection \<open>Words\<close>

lemma u16_lt [simp]: "unat (x :: u16) < 65536"
  using unsigned_less [of x] by simp

lemma u8_lt [simp]: "unat (x :: u8) < 256"
  using unsigned_less [of x] by simp

lemma u32_lt [simp]: "unat (x :: u32) < 4294967296"
  using unsigned_less [of x] by simp

lemma unat_ucast_up:
  "LENGTH('a) \<le> LENGTH('b) \<Longrightarrow> unat (ucast (x :: 'a::len word) :: 'b::len word) = unat x"
proof -
  assume le: "LENGTH('a) \<le> LENGTH('b)"
  have "unat x < 2 ^ LENGTH('a)" by (rule unsigned_less)
  also have "\<dots> \<le> 2 ^ LENGTH('b)" using le by (rule power_increasing) simp
  finally show ?thesis
    by (simp add: unsigned_ucast_eq take_bit_nat_eq_self)
qed

lemma unat_ucast_u8_u16 [simp]: "unat (ucast (x :: u8) :: u16) = unat x"
  by (rule unat_ucast_up) simp

lemma unat_ucast_u8_u32 [simp]: "unat (ucast (x :: u8) :: u32) = unat x"
  by (rule unat_ucast_up) simp

lemma unat_ucast_u16_u32 [simp]: "unat (ucast (x :: u16) :: u32) = unat x"
  by (rule unat_ucast_up) simp

lemma ucast_u16_u32 [simp]: "(ucast (ucast (n :: u32) :: u16) :: u32) = take_bit 16 n"
  by (auto intro!: bit_word_eqI simp: bit_simps)

lemma ucast_u8_u32 [simp]: "(ucast (ucast (n :: u32) :: u8) :: u32) = take_bit 8 n"
  by (auto intro!: bit_word_eqI simp: bit_simps)

lemma ucast_down_up [simp]:
  "ucast (ucast (x :: u8) :: u32) = x" "ucast (ucast (x :: u8) :: u16) = x"
  "ucast (ucast (y :: u16) :: u32) = y"
  by (auto intro!: bit_word_eqI simp: bit_simps)

lemma bit_high [simp]:
  "8 \<le> n \<Longrightarrow> \<not> bit (x :: u8) n"
  "16 \<le> n \<Longrightarrow> \<not> bit (y :: u16) n"
  "32 \<le> n \<Longrightarrow> \<not> bit (z :: u32) n"
  by (auto dest: bit_imp_le_length)

lemma unat_minus_one_less: "i \<noteq> 0 \<Longrightarrow> unat (i - 1 :: 'a::len word) < unat i"
  using unat_gt_0 [of i] by (simp add: unat_minus_one)

lemma unat_Suc_less:
  fixes x y :: "'a::len word"
  assumes "x < y"
  shows "unat (x + 1) = Suc (unat x)"
proof -
  have "Suc (unat x) \<le> unat y" using assms by (simp add: word_less_nat_alt)
  also have "unat y < 2 ^ LENGTH('a)" by (rule unsigned_less)
  finally have "Suc (unat x) < 2 ^ LENGTH('a)" .
  then show ?thesis by (simp add: unat_word_ariths)
qed

subsection \<open>Equality of registers, bit by bit\<close>

text \<open>
  Register masks are numerals; identities between masked registers are decided by
  comparing the bits one by one (\<open>simp add: u8_eq_iff bit_simps\<close>).
\<close>

lemma u8_eq_iff:
  "(x :: u8) = y \<longleftrightarrow> (bit x 0 \<longleftrightarrow> bit y 0) \<and> (bit x 1 \<longleftrightarrow> bit y 1) \<and> (bit x 2 \<longleftrightarrow> bit y 2) \<and> (bit x 3 \<longleftrightarrow> bit y 3)
     \<and> (bit x 4 \<longleftrightarrow> bit y 4) \<and> (bit x 5 \<longleftrightarrow> bit y 5) \<and> (bit x 6 \<longleftrightarrow> bit y 6) \<and> (bit x 7 \<longleftrightarrow> bit y 7)"
  (is "_ \<longleftrightarrow> ?bits")
proof
  assume bits: ?bits
  show "x = y"
  proof (rule bit_word_eqI)
    fix n assume "n < LENGTH(8)"
    then have "n < 8" by simp
    then have "n \<in> set ([0, 1, 2, 3, 4, 5, 6, 7])" by (simp, arith)
    with bits show "bit x n \<longleftrightarrow> bit y n"
      by (elim conjE) (simp only: list.set insert_iff empty_iff, elim disjE, simp_all)
  qed
qed simp

lemma u16_eq_iff:
  "(x :: u16) = y \<longleftrightarrow> (bit x 0 \<longleftrightarrow> bit y 0) \<and> (bit x 1 \<longleftrightarrow> bit y 1) \<and> (bit x 2 \<longleftrightarrow> bit y 2) \<and> (bit x 3 \<longleftrightarrow> bit y 3)
     \<and> (bit x 4 \<longleftrightarrow> bit y 4) \<and> (bit x 5 \<longleftrightarrow> bit y 5) \<and> (bit x 6 \<longleftrightarrow> bit y 6) \<and> (bit x 7 \<longleftrightarrow> bit y 7)
     \<and> (bit x 8 \<longleftrightarrow> bit y 8) \<and> (bit x 9 \<longleftrightarrow> bit y 9) \<and> (bit x 10 \<longleftrightarrow> bit y 10) \<and> (bit x 11 \<longleftrightarrow> bit y 11)
     \<and> (bit x 12 \<longleftrightarrow> bit y 12) \<and> (bit x 13 \<longleftrightarrow> bit y 13) \<and> (bit x 14 \<longleftrightarrow> bit y 14) \<and> (bit x 15 \<longleftrightarrow> bit y 15)"
  (is "_ \<longleftrightarrow> ?bits")
proof
  assume bits: ?bits
  show "x = y"
  proof (rule bit_word_eqI)
    fix n assume "n < LENGTH(16)"
    then have "n < 16" by simp
    then have "n \<in> set ([0, 1, 2, 3, 4, 5, 6, 7, 8, 9, 10, 11, 12, 13, 14, 15])" by (simp, arith)
    with bits show "bit x n \<longleftrightarrow> bit y n"
      by (elim conjE) (simp only: list.set insert_iff empty_iff, elim disjE, simp_all)
  qed
qed simp

subsection \<open>Bytes in memory\<close>

definition bytes_at :: "(ptr \<Rightarrow> u8) \<Rightarrow> ptr \<Rightarrow> nat \<Rightarrow> u8 list" where
  "bytes_at m p n = map (\<lambda>k. m (p + of_nat k)) [0..<n]"

lemma length_bytes_at [simp]: "length (bytes_at m p n) = n"
  by (simp add: bytes_at_def)

lemma bytes_at_append: "bytes_at m p n @ bytes_at m (p + of_nat n) k = bytes_at m p (n + k)"
proof -
  have "[0..<n + k] = [0..<n] @ map (\<lambda>i. i + n) [0..<k]"
    by (metis add.commute add.left_neutral map_add_upt upt_add_eq_append zero_le)
  then show ?thesis by (simp add: bytes_at_def algebra_simps)
qed

lemma bytes_at_cong: "\<forall>k < n. m (p + of_nat k) = m' (p + of_nat k) \<Longrightarrow> bytes_at m p n = bytes_at m' p n"
  by (simp add: bytes_at_def)

subsection \<open>Decimal digits\<close>

text \<open>The digits that \<open>printf\<close> writes for a number.\<close>

definition dec_digit :: "nat \<Rightarrow> char" where "dec_digit d = char_of (48 + d)"

fun dec :: "nat \<Rightarrow> string" where
  "dec n = (if n < 10 then [dec_digit n] else dec (n div 10) @ [dec_digit (n mod 10)])"

declare dec.simps [simp del]

end
