(* ===== verification/UtilsList.thy ===== *)
theory UtilsList
  imports Prelude
begin

text \<open>
  The intrusive singly linked list of \<open>hal/utils/src/utils_list.c\<close>.

  Elements are C objects whose first member is the \<open>next\<close> pointer.  All lists of the
  firmware share one store of \<open>next\<close> pointers (\<open>links\<close>), so an operation on one list may
  disturb another one that shares an element: the frame lemmas say when it does not.
  \<open>struct list_descriptor\<close> is its \<open>head\<close> pointer.  Loops that chase pointers are
  partial functions: on a cyclic store they need not return.
\<close>

type_synonym links = "ptr \<Rightarrow> ptr"

subsection \<open>Operations\<close>

definition list_reset :: ptr where
  "list_reset = NULL"

definition list_get_head :: "ptr \<Rightarrow> ptr" where
  "list_get_head head = head"

definition list_get_next_element :: "links \<Rightarrow> ptr \<Rightarrow> ptr" where
  "list_get_next_element nx element = (if element \<noteq> NULL then nx element else NULL)"

partial_function (option) is_list_element_loop :: "links \<Rightarrow> ptr \<Rightarrow> ptr \<Rightarrow> bool option" where
  "is_list_element_loop nx it element =
     (if it = NULL then Some False
      else if it = element then Some True
      else is_list_element_loop nx (nx it) element)"

declare is_list_element_loop.simps [code]

definition is_list_element :: "links \<Rightarrow> ptr \<Rightarrow> ptr \<Rightarrow> bool option" where
  "is_list_element nx head element = is_list_element_loop nx head element"

definition list_insert_as_head ::
    "bool \<Rightarrow> links \<Rightarrow> ptr \<Rightarrow> ptr \<Rightarrow> (links \<times> ptr) option" where
  "list_insert_as_head debug nx head element =
     c_assert debug (map_option Not (is_list_element nx head element))
       (Some (nx(element := head), element))"

definition list_insert_after :: "links \<Rightarrow> ptr \<Rightarrow> ptr \<Rightarrow> links" where
  "list_insert_after nx after element =
     (let nx1 = nx(element := nx after) in nx1(after := element))"

partial_function (option) last_element_loop :: "links \<Rightarrow> ptr \<Rightarrow> ptr option" where
  "last_element_loop nx it = (if nx it = NULL then Some it else last_element_loop nx (nx it))"

declare last_element_loop.simps [code]

definition list_insert_at_end ::
    "bool \<Rightarrow> links \<Rightarrow> ptr \<Rightarrow> ptr \<Rightarrow> (links \<times> ptr) option" where
  "list_insert_at_end debug nx head element =
     c_assert debug (map_option Not (is_list_element nx head element))
       (if head = NULL then Some (nx(element := NULL), element)
        else case last_element_loop nx head of
               None \<Rightarrow> None
             | Some it \<Rightarrow> (let nx1 = nx(it := element) in Some (nx1(element := NULL), head)))"

definition list_remove_head :: "links \<Rightarrow> ptr \<Rightarrow> ptr \<times> ptr" where
  \<comment> \<open>the removed element (or \<open>NULL\<close>) and the new head\<close>
  "list_remove_head nx head = (if head \<noteq> NULL then (head, nx head) else (NULL, head))"

partial_function (option) find_pred_loop :: "links \<Rightarrow> ptr \<Rightarrow> ptr \<Rightarrow> ptr option" where
  "find_pred_loop nx it element =
     (if it \<noteq> NULL \<and> nx it \<noteq> element then find_pred_loop nx (nx it) element else Some it)"

declare find_pred_loop.simps [code]

definition list_delete_element :: "links \<Rightarrow> ptr \<Rightarrow> ptr \<Rightarrow> (bool \<times> links \<times> ptr) option" where
  "list_delete_element nx head element =
     (if element = NULL then Some (False, nx, head)
      else if head = element then Some (True, nx, nx head)
      else case find_pred_loop nx head element of
             None \<Rightarrow> None
           | Some it \<Rightarrow>
               (if it \<noteq> NULL then Some (True, nx(it := nx element), head)
                else Some (False, nx, head)))"

subsection \<open>Abstraction: the sequence of elements a head pointer reaches\<close>

fun is_list :: "links \<Rightarrow> ptr \<Rightarrow> ptr list \<Rightarrow> bool" where
  "is_list nx p [] \<longleftrightarrow> p = NULL"
| "is_list nx p (x # xs) \<longleftrightarrow> p = x \<and> x \<noteq> NULL \<and> is_list nx (nx x) xs"

lemma is_list_NULL [simp]: "is_list nx NULL xs \<longleftrightarrow> xs = []"
  by (cases xs) auto

lemma is_list_not_NULL:
  "p \<noteq> NULL \<Longrightarrow> is_list nx p xs \<longleftrightarrow> (\<exists>ys. xs = p # ys \<and> is_list nx (nx p) ys)"
  by (cases xs) auto

fun path :: "links \<Rightarrow> ptr \<Rightarrow> ptr list \<Rightarrow> ptr \<Rightarrow> bool" where
  "path nx p [] q \<longleftrightarrow> p = q"
| "path nx p (x # xs) q \<longleftrightarrow> p = x \<and> x \<noteq> NULL \<and> path nx (nx x) xs q"

lemma is_list_append:
  "is_list nx p (xs @ y # ys) \<longleftrightarrow> path nx p xs y \<and> y \<noteq> NULL \<and> is_list nx (nx y) ys"
  by (induction xs arbitrary: p) auto

lemma path_upd [simp]: "a \<notin> set xs \<Longrightarrow> path (nx(a := v)) p xs q = path nx p xs q"
  by (induction xs arbitrary: p) auto

lemma is_list_elems: "is_list nx p xs \<Longrightarrow> NULL \<notin> set xs"
  by (induction xs arbitrary: p) auto

lemma is_list_unique: "is_list nx p xs \<Longrightarrow> is_list nx p ys \<Longrightarrow> xs = ys"
proof (induction xs arbitrary: p ys)
  case (Cons x xs)
  then show ?case by (cases ys) auto
qed auto

lemma is_list_suffix: "is_list nx p (xs @ y # ys) \<Longrightarrow> is_list nx y (y # ys)"
  by (induction xs arbitrary: p) auto

lemma is_list_distinct: "is_list nx p xs \<Longrightarrow> distinct xs"
proof (induction xs arbitrary: p)
  case (Cons x xs)
  have "x \<notin> set xs"
  proof
    assume "x \<in> set xs"
    then obtain ys zs where xs: "xs = ys @ x # zs" by (auto simp: in_set_conv_decomp)
    have "is_list nx x (x # zs)"
      using Cons.prems xs is_list_suffix [of nx p "x # ys" x zs] by simp
    moreover have "is_list nx x (x # xs)" using Cons.prems by simp
    ultimately have "x # zs = x # xs" by (rule is_list_unique)
    then show False using xs by simp
  qed
  then show ?case using Cons by auto
qed auto

lemma is_list_frame:
  "\<forall>x \<in> set xs. nx' x = nx x \<Longrightarrow> is_list nx' p xs = is_list nx p xs"
  by (induction xs arbitrary: p) auto

lemma is_list_upd [simp]: "a \<notin> set xs \<Longrightarrow> is_list (nx(a := v)) p xs = is_list nx p xs"
  by (rule is_list_frame) auto

subsection \<open>Each operation against the abstract sequence\<close>

lemma is_list_element_correct:
  "is_list nx head xs \<Longrightarrow> is_list_element nx head e = Some (e \<in> set xs)"
  unfolding is_list_element_def
proof (induction xs arbitrary: head)
  case Nil
  then show ?case by (simp add: is_list_element_loop.simps)
next
  case (Cons x xs)
  then show ?case by (subst is_list_element_loop.simps) auto
qed

lemma list_insert_as_head_correct:
  assumes "is_list nx head xs" and "e \<noteq> NULL" and "e \<notin> set xs"
  shows "list_insert_as_head debug nx head e = Some (nx(e := head), e)"
    and "is_list (nx(e := head)) e (e # xs)"
  using assms by (simp_all add: list_insert_as_head_def is_list_element_correct)

lemma list_insert_as_head_asserts:
  "is_list nx head xs \<Longrightarrow> e \<in> set xs \<Longrightarrow> list_insert_as_head True nx head e = None"
  by (simp add: list_insert_as_head_def is_list_element_correct)

lemma is_list_insert_after:
  assumes "is_list nx p (xs @ a # ys)" and "e \<noteq> NULL" and "e \<notin> set (xs @ a # ys)"
  shows "is_list (list_insert_after nx a e) p (xs @ a # e # ys)"
proof -
  have "distinct (xs @ a # ys)"
    using assms(1) by (rule is_list_distinct)
  then show ?thesis
    using assms
    by (auto simp: list_insert_after_def Let_def is_list_append fun_upd_other)
qed

lemma last_element_loop_correct:
  "is_list nx p (xs @ [y]) \<Longrightarrow> last_element_loop nx p = Some y"
proof (induction xs arbitrary: p)
  case Nil
  then show ?case by (simp add: last_element_loop.simps)
next
  case (Cons x xs)
  then have "nx x \<noteq> NULL" by (cases xs) auto
  with Cons show ?case by (subst last_element_loop.simps) simp
qed

lemma list_insert_at_end_correct:
  assumes xs: "is_list nx head xs" and e: "e \<noteq> NULL" "e \<notin> set xs"
  shows "\<exists>nx' head'. list_insert_at_end debug nx head e = Some (nx', head')
           \<and> is_list nx' head' (xs @ [e])
           \<and> (\<forall>p. p \<notin> insert e (set xs) \<longrightarrow> nx' p = nx p)"
proof (cases xs rule: rev_cases)
  case Nil
  with xs e show ?thesis
    by (simp add: list_insert_at_end_def is_list_element_correct)
next
  case (snoc ys y)
  have "distinct (ys @ [y])" using is_list_distinct [OF xs] snoc by simp
  moreover have "head \<noteq> NULL" using xs snoc by (cases ys) auto
  moreover have "last_element_loop nx head = Some y"
    using xs snoc by (simp add: last_element_loop_correct)
  ultimately show ?thesis
    using xs e snoc
    by (auto simp: list_insert_at_end_def is_list_element_correct [OF xs] Let_def is_list_append)
qed

lemma list_insert_at_end_asserts:
  "is_list nx head xs \<Longrightarrow> e \<in> set xs \<Longrightarrow> list_insert_at_end True nx head e = None"
  by (simp add: list_insert_at_end_def is_list_element_correct)

lemma list_remove_head_correct:
  "is_list nx head (x # xs) \<Longrightarrow>
     list_remove_head nx head = (x, nx x) \<and> is_list nx (nx x) xs"
  by (auto simp: list_remove_head_def)

lemma find_pred_loop_absent:
  "is_list nx p xs \<Longrightarrow> e \<noteq> NULL \<Longrightarrow> e \<notin> set xs \<Longrightarrow> find_pred_loop nx p e = Some NULL"
proof (induction xs arbitrary: p)
  case Nil
  then show ?case by (simp add: find_pred_loop.simps)
next
  case (Cons x xs)
  then have "nx x \<noteq> e" by (cases xs) auto
  with Cons show ?case by (subst find_pred_loop.simps) simp
qed

lemma find_pred_loop_present:
  assumes "is_list nx p (xs @ y # e # ys)"
  shows "find_pred_loop nx p e = Some y"
  using assms
proof (induction xs arbitrary: p)
  case Nil
  then show ?case by (simp add: find_pred_loop.simps)
next
  case (Cons x xs)
  have "distinct ((x # xs) @ y # e # ys)"
    using Cons.prems by (rule is_list_distinct)
  then have "nx x \<noteq> e" using Cons.prems by (cases xs) auto
  with Cons show ?case by (subst find_pred_loop.simps) simp
qed

lemma list_delete_element_correct:
  assumes xs: "is_list nx head xs"
  shows "\<exists>nx' head'. list_delete_element nx head e = Some (e \<in> set xs, nx', head')
           \<and> is_list nx' head' (remove1 e xs)
           \<and> (\<forall>p. p \<notin> set xs \<longrightarrow> nx' p = nx p)"
proof (cases "e \<in> set xs")
  case False
  have "find_pred_loop nx head e = Some NULL" if "e \<noteq> NULL"
    using find_pred_loop_absent xs that False .
  moreover have "head \<noteq> e" if "e \<noteq> NULL"
    using xs that False by (cases xs) auto
  ultimately show ?thesis
    using xs False by (simp add: list_delete_element_def remove1_idem)
next
  case True
  then obtain us vs where split: "xs = us @ e # vs" and us: "e \<notin> set us"
    by (meson split_list_first)
  have e: "e \<noteq> NULL" and dist: "distinct xs"
    using xs True is_list_elems is_list_distinct by blast+
  show ?thesis
  proof (cases us rule: rev_cases)
    case Nil
    with split xs e show ?thesis by (simp add: list_delete_element_def)
  next
    case (snoc ws w)
    have xs': "is_list nx head (ws @ w # e # vs)" using xs split snoc by simp
    have w: "w \<noteq> NULL" using xs' by (simp add: is_list_append)
    have "e \<notin> set (ws @ [w])" using us snoc by simp
    then have "head \<noteq> e" using xs' by (cases ws) auto
    moreover have "find_pred_loop nx head e = Some w"
      using xs' by (rule find_pred_loop_present)
    moreover have "is_list (nx(w := nx e)) head (ws @ w # vs)"
    proof -
      have "path nx head ws w" and "is_list nx (nx e) vs"
        using xs' by (simp_all add: is_list_append)
      then show ?thesis
        using w dist split snoc by (simp add: is_list_append)
    qed
    ultimately show ?thesis
      using e w us split snoc by (simp add: list_delete_element_def remove1_append)
  qed
qed

subsection \<open>The contract the rest of the firmware relies on\<close>

text \<open>
  Clients (the handler lists of \<open>usbdc.c\<close>, the task queue of \<open>hal_timer.c\<close>, the event
  list) see a list only through its sequence of elements.  The contract is stated on an
  abstract representation relation; \<open>rep h l xs\<close> says that in the store \<open>h\<close> the list
  variable \<open>l\<close> holds the sequence \<open>xs\<close>.
\<close>

locale element_list =
  fixes rep :: "'h \<Rightarrow> 'l \<Rightarrow> 'e list \<Rightarrow> bool"
    and elem :: "'e \<Rightarrow> bool"
    and insert_end :: "'h \<Rightarrow> 'l \<Rightarrow> 'e \<Rightarrow> ('h \<times> 'l) option"
    and delete :: "'h \<Rightarrow> 'l \<Rightarrow> 'e \<Rightarrow> (bool \<times> 'h \<times> 'l) option"
  assumes rep_unique: "rep h l xs \<Longrightarrow> rep h l ys \<Longrightarrow> xs = ys"
    and rep_distinct: "rep h l xs \<Longrightarrow> distinct xs"
    and insert_end_law: "rep h l xs \<Longrightarrow> elem e \<Longrightarrow> e \<notin> set xs \<Longrightarrow>
          \<exists>h' l'. insert_end h l e = Some (h', l') \<and> rep h' l' (xs @ [e])"
    and delete_law: "rep h l xs \<Longrightarrow>
          \<exists>h' l'. delete h l e = Some (e \<in> set xs, h', l') \<and> rep h' l' (remove1 e xs)"
begin

fun insert_all :: "'h \<Rightarrow> 'l \<Rightarrow> 'e list \<Rightarrow> ('h \<times> 'l) option" where
  "insert_all h l [] = Some (h, l)"
| "insert_all h l (e # es) =
     (case insert_end h l e of None \<Rightarrow> None | Some (h', l') \<Rightarrow> insert_all h' l' es)"

lemma insert_all_order:
  assumes "rep h l xs" and "\<forall>e \<in> set es. elem e" and "distinct (xs @ es)"
  shows "\<exists>h' l'. insert_all h l es = Some (h', l') \<and> rep h' l' (xs @ es)"
  using assms
proof (induction es arbitrary: h l xs)
  case (Cons e es)
  then obtain h1 l1 where one: "insert_end h l e = Some (h1, l1)" "rep h1 l1 (xs @ [e])"
    using insert_end_law [of h l xs e] by auto
  then have "\<exists>h' l'. insert_all h1 l1 es = Some (h', l') \<and> rep h' l' ((xs @ [e]) @ es)"
    using Cons by (intro Cons.IH) auto
  with one show ?case by simp
qed auto

lemma insert_delete:
  assumes "rep h l xs" and "elem e" and "e \<notin> set xs"
  shows "\<exists>h1 l1 h2 l2. insert_end h l e = Some (h1, l1)
           \<and> delete h1 l1 e = Some (True, h2, l2) \<and> rep h2 l2 xs"
proof -
  obtain h1 l1 where one: "insert_end h l e = Some (h1, l1)" "rep h1 l1 (xs @ [e])"
    using insert_end_law assms by blast
  then obtain h2 l2 where "delete h1 l1 e = Some (True, h2, l2)"
      and "rep h2 l2 (remove1 e (xs @ [e]))"
    using delete_law [of h1 l1 "xs @ [e]" e] by auto
  with one assms show ?thesis by (auto simp: remove1_append)
qed

end

interpretation ul: element_list
    is_list "\<lambda>e. e \<noteq> NULL" "list_insert_at_end debug" list_delete_element
  for debug
proof unfold_locales
  fix h :: links and l xs ys e
  show "is_list h l xs \<Longrightarrow> is_list h l ys \<Longrightarrow> xs = ys" by (rule is_list_unique)
  show "is_list h l xs \<Longrightarrow> distinct xs" by (rule is_list_distinct)
  show "is_list h l xs \<Longrightarrow> e \<noteq> NULL \<Longrightarrow> e \<notin> set xs \<Longrightarrow>
      \<exists>h' l'. list_insert_at_end debug h l e = Some (h', l') \<and> is_list h' l' (xs @ [e])"
    using list_insert_at_end_correct by blast
  show "is_list h l xs \<Longrightarrow>
      \<exists>h' l'. list_delete_element h l e = Some (e \<in> set xs, h', l')
        \<and> is_list h' l' (remove1 e xs)"
    using list_delete_element_correct by blast
qed

subsection \<open>Properties\<close>

text \<open>
  Appending a fresh element and then deleting it succeeds on both calls and leaves the
  list with exactly the elements it had, in their order, with and without assertions.
\<close>

lemma list_insert_delete_restores:
  assumes "is_list nx l xs" and "e \<noteq> NULL" and "e \<notin> set xs"
  shows "\<exists>nx1 l1 nx2 l2. list_insert_at_end debug nx l e = Some (nx1, l1)
    \<and> list_delete_element nx1 l1 e = Some (True, nx2, l2) \<and> is_list nx2 l2 xs"
  using assms by (rule ul.insert_delete)

lemma list_insert_delete_restores_witness:
  "\<exists>nx1 l1 nx2 l2. list_insert_at_end True ((\<lambda>_. 0)(4 := 8)) 4 12 = Some (nx1, l1)
    \<and> list_delete_element nx1 l1 12 = Some (True, nx2, l2) \<and> is_list nx2 l2 [4, 8]"
  by (rule list_insert_delete_restores) simp_all

text \<open>
  Deleting returns whether the element was in the list, removes exactly that element
  and keeps the order of the others; an element that is not there changes nothing.
\<close>

lemma list_delete_removes:
  assumes "is_list nx l xs"
  shows "\<exists>nx' l'. list_delete_element nx l e = Some (e \<in> set xs, nx', l')
    \<and> is_list nx' l' (remove1 e xs) \<and> (e \<notin> set xs \<longrightarrow> nx' = nx \<and> l' = l)"
proof -
  have "e \<notin> set xs \<Longrightarrow> list_delete_element nx l e = Some (False, nx, l)"
    using assms find_pred_loop_absent [of nx l xs e]
    by (cases xs) (auto simp: list_delete_element_def)
  then show ?thesis
    using list_delete_element_correct [OF assms, of e] assms by (cases "e \<in> set xs") (auto simp: remove1_idem)
qed

lemma list_delete_removes_witness:
  "\<exists>nx' l'. list_delete_element ((\<lambda>_. 0)(4 := 8, 8 := 12)) 4 8 = Some (True, nx', l')
    \<and> is_list nx' l' [4, 12]"
  using list_delete_removes [of "(\<lambda>_. 0)(4 := 8, 8 := 12)" 4 "[4, 8, 12]" 8] by simp

end
