(* ===== verification/HplTc.thy ===== *)
theory HplTc
  imports Prelude
begin

text \<open>
  The timer/counter driver \<open>hpl/tc/hpl_tc.c\<close> over the registers of the TC peripherals.

  \<open>hri_tc_*\<close> accessors are reads and writes of the register record of the addressed
  instance.  Two facts of the peripheral are part of the model, both from the register
  descriptions in \<open>samd21a/include/component/tc.h\<close>: writing the software-reset bit
  returns the instance's registers to zero, and the wait for \<open>SYNCBUSY\<close> ends.  In the
  8-, 16- and 32-bit modes the compare registers are read and written at that width.
\<close>

record tc_regs =
  tc_ctrla :: u16
  tc_dbgctrl :: u8
  tc_evctrl :: u16
  tc_cc :: "nat \<Rightarrow> u32"
  tc_per :: u8
  tc_intenset :: u8
  tc_intflag :: u8

record tc_configuration =
  cfg_number :: u8
  cfg_ctrl_a :: u16
  cfg_dbg_ctrl :: u8
  cfg_event_ctrl :: u16
  cfg_per :: u8
  cfg_cc0 :: u32
  cfg_cc1 :: u32

record tc_state =
  tc_of :: "ptr \<Rightarrow> tc_regs"
  nvic_enabled :: "nat \<Rightarrow> bool"
  nvic_pending :: "nat \<Rightarrow> bool"
  tc3_dev :: ptr
  dev_hw :: "ptr \<Rightarrow> ptr" \<comment> \<open>the \<open>hw\<close> member of a timer device\<close>

definition TC3 :: ptr where "TC3 = 0x42002C00"

abbreviation (input) TC_CTRLA_SWRST :: u16 where "TC_CTRLA_SWRST \<equiv> 1"
abbreviation (input) TC_CTRLA_ENABLE :: u16 where "TC_CTRLA_ENABLE \<equiv> 2"
abbreviation (input) TC_CTRLA_MODE_Msk :: u16 where "TC_CTRLA_MODE_Msk \<equiv> 0xC"
abbreviation (input) TC_CTRLA_MODE_COUNT16 :: u16 where "TC_CTRLA_MODE_COUNT16 \<equiv> 0x0"
abbreviation (input) TC_CTRLA_MODE_COUNT8 :: u16 where "TC_CTRLA_MODE_COUNT8 \<equiv> 0x4"
abbreviation (input) TC_CTRLA_MODE_COUNT32 :: u16 where "TC_CTRLA_MODE_COUNT32 \<equiv> 0x8"
abbreviation (input) TC_INTFLAG_OVF :: u8 where "TC_INTFLAG_OVF \<equiv> 1"
abbreviation (input) TC_IRQ_BASE_INDEX :: nat where "TC_IRQ_BASE_INDEX \<equiv> 18"
abbreviation (input) TC_NUMBER_OFFSET :: u8 where "TC_NUMBER_OFFSET \<equiv> 3"

subsection \<open>Register access\<close>

definition tc_zero :: tc_regs where
  "tc_zero = \<lparr>tc_ctrla = 0, tc_dbgctrl = 0, tc_evctrl = 0, tc_cc = (\<lambda>_. 0), tc_per = 0,
     tc_intenset = 0, tc_intflag = 0\<rparr>"

definition tc_update :: "ptr \<Rightarrow> (tc_regs \<Rightarrow> tc_regs) \<Rightarrow> 'a tc_state_scheme \<Rightarrow> 'a tc_state_scheme" where
  "tc_update hw f s = s\<lparr>tc_of := (tc_of s)(hw := f (tc_of s hw))\<rparr>"

definition write_CTRLA_reg :: "u16 \<Rightarrow> tc_regs \<Rightarrow> tc_regs" where
  "write_CTRLA_reg v r = (if v AND TC_CTRLA_SWRST \<noteq> 0 then tc_zero else r\<lparr>tc_ctrla := v\<rparr>)"

definition write_CC_reg :: "nat \<Rightarrow> u32 \<Rightarrow> tc_regs \<Rightarrow> tc_regs" where
  "write_CC_reg i v r = r\<lparr>tc_cc := (tc_cc r)(i := v)\<rparr>"

definition tc_mode :: "tc_regs \<Rightarrow> u16" where
  "tc_mode r = tc_ctrla r AND TC_CTRLA_MODE_Msk"

lemmas tc_regs_defs [c_defs] =
  tc_update_def write_CTRLA_reg_def write_CC_reg_def tc_mode_def

subsection \<open>Driver\<close>

definition tc_get_hardware_index :: "ptr \<Rightarrow> u8" where
  "tc_get_hardware_index hw = ucast (drop_bit 10 (hw - TC3))"

fun get_tc_index_loop :: "tc_configuration list \<Rightarrow> u8 \<Rightarrow> nat \<Rightarrow> nat option" where
  "get_tc_index_loop [] tc_offset i = None"
| "get_tc_index_loop (c # cs) tc_offset i =
     (if cfg_number c = tc_offset then Some i else get_tc_index_loop cs tc_offset (Suc i))"

definition get_tc_index :: "tc_configuration list \<Rightarrow> ptr \<Rightarrow> nat option" where
  \<comment> \<open>\<open>None\<close> is the \<open>ASSERT(false); return -1\<close> path\<close>
  "get_tc_index tcs hw = get_tc_index_loop tcs (tc_get_hardware_index hw + TC_NUMBER_OFFSET) 0"

definition tc_irqn :: "ptr \<Rightarrow> nat" where
  "tc_irqn hw = TC_IRQ_BASE_INDEX + unat (tc_get_hardware_index hw)"

definition tc_init_irq_param :: "ptr \<Rightarrow> ptr \<Rightarrow> 'a tc_state_scheme \<Rightarrow> 'a tc_state_scheme" where
  "tc_init_irq_param hw dev s = (if hw = TC3 then s\<lparr>tc3_dev := dev\<rparr> else s)"

definition tc_configure :: "tc_configuration \<Rightarrow> tc_regs \<Rightarrow> tc_regs" where
  \<comment> \<open>the register writes of \<open>_timer_init\<close>, in order\<close>
  "tc_configure c r =
     (let r = (if tc_ctrla r AND TC_CTRLA_ENABLE \<noteq> 0 then write_CTRLA_reg 0 r else r);
          r = write_CTRLA_reg TC_CTRLA_SWRST r;
          r = write_CTRLA_reg (cfg_ctrl_a c) r;
          r = r\<lparr>tc_dbgctrl := cfg_dbg_ctrl c\<rparr>;
          r = r\<lparr>tc_evctrl := cfg_event_ctrl c\<rparr>;
          m = cfg_ctrl_a c AND TC_CTRLA_MODE_Msk;
          r = (if m = TC_CTRLA_MODE_COUNT32 then
                 write_CC_reg 1 (cfg_cc1 c) (write_CC_reg 0 (cfg_cc0 c) r)
               else if m = TC_CTRLA_MODE_COUNT16 then
                 write_CC_reg 1 (ucast (ucast (cfg_cc1 c) :: u16))
                   (write_CC_reg 0 (ucast (ucast (cfg_cc0 c) :: u16)) r)
               else if m = TC_CTRLA_MODE_COUNT8 then
                 (write_CC_reg 1 (ucast (ucast (cfg_cc1 c) :: u8))
                   (write_CC_reg 0 (ucast (ucast (cfg_cc0 c) :: u8)) r))\<lparr>tc_per := cfg_per c\<rparr>
               else r)
      in r\<lparr>tc_intenset := tc_intenset r OR TC_INTFLAG_OVF\<rparr>)"

definition hpl_timer_init ::
    "tc_configuration list \<Rightarrow> ptr \<Rightarrow> ptr \<Rightarrow> 'a tc_state_scheme \<Rightarrow> (rc \<times> 'a tc_state_scheme) option" where
  "hpl_timer_init tcs device hw s =
     (case get_tc_index tcs hw of
        None \<Rightarrow> None
      | Some i \<Rightarrow>
          (let s = s\<lparr>dev_hw := (dev_hw s)(device := hw)\<rparr>;
               s = tc_update hw (tc_configure (tcs ! i)) s;
               s = tc_init_irq_param hw device s;
               s = s\<lparr>nvic_enabled := (nvic_enabled s)(tc_irqn hw := False)\<rparr>;
               s = s\<lparr>nvic_pending := (nvic_pending s)(tc_irqn hw := False)\<rparr>;
               s = s\<lparr>nvic_enabled := (nvic_enabled s)(tc_irqn hw := True)\<rparr>
           in Some (ERR_NONE, s)))"

definition hpl_timer_deinit :: "ptr \<Rightarrow> 'a tc_state_scheme \<Rightarrow> 'a tc_state_scheme" where
  "hpl_timer_deinit device s =
     (let hw = dev_hw s device;
          s = s\<lparr>nvic_enabled := (nvic_enabled s)(tc_irqn hw := False)\<rparr>;
          s = tc_update hw (\<lambda>r. write_CTRLA_reg (tc_ctrla r AND NOT TC_CTRLA_ENABLE) r) s
      in tc_update hw (\<lambda>r. write_CTRLA_reg (tc_ctrla r OR TC_CTRLA_SWRST) r) s)"

definition hpl_timer_start :: "ptr \<Rightarrow> 'a tc_state_scheme \<Rightarrow> 'a tc_state_scheme" where
  "hpl_timer_start device s =
     tc_update (dev_hw s device) (\<lambda>r. write_CTRLA_reg (tc_ctrla r OR TC_CTRLA_ENABLE) r) s"

definition hpl_timer_stop :: "ptr \<Rightarrow> 'a tc_state_scheme \<Rightarrow> 'a tc_state_scheme" where
  "hpl_timer_stop device s =
     tc_update (dev_hw s device) (\<lambda>r. write_CTRLA_reg (tc_ctrla r AND NOT TC_CTRLA_ENABLE) r) s"

definition set_period_regs :: "u32 \<Rightarrow> tc_regs \<Rightarrow> tc_regs" where
  "set_period_regs clock_cycles r =
     (if tc_mode r = TC_CTRLA_MODE_COUNT32 then write_CC_reg 0 clock_cycles r
      else if tc_mode r = TC_CTRLA_MODE_COUNT16 then
        write_CC_reg 0 (ucast (ucast clock_cycles :: u16)) r
      else if tc_mode r = TC_CTRLA_MODE_COUNT8 then r\<lparr>tc_per := ucast clock_cycles\<rparr>
      else r)"

definition hpl_timer_set_period :: "ptr \<Rightarrow> u32 \<Rightarrow> 'a tc_state_scheme \<Rightarrow> 'a tc_state_scheme" where
  "hpl_timer_set_period device clock_cycles s =
     tc_update (dev_hw s device) (set_period_regs clock_cycles) s"

definition hpl_timer_get_period :: "ptr \<Rightarrow> 'a tc_state_scheme \<Rightarrow> u32" where
  "hpl_timer_get_period device s =
     (let r = tc_of s (dev_hw s device) in
      if tc_mode r = TC_CTRLA_MODE_COUNT32 then tc_cc r 0
      else if tc_mode r = TC_CTRLA_MODE_COUNT16 then ucast (ucast (tc_cc r 0) :: u16)
      else if tc_mode r = TC_CTRLA_MODE_COUNT8 then ucast (tc_per r)
      else 0)"

definition hpl_timer_is_started :: "ptr \<Rightarrow> 'a tc_state_scheme \<Rightarrow> bool" where
  "hpl_timer_is_started device s \<longleftrightarrow> tc_ctrla (tc_of s (dev_hw s device)) AND TC_CTRLA_ENABLE \<noteq> 0"

definition hpl_timer_set_irq :: "ptr \<Rightarrow> 'a tc_state_scheme \<Rightarrow> 'a tc_state_scheme" where
  "hpl_timer_set_irq device s =
     s\<lparr>nvic_pending := (nvic_pending s)(tc_irqn (dev_hw s device) := True)\<rparr>"

definition tc_interrupt_handler ::
    "(ptr \<Rightarrow> 'a tc_state_scheme \<Rightarrow> 'a tc_state_scheme option) \<Rightarrow> ptr \<Rightarrow> 'a tc_state_scheme \<Rightarrow> 'a tc_state_scheme option" where
  \<comment> \<open>writing a one to the flag clears it\<close>
  "tc_interrupt_handler period_expired device s =
     (let hw = dev_hw s device in
      if tc_intflag (tc_of s hw) AND TC_INTFLAG_OVF \<noteq> 0 then
        period_expired device
          (tc_update hw (\<lambda>r. r\<lparr>tc_intflag := tc_intflag r AND NOT TC_INTFLAG_OVF\<rparr>) s)
      else Some s)"

definition TC3_Handler ::
    "(ptr \<Rightarrow> 'a tc_state_scheme \<Rightarrow> 'a tc_state_scheme option) \<Rightarrow> 'a tc_state_scheme \<Rightarrow> 'a tc_state_scheme option" where
  "TC3_Handler period_expired s = tc_interrupt_handler period_expired (tc3_dev s) s"

subsection \<open>Functional behaviour\<close>

definition tc_width :: "tc_regs \<Rightarrow> nat" where
  \<comment> \<open>bits of the period register in the configured counter mode (0: reserved mode)\<close>
  "tc_width r =
     (if tc_mode r = TC_CTRLA_MODE_COUNT32 then 32
      else if tc_mode r = TC_CTRLA_MODE_COUNT16 then 16
      else if tc_mode r = TC_CTRLA_MODE_COUNT8 then 8 else 0)"

lemma tc_mode_set_period [simp]: "tc_mode (set_period_regs n r) = tc_mode r"
  by (simp add: set_period_regs_def write_CC_reg_def tc_mode_def)

lemma tc_of_update [simp]:
  "tc_of (tc_update hw f s) hw' = (if hw' = hw then f (tc_of s hw) else tc_of s hw')"
  "dev_hw (tc_update hw f s) = dev_hw s"
  "tc3_dev (tc_update hw f s) = tc3_dev s"
  "nvic_enabled (tc_update hw f s) = nvic_enabled s"
  "nvic_pending (tc_update hw f s) = nvic_pending s"
  by (simp_all add: tc_update_def)

lemma tc_update_more [simp]: "tc_state.more (tc_update hw f s) = tc_state.more s"
  by (simp add: tc_update_def)

lemma get_set_period:
  "hpl_timer_get_period device (hpl_timer_set_period device n s) =
     take_bit (tc_width (tc_of s (dev_hw s device))) n"
proof -
  let ?r = "tc_of s (dev_hw s device)"
  have "hpl_timer_get_period device (hpl_timer_set_period device n s) =
      (if tc_mode ?r = TC_CTRLA_MODE_COUNT32 then n
       else if tc_mode ?r = TC_CTRLA_MODE_COUNT16 then take_bit 16 n
       else if tc_mode ?r = TC_CTRLA_MODE_COUNT8 then take_bit 8 n else 0)"
    by (simp add: hpl_timer_get_period_def hpl_timer_set_period_def Let_def)
      (simp add: set_period_regs_def write_CC_reg_def)
  also have "\<dots> = take_bit (tc_width ?r) n"
    by (simp add: tc_width_def take_bit_word_eq_self)
  finally show ?thesis .
qed

lemma tc_enable_bits:
  "(c OR TC_CTRLA_ENABLE) AND TC_CTRLA_SWRST = c AND TC_CTRLA_SWRST"
  "(c AND - 3) AND TC_CTRLA_SWRST = c AND TC_CTRLA_SWRST"
  "(c OR TC_CTRLA_ENABLE) AND TC_CTRLA_ENABLE = TC_CTRLA_ENABLE"
  "(c AND - 3) AND TC_CTRLA_ENABLE = 0"
  "(c OR TC_CTRLA_ENABLE) AND TC_CTRLA_MODE_Msk = c AND TC_CTRLA_MODE_Msk"
  for c :: u16
  by (simp_all add: u16_eq_iff bit_simps)

lemma hpl_timer_start_started:
  assumes "tc_ctrla (tc_of s (dev_hw s device)) AND TC_CTRLA_SWRST = 0"
  shows "hpl_timer_is_started device (hpl_timer_start device s)"
  using assms
  by (simp add: hpl_timer_is_started_def hpl_timer_start_def write_CTRLA_reg_def tc_enable_bits)

lemma hpl_timer_stop_stopped: "\<not> hpl_timer_is_started device (hpl_timer_stop device s)"
  by (simp add: hpl_timer_is_started_def hpl_timer_stop_def write_CTRLA_reg_def tc_enable_bits
      tc_zero_def)

text \<open>
  A raised overflow flag is served once: the handler clears it, so an interrupt that is
  only pended in software afterwards finds nothing to do.
\<close>

lemma tc_interrupt_handler_idle:
  "tc_intflag (tc_of s (dev_hw s device)) AND TC_INTFLAG_OVF = 0 \<Longrightarrow>
     tc_interrupt_handler expired device s = Some s"
  by (simp add: tc_interrupt_handler_def)

lemma tc_configure_mode:
  assumes "cfg_ctrl_a c AND TC_CTRLA_SWRST = 0"
  shows "tc_ctrla (tc_configure c r) = cfg_ctrl_a c"
    and "tc_configure c r = tc_configure c tc_zero"
  using assms by (simp_all add: tc_configure_def write_CTRLA_reg_def write_CC_reg_def Let_def)

end
