(* ===== verification/HalTimer.thy ===== *)
theory HalTimer
  imports UtilsList HplTc
begin

text \<open>
  The software timer of \<open>hal/src/hal_timer.c\<close>: a queue of timer tasks, kept in the order
  in which they expire, served from the counter's overflow interrupt.

  The descriptor (\<open>struct timer_descriptor\<close>; the firmware has one, \<open>TIMER_0\<close>) is the part
  of the state record after the counter driver's; the members of the \<open>timer_task\<close> objects
  are maps from the object's address.  \<open>cb\<close> pointers are called through the parameter
  \<open>call\<close>, the meaning of a callback as a state transformer that may itself not return.
\<close>

datatype timer_task_mode = TIMER_TASK_ONE_SHOT | TIMER_TASK_REPEAT

record 'f timer_state = tc_state +
  t_next :: links
  t_time_label :: "ptr \<Rightarrow> u32"
  t_interval :: "ptr \<Rightarrow> u32"
  t_cb :: "ptr \<Rightarrow> 'f"
  t_mode :: "ptr \<Rightarrow> timer_task_mode"
  descr_device :: ptr
  descr_time :: u32
  descr_tasks :: ptr
  descr_flags :: u8

abbreviation (input) TIMER_FLAG_QUEUE_IS_TAKEN :: u8 where "TIMER_FLAG_QUEUE_IS_TAKEN \<equiv> 1"
abbreviation (input) TIMER_FLAG_INTERRUPT_TRIGERRED :: u8 where "TIMER_FLAG_INTERRUPT_TRIGERRED \<equiv> 2"

subsection \<open>The sorted queue\<close>

definition task_time_left :: "u32 \<Rightarrow> u32 \<Rightarrow> u32 \<Rightarrow> u32" where
  \<comment> \<open>\<open>time_left\<close> of a queued task with the given label and interval, at \<open>time\<close>\<close>
  "task_time_left label intv time =
     (if label \<le> time then intv - (time - label)
      else intv - (0xFFFFFFFF - label) - time)"

partial_function (option) timer_scan ::
    "('f, 'a) timer_state_scheme \<Rightarrow> ptr \<Rightarrow> ptr \<Rightarrow> ptr \<Rightarrow> u32 \<Rightarrow> (ptr \<times> ptr) option" where
  \<comment> \<open>the \<open>for\<close> loop: where it stops (\<open>it\<close>) and the element before that (\<open>prev\<close>)\<close>
  "timer_scan s it prev new_task time =
     (if it = NULL then Some (it, prev)
      else if t_interval s new_task \<le> task_time_left (t_time_label s it) (t_interval s it) time
      then Some (it, prev)
      else timer_scan s (list_get_next_element (t_next s) it) it new_task time)"

declare timer_scan.simps [code]

definition timer_add_timer_task ::
    "bool \<Rightarrow> ptr \<Rightarrow> u32 \<Rightarrow> ('f, 'a) timer_state_scheme \<Rightarrow> ('f, 'a) timer_state_scheme option" where
  "timer_add_timer_task debug new_task time s =
     (let head = list_get_head (descr_tasks s) in
      if head = NULL then
        (case list_insert_as_head debug (t_next s) head new_task of
           None \<Rightarrow> None
         | Some (nx, h) \<Rightarrow> Some (s\<lparr>t_next := nx, descr_tasks := h\<rparr>))
      else
        (case timer_scan s head NULL new_task time of
           None \<Rightarrow> None
         | Some (it, prev) \<Rightarrow>
             (if it = head then
                (case list_insert_as_head debug (t_next s) head new_task of
                   None \<Rightarrow> None
                 | Some (nx, h) \<Rightarrow> Some (s\<lparr>t_next := nx, descr_tasks := h\<rparr>))
              else Some (s\<lparr>t_next := list_insert_after (t_next s) prev new_task\<rparr>))))"

subsection \<open>Driver operations\<close>

definition timer_init ::
    "tc_configuration list \<Rightarrow> ptr \<Rightarrow> ptr \<Rightarrow> ('f, 'a) timer_state_scheme
      \<Rightarrow> (rc \<times> ('f, 'a) timer_state_scheme) option" where
  "timer_init tcs device hw s =
     (case hpl_timer_init tcs device hw s of
        None \<Rightarrow> None
      | Some (_, s) \<Rightarrow> Some (ERR_NONE, s\<lparr>descr_device := device, descr_time := 0\<rparr>))"

definition timer_deinit :: "('f, 'a) timer_state_scheme \<Rightarrow> rc \<times> ('f, 'a) timer_state_scheme" where
  "timer_deinit s = (ERR_NONE, hpl_timer_deinit (descr_device s) s)"

definition timer_start :: "('f, 'a) timer_state_scheme \<Rightarrow> rc \<times> ('f, 'a) timer_state_scheme" where
  "timer_start s =
     (if hpl_timer_is_started (descr_device s) s then (ERR_DENIED, s)
      else (ERR_NONE, hpl_timer_start (descr_device s) s))"

definition timer_stop :: "('f, 'a) timer_state_scheme \<Rightarrow> rc \<times> ('f, 'a) timer_state_scheme" where
  "timer_stop s =
     (if \<not> hpl_timer_is_started (descr_device s) s then (ERR_DENIED, s)
      else (ERR_NONE, hpl_timer_stop (descr_device s) s))"

definition timer_set_clock_cycles_per_tick ::
    "u32 \<Rightarrow> ('f, 'a) timer_state_scheme \<Rightarrow> rc \<times> ('f, 'a) timer_state_scheme" where
  "timer_set_clock_cycles_per_tick clock_cycles s =
     (ERR_NONE, hpl_timer_set_period (descr_device s) clock_cycles s)"

definition timer_get_clock_cycles_in_tick :: "('f, 'a) timer_state_scheme \<Rightarrow> rc \<times> u32" where
  "timer_get_clock_cycles_in_tick s = (ERR_NONE, hpl_timer_get_period (descr_device s) s)"

definition queue_take :: "('f, 'a) timer_state_scheme \<Rightarrow> ('f, 'a) timer_state_scheme" where
  "queue_take s = s\<lparr>descr_flags := descr_flags s OR TIMER_FLAG_QUEUE_IS_TAKEN\<rparr>"

definition queue_release :: "('f, 'a) timer_state_scheme \<Rightarrow> ('f, 'a) timer_state_scheme" where
  "queue_release s = s\<lparr>descr_flags := descr_flags s AND NOT TIMER_FLAG_QUEUE_IS_TAKEN\<rparr>"

definition queue_retrigger :: "('f, 'a) timer_state_scheme \<Rightarrow> ('f, 'a) timer_state_scheme" where
  \<comment> \<open>the critical section at the end of \<open>timer_add_task\<close> and \<open>timer_remove_task\<close>\<close>
  "queue_retrigger s =
     (if descr_flags s AND TIMER_FLAG_INTERRUPT_TRIGERRED \<noteq> 0 then
        hpl_timer_set_irq (descr_device s)
          (s\<lparr>descr_flags := descr_flags s AND NOT TIMER_FLAG_INTERRUPT_TRIGERRED\<rparr>)
      else s)"

definition timer_add_task ::
    "bool \<Rightarrow> ptr \<Rightarrow> ('f, 'a) timer_state_scheme \<Rightarrow> (rc \<times> ('f, 'a) timer_state_scheme) option" where
  "timer_add_task debug task s =
     (let s = queue_take s in
      case is_list_element (t_next s) (descr_tasks s) task of
        None \<Rightarrow> None
      | Some True \<Rightarrow> c_assert debug (Some False) (Some (ERR_ALREADY_INITIALIZED, queue_release s))
      | Some False \<Rightarrow>
          (let s = s\<lparr>t_time_label := (t_time_label s)(task := descr_time s)\<rparr> in
           case timer_add_timer_task debug task (descr_time s) s of
             None \<Rightarrow> None
           | Some s \<Rightarrow> Some (ERR_NONE, queue_retrigger (queue_release s))))"

definition timer_remove_task ::
    "bool \<Rightarrow> ptr \<Rightarrow> ('f, 'a) timer_state_scheme \<Rightarrow> (rc \<times> ('f, 'a) timer_state_scheme) option" where
  "timer_remove_task debug task s =
     (let s = queue_take s in
      case is_list_element (t_next s) (descr_tasks s) task of
        None \<Rightarrow> None
      | Some False \<Rightarrow> c_assert debug (Some False) (Some (ERR_NOT_FOUND, queue_release s))
      | Some True \<Rightarrow>
          (case list_delete_element (t_next s) (descr_tasks s) task of
             None \<Rightarrow> None
           | Some (_, nx, h) \<Rightarrow>
               Some (ERR_NONE, queue_retrigger (queue_release (s\<lparr>t_next := nx, descr_tasks := h\<rparr>)))))"

subsection \<open>Interrupt processing\<close>

definition timer_expire_head ::
    "bool \<Rightarrow> u32 \<Rightarrow> ptr \<Rightarrow> ('f, 'a) timer_state_scheme \<Rightarrow> ('f, 'a) timer_state_scheme option" where
  \<comment> \<open>the loop body up to the callback: unlink the head, requeue \<open>tmp\<close> if it repeats\<close>
  "timer_expire_head debug time tmp s =
     (let s = s\<lparr>descr_tasks := snd (list_remove_head (t_next s) (descr_tasks s))\<rparr> in
      if t_mode s tmp = TIMER_TASK_REPEAT then
        timer_add_timer_task debug tmp time (s\<lparr>t_time_label := (t_time_label s)(tmp := time)\<rparr>)
      else Some s)"

partial_function (option) timer_process_loop ::
    "bool \<Rightarrow> ('f \<Rightarrow> ptr \<Rightarrow> ('f, 'a) timer_state_scheme \<Rightarrow> ('f, 'a) timer_state_scheme option)
      \<Rightarrow> u32 \<Rightarrow> ptr \<Rightarrow> ('f, 'a) timer_state_scheme \<Rightarrow> ('f, 'a) timer_state_scheme option" where
  "timer_process_loop debug call time it s =
     (if it \<noteq> NULL \<and> t_interval s it \<le> time - t_time_label s it then
        Option.bind (timer_expire_head debug time it s) (\<lambda>s1.
        Option.bind (call (t_cb s1 it) it s1) (\<lambda>s2.
        timer_process_loop debug call time (list_get_head (descr_tasks s1)) s2))
      else Some s)"

declare timer_process_loop.simps [code]

definition timer_process_counted ::
    "bool \<Rightarrow> ('f \<Rightarrow> ptr \<Rightarrow> ('f, 'a) timer_state_scheme \<Rightarrow> ('f, 'a) timer_state_scheme option)
      \<Rightarrow> ptr \<Rightarrow> ('f, 'a) timer_state_scheme \<Rightarrow> ('f, 'a) timer_state_scheme option" where
  "timer_process_counted debug call device s =
     (let it = list_get_head (descr_tasks s);
          time = descr_time s + 1;
          s = s\<lparr>descr_time := time\<rparr>
      in if descr_flags s AND TIMER_FLAG_QUEUE_IS_TAKEN \<noteq> 0
            \<or> descr_flags s AND TIMER_FLAG_INTERRUPT_TRIGERRED \<noteq> 0
         then Some (s\<lparr>descr_flags := descr_flags s OR TIMER_FLAG_INTERRUPT_TRIGERRED\<rparr>)
         else timer_process_loop debug call time it s)"

subsection \<open>Where a new task goes\<close>

text \<open>\<open>left_of s time x\<close> is the \<open>time_left\<close> the scan computes for the queued task \<open>x\<close>.\<close>

definition left_of :: "('f, 'a) timer_state_scheme \<Rightarrow> u32 \<Rightarrow> ptr \<Rightarrow> u32" where
  "left_of s time x = task_time_left (t_time_label s x) (t_interval s x) time"

definition earlier :: "('f, 'a) timer_state_scheme \<Rightarrow> u32 \<Rightarrow> ptr \<Rightarrow> ptr \<Rightarrow> bool" where
  "earlier s time new_task x \<longleftrightarrow> left_of s time x < t_interval s new_task"

definition queue_insert :: "('f, 'a) timer_state_scheme \<Rightarrow> u32 \<Rightarrow> ptr \<Rightarrow> ptr list \<Rightarrow> ptr list" where
  \<comment> \<open>the queue order the driver promises: after every task that expires earlier\<close>
  "queue_insert s time new_task xs =
     takeWhile (earlier s time new_task) xs @ new_task # dropWhile (earlier s time new_task) xs"

lemma task_time_left_no_wrap:
  "label \<le> time \<Longrightarrow> task_time_left label intv time = intv - (time - label)"
  by (simp add: task_time_left_def)

lemma u32_max_eq: "(0xFFFFFFFF :: u32) = - 1"
  by simp

lemma task_time_left_wrap:
  "time < label \<Longrightarrow> task_time_left label intv time = intv - (time - label) + 1"
  unfolding task_time_left_def by (simp add: u32_max_eq algebra_simps)

lemma timer_scan_correct:
  assumes "is_list (t_next s) p xs"
  shows "timer_scan s p prev new_task time =
     Some (case dropWhile (earlier s time new_task) xs of [] \<Rightarrow> NULL | y # _ \<Rightarrow> y,
           last (prev # takeWhile (earlier s time new_task) xs))"
  using assms
proof (induction xs arbitrary: p prev)
  case Nil
  then show ?case by (simp add: timer_scan.simps)
next
  case (Cons x xs)
  then have px: "p = x" "x \<noteq> NULL" "is_list (t_next s) (t_next s x) xs" by auto
  have stop: "t_interval s new_task \<le> task_time_left (t_time_label s x) (t_interval s x) time
      \<longleftrightarrow> \<not> earlier s time new_task x"
    by (simp add: earlier_def left_of_def not_less)
  show ?case
    using px Cons.IH [OF px(3), of x]
    by (subst timer_scan.simps) (simp add: stop list_get_next_element_def)
qed

lemma timer_add_timer_task_correct:
  assumes xs: "is_list (t_next s) (descr_tasks s) xs" and t: "t \<noteq> NULL" "t \<notin> set xs"
  shows "\<exists>nx h. timer_add_timer_task debug t time s = Some (s\<lparr>t_next := nx, descr_tasks := h\<rparr>)
           \<and> is_list nx h (queue_insert s time t xs)"
proof (cases xs)
  case Nil
  with xs t list_insert_as_head_correct [OF xs t] show ?thesis
    by (auto simp: timer_add_timer_task_def list_get_head_def queue_insert_def)
next
  case (Cons y ys)
  let ?P = "earlier s time t"
  have head: "descr_tasks s = y" "y \<noteq> NULL" using xs Cons by auto
  note scan = timer_scan_correct [OF xs, of NULL t time]
  note ins = list_insert_as_head_correct [OF xs t]
  show ?thesis
  proof (cases "?P y")
    case False
    with scan head ins show ?thesis
      by (auto simp: timer_add_timer_task_def list_get_head_def queue_insert_def Cons)
  next
    case True
    define us where "us = takeWhile ?P xs"
    define vs where "vs = dropWhile ?P xs"
    have split: "xs = us @ vs" by (simp add: us_def vs_def)
    have "us \<noteq> []" using True Cons by (simp add: us_def)
    then obtain ws w where us: "us = ws @ [w]" by (cases us rule: rev_cases) auto
    have it: "(case vs of [] \<Rightarrow> NULL | v # _ \<Rightarrow> v) \<noteq> y"
    proof (cases vs)
      case (Cons v vs')
      have "distinct (us @ vs)" using is_list_distinct [OF xs] split by simp
      moreover have "y \<in> set us" using True \<open>xs = y # ys\<close> by (simp add: us_def)
      ultimately show ?thesis using Cons by auto
    qed (use head in simp)
    have "is_list (list_insert_after (t_next s) w t) (descr_tasks s) (ws @ w # t # vs)"
      using xs t split us by (intro is_list_insert_after) auto
    then have "is_list (list_insert_after (t_next s) w t) (descr_tasks s) (queue_insert s time t xs)"
      by (simp add: queue_insert_def us_def [symmetric] vs_def [symmetric] us)
    moreover have "timer_add_timer_task debug t time s =
        Some (s\<lparr>t_next := list_insert_after (t_next s) w t\<rparr>)"
      using scan head it us
      by (simp add: timer_add_timer_task_def list_get_head_def us_def [symmetric] vs_def [symmetric])
    ultimately show ?thesis by (auto intro!: exI [of _ "descr_tasks s"])
  qed
qed

lemma set_queue_insert [simp]: "set (queue_insert s time t xs) = insert t (set xs)"
proof -
  have "set xs = set (takeWhile (earlier s time t) xs) \<union> set (dropWhile (earlier s time t) xs)"
    by (metis set_append takeWhile_dropWhile_id)
  then show ?thesis by (auto simp: queue_insert_def)
qed

lemma filter_queue_insert:
  "\<not> P t \<Longrightarrow> filter P (queue_insert s time t xs) = filter P xs"
proof -
  assume "\<not> P t"
  then have "filter P (queue_insert s time t xs) =
      filter P (takeWhile (earlier s time t) xs @ dropWhile (earlier s time t) xs)"
    by (simp only: queue_insert_def filter_append filter.simps if_False)
  then show ?thesis by (simp only: takeWhile_dropWhile_id)
qed

subsection \<open>The queue invariant\<close>

text \<open>
  \<open>queue_ok s time xs\<close>: the queue holds \<open>xs\<close>, every task was labelled in the current
  epoch of the clock and is at most due, repeating tasks have a positive interval, and
  the remaining times do not decrease along the queue.
\<close>

definition task_ok :: "('f, 'a) timer_state_scheme \<Rightarrow> u32 \<Rightarrow> ptr \<Rightarrow> bool" where
  "task_ok s time x \<longleftrightarrow> t_time_label s x \<le> time \<and> time - t_time_label s x \<le> t_interval s x
     \<and> (t_mode s x = TIMER_TASK_REPEAT \<longrightarrow> 0 < t_interval s x)"

definition queue_ok :: "('f, 'a) timer_state_scheme \<Rightarrow> u32 \<Rightarrow> ptr list \<Rightarrow> bool" where
  "queue_ok s time xs \<longleftrightarrow> is_list (t_next s) (descr_tasks s) xs
     \<and> (\<forall>x \<in> set xs. task_ok s time x) \<and> sorted (map (left_of s time) xs)"

definition expired :: "('f, 'a) timer_state_scheme \<Rightarrow> u32 \<Rightarrow> ptr \<Rightarrow> bool" where
  "expired s time x \<longleftrightarrow> t_interval s x \<le> time - t_time_label s x"

lemma left_of_ok: "task_ok s time x \<Longrightarrow> left_of s time x = t_interval s x - (time - t_time_label s x)"
  by (simp add: left_of_def task_ok_def task_time_left_no_wrap)

lemma expired_iff_due: "task_ok s time x \<Longrightarrow> expired s time x \<longleftrightarrow> left_of s time x = 0"
  by (auto simp: expired_def left_of_ok) (auto simp: task_ok_def)

lemma sorted_queue_insert:
  assumes "sorted (map f xs)" and "\<forall>x. earlier s time t x \<longleftrightarrow> f x < f t"
  shows "sorted (map f (queue_insert s time t xs))"
proof -
  let ?P = "earlier s time t"
  have split: "map f (takeWhile ?P xs) @ map f (dropWhile ?P xs) = map f xs"
    by (simp flip: map_append)
  with assms(1) have "sorted (map f (takeWhile ?P xs) @ map f (dropWhile ?P xs))" by simp
  moreover have "\<forall>x \<in> set (takeWhile ?P xs). f x \<le> f t"
  proof
    fix x assume "x \<in> set (takeWhile ?P xs)"
    then have "?P x" by (rule set_takeWhileD [THEN conjunct2])
    then show "f x \<le> f t" using assms(2) by (simp add: less_imp_le)
  qed
  moreover have "\<forall>x \<in> set (dropWhile ?P xs). f t \<le> f x"
  proof (cases "dropWhile ?P xs")
    case (Cons d ds)
    have "sorted (map f (dropWhile ?P xs))" using \<open>sorted (_ @ _)\<close> by (simp add: sorted_append)
    moreover have "\<not> ?P d" using hd_dropWhile [of ?P xs] Cons by simp
    ultimately show ?thesis using assms(2) Cons by (auto simp: not_less)
  qed (simp only: list.set ball_empty)
  ultimately show ?thesis
    by (fastforce simp: queue_insert_def sorted_append)
qed

lemma queue_ok_no_wrap:
  "queue_ok s time xs \<Longrightarrow> x \<in> set xs \<Longrightarrow> task_ok s time x"
  by (simp add: queue_ok_def)

lemma queue_ok_frame:
  assumes "queue_ok s time xs" and "t_next s' = t_next s" and "descr_tasks s' = descr_tasks s"
    and "\<forall>x \<in> set xs. t_time_label s' x = t_time_label s x \<and> t_interval s' x = t_interval s x
           \<and> t_mode s' x = t_mode s x"
  shows "queue_ok s' time xs"
proof -
  have "map (left_of s' time) xs = map (left_of s time) xs"
    using assms(4) by (simp add: left_of_def)
  then have "sorted (map (left_of s' time) xs)"
    using assms(1) by (simp only: queue_ok_def)
  with assms show ?thesis by (simp add: queue_ok_def task_ok_def)
qed

lemma timer_expire_head_ok:
  assumes ok: "queue_ok s time (x # xs)" and exp: "expired s time x"
  shows "\<exists>s1 ys. timer_expire_head debug time x s = Some s1
    \<and> queue_ok s1 time ys
    \<and> set ys = set xs \<union> (if t_mode s x = TIMER_TASK_REPEAT then {x} else {})
    \<and> length (filter (expired s1 time) ys) < length (filter (expired s time) (x # xs))
    \<and> t_time_label s1 =
        (if t_mode s x = TIMER_TASK_REPEAT then (t_time_label s)(x := time) else t_time_label s)
    \<and> t_interval s1 = t_interval s \<and> t_mode s1 = t_mode s \<and> t_cb s1 = t_cb s
    \<and> descr_flags s1 = descr_flags s \<and> descr_time s1 = descr_time s"
proof -
  have list: "is_list (t_next s) x (x # xs)" "descr_tasks s = x" "x \<noteq> NULL"
      "is_list (t_next s) (t_next s x) xs"
    using ok by (auto simp: queue_ok_def)
  have x: "x \<notin> set xs" using is_list_distinct [OF list(1)] by simp
  let ?s0 = "s\<lparr>descr_tasks := t_next s x\<rparr>"
  have "left_of ?s0 time = left_of s time" by (simp add: left_of_def fun_eq_iff)
  then have ok0: "queue_ok ?s0 time xs"
    using ok list by (simp add: queue_ok_def task_ok_def)
  show ?thesis
  proof (cases "t_mode s x = TIMER_TASK_REPEAT")
    case False
    have "timer_expire_head debug time x s = Some ?s0"
      using list False by (simp add: timer_expire_head_def list_remove_head_def)
    moreover have "expired ?s0 time = expired s time" by (simp add: expired_def fun_eq_iff)
    ultimately show ?thesis using ok0 exp False by (intro exI [of _ ?s0] exI [of _ xs]) simp
  next
    case True
    let ?s' = "?s0\<lparr>t_time_label := (t_time_label s)(x := time)\<rparr>"
    have ok': "queue_ok ?s' time xs"
      by (rule queue_ok_frame [OF ok0]) (use x in auto)
    have new: "left_of ?s' time x = t_interval s x"
      by (simp add: left_of_def task_time_left_no_wrap)
    have pos: "0 < t_interval s x" using ok True by (simp add: queue_ok_def task_ok_def)
    obtain nx h where add: "timer_add_timer_task debug x time ?s' =
          Some (?s'\<lparr>t_next := nx, descr_tasks := h\<rparr>)"
        and l: "is_list nx h (queue_insert ?s' time x xs)"
      using timer_add_timer_task_correct [of ?s' xs x debug time] list x by auto
    let ?s1 = "?s'\<lparr>t_next := nx, descr_tasks := h\<rparr>"
    let ?ys = "queue_insert ?s' time x xs"
    have same: "left_of ?s1 time = left_of ?s' time" "expired ?s1 time = expired ?s' time"
      by (simp_all add: left_of_def expired_def fun_eq_iff)
    have "sorted (map (left_of ?s' time) ?ys)"
      by (rule sorted_queue_insert) (use ok' new in \<open>auto simp: queue_ok_def earlier_def\<close>)
    moreover have "\<forall>y \<in> set ?ys. task_ok ?s1 time y"
      using ok' pos by (simp add: queue_ok_def task_ok_def)
    ultimately have ok1: "queue_ok ?s1 time ?ys"
      using l same by (simp add: queue_ok_def)
    have "length (filter (expired ?s' time) ?ys) = length (filter (expired ?s' time) xs)"
      by (subst filter_queue_insert) (use pos in \<open>simp_all add: expired_def\<close>)
    also have "filter (expired ?s' time) xs = filter (expired s time) xs"
      using x by (intro filter_cong) (auto simp: expired_def)
    finally have "length (filter (expired ?s' time) ?ys) < length (filter (expired s time) (x # xs))"
      by (simp only: filter.simps exp if_True list.size)
    then have "length (filter (expired ?s1 time) ?ys) < length (filter (expired s time) (x # xs))"
      by (simp only: same)
    moreover have "timer_expire_head debug time x s = Some ?s1"
      using list True add by (simp add: timer_expire_head_def list_remove_head_def)
    ultimately show ?thesis
      using ok1 True by (intro exI [of _ ?s1] exI [of _ ?ys]) simp
  qed
qed

subsection \<open>What the timer asks of a callback\<close>

text \<open>
  A callback runs in the middle of the loop with the next head already read.  The loop
  is only safe for callbacks that leave the timer's own state alone; they may change
  whatever else is in the state.
\<close>

locale quiet_callback =
  fixes call :: "'f \<Rightarrow> ptr \<Rightarrow> ('f, 'a) timer_state_scheme \<Rightarrow> ('f, 'a) timer_state_scheme option"
  assumes quiet: "\<exists>s'. call f t s = Some s' \<and> timer_state.truncate s' = timer_state.truncate s"
begin

lemma quiet_fields:
  obtains s' where "call f t s = Some s'"
    and "t_next s' = t_next s" "descr_tasks s' = descr_tasks s"
    and "t_time_label s' = t_time_label s" "t_interval s' = t_interval s"
    and "t_mode s' = t_mode s" "t_cb s' = t_cb s"
    and "descr_flags s' = descr_flags s" "descr_time s' = descr_time s"
proof -
  obtain s' where s': "call f t s = Some s'"
      and eq: "timer_state.truncate s' = timer_state.truncate s"
    using quiet by blast
  have "t_next s' = t_next s \<and> descr_tasks s' = descr_tasks s
      \<and> t_time_label s' = t_time_label s \<and> t_interval s' = t_interval s
      \<and> t_mode s' = t_mode s \<and> t_cb s' = t_cb s
      \<and> descr_flags s' = descr_flags s \<and> descr_time s' = descr_time s"
    using eq by (simp add: timer_state.defs)
  with s' that show thesis by blast
qed

lemma process_loop_ok:
  assumes "queue_ok s time xs"
  shows "\<exists>s' ys. timer_process_loop debug call time (descr_tasks s) s = Some s'
    \<and> queue_ok s' time ys \<and> (\<forall>y \<in> set ys. \<not> expired s' time y)
    \<and> set ys = {x \<in> set xs. expired s time x \<longrightarrow> t_mode s x = TIMER_TASK_REPEAT}
    \<and> t_interval s' = t_interval s \<and> t_mode s' = t_mode s
    \<and> descr_flags s' = descr_flags s \<and> descr_time s' = descr_time s"
  using assms
proof (induction "length (filter (expired s time) xs)" arbitrary: s xs rule: less_induct)
  case less
  show ?case
  proof (cases "\<exists>x xs'. xs = x # xs' \<and> expired s time x")
    case False
    have none: "\<forall>y \<in> set xs. \<not> expired s time y"
    proof (cases xs)
      case (Cons x xs')
      then have "left_of s time x \<noteq> 0"
        using False less.prems expired_iff_due [of s time x] by (auto simp: queue_ok_def)
      then have "\<forall>y \<in> set xs. left_of s time y \<noteq> 0"
        using less.prems Cons by (fastforce simp: queue_ok_def)
      then show ?thesis
        using less.prems by (metis expired_iff_due queue_ok_no_wrap)
    qed simp
    have "descr_tasks s = NULL \<or> (\<exists>x xs'. xs = x # xs' \<and> descr_tasks s = x)"
      using less.prems by (cases xs) (auto simp: queue_ok_def)
    then have "timer_process_loop debug call time (descr_tasks s) s = Some s"
      using False by (subst timer_process_loop.simps) (auto simp: expired_def)
    with less.prems none show ?thesis by (intro exI [of _ s] exI [of _ xs]) auto
  next
    case True
    then obtain x xs' where xs: "xs = x # xs'" and exp: "expired s time x" by blast
    obtain s1 ys where step: "timer_expire_head debug time x s = Some s1" "queue_ok s1 time ys"
        "set ys = set xs' \<union> (if t_mode s x = TIMER_TASK_REPEAT then {x} else {})"
        "length (filter (expired s1 time) ys) < length (filter (expired s time) xs)"
        "t_time_label s1 =
           (if t_mode s x = TIMER_TASK_REPEAT then (t_time_label s)(x := time) else t_time_label s)"
        "t_interval s1 = t_interval s" "t_mode s1 = t_mode s"
        "descr_flags s1 = descr_flags s" "descr_time s1 = descr_time s"
      using timer_expire_head_ok [of s time x xs' debug] less.prems xs exp by blast
    obtain s2 where call: "call (t_cb s1 x) x s1 = Some s2"
        and same: "t_next s2 = t_next s1" "descr_tasks s2 = descr_tasks s1"
          "t_time_label s2 = t_time_label s1" "t_interval s2 = t_interval s1"
          "t_mode s2 = t_mode s1" "descr_flags s2 = descr_flags s1" "descr_time s2 = descr_time s1"
      by (rule quiet_fields [of "t_cb s1 x" x s1])
    have ok2: "queue_ok s2 time ys" by (rule queue_ok_frame [OF step(2)]) (simp_all add: same)
    have exp2: "expired s2 time = expired s1 time" by (simp add: expired_def same fun_eq_iff)
    obtain s' zs where IH: "timer_process_loop debug call time (descr_tasks s2) s2 = Some s'"
        "queue_ok s' time zs" "\<forall>y \<in> set zs. \<not> expired s' time y"
        "set zs = {y \<in> set ys. expired s2 time y \<longrightarrow> t_mode s2 y = TIMER_TASK_REPEAT}"
        "t_interval s' = t_interval s2" "t_mode s' = t_mode s2"
        "descr_flags s' = descr_flags s2" "descr_time s' = descr_time s2"
      using less.hyps [OF _ ok2] step(4) by (auto simp: exp2)
    have x: "x \<notin> set xs'" and head: "descr_tasks s = x" "x \<noteq> NULL"
      using less.prems xs is_list_distinct [of "t_next s" x "x # xs'"] by (auto simp: queue_ok_def)
    have "timer_process_loop debug call time (descr_tasks s) s = Some s'"
      using head exp step(1) call IH(1) same(2)
      by (subst timer_process_loop.simps) (simp add: expired_def list_get_head_def)
    moreover have "set zs = {y \<in> set xs. expired s time y \<longrightarrow> t_mode s y = TIMER_TASK_REPEAT}"
      unfolding IH(4) step(3) xs using x exp
      by (auto simp: expired_def same step)
    ultimately show ?thesis
      using IH same step by (intro exI [of _ s'] exI [of _ zs]) simp
  qed
qed

end

subsection \<open>Adding a task\<close>

definition labelled :: "ptr \<Rightarrow> ('f, 'a) timer_state_scheme \<Rightarrow> ('f, 'a) timer_state_scheme" where
  "labelled t s = s\<lparr>t_time_label := (t_time_label s)(t := descr_time s)\<rparr>"

lemma hpl_timer_set_irq_frame [simp]:
  "t_next (hpl_timer_set_irq d s) = t_next s" "descr_tasks (hpl_timer_set_irq d s) = descr_tasks s"
  "t_time_label (hpl_timer_set_irq d s) = t_time_label s"
  "t_interval (hpl_timer_set_irq d s) = t_interval s"
  "descr_flags (hpl_timer_set_irq d s) = descr_flags s"
  "descr_time (hpl_timer_set_irq d s) = descr_time s"
  by (simp_all add: hpl_timer_set_irq_def)

lemma flag_bits:
  "(f OR 1) AND - 2 = f AND - 2" "(f AND - 2) AND 2 = f AND 2" "(f AND 2 \<noteq> 0) = bit f 1"
  "(f AND - 2) AND 1 = 0" "(f AND - 4) AND 1 = 0" "(f AND - 3) AND 2 = 0" "(f AND - 2) AND - 3 = f AND - 4"
  "(f OR 2) AND 2 = 2" "(f OR 2) AND - 3 = f AND - 3"
  for f :: u8
  by (simp_all add: u8_eq_iff bit_simps)


definition sample_timer :: "unit timer_state" where
  "sample_timer = \<lparr>tc_of = (\<lambda>_. tc_zero), nvic_enabled = (\<lambda>_. False), nvic_pending = (\<lambda>_. False),
     tc3_dev = 0, dev_hw = (\<lambda>_. TC3), t_next = (\<lambda>_. 0), t_time_label = (\<lambda>_. 0),
     t_interval = (\<lambda>p. if p = 0x20000010 then 10 else 3), t_cb = (\<lambda>_. ()),
     t_mode = (\<lambda>_. TIMER_TASK_REPEAT), descr_device = 0, descr_time = 2, descr_tasks = 0x20000010,
     descr_flags = 0\<rparr>"


subsection \<open>The clock's wrap-around\<close>



subsection \<open>Interrupts that arrive while the queue is taken\<close>

text \<open>
  A tick that arrives while the queue is taken advances the clock and is remembered
  in the flags; releasing the queue pends the timer's interrupt, but since the overflow
  flag was cleared by the first interrupt, the pended one changes nothing: the expired
  tasks wait for the next overflow.
\<close>

lemma deferred_tick_is_not_processed:
  assumes "tc_intflag (tc_of s (dev_hw s (tc3_dev s))) AND TC_INTFLAG_OVF \<noteq> 0"
    and "descr_flags s AND TIMER_FLAG_QUEUE_IS_TAKEN \<noteq> 0"
    and "descr_device s = tc3_dev s"
  shows "\<exists>s1 s2. TC3_Handler (timer_process_counted debug call) s = Some s1
    \<and> descr_time s1 = descr_time s + 1 \<and> descr_tasks s1 = descr_tasks s
    \<and> s2 = queue_retrigger (queue_release s1)
    \<and> nvic_pending s2 (tc_irqn (dev_hw s2 (tc3_dev s2)))
    \<and> TC3_Handler (timer_process_counted debug call) s2 = Some s2"
proof -
  let ?hw = "dev_hw s (tc3_dev s)"
  let ?s0 = "tc_update ?hw (\<lambda>r. r\<lparr>tc_intflag := tc_intflag r AND NOT TC_INTFLAG_OVF\<rparr>) s"
  let ?s1 = "?s0\<lparr>descr_time := descr_time s + 1, descr_flags := descr_flags s OR 2\<rparr>"
  have run: "TC3_Handler (timer_process_counted debug call) s = Some ?s1"
    using assms by (simp add: TC3_Handler_def tc_interrupt_handler_def timer_process_counted_def Let_def
        tc_update_def)
  have fl: "descr_flags (queue_release ?s1) AND 2 \<noteq> 0"
    by (simp add: queue_release_def flag_bits)
  let ?s2 = "queue_retrigger (queue_release ?s1)"
  have idle: "tc_intflag (tc_of ?s2 (dev_hw ?s2 (tc3_dev ?s2))) AND TC_INTFLAG_OVF = 0"
    using fl by (simp add: queue_retrigger_def hpl_timer_set_irq_def queue_release_def
        tc_update_def flag_bits)
  have "TC3_Handler (timer_process_counted debug call) ?s2 = Some ?s2"
    unfolding TC3_Handler_def by (rule tc_interrupt_handler_idle [OF idle])
  moreover have "nvic_pending ?s2 (tc_irqn (dev_hw ?s2 (tc3_dev ?s2)))"
    using fl assms(3)
    by (simp add: queue_retrigger_def hpl_timer_set_irq_def queue_release_def tc_update_def)
  moreover have "descr_time ?s1 = descr_time s + 1" "descr_tasks ?s1 = descr_tasks s"
    by (simp_all add: tc_update_def)
  ultimately show ?thesis using run by blast
qed

lemma deferred_tick_is_not_processed_witness:
  "\<exists>s1 s2. TC3_Handler (timer_process_counted True (\<lambda>_ _ s. Some s))
       (sample_timer\<lparr>tc_of := (\<lambda>_. tc_zero\<lparr>tc_intflag := 1\<rparr>), descr_flags := 1\<rparr>) = Some s1
    \<and> descr_time s1 = 3 \<and> s2 = queue_retrigger (queue_release s1)
    \<and> TC3_Handler (timer_process_counted True (\<lambda>_ _ s. Some s)) s2 = Some s2"
  using deferred_tick_is_not_processed
    [of "sample_timer\<lparr>tc_of := (\<lambda>_. tc_zero\<lparr>tc_intflag := 1\<rparr>), descr_flags := 1\<rparr>"
      True "\<lambda>_ _ s. Some s"]
  by (auto simp: sample_timer_def)

subsection \<open>A repeating task with interval zero\<close>

text \<open>\<open>stuck s t time\<close>: \<open>t\<close> is alone in the queue, repeats and is always due.\<close>

definition stuck :: "('f, 'a) timer_state_scheme \<Rightarrow> ptr \<Rightarrow> bool" where
  "stuck s t \<longleftrightarrow> t \<noteq> NULL \<and> is_list (t_next s) (descr_tasks s) [t]
     \<and> t_interval s t = 0 \<and> t_mode s t = TIMER_TASK_REPEAT"

lemma stuck_expire_head:
  assumes "stuck s t"
  shows "\<exists>s1. timer_expire_head debug time t s = Some s1 \<and> stuck s1 t \<and> descr_tasks s1 = t"
proof -
  let ?s' = "s\<lparr>descr_tasks := t_next s t, t_time_label := (t_time_label s)(t := time)\<rparr>"
  have st: "t \<noteq> NULL" "descr_tasks s = t" "t_next s t = NULL" "t_interval s t = 0"
      "t_mode s t = TIMER_TASK_REPEAT"
    using assms by (auto simp: stuck_def)
  then obtain nx h where "timer_add_timer_task debug t time ?s' = Some (?s'\<lparr>t_next := nx, descr_tasks := h\<rparr>)"
      and l: "is_list nx h (queue_insert ?s' time t [])"
    using timer_add_timer_task_correct [of ?s' "[]" t debug time] by auto
  moreover have "is_list nx h [t]" using l by (simp add: queue_insert_def)
  moreover from this have "h = t" by simp
  ultimately show ?thesis
    using st by (auto simp: timer_expire_head_def list_remove_head_def stuck_def)
qed

lemma stuck_loop:
  "timer_process_loop debug call time it s = Some s' \<Longrightarrow> it = t \<Longrightarrow>
     (\<forall>f s s'. stuck s t \<longrightarrow> call f t s = Some s' \<longrightarrow> stuck s' t) \<Longrightarrow> \<not> stuck s t"
proof (induction debug call time it s s' rule: timer_process_loop.raw_induct [rotated, consumes 1])
  case (1 rec debug call time it s s')
  show ?case
  proof
    assume st: "stuck s t"
    then obtain s1 where s1: "timer_expire_head debug time t s = Some s1" "stuck s1 t" "descr_tasks s1 = t"
      using stuck_expire_head by blast
    have "it \<noteq> NULL \<and> t_interval s it \<le> time - t_time_label s it"
      using st 1(3) by (simp add: stuck_def)
    note body = 1(2) [unfolded if_P [OF this], unfolded 1(3) s1(1) bind.bind_lunit s1(3) list_get_head_def]
    from bind_eq_Some_conv [THEN iffD1, OF body]
    obtain s2 where s2: "call (t_cb s1 t) t s1 = Some s2" "rec debug call time t s2 = Some s'"
      by blast
    have "stuck s2 t" using 1(4) s1(2) s2(1) by blast
    with 1(1) [OF s2(2)] 1(4) show False by blast
  qed
qed

text \<open>
  C31. A repeating task whose interval is zero, alone in the queue, makes the processing
  loop of the timer interrupt run forever, whatever its callback does to the rest of the
  state.
\<close>

lemma zero_interval_never_returns:
  assumes "stuck s t" and "\<forall>f s s'. stuck s t \<longrightarrow> call f t s = Some s' \<longrightarrow> stuck s' t"
  shows "timer_process_loop debug call time t s = None"
  using assms stuck_loop [of debug call time t s _ t]
  by (cases "timer_process_loop debug call time t s") auto

lemma zero_interval_never_returns_witness:
  "timer_process_loop True (\<lambda>_ _ s. Some s) 3 0x20000010
     (sample_timer\<lparr>t_interval := (\<lambda>_. 0)\<rparr>) = None"
  by (rule zero_interval_never_returns) (auto simp: stuck_def sample_timer_def)

end
