(* ===== verification/Sercom.thy ===== *)
theory Sercom
  imports Prelude
begin

text \<open>
  What the drivers of \<open>hpl/sercom/hpl_sercom.c\<close> (I2C master and slave, SPI, USART) share:
  the registers of a SERCOM, their accessors, and the lookup of an instance's number.

  The registers are volatile and driven by the bus, so a register access is a
  call of the peripheral: \<open>rd\<close> may change its state, \<open>wr\<close> may ignore the value.  The
  accessors \<open>hri_sercom*\<close> of \<open>hri/hri_sercom_d21.h\<close> are written out over them; their
  waits for \<open>SYNCBUSY\<close> are taken to end.
\<close>

datatype sercom_reg =
  CTRLA | CTRLB | BAUD | RXPL | INTENCLR | INTENSET | INTFLAG | STATUS | SYNCBUSY | ADDR | DATA | DBGCTRL

record 'h sercom_bus =
  rd :: "sercom_reg \<Rightarrow> 'h \<Rightarrow> u32 \<times> 'h"
  wr :: "sercom_reg \<Rightarrow> u32 \<Rightarrow> 'h \<Rightarrow> 'h"

text \<open>The peripheral, the memory, and the interrupt line of the instance in the NVIC.\<close>

record 'h sercom_state =
  periph :: 'h
  imem :: "ptr \<Rightarrow> u8"
  sercom_irq_on :: bool
  sercom_irq_pending :: bool

definition SERCOM0 :: ptr where "SERCOM0 = 0x42000800"

abbreviation (input) CTRLA_SWRST :: u32 where "CTRLA_SWRST \<equiv> 1"
abbreviation (input) CTRLA_ENABLE :: u32 where "CTRLA_ENABLE \<equiv> 2"
abbreviation (input) CTRLA_MODE_Msk :: u32 where "CTRLA_MODE_Msk \<equiv> 0x1C"

subsection \<open>Register accessors\<close>

definition reg_read :: "'h sercom_bus \<Rightarrow> sercom_reg \<Rightarrow> ('h, 'a) sercom_state_scheme \<Rightarrow> u32 \<times> ('h, 'a) sercom_state_scheme" where
  "reg_read b r s = (case rd b r (periph s) of (v, h) \<Rightarrow> (v, s\<lparr>periph := h\<rparr>))"

definition reg_write :: "'h sercom_bus \<Rightarrow> sercom_reg \<Rightarrow> u32 \<Rightarrow> ('h, 'a) sercom_state_scheme \<Rightarrow> ('h, 'a) sercom_state_scheme" where
  "reg_write b r v s = s\<lparr>periph := wr b r v (periph s)\<rparr>"

definition reg_modify ::
    "'h sercom_bus \<Rightarrow> sercom_reg \<Rightarrow> (u32 \<Rightarrow> u32) \<Rightarrow> ('h, 'a) sercom_state_scheme \<Rightarrow> ('h, 'a) sercom_state_scheme" where
  \<comment> \<open>the read-modify-write of the \<open>set\<close>, \<open>clear\<close> and bit-field accessors\<close>
  "reg_modify b r f s = (case reg_read b r s of (v, s) \<Rightarrow> reg_write b r (f v) s)"

definition write_inten :: "'h sercom_bus \<Rightarrow> u32 \<Rightarrow> bool \<Rightarrow> ('h, 'a) sercom_state_scheme \<Rightarrow> ('h, 'a) sercom_state_scheme" where
  "write_inten b flag value s = reg_write b (if value then INTENSET else INTENCLR) flag s"

definition sercom_get_hardware_index :: "ptr \<Rightarrow> u8" where
  "sercom_get_hardware_index hw = ucast (drop_bit 10 (hw - SERCOM0))"

subsection \<open>A module whose registers keep what is written\<close>

definition regs_bus :: "(sercom_reg \<Rightarrow> u32) sercom_bus" where
  \<comment> \<open>a module whose registers keep what is written to them\<close>
  "regs_bus = \<lparr>rd = (\<lambda>r h. (h r, h)), wr = (\<lambda>r v h. h(r := v))\<rparr>"

lemma regs_bus_simps [simp]:
  "reg_read regs_bus r s = (periph s r, s)" "reg_write regs_bus r v s = s\<lparr>periph := (periph s)(r := v)\<rparr>"
  "reg_modify regs_bus r f s = s\<lparr>periph := (periph s)(r := f (periph s r))\<rparr>"
  by (simp_all add: regs_bus_def reg_read_def reg_write_def reg_modify_def)

subsection \<open>What register accesses leave alone\<close>

lemma reg_frame [simp]:
  "imem (snd (reg_read b r s)) = imem s" "imem (reg_write b r v s) = imem s" "imem (reg_modify b r f s) = imem s"
  by (simp_all add: reg_read_def reg_write_def reg_modify_def split: prod.split)

end
