(* ===== verification/SercomI2cm.thy ===== *)
theory SercomI2cm
  imports Sercom
begin

text \<open>
  The I2C master part of \<open>hpl/sercom/hpl_sercom.c\<close> (polled and interrupt-driven entry
  points) over an arbitrary peripheral.  Message buffers are memory ranges.
\<close>

record i2c_msg =
  m_addr :: u16
  m_flags :: u16
  m_len :: int
  m_buffer :: ptr

record i2cm_configuration =
  i2cm_number :: u8
  i2cm_ctrl_a :: u32
  i2cm_ctrl_b :: u32
  i2cm_baud :: u32
  i2cm_dbgctrl :: u8
  i2cm_trise :: u16
  i2cm_clk :: u32

record 'h i2c_state = "'h sercom_state" +
  svc_msg :: i2c_msg
  svc_mode :: u16
  svc_trise :: u16
  i2c_hw :: ptr

abbreviation (input) I2C_M_RD :: u16 where "I2C_M_RD \<equiv> 1"
abbreviation (input) I2C_M_BUSY :: u16 where "I2C_M_BUSY \<equiv> 0x100"
abbreviation (input) I2C_M_TEN :: u16 where "I2C_M_TEN \<equiv> 0x400"
abbreviation (input) I2C_M_SEVEN :: u16 where "I2C_M_SEVEN \<equiv> 0x800"
abbreviation (input) I2C_M_FAIL :: u16 where "I2C_M_FAIL \<equiv> 0x1000"
abbreviation (input) I2C_M_STOP :: u16 where "I2C_M_STOP \<equiv> 0x8000"

abbreviation (input) I2C_OK :: rc where "I2C_OK \<equiv> 0"
abbreviation (input) I2C_NACK :: rc where "I2C_NACK \<equiv> - 2"
abbreviation (input) I2C_ERR_BAD_ADDRESS :: rc where "I2C_ERR_BAD_ADDRESS \<equiv> - 4"
abbreviation (input) I2C_ERR_BUS :: rc where "I2C_ERR_BUS \<equiv> - 5"
abbreviation (input) I2C_ERR_BUSY :: rc where "I2C_ERR_BUSY \<equiv> - 6"

abbreviation (input) SB_FLAG :: u32 where "SB_FLAG \<equiv> 2"
abbreviation (input) MB_FLAG :: u32 where "MB_FLAG \<equiv> 1"
abbreviation (input) CMD_STOP :: u32 where "CMD_STOP \<equiv> 3"
abbreviation (input) I2C_IDLE :: u32 where "I2C_IDLE \<equiv> 1"
abbreviation (input) STATUS_BUSERR :: u32 where "STATUS_BUSERR \<equiv> 1"
abbreviation (input) STATUS_ARBLOST :: u32 where "STATUS_ARBLOST \<equiv> 2"
abbreviation (input) STATUS_RXNACK :: u32 where "STATUS_RXNACK \<equiv> 4"
abbreviation (input) CTRLA_SPEED_Msk :: u32 where "CTRLA_SPEED_Msk \<equiv> 0x3000000"
abbreviation (input) CTRLA_SCLSM :: u32 where "CTRLA_SCLSM \<equiv> 0x8000000"
abbreviation (input) CTRLB_SMEN :: u32 where "CTRLB_SMEN \<equiv> 0x100"
abbreviation (input) CTRLB_CMD_Msk :: u32 where "CTRLB_CMD_Msk \<equiv> 0x30000"
abbreviation (input) CTRLB_ACKACT :: u32 where "CTRLB_ACKACT \<equiv> 0x40000"
abbreviation (input) ADDR_HS :: u32 where "ADDR_HS \<equiv> 0x4000"
abbreviation (input) ADDR_TENBITEN :: u32 where "ADDR_TENBITEN \<equiv> 0x8000"

subsection \<open>The message\<close>

definition msg_update :: "(i2c_msg \<Rightarrow> i2c_msg) \<Rightarrow> ('h, 'a) i2c_state_scheme \<Rightarrow> ('h, 'a) i2c_state_scheme" where
  "msg_update f s = s\<lparr>svc_msg := f (svc_msg s)\<rparr>"

definition set_flag :: "u16 \<Rightarrow> i2c_msg \<Rightarrow> i2c_msg" where
  "set_flag f m = m\<lparr>m_flags := m_flags m OR f\<rparr>"

definition clear_flag :: "u16 \<Rightarrow> i2c_msg \<Rightarrow> i2c_msg" where
  "clear_flag f m = m\<lparr>m_flags := m_flags m AND NOT f\<rparr>"

definition has_flag :: "u16 \<Rightarrow> i2c_msg \<Rightarrow> bool" where
  "has_flag f m \<longleftrightarrow> m_flags m AND f \<noteq> 0"

definition sercom_i2c_send_stop :: "'h sercom_bus \<Rightarrow> ('h, 'a) i2c_state_scheme \<Rightarrow> ('h, 'a) i2c_state_scheme" where
  "sercom_i2c_send_stop b = reg_modify b CTRLB (\<lambda>v. v OR (CTRLB_CMD_Msk AND push_bit 16 CMD_STOP))"

subsection \<open>Serving one bus event\<close>

definition analyse_mb ::
    "'h sercom_bus \<Rightarrow> u32 \<Rightarrow> ('h, 'a) i2c_state_scheme \<Rightarrow> rc \<times> ('h, 'a) i2c_state_scheme" where
  \<comment> \<open>master on bus: the address or a byte has been sent\<close>
  "analyse_mb b status s =
     (if status AND STATUS_ARBLOST \<noteq> 0 then
        (let s = reg_write b INTFLAG MB_FLAG s;
             s = msg_update (set_flag I2C_M_FAIL) s;
             s = msg_update (clear_flag I2C_M_BUSY) s
         in (if status AND STATUS_BUSERR \<noteq> 0 then I2C_ERR_BUS else I2C_ERR_BAD_ADDRESS, s))
      else if status AND STATUS_RXNACK \<noteq> 0 then
        (let s = (if 0 < m_len (svc_msg s) then msg_update (set_flag I2C_M_FAIL) s else s);
             s = (if has_flag I2C_M_STOP (svc_msg s) then sercom_i2c_send_stop b s else s)
         in (I2C_NACK, msg_update (clear_flag I2C_M_BUSY) s))
      else if has_flag I2C_M_TEN (svc_msg s) then
        (case reg_read b ADDR s of
           (a, s) \<Rightarrow>
             (let s = reg_write b ADDR
                    (push_bit 1 (drop_bit 8 (ucast (m_addr (svc_msg s)) AND 0x3FF) OR 0x78)
                       OR ucast I2C_M_RD OR (a AND ADDR_HS)) s
              in (I2C_OK, msg_update (clear_flag I2C_M_TEN) s)))
      else if m_len (svc_msg s) = 0 then
        (let s = (if has_flag I2C_M_STOP (svc_msg s) then sercom_i2c_send_stop b s else s)
         in (I2C_OK, msg_update (clear_flag I2C_M_BUSY) s))
      else
        (let s = reg_write b DATA (ucast (imem s (m_buffer (svc_msg s)))) s;
             s = msg_update (\<lambda>m. m\<lparr>m_buffer := m_buffer m + 1\<rparr>) s
         in (I2C_OK, msg_update (\<lambda>m. m\<lparr>m_len := m_len m - 1\<rparr>) s)))"

definition analyse_sb ::
    "'h sercom_bus \<Rightarrow> bool \<Rightarrow> u32 \<Rightarrow> ('h, 'a) i2c_state_scheme \<Rightarrow> rc \<times> ('h, 'a) i2c_state_scheme" where
  \<comment> \<open>slave on bus: a byte has been received\<close>
  "analyse_sb b sclsm status s =
     (if m_len (svc_msg s) \<noteq> 0 \<and> status AND STATUS_RXNACK = 0 then
        (let s = msg_update (\<lambda>m. m\<lparr>m_len := m_len m - 1\<rparr>) s;
             len = m_len (svc_msg s);
             s = (if (len = 0 \<and> \<not> sclsm) \<or> (len = 1 \<and> sclsm)
                  then reg_modify b CTRLB (\<lambda>v. v OR CTRLB_ACKACT) s else s);
             s = (if len = 0 then
                    (let s = (if has_flag I2C_M_STOP (svc_msg s) then
                                sercom_i2c_send_stop b (reg_modify b CTRLB (\<lambda>v. v AND NOT CTRLB_SMEN) s)
                              else s)
                     in msg_update (clear_flag I2C_M_BUSY) s)
                  else s)
         in case reg_read b DATA s of
              (d, s) \<Rightarrow>
                (let p = m_buffer (svc_msg s);
                     s = s\<lparr>imem := (imem s)(p := ucast d)\<rparr>;
                     s = msg_update (\<lambda>m. m\<lparr>m_buffer := m_buffer m + 1\<rparr>) s
                 in (I2C_OK, reg_write b INTFLAG SB_FLAG s)))
      else (I2C_NACK, reg_write b INTFLAG SB_FLAG s))"

definition sercom_i2c_sync_analyse_flags ::
    "'h sercom_bus \<Rightarrow> u32 \<Rightarrow> ('h, 'a) i2c_state_scheme \<Rightarrow> rc \<times> ('h, 'a) i2c_state_scheme" where
  "sercom_i2c_sync_analyse_flags b flags s =
     (case reg_read b CTRLA s of
        (ctrla, s) \<Rightarrow>
          (case reg_read b STATUS s of
             (status, s) \<Rightarrow>
               if flags AND MB_FLAG \<noteq> 0 then analyse_mb b status s
               else if flags AND SB_FLAG \<noteq> 0 then analyse_sb b (ctrla AND CTRLA_SCLSM \<noteq> 0) status s
               else (I2C_OK, s)))"

subsection \<open>Polled transfer\<close>

fun wait_bus_loop ::
    "'h sercom_bus \<Rightarrow> nat \<Rightarrow> ('h, 'a) i2c_state_scheme \<Rightarrow> rc \<times> u32 \<times> ('h, 'a) i2c_state_scheme" where
  \<comment> \<open>the \<open>do\<close> loop with \<open>timeout\<close> at the given value\<close>
  "wait_bus_loop b 0 s = (case reg_read b INTFLAG s of (flags, s) \<Rightarrow> (I2C_ERR_BUS, flags, s))"
| "wait_bus_loop b (Suc timeout) s =
     (case reg_read b INTFLAG s of
        (flags, s) \<Rightarrow>
          if flags AND MB_FLAG = 0 \<and> flags AND SB_FLAG = 0 then wait_bus_loop b timeout s
          else (I2C_OK, flags, s))"

definition sercom_i2c_sync_wait_bus ::
    "'h sercom_bus \<Rightarrow> ('h, 'a) i2c_state_scheme \<Rightarrow> rc \<times> u32 \<times> ('h, 'a) i2c_state_scheme" where
  "sercom_i2c_sync_wait_bus b s = wait_bus_loop b 65535 s"

definition write_address :: "'h sercom_bus \<Rightarrow> ('h, 'a) i2c_state_scheme \<Rightarrow> ('h, 'a) i2c_state_scheme" where
  \<comment> \<open>the part the polled and the interrupt-driven \<open>send_address\<close> share\<close>
  "write_address b s =
     (case reg_read b CTRLA s of
        (ctrla, s) \<Rightarrow>
          (let s = (if m_len (svc_msg s) = 1 \<and> ctrla AND CTRLA_SCLSM \<noteq> 0
                    then reg_modify b CTRLB (\<lambda>v. v OR CTRLB_ACKACT) s
                    else reg_modify b CTRLB (\<lambda>v. v AND NOT CTRLB_ACKACT) s)
           in if m_addr (svc_msg s) AND I2C_M_TEN \<noteq> 0 then
                (let s = (if has_flag I2C_M_RD (svc_msg s) then msg_update (set_flag I2C_M_TEN) s else s)
                 in case reg_read b ADDR s of
                      (a, s) \<Rightarrow> reg_write b ADDR
                        (push_bit 1 (ucast (m_addr (svc_msg s)) AND 0x3FF) OR ADDR_TENBITEN OR (a AND ADDR_HS)) s)
              else
                (case reg_read b ADDR s of
                   (a, s) \<Rightarrow> reg_write b ADDR
                     (push_bit 1 (ucast (m_addr (svc_msg s)) AND 0x7F)
                        OR (if has_flag I2C_M_RD (svc_msg s) then 1 else 0) OR (a AND ADDR_HS)) s)))"

definition sercom_i2c_sync_send_address ::
    "'h sercom_bus \<Rightarrow> ('h, 'a) i2c_state_scheme \<Rightarrow> rc \<times> ('h, 'a) i2c_state_scheme" where
  \<comment> \<open>the status of the wait is not looked at\<close>
  "sercom_i2c_sync_send_address b s =
     (case sercom_i2c_sync_wait_bus b (write_address b s) of
        (_, flags, s) \<Rightarrow> sercom_i2c_sync_analyse_flags b flags s)"

partial_function (option) transfer_loop ::
    "'h sercom_bus \<Rightarrow> bool \<Rightarrow> rc \<Rightarrow> ('h, 'a) i2c_state_scheme \<Rightarrow> (rc \<times> ('h, 'a) i2c_state_scheme) option" where
  \<comment> \<open>\<open>stop\<close>: the caller's message has \<open>I2C_M_STOP\<close>\<close>
  "transfer_loop b stop ret s =
     (if \<not> has_flag I2C_M_BUSY (svc_msg s) then Some (ret, s)
      else (case sercom_i2c_sync_wait_bus b s of
              (ret, flags, s) \<Rightarrow>
                if ret \<noteq> 0 then
                  (let s = (if stop then sercom_i2c_send_stop b s else s)
                   in Some (ret, msg_update (clear_flag I2C_M_BUSY) s))
                else (case sercom_i2c_sync_analyse_flags b flags s of
                        (ret, s) \<Rightarrow> transfer_loop b stop ret s)))"

declare transfer_loop.simps [code]

definition hpl_i2c_m_sync_transfer ::
    "'h sercom_bus \<Rightarrow> i2c_msg \<Rightarrow> ('h, 'a) i2c_state_scheme \<Rightarrow> (rc \<times> ('h, 'a) i2c_state_scheme) option" where
  \<comment> \<open>the caller's message also gets \<open>I2C_M_BUSY\<close>; no caller looks at it again\<close>
  "hpl_i2c_m_sync_transfer b msg s =
     (if has_flag I2C_M_BUSY (svc_msg s) then Some (I2C_ERR_BUSY, s)
      else
        (let msg = set_flag I2C_M_BUSY msg;
             s = s\<lparr>svc_msg := msg\<rparr>;
             s = reg_modify b CTRLB (\<lambda>v. v OR CTRLB_SMEN) s
         in case sercom_i2c_sync_send_address b s of
              (ret, s) \<Rightarrow>
                if ret \<noteq> 0 then Some (ret, msg_update (clear_flag I2C_M_BUSY) s)
                else transfer_loop b (has_flag I2C_M_STOP msg) ret s))"

definition hpl_i2c_m_sync_send_stop ::
    "'h sercom_bus \<Rightarrow> ('h, 'a) i2c_state_scheme \<Rightarrow> rc \<times> ('h, 'a) i2c_state_scheme" where
  "hpl_i2c_m_sync_send_stop b s = (I2C_OK, sercom_i2c_send_stop b s)"

subsection \<open>Initialisation\<close>

fun get_i2cm_index_loop :: "i2cm_configuration list \<Rightarrow> u8 \<Rightarrow> nat \<Rightarrow> nat option" where
  "get_i2cm_index_loop [] sercom_offset i = None"
| "get_i2cm_index_loop (c # cs) sercom_offset i =
     (if i2cm_number c = sercom_offset then Some i else get_i2cm_index_loop cs sercom_offset (Suc i))"

definition get_i2cm_index :: "i2cm_configuration list \<Rightarrow> ptr \<Rightarrow> nat option" where
  \<comment> \<open>\<open>None\<close> is the \<open>ASSERT(false)\<close> path\<close>
  "get_i2cm_index i2cms hw = get_i2cm_index_loop i2cms (sercom_get_hardware_index hw) 0"

definition i2c_m_sync_init_impl ::
    "'h sercom_bus \<Rightarrow> i2cm_configuration list \<Rightarrow> ptr \<Rightarrow> ('h, 'a) i2c_state_scheme
      \<Rightarrow> (rc \<times> ('h, 'a) i2c_state_scheme) option" where
  "i2c_m_sync_init_impl b i2cms hw s =
     (case get_i2cm_index i2cms hw of
        None \<Rightarrow> None
      | Some i \<Rightarrow>
         (let c = i2cms ! i in
          case reg_read b SYNCBUSY s of
            (sync, s) \<Rightarrow>
              (let s = (if sync AND 1 = 0 then
                          (case reg_read b CTRLA s of
                             (ctrla, s) \<Rightarrow>
                               (let s = (if ctrla AND CTRLA_ENABLE \<noteq> 0
                                         then reg_modify b CTRLA (\<lambda>v. v AND NOT CTRLA_ENABLE) s else s)
                                in reg_write b CTRLA (CTRLA_SWRST OR (i2cm_ctrl_a c AND CTRLA_MODE_Msk)) s))
                        else s);
                   s = reg_write b CTRLA (i2cm_ctrl_a c) s;
                   s = reg_write b CTRLB (i2cm_ctrl_b c) s;
                   s = reg_write b BAUD (i2cm_baud c) s;
                   s = s\<lparr>svc_mode := ucast (drop_bit 24 (i2cm_ctrl_a c AND CTRLA_SPEED_Msk))\<rparr>;
                   s = reg_modify b ADDR
                         (\<lambda>v. (v AND NOT ADDR_HS) OR (if svc_mode s < 2 then 0 else ADDR_HS)) s
               in Some (ERR_NONE, s\<lparr>svc_trise := i2cm_trise c\<rparr>))))"

definition hpl_i2c_m_sync_init ::
    "'h sercom_bus \<Rightarrow> i2cm_configuration list \<Rightarrow> ptr \<Rightarrow> ('h, 'a) i2c_state_scheme
      \<Rightarrow> (rc \<times> ('h, 'a) i2c_state_scheme) option" where
  "hpl_i2c_m_sync_init b i2cms hw s = i2c_m_sync_init_impl b i2cms hw (s\<lparr>i2c_hw := hw\<rparr>)"

definition hpl_i2c_m_sync_deinit ::
    "'h sercom_bus \<Rightarrow> ('h, 'a) i2c_state_scheme \<Rightarrow> rc \<times> ('h, 'a) i2c_state_scheme" where
  "hpl_i2c_m_sync_deinit b s =
     (let s = reg_modify b CTRLA (\<lambda>v. v AND NOT CTRLA_ENABLE) s
      in (ERR_NONE, reg_modify b CTRLA (\<lambda>v. v OR CTRLA_SWRST) s))"

definition bus_state :: "'h sercom_bus \<Rightarrow> ('h, 'a) i2c_state_scheme \<Rightarrow> u32 \<times> ('h, 'a) i2c_state_scheme" where
  "bus_state b s = (case reg_read b STATUS s of (v, s) \<Rightarrow> (drop_bit 4 (v AND 0x30), s))"

function enable_loop ::
    "'h sercom_bus \<Rightarrow> nat \<Rightarrow> nat \<Rightarrow> ('h, 'a) i2c_state_scheme \<Rightarrow> rc \<times> ('h, 'a) i2c_state_scheme" where
  \<comment> \<open>\<open>timeout\<close> and \<open>timeout_attempt\<close> as they are when the bus state is read; both stay
      positive\<close>
  "enable_loop b timeout attempt s =
     (case bus_state b s of
        (st, s) \<Rightarrow>
          if st = I2C_IDLE then (ERR_NONE, s)
          else if timeout - 1 = 0 then
            (if attempt - 1 = 0 then (I2C_ERR_BUSY, s)
             else enable_loop b 65535 (attempt - 1) (reg_write b STATUS (push_bit 4 I2C_IDLE) s))
          else enable_loop b (timeout - 1) attempt s)"
  by pat_completeness auto
termination
  by (relation "measures [\<lambda>(_, _, a, _). a, \<lambda>(_, t, _, _). t]") auto

declare enable_loop.simps [simp del]

definition i2c_m_enable_implementation ::
    "'h sercom_bus \<Rightarrow> ('h, 'a) i2c_state_scheme \<Rightarrow> rc \<times> ('h, 'a) i2c_state_scheme" where
  "i2c_m_enable_implementation b s =
     enable_loop b 65535 4 (reg_modify b CTRLA (\<lambda>v. v OR CTRLA_ENABLE) s)"

definition hpl_i2c_m_sync_enable ::
    "'h sercom_bus \<Rightarrow> ('h, 'a) i2c_state_scheme \<Rightarrow> rc \<times> ('h, 'a) i2c_state_scheme" where
  "hpl_i2c_m_sync_enable b s = i2c_m_enable_implementation b s"

definition hpl_i2c_m_sync_disable ::
    "'h sercom_bus \<Rightarrow> ('h, 'a) i2c_state_scheme \<Rightarrow> rc \<times> ('h, 'a) i2c_state_scheme" where
  "hpl_i2c_m_sync_disable b s = (ERR_NONE, reg_modify b CTRLA (\<lambda>v. v AND NOT CTRLA_ENABLE) s)"

subsection \<open>Interrupt-driven entry points\<close>

datatype i2c_m_async_callback_type =
  I2C_M_ASYNC_DEVICE_ERROR | I2C_M_ASYNC_DEVICE_TX_COMPLETE | I2C_M_ASYNC_DEVICE_RX_COMPLETE

record ('h, 'f) i2c_async_state = "'h i2c_state" +
  cb_error :: 'f
  cb_tx_complete :: 'f
  cb_rx_complete :: 'f

definition i2c_m_async_enable ::
    "'h sercom_bus \<Rightarrow> ('h, 'a) i2c_state_scheme \<Rightarrow> rc \<times> ('h, 'a) i2c_state_scheme" where
  "i2c_m_async_enable b s = i2c_m_enable_implementation b s"

definition i2c_m_async_disable ::
    "'h sercom_bus \<Rightarrow> ('h, 'a) i2c_state_scheme \<Rightarrow> rc \<times> ('h, 'a) i2c_state_scheme" where
  "i2c_m_async_disable b s =
     (let s = s\<lparr>sercom_irq_on := False\<rparr> in (ERR_NONE, reg_modify b CTRLA (\<lambda>v. v AND NOT CTRLA_ENABLE) s))"

definition i2c_m_async_init ::
    "'h sercom_bus \<Rightarrow> i2cm_configuration list \<Rightarrow> ptr \<Rightarrow> ('h, 'a) i2c_state_scheme
      \<Rightarrow> (rc \<times> ('h, 'a) i2c_state_scheme) option" where
  "i2c_m_async_init b i2cms hw s =
     (case i2c_m_sync_init_impl b i2cms hw (s\<lparr>i2c_hw := hw\<rparr>) of
        None \<Rightarrow> None
      | Some (init_status, s) \<Rightarrow>
          if init_status \<noteq> 0 then Some (init_status, s)
          else (let s = s\<lparr>sercom_irq_on := False\<rparr>; s = s\<lparr>sercom_irq_pending := False\<rparr>
                in Some (ERR_NONE, s\<lparr>sercom_irq_on := True\<rparr>)))"

definition i2c_m_async_deinit ::
    "'h sercom_bus \<Rightarrow> ('h, 'a) i2c_state_scheme \<Rightarrow> rc \<times> ('h, 'a) i2c_state_scheme" where
  "i2c_m_async_deinit b s =
     (let s = reg_modify b CTRLA (\<lambda>v. v AND NOT CTRLA_ENABLE) s
      in (ERR_NONE, reg_modify b CTRLA (\<lambda>v. v OR CTRLA_SWRST) s))"

definition sercom_i2c_send_address ::
    "'h sercom_bus \<Rightarrow> ('h, 'a) i2c_state_scheme \<Rightarrow> rc \<times> ('h, 'a) i2c_state_scheme" where
  "sercom_i2c_send_address b s = (ERR_NONE, write_address b s)"

definition i2c_m_async_transfer ::
    "'h sercom_bus \<Rightarrow> i2c_msg \<Rightarrow> ('h, 'a) i2c_state_scheme \<Rightarrow> rc \<times> ('h, 'a) i2c_state_scheme" where
  "i2c_m_async_transfer b msg s =
     (if m_len msg = 0 then (ERR_NONE, s)
      else if has_flag I2C_M_BUSY (svc_msg s) then (ERR_BUSY, s)
      else
        (let msg = set_flag I2C_M_BUSY msg;
             s = s\<lparr>svc_msg := msg\<rparr>;
             s = reg_modify b CTRLB (\<lambda>v. v OR CTRLB_SMEN) s
         in case sercom_i2c_send_address b s of
              (ret, s) \<Rightarrow>
                if ret \<noteq> 0 then (ret, msg_update (clear_flag I2C_M_BUSY) s) else (ERR_NONE, s)))"

definition i2c_m_async_register_callback ::
    "i2c_m_async_callback_type \<Rightarrow> 'f \<Rightarrow> ('h, 'f, 'a) i2c_async_state_scheme
      \<Rightarrow> rc \<times> ('h, 'f, 'a) i2c_async_state_scheme" where
  "i2c_m_async_register_callback type func s =
     (ERR_NONE,
      case type of
        I2C_M_ASYNC_DEVICE_ERROR \<Rightarrow> s\<lparr>cb_error := func\<rparr>
      | I2C_M_ASYNC_DEVICE_TX_COMPLETE \<Rightarrow> s\<lparr>cb_tx_complete := func\<rparr>
      | I2C_M_ASYNC_DEVICE_RX_COMPLETE \<Rightarrow> s\<lparr>cb_rx_complete := func\<rparr>)"

definition i2c_m_async_send_stop ::
    "'h sercom_bus \<Rightarrow> ('h, 'a) i2c_state_scheme \<Rightarrow> rc \<times> ('h, 'a) i2c_state_scheme" where
  "i2c_m_async_send_stop b s = (I2C_OK, sercom_i2c_send_stop b s)"

definition i2c_m_async_get_bytes_left :: "('h, 'a) i2c_state_scheme \<Rightarrow> int" where
  "i2c_m_async_get_bytes_left s =
     (if has_flag I2C_M_BUSY (svc_msg s) then m_len (svc_msg s) else 0)"

definition i2c_m_async_set_irq_state ::
    "'h sercom_bus \<Rightarrow> i2c_m_async_callback_type \<Rightarrow> bool \<Rightarrow> ('h, 'a) i2c_state_scheme
      \<Rightarrow> ('h, 'a) i2c_state_scheme" where
  "i2c_m_async_set_irq_state b type state s =
     (if type = I2C_M_ASYNC_DEVICE_TX_COMPLETE \<or> type = I2C_M_ASYNC_DEVICE_RX_COMPLETE then
        write_inten b MB_FLAG state (write_inten b SB_FLAG state s)
      else if type = I2C_M_ASYNC_DEVICE_ERROR then write_inten b 0x80 state s
      else s)"

subsection \<open>What register accesses leave alone\<close>

lemma reg_svc_msg [simp]:
  "svc_msg (snd (reg_read b r s)) = svc_msg s" "svc_msg (reg_write b r v s) = svc_msg s"
  "svc_msg (reg_modify b r f s) = svc_msg s"
  by (simp_all add: reg_read_def reg_write_def reg_modify_def split: prod.split)

lemma send_stop_frame [simp]:
  "imem (sercom_i2c_send_stop b s) = imem s" "svc_msg (sercom_i2c_send_stop b s) = svc_msg s"
  by (simp_all add: sercom_i2c_send_stop_def)

lemma msg_update_frame [simp]:
  "imem (msg_update f s) = imem s" "svc_msg (msg_update f s) = f (svc_msg s)"
  by (simp_all add: msg_update_def)

lemma reg_readE:
  assumes "reg_read b r s = (v, s')"
  shows "imem s' = imem s" "svc_msg s' = svc_msg s"
  using assms by (auto simp: reg_read_def split: prod.splits)

lemma wait_bus_loop_frame:
  "wait_bus_loop b n s = (ret, flags, s') \<Longrightarrow> imem s' = imem s \<and> svc_msg s' = svc_msg s"
  by (induction b n s rule: wait_bus_loop.induct)
    (auto split: prod.splits if_splits dest: reg_readE)

lemma write_address_frame:
  "imem (write_address b s) = imem s"
  "svc_msg (write_address b s) = (if m_addr (svc_msg s) AND I2C_M_TEN \<noteq> 0 \<and> has_flag I2C_M_RD (svc_msg s)
     then set_flag I2C_M_TEN (svc_msg s) else svc_msg s)"
  by (simp_all add: write_address_def Let_def case_prod_beta)

subsection \<open>Flags\<close>

lemma has_flag_simps [simp]:
  "\<not> has_flag f (clear_flag f m)"
  "m_buffer (set_flag f m) = m_buffer m" "m_len (set_flag f m) = m_len m"
  "m_addr (set_flag f m) = m_addr m"
  "m_buffer (clear_flag f m) = m_buffer m" "m_len (clear_flag f m) = m_len m"
  "m_addr (clear_flag f m) = m_addr m"
  by (simp_all add: has_flag_def clear_flag_def set_flag_def and.assoc)

lemma has_flag_fields [simp]:
  "has_flag f (m\<lparr>m_len := l\<rparr>) = has_flag f m" "has_flag f (m\<lparr>m_buffer := p\<rparr>) = has_flag f m"
  by (simp_all add: has_flag_def)

text \<open>Flags that are different bits do not disturb each other.\<close>

lemma has_flag_other:
  assumes "f AND g = 0"
  shows "has_flag f (clear_flag g m) = has_flag f m" "has_flag f (set_flag g m) = has_flag f m"
proof -
  have "(x AND NOT g) AND f = x AND f" "(x OR g) AND f = x AND f" for x
    using arg_cong [OF assms, of "\<lambda>w. bit w _"] by (auto intro!: bit_word_eqI simp: bit_simps)
  then show "has_flag f (clear_flag g m) = has_flag f m" "has_flag f (set_flag g m) = has_flag f m"
    by (simp_all add: has_flag_def clear_flag_def set_flag_def)
qed

lemmas flag_simps [simp] =
  has_flag_other [of I2C_M_BUSY I2C_M_FAIL, simplified] has_flag_other [of I2C_M_BUSY I2C_M_TEN, simplified]
  has_flag_other [of I2C_M_RD I2C_M_BUSY, simplified] has_flag_other [of I2C_M_RD I2C_M_TEN, simplified]
  has_flag_other [of I2C_M_RD I2C_M_FAIL, simplified] has_flag_other [of I2C_M_STOP I2C_M_BUSY, simplified]
  has_flag_other [of I2C_M_STOP I2C_M_TEN, simplified] has_flag_other [of I2C_M_STOP I2C_M_FAIL, simplified]
  has_flag_other [of I2C_M_TEN I2C_M_BUSY, simplified] has_flag_other [of I2C_M_TEN I2C_M_FAIL, simplified]

subsection \<open>Every return releases the driver\<close>

lemma transfer_loop_releases:
  "transfer_loop b stop ret s = Some (rc, s') \<Longrightarrow> \<not> has_flag I2C_M_BUSY (svc_msg s')"
proof (induction b stop ret s "(rc, s')" arbitrary: rc s' rule: transfer_loop.raw_induct [rotated, consumes 1])
  case (1 rec b stop ret s)
  show ?case
  proof (cases "has_flag I2C_M_BUSY (svc_msg s)")
    case False
    with 1(2) show ?thesis by simp
  next
    case True
    obtain r flags s1 where w: "sercom_i2c_sync_wait_bus b s = (r, flags, s1)" by (metis prod_cases3)
    obtain r2 s2 where a: "sercom_i2c_sync_analyse_flags b flags s1 = (r2, s2)" by fastforce
    show ?thesis
      using 1(2) True w a by (auto simp: Let_def split: if_splits dest: 1(1))
  qed
qed

text \<open>
  C27. Whatever the peripheral does, a polled transfer that returns leaves the driver not
  busy, so the next transfer can start; when the driver is busy already it returns
  \<open>I2C_ERR_BUSY\<close> and changes nothing.
\<close>

lemma transfer_releases_driver:
  "(hpl_i2c_m_sync_transfer b msg s = Some (rc, s') \<and> \<not> has_flag I2C_M_BUSY (svc_msg s)
      \<longrightarrow> \<not> has_flag I2C_M_BUSY (svc_msg s'))
    \<and> (has_flag I2C_M_BUSY (svc_msg s) \<longrightarrow> hpl_i2c_m_sync_transfer b msg s = Some (I2C_ERR_BUSY, s))"
  by (auto simp: hpl_i2c_m_sync_transfer_def Let_def split: prod.splits if_splits
      dest: transfer_loop_releases)

subsection \<open>Memory\<close>

definition buffer_range :: "i2c_msg \<Rightarrow> ptr set" where
  "buffer_range m = {m_buffer m + of_nat i | i. i < nat (m_len m)}"

lemma buffer_range_flags [simp]:
  "buffer_range (set_flag f m) = buffer_range m" "buffer_range (clear_flag f m) = buffer_range m"
  by (simp_all add: buffer_range_def)

lemma buffer_range_step:
  assumes "0 < m_len m"
  shows "buffer_range (m\<lparr>m_buffer := m_buffer m + 1, m_len := m_len m - 1\<rparr>) \<subseteq> buffer_range m"
    and "m_buffer m \<in> buffer_range m"
proof -
  show "buffer_range (m\<lparr>m_buffer := m_buffer m + 1, m_len := m_len m - 1\<rparr>) \<subseteq> buffer_range m"
  proof
    fix p assume "p \<in> buffer_range (m\<lparr>m_buffer := m_buffer m + 1, m_len := m_len m - 1\<rparr>)"
    then obtain i where "p = m_buffer m + of_nat (Suc i)" "Suc i < nat (m_len m)"
      by (auto simp: buffer_range_def)
    then show "p \<in> buffer_range m" unfolding buffer_range_def by blast
  qed
  show "m_buffer m \<in> buffer_range m" using assms unfolding buffer_range_def
    by (intro CollectI exI [of _ 0]) simp
qed

definition confined :: "('h, 'a) i2c_state_scheme \<Rightarrow> ('h, 'a) i2c_state_scheme \<Rightarrow> bool" where
  \<comment> \<open>memory changed inside the message's buffer only, and what is left of the buffer is part
      of it\<close>
  "confined s s' \<longleftrightarrow> 0 \<le> m_len (svc_msg s') \<and> buffer_range (svc_msg s') \<subseteq> buffer_range (svc_msg s)
     \<and> (\<forall>p. p \<notin> buffer_range (svc_msg s) \<longrightarrow> imem s' p = imem s p)"

lemma confined_trans: "confined s s1 \<Longrightarrow> confined s1 s2 \<Longrightarrow> confined s s2"
  by (auto simp: confined_def)

lemma confined_same:
  "imem s' = imem s \<Longrightarrow> m_buffer (svc_msg s') = m_buffer (svc_msg s) \<Longrightarrow>
     m_len (svc_msg s') = m_len (svc_msg s) \<Longrightarrow> 0 \<le> m_len (svc_msg s) \<Longrightarrow> confined s s'"
  by (simp add: confined_def buffer_range_def)

lemma confined_advance:
  assumes "0 < m_len (svc_msg s)" and "m_buffer (svc_msg s') = m_buffer (svc_msg s) + 1"
    and "m_len (svc_msg s') = m_len (svc_msg s) - 1"
    and "\<forall>p. p \<noteq> m_buffer (svc_msg s) \<longrightarrow> imem s' p = imem s p"
  shows "confined s s'"
proof -
  have "buffer_range (svc_msg s') =
      buffer_range ((svc_msg s)\<lparr>m_buffer := m_buffer (svc_msg s) + 1, m_len := m_len (svc_msg s) - 1\<rparr>)"
    by (simp add: buffer_range_def assms)
  then show ?thesis
    using buffer_range_step [OF assms(1)] assms unfolding confined_def by (metis int_one_le_iff_zero_less diff_ge_0_iff_ge)
qed

lemma analyse_mb_confined:
  assumes len: "0 \<le> m_len (svc_msg s)"
  shows "confined s (snd (analyse_mb b status s))"
proof (cases "status AND 2 \<noteq> 0 \<or> status AND 4 \<noteq> 0 \<or> has_flag I2C_M_TEN (svc_msg s) \<or> m_len (svc_msg s) = 0")
  case True
  then show ?thesis
    using len by (intro confined_same) (auto simp: analyse_mb_def Let_def case_prod_beta)
next
  case False
  then show ?thesis
    using len by (intro confined_advance) (simp_all add: analyse_mb_def Let_def)
qed

lemma analyse_sb_confined:
  assumes len: "0 \<le> m_len (svc_msg s)"
  shows "confined s (snd (analyse_sb b sclsm status s))"
proof (cases "m_len (svc_msg s) \<noteq> 0 \<and> status AND 4 = 0")
  case True
  then show ?thesis
    using len by (intro confined_advance) (simp_all add: analyse_sb_def Let_def case_prod_beta)
next
  case False
  then show ?thesis
    using len by (intro confined_same) (auto simp: analyse_sb_def)
qed

lemma analyse_flags_confined:
  assumes "0 \<le> m_len (svc_msg s)"
  shows "confined s (snd (sercom_i2c_sync_analyse_flags b flags s))"
proof -
  let ?s = "snd (reg_read b STATUS (snd (reg_read b CTRLA s)))"
  have "confined s ?s" using assms by (intro confined_same) simp_all
  moreover have "confined ?s (snd (analyse_mb b x ?s))" "confined ?s (snd (analyse_sb b y x ?s))" for x y
    using assms by (simp_all add: analyse_mb_confined analyse_sb_confined)
  ultimately show ?thesis
    by (auto simp: sercom_i2c_sync_analyse_flags_def case_prod_beta elim: confined_trans)
qed

lemma wait_bus_confined:
  assumes "sercom_i2c_sync_wait_bus b s = (r, flags, s1)" and "0 \<le> m_len (svc_msg s)"
  shows "confined s s1"
  using wait_bus_loop_frame [of b 65535 s r flags s1] assms
  by (intro confined_same) (simp_all add: sercom_i2c_sync_wait_bus_def)

lemma transfer_loop_confined:
  "transfer_loop b stop ret s = Some (rc, s') \<Longrightarrow> 0 \<le> m_len (svc_msg s) \<longrightarrow> confined s s'"
proof (induction b stop ret s "(rc, s')" arbitrary: rc s' rule: transfer_loop.raw_induct [rotated, consumes 1])
  case (1 rec b stop ret s)
  show ?case
  proof
    assume len: "0 \<le> m_len (svc_msg s)"
    show "confined s s'"
    proof (cases "has_flag I2C_M_BUSY (svc_msg s)")
      case False
      with 1(2) len show ?thesis by (auto intro: confined_same)
    next
      case True
      obtain r flags s1 where w: "sercom_i2c_sync_wait_bus b s = (r, flags, s1)" by (metis prod_cases3)
      obtain r2 s2 where a: "sercom_i2c_sync_analyse_flags b flags s1 = (r2, s2)" by fastforce
      note c1 = wait_bus_confined [OF w len]
      have len1: "0 \<le> m_len (svc_msg s1)" using c1 by (simp add: confined_def)
      have c2: "confined s1 s2" using analyse_flags_confined [OF len1, of b flags] a by simp
      have stop_c: "confined s1 (msg_update (clear_flag 256) s1)"
          "confined s1 (msg_update (clear_flag 256) (sercom_i2c_send_stop b s1))"
        using len1 by (auto intro: confined_same)
      show ?thesis
      proof (cases "r = 0")
        case False
        with 1(2) True w c1 stop_c show ?thesis
          by (auto simp: Let_def split: if_splits intro: confined_trans)
      next
        case True
        then have "rec b stop r2 s2 = Some (rc, s')" using 1(2) w a \<open>has_flag _ _\<close> by simp
        moreover have "0 \<le> m_len (svc_msg s2)" using c2 by (simp add: confined_def)
        ultimately have "confined s2 s'" using 1(1) by blast
        with c1 c2 show ?thesis by (blast intro: confined_trans)
      qed
    qed
  qed
qed

text \<open>
  C35. Whatever the peripheral does, a polled transfer that returns has changed memory only
  inside the message's buffer: the \<open>len\<close> bytes from \<open>buffer\<close> on.
\<close>

lemma transfer_writes_buffer_only:
  assumes "hpl_i2c_m_sync_transfer b msg s = Some (rc, s')" and "0 \<le> m_len msg"
    and "p \<notin> buffer_range msg"
  shows "imem s' p = imem s p"
proof (cases "has_flag I2C_M_BUSY (svc_msg s)")
  case True
  with assms show ?thesis by (simp add: hpl_i2c_m_sync_transfer_def)
next
  case False
  let ?s1 = "reg_modify b CTRLB (\<lambda>v. v OR 0x100) (s\<lparr>svc_msg := set_flag 256 msg\<rparr>)"
  obtain r flags s2 where w: "sercom_i2c_sync_wait_bus b (write_address b ?s1) = (r, flags, s2)"
    by (metis prod_cases3)
  obtain ret s3 where a: "sercom_i2c_sync_analyse_flags b flags s2 = (ret, s3)" by fastforce
  have len: "0 \<le> m_len (svc_msg (write_address b ?s1))" using assms(2) by (simp add: write_address_frame)
  have c0: "confined ?s1 (write_address b ?s1)"
    using assms(2) by (intro confined_same) (simp_all add: write_address_frame)
  note c1 = wait_bus_confined [OF w len]
  then have len2: "0 \<le> m_len (svc_msg s2)" by (simp add: confined_def)
  have "confined s2 s3" using analyse_flags_confined [OF len2, of b flags] a by simp
  with c0 c1 have c3: "confined ?s1 s3" by (blast intro: confined_trans)
  then have len3: "0 \<le> m_len (svc_msg s3)" by (simp add: confined_def)
  have "confined s3 s'"
    using assms(1) False w a len3
    by (auto simp: hpl_i2c_m_sync_transfer_def sercom_i2c_sync_send_address_def Let_def
        split: if_splits intro: confined_same dest: transfer_loop_confined)
  with c3 have "confined ?s1 s'" by (rule confined_trans)
  with assms(3) show ?thesis by (simp add: confined_def)
qed

subsection \<open>A dead bus\<close>

definition silent_bus :: "'h sercom_bus \<Rightarrow> bool" where
  \<comment> \<open>the peripheral never raises either bus flag\<close>
  "silent_bus b \<longleftrightarrow> (\<forall>h. fst (rd b INTFLAG h) AND 3 = 0)"

lemma silent_flags:
  assumes "silent_bus b"
  shows "fst (reg_read b INTFLAG s) AND 1 = 0" "fst (reg_read b INTFLAG s) AND 2 = 0"
proof -
  have e: "fst (reg_read b INTFLAG s) AND 3 = 0"
    using assms by (simp add: reg_read_def silent_bus_def case_prod_beta)
  have "fst (reg_read b INTFLAG s) AND 1 = (fst (reg_read b INTFLAG s) AND 3) AND 1"
    "fst (reg_read b INTFLAG s) AND 2 = (fst (reg_read b INTFLAG s) AND 3) AND 2"
    by (simp_all add: and.assoc)
  then show "fst (reg_read b INTFLAG s) AND 1 = 0" "fst (reg_read b INTFLAG s) AND 2 = 0"
    by (simp_all only: e and_zero_eq bit.conj_zero_left)
qed

lemma wait_silent:
  assumes "silent_bus b"
  shows "\<exists>flags s'. wait_bus_loop b n s = (I2C_ERR_BUS, flags, s') \<and> flags AND 1 = 0 \<and> flags AND 2 = 0
    \<and> imem s' = imem s \<and> svc_msg s' = svc_msg s"
proof (induction n arbitrary: s)
  case (0 s)
  obtain f s1 where r: "reg_read b INTFLAG s = (f, s1)" by fastforce
  with silent_flags [OF assms, of s] reg_readE [OF r] show ?case by simp
next
  case (Suc n)
  from Suc.IH [of "snd (reg_read b INTFLAG s)"] show ?case
    by (simp add: case_prod_beta silent_flags [OF assms])
qed

lemma silent_transfer:
  assumes "silent_bus b" and "\<not> has_flag I2C_M_BUSY (svc_msg s)"
  shows "\<exists>s'. hpl_i2c_m_sync_transfer b msg s = Some (I2C_ERR_BUS, s') \<and> imem s' = imem s
    \<and> \<not> has_flag I2C_M_BUSY (svc_msg s')"
proof -
  let ?s1 = "write_address b (reg_modify b CTRLB (\<lambda>v. v OR 0x100) (s\<lparr>svc_msg := set_flag 256 msg\<rparr>))"
  obtain flags s2 where w: "wait_bus_loop b 65535 ?s1 = (I2C_ERR_BUS, flags, s2)" "flags AND 1 = 0"
      "flags AND 2 = 0" "imem s2 = imem s" "svc_msg s2 = svc_msg ?s1"
    using wait_silent [OF assms(1), of 65535 ?s1] by (auto simp: write_address_frame)
  let ?s3 = "snd (reg_read b STATUS (snd (reg_read b CTRLA s2)))"
  have a: "sercom_i2c_sync_analyse_flags b flags s2 = (0, ?s3)"
    using w by (simp add: sercom_i2c_sync_analyse_flags_def case_prod_beta)
  obtain flags' s4 where w': "wait_bus_loop b 65535 ?s3 = (I2C_ERR_BUS, flags', s4)" "imem s4 = imem s"
    using wait_silent [OF assms(1), of 65535 ?s3] w by auto
  have "has_flag 256 (set_flag 256 m)" for m :: i2c_msg
    by (simp add: has_flag_def set_flag_def u16_eq_iff bit_simps)
  then have busy: "has_flag 256 (svc_msg ?s3)"
    using w(5) by (simp add: write_address_frame)
  show ?thesis
    using assms(2) w(1) a w' busy
    by (auto simp: hpl_i2c_m_sync_transfer_def sercom_i2c_sync_send_address_def Let_def
        sercom_i2c_sync_wait_bus_def transfer_loop.simps [of b _ 0 ?s3])
qed

text \<open>
  C36. On a bus that never answers, every transfer of an idle driver returns \<open>I2C_ERR_BUS\<close>
  after its polls, leaves memory alone and leaves the driver ready for the next transfer.
\<close>

lemma silent_bus_reports_error:
  assumes "silent_bus b" and "\<not> has_flag I2C_M_BUSY (svc_msg s)"
  shows "\<exists>s'. hpl_i2c_m_sync_transfer b msg s = Some (I2C_ERR_BUS, s') \<and> imem s' = imem s
    \<and> \<not> has_flag I2C_M_BUSY (svc_msg s')"
  using assms by (rule silent_transfer)

definition idle_i2c :: "unit \<Rightarrow> unit i2c_state" where
  "idle_i2c h = \<lparr>periph = h, imem = (\<lambda>_. 0), sercom_irq_on = False, sercom_irq_pending = False, svc_msg = \<lparr>m_addr = 0, m_flags = 0, m_len = 0, m_buffer = 0\<rparr>,
     svc_mode = 0, svc_trise = 0, i2c_hw = SERCOM0\<rparr>"

definition dead_bus :: "unit sercom_bus" where
  "dead_bus = \<lparr>rd = (\<lambda>_ h. (0, h)), wr = (\<lambda>_ _ h. h)\<rparr>"

lemma silent_bus_reports_error_witness:
  "\<exists>s'. hpl_i2c_m_sync_transfer dead_bus \<lparr>m_addr = 0x40, m_flags = 0x8001, m_len = 2, m_buffer = 0x20000100\<rparr>
      (idle_i2c ()) = Some (I2C_ERR_BUS, s') \<and> \<not> has_flag I2C_M_BUSY (svc_msg s')"
  using silent_bus_reports_error [of dead_bus "idle_i2c ()"
      "\<lparr>m_addr = 0x40, m_flags = 0x8001, m_len = 2, m_buffer = 0x20000100\<rparr>"]
  by (auto simp: silent_bus_def dead_bus_def idle_i2c_def has_flag_def)

definition sample_msg :: i2c_msg where
  "sample_msg = \<lparr>m_addr = 0x40, m_flags = 0x8001, m_len = 2, m_buffer = 0x20000100\<rparr>"

lemma dead_bus_transfer:
  "\<exists>s'. hpl_i2c_m_sync_transfer dead_bus sample_msg (idle_i2c ()) = Some (I2C_ERR_BUS, s')"
  using silent_transfer [of dead_bus "idle_i2c ()" sample_msg]
  by (auto simp: silent_bus_def dead_bus_def idle_i2c_def has_flag_def)

lemma transfer_writes_buffer_only_witness:
  "\<exists>s'. hpl_i2c_m_sync_transfer dead_bus sample_msg (idle_i2c ()) = Some (I2C_ERR_BUS, s')
     \<and> imem s' 0x20000102 = imem (idle_i2c ()) 0x20000102"
proof -
  obtain s' where s': "hpl_i2c_m_sync_transfer dead_bus sample_msg (idle_i2c ()) = Some (I2C_ERR_BUS, s')"
    using dead_bus_transfer by blast
  have "buffer_range sample_msg \<subseteq> {0x20000100, 0x20000101}"
  proof
    fix p assume "p \<in> buffer_range sample_msg"
    then obtain i where "p = 0x20000100 + of_nat i" "i < 2" by (auto simp: buffer_range_def sample_msg_def)
    then have "p = 0x20000100 + of_nat i" "i = 0 \<or> i = 1" by auto
    then show "p \<in> {0x20000100, 0x20000101}" by (elim disjE) simp_all
  qed
  then have "(0x20000102 :: ptr) \<notin> buffer_range sample_msg" by auto
  from transfer_writes_buffer_only [OF s' _ this] s' show ?thesis by (simp add: sample_msg_def)
qed

lemma transfer_releases_driver_witness:
  "\<exists>s'. hpl_i2c_m_sync_transfer dead_bus sample_msg (idle_i2c ()) = Some (I2C_ERR_BUS, s')
     \<and> \<not> has_flag I2C_M_BUSY (svc_msg s')"
proof -
  obtain s' where s': "hpl_i2c_m_sync_transfer dead_bus sample_msg (idle_i2c ()) = Some (I2C_ERR_BUS, s')"
    using dead_bus_transfer by blast
  moreover have "\<not> has_flag I2C_M_BUSY (svc_msg (idle_i2c ()))" by (simp add: idle_i2c_def has_flag_def)
  ultimately show ?thesis
    using transfer_releases_driver [of dead_bus sample_msg "idle_i2c ()" "I2C_ERR_BUS" s'] by blast
qed

end
