(* ===== verification/HalI2c.thy ===== *)
theory HalI2c
  imports SercomI2cm
begin

text \<open>
  The polled I2C driver \<open>hal/src/hal_i2c_m_sync.c\<close>: message set-up over the transfer of the
  SERCOM driver, for the one descriptor \<open>I2C_0\<close>.  \<open>io_ready\<close> says that the \<open>io\<close> member's
  \<open>read\<close> and \<open>write\<close> pointers are set.  A parameter whose address is taken lives at a stack
  address: \<open>reg_slot\<close> is that of the parameter \<open>reg\<close>.
\<close>

record 'h hal_i2c_state = "'h i2c_state" +
  slave_addr :: u16
  io_ready :: bool
  reg_slot :: ptr

definition mk_msg :: "u16 \<Rightarrow> u16 \<Rightarrow> int \<Rightarrow> ptr \<Rightarrow> i2c_msg" where
  "mk_msg addr flags len buffer = \<lparr>m_addr = addr, m_flags = flags, m_len = len, m_buffer = buffer\<rparr>"

definition i2c_m_sync_read ::
    "'h sercom_bus \<Rightarrow> ptr \<Rightarrow> u16 \<Rightarrow> ('h, 'a) hal_i2c_state_scheme \<Rightarrow> (rc \<times> ('h, 'a) hal_i2c_state_scheme) option" where
  "i2c_m_sync_read b buf n s =
     (case hpl_i2c_m_sync_transfer b (mk_msg (slave_addr s) (I2C_M_STOP OR I2C_M_RD) (int (unat n)) buf) s of
        None \<Rightarrow> None
      | Some (ret, s) \<Rightarrow> Some (if ret \<noteq> 0 then ret else int (unat n), s))"

definition i2c_m_sync_write ::
    "'h sercom_bus \<Rightarrow> ptr \<Rightarrow> u16 \<Rightarrow> ('h, 'a) hal_i2c_state_scheme \<Rightarrow> (rc \<times> ('h, 'a) hal_i2c_state_scheme) option" where
  "i2c_m_sync_write b buf n s =
     (case hpl_i2c_m_sync_transfer b (mk_msg (slave_addr s) I2C_M_STOP (int (unat n)) buf) s of
        None \<Rightarrow> None
      | Some (ret, s) \<Rightarrow> Some (if ret \<noteq> 0 then ret else int (unat n), s))"

definition i2c_m_sync_init ::
    "'h sercom_bus \<Rightarrow> i2cm_configuration list \<Rightarrow> ptr \<Rightarrow> ('h, 'a) hal_i2c_state_scheme
      \<Rightarrow> (rc \<times> ('h, 'a) hal_i2c_state_scheme) option" where
  "i2c_m_sync_init b i2cms hw s =
     (case hpl_i2c_m_sync_init b i2cms hw s of
        None \<Rightarrow> None
      | Some (init_status, s) \<Rightarrow>
          if init_status \<noteq> 0 then Some (init_status, s) else Some (ERR_NONE, s\<lparr>io_ready := True\<rparr>))"

definition i2c_m_sync_deinit ::
    "'h sercom_bus \<Rightarrow> ('h, 'a) hal_i2c_state_scheme \<Rightarrow> rc \<times> ('h, 'a) hal_i2c_state_scheme" where
  "i2c_m_sync_deinit b s =
     (case hpl_i2c_m_sync_deinit b s of
        (status, s) \<Rightarrow> if status \<noteq> 0 then (status, s) else (ERR_NONE, s\<lparr>io_ready := False\<rparr>))"

definition i2c_m_sync_enable ::
    "'h sercom_bus \<Rightarrow> ('h, 'a) hal_i2c_state_scheme \<Rightarrow> rc \<times> ('h, 'a) hal_i2c_state_scheme" where
  "i2c_m_sync_enable b s = hpl_i2c_m_sync_enable b s"

definition i2c_m_sync_disable ::
    "'h sercom_bus \<Rightarrow> ('h, 'a) hal_i2c_state_scheme \<Rightarrow> rc \<times> ('h, 'a) hal_i2c_state_scheme" where
  "i2c_m_sync_disable b s = hpl_i2c_m_sync_disable b s"

definition i2c_m_sync_set_slaveaddr ::
    "u16 \<Rightarrow> u32 \<Rightarrow> ('h, 'a) hal_i2c_state_scheme \<Rightarrow> int \<times> ('h, 'a) hal_i2c_state_scheme" where
  "i2c_m_sync_set_slaveaddr addr addr_len s =
     (let a = (addr AND 0x3FF) OR (ucast addr_len AND I2C_M_TEN) in (uint a, s\<lparr>slave_addr := a\<rparr>))"

definition i2c_m_sync_cmd ::
    "'h sercom_bus \<Rightarrow> u16 \<Rightarrow> u8 \<Rightarrow> ptr \<Rightarrow> u8 \<Rightarrow> ('h, 'a) hal_i2c_state_scheme
      \<Rightarrow> (rc \<times> ('h, 'a) hal_i2c_state_scheme) option" where
  \<comment> \<open>the common body of the two command functions, which differ in the flags of the
      second message\<close>
  "i2c_m_sync_cmd b flags reg buffer len s =
     (let s = s\<lparr>imem := (imem s)(reg_slot s := reg)\<rparr> in
      case hpl_i2c_m_sync_transfer b (mk_msg (slave_addr s) 0 1 (reg_slot s)) s of
        None \<Rightarrow> None
      | Some (ret, s) \<Rightarrow>
          if ret \<noteq> 0 then Some (ret, s)
          else
            (case hpl_i2c_m_sync_transfer b (mk_msg (slave_addr s) flags (int (unat len)) buffer) s of
               None \<Rightarrow> None
             | Some (ret, s) \<Rightarrow> if ret \<noteq> 0 then Some (ret, s) else Some (ERR_NONE, s)))"

definition i2c_m_sync_cmd_write ::
    "'h sercom_bus \<Rightarrow> u8 \<Rightarrow> ptr \<Rightarrow> u8 \<Rightarrow> ('h, 'a) hal_i2c_state_scheme
      \<Rightarrow> (rc \<times> ('h, 'a) hal_i2c_state_scheme) option" where
  "i2c_m_sync_cmd_write b reg buffer len s = i2c_m_sync_cmd b I2C_M_STOP reg buffer len s"

definition i2c_m_sync_cmd_read ::
    "'h sercom_bus \<Rightarrow> u8 \<Rightarrow> ptr \<Rightarrow> u8 \<Rightarrow> ('h, 'a) hal_i2c_state_scheme
      \<Rightarrow> (rc \<times> ('h, 'a) hal_i2c_state_scheme) option" where
  "i2c_m_sync_cmd_read b reg buffer len s = i2c_m_sync_cmd b (I2C_M_STOP OR I2C_M_RD) reg buffer len s"

definition i2c_m_sync_transfer ::
    "'h sercom_bus \<Rightarrow> i2c_msg \<Rightarrow> ('h, 'a) hal_i2c_state_scheme \<Rightarrow> (rc \<times> ('h, 'a) hal_i2c_state_scheme) option" where
  "i2c_m_sync_transfer b msg s = hpl_i2c_m_sync_transfer b msg s"

definition i2c_m_sync_send_stop ::
    "'h sercom_bus \<Rightarrow> ('h, 'a) hal_i2c_state_scheme \<Rightarrow> rc \<times> ('h, 'a) hal_i2c_state_scheme" where
  "i2c_m_sync_send_stop b s = hpl_i2c_m_sync_send_stop b s"

definition i2c_m_sync_get_io_descriptor :: "ptr \<Rightarrow> rc \<times> ptr" where
  \<comment> \<open>the address of the \<open>io\<close> member\<close>
  "i2c_m_sync_get_io_descriptor io = (ERR_NONE, io)"

subsection \<open>The reference peripheral\<close>

text \<open>
  A SERCOM in I2C master mode with one device on the bus that has 16-bit registers behind
  an 8-bit pointer (the INA3221, address 0x40), as their data sheets describe them: a
  write addresses the pointer with its first byte and a register, high byte first, with
  the next two; a read gives the register at the pointer, high byte first.  Writing ADDR
  or DATA clears the bus flags; the next flag is raised some time later, here at the next
  read of INTFLAG.  The command bits of CTRLB read as zero; with SMEN set and ACKACT
  clear, reading DATA acknowledges the byte and fetches the next one.
\<close>

datatype ina_phase = Ina_idle | Ina_write nat | Ina_read nat

record ina =
  ina_regs :: "u8 \<Rightarrow> u16"
  ina_ptr :: u8
  ina_hi :: u8
  ina_phase :: ina_phase
  ina_data :: u8
  ina_nack :: bool
  ina_intflag :: u32
  ina_next :: u32
  ina_ctrla :: u32
  ina_ctrlb :: u32
  ina_addr :: u32

definition ina_byte :: "ina \<Rightarrow> nat \<Rightarrow> u8" where
  "ina_byte h k = (if even k then ucast (drop_bit 8 (ina_regs h (ina_ptr h))) else ucast (ina_regs h (ina_ptr h)))"

definition ina_rd :: "sercom_reg \<Rightarrow> ina \<Rightarrow> u32 \<times> ina" where
  "ina_rd r h =
     (case r of
        CTRLA \<Rightarrow> (ina_ctrla h, h)
      | CTRLB \<Rightarrow> (ina_ctrlb h, h)
      | ADDR \<Rightarrow> (ina_addr h, h)
      | INTFLAG \<Rightarrow> (let f = ina_intflag h OR ina_next h in (f, h\<lparr>ina_intflag := f, ina_next := 0\<rparr>))
      | STATUS \<Rightarrow> (if ina_nack h then 4 else 0, h)
      | DATA \<Rightarrow>
          (ucast (ina_data h),
           case ina_phase h of
             Ina_read k \<Rightarrow>
               if bit (ina_ctrlb h) 8 \<and> \<not> bit (ina_ctrlb h) 18
               then h\<lparr>ina_phase := Ina_read (Suc k), ina_data := ina_byte h (Suc k), ina_intflag := 0, ina_next := 2\<rparr>
               else h\<lparr>ina_phase := Ina_idle, ina_intflag := 0\<rparr>
           | _ \<Rightarrow> h)
      | _ \<Rightarrow> (0, h))"

definition ina_wr :: "sercom_reg \<Rightarrow> u32 \<Rightarrow> ina \<Rightarrow> ina" where
  "ina_wr r v h =
     (case r of
        CTRLA \<Rightarrow> h\<lparr>ina_ctrla := v\<rparr>
      | CTRLB \<Rightarrow> (let h = h\<lparr>ina_ctrlb := v AND NOT 0x30000\<rparr> in
                  if bit v 16 \<and> bit v 17 then h\<lparr>ina_phase := Ina_idle\<rparr> else h)
      | INTFLAG \<Rightarrow> h\<lparr>ina_intflag := ina_intflag h AND NOT v\<rparr>
      | ADDR \<Rightarrow>
          (let h = h\<lparr>ina_addr := v, ina_intflag := 0\<rparr> in
           if drop_bit 1 v AND 0x7F \<noteq> 0x40 then h\<lparr>ina_nack := True, ina_phase := Ina_idle, ina_next := 1\<rparr>
           else if \<not> bit v 0 then h\<lparr>ina_nack := False, ina_phase := Ina_write 0, ina_next := 1\<rparr>
           else h\<lparr>ina_nack := False, ina_phase := Ina_read 0, ina_data := ina_byte h 0, ina_next := 2\<rparr>)
      | DATA \<Rightarrow>
          (let h = h\<lparr>ina_intflag := 0, ina_next := 1\<rparr>; d = ucast v in
           case ina_phase h of
             Ina_write 0 \<Rightarrow> h\<lparr>ina_ptr := d, ina_phase := Ina_write 1\<rparr>
           | Ina_write (Suc 0) \<Rightarrow> h\<lparr>ina_hi := d, ina_phase := Ina_write 2\<rparr>
           | Ina_write (Suc (Suc 0)) \<Rightarrow>
               h\<lparr>ina_regs := (ina_regs h)(ina_ptr h := push_bit 8 (ucast (ina_hi h)) OR ucast d), ina_phase := Ina_write 3\<rparr>
           | _ \<Rightarrow> h)
      | _ \<Rightarrow> h)"

definition ina_bus :: "ina sercom_bus" where
  "ina_bus = \<lparr>rd = ina_rd, wr = ina_wr\<rparr>"

lemma ina_bus_simps [simp]: "rd ina_bus = ina_rd" "wr ina_bus = ina_wr"
  by (simp_all add: ina_bus_def)

subsection \<open>Driver steps on the reference peripheral\<close>

definition ina_ready :: "ina \<Rightarrow> bool" where
  \<comment> \<open>standard clock stretching and speed, as \<open>i2c_m_sync_init_impl\<close> sets them\<close>
  "ina_ready h \<longleftrightarrow> ina_ctrla h AND 0x8000000 = 0 \<and> ina_addr h AND 0x4000 = 0
     \<and> \<not> bit (ina_ctrlb h) 16 \<and> \<not> bit (ina_ctrlb h) 17"

lemma periph_self [simp]: "s\<lparr>periph := periph s\<rparr> = s"
  by simp

lemma ina_reg_read [simp]:
  "reg_read ina_bus CTRLA s = (ina_ctrla (periph s), s)"
  "reg_read ina_bus ADDR s = (ina_addr (periph s), s)"
  "reg_read ina_bus STATUS s = (if ina_nack (periph s) then 4 else 0, s)"
  "reg_read ina_bus DATA s = (ucast (ina_data (periph s)), s\<lparr>periph := snd (ina_rd DATA (periph s))\<rparr>)"
  by (simp_all add: reg_read_def ina_rd_def)

lemma ina_reg_write [simp]:
  "reg_write ina_bus r v s = s\<lparr>periph := ina_wr r v (periph s)\<rparr>"
  "reg_modify ina_bus CTRLB f s = s\<lparr>periph := ina_wr CTRLB (f (ina_ctrlb (periph s))) (periph s)\<rparr>"
  by (simp_all add: reg_write_def reg_modify_def reg_read_def ina_rd_def)

lemma ina_wr_CTRLB [simp]:
  "ina_regs (ina_wr CTRLB v h) = ina_regs h" "ina_ptr (ina_wr CTRLB v h) = ina_ptr h"
  "ina_data (ina_wr CTRLB v h) = ina_data h" "ina_nack (ina_wr CTRLB v h) = ina_nack h"
  "ina_intflag (ina_wr CTRLB v h) = ina_intflag h" "ina_next (ina_wr CTRLB v h) = ina_next h"
  "ina_ctrla (ina_wr CTRLB v h) = ina_ctrla h" "ina_addr (ina_wr CTRLB v h) = ina_addr h"
  "ina_ctrlb (ina_wr CTRLB v h) = v AND NOT 0x30000" "ina_hi (ina_wr CTRLB v h) = ina_hi h"
  "ina_phase (ina_wr CTRLB v h) = (if bit v 16 \<and> bit v 17 then Ina_idle else ina_phase h)"
  "ina_byte (ina_wr CTRLB v h) = ina_byte h"
  by (simp_all add: ina_wr_def Let_def ina_byte_def fun_eq_iff)

lemma ina_wr_INTFLAG [simp]:
  "ina_regs (ina_wr INTFLAG v h) = ina_regs h" "ina_ptr (ina_wr INTFLAG v h) = ina_ptr h"
  "ina_data (ina_wr INTFLAG v h) = ina_data h" "ina_nack (ina_wr INTFLAG v h) = ina_nack h"
  "ina_intflag (ina_wr INTFLAG v h) = ina_intflag h AND NOT v" "ina_next (ina_wr INTFLAG v h) = ina_next h"
  "ina_ctrla (ina_wr INTFLAG v h) = ina_ctrla h" "ina_addr (ina_wr INTFLAG v h) = ina_addr h"
  "ina_ctrlb (ina_wr INTFLAG v h) = ina_ctrlb h" "ina_phase (ina_wr INTFLAG v h) = ina_phase h"
  "ina_byte (ina_wr INTFLAG v h) = ina_byte h" "ina_hi (ina_wr INTFLAG v h) = ina_hi h"
  by (simp_all add: ina_wr_def ina_byte_def fun_eq_iff)

lemma ina_wr_ADDR [simp]:
  "ina_regs (ina_wr ADDR v h) = ina_regs h" "ina_ptr (ina_wr ADDR v h) = ina_ptr h"
  "ina_intflag (ina_wr ADDR v h) = 0" "ina_ctrla (ina_wr ADDR v h) = ina_ctrla h"
  "ina_addr (ina_wr ADDR v h) = v" "ina_ctrlb (ina_wr ADDR v h) = ina_ctrlb h"
  "ina_byte (ina_wr ADDR v h) = ina_byte h" "ina_hi (ina_wr ADDR v h) = ina_hi h"
  "ina_nack (ina_wr ADDR 0x80 h) = False" "ina_nack (ina_wr ADDR 0x81 h) = False"
  "ina_next (ina_wr ADDR 0x80 h) = 1" "ina_next (ina_wr ADDR 0x81 h) = 2"
  "ina_phase (ina_wr ADDR 0x80 h) = Ina_write 0" "ina_phase (ina_wr ADDR 0x81 h) = Ina_read 0"
  "ina_data (ina_wr ADDR 0x81 h) = ina_byte h 0"
  by (simp_all add: ina_wr_def Let_def ina_byte_def fun_eq_iff bit_simps)

lemma ina_wr_DATA [simp]:
  "ina_ctrla (ina_wr DATA v h) = ina_ctrla h" "ina_addr (ina_wr DATA v h) = ina_addr h"
  "ina_ctrlb (ina_wr DATA v h) = ina_ctrlb h" "ina_nack (ina_wr DATA v h) = ina_nack h"
  "ina_intflag (ina_wr DATA v h) = 0" "ina_next (ina_wr DATA v h) = 1"
  by (auto simp: ina_wr_def Let_def split: ina_phase.splits nat.splits)

lemma ina_wr_DATA_pointer [simp]:
  "ina_phase h = Ina_write 0 \<Longrightarrow> ina_regs (ina_wr DATA v h) = ina_regs h"
  "ina_phase h = Ina_write 0 \<Longrightarrow> ina_ptr (ina_wr DATA v h) = ucast v"
  "ina_phase h = Ina_write 0 \<Longrightarrow> ina_phase (ina_wr DATA v h) = Ina_write 1"
  "ina_phase h = Ina_write 1 \<Longrightarrow> ina_regs (ina_wr DATA v h) = ina_regs h"
  "ina_phase h = Ina_write 1 \<Longrightarrow> ina_ptr (ina_wr DATA v h) = ina_ptr h"
  by (simp_all add: ina_wr_def Let_def)

lemma ina_rd_DATA [simp]:
  "ina_regs (snd (ina_rd DATA h)) = ina_regs h" "ina_ptr (snd (ina_rd DATA h)) = ina_ptr h"
  "ina_ctrla (snd (ina_rd DATA h)) = ina_ctrla h" "ina_addr (snd (ina_rd DATA h)) = ina_addr h"
  "ina_ctrlb (snd (ina_rd DATA h)) = ina_ctrlb h" "ina_nack (snd (ina_rd DATA h)) = ina_nack h"
  by (simp_all add: ina_rd_def split: ina_phase.split)

lemma ina_rd_DATA_ack:
  assumes "ina_phase h = Ina_read k" and "bit (ina_ctrlb h) 8" and "\<not> bit (ina_ctrlb h) 18"
  shows "ina_phase (snd (ina_rd DATA h)) = Ina_read (Suc k)"
    "ina_data (snd (ina_rd DATA h)) = ina_byte h (Suc k)"
    "ina_intflag (snd (ina_rd DATA h)) = 0" "ina_next (snd (ina_rd DATA h)) = 2"
  using assms by (simp_all add: ina_rd_def)

lemma wait_bus_flag:
  assumes "reg_read b INTFLAG s = (f, s')" and "f AND 1 \<noteq> 0 \<or> f AND 2 \<noteq> 0"
  shows "sercom_i2c_sync_wait_bus b s = (0, f, s')"
proof -
  have "wait_bus_loop b (Suc 65534) s = (0, f, s')"
    unfolding wait_bus_loop.simps using assms by auto
  then show ?thesis by (simp add: sercom_i2c_sync_wait_bus_def del: wait_bus_loop.simps)
qed

definition raised :: "ina \<Rightarrow> ina" where
  "raised h = h\<lparr>ina_intflag := ina_next h, ina_next := 0\<rparr>"

lemma raised_simps [simp]:
  "ina_regs (raised h) = ina_regs h" "ina_ptr (raised h) = ina_ptr h"
  "ina_data (raised h) = ina_data h" "ina_nack (raised h) = ina_nack h"
  "ina_ctrla (raised h) = ina_ctrla h" "ina_addr (raised h) = ina_addr h"
  "ina_ctrlb (raised h) = ina_ctrlb h" "ina_phase (raised h) = ina_phase h"
  "ina_byte (raised h) = ina_byte h" "ina_next (raised h) = 0" "ina_hi (raised h) = ina_hi h"
  by (simp_all add: raised_def ina_byte_def fun_eq_iff)

lemma ina_wait:
  assumes "ina_intflag (periph s) = 0" and "ina_next (periph s) = f" and "f = 1 \<or> f = 2"
  shows "sercom_i2c_sync_wait_bus ina_bus s = (0, f, s\<lparr>periph := raised (periph s)\<rparr>)"
  by (rule wait_bus_flag) (use assms in \<open>auto simp: reg_read_def ina_rd_def raised_def\<close>)

lemma has_flag_mk [simp]: "has_flag f (mk_msg a g l p) \<longleftrightarrow> g AND f \<noteq> 0"
  by (simp add: has_flag_def mk_msg_def)

lemma has_flag_set [simp]: "f \<noteq> 0 \<Longrightarrow> has_flag f (set_flag f m)"
proof -
  assume "f \<noteq> 0"
  moreover have "(m_flags m OR f) AND f = f" by (rule bit_word_eqI) (auto simp: bit_simps)
  ultimately show ?thesis by (simp add: has_flag_def set_flag_def)
qed

lemma mk_msg_sel [simp]:
  "m_len (mk_msg a g l p) = l" "m_addr (mk_msg a g l p) = a" "m_buffer (mk_msg a g l p) = p"
  "m_flags (mk_msg a g l p) = g"
  by (simp_all add: mk_msg_def)

lemma ina_write_address:
  assumes "ina_ready (periph s)" and "m_addr (svc_msg s) = 0x40"
  shows "write_address ina_bus s = s\<lparr>periph := ina_wr ADDR (if has_flag I2C_M_RD (svc_msg s) then 0x81 else 0x80)
     (ina_wr CTRLB (ina_ctrlb (periph s) AND NOT 0x40000) (periph s))\<rparr>"
  using assms by (simp add: write_address_def ina_ready_def)

lemma msg_update_simps [simp]:
  "periph (msg_update f s) = periph s" "svc_msg (s\<lparr>periph := h\<rparr>) = svc_msg s"
  by (simp_all add: msg_update_def)

lemma ina_send_byte:
  assumes "ina_nack (periph s) = False" and "\<not> has_flag I2C_M_TEN (svc_msg s)" and "m_len (svc_msg s) \<noteq> 0"
  shows "sercom_i2c_sync_analyse_flags ina_bus 1 s =
    (0, s\<lparr>periph := ina_wr DATA (ucast (imem s (m_buffer (svc_msg s)))) (periph s),
          svc_msg := (svc_msg s)\<lparr>m_buffer := m_buffer (svc_msg s) + 1, m_len := m_len (svc_msg s) - 1\<rparr>\<rparr>)"
  using assms by (simp add: sercom_i2c_sync_analyse_flags_def analyse_mb_def Let_def msg_update_def)

lemma ina_send_done:
  assumes "ina_nack (periph s) = False" and "\<not> has_flag I2C_M_TEN (svc_msg s)" and "m_len (svc_msg s) = 0"
  shows "sercom_i2c_sync_analyse_flags ina_bus 1 s =
    (0, s\<lparr>periph := (if has_flag I2C_M_STOP (svc_msg s)
            then ina_wr CTRLB (ina_ctrlb (periph s) OR 0x30000) (periph s) else periph s),
          svc_msg := clear_flag I2C_M_BUSY (svc_msg s)\<rparr>)"
  using assms
  by (simp add: sercom_i2c_sync_analyse_flags_def analyse_mb_def Let_def msg_update_def sercom_i2c_send_stop_def)

lemma transfer_loop_step:
  assumes "has_flag I2C_M_BUSY (svc_msg s)" and "sercom_i2c_sync_wait_bus b s = (0, flags, s1)"
    and "sercom_i2c_sync_analyse_flags b flags s1 = (ret, s2)"
  shows "transfer_loop b stop r s = transfer_loop b stop ret s2"
  using assms by (subst transfer_loop.simps) simp

lemma transfer_loop_exit: "\<not> has_flag I2C_M_BUSY (svc_msg s) \<Longrightarrow> transfer_loop b stop r s = Some (r, s)"
  by (subst transfer_loop.simps) simp

lemma ina_write_pointer:
  assumes idle: "\<not> has_flag I2C_M_BUSY (svc_msg s)" and ready: "ina_ready (periph s)"
  shows "\<exists>h m. hpl_i2c_m_sync_transfer ina_bus (mk_msg 0x40 0 1 p) s
      = Some (0, s\<lparr>periph := h, svc_msg := m\<rparr>)
    \<and> \<not> has_flag I2C_M_BUSY m \<and> ina_ready h
    \<and> ina_regs h = ina_regs (periph s) \<and> ina_ptr h = imem s p"
proof -
  let ?m = "set_flag 0x100 (mk_msg 0x40 0 1 p)"
  define h1 where "h1 = ina_wr CTRLB (ina_ctrlb (periph s) OR 0x100) (periph s)"
  define h2 where "h2 = raised (ina_wr ADDR 0x80 (ina_wr CTRLB (ina_ctrlb h1 AND NOT 0x40000) h1))"
  define h3 where "h3 = raised (ina_wr DATA (ucast (imem s p)) h2)"
  have h1: "ina_ready h1" using ready by (simp add: h1_def ina_ready_def bit_simps)
  have h3: "ina_ready h3" "ina_regs h3 = ina_regs (periph s)" "ina_ptr h3 = imem s p" "ina_nack h3 = False"
    using ready by (simp_all add: h3_def h2_def h1_def ina_ready_def bit_simps)
  let ?s1 = "s\<lparr>svc_msg := ?m, periph := h1\<rparr>"
  have w1: "sercom_i2c_sync_wait_bus ina_bus (write_address ina_bus ?s1) = (0, 1, ?s1\<lparr>periph := h2\<rparr>)"
    using h1 by (simp add: ina_write_address ina_wait h2_def)
  have a1: "sercom_i2c_sync_analyse_flags ina_bus 1 (?s1\<lparr>periph := h2\<rparr>) =
      (0, ?s1\<lparr>periph := ina_wr DATA (ucast (imem s p)) h2, svc_msg := ?m\<lparr>m_buffer := p + 1, m_len := 0\<rparr>\<rparr>)"
    by (subst ina_send_byte) (simp_all add: h2_def)
  let ?s2 = "?s1\<lparr>periph := ina_wr DATA (ucast (imem s p)) h2, svc_msg := ?m\<lparr>m_buffer := p + 1, m_len := 0\<rparr>\<rparr>"
  have w2: "sercom_i2c_sync_wait_bus ina_bus ?s2 = (0, 1, ?s2\<lparr>periph := h3\<rparr>)"
    by (simp add: ina_wait h3_def)
  have a2: "sercom_i2c_sync_analyse_flags ina_bus 1 (?s2\<lparr>periph := h3\<rparr>) =
      (0, ?s2\<lparr>periph := h3, svc_msg := clear_flag 0x100 (?m\<lparr>m_buffer := p + 1, m_len := 0\<rparr>)\<rparr>)"
    using h3 by (subst ina_send_done) simp_all
  have "transfer_loop ina_bus False 0 ?s2
      = Some (0, ?s2\<lparr>periph := h3, svc_msg := clear_flag 0x100 (?m\<lparr>m_buffer := p + 1, m_len := 0\<rparr>)\<rparr>)"
    by (subst transfer_loop_step [OF _ w2 a2]) (simp_all add: transfer_loop_exit)
  then have "hpl_i2c_m_sync_transfer ina_bus (mk_msg 0x40 0 1 p) s
      = Some (0, s\<lparr>periph := h3, svc_msg := clear_flag 0x100 (?m\<lparr>m_buffer := p + 1, m_len := 0\<rparr>)\<rparr>)"
    using idle w1 a1
    by (simp add: hpl_i2c_m_sync_transfer_def Let_def sercom_i2c_sync_send_address_def h1_def)
  with h3 show ?thesis
    by (intro exI [of _ h3] exI [of _ "clear_flag 0x100 (?m\<lparr>m_buffer := p + 1, m_len := 0\<rparr>)"]) simp
qed

lemma ina_receive:
  assumes "ina_nack (periph s) = False" and "ina_ctrla (periph s) AND 0x8000000 = 0" and "1 < m_len (svc_msg s)"
  shows "sercom_i2c_sync_analyse_flags ina_bus 2 s =
    (0, s\<lparr>periph := ina_wr INTFLAG 2 (snd (ina_rd DATA (periph s))),
          imem := (imem s)(m_buffer (svc_msg s) := ina_data (periph s)),
          svc_msg := (svc_msg s)\<lparr>m_len := m_len (svc_msg s) - 1, m_buffer := m_buffer (svc_msg s) + 1\<rparr>\<rparr>)"
  using assms by (simp add: sercom_i2c_sync_analyse_flags_def analyse_sb_def Let_def msg_update_def)

lemma ina_receive_last:
  assumes "ina_nack (periph s) = False" and "ina_ctrla (periph s) AND 0x8000000 = 0" and "m_len (svc_msg s) = 1"
    and "has_flag I2C_M_STOP (svc_msg s)" and "ina_ready (periph s)"
  shows "\<exists>h m. sercom_i2c_sync_analyse_flags ina_bus 2 s =
      (0, s\<lparr>periph := h, imem := (imem s)(m_buffer (svc_msg s) := ina_data (periph s)), svc_msg := m\<rparr>)
    \<and> \<not> has_flag I2C_M_BUSY m \<and> ina_ready h \<and> ina_regs h = ina_regs (periph s)
    \<and> ina_ptr h = ina_ptr (periph s)"
proof -
  define h1 where "h1 = ina_wr CTRLB (ina_ctrlb (periph s) OR 0x40000) (periph s)"
  define h2 where "h2 = ina_wr CTRLB (ina_ctrlb h1 AND NOT 0x100) h1"
  define h3 where "h3 = ina_wr CTRLB (ina_ctrlb h2 OR 0x30000) h2"
  define h4 where "h4 = ina_wr INTFLAG 2 (snd (ina_rd DATA h3))"
  have h: "ina_ready h4" "ina_regs h4 = ina_regs (periph s)" "ina_ptr h4 = ina_ptr (periph s)"
    using assms(5) by (simp_all add: h4_def h3_def h2_def h1_def ina_ready_def bit_simps)
  let ?m = "(clear_flag 0x100 ((svc_msg s)\<lparr>m_len := 0\<rparr>))\<lparr>m_buffer := m_buffer (svc_msg s) + 1\<rparr>"
  have "sercom_i2c_sync_analyse_flags ina_bus 2 s =
      (0, s\<lparr>periph := h4, imem := (imem s)(m_buffer (svc_msg s) := ina_data (periph s)), svc_msg := ?m\<rparr>)"
    using assms
    by (simp add: sercom_i2c_sync_analyse_flags_def analyse_sb_def Let_def msg_update_def
        sercom_i2c_send_stop_def h4_def h3_def h2_def h1_def)
  with h show ?thesis by (intro exI [of _ h4] exI [of _ ?m]) simp
qed

lemma ina_read_register:
  assumes idle: "\<not> has_flag I2C_M_BUSY (svc_msg s)" and ready: "ina_ready (periph s)"
  shows "\<exists>h m. hpl_i2c_m_sync_transfer ina_bus (mk_msg 0x40 (I2C_M_STOP OR I2C_M_RD) 2 p) s
      = Some (0, s\<lparr>periph := h, svc_msg := m,
          imem := (imem s)(p := ina_byte (periph s) 0, p + 1 := ina_byte (periph s) 1)\<rparr>)
    \<and> \<not> has_flag I2C_M_BUSY m \<and> ina_ready h \<and> ina_regs h = ina_regs (periph s)
    \<and> ina_ptr h = ina_ptr (periph s)"
proof -
  let ?m = "set_flag 0x100 (mk_msg 0x40 0x8001 2 p)"
  let ?m2 = "?m\<lparr>m_len := 1, m_buffer := p + 1\<rparr>"
  define h1 where "h1 = ina_wr CTRLB (ina_ctrlb (periph s) OR 0x100) (periph s)"
  define h2 where "h2 = raised (ina_wr ADDR 0x81 (ina_wr CTRLB (ina_ctrlb h1 AND NOT 0x40000) h1))"
  define h3 where "h3 = ina_wr INTFLAG 2 (snd (ina_rd DATA h2))"
  have h1: "ina_ready h1" using ready by (simp add: h1_def ina_ready_def bit_simps)
  have h2: "ina_ready h2" "ina_nack h2 = False" "ina_phase h2 = Ina_read 0" "ina_data h2 = ina_byte (periph s) 0"
      "ina_byte h2 = ina_byte (periph s)" "bit (ina_ctrlb h2) 8" "\<not> bit (ina_ctrlb h2) 18"
      "ina_regs h2 = ina_regs (periph s)" "ina_ptr h2 = ina_ptr (periph s)"
    using ready by (simp_all add: h2_def h1_def ina_ready_def bit_simps)
  note ack = ina_rd_DATA_ack [OF h2(3,6,7)]
  have h3: "ina_ready h3" "ina_nack h3 = False" "ina_data h3 = ina_byte (periph s) 1" "ina_intflag h3 = 0"
      "ina_next h3 = 2" "ina_regs h3 = ina_regs (periph s)" "ina_ptr h3 = ina_ptr (periph s)"
    using h2 by (simp_all add: h3_def ack ina_ready_def)
  let ?s1 = "s\<lparr>svc_msg := ?m, periph := h1\<rparr>"
  have w1: "sercom_i2c_sync_wait_bus ina_bus (write_address ina_bus ?s1) = (0, 2, ?s1\<lparr>periph := h2\<rparr>)"
    using h1 by (simp add: ina_write_address ina_wait h2_def)
  let ?s2 = "?s1\<lparr>periph := h3, imem := (imem s)(p := ina_byte (periph s) 0), svc_msg := ?m2\<rparr>"
  have a1: "sercom_i2c_sync_analyse_flags ina_bus 2 (?s1\<lparr>periph := h2\<rparr>) = (0, ?s2)"
    using h2 by (subst ina_receive) (simp_all add: ina_ready_def h3_def)
  have w2: "sercom_i2c_sync_wait_bus ina_bus ?s2 = (0, 2, ?s2\<lparr>periph := raised h3\<rparr>)"
    using h3 by (simp add: ina_wait)
  have r3: "ina_ready (raised h3)" using h3 by (simp add: ina_ready_def)
  obtain h m where a2: "sercom_i2c_sync_analyse_flags ina_bus 2 (?s2\<lparr>periph := raised h3\<rparr>) =
      (0, ?s2\<lparr>periph := h, imem := (imem s)(p := ina_byte (periph s) 0, p + 1 := ina_byte (periph s) 1), svc_msg := m\<rparr>)"
    and hm: "\<not> has_flag I2C_M_BUSY m" "ina_ready h" "ina_regs h = ina_regs (periph s)" "ina_ptr h = ina_ptr (periph s)"
    using ina_receive_last [of "?s2\<lparr>periph := raised h3\<rparr>"] h3 r3 by (auto simp: ina_ready_def)
  have "transfer_loop ina_bus True 0 ?s2 = Some (0, ?s2\<lparr>periph := h,
      imem := (imem s)(p := ina_byte (periph s) 0, p + 1 := ina_byte (periph s) 1), svc_msg := m\<rparr>)"
    using hm by (subst transfer_loop_step [OF _ w2 a2]) (simp_all add: transfer_loop_exit)
  then have "hpl_i2c_m_sync_transfer ina_bus (mk_msg 0x40 (I2C_M_STOP OR I2C_M_RD) 2 p) s = Some (0, s\<lparr>periph := h,
      svc_msg := m, imem := (imem s)(p := ina_byte (periph s) 0, p + 1 := ina_byte (periph s) 1)\<rparr>)"
    using idle w1 a1
    by (simp add: hpl_i2c_m_sync_transfer_def Let_def sercom_i2c_sync_send_address_def h1_def)
  with hm show ?thesis by blast
qed

lemma ina_write_two:
  assumes idle: "\<not> has_flag I2C_M_BUSY (svc_msg s)" and ready: "ina_ready (periph s)"
  shows "\<exists>h m. hpl_i2c_m_sync_transfer ina_bus (mk_msg 0x40 I2C_M_STOP 2 p) s
      = Some (0, s\<lparr>periph := h, svc_msg := m\<rparr>)
    \<and> \<not> has_flag I2C_M_BUSY m \<and> ina_regs h = ina_regs (periph s) \<and> ina_ptr h = imem s p"
proof -
  let ?m = "set_flag 0x100 (mk_msg 0x40 0x8000 2 p)"
  let ?m2 = "?m\<lparr>m_buffer := p + 1, m_len := 1\<rparr>"
  let ?m3 = "?m\<lparr>m_buffer := p + 1 + 1, m_len := 0\<rparr>"
  define h1 where "h1 = ina_wr CTRLB (ina_ctrlb (periph s) OR 0x100) (periph s)"
  define h2 where "h2 = raised (ina_wr ADDR 0x80 (ina_wr CTRLB (ina_ctrlb h1 AND NOT 0x40000) h1))"
  define h3 where "h3 = raised (ina_wr DATA (ucast (imem s p)) h2)"
  define h4 where "h4 = raised (ina_wr DATA (ucast (imem s (p + 1))) h3)"
  define h5 where "h5 = ina_wr CTRLB (ina_ctrlb h4 OR 0x30000) h4"
  have h1: "ina_ready h1" using ready by (simp add: h1_def ina_ready_def bit_simps)
  have nack: "ina_nack h3 = False" "ina_nack h4 = False" by (simp_all add: h4_def h3_def h2_def)
  have h5: "ina_regs h5 = ina_regs (periph s)" "ina_ptr h5 = imem s p"
    by (simp_all add: h5_def h4_def h3_def h2_def h1_def)
  let ?s1 = "s\<lparr>svc_msg := ?m, periph := h1\<rparr>"
  have w1: "sercom_i2c_sync_wait_bus ina_bus (write_address ina_bus ?s1) = (0, 1, ?s1\<lparr>periph := h2\<rparr>)"
    using h1 by (simp add: ina_write_address ina_wait h2_def)
  let ?s2 = "?s1\<lparr>periph := ina_wr DATA (ucast (imem s p)) h2, svc_msg := ?m2\<rparr>"
  have a1: "sercom_i2c_sync_analyse_flags ina_bus 1 (?s1\<lparr>periph := h2\<rparr>) = (0, ?s2)"
    by (subst ina_send_byte) (simp_all add: h2_def)
  have w2: "sercom_i2c_sync_wait_bus ina_bus ?s2 = (0, 1, ?s2\<lparr>periph := h3\<rparr>)"
    by (simp add: ina_wait h3_def)
  let ?s3 = "?s2\<lparr>periph := ina_wr DATA (ucast (imem s (p + 1))) h3, svc_msg := ?m3\<rparr>"
  have a2: "sercom_i2c_sync_analyse_flags ina_bus 1 (?s2\<lparr>periph := h3\<rparr>) = (0, ?s3)"
    using nack by (subst ina_send_byte) simp_all
  have w3: "sercom_i2c_sync_wait_bus ina_bus ?s3 = (0, 1, ?s3\<lparr>periph := h4\<rparr>)"
    by (simp add: ina_wait h4_def)
  let ?s4 = "?s3\<lparr>periph := h5, svc_msg := clear_flag 0x100 ?m3\<rparr>"
  have a3: "sercom_i2c_sync_analyse_flags ina_bus 1 (?s3\<lparr>periph := h4\<rparr>) = (0, ?s4)"
    using nack by (subst ina_send_done) (simp_all add: h5_def)
  have "transfer_loop ina_bus True 0 ?s2 = Some (0, ?s4)"
    by (subst transfer_loop_step [OF _ w2 a2], simp, subst transfer_loop_step [OF _ w3 a3])
      (simp_all add: transfer_loop_exit)
  then have "hpl_i2c_m_sync_transfer ina_bus (mk_msg 0x40 I2C_M_STOP 2 p) s
      = Some (0, s\<lparr>periph := h5, svc_msg := clear_flag 0x100 ?m3\<rparr>)"
    using idle w1 a1
    by (simp add: hpl_i2c_m_sync_transfer_def Let_def sercom_i2c_sync_send_address_def h1_def)
  with h5 show ?thesis
    by (intro exI [of _ h5] exI [of _ "clear_flag 0x100 ?m3"]) simp
qed

end
