(* ===== verification/Ina3221.thy ===== *)
theory Ina3221
  imports HalI2c
begin

text \<open>
  The power-monitor driver \<open>ina3221.c\<close> over the polled I2C driver.  The locals \<open>cfg\<close> and
  \<open>tmp\<close>, whose addresses are passed on, live at the stack addresses \<open>cfg_slot\<close> and
  \<open>tmp_slot\<close>; an \<open>int16_t\<close> is read and written there low byte first, as the Cortex-M0+ does.
  An out parameter that a call may leave unwritten is an option.
\<close>

record 'h ina_state = "'h hal_i2c_state" +
  i2c_io :: ptr
  io_addr :: ptr \<comment> \<open>the address of \<open>I2C_0.io\<close>\<close>
  cfg_slot :: ptr
  tmp_slot :: ptr

definition INA3221_ADDR :: u16 where "INA3221_ADDR = 0x40"
definition SHUNT_MILLIS :: int where "SHUNT_MILLIS = 20"

definition bswap16 :: "u16 \<Rightarrow> u16" where
  \<comment> \<open>the macro on an \<open>int16_t\<close>: an unsigned result below \<open>2 ^ 16\<close>\<close>
  "bswap16 x = (drop_bit 8 x AND 0xFF) OR push_bit 8 (x AND 0xFF)"

definition load16 :: "(ptr \<Rightarrow> u8) \<Rightarrow> ptr \<Rightarrow> u16" where
  "load16 mem p = ucast (mem p) OR push_bit 8 (ucast (mem (p + 1)))"

definition store16 :: "u16 \<Rightarrow> ptr \<Rightarrow> (ptr \<Rightarrow> u8) \<Rightarrow> ptr \<Rightarrow> u8" where
  "store16 v p mem = mem(p := ucast v, p + 1 := ucast (drop_bit 8 v))"

definition c_div :: "int \<Rightarrow> int \<Rightarrow> int" where
  \<comment> \<open>C's division, towards zero\<close>
  "c_div a b = sgn a * sgn b * (\<bar>a\<bar> div \<bar>b\<bar>)"

definition setup_i2c :: "'h sercom_bus \<Rightarrow> ('h, 'a) ina_state_scheme \<Rightarrow> rc \<times> ('h, 'a) ina_state_scheme" where
  "setup_i2c b s =
     (case i2c_m_sync_get_io_descriptor (io_addr s) of
        (rv, io) \<Rightarrow>
          (let s = s\<lparr>i2c_io := io\<rparr> in
           if rv \<noteq> 0 then (rv, s)
           else case i2c_m_sync_enable b s of
                  (rv, s) \<Rightarrow>
                    if rv \<noteq> 0 then (rv, s)
                    else (0, snd (i2c_m_sync_set_slaveaddr INA3221_ADDR 0x800 s))))"

definition ina3221_cfg :: u16 where
  "ina3221_cfg = 0 OR (push_bit 14 1 OR push_bit 13 1 OR push_bit 12 1) OR push_bit 9 2
     OR push_bit 6 4 OR push_bit 3 4 OR 7"

definition configure_ina3221 ::
    "'h sercom_bus \<Rightarrow> ('h, 'a) ina_state_scheme \<Rightarrow> (rc \<times> ('h, 'a) ina_state_scheme) option" where
  "configure_ina3221 b s =
     (let s = s\<lparr>imem := store16 ina3221_cfg (cfg_slot s) (imem s)\<rparr> in
      case i2c_m_sync_cmd_write b 0 (cfg_slot s) 2 s of
        None \<Rightarrow> None
      | Some (rv, s) \<Rightarrow> Some (if rv \<noteq> 0 then rv else 0, s))"

definition get_channel_voltages ::
    "'h sercom_bus \<Rightarrow> u8 \<Rightarrow> ('h, 'a) ina_state_scheme
      \<Rightarrow> (rc \<times> int option \<times> int option \<times> ('h, 'a) ina_state_scheme) option" where
  \<comment> \<open>status, \<open>*shunt_voltage\<close> and \<open>*bus_voltage\<close> if written\<close>
  "get_channel_voltages b channel s =
     (let shunt_reg = 2 * channel - 1; bus_reg = 2 * channel in
      if channel < 1 \<or> 3 < channel then Some (- 1, None, None, s)
      else case i2c_m_sync_cmd_read b shunt_reg (tmp_slot s) 2 s of
        None \<Rightarrow> None
      | Some (rv, s) \<Rightarrow>
          if rv \<noteq> 0 then Some (rv, None, None, s)
          else
            (let shunt = uint (bswap16 (load16 (imem s) (tmp_slot s))) * 5 in
             case i2c_m_sync_cmd_read b bus_reg (tmp_slot s) 2 s of
               None \<Rightarrow> None
             | Some (rv, s) \<Rightarrow>
                 if rv \<noteq> 0 then Some (rv, Some shunt, None, s)
                 else Some (0, Some shunt, Some (sint (bswap16 (load16 (imem s) (tmp_slot s)))), s)))"

definition shunt_voltage_to_current :: "int \<Rightarrow> int" where
  "shunt_voltage_to_current uvolts = c_div uvolts SHUNT_MILLIS"

subsection \<open>Byte order\<close>

lemma load16_store16: "load16 (store16 v p mem) p = v"
  by (auto simp: load16_def store16_def u16_eq_iff bit_simps)

lemma bswap16_load16:
  "bswap16 (load16 (mem(p := a, p + 1 := b)) p) = push_bit 8 (ucast a) OR ucast b"
  by (simp add: bswap16_def load16_def u16_eq_iff bit_simps)

lemma u16_bytes: "push_bit 8 (ucast (ucast (drop_bit 8 w) :: u8)) OR ucast (ucast w :: u8) = (w :: u16)"
  by (simp add: u16_eq_iff bit_simps)

subsection \<open>On the reference peripheral\<close>

definition ina_app_ok :: "ina \<Rightarrow> (ina, 'a) ina_state_scheme \<Rightarrow> bool" where
  \<comment> \<open>the driver is idle and addresses the monitor, and the stack slots do not overlap\<close>
  "ina_app_ok h s \<longleftrightarrow> \<not> has_flag I2C_M_BUSY (svc_msg s) \<and> periph s = h \<and> ina_ready h
     \<and> slave_addr s = 0x40"

lemma cmd_read_reference:
  assumes "ina_app_ok (periph s) s"
  shows "\<exists>s'. i2c_m_sync_cmd_read ina_bus reg p 2 s = Some (ERR_NONE, s')
    \<and> bswap16 (load16 (imem s') p) = ina_regs (periph s) reg
    \<and> ina_app_ok (periph s') s' \<and> ina_regs (periph s') = ina_regs (periph s)
    \<and> tmp_slot s' = tmp_slot s \<and> cfg_slot s' = cfg_slot s"
proof -
  let ?s0 = "s\<lparr>imem := (imem s)(reg_slot s := reg)\<rparr>"
  obtain h1 m1 where t1: "hpl_i2c_m_sync_transfer ina_bus (mk_msg 0x40 0 1 (reg_slot s)) ?s0
        = Some (0, ?s0\<lparr>periph := h1, svc_msg := m1\<rparr>)"
      and h1: "\<not> has_flag I2C_M_BUSY m1" "ina_ready h1" "ina_regs h1 = ina_regs (periph s)" "ina_ptr h1 = reg"
    using ina_write_pointer [of ?s0 "reg_slot s"] assms by (auto simp: ina_app_ok_def)
  let ?s1 = "?s0\<lparr>periph := h1, svc_msg := m1\<rparr>"
  obtain h2 m2 where t2: "hpl_i2c_m_sync_transfer ina_bus (mk_msg 0x40 0x8001 2 p) ?s1
        = Some (0, ?s1\<lparr>periph := h2, svc_msg := m2, imem := (imem ?s1)(p := ina_byte h1 0, p + 1 := ina_byte h1 1)\<rparr>)"
      and h2: "\<not> has_flag I2C_M_BUSY m2" "ina_ready h2" "ina_regs h2 = ina_regs h1"
    using ina_read_register [of ?s1 p] h1 by auto
  have "push_bit 8 (ucast (ina_byte h1 0)) OR ucast (ina_byte h1 1) = ina_regs (periph s) reg"
    using h1 by (simp add: ina_byte_def u16_bytes)
  then show ?thesis
    using t1 t2 h1 h2 assms
    by (auto simp: i2c_m_sync_cmd_read_def i2c_m_sync_cmd_def ina_app_ok_def bswap16_load16)
qed

lemma channel_voltages_ref:
  assumes "ina_app_ok (periph s) s" and "1 \<le> channel" and "channel \<le> 3"
  shows "\<exists>s'. get_channel_voltages ina_bus channel s =
      Some (0, Some (uint (ina_regs (periph s) (2 * channel - 1)) * 5),
               Some (sint (ina_regs (periph s) (2 * channel))), s')
    \<and> ina_app_ok (periph s') s' \<and> ina_regs (periph s') = ina_regs (periph s)"
proof -
  obtain s1 where r1: "i2c_m_sync_cmd_read ina_bus (2 * channel - 1) (tmp_slot s) 2 s = Some (ERR_NONE, s1)"
      "bswap16 (load16 (imem s1) (tmp_slot s)) = ina_regs (periph s) (2 * channel - 1)"
      "ina_app_ok (periph s1) s1" "ina_regs (periph s1) = ina_regs (periph s)" "tmp_slot s1 = tmp_slot s"
    using cmd_read_reference [OF assms(1)] by blast
  obtain s2 where r2: "i2c_m_sync_cmd_read ina_bus (2 * channel) (tmp_slot s) 2 s1 = Some (ERR_NONE, s2)"
      "bswap16 (load16 (imem s2) (tmp_slot s)) = ina_regs (periph s) (2 * channel)"
      "ina_app_ok (periph s2) s2" "ina_regs (periph s2) = ina_regs (periph s)" "tmp_slot s2 = tmp_slot s"
    using cmd_read_reference [OF r1(3), of "2 * channel" "tmp_slot s"] r1 by auto
  show ?thesis
    using r1 r2 assms(2,3) by (auto simp: get_channel_voltages_def Let_def not_less [symmetric])
qed

text \<open>
  With the monitor on the bus, reading a channel from 1 to 3 succeeds; the shunt
  voltage is five times the shunt register read as an unsigned number and the bus voltage
  is the bus register read as a signed one.
\<close>

lemma channel_voltages_of_registers:
  assumes "ina_app_ok (periph s) s" and "1 \<le> channel" and "channel \<le> 3"
  shows "\<exists>s'. get_channel_voltages ina_bus channel s =
      Some (0, Some (uint (ina_regs (periph s) (2 * channel - 1)) * 5),
               Some (sint (ina_regs (periph s) (2 * channel))), s')
    \<and> ina_app_ok (periph s') s' \<and> ina_regs (periph s') = ina_regs (periph s)"
  using assms by (rule channel_voltages_ref)

definition sample_ina :: "(u8 \<Rightarrow> u16) \<Rightarrow> ina" where
  "sample_ina regs = \<lparr>ina_regs = regs, ina_ptr = 0, ina_hi = 0, ina_phase = Ina_idle, ina_data = 0,
     ina_nack = False, ina_intflag = 0, ina_next = 0, ina_ctrla = 0x200014, ina_ctrlb = 0x100, ina_addr = 0\<rparr>"

definition sample_ina_state :: "(u8 \<Rightarrow> u16) \<Rightarrow> ina ina_state" where
  "sample_ina_state regs = \<lparr>periph = sample_ina regs, imem = (\<lambda>_. 0), sercom_irq_on = False, sercom_irq_pending = False, svc_msg = mk_msg 0 0 0 0,
     svc_mode = 0, svc_trise = 215, i2c_hw = SERCOM0,
     slave_addr = 0x40, io_ready = True, reg_slot = 0x20000F00, i2c_io = 0, io_addr = 0x20000400,
     cfg_slot = 0x20000F10, tmp_slot = 0x20000F20\<rparr>"

lemma sample_ina_state_ok: "ina_app_ok (periph (sample_ina_state regs)) (sample_ina_state regs)"
  by (simp add: ina_app_ok_def sample_ina_state_def sample_ina_def ina_ready_def bit_simps)

lemma channel_voltages_of_registers_witness:
  "\<exists>s'. get_channel_voltages ina_bus 2 (sample_ina_state ((\<lambda>_. 0)(3 := 0x0050, 4 := 0x0BB8)))
     = Some (0, Some 400, Some 3000, s')"
  using channel_voltages_of_registers [OF sample_ina_state_ok, of 2 "(\<lambda>_. 0)(3 := 0x0050, 4 := 0x0BB8)"]
  by (auto simp: sample_ina_state_def sample_ina_def)

text \<open>
  A negative shunt voltage, which the monitor gives as a two's-complement register, is
  reported as a large positive one: 327680 microvolts too high.
\<close>

lemma negative_shunt_reported_positive:
  assumes "ina_app_ok (periph s) s" and "1 \<le> channel" and "channel \<le> 3"
    and "sint (ina_regs (periph s) (2 * channel - 1)) < 0"
  shows "\<exists>v bus s'. get_channel_voltages ina_bus channel s = Some (0, Some v, bus, s')
    \<and> v = sint (ina_regs (periph s) (2 * channel - 1)) * 5 + 327680 \<and> 0 < v"
proof -
  let ?w = "ina_regs (periph s) (2 * channel - 1)"
  obtain s1 where r1: "i2c_m_sync_cmd_read ina_bus (2 * channel - 1) (tmp_slot s) 2 s = Some (ERR_NONE, s1)"
      "bswap16 (load16 (imem s1) (tmp_slot s)) = ?w"
      "ina_app_ok (periph s1) s1" "tmp_slot s1 = tmp_slot s"
    using cmd_read_reference [OF assms(1)] by blast
  obtain s2 where r2: "i2c_m_sync_cmd_read ina_bus (2 * channel) (tmp_slot s) 2 s1 = Some (ERR_NONE, s2)"
      "tmp_slot s2 = tmp_slot s"
    using cmd_read_reference [OF r1(3), of "2 * channel" "tmp_slot s"] r1 by auto
  have "uint ?w = take_bit LENGTH(16) (sint ?w)" by (rule uint_sint)
  then have "uint ?w = sint ?w mod 65536" by (simp only: take_bit_eq_mod) simp
  moreover have "- 32768 \<le> sint ?w" using sint_ge [of ?w] by simp
  then have "(sint ?w + 65536) mod 65536 = sint ?w + 65536"
    using assms(4) by (intro mod_pos_pos_trivial) simp_all
  ultimately have u: "uint ?w = sint ?w + 65536 \<and> 0 < uint ?w"
    using \<open>- 32768 \<le> sint ?w\<close> by simp
  then show ?thesis
    using r1 r2 assms(2,3) by (auto simp: get_channel_voltages_def Let_def not_less [symmetric])
qed

lemma negative_shunt_reported_positive_witness:
  "\<exists>v bus s'. get_channel_voltages ina_bus 1 (sample_ina_state ((\<lambda>_. 0)(1 := 0xFFF8)))
     = Some (0, Some v, bus, s') \<and> v = 327640"
  using negative_shunt_reported_positive [OF sample_ina_state_ok, of 1 "(\<lambda>_. 0)(1 := 0xFFF8)"]
  by (auto simp: sample_ina_state_def sample_ina_def)

text \<open>
  C35. With the monitor on the bus, \<open>configure_ina3221\<close> reports success but no register of
  the monitor changes: the configuration is sent in a second addressed write, whose first
  byte the monitor takes as a register pointer.
\<close>

lemma configure_changes_no_register:
  assumes "ina_app_ok (periph s) s"
  shows "\<exists>s'. configure_ina3221 ina_bus s = Some (0, s') \<and> ina_regs (periph s') = ina_regs (periph s)"
proof -
  let ?s = "s\<lparr>imem := store16 ina3221_cfg (cfg_slot s) (imem s)\<rparr>"
  let ?s0 = "?s\<lparr>imem := (imem ?s)(reg_slot s := 0)\<rparr>"
  obtain h1 m1 where t1: "hpl_i2c_m_sync_transfer ina_bus (mk_msg 0x40 0 1 (reg_slot s)) ?s0
        = Some (0, ?s0\<lparr>periph := h1, svc_msg := m1\<rparr>)"
      and h1: "\<not> has_flag I2C_M_BUSY m1" "ina_ready h1" "ina_regs h1 = ina_regs (periph s)"
    using ina_write_pointer [of ?s0 "reg_slot s"] assms by (auto simp: ina_app_ok_def)
  let ?s1 = "?s0\<lparr>periph := h1, svc_msg := m1\<rparr>"
  obtain h2 m2 where t2: "hpl_i2c_m_sync_transfer ina_bus (mk_msg 0x40 0x8000 2 (cfg_slot s)) ?s1
        = Some (0, ?s1\<lparr>periph := h2, svc_msg := m2\<rparr>)" and h2: "ina_regs h2 = ina_regs h1"
    using ina_write_two [of ?s1 "cfg_slot s"] h1 by auto
  show ?thesis
    using t1 t2 h1 h2 assms
    by (auto simp: configure_ina3221_def i2c_m_sync_cmd_write_def i2c_m_sync_cmd_def ina_app_ok_def)
qed

lemma configure_changes_no_register_witness:
  "\<exists>s'. configure_ina3221 ina_bus (sample_ina_state (\<lambda>_. 0x7127)) = Some (0, s')
     \<and> ina_regs (periph s') 0 = 0x7127"
  using configure_changes_no_register [OF sample_ina_state_ok, of "\<lambda>_. 0x7127"]
  by (auto simp: sample_ina_state_def sample_ina_def)

end
