(* ===== verification/PowerlogMain.thy ===== *)
theory PowerlogMain
  imports HalTimer Ina3221
begin

text \<open>
  The application of the power logger, \<open>main.c\<close>: LED error codes, the periodic timer task,
  one measurement report, and the main loop with the timer interrupt.

  The state extends the timer driver's by the program's variables, the LED pins (with a
  log of pin changes and delays), and the state of the power monitor driver.  Writing to
  the USB serial port is a parameter \<open>acm_write\<close> on the state of the USB stack.
  \<open>snprintf\<close> is written out for the formats the program uses.
\<close>

datatype app_cb = TIMER0_callback_fn

datatype led_event = Led nat bool | Delay_ms nat

record ('h, 'u) app_state = "app_cb timer_state" +
  sample_id :: u32
  run_sample :: u8
  pins :: "nat \<Rightarrow> bool"
  led_log :: "led_event list"
  ina :: "'h ina_state"
  usb :: 'u

abbreviation (input) LED_STATUS :: nat where "LED_STATUS \<equiv> 0"
abbreviation (input) LED_READING :: nat where "LED_READING \<equiv> 1"
abbreviation (input) LED_ERROR :: nat where "LED_ERROR \<equiv> 2"

definition TIMER_0_task :: ptr where "TIMER_0_task = 0x20000100" \<comment> \<open>where the linker puts the static object\<close>

subsection \<open>LEDs\<close>

definition gpio_set_pin_level :: "nat \<Rightarrow> bool \<Rightarrow> ('h, 'u, 'a) app_state_scheme \<Rightarrow> ('h, 'u, 'a) app_state_scheme" where
  "gpio_set_pin_level pin level s =
     s\<lparr>pins := (pins s)(pin := level), led_log := led_log s @ [Led pin level]\<rparr>"

definition LED_ON :: "nat \<Rightarrow> ('h, 'u, 'a) app_state_scheme \<Rightarrow> ('h, 'u, 'a) app_state_scheme" where
  "LED_ON pin = gpio_set_pin_level pin False"

definition LED_OFF :: "nat \<Rightarrow> ('h, 'u, 'a) app_state_scheme \<Rightarrow> ('h, 'u, 'a) app_state_scheme" where
  "LED_OFF pin = gpio_set_pin_level pin True"

definition delay_ms :: "nat \<Rightarrow> ('h, 'u, 'a) app_state_scheme \<Rightarrow> ('h, 'u, 'a) app_state_scheme" where
  "delay_ms ms s = s\<lparr>led_log := led_log s @ [Delay_ms ms]\<rparr>"

fun led_error_code :: "nat \<Rightarrow> ('h, 'u, 'a) app_state_scheme \<Rightarrow> ('h, 'u, 'a) app_state_scheme" where
  "led_error_code 0 s = s"
| "led_error_code (Suc n) s =
     (let s = LED_ON LED_ERROR s;
          s = delay_ms 200 s;
          s = LED_OFF LED_ERROR s;
          s = (if n \<noteq> 0 then delay_ms 200 s else s)
      in led_error_code n s)"

subsection \<open>Timer task\<close>

definition TIMER0_callback :: "ptr \<Rightarrow> ('h, 'u, 'a) app_state_scheme \<Rightarrow> ('h, 'u, 'a) app_state_scheme" where
  "TIMER0_callback timer_task s =
     (if run_sample s = 0 then s\<lparr>run_sample := 1\<rparr> else led_error_code 2 s)"

definition call_cb ::
    "app_cb \<Rightarrow> ptr \<Rightarrow> ('h, 'u, 'a) app_state_scheme \<Rightarrow> ('h, 'u, 'a) app_state_scheme option" where
  "call_cb f task s = (case f of TIMER0_callback_fn \<Rightarrow> Some (TIMER0_callback task s))"

definition setup_timer ::
    "bool \<Rightarrow> ('h, 'u, 'a) app_state_scheme \<Rightarrow> ('h, 'u, 'a) app_state_scheme option" where
  "setup_timer debug s =
     (let s = s\<lparr>t_interval := (t_interval s)(TIMER_0_task := 200)\<rparr>;
          s = s\<lparr>t_mode := (t_mode s)(TIMER_0_task := TIMER_TASK_REPEAT)\<rparr>;
          s = s\<lparr>t_cb := (t_cb s)(TIMER_0_task := TIMER0_callback_fn)\<rparr>
      in case timer_add_task debug TIMER_0_task s of
           None \<Rightarrow> None
         | Some (_, s) \<Rightarrow> Some (snd (timer_start s)))"

subsection \<open>Formatting\<close>

definition zero_fill :: "nat \<Rightarrow> string \<Rightarrow> string" where
  "zero_fill w s = replicate (w - length s) CHR ''0'' @ s"

definition fmt_0d :: "nat \<Rightarrow> int \<Rightarrow> string" where
  \<comment> \<open>\<open>%0\<close>\<open>w\<close>\<open>d\<close>, with the sign counted in the width\<close>
  "fmt_0d w i = (if i < 0 then CHR ''-'' # zero_fill (w - 1) (dec (nat (- i))) else zero_fill w (dec (nat i)))"

definition snprintf_at :: "string \<Rightarrow> nat \<Rightarrow> nat \<Rightarrow> string \<Rightarrow> string \<times> nat" where
  \<comment> \<open>\<open>used += snprintf(&buf[used], size - used, ..)\<close> on the bytes before \<open>used\<close>: what fits is
      stored, the whole length is counted\<close>
  "snprintf_at buf used sz text = (take used buf @ take (sz - used - 1) text, used + length text)"

subsection \<open>One report\<close>

fun report_channels ::
    "'h sercom_bus \<Rightarrow> u8 list \<Rightarrow> bool \<Rightarrow> string \<times> nat \<Rightarrow> 'h ina_state
      \<Rightarrow> (bool \<times> (string \<times> nat) \<times> 'h ina_state) option" where
  \<comment> \<open>the loop over the channels that are left\<close>
  "report_channels b [] fail buf st = Some (fail, buf, st)"
| "report_channels b (i # is) fail buf st =
     (case get_channel_voltages b i st of
        None \<Rightarrow> None
      | Some (rv, shunt, bus, st) \<Rightarrow>
          if rv \<noteq> 0 then report_channels b is True buf st
          else report_channels b is fail
                 (snprintf_at (fst buf) (snd buf) 96
                    (fmt_0d 5 (the bus) @ ''|'' @ fmt_0d 7 (shunt_voltage_to_current (the shunt)) @ ''|'')) st)"

definition sample_report_once ::
    "'h sercom_bus \<Rightarrow> (string \<Rightarrow> nat \<Rightarrow> 'u \<Rightarrow> 'u) \<Rightarrow> ('h, 'u, 'a) app_state_scheme
      \<Rightarrow> ('h, 'u, 'a) app_state_scheme option" where
  \<comment> \<open>\<open>acm_write buf used\<close>: the bytes and the count passed on\<close>
  "sample_report_once b acm_write s =
     (let n = sample_id s;
          s = s\<lparr>sample_id := n + 1\<rparr>;
          buf = snprintf_at [] 0 96 (fmt_0d 8 (uint n) @ ''|'')
      in case report_channels b [1, 2, 3] False buf (ina s) of
           None \<Rightarrow> None
         | Some (fail, buf, st) \<Rightarrow>
            (let s = s\<lparr>ina := st\<rparr> in
             if \<not> fail then
               (let buf = (fst buf @ [CHR 10], snd buf + 1) in
                Some (s\<lparr>usb := acm_write (fst buf) (snd buf) (usb s)\<rparr>))
             else
               (let s = led_error_code 1 s;
                    buf = snprintf_at [] 0 96 (fmt_0d 8 (uint (sample_id s - 1)) @ ''|FAIL'' @ [CHR 10])
                in Some (s\<lparr>usb := acm_write (fst buf) (snd buf) (usb s)\<rparr>))))"

subsection \<open>Start-up and the main loop\<close>

partial_function (option) led_error_code_forever ::
    "nat \<Rightarrow> ('h, 'u, 'a) app_state_scheme \<Rightarrow> ('h, 'u, 'a) app_state_scheme option" where
  "led_error_code_forever n s = led_error_code_forever n (delay_ms 1000 (led_error_code n s))"

declare led_error_code_forever.simps [code]

definition main_start ::
    "(('h, 'u, 'a) app_state_scheme \<Rightarrow> rc \<times> ('h, 'u, 'a) app_state_scheme) \<Rightarrow> 'h sercom_bus \<Rightarrow> bool
      \<Rightarrow> ('h, 'u, 'a) app_state_scheme \<Rightarrow> ('h, 'u, 'a) app_state_scheme option" where
  \<comment> \<open>up to the main loop; \<open>atmel_start_init\<close> is the first parameter\<close>
  "main_start atmel_start_init b debug s =
     (case atmel_start_init s of (rv, s) \<Rightarrow>
        if rv \<noteq> 0 then led_error_code_forever 3 s
        else
          (let s = LED_OFF LED_STATUS s;
               s = LED_OFF LED_READING s;
               s = LED_OFF LED_ERROR s
           in case setup_i2c b (ina s) of (rv, st) \<Rightarrow>
                let s = s\<lparr>ina := st\<rparr> in
                if rv \<noteq> 0 then led_error_code_forever 4 s
                else case configure_ina3221 b (ina s) of
                       None \<Rightarrow> None
                     | Some (rv, st) \<Rightarrow>
                         let s = s\<lparr>ina := st\<rparr> in
                         if rv \<noteq> 0 then led_error_code_forever 5 s
                         else map_option (LED_ON LED_STATUS) (setup_timer debug s)))"

text \<open>
  The main loop between interrupts: \<open>At_wait\<close> is the busy wait, and the other locations are
  the statements of the body that are still to run.
\<close>

datatype main_pc = At_wait | At_led_on | At_report | At_clear | At_led_off

definition timer_overflow :: "bool \<Rightarrow> ('h, 'u, 'a) app_state_scheme \<Rightarrow> ('h, 'u, 'a) app_state_scheme option" where
  \<comment> \<open>the counter overflows and its interrupt is taken\<close>
  "timer_overflow debug s =
     TC3_Handler (timer_process_counted debug call_cb)
       (tc_update (dev_hw s (tc3_dev s)) (\<lambda>r. r\<lparr>tc_intflag := tc_intflag r OR TC_INTFLAG_OVF\<rparr>) s)"

inductive main_step ::
    "'h sercom_bus \<Rightarrow> (string \<Rightarrow> nat \<Rightarrow> 'u \<Rightarrow> 'u) \<Rightarrow> main_pc \<times> ('h, 'u, 'a) app_state_scheme
      \<Rightarrow> main_pc \<times> ('h, 'u, 'a) app_state_scheme \<Rightarrow> bool"
  for b acm_write where
  leave_wait: "run_sample s \<noteq> 0 \<Longrightarrow> main_step b acm_write (At_wait, s) (At_led_on, s)"
| led_on: "main_step b acm_write (At_led_on, s) (At_report, LED_ON LED_READING s)"
| report: "sample_report_once b acm_write s = Some s' \<Longrightarrow> main_step b acm_write (At_report, s) (At_clear, s')"
| clear: "main_step b acm_write (At_clear, s) (At_led_off, s\<lparr>run_sample := 0\<rparr>)"
| led_off: "main_step b acm_write (At_led_off, s) (At_wait, LED_OFF LED_READING s)"

inductive main_reach ::
    "bool \<Rightarrow> 'h sercom_bus \<Rightarrow> (string \<Rightarrow> nat \<Rightarrow> 'u \<Rightarrow> 'u) \<Rightarrow> ('h, 'u, 'a) app_state_scheme
      \<Rightarrow> main_pc \<times> ('h, 'u, 'a) app_state_scheme \<Rightarrow> bool"
  for debug b acm_write s0 where
  start: "main_reach debug b acm_write s0 (At_wait, s0)"
| step: "main_reach debug b acm_write s0 c \<Longrightarrow> main_step b acm_write c c' \<Longrightarrow> main_reach debug b acm_write s0 c'"
| tick: "main_reach debug b acm_write s0 (pc, s) \<Longrightarrow> timer_overflow debug s = Some s'
    \<Longrightarrow> main_reach debug b acm_write s0 (pc, s')"

inductive_simps main_step_from [simp]:
  "main_step b acm_write (At_wait, s) c" "main_step b acm_write (At_led_on, s) c"
  "main_step b acm_write (At_report, s) c" "main_step b acm_write (At_clear, s) c"
  "main_step b acm_write (At_led_off, s) c"

subsection \<open>The text of a report fits its buffer\<close>

lemma length_dec: "n < 10 ^ k \<Longrightarrow> 1 \<le> k \<Longrightarrow> length (dec n) \<le> k"
proof (induction k arbitrary: n)
  case (Suc k)
  show ?case
  proof (cases "n < 10")
    case True
    then show ?thesis by (simp add: dec.simps)
  next
    case False
    have "k \<noteq> 0"
    proof
      assume "k = 0"
      with Suc.prems False show False by simp
    qed
    moreover have "n div 10 < 10 ^ k" using Suc.prems by (simp add: less_mult_imp_div_less mult.commute)
    ultimately have "length (dec (n div 10)) \<le> k" by (intro Suc.IH) simp_all
    then show ?thesis using False by (subst dec.simps) simp
  qed
qed simp

lemma length_zero_fill: "length (zero_fill w s) = max w (length s)"
  by (simp add: zero_fill_def)

lemma length_fmt_u: "0 \<le> i \<Longrightarrow> i < 10 ^ k \<Longrightarrow> w \<le> k \<Longrightarrow> 1 \<le> k \<Longrightarrow> length (fmt_0d w i) \<le> k"
proof -
  assume i: "0 \<le> i" "i < 10 ^ k" and k: "w \<le> k" "1 \<le> k"
  have "nat i < nat (10 ^ k)" using i by simp
  then have "nat i < 10 ^ k" by (simp add: nat_power_eq)
  from length_dec [OF this k(2)] show ?thesis using i k by (simp add: fmt_0d_def length_zero_fill)
qed

lemma length_fmt_bus: "- 32768 \<le> i \<Longrightarrow> i < 32768 \<Longrightarrow> length (fmt_0d 5 i) \<le> 6"
proof -
  assume i: "- 32768 \<le> i" "i < 32768"
  have "nat (- i) < 10 ^ 5" using i by simp
  then have "length (dec (nat (- i))) \<le> 5" by (rule length_dec) simp
  moreover have "0 \<le> i \<Longrightarrow> length (fmt_0d 5 i) \<le> 5" using i by (intro length_fmt_u) simp_all
  ultimately show ?thesis by (cases "i < 0") (simp_all add: fmt_0d_def length_zero_fill)
qed

lemma c_div_20: "0 \<le> v \<Longrightarrow> c_div v 20 = v div 20"
  by (simp add: c_div_def sgn_if)

lemma get_channel_ranges:
  assumes "get_channel_voltages b i st = Some (0, shunt, bus, st')"
  shows "\<exists>u w. shunt = Some (uint (u :: u16) * 5) \<and> bus = Some (sint (w :: u16))"
  using assms by (auto simp: get_channel_voltages_def Let_def split: if_splits option.splits prod.splits)

definition channel_text :: "int \<Rightarrow> int \<Rightarrow> string" where
  "channel_text bus shunt = fmt_0d 5 bus @ ''|'' @ fmt_0d 7 (shunt_voltage_to_current shunt) @ ''|''"

lemma channel_text_length:
  "length (channel_text (sint (w :: u16)) (uint (u :: u16) * 5)) \<le> 15"
proof -
  have "uint u < 65536" using uint_lt2p [of u] by simp
  then have "shunt_voltage_to_current (uint u * 5) < 10 ^ 7" "0 \<le> shunt_voltage_to_current (uint u * 5)"
    by (simp_all add: shunt_voltage_to_current_def SHUNT_MILLIS_def c_div_20 pos_imp_zdiv_nonneg_iff)
  then have "length (fmt_0d 7 (shunt_voltage_to_current (uint u * 5))) \<le> 7"
    by (intro length_fmt_u) simp_all
  moreover have "length (fmt_0d 5 (sint w)) \<le> 6"
    using sint_ge [of w] sint_lt [of w] by (intro length_fmt_bus) simp_all
  ultimately show ?thesis by (simp add: channel_text_def)
qed

lemma snprintf_at_fits:
  "length buf = used \<Longrightarrow> used + length text < sz \<Longrightarrow> snprintf_at buf used sz text = (buf @ text, used + length text)"
  by (simp add: snprintf_at_def)

lemma report_channels_fits:
  "report_channels b is fail (buf, length buf) st = Some (fail', buf', st') \<Longrightarrow>
     length buf + 15 * length is < 96 \<Longrightarrow>
     snd buf' = length (fst buf') \<and> length (fst buf') \<le> length buf + 15 * length is"
proof (induction "is" arbitrary: fail buf st)
  case (Cons i "is")
  obtain rv shunt bus st1 where g: "get_channel_voltages b i st = Some (rv, shunt, bus, st1)"
    using Cons.prems(1) by (auto split: option.splits prod.splits)
  show ?case
  proof (cases "rv = 0")
    case False
    with Cons g show ?thesis by fastforce
  next
    case True
    then obtain u w where uw: "shunt = Some (uint (u :: u16) * 5)" "bus = Some (sint (w :: u16))"
      using g get_channel_ranges by blast
    let ?t = "channel_text (sint w) (uint u * 5)"
    have t: "length ?t \<le> 15" by (rule channel_text_length)
    have sn: "snprintf_at buf (length buf) 96 ?t = (buf @ ?t, length buf + length ?t)"
      using t Cons.prems(2) by (intro snprintf_at_fits) simp_all
    have "report_channels b is fail (buf @ ?t, length (buf @ ?t)) st1 = Some (fail', buf', st')"
      using Cons.prems(1) g True uw sn by (simp add: channel_text_def)
    from Cons.IH [OF this] t Cons.prems(2) show ?thesis by simp
  qed
qed auto

declare report_channels.simps [simp del]

lemma led_error_code_frame [simp]:
  "usb (led_error_code n s) = usb s" "sample_id (led_error_code n s) = sample_id s"
  "ina (led_error_code n s) = ina s" "run_sample (led_error_code n s) = run_sample s"
  "timer_state.truncate (led_error_code n s) = timer_state.truncate s"
  by (induction n arbitrary: s)
    (simp_all add: LED_ON_def LED_OFF_def gpio_set_pin_level_def delay_ms_def timer_state.defs Let_def)

declare led_error_code.simps [simp del]

lemma length_fmt_id: "length (fmt_0d 8 (uint (n :: u32))) \<le> 10"
  using uint_lt2p [of n] by (intro length_fmt_u) simp_all

text \<open>
  Whatever the monitor's bus answers, a report that is sent fits its 96-byte buffer
  with room for the terminating zero, the count passed to the serial port is the number
  of characters written, and the sample number advances by one.
\<close>

lemma report_fits_buffer:
  assumes "sample_report_once b acm_write s = Some s'"
  shows "\<exists>text. usb s' = acm_write text (length text) (usb s) \<and> length text \<le> 57
    \<and> sample_id s' = sample_id s + 1"
proof -
  let ?id = "fmt_0d 8 (uint (sample_id s)) @ ''|''"
  have id: "length ?id \<le> 11" using length_fmt_id [of "sample_id s"] by simp
  then have sn: "snprintf_at [] 0 96 ?id = (?id, length ?id)"
    by (subst snprintf_at_fits) simp_all
  obtain fail buf st where r: "report_channels b [1, 2, 3] False (?id, length ?id) (ina s) = Some (fail, buf, st)"
    using assms sn by (auto simp: sample_report_once_def Let_def split: option.splits)
  from report_channels_fits [OF this] id
  have buf: "snd buf = length (fst buf)" "length (fst buf) \<le> 56" by simp_all
  have "length (fmt_0d 8 (uint (sample_id s))) \<le> 10" by (rule length_fmt_id)
  then have sn2: "snprintf_at [] 0 96 (fmt_0d 8 (uint (sample_id s)) @ ''|FAIL'' @ [CHR 10])
      = (fmt_0d 8 (uint (sample_id s)) @ ''|FAIL'' @ [CHR 10], length (fmt_0d 8 (uint (sample_id s))) + 6)"
    by (subst snprintf_at_fits) simp_all
  show ?thesis
  proof (cases fail)
    case False
    with assms sn r buf show ?thesis
      by (intro exI [of _ "fst buf @ [CHR 10]"]) (auto simp: sample_report_once_def Let_def)
  next
    case True
    with assms sn r sn2 length_fmt_id [of "sample_id s"] show ?thesis
      by (intro exI [of _ "fmt_0d 8 (uint (sample_id s)) @ ''|FAIL'' @ [CHR 10]"])
        (auto simp: sample_report_once_def Let_def eval_nat_numeral)
  qed
qed

definition report_line :: "u32 \<Rightarrow> (u8 \<Rightarrow> u16) \<Rightarrow> string" where
  "report_line n regs =
     fmt_0d 8 (uint n) @ ''|'' @ channel_text (sint (regs 2)) (uint (regs 1) * 5)
       @ channel_text (sint (regs 4)) (uint (regs 3) * 5)
       @ channel_text (sint (regs 6)) (uint (regs 5) * 5) @ [CHR 10]"

lemma report_ref:
  assumes "ina_app_ok (periph (ina s)) (ina s)"
  shows "\<exists>s'. sample_report_once ina_bus acm_write s = Some s'
    \<and> usb s' = acm_write (report_line (sample_id s) (ina_regs (periph (ina s))))
                  (length (report_line (sample_id s) (ina_regs (periph (ina s))))) (usb s)
    \<and> run_sample s' = run_sample s \<and> led_log s' = led_log s
    \<and> ina_app_ok (periph (ina s')) (ina s') \<and> pins s' = pins s
    \<and> timer_state.truncate s' = timer_state.truncate s"
proof -
  let ?regs = "ina_regs (periph (ina s))"
  let ?id = "fmt_0d 8 (uint (sample_id s)) @ ''|''"
  let ?t = "\<lambda>b u. channel_text (sint (?regs b)) (uint (?regs u) * 5)"
  have id: "length ?id \<le> 11" using length_fmt_id [of "sample_id s"] by simp
  have t: "length (?t b u) \<le> 15" for b u by (rule channel_text_length)
  have sn: "snprintf_at [] 0 96 ?id = (?id, length ?id)"
    using id by (subst snprintf_at_fits) simp_all
  have sn1: "snprintf_at ?id (length ?id) 96 (?t 2 1) = (?id @ ?t 2 1, length (?id @ ?t 2 1))"
    using id t [of 2 1] by (subst snprintf_at_fits) simp_all
  have sn2: "snprintf_at (?id @ ?t 2 1) (length (?id @ ?t 2 1)) 96 (?t 4 3)
      = (?id @ ?t 2 1 @ ?t 4 3, length (?id @ ?t 2 1 @ ?t 4 3))"
    using id t [of 2 1] t [of 4 3] by (subst snprintf_at_fits) simp_all
  have sn3: "snprintf_at (?id @ ?t 2 1 @ ?t 4 3) (length (?id @ ?t 2 1 @ ?t 4 3)) 96 (?t 6 5)
      = (?id @ ?t 2 1 @ ?t 4 3 @ ?t 6 5, length (?id @ ?t 2 1 @ ?t 4 3 @ ?t 6 5))"
    using id t [of 2 1] t [of 4 3] t [of 6 5] by (subst snprintf_at_fits) simp_all
  obtain s1 where g1: "get_channel_voltages ina_bus 1 (ina s) =
      Some (0, Some (uint (?regs 1) * 5), Some (sint (?regs 2)), s1)"
      "ina_app_ok (periph s1) s1" "ina_regs (periph s1) = ?regs"
    using channel_voltages_ref [OF assms, of 1] by auto
  obtain s2 where g2: "get_channel_voltages ina_bus 2 s1 =
      Some (0, Some (uint (?regs 3) * 5), Some (sint (?regs 4)), s2)"
      "ina_app_ok (periph s2) s2" "ina_regs (periph s2) = ?regs"
    using channel_voltages_ref [OF g1(2), of 2] g1(3) by auto
  obtain s3 where g3: "get_channel_voltages ina_bus 3 s2 =
      Some (0, Some (uint (?regs 5) * 5), Some (sint (?regs 6)), s3)"
      "ina_app_ok (periph s3) s3"
    using channel_voltages_ref [OF g2(2), of 3] g2(3) by auto
  have "report_channels ina_bus [1, 2, 3] False (?id, length ?id) (ina s)
      = Some (False, (?id @ ?t 2 1 @ ?t 4 3 @ ?t 6 5, length (?id @ ?t 2 1 @ ?t 4 3 @ ?t 6 5)), s3)"
    using g1(1) g2(1) g3(1) sn1 sn2 sn3 by (simp add: channel_text_def report_channels.simps)
  then show ?thesis
    using sn g3(2) by (simp add: sample_report_once_def report_line_def Let_def timer_state.defs)
qed

definition sample_app :: "(u8 \<Rightarrow> u16) \<Rightarrow> (ina, string) app_state" where
  "sample_app regs = \<lparr>tc_of = (\<lambda>_. tc_zero), nvic_enabled = (\<lambda>_. False), nvic_pending = (\<lambda>_. False),
     tc3_dev = 0x20000200, dev_hw = (\<lambda>_. TC3), t_next = (\<lambda>_. 0), t_time_label = (\<lambda>_. 0),
     t_interval = (\<lambda>_. 200), t_cb = (\<lambda>_. TIMER0_callback_fn), t_mode = (\<lambda>_. TIMER_TASK_REPEAT),
     descr_device = 0x20000200, descr_time = 0, descr_tasks = TIMER_0_task, descr_flags = 0,
     sample_id = 41, run_sample = 0, pins = (\<lambda>_. True), led_log = [],
     ina = sample_ina_state regs, usb = []\<rparr>"

lemma sample_app_ina: "ina_app_ok (periph (ina (sample_app regs))) (ina (sample_app regs))"
  using sample_ina_state_ok [of regs] by (simp add: sample_app_def)

lemma sample_report_line:
  "report_line 41 ((\<lambda>_. 0)(1 := 0x50, 2 := 0x0BB8)) = ''00000041|03000|0000020|00000|0000000|00000|0000000|'' @ [CHR 10]"
  by code_simp

lemma report_fits_buffer_witness:
  "\<exists>s' text. sample_report_once ina_bus (\<lambda>text n u. u @ text) (sample_app (\<lambda>_. 0)) = Some s'
    \<and> usb s' = text \<and> length text \<le> 57"
proof -
  obtain s' where s': "sample_report_once ina_bus (\<lambda>text n u. u @ text) (sample_app (\<lambda>_. 0)) = Some s'"
    using report_ref [OF sample_app_ina, of "\<lambda>text n u. u @ text" "\<lambda>_. 0"] by blast
  from report_fits_buffer [OF this] s' show ?thesis by (auto simp: sample_app_def)
qed

subsection \<open>The timer task\<close>

lemma TIMER0_callback_frame [simp]:
  "usb (TIMER0_callback t s) = usb s" "sample_id (TIMER0_callback t s) = sample_id s"
  "ina (TIMER0_callback t s) = ina s"
  by (simp_all add: TIMER0_callback_def)

lemma TIMER0_callback_timer: "timer_state.truncate (TIMER0_callback t s) = timer_state.truncate s"
proof (cases "run_sample s = 0")
  case True
  then show ?thesis by (simp add: TIMER0_callback_def timer_state.defs)
next
  case False
  then show ?thesis unfolding TIMER0_callback_def by (simp only: if_False led_error_code_frame(5))
qed

lemma call_cb_frame:
  "\<exists>s'. call_cb f t s = Some s' \<and> timer_state.truncate s' = timer_state.truncate s"
  using TIMER0_callback_timer [of t s] by (cases f) (simp add: call_cb_def)

interpretation app: quiet_callback call_cb
  by unfold_locales (rule call_cb_frame)


lemma sample_app_queue: "queue_ok (sample_app regs\<lparr>descr_time := 198\<rparr>) (198 + 1) [TIMER_0_task]"
  by (simp add: queue_ok_def task_ok_def sample_app_def TIMER_0_task_def)


subsection \<open>The single task of the program\<close>

text \<open>
  \<open>timer_on s a\<close>: the program's task is alone in the queue, \<open>a\<close> ticks after it was labelled.
  Only differences of times occur, so the clock may wrap.
\<close>

definition timer_on :: "('h, 'u, 'a) app_state_scheme \<Rightarrow> u32 \<Rightarrow> bool" where
  "timer_on s a \<longleftrightarrow> is_list (t_next s) (descr_tasks s) [TIMER_0_task]
     \<and> t_interval s TIMER_0_task = 200 \<and> t_mode s TIMER_0_task = TIMER_TASK_REPEAT
     \<and> t_cb s TIMER_0_task = TIMER0_callback_fn
     \<and> descr_time s - t_time_label s TIMER_0_task = a \<and> a < 200 \<and> descr_flags s = 0"

lemma timer_on_frame:
  "timer_state.truncate s' = timer_state.truncate s \<Longrightarrow> timer_on s' a = timer_on s a"
  by (simp add: timer_on_def timer_state.defs)

lemma single_task_expires:
  assumes "is_list (t_next s) (descr_tasks s) [TIMER_0_task]" and "t_mode s TIMER_0_task = TIMER_TASK_REPEAT"
  shows "\<exists>nx. timer_expire_head debug time TIMER_0_task s
      = Some (s\<lparr>t_time_label := (t_time_label s)(TIMER_0_task := time), t_next := nx, descr_tasks := TIMER_0_task\<rparr>)
    \<and> is_list nx TIMER_0_task [TIMER_0_task]"
proof -
  let ?T = TIMER_0_task
  let ?s = "s\<lparr>descr_tasks := NULL, t_time_label := (t_time_label s)(?T := time)\<rparr>"
  have st: "descr_tasks s = ?T" "t_next s ?T = NULL" "?T \<noteq> NULL"
    using assms(1) by auto
  obtain nx h where add: "timer_add_timer_task debug ?T time ?s = Some (?s\<lparr>t_next := nx, descr_tasks := h\<rparr>)"
      and l: "is_list nx h [?T]"
    using timer_add_timer_task_correct [of ?s "[]" ?T debug time] st(3) by (auto simp: queue_insert_def)
  from l have "h = ?T" by simp
  with add l show ?thesis
    by (intro exI [of _ nx]) (simp add: timer_expire_head_def list_remove_head_def st assms(2))
qed

lemma tick_step:
  assumes "timer_on s a"
  shows "\<exists>s'. timer_process_counted debug call_cb device s = Some s'
    \<and> timer_on s' (if a = 199 then 0 else a + 1) \<and> descr_time s' = descr_time s + 1
    \<and> (a = 199 \<longrightarrow> (\<exists>s1. run_sample s1 = run_sample s \<and> pins s1 = pins s \<and> led_log s1 = led_log s
           \<and> usb s1 = usb s \<and> ina s1 = ina s \<and> s' = TIMER0_callback TIMER_0_task s1))
    \<and> (a \<noteq> 199 \<longrightarrow> s' = s\<lparr>descr_time := descr_time s + 1\<rparr>)"
proof -
  let ?T = TIMER_0_task and ?time = "descr_time s + 1"
  let ?s = "s\<lparr>descr_time := ?time\<rparr>"
  have on: "descr_tasks s = ?T" "?T \<noteq> NULL" "t_interval s ?T = 200" "t_cb s ?T = TIMER0_callback_fn"
      "descr_time s - t_time_label s ?T = a" "a < 200" "descr_flags s = 0"
    using assms by (auto simp: timer_on_def TIMER_0_task_def)
  have age: "?time - t_time_label s ?T = a + 1" using on(5) by (simp add: algebra_simps)
  have ctd: "timer_process_counted debug call_cb device s = timer_process_loop debug call_cb ?time ?T ?s"
    using on by (simp add: timer_process_counted_def Let_def list_get_head_def)
  show ?thesis
  proof (cases "a = 199")
    case False
    have a1: "a + 1 < 200"
    proof -
      have "a < 199" using on(6) False by (simp add: word_less_nat_alt word_unat_eq_iff)
      from unat_Suc_less [OF this] this show ?thesis by (simp add: word_less_nat_alt)
    qed
    then have "\<not> 200 \<le> ?time - t_time_label s ?T" by (metis age not_le)
    then have "timer_process_loop debug call_cb ?time ?T ?s = Some ?s"
      using on(3) by (subst timer_process_loop.simps) simp
    moreover have "timer_on ?s (a + 1)"
      using assms age a1 by (simp add: timer_on_def)
    ultimately show ?thesis using False ctd by simp
  next
    case True
    obtain nx where ex: "timer_expire_head debug ?time ?T ?s
        = Some (?s\<lparr>t_time_label := (t_time_label ?s)(?T := ?time), t_next := nx, descr_tasks := ?T\<rparr>)"
      and nx: "is_list nx ?T [?T]"
      using single_task_expires [of ?s debug ?time] assms by (auto simp: timer_on_def)
    let ?s1 = "?s\<lparr>t_time_label := (t_time_label ?s)(?T := ?time), t_next := nx, descr_tasks := ?T\<rparr>"
    let ?s2 = "TIMER0_callback ?T ?s1"
    have tr: "timer_state.truncate ?s2 = timer_state.truncate ?s1" by (rule TIMER0_callback_timer)
    have on1: "timer_on ?s1 0"
      using assms nx on(2) by (simp add: timer_on_def)
    have on2: "timer_on ?s2 0" using on1 timer_on_frame [OF tr] by simp
    have t2: "descr_time ?s2 = ?time" "t_interval ?s2 ?T = 200" "t_time_label ?s2 ?T = ?time"
      using tr on(3) by (simp_all add: timer_state.defs)
    have "timer_process_loop debug call_cb ?time ?T ?s2 = Some ?s2"
      using t2 by (subst timer_process_loop.simps) simp
    moreover have "200 \<le> ?time - t_time_label s ?T" unfolding age True by simp
    ultimately have "timer_process_loop debug call_cb ?time ?T ?s = Some ?s2"
      using on(2-4) ex
      by (subst timer_process_loop.simps) (simp add: call_cb_def list_get_head_def)
    moreover have "\<exists>s1. run_sample s1 = run_sample s \<and> pins s1 = pins s \<and> led_log s1 = led_log s
        \<and> usb s1 = usb s \<and> ina s1 = ina s \<and> ?s2 = TIMER0_callback ?T s1"
      by (intro exI [of _ ?s1]) simp
    ultimately show ?thesis using True ctd on2 t2(1) by (intro exI [of _ ?s2]) simp
  qed
qed

lemma timer_overflow_on:
  assumes "timer_on s a"
  shows "\<exists>s'. timer_overflow debug s = Some s'
    \<and> timer_on s' (if a = 199 then 0 else a + 1) \<and> descr_time s' = descr_time s + 1
    \<and> (a = 199 \<longrightarrow> (\<exists>s1. run_sample s1 = run_sample s \<and> pins s1 = pins s \<and> led_log s1 = led_log s
           \<and> usb s1 = usb s \<and> ina s1 = ina s \<and> s' = TIMER0_callback TIMER_0_task s1))
    \<and> (a \<noteq> 199 \<longrightarrow> run_sample s' = run_sample s \<and> pins s' = pins s \<and> led_log s' = led_log s
           \<and> usb s' = usb s \<and> ina s' = ina s)"
proof -
  let ?hw = "dev_hw s (tc3_dev s)"
  let ?s1 = "tc_update ?hw (\<lambda>r. r\<lparr>tc_intflag := tc_intflag r AND NOT TC_INTFLAG_OVF\<rparr>)
     (tc_update ?hw (\<lambda>r. r\<lparr>tc_intflag := tc_intflag r OR TC_INTFLAG_OVF\<rparr>) s)"
  have "(tc_intflag (tc_of s ?hw) OR 1) AND 1 = (1 :: u8)" by (simp add: u8_eq_iff bit_simps)
  then have run: "timer_overflow debug s = timer_process_counted debug call_cb (tc3_dev s) ?s1"
    by (simp add: timer_overflow_def TC3_Handler_def tc_interrupt_handler_def tc_update_def Let_def)
  have "timer_on ?s1 a" using assms by (simp add: timer_on_def tc_update_def)
  from tick_step [OF this, of debug "tc3_dev s"] show ?thesis
    unfolding run by (fastforce simp: tc_update_def)
qed

text \<open>
  C7. The program's task fires on every 200th tick: on a tick that is not the 200th
  after the last one nothing but the clock moves; on the 200th the callback runs once, the
  age starts again at zero, and a sample is requested unless one is still being taken, which
  is signalled by two flashes of the error LED instead.
\<close>

lemma task_fires_every_200_ticks:
  assumes "timer_on s a"
  shows "\<exists>s'. timer_overflow debug s = Some s' \<and> descr_time s' = descr_time s + 1
    \<and> timer_on s' (if a = 199 then 0 else a + 1)
    \<and> (a \<noteq> 199 \<longrightarrow> run_sample s' = run_sample s \<and> led_log s' = led_log s)
    \<and> (a = 199 \<and> run_sample s = 0 \<longrightarrow> run_sample s' = 1 \<and> led_log s' = led_log s)
    \<and> (a = 199 \<and> run_sample s \<noteq> 0 \<longrightarrow> run_sample s' = run_sample s
        \<and> led_log s' = led_log s @ [Led 2 False, Delay_ms 200, Led 2 True, Delay_ms 200,
                                   Led 2 False, Delay_ms 200, Led 2 True])"
  using timer_overflow_on [OF assms, of debug]
  by (cases "a = 199"; cases "run_sample s = 0")
    (auto simp: TIMER0_callback_def led_error_code.simps eval_nat_numeral LED_ON_def LED_OFF_def
      gpio_set_pin_level_def delay_ms_def)

lemma sample_app_on: "timer_on (sample_app regs\<lparr>descr_time := 0xFFFFFFFF, t_time_label := (\<lambda>_. 0xFFFFFFFF - 199)\<rparr>) 199"
  by (simp add: timer_on_def sample_app_def TIMER_0_task_def)

lemma task_fires_every_200_ticks_witness:
  "\<exists>s'. timer_overflow True (sample_app (\<lambda>_. 0)\<lparr>descr_time := 0xFFFFFFFF, t_time_label := (\<lambda>_. 0xFFFFFFFF - 199)\<rparr>)
      = Some s' \<and> descr_time s' = 0 \<and> run_sample s' = 1"
  using task_fires_every_200_ticks [OF sample_app_on, of True "\<lambda>_. 0"] by (auto simp: sample_app_def)

subsection \<open>The main loop under interrupts\<close>

definition main_inv :: "main_pc \<times> ('h, 'u, 'a) app_state_scheme \<Rightarrow> bool" where
  "main_inv c \<longleftrightarrow> (case c of (pc, s) \<Rightarrow>
     (\<exists>a. timer_on s a) \<and> (run_sample s = 0 \<or> run_sample s = 1)
     \<and> (pc = At_led_on \<or> pc = At_report \<or> pc = At_clear \<longrightarrow> run_sample s = 1)
     \<and> \<not> pins s LED_STATUS \<and> pins s LED_ERROR
     \<and> (pins s LED_READING \<longleftrightarrow> pc = At_wait \<or> pc = At_led_on))"

lemma led_error_code_pins:
  "pins s LED_ERROR \<Longrightarrow> pins (led_error_code n s) = pins s"
proof (induction n arbitrary: s)
  case (Suc n)
  then show ?case
    by (auto simp: led_error_code.simps LED_ON_def LED_OFF_def gpio_set_pin_level_def delay_ms_def
        Let_def fun_eq_iff)
qed (simp add: led_error_code.simps)

lemma sample_report_once_frame:
  assumes "sample_report_once b acm_write s = Some s'" and "pins s LED_ERROR"
  shows "timer_state.truncate s' = timer_state.truncate s" "run_sample s' = run_sample s" "pins s' = pins s"
proof -
  obtain fail buf st where r: "report_channels b [1, 2, 3] False
      (snprintf_at [] 0 96 (fmt_0d 8 (uint (sample_id s)) @ ''|'')) (ina s) = Some (fail, buf, st)"
    using assms(1) by (auto simp: sample_report_once_def Let_def split: option.splits)
  let ?s1 = "s\<lparr>sample_id := sample_id s + 1, ina := st\<rparr>"
  have t1: "timer_state.truncate ?s1 = timer_state.truncate s" by (simp add: timer_state.defs)
  have usb: "timer_state.truncate (x\<lparr>usb := u\<rparr>) = timer_state.truncate x"
    for x :: "('a, 'b, 'c) app_state_scheme" and u by (simp add: timer_state.defs)
  have "\<exists>x u. (x = ?s1 \<or> x = led_error_code 1 ?s1) \<and> s' = x\<lparr>usb := u\<rparr>"
    using assms(1) r by (cases fail) (auto simp: sample_report_once_def Let_def)
  then obtain x u where x: "x = ?s1 \<or> x = led_error_code 1 ?s1" "s' = x\<lparr>usb := u\<rparr>" by blast
  have "timer_state.truncate x = timer_state.truncate s"
    using x(1) led_error_code_frame(5) [of 1 ?s1] t1 by metis
  then show "timer_state.truncate s' = timer_state.truncate s" unfolding x(2) usb .
  show "run_sample s' = run_sample s" using x by auto
  show "pins s' = pins s" using x led_error_code_pins [of ?s1 1] assms(2) by auto
qed

lemma timer_on_upd [simp]:
  "timer_on (s\<lparr>run_sample := r\<rparr>) a = timer_on s a" "timer_on (LED_ON p s) a = timer_on s a"
  "timer_on (LED_OFF p s) a = timer_on s a"
  by (simp_all add: timer_on_def LED_ON_def LED_OFF_def gpio_set_pin_level_def)

lemma main_inv_step:
  assumes "main_step b acm_write c c'" and "main_inv c"
  shows "main_inv c'"
  using assms
proof (cases rule: main_step.cases)
  case (report s s')
  have e: "pins s LED_ERROR" using assms(2) report(1) by (simp add: main_inv_def)
  note fr = sample_report_once_frame [OF report(3) e]
  have "timer_on s' = timer_on s" by (rule ext) (rule timer_on_frame [OF fr(1)])
  then show ?thesis using assms(2) fr by (simp add: report main_inv_def)
qed (auto simp: main_inv_def LED_ON_def LED_OFF_def gpio_set_pin_level_def timer_on_def)

lemma main_inv_tick:
  assumes "timer_overflow debug s = Some s'" and "main_inv (pc, s)"
  shows "main_inv (pc, s')"
proof -
  obtain a where a: "timer_on s a" using assms(2) by (auto simp: main_inv_def)
  show ?thesis
  proof (cases "a = 199")
    case False
    with timer_overflow_on [OF a, of debug] assms show ?thesis by (auto simp: main_inv_def)
  next
    case True
    then obtain s1 where s1: "run_sample s1 = run_sample s" "pins s1 = pins s"
        "s' = TIMER0_callback TIMER_0_task s1" and on: "timer_on s' 0"
      using timer_overflow_on [OF a, of debug] assms(1) by auto
    have e: "pins s1 LED_ERROR" using assms(2) s1(2) by (simp add: main_inv_def)
    have "pins s' = pins s"
      using s1 led_error_code_pins [of s1 2, OF e] by (simp add: TIMER0_callback_def)
    moreover have "run_sample s' = (if run_sample s = 0 then 1 else run_sample s)"
      using s1 by (simp add: TIMER0_callback_def)
    ultimately show ?thesis using assms(2) on by (auto simp: main_inv_def)
  qed
qed

lemma main_reach_inv: "main_reach debug b acm_write s0 c \<Longrightarrow> main_inv (At_wait, s0) \<Longrightarrow> main_inv c"
proof (induction rule: main_reach.induct)
  case (step c c')
  then show ?case using main_inv_step by blast
next
  case (tick pc s s')
  then show ?case using main_inv_tick by blast
qed

lemma led_error_code_forever_None: "led_error_code_forever n s = None"
proof -
  have "led_error_code_forever n s = Some s' \<Longrightarrow> False" for s'
    by (induction n s s' rule: led_error_code_forever.raw_induct [rotated, consumes 1]) blast
  then show ?thesis by (cases "led_error_code_forever n s") auto
qed

lemma setup_timer_on:
  assumes "descr_tasks s = NULL" and "descr_flags s = 0"
  shows "\<exists>s'. setup_timer debug s = Some s' \<and> timer_on s' 0 \<and> run_sample s' = run_sample s
    \<and> pins s' = pins s \<and> ina s' = ina s"
proof -
  let ?T = TIMER_0_task
  have nn: "?T \<noteq> NULL" by (simp add: TIMER_0_task_def)
  let ?s = "s\<lparr>t_interval := (t_interval s)(?T := 200), t_mode := (t_mode s)(?T := TIMER_TASK_REPEAT),
      t_cb := (t_cb s)(?T := TIMER0_callback_fn)\<rparr>"
  let ?s1 = "(queue_take ?s)\<lparr>t_time_label := (t_time_label s)(?T := descr_time s)\<rparr>"
  obtain nx h where add: "timer_add_timer_task debug ?T (descr_time s) ?s1 = Some (?s1\<lparr>t_next := nx, descr_tasks := h\<rparr>)"
      and l: "is_list nx h [?T]"
    using timer_add_timer_task_correct [of ?s1 "[]" ?T debug "descr_time s"] nn assms
    by (auto simp: queue_insert_def queue_take_def)
  have "is_list_element (t_next s) (descr_tasks s) ?T = Some False"
    using assms is_list_element_correct [of "t_next s" "descr_tasks s" "[]" ?T] by simp
  then have "timer_add_task debug ?T ?s
      = Some (ERR_NONE, queue_retrigger (queue_release (?s1\<lparr>t_next := nx, descr_tasks := h\<rparr>)))"
    using add by (simp add: timer_add_task_def Let_def queue_take_def)
  then show ?thesis
    using l assms by (auto simp: setup_timer_def Let_def queue_retrigger_def queue_release_def queue_take_def
        timer_start_def hpl_timer_start_def timer_on_def tc_update_def)
qed

lemma main_start_inv:
  assumes "main_start atmel_start_init b debug s = Some s0"
    and "descr_tasks (snd (atmel_start_init s)) = NULL" and "descr_flags (snd (atmel_start_init s)) = 0"
    and "run_sample (snd (atmel_start_init s)) = 1"
  shows "main_inv (At_wait, s0)"
proof -
  let ?off = "LED_OFF LED_ERROR (LED_OFF LED_READING (LED_OFF LED_STATUS (snd (atmel_start_init s))))"
  obtain st where st: "map_option (LED_ON LED_STATUS) (setup_timer debug (?off\<lparr>ina := st\<rparr>)) = Some s0"
    using assms(1)
    by (auto simp: main_start_def led_error_code_forever_None Let_def LED_OFF_def gpio_set_pin_level_def
        split: prod.splits option.splits if_splits)
  have "descr_tasks (?off\<lparr>ina := st\<rparr>) = NULL" "descr_flags (?off\<lparr>ina := st\<rparr>) = 0"
    using assms by (simp_all add: LED_OFF_def gpio_set_pin_level_def)
  from setup_timer_on [OF this, of debug] st obtain s1 where s1: "timer_on s1 0"
      "run_sample s1 = run_sample ?off" "pins s1 = pins ?off" "s0 = LED_ON LED_STATUS s1"
    by auto
  have "timer_on s0 0" using s1 by simp
  then show ?thesis
    using s1(2-4) assms(4) by (auto simp: main_inv_def LED_ON_def LED_OFF_def gpio_set_pin_level_def)
qed

text \<open>
  C1. From power-up on, whatever the bus answers and however timer interrupts interleave
  with the main loop: every interrupt returns; a report is only taken on request and the
  request stays up until the report is out; \<open>run_sample\<close> is \<open>0\<close> or \<open>1\<close>; the status LED is
  on, the error LED is off between steps, and the reading LED is on exactly from the
  request's acknowledgement to the end of the report.
\<close>

theorem main_loop_invariant:
  assumes "main_start atmel_start_init b debug s = Some s0"
    and "descr_tasks (snd (atmel_start_init s)) = NULL" and "descr_flags (snd (atmel_start_init s)) = 0"
    and "run_sample (snd (atmel_start_init s)) = 1"
    and "main_reach debug b acm_write s0 (pc, s')"
  shows "(\<exists>s2. timer_overflow debug s' = Some s2 \<and> descr_time s2 = descr_time s' + 1)
    \<and> (run_sample s' = 0 \<or> run_sample s' = 1)
    \<and> (pc = At_led_on \<or> pc = At_report \<or> pc = At_clear \<longrightarrow> run_sample s' = 1)
    \<and> pins s' LED_STATUS = False \<and> pins s' LED_ERROR = True
    \<and> (pins s' LED_READING \<longleftrightarrow> pc = At_wait \<or> pc = At_led_on)"
proof -
  have inv: "main_inv (pc, s')"
    using main_reach_inv [OF assms(5)] main_start_inv [OF assms(1-4)] .
  then obtain a where "timer_on s' a" by (auto simp: main_inv_def)
  from timer_overflow_on [OF this, of debug] inv show ?thesis by (auto simp: main_inv_def)
qed

definition ready_bus :: "unit sercom_bus" where
  "ready_bus = \<lparr>rd = (\<lambda>r h. (case r of STATUS \<Rightarrow> 0x10 | INTFLAG \<Rightarrow> 1 | _ \<Rightarrow> 0, h)), wr = (\<lambda>_ _ h. h)\<rparr>"

definition sample_boot :: "(unit, string) app_state" where
  "sample_boot = \<lparr>tc_of = (\<lambda>_. tc_zero), nvic_enabled = (\<lambda>_. False), nvic_pending = (\<lambda>_. False),
     tc3_dev = 0x20000200, dev_hw = (\<lambda>_. TC3), t_next = (\<lambda>_. 0), t_time_label = (\<lambda>_. 0),
     t_interval = (\<lambda>_. 0), t_cb = (\<lambda>_. TIMER0_callback_fn), t_mode = (\<lambda>_. TIMER_TASK_ONE_SHOT),
     descr_device = 0x20000200, descr_time = 0, descr_tasks = 0, descr_flags = 0,
     sample_id = 0, run_sample = 1, pins = (\<lambda>_. False), led_log = [],
     ina = \<lparr>periph = (), imem = (\<lambda>_. 0), sercom_irq_on = False, sercom_irq_pending = False, svc_msg = mk_msg 0 0 0 0,
     svc_mode = 0, svc_trise = 215, i2c_hw = SERCOM0,
     slave_addr = 0, io_ready = True, reg_slot = 0x20000F00, i2c_io = 0, io_addr = 0x20000400,
     cfg_slot = 0x20000F08, tmp_slot = 0x20000F10\<rparr>, usb = []\<rparr>"

lemma ready_bus_simps [simp]:
  "reg_read ready_bus r s = ((case r of STATUS \<Rightarrow> 0x10 | INTFLAG \<Rightarrow> 1 | _ \<Rightarrow> 0), s)"
  "reg_write ready_bus r v s = s" "reg_modify ready_bus r f s = s"
  by (simp_all add: reg_read_def reg_write_def reg_modify_def ready_bus_def)

lemma ready_bus_wait [simp]: "sercom_i2c_sync_wait_bus ready_bus s = (I2C_OK, 1, s)"
proof -
  have "wait_bus_loop ready_bus (Suc n) s = (I2C_OK, 1, s)" for n by simp
  from this [of 65534] show ?thesis by (simp add: sercom_i2c_sync_wait_bus_def)
qed

lemma sample_boot_setup: "setup_i2c ready_bus (ina sample_boot) = (0, (ina sample_boot)\<lparr>i2c_io := 0x20000400, slave_addr := 0x40\<rparr>)"
  by (simp add: setup_i2c_def i2c_m_sync_get_io_descriptor_def i2c_m_sync_enable_def hpl_i2c_m_sync_enable_def
      i2c_m_enable_implementation_def enable_loop.simps bus_state_def i2c_m_sync_set_slaveaddr_def sample_boot_def
      INA3221_ADDR_def Let_def)

lemma ready_bus_byte:
  "m_len (svc_msg s) \<noteq> 0 \<Longrightarrow> m_flags (svc_msg s) AND I2C_M_TEN = 0 \<Longrightarrow>
     sercom_i2c_sync_analyse_flags ready_bus 1 s
       = (I2C_OK, msg_update (\<lambda>m. m\<lparr>m_len := m_len m - 1, m_buffer := m_buffer m + 1\<rparr>) s)"
  "m_len (svc_msg s) = 0 \<Longrightarrow> m_flags (svc_msg s) AND I2C_M_TEN = 0 \<Longrightarrow>
     sercom_i2c_sync_analyse_flags ready_bus 1 s = (I2C_OK, msg_update (clear_flag I2C_M_BUSY) s)"
  by (simp_all add: sercom_i2c_sync_analyse_flags_def analyse_mb_def has_flag_def msg_update_def Let_def
      sercom_i2c_send_stop_def)

lemma ready_bus_loop:
  "m_len (svc_msg s) = int n \<Longrightarrow> m_flags (svc_msg s) AND I2C_M_TEN = 0 \<Longrightarrow> has_flag I2C_M_BUSY (svc_msg s) \<Longrightarrow>
     \<exists>m. transfer_loop ready_bus stop ret s = Some (I2C_OK, s\<lparr>svc_msg := m\<rparr>) \<and> \<not> has_flag I2C_M_BUSY m"
proof (induction n arbitrary: s ret)
  case 0
  let ?s = "msg_update (clear_flag I2C_M_BUSY) s"
  have "\<not> has_flag I2C_M_BUSY (svc_msg ?s)"
    by (simp add: msg_update_def has_flag_def clear_flag_def u16_eq_iff bit_simps)
  then have "transfer_loop ready_bus stop I2C_OK ?s = Some (I2C_OK, ?s)" "\<not> has_flag I2C_M_BUSY (svc_msg ?s)"
    by (simp_all add: transfer_loop.simps)
  with 0 show ?case by (subst transfer_loop.simps) (auto simp: ready_bus_byte(2) msg_update_def)
next
  case (Suc n)
  let ?s = "msg_update (\<lambda>m. m\<lparr>m_len := m_len m - 1, m_buffer := m_buffer m + 1\<rparr>) s"
  from Suc.IH [of ?s I2C_OK] Suc.prems
  obtain m where "transfer_loop ready_bus stop I2C_OK ?s = Some (I2C_OK, ?s\<lparr>svc_msg := m\<rparr>)" "\<not> has_flag I2C_M_BUSY m"
    by (auto simp: msg_update_def has_flag_def)
  with Suc.prems show ?case
    by (subst transfer_loop.simps) (auto simp: ready_bus_byte(1) msg_update_def)
qed

lemma ready_bus_transfer:
  assumes "\<not> has_flag I2C_M_BUSY (svc_msg s)" and "f = 0 \<or> f = I2C_M_STOP"
  shows "\<exists>m. hpl_i2c_m_sync_transfer ready_bus (mk_msg 0x40 f (int (Suc n)) p) s = Some (I2C_OK, s\<lparr>svc_msg := m\<rparr>)
    \<and> \<not> has_flag I2C_M_BUSY m"
proof -
  let ?m = "set_flag I2C_M_BUSY (mk_msg 0x40 f (int (Suc n)) p)"
  let ?s = "s\<lparr>svc_msg := ?m\<lparr>m_len := int n, m_buffer := p + 1\<rparr>\<rparr>"
  have fl: "(f OR 0x100) AND I2C_M_TEN = 0" "(f OR 0x100) AND 0x100 \<noteq> 0" "(f OR 0x100) AND 1 = 0"
    using assms(2) by auto
  have adr: "write_address ready_bus (s\<lparr>svc_msg := ?m\<rparr>) = s\<lparr>svc_msg := ?m\<rparr>"
    by (simp add: write_address_def set_flag_def mk_msg_def)
  have "sercom_i2c_sync_send_address ready_bus (s\<lparr>svc_msg := ?m\<rparr>) = (I2C_OK, ?s)"
    unfolding sercom_i2c_sync_send_address_def adr
    using fl by (simp add: ready_bus_byte(1) msg_update_def set_flag_def mk_msg_def)
  moreover obtain m where "transfer_loop ready_bus (has_flag I2C_M_STOP ?m) I2C_OK ?s = Some (I2C_OK, ?s\<lparr>svc_msg := m\<rparr>)"
      "\<not> has_flag I2C_M_BUSY m"
    using ready_bus_loop [of ?s n] fl by (auto simp: has_flag_def set_flag_def mk_msg_def)
  ultimately show ?thesis using assms(1) by (intro exI [of _ m]) (simp add: hpl_i2c_m_sync_transfer_def Let_def)
qed

lemma sample_boot_starts: "\<exists>s0. main_start (\<lambda>s. (0, s)) ready_bus True sample_boot = Some s0"
proof -
  have conf: "\<exists>st'. configure_ina3221 ready_bus st = Some (0, st')"
    if idle: "\<not> has_flag I2C_M_BUSY (svc_msg st)" and addr: "slave_addr st = 0x40" for st :: "unit ina_state"
  proof -
    let ?st = "st\<lparr>imem := (store16 ina3221_cfg (cfg_slot st) (imem st))(reg_slot st := 0)\<rparr>"
    obtain m where m: "hpl_i2c_m_sync_transfer ready_bus (mk_msg 0x40 0 1 (reg_slot st)) ?st
        = Some (I2C_OK, ?st\<lparr>svc_msg := m\<rparr>)" "\<not> has_flag I2C_M_BUSY m"
      using ready_bus_transfer [of ?st 0 0 "reg_slot st"] idle by auto
    obtain m' where "hpl_i2c_m_sync_transfer ready_bus (mk_msg 0x40 I2C_M_STOP 2 (cfg_slot st)) (?st\<lparr>svc_msg := m\<rparr>)
        = Some (I2C_OK, ?st\<lparr>svc_msg := m'\<rparr>)"
      using ready_bus_transfer [of "?st\<lparr>svc_msg := m\<rparr>" I2C_M_STOP 1 "cfg_slot st"] m by auto
    with m addr show ?thesis
      by (auto simp: configure_ina3221_def i2c_m_sync_cmd_write_def i2c_m_sync_cmd_def Let_def)
  qed
  let ?s = "LED_OFF LED_ERROR (LED_OFF LED_READING (LED_OFF LED_STATUS sample_boot))"
  let ?st = "(ina sample_boot)\<lparr>i2c_io := 0x20000400, slave_addr := 0x40\<rparr>"
  have ina: "ina (LED_OFF p x) = ina x" for p and x :: "(unit, string) app_state" by (simp add: LED_OFF_def gpio_set_pin_level_def)
  obtain st' where st': "configure_ina3221 ready_bus ?st = Some (0, st')"
    using conf [of ?st] by (auto simp: sample_boot_def has_flag_def mk_msg_def)
  let ?s1 = "?s\<lparr>ina := st'\<rparr>"
  obtain s1 where "setup_timer True ?s1 = Some s1"
    using setup_timer_on [of ?s1 True] by (auto simp: sample_boot_def LED_OFF_def gpio_set_pin_level_def)
  then show ?thesis by (simp add: main_start_def ina sample_boot_setup st' Let_def)
qed

lemma main_loop_invariant_witness:
  "\<exists>s0. main_start (\<lambda>s. (0, s)) ready_bus True sample_boot = Some s0
    \<and> run_sample s0 \<in> {0, 1} \<and> \<not> pins s0 LED_STATUS \<and> (\<exists>s2. timer_overflow True s0 = Some s2)"
proof -
  obtain s0 where s0: "main_start (\<lambda>s. (0, s)) ready_bus True sample_boot = Some s0"
    using sample_boot_starts by blast
  from main_loop_invariant [OF s0 _ _ _ main_reach.start] s0 show ?thesis
    by (auto simp: sample_boot_def)
qed

lemma main_reach_ina:
  "main_reach debug ina_bus acm_write s0 c \<Longrightarrow> ina_app_ok (periph (ina s0)) (ina s0) \<Longrightarrow> main_inv (At_wait, s0) \<Longrightarrow>
     ina_app_ok (periph (ina (snd c))) (ina (snd c))"
proof (induction rule: main_reach.induct)
  case (step c c')
  then have ok: "ina_app_ok (periph (ina (snd c))) (ina (snd c))" by simp
  from step.hyps(2) show ?case
  proof (cases rule: main_step.cases)
    case (report s s')
    then show ?thesis using ok report_ref [of s acm_write] by auto
  qed (use ok in \<open>simp_all add: LED_ON_def LED_OFF_def gpio_set_pin_level_def\<close>)
next
  case (tick pc s s')
  from main_reach_inv [OF tick.hyps(1) tick.prems(2)] obtain a where a: "timer_on s a"
    by (auto simp: main_inv_def)
  have "ina s' = ina s"
    using timer_overflow_on [OF a, of debug] tick.hyps(2) by (cases "a = 199") auto
  with tick show ?case by simp
qed simp

text \<open>
  C22. With the monitor on the bus the main loop never stops: in every state it can reach,
  some statement can run, or it waits and the request flag is down; the next request comes
  with the timer.
\<close>

lemma main_loop_progress:
  assumes "main_reach debug ina_bus acm_write s0 (pc, s')"
    and "ina_app_ok (periph (ina s0)) (ina s0)" and "main_inv (At_wait, s0)"
  shows "(\<exists>c. main_step ina_bus acm_write (pc, s') c) \<or> (pc = At_wait \<and> run_sample s' = 0)"
proof -
  have "ina_app_ok (periph (ina s')) (ina s')"
    using main_reach_ina [OF assms(1-3)] by simp
  from report_ref [OF this, of acm_write] show ?thesis by (cases pc) auto
qed

lemma sample_loop_inv: "main_inv (At_wait, sample_app regs\<lparr>pins := (\<lambda>p. p \<noteq> 0), run_sample := 1\<rparr>)"
proof -
  have "timer_on (sample_app regs\<lparr>pins := (\<lambda>p. p \<noteq> 0), run_sample := 1\<rparr>) 0"
    by (simp add: timer_on_def sample_app_def TIMER_0_task_def)
  then show ?thesis by (auto simp: main_inv_def)
qed

lemma main_loop_progress_witness:
  "\<exists>c. main_step ina_bus (\<lambda>text n u. u @ text) (At_wait, sample_app (\<lambda>_. 0)\<lparr>pins := (\<lambda>p. p \<noteq> 0), run_sample := 1\<rparr>) c"
  using main_loop_progress [OF main_reach.start _ sample_loop_inv]
    sample_app_ina [of "\<lambda>_. 0"]
  by (auto simp: sample_app_def)

end
