(* ===== verification/HplUsb.thy ===== *)
theory HplUsb
  imports Prelude
begin

text \<open>
  The USB device controller driver \<open>hpl/usb/hpl_usb.c\<close>.

  The state is the controller's registers (per endpoint \<open>epr\<close>, per bank of the descriptor
  table \<open>bank\<close>), memory, and the driver's endpoint instances \<open>ept\<close>, indexed as in
  \<open>dev_inst.ep\<close>.  Registers behave as the data sheet says: writing a one to a \<open>SET\<close> or
  \<open>CLR\<close> register sets or clears the bit, writing a one to a flag clears it.  \<open>PCKSIZE\<close> is
  split into its fields of 14, 14 and 3 bits.  The table of descriptors has three rows and
  \<open>dev_inst.ep\<close> 13; the maps are total, for what lies behind the arrays.

  The callbacks installed in \<open>dev_inst\<close> are names of functions, \<open>None\<close> for the dummy;
  they are called through the parameter \<open>call\<close>, and may call the driver again.
\<close>

text \<open>
  Calls through function pointers: the five callbacks of this driver, and the request and
  transfer callbacks that the layers above install in each other, with the arguments passed
  (a \<open>void *\<close> parameter as the 32-bit value it is).
\<close>

datatype usb_xfer_code = USB_XFER_DONE | USB_XFER_DATA | USB_XFER_HALT | USB_XFER_UNHALT | USB_XFER_ABORT
  | USB_XFER_RESET | USB_XFER_ERROR

datatype usb_cb = Cb_sof | Cb_event nat u32 | Cb_setup u8 | Cb_more u8 u32 | Cb_done u8 rc u32
  | Cb_req u8 ptr | Cb_xfer u8 usb_xfer_code u32

record bank_desc =
  bk_addr :: u32
  bk_count :: u16
  bk_multi :: u16
  bk_sz :: u8
  bk_status :: u8
  bk_subpid :: u8
  bk_variable :: u16

record ep_regs =
  epcfg :: u8
  epstatus :: u8
  epintflag :: u8
  epinten :: u8

record usb_d_dev_ep =
  trans_buf :: ptr
  trans_size :: u32
  trans_count :: u32
  ep_cache :: ptr
  ep_size :: u16
  ep_addr :: u8
  eptype :: u8
  is_stalled :: bool
  need_zlp :: bool
  use_cache :: bool
  is_busy :: bool
  ep_dir :: bool

record 'f usb_hpl =
  umem :: "ptr \<Rightarrow> u8"
  epr :: "u8 \<Rightarrow> ep_regs"
  bank :: "u8 \<Rightarrow> bool \<Rightarrow> bank_desc"
  dev_ctrla :: u8
  dev_ctrlb :: u16
  dev_syncbusy :: u8
  dev_dadd :: u8
  dev_intflag :: u16
  dev_inten :: u16
  dev_fnum :: u16
  dev_fsm :: u8
  dev_speed :: u8
  dev_descadd :: ptr
  dev_padcal :: u16
  dev_qos :: u8
  otp4 :: "nat \<Rightarrow> u32"
  dfll_usbcrm :: bool
  dfll_flags :: u32
  usb_irq_on :: bool
  usb_irq_pending :: bool
  ept :: "nat \<Rightarrow> usb_d_dev_ep"
  cb_sof :: "'f option"
  cb_event :: "'f option"
  cb_setup :: "'f option"
  cb_more :: "'f option"
  cb_done :: "'f option"

type_synonym ('f, 'a) usb_call =
  "'f \<Rightarrow> usb_cb \<Rightarrow> ('f, 'a) usb_hpl_scheme \<Rightarrow> (bool \<times> ('f, 'a) usb_hpl_scheme) option"

definition invoke ::
    "('f, 'a) usb_call \<Rightarrow> 'f option \<Rightarrow> usb_cb \<Rightarrow> ('f, 'a) usb_hpl_scheme
      \<Rightarrow> (bool \<times> ('f, 'a) usb_hpl_scheme) option" where
  \<comment> \<open>\<open>None\<close> is \<open>_dummy_func_no_return\<close>\<close>
  "invoke call f arg s = (case f of None \<Rightarrow> Some (False, s) | Some g \<Rightarrow> call g arg s)"

definition invoke_proc ::
    "('f, 'a) usb_call \<Rightarrow> 'f option \<Rightarrow> usb_cb \<Rightarrow> ('f, 'a) usb_hpl_scheme \<Rightarrow> ('f, 'a) usb_hpl_scheme option" where
  "invoke_proc call f arg s = map_option snd (invoke call f arg s)"

abbreviation (input) USB_OK :: rc where "USB_OK \<equiv> 0"
abbreviation (input) USB_BUSY :: rc where "USB_BUSY \<equiv> 1"
abbreviation (input) USB_HALTED :: rc where "USB_HALTED \<equiv> 2"
abbreviation (input) USB_ERROR :: rc where "USB_ERROR \<equiv> 0x10"
abbreviation (input) USB_ERR_DENIED :: rc where "USB_ERR_DENIED \<equiv> 0x11"
abbreviation (input) USB_ERR_PARAM :: rc where "USB_ERR_PARAM \<equiv> 0x12"
abbreviation (input) USB_ERR_FUNC :: rc where "USB_ERR_FUNC \<equiv> 0x13"
abbreviation (input) USB_ERR_REDO :: rc where "USB_ERR_REDO \<equiv> 0x14"
abbreviation (input) USB_ERR_ALLOC_FAIL :: rc where "USB_ERR_ALLOC_FAIL \<equiv> 0x15"

abbreviation (input) USB_TRANS_DONE :: rc where "USB_TRANS_DONE \<equiv> 0"
abbreviation (input) USB_TRANS_STALL :: rc where "USB_TRANS_STALL \<equiv> 1"
abbreviation (input) USB_TRANS_ABORT :: rc where "USB_TRANS_ABORT \<equiv> 2"
abbreviation (input) USB_TRANS_RESET :: rc where "USB_TRANS_RESET \<equiv> 3"
abbreviation (input) USB_TRANS_ERROR :: rc where "USB_TRANS_ERROR \<equiv> 4"

abbreviation (input) USB_EV_RESET :: nat where "USB_EV_RESET \<equiv> 1"
abbreviation (input) USB_EV_WAKEUP :: nat where "USB_EV_WAKEUP \<equiv> 2"
abbreviation (input) USB_EV_LPM_SUSPEND :: nat where "USB_EV_LPM_SUSPEND \<equiv> 3"
abbreviation (input) USB_EV_SUSPEND :: nat where "USB_EV_SUSPEND \<equiv> 4"
abbreviation (input) USB_EV_ERROR :: nat where "USB_EV_ERROR \<equiv> 5"

abbreviation (input) BANK0_INT_FLAGS :: u8 where "BANK0_INT_FLAGS \<equiv> 0x25"
abbreviation (input) BANK1_INT_FLAGS :: u8 where "BANK1_INT_FLAGS \<equiv> 0x4A"
abbreviation (input) ALL_INT_FLAGS :: u8 where "ALL_INT_FLAGS \<equiv> 0x7F"
abbreviation (input) TRCPT0 :: u8 where "TRCPT0 \<equiv> 1"
abbreviation (input) TRFAIL0 :: u8 where "TRFAIL0 \<equiv> 4"
abbreviation (input) TRFAIL1 :: u8 where "TRFAIL1 \<equiv> 8"
abbreviation (input) TRCPT1 :: u8 where "TRCPT1 \<equiv> 2"
abbreviation (input) RXSTP :: u8 where "RXSTP \<equiv> 0x10"
abbreviation (input) STALL0 :: u8 where "STALL0 \<equiv> 0x20"
abbreviation (input) STALL1 :: u8 where "STALL1 \<equiv> 0x40"
abbreviation (input) WAKEUP_INT_FLAGS :: u16 where "WAKEUP_INT_FLAGS \<equiv> 0x70"
abbreviation (input) SUSPEND_INT_FLAGS :: u16 where "SUSPEND_INT_FLAGS \<equiv> 0x201"
abbreviation (input) EPTYPE_CTRL :: u8 where "EPTYPE_CTRL \<equiv> 1"
abbreviation (input) USB_D_EPCFG_CTRL :: u8 where "USB_D_EPCFG_CTRL \<equiv> 0x11"

subsection \<open>Configuration\<close>

definition MAX_EP_N :: u8 where "MAX_EP_N = 2"
definition USB_D_N_EP :: nat where "USB_D_N_EP = 1 + 6 * 2"
definition USB_D_DEV_TRANS_MAX :: u16 where "USB_D_DEV_TRANS_MAX = 8192"

record usb_ep_cfg_item =
  cfg_cache :: ptr
  cfg_i_cache :: ptr
  cfg_size :: u16
  cfg_i_size :: u16

definition usb_ep_cfgs :: "u8 \<Rightarrow> usb_ep_cfg_item" where
  \<comment> \<open>the caches are placed by the linker, 32-bit aligned, apart from each other\<close>
  "usb_ep_cfgs epn =
     (if epn = 0 then \<lparr>cfg_cache = 0x20000800, cfg_i_cache = NULL, cfg_size = 64, cfg_i_size = 0\<rparr>
      else if epn = 1 then \<lparr>cfg_cache = 0x20000840, cfg_i_cache = 0x200008C0, cfg_size = 128, cfg_i_size = 128\<rparr>
      else if epn = 2 then \<lparr>cfg_cache = 0x20000940, cfg_i_cache = 0x20000980, cfg_size = 64, cfg_i_size = 64\<rparr>
      else \<lparr>cfg_cache = NULL, cfg_i_cache = NULL, cfg_size = 0, cfg_i_size = 0\<rparr>)"

definition in_ram :: "u32 \<Rightarrow> u32 \<Rightarrow> bool" where
  "in_ram a n \<longleftrightarrow> 0x20000000 \<le> a \<and> a + n < 0x20000000 + 0x1000"

definition usb_is_aligned :: "u32 \<Rightarrow> bool" where "usb_is_aligned v \<longleftrightarrow> v AND 3 = 0"

definition ep_get_n :: "u8 \<Rightarrow> u8" where "ep_get_n ep = ep AND 0x0F"
definition ep_get_dir :: "u8 \<Rightarrow> bool" where "ep_get_dir ep \<longleftrightarrow> ep AND 0x80 \<noteq> 0"

definition dev_ept :: "u8 \<Rightarrow> bool \<Rightarrow> nat" where
  \<comment> \<open>\<open>_usb_d_dev_ept\<close>: the index in \<open>dev_inst.ep\<close>\<close>
  "dev_ept epn dir = unat (if epn = 0 then 0 else if dir then epn + MAX_EP_N else epn)"

definition size_mask :: "u16 \<Rightarrow> u16" where "size_mask n = (if n = 1023 then n else n - 1)"

subsection \<open>Register helpers\<close>

definition upd_ept :: "nat \<Rightarrow> (usb_d_dev_ep \<Rightarrow> usb_d_dev_ep) \<Rightarrow> ('f, 'a) usb_hpl_scheme \<Rightarrow> ('f, 'a) usb_hpl_scheme" where
  "upd_ept i f s = s\<lparr>ept := (ept s)(i := f (ept s i))\<rparr>"

definition upd_epr :: "u8 \<Rightarrow> (ep_regs \<Rightarrow> ep_regs) \<Rightarrow> ('f, 'a) usb_hpl_scheme \<Rightarrow> ('f, 'a) usb_hpl_scheme" where
  "upd_epr n f s = s\<lparr>epr := (epr s)(n := f (epr s n))\<rparr>"

definition upd_bank :: "u8 \<Rightarrow> bool \<Rightarrow> (bank_desc \<Rightarrow> bank_desc) \<Rightarrow> ('f, 'a) usb_hpl_scheme \<Rightarrow> ('f, 'a) usb_hpl_scheme" where
  "upd_bank n b f s = s\<lparr>bank := (bank s)(n := (bank s n)(b := f (bank s n b)))\<rparr>"

definition shl :: "u8 \<Rightarrow> bool \<Rightarrow> u8" where
  \<comment> \<open>\<open>mask << bank_n\<close>\<close>
  "shl m b = (if b then push_bit 1 m else m)"

definition ep_int_ack :: "u8 \<Rightarrow> u8 \<Rightarrow> ('f, 'a) usb_hpl_scheme \<Rightarrow> ('f, 'a) usb_hpl_scheme" where
  "ep_int_ack epn flags = upd_epr epn (\<lambda>r. r\<lparr>epintflag := epintflag r AND NOT flags\<rparr>)"

definition ep_int_en :: "u8 \<Rightarrow> u8 \<Rightarrow> ('f, 'a) usb_hpl_scheme \<Rightarrow> ('f, 'a) usb_hpl_scheme" where
  "ep_int_en epn flags = upd_epr epn (\<lambda>r. r\<lparr>epinten := epinten r OR flags\<rparr>)"

definition ep_int_dis :: "u8 \<Rightarrow> u8 \<Rightarrow> ('f, 'a) usb_hpl_scheme \<Rightarrow> ('f, 'a) usb_hpl_scheme" where
  "ep_int_dis epn flags = upd_epr epn (\<lambda>r. r\<lparr>epinten := epinten r AND NOT flags\<rparr>)"

definition ep_status_set :: "u8 \<Rightarrow> u8 \<Rightarrow> ('f, 'a) usb_hpl_scheme \<Rightarrow> ('f, 'a) usb_hpl_scheme" where
  "ep_status_set epn m = upd_epr epn (\<lambda>r. r\<lparr>epstatus := epstatus r OR m\<rparr>)"

definition ep_status_clr :: "u8 \<Rightarrow> u8 \<Rightarrow> ('f, 'a) usb_hpl_scheme \<Rightarrow> ('f, 'a) usb_hpl_scheme" where
  "ep_status_clr epn m = upd_epr epn (\<lambda>r. r\<lparr>epstatus := epstatus r AND NOT m\<rparr>)"

definition ep_is_ctrl_hw :: "u8 \<Rightarrow> ('f, 'a) usb_hpl_scheme \<Rightarrow> bool" where
  "ep_is_ctrl_hw epn s \<longleftrightarrow> epcfg (epr s epn) = USB_D_EPCFG_CTRL"

definition ep_set_stall :: "u8 \<Rightarrow> bool \<Rightarrow> bool \<Rightarrow> ('f, 'a) usb_hpl_scheme \<Rightarrow> ('f, 'a) usb_hpl_scheme" where
  "ep_set_stall epn b st = (if st then ep_status_set epn (shl 0x10 b) else ep_status_clr epn (shl 0x10 b))"

definition ep_is_stalled :: "u8 \<Rightarrow> bool \<Rightarrow> ('f, 'a) usb_hpl_scheme \<Rightarrow> bool" where
  "ep_is_stalled epn b s \<longleftrightarrow> epstatus (epr s epn) AND shl 0x10 b \<noteq> 0"

definition ep_is_stall_sent :: "u8 \<Rightarrow> bool \<Rightarrow> ('f, 'a) usb_hpl_scheme \<Rightarrow> bool" where
  "ep_is_stall_sent epn b s \<longleftrightarrow> epintflag (epr s epn) AND shl STALL0 b \<noteq> 0"

definition ep_ack_stall :: "u8 \<Rightarrow> bool \<Rightarrow> ('f, 'a) usb_hpl_scheme \<Rightarrow> ('f, 'a) usb_hpl_scheme" where
  "ep_ack_stall epn b = ep_int_ack epn (shl STALL0 b)"

definition ep_int_stall_en :: "u8 \<Rightarrow> bool \<Rightarrow> bool \<Rightarrow> ('f, 'a) usb_hpl_scheme \<Rightarrow> ('f, 'a) usb_hpl_scheme" where
  "ep_int_stall_en epn b en = (if en then ep_int_en epn (shl STALL0 b) else ep_int_dis epn (shl STALL0 b))"

definition ep_stop_setup :: "u8 \<Rightarrow> ('f, 'a) usb_hpl_scheme \<Rightarrow> ('f, 'a) usb_hpl_scheme" where
  "ep_stop_setup epn = ep_int_dis epn RXSTP"

definition ep_is_setup :: "u8 \<Rightarrow> ('f, 'a) usb_hpl_scheme \<Rightarrow> bool" where
  "ep_is_setup epn s \<longleftrightarrow> epintflag (epr s epn) AND RXSTP \<noteq> 0"

definition ep_ack_setup :: "u8 \<Rightarrow> ('f, 'a) usb_hpl_scheme \<Rightarrow> ('f, 'a) usb_hpl_scheme" where
  "ep_ack_setup epn = ep_int_ack epn RXSTP"

definition ep_set_toggle :: "u8 \<Rightarrow> bool \<Rightarrow> bool \<Rightarrow> ('f, 'a) usb_hpl_scheme \<Rightarrow> ('f, 'a) usb_hpl_scheme" where
  "ep_set_toggle epn b tgl = (if tgl then ep_status_set epn (shl 1 b) else ep_status_clr epn (shl 1 b))"

definition ep_ack_io_cpt :: "u8 \<Rightarrow> bool \<Rightarrow> ('f, 'a) usb_hpl_scheme \<Rightarrow> ('f, 'a) usb_hpl_scheme" where
  "ep_ack_io_cpt epn b = ep_int_ack epn (shl TRCPT0 b)"

definition ep_set_buf :: "u8 \<Rightarrow> bool \<Rightarrow> u32 \<Rightarrow> ('f, 'a) usb_hpl_scheme \<Rightarrow> ('f, 'a) usb_hpl_scheme" where
  "ep_set_buf epn b addr = upd_bank epn b (\<lambda>k. k\<lparr>bk_addr := addr\<rparr>)"

definition ep_set_in_count :: "u8 \<Rightarrow> bool \<Rightarrow> u16 \<Rightarrow> ('f, 'a) usb_hpl_scheme \<Rightarrow> ('f, 'a) usb_hpl_scheme" where
  "ep_set_in_count epn b n = upd_bank epn b (\<lambda>k. k\<lparr>bk_multi := take_bit 14 n\<rparr>)"

definition ep_set_in_size :: "u8 \<Rightarrow> bool \<Rightarrow> u16 \<Rightarrow> ('f, 'a) usb_hpl_scheme \<Rightarrow> ('f, 'a) usb_hpl_scheme" where
  "ep_set_in_size epn b n = upd_bank epn b (\<lambda>k. k\<lparr>bk_count := take_bit 14 n\<rparr>)"

definition ep_set_out_count :: "u8 \<Rightarrow> bool \<Rightarrow> u16 \<Rightarrow> ('f, 'a) usb_hpl_scheme \<Rightarrow> ('f, 'a) usb_hpl_scheme" where
  "ep_set_out_count epn b n = upd_bank epn b (\<lambda>k. k\<lparr>bk_count := take_bit 14 n\<rparr>)"

definition ep_set_out_size :: "u8 \<Rightarrow> bool \<Rightarrow> u16 \<Rightarrow> ('f, 'a) usb_hpl_scheme \<Rightarrow> ('f, 'a) usb_hpl_scheme" where
  "ep_set_out_size epn b n = upd_bank epn b (\<lambda>k. k\<lparr>bk_multi := take_bit 14 n\<rparr>)"

definition ep_set_in_trans :: "u8 \<Rightarrow> bool \<Rightarrow> u32 \<Rightarrow> u32 \<Rightarrow> ('f, 'a) usb_hpl_scheme \<Rightarrow> ('f, 'a) usb_hpl_scheme" where
  "ep_set_in_trans epn b sz n s = ep_set_in_count epn b (ucast n) (ep_set_in_size epn b (ucast sz) s)"

definition ep_set_out_trans :: "u8 \<Rightarrow> bool \<Rightarrow> u32 \<Rightarrow> u32 \<Rightarrow> ('f, 'a) usb_hpl_scheme \<Rightarrow> ('f, 'a) usb_hpl_scheme" where
  "ep_set_out_trans epn b sz n s = ep_set_out_count epn b (ucast n) (ep_set_out_size epn b (ucast sz) s)"

definition ep_clear_bank_status :: "u8 \<Rightarrow> bool \<Rightarrow> ('f, 'a) usb_hpl_scheme \<Rightarrow> ('f, 'a) usb_hpl_scheme" where
  "ep_clear_bank_status epn b = upd_bank epn b (\<lambda>k. k\<lparr>bk_status := 0\<rparr>)"

definition ep_set_in_rdy :: "u8 \<Rightarrow> bool \<Rightarrow> bool \<Rightarrow> ('f, 'a) usb_hpl_scheme \<Rightarrow> ('f, 'a) usb_hpl_scheme" where
  "ep_set_in_rdy epn b rdy = (if rdy then ep_status_set epn (shl 0x40 b) else ep_status_clr epn (shl 0x40 b))"

definition ep_set_out_rdy :: "u8 \<Rightarrow> bool \<Rightarrow> bool \<Rightarrow> ('f, 'a) usb_hpl_scheme \<Rightarrow> ('f, 'a) usb_hpl_scheme" where
  "ep_set_out_rdy epn b rdy = (if rdy then ep_status_clr epn (shl 0x40 b) else ep_status_set epn (shl 0x40 b))"

definition ep_pcksize_size :: "u16 \<Rightarrow> u8" where
  "ep_pcksize_size n =
     (if 512 < n then 7 else if 256 < n then 6 else if 128 < n then 5 else if 64 < n then 4
      else if 32 < n then 3 else if 16 < n then 2 else if 8 < n then 1 else 0)"

definition memcpy :: "ptr \<Rightarrow> ptr \<Rightarrow> nat \<Rightarrow> ('f, 'a) usb_hpl_scheme \<Rightarrow> ('f, 'a) usb_hpl_scheme" where
  "memcpy dst src n s =
     s\<lparr>umem := (\<lambda>p. if unat (p - dst) < n then umem s (src + (p - dst)) else umem s p)\<rparr>"

subsection \<open>Finishing a transaction\<close>

definition trans_done ::
    "('f, 'a) usb_call \<Rightarrow> nat \<Rightarrow> rc \<Rightarrow> ('f, 'a) usb_hpl_scheme \<Rightarrow> ('f, 'a) usb_hpl_scheme option" where
  "trans_done call i code s =
     (if \<not> (ep_addr (ept s i) \<noteq> 0xFF \<and> is_busy (ept s i)) then Some s
      else
        (let s = upd_ept i (\<lambda>e. e\<lparr>is_busy := False\<rparr>) s
         in invoke_proc call (cb_done s) (Cb_done (ep_addr (ept s i)) code (trans_count (ept s i))) s))"

definition trans_stop ::
    "('f, 'a) usb_call \<Rightarrow> nat \<Rightarrow> bool \<Rightarrow> rc \<Rightarrow> ('f, 'a) usb_hpl_scheme \<Rightarrow> ('f, 'a) usb_hpl_scheme option" where
  "trans_stop call i dir code s =
     (let epn = ep_get_n (ep_addr (ept s i));
          intflags = (if dir then BANK1_INT_FLAGS else BANK0_INT_FLAGS)
      in if \<not> (ep_addr (ept s i) \<noteq> 0xFF \<and> is_busy (ept s i)) then Some s
         else
           (let s = (if dir then ep_set_in_rdy epn True False s else ep_set_out_rdy epn False False s);
                s = ep_int_ack epn intflags s;
                s = ep_int_dis epn intflags s
            in trans_done call i code s))"

subsection \<open>IN and OUT transactions\<close>

definition in_tx_exec :: "u8 \<Rightarrow> bool \<Rightarrow> bool \<Rightarrow> ('f, 'a) usb_hpl_scheme \<Rightarrow> ('f, 'a) usb_hpl_scheme" where
  "in_tx_exec epn is_ctrl isr s =
     (let s = (if \<not> isr then ep_int_en epn (if is_ctrl then BANK1_INT_FLAGS OR TRFAIL0 else BANK1_INT_FLAGS) s
               else s)
      in ep_set_in_rdy epn True True s)"

definition in_arm :: "nat \<Rightarrow> u8 \<Rightarrow> bool \<Rightarrow> bool \<Rightarrow> ('f, 'a) usb_hpl_scheme \<Rightarrow> ('f, 'a) usb_hpl_scheme" where
  \<comment> \<open>send more data\<close>
  "in_arm i epn is_ctrl isr s =
     (let e = ept s i;
          nxt = ucast (trans_size e - trans_count e) :: u16
      in if use_cache e then
           (let nxt = (if ep_size e < nxt then ep_size e else nxt);
                s = memcpy (ep_cache e) (trans_buf e + trans_count e) (unat nxt) s;
                s = ep_set_buf epn True (ep_cache e) s;
                s = ep_set_in_trans epn True (ucast nxt) 0 s
            in in_tx_exec epn is_ctrl isr s)
         else
           (let nxt = (if USB_D_DEV_TRANS_MAX < nxt then USB_D_DEV_TRANS_MAX else nxt);
                s = ep_set_buf epn True (trans_buf e + trans_count e) s;
                s = ep_set_in_trans epn True (ucast nxt) 0 s
            in in_tx_exec epn is_ctrl isr s))"

definition in_complete ::
    "('f, 'a) usb_call \<Rightarrow> nat \<Rightarrow> u8 \<Rightarrow> bool \<Rightarrow> u16 \<Rightarrow> ('f, 'a) usb_hpl_scheme \<Rightarrow> ('f, 'a) usb_hpl_scheme option" where
  "in_complete call i epn is_ctrl last_pkt s =
     (let s = ep_int_dis epn (if is_ctrl then BANK1_INT_FLAGS OR TRCPT0 else BANK1_INT_FLAGS) s in
      if last_pkt = ep_size (ept s i) then
        (let s = upd_ept i (\<lambda>e. e\<lparr>is_busy := False\<rparr>) s in
         case invoke call (cb_more s) (Cb_more (ep_addr (ept s i)) (trans_count (ept s i))) s of
           None \<Rightarrow> None
         | Some (added, s) \<Rightarrow>
             if added then Some s
             else trans_done call i USB_TRANS_DONE (upd_ept i (\<lambda>e. e\<lparr>is_busy := True\<rparr>) s))
      else trans_done call i USB_TRANS_DONE s)"

definition in_next ::
    "('f, 'a) usb_call \<Rightarrow> nat \<Rightarrow> bool \<Rightarrow> ('f, 'a) usb_hpl_scheme \<Rightarrow> ('f, 'a) usb_hpl_scheme option" where
  "in_next call i isr s =
     (let epn = ep_get_n (ep_addr (ept s i));
          tc = (if isr then bk_count (bank s epn True) else 0);
          last_pkt = tc AND size_mask (ep_size (ept s i));
          is_ctrl = (eptype (ept s i) = EPTYPE_CTRL);
          s = (if isr then ep_ack_io_cpt epn True s else s);
          s = upd_ept i (\<lambda>e. e\<lparr>trans_count := trans_count e + ucast tc\<rparr>) s;
          e = ept s i
      in if trans_count e < trans_size e then Some (in_arm i epn is_ctrl isr s)
         else if need_zlp e then
           (let s = upd_ept i (\<lambda>e. e\<lparr>need_zlp := False\<rparr>) s;
                s = ep_set_in_trans epn True 0 0 s
            in Some (in_tx_exec epn is_ctrl isr s))
         else in_complete call i epn is_ctrl last_pkt s)"

definition out_rx_exec :: "u8 \<Rightarrow> bool \<Rightarrow> bool \<Rightarrow> ('f, 'a) usb_hpl_scheme \<Rightarrow> ('f, 'a) usb_hpl_scheme" where
  "out_rx_exec epn is_ctrl isr s =
     (let s = (if \<not> isr then
                 (if is_ctrl then ep_int_en epn (BANK0_INT_FLAGS OR TRFAIL1) (ep_clear_bank_status epn True s)
                  else ep_int_en epn BANK0_INT_FLAGS s)
               else s)
      in ep_set_out_rdy epn False True s)"

definition out_finish ::
    "('f, 'a) usb_call \<Rightarrow> nat \<Rightarrow> u8 \<Rightarrow> bool \<Rightarrow> ('f, 'a) usb_hpl_scheme \<Rightarrow> ('f, 'a) usb_hpl_scheme option" where
  "out_finish call i epn is_ctrl s =
     (let s = ep_int_dis epn (if is_ctrl then BANK0_INT_FLAGS OR TRFAIL1 else BANK0_INT_FLAGS) s;
          s = (if epn = 0 then ep_set_buf epn False (ep_cache (ept s i)) s else s)
      in trans_done call i USB_TRANS_DONE s)"

definition out_copy :: "nat \<Rightarrow> u16 \<Rightarrow> ('f, 'a) usb_hpl_scheme \<Rightarrow> ('f, 'a) usb_hpl_scheme" where
  \<comment> \<open>if the cache is used, copy its data to the buffer\<close>
  "out_copy i last_pkt s =
     (let e = ept s i in
      if use_cache e \<and> trans_size e \<noteq> 0 then
        (let buf_remain = ucast (trans_size e - trans_count e) :: u16
         in memcpy (trans_buf e + trans_count e) (ep_cache e)
              (unat (if last_pkt < buf_remain then last_pkt else buf_remain)) s)
      else s)"

definition out_next ::
    "('f, 'a) usb_call \<Rightarrow> nat \<Rightarrow> bool \<Rightarrow> ('f, 'a) usb_hpl_scheme \<Rightarrow> ('f, 'a) usb_hpl_scheme option" where
  "out_next call i isr s =
     (let epn = ep_get_n (ep_addr (ept s i));
          tsize = (if isr then bk_multi (bank s epn False) else 0);
          last_trans = (if isr then bk_count (bank s epn False) else 0);
          msk = size_mask (ep_size (ept s i));
          last_pkt = last_trans AND msk;
          is_ctrl = (eptype (ept s i) = EPTYPE_CTRL);
          s = (if isr then ep_ack_io_cpt epn False s else s);
          s = out_copy i last_pkt s;
          e = ept s i
      in if trans_size e = 0 \<and> need_zlp e then
           (let s = upd_ept i (\<lambda>e. e\<lparr>need_zlp := False, use_cache := True\<rparr>) s;
                s = ep_set_buf epn False (ep_cache e) s;
                s = ep_set_out_trans epn False (ucast (ep_size e)) 0 s
            in Some (out_rx_exec epn is_ctrl isr s))
         else if isr \<and> last_pkt < ep_size e then
           out_finish call i epn is_ctrl
             (upd_ept i (\<lambda>e. e\<lparr>need_zlp := False, trans_count := trans_count e + ucast last_trans\<rparr>) s)
         else
           (let s = upd_ept i (\<lambda>e. e\<lparr>trans_count := trans_count e + ucast tsize\<rparr>) s;
                e = ept s i
            in if trans_count e < trans_size e then
                 (let nxt = ucast (trans_size e - trans_count e) :: u16 in
                  if use_cache e then
                    (let nxt = (if ep_size e < nxt then ep_size e else nxt);
                         s = ep_set_buf epn False (ep_cache e) s;
                         s = ep_set_out_trans epn False (ucast nxt) 0 s
                     in Some (out_rx_exec epn is_ctrl isr s))
                  else
                    (let s = (if \<not> ep_size e < nxt \<and> nxt < ep_size e
                              then upd_ept i (\<lambda>e. e\<lparr>use_cache := True\<rparr>) s else s);
                         nxt = (if ep_size e < nxt then
                                  (if USB_D_DEV_TRANS_MAX < nxt then USB_D_DEV_TRANS_MAX else nxt - (nxt AND msk))
                                else nxt);
                         s = ep_set_buf epn False (trans_buf e + trans_count e) s;
                         s = ep_set_out_trans epn False (ucast nxt) 0 s
                     in Some (out_rx_exec epn is_ctrl isr s)))
               else out_finish call i epn is_ctrl s))"

subsection \<open>Endpoint interrupts\<close>

definition setup_clear :: "nat \<Rightarrow> ('f, 'a) usb_hpl_scheme \<Rightarrow> ('f, 'a) usb_hpl_scheme" where
  \<comment> \<open>a setup packet ends the transfer and the stall of its endpoint without notice\<close>
  "setup_clear i s =
     (let epn = ep_get_n (ep_addr (ept s i));
          s = (if is_busy (ept s i) then
                 (let s = upd_ept i (\<lambda>e. e\<lparr>is_busy := False\<rparr>) s;
                      s = ep_set_in_rdy epn True False s
                  in ep_set_out_rdy epn False False s)
               else s);
          s = upd_ept i (\<lambda>e. e\<lparr>is_stalled := False\<rparr>) s;
          s = ep_clear_bank_status epn False s;
          s = ep_clear_bank_status epn True s;
          s = ep_int_ack epn (BANK0_INT_FLAGS OR BANK1_INT_FLAGS) s
      in ep_int_dis epn (BANK0_INT_FLAGS OR BANK1_INT_FLAGS) s)"

definition handle_setup ::
    "('f, 'a) usb_call \<Rightarrow> nat \<Rightarrow> ('f, 'a) usb_hpl_scheme \<Rightarrow> ('f, 'a) usb_hpl_scheme option" where
  "handle_setup call i s =
     (let epn = ep_get_n (ep_addr (ept s i)) in
      if eptype (ept s i) \<noteq> EPTYPE_CTRL then Some (ep_stop_setup epn (ep_ack_setup epn s))
      else
        (let s = setup_clear i s
         in invoke_proc call (cb_setup s) (Cb_setup (ep_addr (ept s i))) s))"

definition handle_stall ::
    "('f, 'a) usb_call \<Rightarrow> nat \<Rightarrow> bool \<Rightarrow> ('f, 'a) usb_hpl_scheme \<Rightarrow> ('f, 'a) usb_hpl_scheme option" where
  "handle_stall call i b s =
     (let s = ep_int_stall_en (ep_get_n (ep_addr (ept s i))) b False s
      in invoke_proc call (cb_done s) (Cb_done (ep_addr (ept s i)) USB_TRANS_STALL (trans_count (ept s i))) s)"

definition handle_trfail ::
    "('f, 'a) usb_call \<Rightarrow> nat \<Rightarrow> bool \<Rightarrow> ('f, 'a) usb_hpl_scheme \<Rightarrow> ('f, 'a) usb_hpl_scheme option" where
  "handle_trfail call i b s =
     (let epn = ep_get_n (ep_addr (ept s i));
          fail = (if b then TRFAIL1 else TRFAIL0);
          etype = (if b then drop_bit 4 (epcfg (epr s epn)) AND 7 else epcfg (epr s epn) AND 7);
          is_ctrl = (eptype (ept s i) = EPTYPE_CTRL);
          st = bk_status (bank s epn b)
      in if etype = 2 \<and> st AND 1 \<noteq> 0 then
           (let s = upd_bank epn b (\<lambda>k. k\<lparr>bk_status := bk_status k AND NOT 1\<rparr>) s;
                s = ep_int_ack epn fail s;
                s = ep_int_dis epn fail s
            in trans_stop call i b USB_TRANS_ERROR s)
         else if st AND 2 \<noteq> 0 then
           (let s = upd_bank epn b (\<lambda>k. k\<lparr>bk_status := bk_status k AND NOT 2\<rparr>) s;
                s = ep_int_ack epn fail s;
                s = ep_int_dis epn fail s
            in if is_ctrl \<and> is_busy (ept s i) \<and> b \<noteq> ep_dir (ept s i)
               then trans_stop call i (ep_dir (ept s i)) USB_TRANS_DONE s
               else Some s)
         else
           (let s = ep_clear_bank_status epn b s;
                s = ep_int_ack epn fail s
            in Some (ep_int_dis epn fail s)))"

definition trans_setup_isr ::
    "('f, 'a) usb_call \<Rightarrow> nat \<Rightarrow> u8 \<Rightarrow> ('f, 'a) usb_hpl_scheme \<Rightarrow> ('f, 'a) usb_hpl_scheme option" where
  "trans_setup_isr call i flags s =
     (if flags AND RXSTP \<noteq> 0 then handle_setup call i s
      else if flags AND STALL1 \<noteq> 0 then handle_stall call i True s
      else if flags AND STALL0 \<noteq> 0 then handle_stall call i False s
      else Some s)"

definition trans_in_isr ::
    "('f, 'a) usb_call \<Rightarrow> nat \<Rightarrow> u8 \<Rightarrow> ('f, 'a) usb_hpl_scheme \<Rightarrow> ('f, 'a) usb_hpl_scheme option" where
  "trans_in_isr call i flags s =
     (if flags AND STALL1 \<noteq> 0 then handle_stall call i True s
      else if flags AND TRFAIL1 \<noteq> 0 then handle_trfail call i True s
      else if flags AND TRCPT1 \<noteq> 0 then in_next call i True s
      else if eptype (ept s i) = EPTYPE_CTRL then
        (if flags AND TRFAIL0 \<noteq> 0 then handle_trfail call i False s
         else if flags AND RXSTP \<noteq> 0 then handle_setup call i s
         else Some s)
      else Some s)"

definition trans_out_isr ::
    "('f, 'a) usb_call \<Rightarrow> nat \<Rightarrow> u8 \<Rightarrow> ('f, 'a) usb_hpl_scheme \<Rightarrow> ('f, 'a) usb_hpl_scheme option" where
  "trans_out_isr call i flags s =
     (if flags AND STALL0 \<noteq> 0 then handle_stall call i False s
      else if flags AND TRFAIL0 \<noteq> 0 then handle_trfail call i False s
      else if flags AND TRCPT0 \<noteq> 0 then out_next call i True s
      else if eptype (ept s i) = EPTYPE_CTRL then
        (if flags AND TRFAIL1 \<noteq> 0 then handle_trfail call i True s
         else if flags AND RXSTP \<noteq> 0 then handle_setup call i s
         else Some s)
      else Some s)"

definition handle_eps ::
    "('f, 'a) usb_call \<Rightarrow> u16 \<Rightarrow> nat \<Rightarrow> ('f, 'a) usb_hpl_scheme \<Rightarrow> ('f, 'a) usb_hpl_scheme option" where
  "handle_eps call epint i s =
     (let epn = ep_get_n (ep_addr (ept s i)) in
      if epint AND push_bit (unat epn) 1 = 0 then Some s
      else
        (let flags = epintflag (epr s epn) AND epinten (epr s epn) in
         if flags = 0 then Some s
         else if eptype (ept s i) = EPTYPE_CTRL \<and> \<not> is_busy (ept s i) then trans_setup_isr call i flags s
         else if ep_dir (ept s i) then trans_in_isr call i flags s
         else trans_out_isr call i flags s))"

subsection \<open>Device interrupts\<close>

definition dev_int_ack :: "u16 \<Rightarrow> ('f, 'a) usb_hpl_scheme \<Rightarrow> ('f, 'a) usb_hpl_scheme" where
  "dev_int_ack m s = s\<lparr>dev_intflag := dev_intflag s AND NOT m\<rparr>"

definition dev_int_en :: "u16 \<Rightarrow> ('f, 'a) usb_hpl_scheme \<Rightarrow> ('f, 'a) usb_hpl_scheme" where
  "dev_int_en m s = s\<lparr>dev_inten := dev_inten s OR m\<rparr>"

definition dev_int_dis :: "u16 \<Rightarrow> ('f, 'a) usb_hpl_scheme \<Rightarrow> ('f, 'a) usb_hpl_scheme" where
  "dev_int_dis m s = s\<lparr>dev_inten := dev_inten s AND NOT m\<rparr>"

definition wait_dfll_rdy :: "('f, 'a) usb_hpl_scheme \<Rightarrow> ('f, 'a) usb_hpl_scheme option" where
  \<comment> \<open>the polling loops end at once if the clock is ready, and do not end while it is not\<close>
  "wait_dfll_rdy s =
     (let ready = (if \<not> dfll_usbcrm s then 0xD0 else 0x10)
      in if dfll_flags s AND ready = ready then Some s else None)"

definition zero_bank :: bank_desc where
  "zero_bank = \<lparr>bk_addr = 0, bk_count = 0, bk_multi = 0, bk_sz = 0, bk_status = 0, bk_subpid = 0, bk_variable = 0\<rparr>"

fun reset_epts_loop ::
    "('f, 'a) usb_call \<Rightarrow> nat list \<Rightarrow> ('f, 'a) usb_hpl_scheme \<Rightarrow> ('f, 'a) usb_hpl_scheme option" where
  "reset_epts_loop call [] s = Some s"
| "reset_epts_loop call (i # is) s =
     (case trans_done call i USB_TRANS_RESET s of
        None \<Rightarrow> None
      | Some s \<Rightarrow>
          reset_epts_loop call is (upd_ept i (\<lambda>e. e\<lparr>ep_addr := 0xFF, eptype := 0, is_stalled := False,
            need_zlp := False, use_cache := False, is_busy := False, ep_dir := False\<rparr>) s))"

definition reset_epts :: "('f, 'a) usb_call \<Rightarrow> ('f, 'a) usb_hpl_scheme \<Rightarrow> ('f, 'a) usb_hpl_scheme option" where
  "reset_epts call s =
     (case reset_epts_loop call [0..<USB_D_N_EP] s of
        None \<Rightarrow> None
      | Some s \<Rightarrow> Some (s\<lparr>bank := (\<lambda>n b. if n \<le> MAX_EP_N then zero_bank else bank s n b)\<rparr>))"

definition dev_sof :: "('f, 'a) usb_call \<Rightarrow> ('f, 'a) usb_hpl_scheme \<Rightarrow> ('f, 'a) usb_hpl_scheme option" where
  "dev_sof call s = (let s = dev_int_ack 4 s in invoke_proc call (cb_sof s) Cb_sof s)"

fun find_lpm :: "u8 list \<Rightarrow> ('f, 'a) usb_hpl_scheme \<Rightarrow> u32 \<times> ('f, 'a) usb_hpl_scheme" where
  "find_lpm [] s = (0, s)"
| "find_lpm (n # ns) s =
     (if bk_subpid (bank s n False) = 3 then
        (ucast (bk_variable (bank s n False)), upd_bank n False (\<lambda>k. k\<lparr>bk_subpid := 0, bk_variable := 0\<rparr>) s)
      else find_lpm ns s)"

definition dev_lpmsusp :: "('f, 'a) usb_call \<Rightarrow> ('f, 'a) usb_hpl_scheme \<Rightarrow> ('f, 'a) usb_hpl_scheme option" where
  "dev_lpmsusp call s =
     (let s = dev_int_ack SUSPEND_INT_FLAGS s;
          s = dev_int_dis SUSPEND_INT_FLAGS s;
          s = dev_int_en WAKEUP_INT_FLAGS s
      in case find_lpm [0, 1] s of
           (lpm_variable, s) \<Rightarrow> invoke_proc call (cb_event s) (Cb_event USB_EV_LPM_SUSPEND lpm_variable) s)"

definition dev_ramerr :: "('f, 'a) usb_call \<Rightarrow> ('f, 'a) usb_hpl_scheme \<Rightarrow> ('f, 'a) usb_hpl_scheme option" where
  "dev_ramerr call s = (let s = dev_int_ack 0x80 s in invoke_proc call (cb_event s) (Cb_event USB_EV_ERROR 0) s)"

definition dev_wakeup :: "('f, 'a) usb_call \<Rightarrow> ('f, 'a) usb_hpl_scheme \<Rightarrow> ('f, 'a) usb_hpl_scheme option" where
  "dev_wakeup call s =
     (let s = dev_int_ack WAKEUP_INT_FLAGS s;
          s = dev_int_dis WAKEUP_INT_FLAGS s;
          s = dev_int_en SUSPEND_INT_FLAGS s
      in case wait_dfll_rdy s of
           None \<Rightarrow> None
         | Some s \<Rightarrow> invoke_proc call (cb_event s) (Cb_event USB_EV_WAKEUP 0) s)"

definition dev_reset :: "('f, 'a) usb_call \<Rightarrow> ('f, 'a) usb_hpl_scheme \<Rightarrow> ('f, 'a) usb_hpl_scheme option" where
  "dev_reset call s =
     (let s = upd_epr 0 (\<lambda>r. r\<lparr>epcfg := 0\<rparr>) s;
          s = dev_int_ack 8 s;
          s = dev_int_dis WAKEUP_INT_FLAGS s;
          s = dev_int_en SUSPEND_INT_FLAGS s
      in case reset_epts call s of
           None \<Rightarrow> None
         | Some s \<Rightarrow> invoke_proc call (cb_event s) (Cb_event USB_EV_RESET 0) s)"

definition dev_suspend :: "('f, 'a) usb_call \<Rightarrow> ('f, 'a) usb_hpl_scheme \<Rightarrow> ('f, 'a) usb_hpl_scheme option" where
  "dev_suspend call s =
     (let s = dev_int_ack SUSPEND_INT_FLAGS s;
          s = dev_int_dis SUSPEND_INT_FLAGS s;
          s = dev_int_en WAKEUP_INT_FLAGS s
      in invoke_proc call (cb_event s) (Cb_event USB_EV_SUSPEND 0) s)"

definition handle_nep ::
    "('f, 'a) usb_call \<Rightarrow> ('f, 'a) usb_hpl_scheme \<Rightarrow> (bool \<times> ('f, 'a) usb_hpl_scheme) option" where
  "handle_nep call s =
     (let flags = dev_intflag s AND dev_inten s; ret = map_option (Pair True) in
      if flags AND 4 \<noteq> 0 then ret (dev_sof call s)
      else if flags AND 0x200 \<noteq> 0 then ret (dev_lpmsusp call s)
      else if flags AND 0x80 \<noteq> 0 then ret (dev_ramerr call s)
      else if flags AND WAKEUP_INT_FLAGS \<noteq> 0 then ret (dev_wakeup call s)
      else if flags AND 8 \<noteq> 0 then ret (dev_reset call s)
      else if flags AND 1 \<noteq> 0 then ret (dev_suspend call s)
      else Some (False, s))"

definition ep_intsmry :: "('f, 'a) usb_hpl_scheme \<Rightarrow> u16" where
  \<comment> \<open>\<open>EPINTSMRY\<close>: a bit for each endpoint with an enabled interrupt flag\<close>
  "ep_intsmry s =
     foldr (\<lambda>n acc. acc OR (if epintflag (epr s (of_nat n)) AND epinten (epr s (of_nat n)) \<noteq> 0
                            then push_bit n 1 else 0)) [0..<8] 0"

fun handle_all_eps ::
    "('f, 'a) usb_call \<Rightarrow> u16 \<Rightarrow> nat list \<Rightarrow> ('f, 'a) usb_hpl_scheme \<Rightarrow> ('f, 'a) usb_hpl_scheme option" where
  "handle_all_eps call epint [] s = Some s"
| "handle_all_eps call epint (i # is) s =
     (if ep_addr (ept s i) = 0xFF then handle_all_eps call epint is s
      else case handle_eps call epint i s of
             None \<Rightarrow> None
           | Some s \<Rightarrow> handle_all_eps call epint is s)"

definition dev_handler :: "('f, 'a) usb_call \<Rightarrow> ('f, 'a) usb_hpl_scheme \<Rightarrow> ('f, 'a) usb_hpl_scheme option" where
  "dev_handler call s =
     (let epint = ep_intsmry s in
      case (if epint = 0 then handle_nep call s else Some (False, s)) of
        None \<Rightarrow> None
      | Some (True, s) \<Rightarrow> Some s
      | Some (False, s) \<Rightarrow> handle_all_eps call epint [0..<USB_D_N_EP] s)"

definition USB_Handler :: "('f, 'a) usb_call \<Rightarrow> ('f, 'a) usb_hpl_scheme \<Rightarrow> ('f, 'a) usb_hpl_scheme option" where
  "USB_Handler call s = dev_handler call s"

subsection \<open>Device operations\<close>

definition wait_for_sync :: "u8 \<Rightarrow> ('f, 'a) usb_hpl_scheme \<Rightarrow> ('f, 'a) usb_hpl_scheme" where
  \<comment> \<open>returns when the synchronisation has completed\<close>
  "wait_for_sync m s = s\<lparr>dev_syncbusy := dev_syncbusy s AND NOT m\<rparr>"

definition zero_epr :: ep_regs where
  "zero_epr = \<lparr>epcfg = 0, epstatus = 0, epintflag = 0, epinten = 0\<rparr>"

definition write_swrst :: "('f, 'a) usb_hpl_scheme \<Rightarrow> ('f, 'a) usb_hpl_scheme" where
  \<comment> \<open>a software reset gives every register its reset value\<close>
  "write_swrst s = s\<lparr>dev_ctrla := 0, dev_ctrlb := 1, dev_dadd := 0, dev_intflag := 0, dev_inten := 0,
     dev_descadd := 0, dev_padcal := 0, dev_qos := 5, epr := (\<lambda>_. zero_epr)\<rparr>"

definition usb_load_calib :: "('f, 'a) usb_hpl_scheme \<Rightarrow> ('f, 'a) usb_hpl_scheme" where
  "usb_load_calib s =
     (let transn = drop_bit 13 (otp4 s 1) AND 0x1F;
          transp = drop_bit 18 (otp4 s 1) AND 0x1F;
          trim = drop_bit 23 (otp4 s 1) AND 7;
          transn = (if transn = 0x1F then 5 else transn);
          transp = (if transp = 0x1F then 29 else transp);
          trim = (if trim = 7 then 5 else trim)
      in s\<lparr>dev_padcal := ucast (push_bit 6 transn OR transp OR push_bit 12 trim), dev_qos := 0xF\<rparr>)"

definition usb_dev_init :: "('f, 'a) usb_call \<Rightarrow> ('f, 'a) usb_hpl_scheme \<Rightarrow> (rc \<times> ('f, 'a) usb_hpl_scheme) option" where
  "usb_dev_init call s =
     (let s = (if dev_syncbusy s AND 1 = 0 then
                 (let s = (if dev_ctrla s AND 2 \<noteq> 0
                           then wait_for_sync 2 (s\<lparr>dev_ctrla := dev_ctrla s AND NOT 2\<rparr>) else s)
                  in write_swrst s)
               else s);
          s = wait_for_sync 1 s;
          s = s\<lparr>cb_sof := None, cb_event := None\<rparr>;
          s = s\<lparr>cb_setup := None, cb_more := None, cb_done := None\<rparr>
      in case reset_epts call s of
           None \<Rightarrow> None
         | Some s \<Rightarrow>
             (let s = usb_load_calib s;
                  s = s\<lparr>dev_ctrla := 4\<rparr>;
                  s = s\<lparr>dev_descadd := 0x20000A00\<rparr>;
                  s = s\<lparr>dev_ctrlb := 1\<rparr> \<comment> \<open>full speed, detached\<close>
              in Some (ERR_NONE, s)))"

definition usb_dev_enable :: "('f, 'a) usb_hpl_scheme \<Rightarrow> rc \<times> ('f, 'a) usb_hpl_scheme" where
  "usb_dev_enable s =
     (if dev_syncbusy s AND 3 \<noteq> 0 then (- USB_ERR_DENIED, s)
      else
        (let ctrla = dev_ctrla s;
             s = (if ctrla AND 2 = 0 then s\<lparr>dev_ctrla := ctrla OR 2\<rparr> else s);
             s = s\<lparr>usb_irq_on := True\<rparr>
         in (ERR_NONE, dev_int_en (4 OR 8 OR 0x80 OR SUSPEND_INT_FLAGS) s)))"

definition usb_dev_disable :: "('f, 'a) usb_hpl_scheme \<Rightarrow> rc \<times> ('f, 'a) usb_hpl_scheme" where
  "usb_dev_disable s =
     (if dev_syncbusy s AND 3 \<noteq> 0 then (- USB_ERR_DENIED, s)
      else
        (let ctrla = dev_ctrla s;
             s = (if ctrla AND 2 \<noteq> 0 then s\<lparr>dev_ctrla := ctrla AND NOT 2\<rparr> else s);
             s = s\<lparr>usb_irq_on := False\<rparr>
         in (ERR_NONE, dev_int_dis (4 OR 8 OR 0x80 OR SUSPEND_INT_FLAGS OR WAKEUP_INT_FLAGS) s)))"

partial_function (option) disable_loop :: "('f, 'a) usb_hpl_scheme \<Rightarrow> ('f, 'a) usb_hpl_scheme option" where
  "disable_loop s = (case usb_dev_disable s of (r, s) \<Rightarrow> if r < 0 then disable_loop s else Some s)"

declare disable_loop.simps [code]

definition usb_dev_deinit :: "('f, 'a) usb_hpl_scheme \<Rightarrow> ('f, 'a) usb_hpl_scheme option" where
  "usb_dev_deinit s =
     (case disable_loop s of
        None \<Rightarrow> None
      | Some s \<Rightarrow> Some ((write_swrst s)\<lparr>usb_irq_on := False, usb_irq_pending := False\<rparr>))"

definition usb_dev_attach :: "('f, 'a) usb_hpl_scheme \<Rightarrow> ('f, 'a) usb_hpl_scheme" where
  "usb_dev_attach s = s\<lparr>dev_ctrlb := dev_ctrlb s AND NOT 1\<rparr>"

definition usb_dev_detach :: "('f, 'a) usb_hpl_scheme \<Rightarrow> ('f, 'a) usb_hpl_scheme" where
  "usb_dev_detach s = s\<lparr>dev_ctrlb := dev_ctrlb s OR 1\<rparr>"

fun remote_wakeup_loop :: "nat \<Rightarrow> ('f, 'a) usb_hpl_scheme \<Rightarrow> ('f, 'a) usb_hpl_scheme" where
  "remote_wakeup_loop 0 s = s"
| "remote_wakeup_loop (Suc retry) s =
     (if dev_fsm s \<noteq> 2 then remote_wakeup_loop retry (s\<lparr>dev_ctrlb := dev_ctrlb s OR 2\<rparr>) else s)"

definition usb_dev_send_remotewakeup :: "('f, 'a) usb_hpl_scheme \<Rightarrow> ('f, 'a) usb_hpl_scheme option" where
  "usb_dev_send_remotewakeup s = map_option (remote_wakeup_loop 5) (wait_dfll_rdy s)"

datatype usb_speed = USB_SPEED_LS | USB_SPEED_FS

definition usb_dev_get_speed :: "('f, 'a) usb_hpl_scheme \<Rightarrow> usb_speed option" where
  \<comment> \<open>\<open>None\<close>: the two-bit field indexes past the array of two\<close>
  "usb_dev_get_speed s =
     (if dev_speed s = 0 then Some USB_SPEED_FS else if dev_speed s = 1 then Some USB_SPEED_LS else None)"

definition usb_dev_set_address :: "u8 \<Rightarrow> ('f, 'a) usb_hpl_scheme \<Rightarrow> ('f, 'a) usb_hpl_scheme" where
  "usb_dev_set_address addr s = s\<lparr>dev_dadd := 0x80 OR (addr AND 0x7F)\<rparr>"

definition usb_dev_get_address :: "('f, 'a) usb_hpl_scheme \<Rightarrow> u8" where
  "usb_dev_get_address s = dev_dadd s AND 0x7F"

definition usb_dev_get_frame_n :: "('f, 'a) usb_hpl_scheme \<Rightarrow> u16" where
  "usb_dev_get_frame_n s = drop_bit 3 (dev_fnum s) AND 0x7FF"

definition usb_dev_get_uframe_n :: "('f, 'a) usb_hpl_scheme \<Rightarrow> u8" where
  "usb_dev_get_uframe_n s = ucast (dev_fnum s AND 7)"

subsection \<open>Endpoint operations\<close>

definition trans_setup :: "nat \<Rightarrow> ('f, 'a) usb_hpl_scheme \<Rightarrow> ('f, 'a) usb_hpl_scheme" where
  "trans_setup i s =
     (let epn = ep_get_n (ep_addr (ept s i));
          s = ep_set_buf epn False (ep_cache (ept s i)) s;
          s = ep_set_out_trans epn False (ucast (ep_size (ept s i))) 0 s;
          s = ep_status_clr epn (0x30 OR 0x80) s;
          s = ep_set_out_rdy epn False False s
      in ep_int_en epn RXSTP s)"

definition usb_dev_ep_init ::
    "u8 \<Rightarrow> u8 \<Rightarrow> u16 \<Rightarrow> ('f, 'a) usb_hpl_scheme \<Rightarrow> rc \<times> ('f, 'a) usb_hpl_scheme" where
  "usb_dev_ep_init ep attr max_pkt_siz s =
     (let epn = ep_get_n ep; dir = ep_get_dir ep; i = dev_ept epn dir;
          ep_type = attr AND 3; pcfg = usb_ep_cfgs epn;
          cache = (if dir then cfg_i_cache pcfg else cfg_cache pcfg);
          csize = (if dir then cfg_i_size pcfg else cfg_size pcfg)
      in if MAX_EP_N < epn then (- USB_ERR_PARAM, s)
         else if ep_addr (ept s i) \<noteq> 0xFF then (- USB_ERR_REDO, s)
         else if ep_type = 0 \<and> ep_addr (ept s (dev_ept epn (\<not> dir))) \<noteq> 0xFF then (- USB_ERR_REDO, s)
         else if ep_type = 0 \<and> cfg_cache pcfg = NULL then (- USB_ERR_FUNC, s)
         else if cache \<noteq> NULL \<and> csize < max_pkt_siz then (- USB_ERR_FUNC, s)
         else (USB_OK, upd_ept i (\<lambda>e. e\<lparr>ep_cache := cache, ep_size := max_pkt_siz, eptype := ep_type + 1,
                 is_stalled := False, need_zlp := False, use_cache := False, is_busy := False,
                 ep_dir := False, ep_addr := ep\<rparr>) s))"

definition usb_dev_ep0_init :: "u8 \<Rightarrow> ('f, 'a) usb_hpl_scheme \<Rightarrow> rc \<times> ('f, 'a) usb_hpl_scheme" where
  "usb_dev_ep0_init max_pkt_siz s = usb_dev_ep_init 0 0 (ucast max_pkt_siz) s"

definition usb_dev_ep_deinit ::
    "('f, 'a) usb_call \<Rightarrow> u8 \<Rightarrow> ('f, 'a) usb_hpl_scheme \<Rightarrow> ('f, 'a) usb_hpl_scheme option" where
  "usb_dev_ep_deinit call ep s =
     (let epn = ep_get_n ep; dir = ep_get_dir ep; i = dev_ept epn dir in
      if MAX_EP_N < epn \<or> ep_addr (ept s i) = 0xFF then Some s
      else case trans_stop call i dir USB_TRANS_RESET s of
             None \<Rightarrow> None
           | Some s \<Rightarrow>
               (let s = (if eptype (ept s i) = EPTYPE_CTRL then upd_epr ep (\<lambda>r. r\<lparr>epcfg := 0\<rparr>) s
                         else if dir then upd_epr epn (\<lambda>r. r\<lparr>epcfg := epcfg r AND NOT 0x70\<rparr>) s
                         else upd_epr ep (\<lambda>r. r\<lparr>epcfg := epcfg r AND NOT 7\<rparr>) s)
                in Some (upd_ept i (\<lambda>e. e\<lparr>eptype := 0, is_stalled := False, need_zlp := False,
                     use_cache := False, is_busy := False, ep_dir := False, ep_addr := 0xFF\<rparr>) s)))"

definition set_pcksize :: "u8 \<Rightarrow> bool \<Rightarrow> u16 \<Rightarrow> u16 \<Rightarrow> u16 \<Rightarrow> ('f, 'a) usb_hpl_scheme \<Rightarrow> ('f, 'a) usb_hpl_scheme" where
  \<comment> \<open>the assignment to the whole \<open>PCKSIZE\<close> register\<close>
  "set_pcksize epn b multi cnt sz =
     upd_bank epn b (\<lambda>k. k\<lparr>bk_multi := take_bit 14 multi, bk_count := take_bit 14 cnt, bk_sz := ep_pcksize_size sz\<rparr>)"

definition usb_dev_ep_enable :: "u8 \<Rightarrow> ('f, 'a) usb_hpl_scheme \<Rightarrow> rc \<times> ('f, 'a) usb_hpl_scheme" where
  "usb_dev_ep_enable ep s =
     (let epn = ep_get_n ep; dir = ep_get_dir ep; i = dev_ept epn dir; e = ept s i; cfg = epcfg (epr s epn) in
      if MAX_EP_N < epn \<or> ep_addr e = 0xFF then (- USB_ERR_PARAM, s)
      else if eptype e = EPTYPE_CTRL then
        (if cfg AND 0x77 \<noteq> 0 then (- USB_ERR_REDO, s)
         else
           (let s = upd_epr epn (\<lambda>r. r\<lparr>epcfg := USB_D_EPCFG_CTRL\<rparr>) s;
                s = set_pcksize epn False (ep_size e) 0 (ep_size e) s;
                s = set_pcksize epn True 0 (ep_size e) (ep_size e) s;
                s = ep_set_out_rdy epn False False s;
                s = ep_set_in_rdy epn True False s;
                s = ep_clear_bank_status epn False s;
                s = ep_clear_bank_status epn True s
            in (USB_OK, trans_setup i s)))
      else if dir then
        (if cfg AND 0x70 \<noteq> 0 then (- USB_ERR_REDO, s)
         else
           (let s = upd_epr epn (\<lambda>r. r\<lparr>epcfg := cfg OR (push_bit 4 (eptype e) AND 0x70)\<rparr>) s;
                s = set_pcksize epn True 0 (ep_size e) (ep_size e) s;
                s = ep_set_in_rdy epn True False s
            in (USB_OK, ep_clear_bank_status epn True s)))
      else
        (if cfg AND 7 \<noteq> 0 then (- USB_ERR_REDO, s)
         else
           (let s = upd_epr epn (\<lambda>r. r\<lparr>epcfg := cfg OR (eptype e AND 7)\<rparr>) s;
                s = set_pcksize epn False (ep_size e) 0 (ep_size e) s;
                s = ep_set_out_rdy epn False False s
            in (USB_OK, ep_clear_bank_status epn False s))))"

definition usb_dev_ep_disable ::
    "('f, 'a) usb_call \<Rightarrow> u8 \<Rightarrow> ('f, 'a) usb_hpl_scheme \<Rightarrow> ('f, 'a) usb_hpl_scheme option" where
  "usb_dev_ep_disable call ep s =
     (let epn = ep_get_n ep; dir = ep_get_dir ep; i = dev_ept epn dir in
      case trans_stop call i dir USB_TRANS_RESET s of
        None \<Rightarrow> None
      | Some s \<Rightarrow> Some (if eptype (ept s i) = EPTYPE_CTRL then ep_int_dis epn ALL_INT_FLAGS s else s))"

definition ep_stall_get :: "nat \<Rightarrow> bool \<Rightarrow> ('f, 'a) usb_hpl_scheme \<Rightarrow> rc" where
  "ep_stall_get i dir s = of_bool (ep_is_stalled (ep_get_n (ep_addr (ept s i))) dir s)"

definition ep_stall_set :: "nat \<Rightarrow> bool \<Rightarrow> ('f, 'a) usb_hpl_scheme \<Rightarrow> ('f, 'a) usb_hpl_scheme" where
  "ep_stall_set i dir s =
     (let epn = ep_get_n (ep_addr (ept s i));
          s = ep_set_stall epn dir True s;
          s = ep_int_en epn (shl STALL0 dir) s
      in upd_ept i (\<lambda>e. e\<lparr>is_stalled := True\<rparr>) s)"

definition ep_stall_clr :: "nat \<Rightarrow> bool \<Rightarrow> ('f, 'a) usb_hpl_scheme \<Rightarrow> ('f, 'a) usb_hpl_scheme" where
  "ep_stall_clr i dir s =
     (let epn = ep_get_n (ep_addr (ept s i)) in
      if \<not> ep_is_stalled epn dir s then s
      else
        (let s = ep_set_stall epn dir False s;
             s = ep_int_dis epn (shl STALL0 dir) s;
             s = (if ep_is_stall_sent epn dir s then ep_set_toggle epn dir False (ep_ack_stall epn dir s) else s)
         in if eptype (ept s i) = EPTYPE_CTRL then
              (if epstatus (epr s epn) AND 0x30 = 0 then upd_ept i (\<lambda>e. e\<lparr>is_stalled := False\<rparr>) s else s)
            else upd_ept i (\<lambda>e. e\<lparr>is_stalled := False\<rparr>) s))"

datatype usb_ep_stall_ctrl = USB_EP_STALL_CLR | USB_EP_STALL_SET | USB_EP_STALL_GET

definition usb_dev_ep_stall ::
    "u8 \<Rightarrow> usb_ep_stall_ctrl \<Rightarrow> ('f, 'a) usb_hpl_scheme \<Rightarrow> rc \<times> ('f, 'a) usb_hpl_scheme" where
  "usb_dev_ep_stall ep ctrl s =
     (let epn = ep_get_n ep; dir = ep_get_dir ep; i = dev_ept epn dir in
      if MAX_EP_N < epn then (- USB_ERR_PARAM, s)
      else (case ctrl of
              USB_EP_STALL_SET \<Rightarrow> (ERR_NONE, ep_stall_set i dir s)
            | USB_EP_STALL_CLR \<Rightarrow> (ERR_NONE, ep_stall_clr i dir s)
            | USB_EP_STALL_GET \<Rightarrow> (ep_stall_get i dir s, s)))"

definition usb_dev_ep_read_req ::
    "u8 \<Rightarrow> ptr \<Rightarrow> ('f, 'a) usb_hpl_scheme \<Rightarrow> rc \<times> ('f, 'a) usb_hpl_scheme" where
  "usb_dev_ep_read_req ep req_buf s =
     (let epn = ep_get_n ep; addr = bk_addr (bank s epn False); bytes = bk_count (bank s epn False) in
      if MAX_EP_N < epn \<or> req_buf = NULL then (- USB_ERR_PARAM, s)
      else if \<not> ep_is_ctrl_hw epn s then (- USB_ERR_FUNC, s)
      else if \<not> ep_is_setup epn s then (ERR_NONE, s)
      else (uint bytes, ep_ack_setup epn (memcpy req_buf addr 8 s)))"

record usb_d_transfer =
  xf_buf :: ptr
  xf_size :: u32
  xf_ep :: u8
  xf_zlp :: bool

definition usb_dev_ep_trans ::
    "('f, 'a) usb_call \<Rightarrow> usb_d_transfer \<Rightarrow> ('f, 'a) usb_hpl_scheme \<Rightarrow> (rc \<times> ('f, 'a) usb_hpl_scheme) option" where
  "usb_dev_ep_trans call xfer s =
     (let epn = ep_get_n (xf_ep xfer); dir = ep_get_dir (xf_ep xfer); i = dev_ept epn dir; e = ept s i;
          size_n_aligned = (xf_size xfer AND ucast (size_mask (ep_size e)) \<noteq> 0);
          cached = (\<not> in_ram (xf_buf xfer) (xf_size xfer) \<or> \<not> usb_is_aligned (xf_buf xfer)
                    \<or> (\<not> dir \<and> xf_size xfer < ucast (ep_size e)))
      in if MAX_EP_N < epn then Some (- USB_ERR_PARAM, s)
         else if cached \<and> ep_cache e = NULL then Some (- USB_ERR_FUNC, s)
         else if \<not> dir \<and> size_n_aligned \<and> ep_cache e = NULL then Some (- USB_ERR_PARAM, s)
         else if is_stalled e then Some (USB_HALTED, s)
         else if is_busy e then Some (USB_BUSY, s)
         else
           (let s = upd_ept i (\<lambda>e. e\<lparr>is_busy := True, trans_buf := xf_buf xfer, trans_size := xf_size xfer,
                      ep_dir := dir, use_cache := cached,
                      need_zlp := (xf_zlp xfer \<and> \<not> size_n_aligned), trans_count := 0\<rparr>) s
            in map_option (Pair ERR_NONE) (if dir then in_next call i False s else out_next call i False s)))"

definition usb_dev_ep_abort ::
    "('f, 'a) usb_call \<Rightarrow> u8 \<Rightarrow> ('f, 'a) usb_hpl_scheme \<Rightarrow> ('f, 'a) usb_hpl_scheme option" where
  "usb_dev_ep_abort call ep s =
     (let epn = ep_get_n ep; dir = ep_get_dir ep in
      if MAX_EP_N < epn then Some s else trans_stop call (dev_ept epn dir) dir USB_TRANS_ABORT s)"

record usb_d_trans_status =
  st_size :: u32
  st_count :: u32
  st_ep :: u8
  st_xtype :: u8
  st_busy :: bool
  st_setup :: bool
  st_stall :: bool
  st_dir :: bool

definition usb_dev_ep_get_status :: "u8 \<Rightarrow> ('f, 'a) usb_hpl_scheme \<Rightarrow> rc \<times> usb_d_trans_status option" where
  \<comment> \<open>the returned code and \<open>*stat\<close> if it is written\<close>
  "usb_dev_ep_get_status ep s =
     (let epn = ep_get_n ep; e = ept s (dev_ept epn (ep_get_dir ep)) in
      if MAX_EP_N < epn then (USB_ERR_PARAM, None)
      else
        (if is_stalled e then USB_HALTED else if is_busy e then USB_BUSY else USB_OK,
         Some \<lparr>st_size = trans_size e, st_count = trans_count e, st_ep = ep, st_xtype = (eptype e - 1) AND 3,
           st_busy = is_busy e, st_setup = ep_is_setup epn s, st_stall = is_stalled e, st_dir = ep_dir e\<rparr>))"

datatype usb_d_cb_type = USB_D_CB_EVENT | USB_D_CB_SOF
datatype usb_d_dev_ep_cb_type = USB_D_DEV_EP_CB_SETUP | USB_D_DEV_EP_CB_MORE | USB_D_DEV_EP_CB_DONE

definition usb_dev_register_callback ::
    "usb_d_cb_type \<Rightarrow> 'f option \<Rightarrow> ('f, 'a) usb_hpl_scheme \<Rightarrow> ('f, 'a) usb_hpl_scheme" where
  "usb_dev_register_callback type f s =
     (case type of USB_D_CB_EVENT \<Rightarrow> s\<lparr>cb_event := f\<rparr> | USB_D_CB_SOF \<Rightarrow> s\<lparr>cb_sof := f\<rparr>)"

definition usb_dev_register_ep_callback ::
    "usb_d_dev_ep_cb_type \<Rightarrow> 'f option \<Rightarrow> ('f, 'a) usb_hpl_scheme \<Rightarrow> ('f, 'a) usb_hpl_scheme" where
  "usb_dev_register_ep_callback type f s =
     (case type of
        USB_D_DEV_EP_CB_SETUP \<Rightarrow> s\<lparr>cb_setup := f\<rparr>
      | USB_D_DEV_EP_CB_MORE \<Rightarrow> s\<lparr>cb_more := f\<rparr>
      | USB_D_DEV_EP_CB_DONE \<Rightarrow> s\<lparr>cb_done := f\<rparr>)"

subsection \<open>Automation\<close>

lemma size_mask_less: "n \<noteq> 0 \<Longrightarrow> n \<noteq> 1023 \<Longrightarrow> x AND size_mask n < n"
proof -
  assume "n \<noteq> 0" "n \<noteq> 1023"
  then have "size_mask n < n" using unat_minus_one_less [of n] by (simp add: size_mask_def word_less_nat_alt)
  moreover have "x AND size_mask n \<le> size_mask n" by (rule word_and_le1)
  ultimately show ?thesis by simp
qed

named_theorems usb_frame \<open>what the register helpers leave alone\<close>

lemma upd_ept_simps [simp, usb_frame]:
  "ept (upd_ept i f s) = (ept s)(i := f (ept s i))" "umem (upd_ept i f s) = umem s" "epr (upd_ept i f s) = epr s"
  "bank (upd_ept i f s) = bank s" "cb_done (upd_ept i f s) = cb_done s" "cb_more (upd_ept i f s) = cb_more s"
  "cb_setup (upd_ept i f s) = cb_setup s" "cb_event (upd_ept i f s) = cb_event s"
  by (simp_all add: upd_ept_def)

lemma upd_epr_simps [simp, usb_frame]:
  "epr (upd_epr n g s) = (epr s)(n := g (epr s n))" "umem (upd_epr n g s) = umem s" "ept (upd_epr n g s) = ept s"
  "bank (upd_epr n g s) = bank s" "cb_done (upd_epr n g s) = cb_done s" "cb_more (upd_epr n g s) = cb_more s"
  "cb_setup (upd_epr n g s) = cb_setup s" "cb_event (upd_epr n g s) = cb_event s"
  by (simp_all add: upd_epr_def)

lemma upd_bank_simps [simp, usb_frame]:
  "bank (upd_bank n b h s) = (bank s)(n := (bank s n)(b := h (bank s n b)))" "umem (upd_bank n b h s) = umem s"
  "ept (upd_bank n b h s) = ept s" "epr (upd_bank n b h s) = epr s" "cb_done (upd_bank n b h s) = cb_done s"
  "cb_more (upd_bank n b h s) = cb_more s" "cb_setup (upd_bank n b h s) = cb_setup s"
  "cb_event (upd_bank n b h s) = cb_event s"
  by (simp_all add: upd_bank_def)

lemma memcpy_simps [simp, usb_frame]:
  "ept (memcpy d a n s) = ept s" "epr (memcpy d a n s) = epr s" "bank (memcpy d a n s) = bank s"
  "cb_done (memcpy d a n s) = cb_done s" "cb_more (memcpy d a n s) = cb_more s"
  by (simp_all add: memcpy_def)

lemmas usb_helpers = ep_int_ack_def ep_int_en_def ep_int_dis_def ep_status_set_def ep_status_clr_def
  ep_set_stall_def ep_ack_stall_def ep_int_stall_en_def ep_stop_setup_def ep_ack_setup_def ep_set_toggle_def
  ep_ack_io_cpt_def ep_set_buf_def ep_set_in_count_def ep_set_in_size_def ep_set_out_count_def ep_set_out_size_def
  ep_set_in_trans_def ep_set_out_trans_def ep_clear_bank_status_def ep_set_in_rdy_def ep_set_out_rdy_def
  in_tx_exec_def out_rx_exec_def

lemma umem_memcpy:
  "umem (memcpy d a n s) p = (if unat (p - d) < n then umem s (a + (p - d)) else umem s p)"
  by (simp add: memcpy_def)

lemma out_copy_simps [simp, usb_frame]:
  "ept (out_copy i p s) = ept s" "epr (out_copy i p s) = epr s" "bank (out_copy i p s) = bank s"
  "cb_done (out_copy i p s) = cb_done s" "cb_more (out_copy i p s) = cb_more s"
  by (simp_all add: out_copy_def Let_def)

lemma umem_out_copy_cong:
  "ept s' = ept s \<Longrightarrow> umem s' = umem s \<Longrightarrow> umem (out_copy i n s') = umem (out_copy i n s)"
  by (auto simp: out_copy_def Let_def fun_eq_iff umem_memcpy)

lemma umem_out_copy_outside:
  assumes "unat (trans_count (ept s i)) + unat (p - (trans_buf (ept s i) + trans_count (ept s i))) \<ge> unat (trans_size (ept s i))"
    and "trans_count (ept s i) \<le> trans_size (ept s i)"
  shows "umem (out_copy i n s) p = umem s p"
proof -
  let ?e = "ept s i"
  let ?r = "ucast (trans_size ?e - trans_count ?e) :: u16"
  have "unat ?r \<le> unat (trans_size ?e - trans_count ?e)"
    by (simp add: unsigned_ucast_eq take_bit_nat_less_eq_self)
  also have "\<dots> = unat (trans_size ?e) - unat (trans_count ?e)" using assms(2) by (simp add: unat_sub)
  finally have "unat ?r \<le> unat (p - (trans_buf ?e + trans_count ?e))" using assms(1) by linarith
  moreover have "unat (if n < ?r then n else ?r) \<le> unat ?r" by (simp add: word_less_nat_alt)
  ultimately show ?thesis by (simp add: out_copy_def Let_def umem_memcpy)
qed

lemma out_copy_nothing: "umem (out_copy i 0 s) = umem s"
  by (auto simp: out_copy_def Let_def umem_memcpy fun_eq_iff word_gt_0)

lemma trans_done_spec:
  assumes "ep_addr (ept s i) \<noteq> 0xFF" and "is_busy (ept s i)"
  shows "trans_done call i code s = invoke_proc call (cb_done s) (Cb_done (ep_addr (ept s i)) code (trans_count (ept s i)))
    (upd_ept i (\<lambda>e. e\<lparr>is_busy := False\<rparr>) s)"
  using assms by (simp add: trans_done_def Let_def)

lemma out_finish_spec:
  assumes "ep_addr (ept s i) \<noteq> 0xFF" and "is_busy (ept s i)"
  shows "\<exists>s1. out_finish call i epn c s
      = invoke_proc call (cb_done s) (Cb_done (ep_addr (ept s i)) USB_TRANS_DONE (trans_count (ept s i))) s1
    \<and> umem s1 = umem s \<and> ept s1 = (ept s)(i := (ept s i)\<lparr>is_busy := False\<rparr>)"
  using assms by (auto simp: out_finish_def Let_def trans_done_spec usb_helpers)

lemma out_next_short:
  assumes "ep_size (ept s i) \<noteq> 0" and "ep_size (ept s i) \<noteq> 1023"
    and "\<not> (trans_size (ept s i) = 0 \<and> need_zlp (ept s i))"
    and "n = bk_count (bank s (ep_get_n (ep_addr (ept s i))) False)"
    and "ep_addr (ept s i) \<noteq> 0xFF" and "is_busy (ept s i)"
  shows "\<exists>s1. out_next call i True s
      = invoke_proc call (cb_done s) (Cb_done (ep_addr (ept s i)) USB_TRANS_DONE (trans_count (ept s i) + ucast n)) s1
    \<and> umem s1 = umem (out_copy i (n AND size_mask (ep_size (ept s i))) s)
    \<and> ept s1 = (ept s)(i := (ept s i)\<lparr>need_zlp := False, trans_count := trans_count (ept s i) + ucast n, is_busy := False\<rparr>)"
proof -
  let ?epn = "ep_get_n (ep_addr (ept s i))" and ?p = "n AND size_mask (ep_size (ept s i))"
  let ?s = "upd_ept i (\<lambda>e. e\<lparr>need_zlp := False, trans_count := trans_count e + ucast n\<rparr>)
      (out_copy i ?p (ep_ack_io_cpt ?epn False s))"
  have lt: "?p < ep_size (ept s i)" using assms(1,2) by (rule size_mask_less)
  have "out_next call i True s = out_finish call i ?epn (eptype (ept s i) = EPTYPE_CTRL) ?s"
    using assms(3,4) lt by (auto simp: out_next_def Let_def usb_helpers)
  moreover have "umem ?s = umem (out_copy i ?p s)"
    unfolding upd_ept_simps by (rule umem_out_copy_cong) (simp_all add: usb_helpers)
  ultimately show ?thesis
    using out_finish_spec [of ?s i call ?epn "eptype (ept s i) = EPTYPE_CTRL"] assms(5,6)
    by (auto simp: usb_helpers)
qed

subsection \<open>A configured device\<close>

definition sample_ept :: "nat \<Rightarrow> usb_d_dev_ep" where
  \<comment> \<open>the endpoints of the serial port after configuration, the OUT endpoint with a transfer of 64 bytes\<close>
  "sample_ept i =
     \<lparr>trans_buf = 0x20000A00, trans_size = 64, trans_count = 0,
       ep_cache = (if i = 0 then 0x20000800 else if i = 1 then 0x20000840 else if i = 3 then 0x200008C0 else 0x20000980),
       ep_size = 64, ep_addr = (if i = 0 then 0 else if i = 1 then 0x01 else if i = 3 then 0x81 else if i = 4 then 0x82 else 0xFF),
       eptype = (if i = 0 then 1 else if i = 4 then 3 else 4), is_stalled = False, need_zlp = False,
       use_cache = (i = 1), is_busy = (i = 1), ep_dir = (i = 3 \<or> i = 4)\<rparr>"

definition sample_hpl :: "nat usb_hpl" where
  "sample_hpl =
     \<lparr>umem = (\<lambda>p. ucast p),
       epr = (\<lambda>n. \<lparr>epcfg = (if n = 0 then 0x11 else if n = 1 then 0x55 else 0x40), epstatus = 0, epintflag = 0, epinten = 0\<rparr>),
       bank = (\<lambda>n b. \<lparr>bk_addr = 0x20000840, bk_count = 64, bk_multi = 0, bk_sz = 3, bk_status = 0, bk_subpid = 0, bk_variable = 0\<rparr>),
       dev_ctrla = 2, dev_ctrlb = 0, dev_syncbusy = 0, dev_dadd = 0x85, dev_intflag = 0, dev_inten = 0x8C, dev_fnum = 0,
       dev_fsm = 2, dev_speed = 0, dev_descadd = 0x20000100, dev_padcal = 0, dev_qos = 0, otp4 = (\<lambda>_. 0),
       dfll_usbcrm = True, dfll_flags = 0x70, usb_irq_on = True, usb_irq_pending = False, ept = sample_ept,
       cb_sof = None, cb_event = None, cb_setup = None, cb_more = None, cb_done = None\<rparr>"

subsection \<open>Received packets\<close>

text \<open>
  A completed OUT packet ends the transfer, whatever its size: unless the endpoint's
  size is 1023 the handler takes every packet for a short one.  Only the packet's length
  modulo the endpoint's size is copied from the cache, yet the whole length is counted, so
  a full packet received through the cache is reported as received and its bytes are lost.
\<close>

lemma full_cached_packet_is_lost:
  assumes "ep_size (ept s i) \<noteq> 0" and "ep_size (ept s i) \<noteq> 1023"
    and "ep_size (ept s i) AND (ep_size (ept s i) - 1) = 0"
    and "trans_size (ept s i) \<noteq> 0" and "is_busy (ept s i)" and "ep_addr (ept s i) \<noteq> 0xFF"
    and "bk_count (bank s (ep_get_n (ep_addr (ept s i))) False) = ep_size (ept s i)"
  shows "\<exists>s1. out_next call i True s = invoke_proc call (cb_done s)
      (Cb_done (ep_addr (ept s i)) USB_TRANS_DONE (trans_count (ept s i) + ucast (ep_size (ept s i)))) s1
    \<and> umem s1 = umem s \<and> \<not> is_busy (ept s1 i)"
proof -
  have "ep_size (ept s i) AND size_mask (ep_size (ept s i)) = 0"
    using assms(2,3) by (simp add: size_mask_def)
  with out_next_short [OF assms(1,2) _ assms(7) [symmetric] assms(6,5), of call] assms(4) show ?thesis
    by (auto simp: out_copy_nothing)
qed

lemma full_cached_packet_is_lost_witness:
  "\<exists>s1. out_next (\<lambda>_ _ _. None) 1 True sample_hpl = Some s1 \<and> umem s1 = umem sample_hpl \<and> \<not> is_busy (ept s1 1)"
  using full_cached_packet_is_lost [of sample_hpl 1 "\<lambda>_ _ _. None"]
  by (auto simp: sample_hpl_def sample_ept_def ep_get_n_def invoke_proc_def invoke_def)

text \<open>
  C19. Received data stays inside the buffer of the transfer: whatever packet length the
  controller reports, no byte of memory outside \<open>trans_buf .. trans_buf + trans_size\<close> has
  changed when the completion callback is called.
\<close>

lemma out_next_writes_buffer_only:
  assumes "ep_size (ept s i) \<noteq> 0" and "ep_size (ept s i) \<noteq> 1023" and "trans_size (ept s i) \<noteq> 0"
    and "is_busy (ept s i)" and "ep_addr (ept s i) \<noteq> 0xFF"
    and "trans_count (ept s i) \<le> trans_size (ept s i)"
    and "unat (trans_size (ept s i)) \<le> unat (p - trans_buf (ept s i))"
  shows "\<exists>s1. out_next call i True s
      = invoke_proc call (cb_done s) (Cb_done (ep_addr (ept s i)) USB_TRANS_DONE (trans_count (ept s1 i))) s1
    \<and> umem s1 p = umem s p"
proof -
  let ?e = "ept s i"
  let ?d = "p - trans_buf ?e"
  have c: "unat (trans_count ?e) \<le> unat ?d" using assms(6,7) by (simp add: word_le_nat_alt)
  have "p - (trans_buf ?e + trans_count ?e) = ?d - trans_count ?e" by simp
  also have "unat \<dots> = unat ?d - unat (trans_count ?e)" using c by (simp add: unat_sub word_le_nat_alt)
  finally have "unat (trans_size ?e) \<le> unat (trans_count ?e) + unat (p - (trans_buf ?e + trans_count ?e))"
    using c assms(7) by simp
  note outside = umem_out_copy_outside [OF this assms(6)]
  obtain s1 n where "out_next call i True s
      = invoke_proc call (cb_done s) (Cb_done (ep_addr ?e) USB_TRANS_DONE (trans_count (ept s1 i))) s1"
    "umem s1 = umem (out_copy i n s)"
    using out_next_short [OF assms(1,2) _ refl assms(5,4), of call] assms(3) by force
  then show ?thesis using outside by (intro exI [of _ s1]) simp
qed

lemma out_next_writes_buffer_only_witness:
  "\<exists>s1. out_next (\<lambda>_ _ _. None) 1 True sample_hpl = Some s1 \<and> umem s1 0x20000A40 = 0x40"
  using out_next_writes_buffer_only [of sample_hpl 1 "0x20000A40" "\<lambda>_ _ _. None"]
  by (auto simp: sample_hpl_def sample_ept_def ep_get_n_def invoke_proc_def invoke_def)

text \<open>
  The number of bytes reported can exceed the size of the transfer: when a packet
  holds more than the buffer has room for, the bytes that fit are copied and the packet's
  full length is reported.
\<close>

lemma out_count_can_exceed_size:
  assumes "ep_size (ept s i) \<noteq> 0" and "ep_size (ept s i) \<noteq> 1023" and "trans_size (ept s i) \<noteq> 0"
    and "is_busy (ept s i)" and "ep_addr (ept s i) \<noteq> 0xFF" and "trans_count (ept s i) = 0"
    and "bk_count (bank s (ep_get_n (ep_addr (ept s i))) False) = n" and "trans_size (ept s i) < ucast n"
  shows "\<exists>s1. out_next call i True s
      = invoke_proc call (cb_done s) (Cb_done (ep_addr (ept s i)) USB_TRANS_DONE (ucast n)) s1
    \<and> trans_count (ept s1 i) = ucast n \<and> trans_size (ept s1 i) < trans_count (ept s1 i)"
proof -
  obtain s1 where "out_next call i True s
      = invoke_proc call (cb_done s) (Cb_done (ep_addr (ept s i)) USB_TRANS_DONE (ucast n)) s1"
    "ept s1 = (ept s)(i := (ept s i)\<lparr>need_zlp := False, trans_count := ucast n, is_busy := False\<rparr>)"
    using out_next_short [OF assms(1,2) _ assms(7) [symmetric] assms(5,4), of call] assms(3,6) by auto
  then show ?thesis using assms(8) by (intro exI [of _ s1]) simp
qed

lemma out_count_can_exceed_size_witness:
  "\<exists>s1. out_next (\<lambda>_ _ _. None) 1 True (upd_ept 1 (\<lambda>e. e\<lparr>trans_size := 7\<rparr>) sample_hpl) = Some s1
    \<and> trans_size (ept s1 1) < trans_count (ept s1 1)"
  using out_count_can_exceed_size [of "upd_ept 1 (\<lambda>e. e\<lparr>trans_size := 7\<rparr>) sample_hpl" 1 64 "\<lambda>_ _ _. None"]
  by (auto simp: sample_hpl_def sample_ept_def ep_get_n_def invoke_proc_def invoke_def)

end
