(* ===== verification/HalUsb.thy ===== *)
theory HalUsb
  imports HplUsb
begin

text \<open>
  The USB device HAL \<open>hal/src/hal_usb_device.c\<close>: endpoints with transfer states on top of
  the controller driver.

  \<open>usb_d_inst.ep\<close> is the map \<open>hal_ep\<close> from indices to endpoint records; it has
  \<open>CONF_USB_D_NUM_EP_SP\<close> entries, and is total for the index \<open>-1\<close> that \<open>_usb_d_find_ep\<close>
  answers and some callers use.  The setup packet \<open>xfer.req\<close> of an entry is read and
  written through its address, so it lives in memory, at the entry's offset in the array.
  The critical section of \<open>usb_d_ep_transfer\<close> makes the test and set of the state one step.
\<close>

datatype usb_ep_state = USB_EP_S_DISABLED | USB_EP_S_IDLE | USB_EP_S_X_SETUP | USB_EP_S_X_DATA
  | USB_EP_S_X_STATUS | USB_EP_S_HALTED | USB_EP_S_ERROR

datatype usb_fn = Usb_d_cb_trans_setup | Usb_d_cb_trans_more | Usb_d_cb_trans_done
  | Usbd_sof_cb | Usbd_event_cb | Usbdc_cb_ctl_req | Usbdc_cb_ctl_done
  | Usb_device_cb_bulk_out | Usb_device_cb_bulk_in

text \<open>The functions of the firmware's USB stack whose address is taken.\<close>

record usb_d_ep =
  xtype :: u8
  xep :: u8
  xstate :: usb_ep_state
  xstatus :: usb_xfer_code
  req_cb :: "usb_fn option"
  more_cb :: "usb_fn option"
  xfer_cb :: "usb_fn option"

record usb_hal = "usb_fn usb_hpl" +
  hal_ep :: "int \<Rightarrow> usb_d_ep"

type_synonym 'a hal_call = "(usb_fn, 'a usb_hal_ext) usb_call"

abbreviation (input) XTYPE_CTRL :: u8 where "XTYPE_CTRL \<equiv> 0"

definition CONF_USB_D_NUM_EP_SP :: nat where "CONF_USB_D_NUM_EP_SP = 6"

definition xfer_req :: "int \<Rightarrow> ptr" where
  \<comment> \<open>\<open>&usb_d_inst.ep[i].xfer.req\<close>: entries of 32 bytes, the packet after header, pointer and size\<close>
  "xfer_req i = 0x20000C00 + word_of_int (32 * i) + 12"

definition upd_hal :: "int \<Rightarrow> (usb_d_ep \<Rightarrow> usb_d_ep) \<Rightarrow> 'a usb_hal_scheme \<Rightarrow> 'a usb_hal_scheme" where
  "upd_hal i f s = s\<lparr>hal_ep := (hal_ep s)(i := f (hal_ep s i))\<rparr>"

subsection \<open>Callbacks of the controller driver\<close>

fun find_ep_loop :: "u8 \<Rightarrow> nat list \<Rightarrow> (int \<Rightarrow> usb_d_ep) \<Rightarrow> int" where
  "find_ep_loop ep [] h = -1"
| "find_ep_loop ep (i # is) h =
     (if xep (h (int i)) = ep then int i
      else if xtype (h (int i)) = XTYPE_CTRL \<and> ep AND 0x0F = xep (h (int i)) then int i
      else find_ep_loop ep is h)"

definition usb_d_find_ep :: "u8 \<Rightarrow> 'a usb_hal_scheme \<Rightarrow> int" where
  "usb_d_find_ep ep s = find_ep_loop ep [0..<CONF_USB_D_NUM_EP_SP] (hal_ep s)"

definition usb_d_trans ::
    "'a hal_call \<Rightarrow> u8 \<Rightarrow> bool \<Rightarrow> ptr \<Rightarrow> u32 \<Rightarrow> bool \<Rightarrow> 'a usb_hal_scheme \<Rightarrow> (rc \<times> 'a usb_hal_scheme) option" where
  "usb_d_trans call ep dir buf n zlp =
     usb_dev_ep_trans call \<lparr>xf_buf = buf, xf_size = n, xf_ep = (if dir then ep OR 0x80 else ep AND 0x0F), xf_zlp = zlp\<rparr>"

definition stall_both :: "u8 \<Rightarrow> usb_ep_stall_ctrl \<Rightarrow> 'a usb_hal_scheme \<Rightarrow> 'a usb_hal_scheme" where
  "stall_both ep c s = snd (usb_dev_ep_stall (ep OR 0x80) c (snd (usb_dev_ep_stall ep c s)))"

definition usb_d_cb_trans_setup :: "'a hal_call \<Rightarrow> u8 \<Rightarrow> 'a usb_hal_scheme \<Rightarrow> 'a usb_hal_scheme option" where
  "usb_d_cb_trans_setup call ep s =
     (let i = usb_d_find_ep ep s; req = xfer_req i in
      case usb_dev_ep_read_req ep req s of
        (n, s) \<Rightarrow>
          if (word_of_int n :: u8) \<noteq> 8 then Some (stall_both ep USB_EP_STALL_SET s)
          else
            (let s = stall_both ep USB_EP_STALL_CLR s;
                 s = upd_hal i (\<lambda>e. e\<lparr>xstate := USB_EP_S_IDLE\<rparr>) s
             in case invoke call (req_cb (hal_ep s i)) (Cb_req ep req) s of
                  None \<Rightarrow> None
                | Some (ok, s) \<Rightarrow>
                    if ok then Some s
                    else Some (stall_both ep USB_EP_STALL_SET (upd_hal i (\<lambda>e. e\<lparr>xstate := USB_EP_S_HALTED\<rparr>) s))))"

definition usb_d_cb_trans_more ::
    "'a hal_call \<Rightarrow> u8 \<Rightarrow> u32 \<Rightarrow> 'a usb_hal_scheme \<Rightarrow> (bool \<times> 'a usb_hal_scheme) option" where
  "usb_d_cb_trans_more call ep n s =
     (let i = usb_d_find_ep ep s in
      if xstate (hal_ep s i) = USB_EP_S_X_DATA then invoke call (more_cb (hal_ep s i)) (Cb_more ep n) s
      else Some (False, s))"

definition ctrl_trans_done :: "'a hal_call \<Rightarrow> int \<Rightarrow> 'a usb_hal_scheme \<Rightarrow> 'a usb_hal_scheme option" where
  \<comment> \<open>\<open>usb_d_ctrl_trans_done\<close>\<close>
  "ctrl_trans_done call i s =
     (let req_dir = (umem s (xfer_req i) AND 0x80 \<noteq> 0) in
      if xstate (hal_ep s i) = USB_EP_S_X_DATA then
        (case invoke call (xfer_cb (hal_ep s i)) (Cb_xfer (xep (hal_ep s i)) USB_XFER_DATA (xfer_req i)) s of
           None \<Rightarrow> None
         | Some (err, s) \<Rightarrow>
             if err then
               (let s = upd_hal i (\<lambda>e. e\<lparr>xstate := USB_EP_S_HALTED, xstatus := USB_XFER_HALT\<rparr>) s;
                    ep = xep (hal_ep s i)
                in Some (snd (usb_dev_ep_stall (if req_dir then ep else ep OR 0x80) USB_EP_STALL_SET s)))
             else
               (let s = upd_hal i (\<lambda>e. e\<lparr>xstate := USB_EP_S_X_STATUS\<rparr>) s
                in map_option snd (usb_d_trans call (xep (hal_ep s i)) (\<not> req_dir) NULL 0 True s)))
      else
        (case invoke call (xfer_cb (hal_ep s i)) (Cb_xfer (xep (hal_ep s i)) USB_XFER_DONE (xfer_req i)) s of
           None \<Rightarrow> None
         | Some (_, s) \<Rightarrow> Some (upd_hal i (\<lambda>e. e\<lparr>xstate := USB_EP_S_X_SETUP\<rparr>) s)))"

definition usb_d_cb_trans_done ::
    "'a hal_call \<Rightarrow> u8 \<Rightarrow> rc \<Rightarrow> u32 \<Rightarrow> 'a usb_hal_scheme \<Rightarrow> 'a usb_hal_scheme option" where
  \<comment> \<open>\<open>_usb_d_cb_trans_done\<close>\<close>
  "usb_d_cb_trans_done call ep code n s =
     (let i = usb_d_find_ep ep s;
          ctrl = (xtype (hal_ep s i) = XTYPE_CTRL);
          finish = (\<lambda>s. invoke_proc call (xfer_cb (hal_ep s i)) (Cb_xfer ep (xstatus (hal_ep s i)) n) s)
      in if code = USB_TRANS_DONE then
           (let s = upd_hal i (\<lambda>e. e\<lparr>xstatus := USB_XFER_DONE\<rparr>) s
            in if ctrl then ctrl_trans_done call i s
               else finish (upd_hal i (\<lambda>e. e\<lparr>xstate := USB_EP_S_IDLE\<rparr>) s))
         else if code = USB_TRANS_STALL then
           (let s = upd_hal i (\<lambda>e. e\<lparr>xstatus := USB_XFER_HALT\<rparr>) s
            in if ctrl then
                 finish (snd (usb_dev_ep_stall ep USB_EP_STALL_CLR (upd_hal i (\<lambda>e. e\<lparr>xstate := USB_EP_S_X_SETUP\<rparr>) s)))
               else finish (upd_hal i (\<lambda>e. e\<lparr>xstate := USB_EP_S_HALTED\<rparr>) s))
         else if code = USB_TRANS_ABORT then
           (let s = upd_hal i (\<lambda>e. e\<lparr>xstatus := USB_XFER_ABORT\<rparr>) s
            in if ctrl then Some (upd_hal i (\<lambda>e. e\<lparr>xstate := USB_EP_S_X_SETUP\<rparr>) s)
               else finish (upd_hal i (\<lambda>e. e\<lparr>xstate := USB_EP_S_IDLE\<rparr>) s))
         else if code = USB_TRANS_RESET then
           finish (upd_hal i (\<lambda>e. e\<lparr>xstate := USB_EP_S_DISABLED, xstatus := USB_XFER_RESET\<rparr>) s)
         else finish (upd_hal i (\<lambda>e. e\<lparr>xstate := USB_EP_S_ERROR, xstatus := USB_XFER_ERROR\<rparr>) s))"

subsection \<open>Device\<close>

definition zero_ep :: usb_d_ep where
  \<comment> \<open>an entry after the \<open>memset\<close> and the loop of \<open>usb_d_init\<close>\<close>
  "zero_ep = \<lparr>xtype = 0, xep = 0xFF, xstate = USB_EP_S_DISABLED, xstatus = USB_XFER_DONE,
     req_cb = None, more_cb = None, xfer_cb = None\<rparr>"

definition in_req :: "ptr \<Rightarrow> bool" where
  \<comment> \<open>the addresses of the setup packets of the six entries\<close>
  "in_req p \<longleftrightarrow> list_ex (\<lambda>i. unat (p - xfer_req (int i)) < 8) [0..<CONF_USB_D_NUM_EP_SP]"

definition usb_d_init :: "'a hal_call \<Rightarrow> 'a usb_hal_scheme \<Rightarrow> (rc \<times> 'a usb_hal_scheme) option" where
  "usb_d_init call s =
     (case usb_dev_init call s of
        None \<Rightarrow> None
      | Some (rc, s) \<Rightarrow>
          if rc < 0 then Some (rc, s)
          else
            (let s = s\<lparr>hal_ep := (\<lambda>i. if 0 \<le> i \<and> i < int CONF_USB_D_NUM_EP_SP then zero_ep else hal_ep s i),
                       umem := (\<lambda>p. if in_req p then 0 else umem s p)\<rparr>;
                 s = usb_dev_register_ep_callback USB_D_DEV_EP_CB_SETUP (Some Usb_d_cb_trans_setup) s;
                 s = usb_dev_register_ep_callback USB_D_DEV_EP_CB_MORE (Some Usb_d_cb_trans_more) s;
                 s = usb_dev_register_ep_callback USB_D_DEV_EP_CB_DONE (Some Usb_d_cb_trans_done) s
             in Some (ERR_NONE, s)))"

definition usb_d_deinit :: "'a usb_hal_scheme \<Rightarrow> 'a usb_hal_scheme option" where
  "usb_d_deinit s = usb_dev_deinit s"

definition usb_d_register_callback :: "usb_d_cb_type \<Rightarrow> usb_fn option \<Rightarrow> 'a usb_hal_scheme \<Rightarrow> 'a usb_hal_scheme" where
  "usb_d_register_callback type func s = usb_dev_register_callback type func s"

definition usb_d_enable :: "'a usb_hal_scheme \<Rightarrow> rc \<times> 'a usb_hal_scheme" where
  "usb_d_enable s = usb_dev_enable s"

definition usb_d_disable :: "'a usb_hal_scheme \<Rightarrow> 'a usb_hal_scheme" where
  "usb_d_disable s = snd (usb_dev_disable s)"

definition usb_d_attach :: "'a usb_hal_scheme \<Rightarrow> 'a usb_hal_scheme" where "usb_d_attach s = usb_dev_attach s"
definition usb_d_detach :: "'a usb_hal_scheme \<Rightarrow> 'a usb_hal_scheme" where "usb_d_detach s = usb_dev_detach s"

definition usb_d_set_address :: "u8 \<Rightarrow> 'a usb_hal_scheme \<Rightarrow> 'a usb_hal_scheme" where
  "usb_d_set_address addr s = usb_dev_set_address addr s"

definition usb_d_send_remotewakeup :: "'a usb_hal_scheme \<Rightarrow> 'a usb_hal_scheme option" where
  "usb_d_send_remotewakeup s = usb_dev_send_remotewakeup s"

definition usb_d_get_speed :: "'a usb_hal_scheme \<Rightarrow> usb_speed option" where "usb_d_get_speed s = usb_dev_get_speed s"
definition usb_d_get_frame_num :: "'a usb_hal_scheme \<Rightarrow> u16" where "usb_d_get_frame_num s = usb_dev_get_frame_n s"
definition usb_d_get_uframe_num :: "'a usb_hal_scheme \<Rightarrow> u8" where "usb_d_get_uframe_num s = usb_dev_get_uframe_n s"

subsection \<open>Endpoints\<close>

definition usb_d_ep_init :: "u8 \<Rightarrow> u8 \<Rightarrow> u16 \<Rightarrow> 'a usb_hal_scheme \<Rightarrow> rc \<times> 'a usb_hal_scheme" where
  "usb_d_ep_init ep attr max_pkt_size s =
     (if 0 \<le> usb_d_find_ep ep s then (- USB_ERR_REDO, s)
      else
        (let i = usb_d_find_ep 0xFF s in
         if i < 0 then (- USB_ERR_ALLOC_FAIL, s)
         else case usb_dev_ep_init ep attr max_pkt_size s of
                (rc, s) \<Rightarrow> if rc < 0 then (rc, s)
                          else (ERR_NONE, upd_hal i (\<lambda>e. e\<lparr>xep := ep, xtype := attr AND 3\<rparr>) s)))"

definition usb_d_ep0_init :: "u8 \<Rightarrow> 'a usb_hal_scheme \<Rightarrow> rc \<times> 'a usb_hal_scheme" where
  "usb_d_ep0_init max_pkt_size s = usb_d_ep_init 0 XTYPE_CTRL (ucast max_pkt_size) s"

definition usb_d_ep_deinit :: "'a hal_call \<Rightarrow> u8 \<Rightarrow> 'a usb_hal_scheme \<Rightarrow> 'a usb_hal_scheme option" where
  "usb_d_ep_deinit call ep s =
     (let i = usb_d_find_ep ep s in
      if i < 0 then Some s
      else map_option (upd_hal i (\<lambda>e. e\<lparr>xep := 0xFF\<rparr>)) (usb_dev_ep_deinit call ep s))"

definition usb_d_ep_enable :: "u8 \<Rightarrow> 'a usb_hal_scheme \<Rightarrow> rc \<times> 'a usb_hal_scheme" where
  "usb_d_ep_enable ep s =
     (let i = usb_d_find_ep ep s in
      if i < 0 then (- USB_ERR_PARAM, s)
      else
        (let s = upd_hal i (\<lambda>e. e\<lparr>xstate := if xtype e = XTYPE_CTRL then USB_EP_S_X_SETUP else USB_EP_S_IDLE\<rparr>) s
         in case usb_dev_ep_enable ep s of
              (rc, s) \<Rightarrow> (rc, if rc < 0 then upd_hal i (\<lambda>e. e\<lparr>xstate := USB_EP_S_DISABLED\<rparr>) s else s)))"

definition usb_d_ep_disable :: "'a hal_call \<Rightarrow> u8 \<Rightarrow> 'a usb_hal_scheme \<Rightarrow> 'a usb_hal_scheme option" where
  "usb_d_ep_disable call ep s =
     (let i = usb_d_find_ep ep s in
      if i < 0 then Some s
      else map_option (upd_hal i (\<lambda>e. e\<lparr>xstate := USB_EP_S_DISABLED\<rparr>)) (usb_dev_ep_disable call ep s))"

definition usb_d_ep_get_req :: "u8 \<Rightarrow> 'a usb_hal_scheme \<Rightarrow> ptr" where
  "usb_d_ep_get_req ep s = (let i = usb_d_find_ep ep s in if i < 0 then NULL else xfer_req i)"

definition req_len :: "(ptr \<Rightarrow> u8) \<Rightarrow> ptr \<Rightarrow> u16" where
  \<comment> \<open>\<open>USB_GET_wLength\<close>\<close>
  "req_len m req = ucast (m (req + 6)) + push_bit 8 (ucast (m (req + 7)))"

definition refused :: "usb_ep_state \<Rightarrow> rc" where
  \<comment> \<open>the code for a transfer in a state other than idle\<close>
  "refused st =
     (case st of USB_EP_S_HALTED \<Rightarrow> USB_HALTED | USB_EP_S_ERROR \<Rightarrow> - USB_ERROR | USB_EP_S_DISABLED \<Rightarrow> - USB_ERR_FUNC
      | _ \<Rightarrow> USB_BUSY)"

definition usb_d_ep_transfer ::
    "'a hal_call \<Rightarrow> usb_d_transfer \<Rightarrow> 'a usb_hal_scheme \<Rightarrow> (rc \<times> 'a usb_hal_scheme) option" where
  "usb_d_ep_transfer call xfer s =
     (let i = usb_d_find_ep (xf_ep xfer) s; state = xstate (hal_ep s i) in
      if i < 0 then Some (- USB_ERR_PARAM, s)
      else if state \<noteq> USB_EP_S_IDLE then Some (refused state, s)
      else
        (let s = upd_hal i (\<lambda>e. e\<lparr>xstate := USB_EP_S_X_DATA\<rparr>) s in
         if xtype (hal_ep s i) = XTYPE_CTRL then
           (let rlen = req_len (umem s) (xfer_req i) in
            if rlen = 0 then
              (let s = upd_hal i (\<lambda>e. e\<lparr>xstate := USB_EP_S_X_STATUS\<rparr>) s
               in usb_d_trans call (xf_ep xfer) True (xf_buf xfer) 0 True s)
            else
              (let dir = (umem s (xfer_req i) AND 0x80 \<noteq> 0);
                   len = (if ucast rlen < xf_size xfer then ucast rlen else xf_size xfer);
                   zlp = (if dir then len < ucast rlen else False)
               in usb_d_trans call (xf_ep xfer) dir (xf_buf xfer) len zlp s))
         else usb_d_trans call (xf_ep xfer) (ep_get_dir (xf_ep xfer)) (xf_buf xfer) (xf_size xfer) (xf_zlp xfer) s))"

definition usb_d_ep_abort :: "'a hal_call \<Rightarrow> u8 \<Rightarrow> 'a usb_hal_scheme \<Rightarrow> 'a usb_hal_scheme option" where
  "usb_d_ep_abort call ep s =
     (let i = usb_d_find_ep ep s in
      if i < 0 then Some s
      else map_option (upd_hal i (\<lambda>e. e\<lparr>xstate := USB_EP_S_IDLE, xstatus := USB_XFER_ABORT\<rparr>))
             (usb_dev_ep_abort call ep s))"

record usb_d_ep_status =
  es_ep :: u8
  es_code :: usb_xfer_code
  es_state :: usb_ep_state
  es_count :: u32
  es_size :: u32

definition usb_d_ep_get_status :: "u8 \<Rightarrow> 'a usb_hal_scheme \<Rightarrow> rc \<times> usb_d_ep_status option" where
  \<comment> \<open>the status written to a \<open>stat\<close> that is not \<open>NULL\<close>; its counts are not initialised
      if the driver does not know the endpoint, which is then \<open>None\<close> here\<close>
  "usb_d_ep_get_status ep s =
     (let i = usb_d_find_ep ep s; e = hal_ep s i in
      if i < 0 then (- USB_ERR_PARAM, None)
      else (if xstate e = USB_EP_S_IDLE then USB_OK else refused (xstate e),
            map_option (\<lambda>st. \<lparr>es_ep = ep, es_code = xstatus e, es_state = xstate e, es_count = st_count st, es_size = st_size st\<rparr>)
              (snd (usb_dev_ep_get_status ep s))))"

definition usb_d_ep_halt_clr :: "'a hal_call \<Rightarrow> u8 \<Rightarrow> 'a usb_hal_scheme \<Rightarrow> (rc \<times> 'a usb_hal_scheme) option" where
  "usb_d_ep_halt_clr call ep s =
     (let i = usb_d_find_ep ep s in
      if i < 0 then Some (- USB_ERR_PARAM, s)
      else if fst (usb_dev_ep_stall ep USB_EP_STALL_GET s) \<noteq> 0 then
        (case usb_dev_ep_stall ep USB_EP_STALL_CLR s of
           (rc, s) \<Rightarrow>
             if rc < 0 then Some (rc, s)
             else
               (let s = upd_hal i (\<lambda>e. e\<lparr>xstate := USB_EP_S_IDLE, xstatus := USB_XFER_UNHALT\<rparr>) s
                in map_option (Pair ERR_NONE) (invoke_proc call (xfer_cb (hal_ep s i)) (Cb_xfer ep USB_XFER_UNHALT NULL) s)))
      else Some (ERR_NONE, s))"

definition usb_d_ep_halt ::
    "'a hal_call \<Rightarrow> u8 \<Rightarrow> usb_ep_stall_ctrl \<Rightarrow> 'a usb_hal_scheme \<Rightarrow> (rc \<times> 'a usb_hal_scheme) option" where
  "usb_d_ep_halt call ep ctrl s =
     (if ctrl = USB_EP_STALL_CLR then usb_d_ep_halt_clr call ep s
      else if ctrl = USB_EP_STALL_SET then Some (usb_dev_ep_stall ep USB_EP_STALL_SET s)
      else Some (usb_dev_ep_stall ep USB_EP_STALL_GET s))"

datatype usb_d_ep_cb_type = USB_D_EP_CB_SETUP | USB_D_EP_CB_MORE | USB_D_EP_CB_XFER

definition usb_d_ep_register_callback ::
    "u8 \<Rightarrow> usb_d_ep_cb_type \<Rightarrow> usb_fn option \<Rightarrow> 'a usb_hal_scheme \<Rightarrow> 'a usb_hal_scheme" where
  "usb_d_ep_register_callback ep type func s =
     (let i = usb_d_find_ep ep s in
      if i < 0 then s
      else (case type of
              USB_D_EP_CB_SETUP \<Rightarrow> upd_hal i (\<lambda>e. e\<lparr>req_cb := func\<rparr>) s
            | USB_D_EP_CB_MORE \<Rightarrow> upd_hal i (\<lambda>e. e\<lparr>more_cb := func\<rparr>) s
            | USB_D_EP_CB_XFER \<Rightarrow> upd_hal i (\<lambda>e. e\<lparr>xfer_cb := func\<rparr>) s))"

end
