(* ===== verification/UsbProtocol.thy ===== *)
theory UsbProtocol
  imports Prelude
begin

text \<open>
  The descriptor walks of \<open>usb/usb_protocol.c\<close> and the accessors of \<open>usb/usb_protocol.h\<close>.

  A descriptor is a run of bytes in memory \<open>m\<close> whose first byte is its length and whose
  second is its type; descriptors lie one after the other from \<open>desc\<close> up to \<open>eof\<close>.  The
  loops step by the length they read, so they are partial functions over the memory; the
  parameter checks are compiled out (\<open>CONF_NO_ASSERT_CHECK\<close>).
\<close>

type_synonym mem = "ptr \<Rightarrow> u8"

abbreviation (input) USB_DT_DEVICE :: u8 where "USB_DT_DEVICE \<equiv> 1"
abbreviation (input) USB_DT_CONFIG :: u8 where "USB_DT_CONFIG \<equiv> 2"
abbreviation (input) USB_DT_STRING :: u8 where "USB_DT_STRING \<equiv> 3"
abbreviation (input) USB_DT_INTERFACE :: u8 where "USB_DT_INTERFACE \<equiv> 4"
abbreviation (input) USB_DT_ENDPOINT :: u8 where "USB_DT_ENDPOINT \<equiv> 5"
abbreviation (input) USB_DT_OTHER_SPEED_CONFIG :: u8 where "USB_DT_OTHER_SPEED_CONFIG \<equiv> 7"

subsection \<open>Accessors\<close>

definition usb_get_u16 :: "mem \<Rightarrow> ptr \<Rightarrow> u16" where
  "usb_get_u16 m p = ucast (m p) + push_bit 8 (ucast (m (p + 1)))"

definition usb_get_u32 :: "mem \<Rightarrow> ptr \<Rightarrow> u32" where
  "usb_get_u32 m p = ucast (m p) + push_bit 8 (ucast (m (p + 1))) + push_bit 16 (ucast (m (p + 2)))
     + push_bit 24 (ucast (m (p + 3)))"

definition usb_desc_len :: "mem \<Rightarrow> ptr \<Rightarrow> u8" where "usb_desc_len m desc = m desc"
definition usb_desc_type :: "mem \<Rightarrow> ptr \<Rightarrow> u8" where "usb_desc_type m desc = m (desc + 1)"
definition usb_desc_next :: "mem \<Rightarrow> ptr \<Rightarrow> ptr" where "usb_desc_next m desc = desc + ucast (usb_desc_len m desc)"
definition usb_dev_desc_vid :: "mem \<Rightarrow> ptr \<Rightarrow> u16" where "usb_dev_desc_vid m desc = usb_get_u16 m (desc + 8)"
definition usb_dev_desc_pid :: "mem \<Rightarrow> ptr \<Rightarrow> u16" where "usb_dev_desc_pid m desc = usb_get_u16 m (desc + 10)"
definition usb_cfg_desc_total_len :: "mem \<Rightarrow> ptr \<Rightarrow> u16" where "usb_cfg_desc_total_len m desc = usb_get_u16 m (desc + 2)"
definition usb_cfg_desc_next :: "mem \<Rightarrow> ptr \<Rightarrow> ptr" where
  "usb_cfg_desc_next m desc = desc + ucast (usb_cfg_desc_total_len m desc)"

subsection \<open>Searches\<close>

partial_function (option) usb_find_desc :: "mem \<Rightarrow> ptr \<Rightarrow> ptr \<Rightarrow> u8 \<Rightarrow> ptr option" where
  "usb_find_desc m desc eof type =
     (if \<not> desc < eof then Some NULL
      else if usb_desc_len m desc < 2 then Some NULL
      else if type = usb_desc_type m desc then Some desc
      else usb_find_desc m (usb_desc_next m desc) eof type)"

declare usb_find_desc.simps [code]

partial_function (option) usb_find_iface_after :: "mem \<Rightarrow> ptr \<Rightarrow> ptr \<Rightarrow> u8 \<Rightarrow> ptr option" where
  "usb_find_iface_after m desc eof iface_n =
     (if \<not> desc < eof then Some eof
      else if usb_desc_len m desc < 2 then Some NULL
      else if usb_desc_type m desc = USB_DT_INTERFACE \<and> iface_n \<noteq> m (desc + 2) then Some desc
      else usb_find_iface_after m (usb_desc_next m desc) eof iface_n)"

declare usb_find_iface_after.simps [code]

partial_function (option) usb_find_ep_desc :: "mem \<Rightarrow> ptr \<Rightarrow> ptr \<Rightarrow> ptr option" where
  "usb_find_ep_desc m desc eof =
     (if \<not> desc < eof then Some NULL
      else if usb_desc_len m desc < 2 then Some NULL
      else if usb_desc_type m desc = USB_DT_INTERFACE then Some NULL
      else if usb_desc_type m desc = USB_DT_ENDPOINT then Some desc
      else usb_find_ep_desc m (usb_desc_next m desc) eof)"

declare usb_find_ep_desc.simps [code]

partial_function (option) cfg_loop :: "mem \<Rightarrow> u8 \<Rightarrow> ptr \<Rightarrow> ptr \<Rightarrow> u8 \<Rightarrow> ptr option" where
  \<comment> \<open>the common loop of the two searches for a configuration descriptor\<close>
  "cfg_loop m type desc eof cfg_value =
     (if \<not> desc < eof then Some NULL
      else if usb_desc_len m desc < 2 then Some NULL
      else if m (desc + 1) \<noteq> type then Some NULL
      else if m (desc + 5) = cfg_value then Some desc
      else cfg_loop m type (usb_cfg_desc_next m desc) eof cfg_value)"

declare cfg_loop.simps [code]

definition usb_find_cfg_desc :: "mem \<Rightarrow> ptr \<Rightarrow> ptr \<Rightarrow> u8 \<Rightarrow> ptr option" where
  "usb_find_cfg_desc m desc eof cfg_value =
     (case usb_find_desc m desc eof USB_DT_CONFIG of
        None \<Rightarrow> None
      | Some desc \<Rightarrow> if desc = NULL then Some NULL else cfg_loop m USB_DT_CONFIG desc eof cfg_value)"

definition usb_find_othspdcfg_desc :: "mem \<Rightarrow> ptr \<Rightarrow> ptr \<Rightarrow> u8 \<Rightarrow> ptr option" where
  "usb_find_othspdcfg_desc m desc eof cfg_value =
     (case usb_find_desc m desc eof USB_DT_OTHER_SPEED_CONFIG of
        None \<Rightarrow> None
      | Some desc \<Rightarrow> if desc = NULL then Some NULL else cfg_loop m USB_DT_OTHER_SPEED_CONFIG desc eof cfg_value)"

partial_function (option) str_loop :: "mem \<Rightarrow> u8 \<Rightarrow> ptr \<Rightarrow> ptr \<Rightarrow> u8 \<Rightarrow> ptr option" where
  "str_loop m i desc eof str_index =
     (if \<not> desc < eof then Some NULL
      else case usb_find_desc m desc eof USB_DT_STRING of
             None \<Rightarrow> None
           | Some desc \<Rightarrow>
               (if desc = NULL then Some NULL
                else if usb_desc_len m desc < 2 then Some NULL
                else if i = str_index then Some desc
                else str_loop m (i + 1) (usb_desc_next m desc) eof str_index))"

declare str_loop.simps [code]

definition usb_find_str_desc :: "mem \<Rightarrow> ptr \<Rightarrow> ptr \<Rightarrow> u8 \<Rightarrow> ptr option" where
  "usb_find_str_desc m desc eof str_index = str_loop m 0 desc eof str_index"

subsection \<open>The searches return\<close>

lemma desc_next_progress:
  assumes "desc < eof" and "eof \<le> 0xFFFFFF00" and "\<not> usb_desc_len m desc < 2"
  shows "desc < usb_desc_next m desc" and "unat (usb_desc_next m desc) = unat desc + unat (m desc)"
proof -
  have "unat eof \<le> 0xFFFFFF00" using assms(2) by (simp add: word_le_nat_alt)
  then have "unat desc + unat (m desc) < 4294967296"
    using assms(1) u8_lt [of "m desc"] unfolding word_less_nat_alt by linarith
  then show u: "unat (usb_desc_next m desc) = unat desc + unat (m desc)"
    by (simp add: usb_desc_next_def usb_desc_len_def unat_word_ariths)
  have "2 \<le> unat (m desc)" using assms(3) by (simp add: usb_desc_len_def word_less_nat_alt not_less)
  with u show "desc < usb_desc_next m desc" by (simp add: word_less_nat_alt)
qed

text \<open>
  C40. The descriptor search returns whatever bytes it walks over, as long as the end of the
  descriptors is not within 256 bytes of the end of the address space; the result is
  \<open>NULL\<close> or a descriptor of the type searched for, between the start and the end.
\<close>

theorem usb_find_desc_returns:
  assumes "eof \<le> 0xFFFFFF00"
  shows "\<exists>r. usb_find_desc m desc eof type = Some r
    \<and> (r = NULL \<or> desc \<le> r \<and> r < eof \<and> usb_desc_type m r = type \<and> 2 \<le> usb_desc_len m r)"
proof (induction "unat eof - unat desc" arbitrary: desc rule: less_induct)
  case less
  show ?case
  proof (cases "desc < eof \<and> \<not> usb_desc_len m desc < 2 \<and> type \<noteq> usb_desc_type m desc")
    case True
    then have p: "desc < usb_desc_next m desc" using desc_next_progress(1) assms by blast
    then have "unat eof - unat (usb_desc_next m desc) < unat eof - unat desc"
      using True unfolding word_less_nat_alt by linarith
    from less.hyps [OF this] obtain r where r: "usb_find_desc m (usb_desc_next m desc) eof type = Some r"
      "r = NULL \<or> usb_desc_next m desc \<le> r \<and> r < eof \<and> usb_desc_type m r = type \<and> 2 \<le> usb_desc_len m r"
      by blast
    have "usb_find_desc m desc eof type = Some r" using True r(1) by (subst usb_find_desc.simps) simp
    then show ?thesis using r(2) p by auto
  next
    case False
    then show ?thesis by (subst usb_find_desc.simps) (auto simp: not_less)
  qed
qed

lemma usb_find_desc_returns_witness:
  "\<exists>r. usb_find_desc (\<lambda>_. 9) 0x20000000 0x20000100 4 = Some r \<and> (r = NULL \<or> 0x20000000 \<le> r \<and> r < 0x20000100)"
  using usb_find_desc_returns [of "0x20000100" "\<lambda>_. 9" "0x20000000" 4] by auto

text \<open>
  The search for a configuration descriptor steps by the configuration's total length,
  which is not checked: a configuration that is not the one searched for and says its
  length is 0 is never left.
\<close>

lemma cfg_loop_stuck:
  assumes "desc < eof" and "2 \<le> usb_desc_len m desc" and "m (desc + 1) = type" and "m (desc + 5) \<noteq> cfg_value"
    and "usb_cfg_desc_total_len m desc = 0"
  shows "cfg_loop m type desc eof cfg_value = None"
proof -
  have next_same: "usb_cfg_desc_next m desc = desc" using assms(5) by (simp add: usb_cfg_desc_next_def)
  have never: "cfg_loop mm ty d e v = Some r \<Longrightarrow> (mm, ty, d, e, v) \<noteq> (m, type, desc, eof, cfg_value)" for mm ty d e v r
  proof (induction rule: cfg_loop.raw_induct [rotated, consumes 1])
    case (1 loop mm ty d e v r)
    show ?case
    proof
      assume eq: "(mm, ty, d, e, v) = (m, type, desc, eof, cfg_value)"
      then have "loop m type desc eof cfg_value = Some r" using 1(2) assms next_same by (auto split: if_splits)
      then show False using 1(1) by blast
    qed
  qed
  show ?thesis
  proof (cases "cfg_loop m type desc eof cfg_value")
    case (Some r)
    from never [OF this] show ?thesis by simp
  qed
qed

subsection \<open>Sequences of descriptors\<close>

fun descs_at :: "mem \<Rightarrow> ptr \<Rightarrow> u8 list list \<Rightarrow> ptr \<Rightarrow> bool" where
  \<comment> \<open>memory holds the given descriptors from \<open>p\<close> to \<open>e\<close>\<close>
  "descs_at m p [] e \<longleftrightarrow> p = e"
| "descs_at m p (d # ds) e \<longleftrightarrow>
     2 \<le> length d \<and> unat (d ! 0) = length d \<and> (\<forall>k < length d. m (p + of_nat k) = d ! k)
     \<and> unat p + length d < 4294967296 \<and> p \<noteq> NULL \<and> descs_at m (p + of_nat (length d)) ds e"

fun first_desc :: "(u8 list \<Rightarrow> bool) \<Rightarrow> ptr \<Rightarrow> u8 list list \<Rightarrow> ptr" where
  \<comment> \<open>the address of the first descriptor with the property, \<open>NULL\<close> if there is none\<close>
  "first_desc P p [] = NULL"
| "first_desc P p (d # ds) = (if P d then p else first_desc P (p + of_nat (length d)) ds)"

fun nth_desc :: "(u8 list \<Rightarrow> bool) \<Rightarrow> nat \<Rightarrow> ptr \<Rightarrow> u8 list list \<Rightarrow> ptr" where
  \<comment> \<open>the address of the descriptor with the property that has \<open>n\<close> of them before it\<close>
  "nth_desc P n p [] = NULL"
| "nth_desc P n p (d # ds) =
     (if P d then (if n = 0 then p else nth_desc P (n - 1) (p + of_nat (length d)) ds)
      else nth_desc P n (p + of_nat (length d)) ds)"

lemma descs_at_head:
  assumes "descs_at m p (d # ds) e"
  shows "m p = d ! 0" "m (p + 1) = d ! 1" "\<not> m p < 2" "usb_desc_next m p = p + of_nat (length d)"
    "unat (p + of_nat (length d)) = unat p + length d"
proof -
  have d: "2 \<le> length d" "unat (d ! 0) = length d" "\<forall>k < length d. m (p + of_nat k) = d ! k"
      "unat p + length d < 4294967296"
    using assms by auto
  from d(1) have ix: "0 < length d" "1 < length d" by linarith+
  then show m0: "m p = d ! 0" "m (p + 1) = d ! 1" using d(3) by (force, force)
  show "\<not> m p < 2" using d(1,2) m0 by (simp add: word_less_nat_alt)
  have "(ucast (m p) :: u32) = of_nat (length d)"
    using d(2,4) m0 by (simp add: word_unat_eq_iff unsigned_of_nat take_bit_nat_eq_self)
  then show "usb_desc_next m p = p + of_nat (length d)" by (simp add: usb_desc_next_def usb_desc_len_def)
  show "unat (p + of_nat (length d)) = unat p + length d"
    using d(4) by (simp add: unat_word_ariths unat_of_nat)
qed

lemma descs_at_le: "descs_at m p ds e \<Longrightarrow> p \<le> e"
proof (induction ds arbitrary: p)
  case (Cons d ds)
  then have "p + of_nat (length d) \<le> e" by simp
  then show ?case using descs_at_head(5) [OF Cons.prems] by (simp add: word_le_nat_alt)
qed simp

lemma descs_at_less: "descs_at m p (d # ds) e \<Longrightarrow> p < e"
proof -
  assume a: "descs_at m p (d # ds) e"
  then have "p + of_nat (length d) \<le> e" "2 \<le> length d" using descs_at_le by auto
  then show "p < e" using descs_at_head(5) [OF a] by (simp add: word_le_nat_alt word_less_nat_alt)
qed

lemmas desc_simps = usb_desc_len_def usb_desc_type_def

text \<open>
  On well-formed descriptors the pointer walks are searches in the sequence of
  descriptors: the first of a type, the first endpoint before the next interface, and the
  string with the given number.
\<close>

lemma find_desc_descs:
  "descs_at m p ds e \<Longrightarrow> usb_find_desc m p e t = Some (first_desc (\<lambda>d. d ! 1 = t) p ds)"
proof (induction ds arbitrary: p)
  case Nil
  then show ?case by (subst usb_find_desc.simps) simp
next
  case (Cons d ds)
  note h = descs_at_head [OF Cons.prems]
  from Cons.prems have "usb_find_desc m (p + of_nat (length d)) e t
      = Some (first_desc (\<lambda>d. d ! 1 = t) (p + of_nat (length d)) ds)"
    by (intro Cons.IH) simp
  then show ?case
    using h(1-4) descs_at_less [OF Cons.prems]
    by (subst usb_find_desc.simps) (auto simp: desc_simps)
qed

lemma find_ep_desc_descs:
  "descs_at m p ds e \<Longrightarrow>
     usb_find_ep_desc m p e = Some (first_desc (\<lambda>d. d ! 1 = USB_DT_ENDPOINT) p (takeWhile (\<lambda>d. d ! 1 \<noteq> USB_DT_INTERFACE) ds))"
proof (induction ds arbitrary: p)
  case Nil
  then show ?case by (subst usb_find_ep_desc.simps) simp
next
  case (Cons d ds)
  note h = descs_at_head [OF Cons.prems]
  from Cons.prems have "usb_find_ep_desc m (p + of_nat (length d)) e
      = Some (first_desc (\<lambda>d. d ! 1 = USB_DT_ENDPOINT) (p + of_nat (length d)) (takeWhile (\<lambda>d. d ! 1 \<noteq> USB_DT_INTERFACE) ds))"
    by (intro Cons.IH) simp
  then show ?case
    using h(1-4) descs_at_less [OF Cons.prems]
    by (subst usb_find_ep_desc.simps) (auto simp: desc_simps)
qed

lemma find_desc_split:
  assumes "descs_at m p ds e"
  shows "(\<forall>d \<in> set ds. d ! 1 \<noteq> t) \<and> usb_find_desc m p e t = Some NULL \<and> nth_desc (\<lambda>d. d ! 1 = t) n p ds = NULL
    \<or> (\<exists>q d ys. usb_find_desc m p e t = Some q \<and> descs_at m q (d # ys) e \<and> length ys < length ds
          \<and> nth_desc (\<lambda>d. d ! 1 = t) n p ds = (if n = 0 then q else nth_desc (\<lambda>d. d ! 1 = t) (n - 1) (q + of_nat (length d)) ys))"
  using assms
proof (induction ds arbitrary: p)
  case Nil
  then show ?case using find_desc_descs [of m p "[]" e t] by simp
next
  case (Cons d ds)
  have tail: "descs_at m (p + of_nat (length d)) ds e" using Cons.prems by simp
  show ?case
  proof (cases "d ! 1 = t")
    case True
    have "usb_find_desc m p e t = Some p" using True find_desc_descs [OF Cons.prems] by simp
    then show ?thesis using Cons.prems True by (intro disjI2 exI [of _ p] exI [of _ d] exI [of _ ds]) simp
  next
    case False
    let ?p = "p + of_nat (length d)"
    have eqs: "usb_find_desc m p e t = usb_find_desc m ?p e t"
        "nth_desc (\<lambda>d. d ! 1 = t) n p (d # ds) = nth_desc (\<lambda>d. d ! 1 = t) n ?p ds"
      using False find_desc_descs [OF Cons.prems] find_desc_descs [OF tail] by simp_all
    from Cons.IH [OF tail] consider
        "\<forall>x \<in> set ds. x ! 1 \<noteq> t" "usb_find_desc m ?p e t = Some NULL" "nth_desc (\<lambda>d. d ! 1 = t) n ?p ds = NULL"
      | q x ys where "usb_find_desc m ?p e t = Some q" "descs_at m q (x # ys) e" "length ys < length ds"
        "nth_desc (\<lambda>d. d ! 1 = t) n ?p ds = (if n = 0 then q else nth_desc (\<lambda>d. d ! 1 = t) (n - 1) (q + of_nat (length x)) ys)"
      by blast
    then show ?thesis
    proof cases
      case 1
      then show ?thesis using eqs False by (intro disjI1) simp
    next
      case 2
      then show ?thesis using eqs
        by (intro disjI2 exI [of _ q] exI [of _ x] exI [of _ ys]) (simp del: descs_at.simps nth_desc.simps)
    qed
  qed
qed

lemma str_loop_descs:
  "descs_at m p ds e \<Longrightarrow> i \<le> n \<Longrightarrow> str_loop m i p e n = Some (nth_desc (\<lambda>d. d ! 1 = USB_DT_STRING) (unat n - unat i) p ds)"
proof (induction "length ds" arbitrary: ds p i rule: less_induct)
  case less
  show ?case
  proof (cases "p < e")
    case False
    then have "ds = []" using less.prems(1) descs_at_less by (cases ds) blast+
    then show ?thesis using False by (subst str_loop.simps) simp
  next
    case True
    let ?k = "unat n - unat i"
    from find_desc_split [OF less.prems(1), of USB_DT_STRING ?k] show ?thesis
    proof (elim disjE conjE exE)
      assume "usb_find_desc m p e USB_DT_STRING = Some NULL" "nth_desc (\<lambda>d. d ! 1 = USB_DT_STRING) ?k p ds = NULL"
      then show ?thesis using True by (subst str_loop.simps) simp
    next
      fix q d ys
      assume q: "usb_find_desc m p e USB_DT_STRING = Some q" "descs_at m q (d # ys) e" "length ys < length ds"
        "nth_desc (\<lambda>d. d ! 1 = USB_DT_STRING) ?k p ds
          = (if ?k = 0 then q else nth_desc (\<lambda>d. d ! 1 = USB_DT_STRING) (?k - 1) (q + of_nat (length d)) ys)"
      note h = descs_at_head [OF q(2)]
      have q0: "q \<noteq> NULL" using q(2) by simp
      have step: "str_loop m i p e n = (if i = n then Some q else str_loop m (i + 1) (q + of_nat (length d)) e n)"
        using True q(1) q0 h(3,4) by (subst str_loop.simps) (simp add: desc_simps)
      show ?thesis
      proof (cases "i = n")
        case True
        then show ?thesis using step q(4) by simp
      next
        case False
        then have lt: "i < n" using less.prems(2) by simp
        then have i1: "unat (i + 1) = Suc (unat i)" by (rule unat_Suc_less)
        then have "i + 1 \<le> n" using lt by (simp add: word_le_nat_alt word_less_nat_alt)
        moreover have "descs_at m (q + of_nat (length d)) ys e" using q(2) by simp
        ultimately have "str_loop m (i + 1) (q + of_nat (length d)) e n
            = Some (nth_desc (\<lambda>d. d ! 1 = USB_DT_STRING) (unat n - unat (i + 1)) (q + of_nat (length d)) ys)"
          using less.hyps q(3) by blast
        moreover have "?k \<noteq> 0" "unat n - unat (i + 1) = ?k - 1" using lt i1 by (simp_all add: word_less_nat_alt)
        ultimately show ?thesis using step q(4) False by simp
      qed
    qed
  qed
qed

text \<open>
  C12. On well-formed descriptors the pointer walks are searches in the sequence of
  descriptors: they return the first descriptor of a type, the first endpoint before the
  next interface, and the string with the given number, or \<open>NULL\<close> if there is none.
\<close>

theorem searches_refine_sequence:
  assumes "descs_at m p ds e"
  shows "usb_find_desc m p e t = Some (first_desc (\<lambda>d. d ! 1 = t) p ds)
    \<and> usb_find_ep_desc m p e
        = Some (first_desc (\<lambda>d. d ! 1 = USB_DT_ENDPOINT) p (takeWhile (\<lambda>d. d ! 1 \<noteq> USB_DT_INTERFACE) ds))
    \<and> usb_find_str_desc m p e n = Some (nth_desc (\<lambda>d. d ! 1 = USB_DT_STRING) (unat n) p ds)"
  using find_desc_descs [OF assms] find_ep_desc_descs [OF assms] str_loop_descs [OF assms, of 0 n]
  by (simp add: usb_find_str_desc_def)

lemma searches_refine_sequence_witness:
  "usb_find_desc (\<lambda>p. if p = 0x20000000 then 2 else 4) 0x20000000 0x20000002 4 = Some 0x20000000"
proof -
  let ?m = "\<lambda>p :: ptr. if p = 0x20000000 then 2 else (4 :: u8)"
  have "?m (0x20000000 + of_nat k) = [2, 4] ! k" if "k < 2" for k
  proof -
    from that have "k = 0 \<or> k = 1" by linarith
    then show ?thesis by auto
  qed
  then have "descs_at ?m 0x20000000 [[2, 4]] 0x20000002" by simp
  from searches_refine_sequence [OF this, of 4 0] show ?thesis by simp
qed

end
