(* ===== verification/UsbDc.thy ===== *)
theory UsbDc
  imports HalUsb UsbProtocol UtilsList
begin

text \<open>
  The USB device core \<open>usb/device/usbdc.c\<close>: standard requests, the device state, and the
  lists of function drivers and handlers.

  \<open>usbdc\<close> is the extension of the HAL's state by the fields of \<open>struct usbdc_driver\<close>.  The
  lists are intrusive lists over \<open>dc_links\<close>, as in \<open>utils_list.c\<close>; \<open>dc_cb\<close> is the function
  pointer stored in a node.  Handlers and function drivers are called through the record of
  functions \<open>fns\<close>; the descriptor range a driver's \<open>ctrl\<close> gets by pointer is passed in and
  returned.  The setup packet is read through its address.  \<open>CONF_USBD_HS_SP\<close> is 0.

  \<open>None\<close> is a call that does not return, and a shift of \<open>1\<close> out of the range of \<open>int\<close>.
\<close>

abbreviation (input) USBD_S_OFF :: u8 where "USBD_S_OFF \<equiv> 0"
abbreviation (input) USBD_S_POWER :: u8 where "USBD_S_POWER \<equiv> 1"
abbreviation (input) USBD_S_DEFAULT :: u8 where "USBD_S_DEFAULT \<equiv> 2"
abbreviation (input) USBD_S_ADDRESS :: u8 where "USBD_S_ADDRESS \<equiv> 3"
abbreviation (input) USBD_S_CONFIG :: u8 where "USBD_S_CONFIG \<equiv> 4"
abbreviation (input) USBD_S_SUSPEND :: u8 where "USBD_S_SUSPEND \<equiv> 0x10"

datatype dc_fn = Cdcdf_acm_req | Cdcdf_acm_ctrl | Sof_fn nat | Change_fn nat | Req_fn nat | Ctrl_fn nat
datatype usb_ctrl_stage = USB_SETUP_STAGE | USB_DATA_STAGE | USB_STATUS_STAGE
datatype usbdc_change_type = USBDC_C_CONN | USBDC_C_STATE | USBDC_C_POWER | USBDC_C_REMOTE_WAKEUP
datatype usbdc_handler_type = USBDC_HDL_SOF | USBDC_HDL_REQ | USBDC_HDL_CHANGE

record usbd_descriptors =
  sod :: ptr
  eod :: ptr

datatype usbdf_control = USBDF_ENABLE usbd_descriptors | USBDF_DISABLE "usbd_descriptors option" | USBDF_GET_IFACE ptr

record usbdc = usb_hal +
  ls_fs :: "usbd_descriptors option"
  dc_links :: links
  dc_cb :: "ptr \<Rightarrow> dc_fn option"
  sof_list :: ptr
  req_list :: ptr
  change_list :: ptr
  func_list :: ptr
  ctrl_buf :: ptr
  dc_state :: u8
  cfg_value :: u8
  ctrl_size :: u8
  ifc_alt_map :: u8

type_synonym 'a dc_call = "'a usbdc_ext hal_call"
type_synonym 'a ret = "(rc \<times> 'a usbdc_scheme) option"

record 'a dc_fns =
  fn_sof :: "dc_fn \<Rightarrow> 'a usbdc_scheme \<Rightarrow> 'a usbdc_scheme option"
  fn_change :: "dc_fn \<Rightarrow> usbdc_change_type \<Rightarrow> u32 \<Rightarrow> 'a usbdc_scheme \<Rightarrow> 'a usbdc_scheme option"
  fn_req :: "dc_fn \<Rightarrow> u8 \<Rightarrow> ptr \<Rightarrow> usb_ctrl_stage \<Rightarrow> 'a usbdc_scheme \<Rightarrow> 'a ret"
  fn_ctrl :: "dc_fn \<Rightarrow> usbdf_control \<Rightarrow> 'a usbdc_scheme \<Rightarrow> (rc \<times> usbdf_control \<times> 'a usbdc_scheme) option"

subsection \<open>Setup packets\<close>

definition bmRequestType :: "mem \<Rightarrow> ptr \<Rightarrow> u8" where "bmRequestType m req = m req"
definition bRequest :: "mem \<Rightarrow> ptr \<Rightarrow> u8" where "bRequest m req = m (req + 1)"
definition wValue :: "mem \<Rightarrow> ptr \<Rightarrow> u16" where "wValue m req = usb_get_u16 m (req + 2)"
definition wIndex :: "mem \<Rightarrow> ptr \<Rightarrow> u16" where "wIndex m req = usb_get_u16 m (req + 4)"
definition wLength :: "mem \<Rightarrow> ptr \<Rightarrow> u16" where "wLength m req = usb_get_u16 m (req + 6)"

definition usbdc_xfer :: "'a dc_call \<Rightarrow> u8 \<Rightarrow> ptr \<Rightarrow> u32 \<Rightarrow> bool \<Rightarrow> 'a usbdc_scheme \<Rightarrow> 'a ret" where
  "usbdc_xfer call ep buf n zlp s = usb_d_ep_transfer call \<lparr>xf_buf = buf, xf_size = n, xf_ep = ep, xf_zlp = zlp\<rparr> s"

definition answer :: "'a ret \<Rightarrow> (bool \<times> 'a usbdc_scheme) option" where
  \<comment> \<open>\<open>if (ERR_NONE != usbdc_xfer(..)) return false; return true\<close>\<close>
  "answer r = map_option (\<lambda>(rc, s). (rc = ERR_NONE, s)) r"

definition answer_true :: "'a ret \<Rightarrow> (bool \<times> 'a usbdc_scheme) option" where
  \<comment> \<open>\<open>usbdc_xfer(..); return true\<close>\<close>
  "answer_true r = map_option (\<lambda>(_, s). (True, s)) r"

definition write_mem :: "ptr \<Rightarrow> u8 list \<Rightarrow> 'a usbdc_scheme \<Rightarrow> 'a usbdc_scheme" where
  "write_mem p bs s = s\<lparr>umem := (\<lambda>q. if unat (q - p) < length bs then bs ! unat (q - p) else umem s q)\<rparr>"

subsection \<open>GET requests\<close>

definition descs :: "'a usbdc_scheme \<Rightarrow> usbd_descriptors option" where "descs s = ls_fs s"

definition usbdc_get_dev_desc :: "'a dc_call \<Rightarrow> u8 \<Rightarrow> ptr \<Rightarrow> 'a usbdc_scheme \<Rightarrow> (bool \<times> 'a usbdc_scheme) option" where
  "usbdc_get_dev_desc call ep req s =
     (let len = wLength (umem s) req; len = (if 0x12 < len then 0x12 else len) in
      case descs s of
        None \<Rightarrow> None
      | Some d \<Rightarrow>
          (case usb_find_desc (umem s) (sod d) (eod d) USB_DT_DEVICE of
             None \<Rightarrow> None
           | Some dev \<Rightarrow> if dev = NULL then Some (False, s) else answer (usbdc_xfer call ep dev (ucast len) False s)))"

definition clip :: "u16 \<Rightarrow> u16 \<Rightarrow> u8 \<Rightarrow> u16 \<times> bool" where
  \<comment> \<open>the length to send of a descriptor of \<open>tlen\<close> bytes, and whether a packet of length 0 follows\<close>
  "clip len tlen csize =
     (if len \<le> tlen then (len, False) else (tlen, len AND (ucast csize - 1) = 0))"

definition usbdc_get_cfg_desc :: "'a dc_call \<Rightarrow> u8 \<Rightarrow> ptr \<Rightarrow> 'a usbdc_scheme \<Rightarrow> (bool \<times> 'a usbdc_scheme) option" where
  "usbdc_get_cfg_desc call ep req s =
     (let len = wLength (umem s) req; index = ucast (wValue (umem s) req) :: u8 in
      case descs s of
        None \<Rightarrow> None
      | Some d \<Rightarrow>
          (case usb_find_cfg_desc (umem s) (sod d) (eod d) (index + 1) of
             None \<Rightarrow> None
           | Some cfg \<Rightarrow>
               if cfg = NULL then Some (False, s)
               else (case clip len (usb_cfg_desc_total_len (umem s) cfg) (ctrl_size s) of
                       (n, zlp) \<Rightarrow> answer (usbdc_xfer call ep cfg (ucast n) zlp s))))"

definition usbdc_get_str_desc :: "'a dc_call \<Rightarrow> u8 \<Rightarrow> ptr \<Rightarrow> 'a usbdc_scheme \<Rightarrow> (bool \<times> 'a usbdc_scheme) option" where
  "usbdc_get_str_desc call ep req s =
     (let len = wLength (umem s) req; index = ucast (wValue (umem s) req) :: u8 in
      case descs s of
        None \<Rightarrow> None
      | Some d \<Rightarrow>
          (case usb_find_str_desc (umem s) (sod d) (eod d) index of
             None \<Rightarrow> None
           | Some str \<Rightarrow>
               if str = NULL then Some (False, s)
               else (case clip len (ucast (umem s str)) (ctrl_size s) of
                       (n, zlp) \<Rightarrow> answer (usbdc_xfer call ep str (ucast n) zlp s))))"

definition usbdc_get_desc_req :: "'a dc_call \<Rightarrow> u8 \<Rightarrow> ptr \<Rightarrow> 'a usbdc_scheme \<Rightarrow> (bool \<times> 'a usbdc_scheme) option" where
  "usbdc_get_desc_req call ep req s =
     (let type = ucast (drop_bit 8 (wValue (umem s) req)) :: u8 in
      if type = USB_DT_DEVICE then usbdc_get_dev_desc call ep req s
      else if type = USB_DT_CONFIG then usbdc_get_cfg_desc call ep req s
      else if type = USB_DT_STRING then usbdc_get_str_desc call ep req s
      else Some (False, s))"

definition usbdc_get_status_req :: "'a dc_call \<Rightarrow> u8 \<Rightarrow> ptr \<Rightarrow> 'a usbdc_scheme \<Rightarrow> (bool \<times> 'a usbdc_scheme) option" where
  "usbdc_get_status_req call ep req s =
     (let recip = bmRequestType (umem s) req AND 0x1F;
          send = (\<lambda>st s. answer_true (usbdc_xfer call ep (ctrl_buf s) 2 False
                           (write_mem (ctrl_buf s) [word_of_int st, word_of_int (st div 256)] s)))
      in if recip = 0 \<or> recip = 1 then send 0 s
         else if recip = 2 then
           (case usb_d_ep_halt call (ucast (wIndex (umem s) req)) USB_EP_STALL_GET s of
              None \<Rightarrow> None
            | Some (st, s) \<Rightarrow> if st < 0 then Some (False, s) else send (st mod 2) s)
         else Some (False, s))"

partial_function (option) get_iface_loop ::
    "'a dc_fns \<Rightarrow> ptr \<Rightarrow> ptr \<Rightarrow> 'a usbdc_scheme \<Rightarrow> (rc option \<times> 'a usbdc_scheme) option" where
  "get_iface_loop fns func req s =
     (if func = NULL then Some (None, s)
      else case dc_cb s func of
             None \<Rightarrow> None
           | Some f \<Rightarrow>
               (case fn_ctrl fns f (USBDF_GET_IFACE req) s of
                  None \<Rightarrow> None
                | Some (rc, _, s) \<Rightarrow>
                    if rc < 0 then get_iface_loop fns (dc_links s func) req s else Some (Some rc, s)))"

declare get_iface_loop.simps [code]

definition usbdc_get_interface :: "'a dc_call \<Rightarrow> 'a dc_fns \<Rightarrow> ptr \<Rightarrow> 'a usbdc_scheme \<Rightarrow> (bool \<times> 'a usbdc_scheme) option" where
  "usbdc_get_interface call fns req s =
     (let n = unat (wIndex (umem s) req);
          send = (\<lambda>b s. answer_true (usbdc_xfer call 0 (ctrl_buf s) 1 False (write_mem (ctrl_buf s) [b] s)))
      in if 31 \<le> n then None
         else if \<not> bit (ifc_alt_map s) n then send 0 s
         else case get_iface_loop fns (func_list s) req s of
                None \<Rightarrow> None
              | Some (None, s) \<Rightarrow> Some (False, s)
              | Some (Some rc, s) \<Rightarrow> send (word_of_int rc) s)"

definition usbdc_get_req :: "'a dc_call \<Rightarrow> 'a dc_fns \<Rightarrow> u8 \<Rightarrow> ptr \<Rightarrow> 'a usbdc_scheme \<Rightarrow> (bool \<times> 'a usbdc_scheme) option" where
  "usbdc_get_req call fns ep req s =
     (let r = bRequest (umem s) req in
      if r = 6 then usbdc_get_desc_req call ep req s
      else if r = 8 then
        answer_true (usbdc_xfer call ep (ctrl_buf s) 1 False (write_mem (ctrl_buf s) [cfg_value s] s))
      else if r = 0 then usbdc_get_status_req call ep req s
      else if r = 10 then usbdc_get_interface call fns req s
      else Some (False, s))"

subsection \<open>SET requests\<close>

definition usbdc_clear_ftr_req :: "'a dc_call \<Rightarrow> u8 \<Rightarrow> ptr \<Rightarrow> 'a usbdc_scheme \<Rightarrow> (bool \<times> 'a usbdc_scheme) option" where
  "usbdc_clear_ftr_req call ep req s =
     (if bmRequestType (umem s) req AND 0x1F \<noteq> 2 then Some (False, s)
      else if wLength (umem s) req \<noteq> 0 then Some (False, s)
      else case usb_d_ep_halt call (ucast (wIndex (umem s) req)) USB_EP_STALL_CLR s of
             None \<Rightarrow> None
           | Some (_, s) \<Rightarrow> answer_true (usbdc_xfer call ep NULL 0 True s))"

definition usbdc_set_ftr_req :: "'a dc_call \<Rightarrow> u8 \<Rightarrow> ptr \<Rightarrow> 'a usbdc_scheme \<Rightarrow> (bool \<times> 'a usbdc_scheme) option" where
  "usbdc_set_ftr_req call ep req s =
     (if bmRequestType (umem s) req AND 0x1F \<noteq> 2 then Some (False, s)
      else if wLength (umem s) req \<noteq> 0 then Some (False, s)
      else case usb_d_ep_halt call (ucast (wIndex (umem s) req)) USB_EP_STALL_SET s of
             None \<Rightarrow> None
           | Some (_, s) \<Rightarrow> answer_true (usbdc_xfer call ep NULL 0 True s))"

partial_function (option) unconfig_loop :: "'a dc_fns \<Rightarrow> ptr \<Rightarrow> 'a usbdc_scheme \<Rightarrow> 'a usbdc_scheme option" where
  "unconfig_loop fns func s =
     (if func = NULL then Some s
      else case dc_cb s func of
             None \<Rightarrow> None
           | Some f \<Rightarrow>
               (case fn_ctrl fns f (USBDF_DISABLE None) s of
                  None \<Rightarrow> None
                | Some (_, _, s) \<Rightarrow> unconfig_loop fns (dc_links s func) s))"

declare unconfig_loop.simps [code]

definition usbdc_unconfig :: "'a dc_fns \<Rightarrow> 'a usbdc_scheme \<Rightarrow> 'a usbdc_scheme option" where
  "usbdc_unconfig fns s = unconfig_loop fns (func_list s) s"

fun desc_of :: "usbdf_control \<Rightarrow> usbd_descriptors" where
  \<comment> \<open>the range as the driver left it\<close>
  "desc_of (USBDF_ENABLE d) = d"
| "desc_of (USBDF_DISABLE (Some d)) = d"
| "desc_of _ = \<lparr>sod = NULL, eod = NULL\<rparr>"

partial_function (option) enable_funcs ::
    "'a dc_fns \<Rightarrow> ptr \<Rightarrow> usbd_descriptors \<Rightarrow> 'a usbdc_scheme \<Rightarrow> (usbd_descriptors \<times> 'a usbdc_scheme) option" where
  "enable_funcs fns func d s =
     (if func = NULL then Some (d, s)
      else case dc_cb s func of
             None \<Rightarrow> None
           | Some f \<Rightarrow>
               (case fn_ctrl fns f (USBDF_ENABLE d) s of
                  None \<Rightarrow> None
                | Some (rc, p, s) \<Rightarrow>
                    if rc \<noteq> 0 then enable_funcs fns (dc_links s func) (desc_of p) s
                    else Some (desc_of p, s)))"

declare enable_funcs.simps [code]

partial_function (option) set_config_loop ::
    "'a dc_fns \<Rightarrow> u8 \<Rightarrow> usbd_descriptors \<Rightarrow> 'a usbdc_scheme \<Rightarrow> 'a usbdc_scheme option" where
  "set_config_loop fns last_iface d s =
     (if sod d = NULL then Some s
      else
        (let n = umem s (sod d + 2) in
         case (if last_iface \<noteq> n then enable_funcs fns (func_list s) d s else Some (d, s)) of
           None \<Rightarrow> None
         | Some (d, s) \<Rightarrow>
             (case usb_find_desc (umem s) (usb_desc_next (umem s) (sod d)) (eod d) USB_DT_INTERFACE of
                None \<Rightarrow> None
              | Some nxt \<Rightarrow> set_config_loop fns n (d\<lparr>sod := nxt\<rparr>) s)))"

declare set_config_loop.simps [code]

definition usbdc_set_config :: "'a dc_fns \<Rightarrow> u8 \<Rightarrow> 'a usbdc_scheme \<Rightarrow> (bool \<times> 'a usbdc_scheme) option" where
  "usbdc_set_config fns cfg s =
     (if cfg = 0 then map_option (Pair True) (usbdc_unconfig fns s)
      else case descs s of
             None \<Rightarrow> None
           | Some d \<Rightarrow>
               (case usb_find_cfg_desc (umem s) (sod d) (eod d) cfg of
                  None \<Rightarrow> None
                | Some c \<Rightarrow>
                    if c = NULL then Some (False, s)
                    else
                      (let e = c + ucast (usb_cfg_desc_total_len (umem s) c) in
                       case usb_find_desc (umem s) c e USB_DT_INTERFACE of
                         None \<Rightarrow> None
                       | Some i \<Rightarrow> map_option (Pair True) (set_config_loop fns 0xFF \<lparr>sod = i, eod = e\<rparr> s))))"

definition usbdc_set_address :: "u8 \<Rightarrow> 'a usbdc_scheme \<Rightarrow> 'a usbdc_scheme" where
  "usbdc_set_address addr s = usb_d_set_address addr s"

partial_function (option) find_alt_loop :: "mem \<Rightarrow> ptr \<Rightarrow> ptr \<Rightarrow> ptr \<Rightarrow> u16 \<Rightarrow> u16 \<Rightarrow> ptr option" where
  \<comment> \<open>the interface descriptor with the given number and alternate setting, or \<open>NULL\<close>\<close>
  "find_alt_loop m ifc start e alt_set ifc_id =
     (if \<not> (ucast (m (ifc + 2)) \<noteq> ifc_id \<or> ucast (m (ifc + 3)) \<noteq> alt_set) then Some ifc
      else
        (let start = usb_desc_next m start in
         case usb_find_desc m start e USB_DT_INTERFACE of
           None \<Rightarrow> None
         | Some ifc \<Rightarrow> if ifc = NULL then Some NULL else find_alt_loop m ifc start e alt_set ifc_id))"

declare find_alt_loop.simps [code]

partial_function (option) set_alt_loop ::
    "'a dc_call \<Rightarrow> 'a dc_fns \<Rightarrow> ptr \<Rightarrow> usbd_descriptors \<Rightarrow> u16 \<Rightarrow> u16 \<Rightarrow> 'a usbdc_scheme
      \<Rightarrow> (bool \<times> 'a usbdc_scheme) option" where
  "set_alt_loop call fns func d alt_set ifc_id s =
     (if func = NULL then Some (False, s)
      else case dc_cb s func of
             None \<Rightarrow> None
           | Some f \<Rightarrow>
               (case fn_ctrl fns f (USBDF_DISABLE (Some d)) s of
                  None \<Rightarrow> None
                | Some (rc, p, s) \<Rightarrow>
                    if rc \<noteq> 0 then set_alt_loop call fns (dc_links s func) (desc_of p) alt_set ifc_id s
                    else
                      (case dc_cb s func of
                         None \<Rightarrow> None
                       | Some f \<Rightarrow>
                           (case fn_ctrl fns f (USBDF_ENABLE (desc_of p)) s of
                              None \<Rightarrow> None
                            | Some (rc, _, s) \<Rightarrow>
                                if rc \<noteq> ERR_NONE then Some (False, s)
                                else if alt_set \<noteq> 0 \<and> 31 \<le> unat ifc_id then None
                                else
                                  (let s = (if alt_set \<noteq> 0
                                            then s\<lparr>ifc_alt_map := ifc_alt_map s OR push_bit (unat ifc_id) 1\<rparr> else s)
                                   in answer_true (usbdc_xfer call 0 NULL 0 False s))))))"

declare set_alt_loop.simps [code]

definition usbdc_set_interface ::
    "'a dc_call \<Rightarrow> 'a dc_fns \<Rightarrow> u16 \<Rightarrow> u16 \<Rightarrow> 'a usbdc_scheme \<Rightarrow> (bool \<times> 'a usbdc_scheme) option" where
  "usbdc_set_interface call fns alt_set ifc_id s =
     (case descs s of
        None \<Rightarrow> None
      | Some d \<Rightarrow>
          (case usb_find_cfg_desc (umem s) (sod d) (eod d) (cfg_value s) of
             None \<Rightarrow> None
           | Some c \<Rightarrow>
               if c = NULL then Some (False, s)
               else
                 (let e = c + ucast (usb_cfg_desc_total_len (umem s) c) in
                  case usb_find_desc (umem s) c e USB_DT_INTERFACE of
                    None \<Rightarrow> None
                  | Some i \<Rightarrow>
                      if i = NULL then Some (False, s)
                      else (case find_alt_loop (umem s) i c e alt_set ifc_id of
                              None \<Rightarrow> None
                            | Some i \<Rightarrow>
                                if i = NULL then Some (False, s)
                                else set_alt_loop call fns (func_list s) \<lparr>sod = i, eod = e\<rparr> alt_set ifc_id s))))"

definition usbdc_set_req :: "'a dc_call \<Rightarrow> 'a dc_fns \<Rightarrow> u8 \<Rightarrow> ptr \<Rightarrow> 'a usbdc_scheme \<Rightarrow> (bool \<times> 'a usbdc_scheme) option" where
  "usbdc_set_req call fns ep req s =
     (let r = bRequest (umem s) req in
      if r = 5 then answer (usbdc_xfer call ep NULL 0 True s)
      else if r = 9 then
        (case usbdc_set_config fns (ucast (wValue (umem s) req)) s of
           None \<Rightarrow> None
         | Some (ok, s) \<Rightarrow> if \<not> ok then Some (False, s) else answer (usbdc_xfer call ep NULL 0 True s))
      else if r = 1 then usbdc_clear_ftr_req call ep req s
      else if r = 3 then usbdc_set_ftr_req call ep req s
      else if r = 11 then usbdc_set_interface call fns (wValue (umem s) req) (wIndex (umem s) req) s
      else Some (False, s))"

subsection \<open>Notifications and callbacks\<close>

partial_function (option) sof_loop :: "'a dc_fns \<Rightarrow> ptr \<Rightarrow> 'a usbdc_scheme \<Rightarrow> 'a usbdc_scheme option" where
  "sof_loop fns h s =
     (if h = NULL then Some s
      else case dc_cb s h of
             None \<Rightarrow> sof_loop fns (dc_links s h) s
           | Some f \<Rightarrow> (case fn_sof fns f s of None \<Rightarrow> None | Some s \<Rightarrow> sof_loop fns (dc_links s h) s))"

declare sof_loop.simps [code]

definition usbdc_sof_notify :: "'a dc_fns \<Rightarrow> 'a usbdc_scheme \<Rightarrow> 'a usbdc_scheme option" where
  "usbdc_sof_notify fns s = sof_loop fns (sof_list s) s"

partial_function (option) change_loop ::
    "'a dc_fns \<Rightarrow> ptr \<Rightarrow> usbdc_change_type \<Rightarrow> u32 \<Rightarrow> 'a usbdc_scheme \<Rightarrow> 'a usbdc_scheme option" where
  "change_loop fns h change val s =
     (if h = NULL then Some s
      else case dc_cb s h of
             None \<Rightarrow> change_loop fns (dc_links s h) change val s
           | Some f \<Rightarrow>
               (case fn_change fns f change val s of
                  None \<Rightarrow> None
                | Some s \<Rightarrow> change_loop fns (dc_links s h) change val s))"

declare change_loop.simps [code]

definition usbdc_change_notify :: "'a dc_fns \<Rightarrow> usbdc_change_type \<Rightarrow> u32 \<Rightarrow> 'a usbdc_scheme \<Rightarrow> 'a usbdc_scheme option" where
  "usbdc_change_notify fns change val s = change_loop fns (change_list s) change val s"

partial_function (option) request_loop ::
    "'a dc_fns \<Rightarrow> ptr \<Rightarrow> u8 \<Rightarrow> ptr \<Rightarrow> usb_ctrl_stage \<Rightarrow> 'a usbdc_scheme \<Rightarrow> 'a ret" where
  "request_loop fns h ep req stage s =
     (if h = NULL then Some (0, s)
      else case dc_cb s h of
             None \<Rightarrow> request_loop fns (dc_links s h) ep req stage s
           | Some f \<Rightarrow>
               (case fn_req fns f ep req stage s of
                  None \<Rightarrow> None
                | Some (rc, s) \<Rightarrow>
                    if rc = 0 then Some (1, s)
                    else if rc \<noteq> ERR_NOT_FOUND then Some (-1, s)
                    else request_loop fns (dc_links s h) ep req stage s))"

declare request_loop.simps [code]

definition usbdc_request_handler ::
    "'a dc_fns \<Rightarrow> u8 \<Rightarrow> ptr \<Rightarrow> usb_ctrl_stage \<Rightarrow> 'a usbdc_scheme \<Rightarrow> 'a ret" where
  "usbdc_request_handler fns ep req stage s = request_loop fns (req_list s) ep req stage s"

definition usbd_sof_cb :: "'a dc_fns \<Rightarrow> 'a usbdc_scheme \<Rightarrow> 'a usbdc_scheme option" where
  "usbd_sof_cb fns s = usbdc_sof_notify fns s"

definition usbdc_cb_ctl_req :: "'a dc_call \<Rightarrow> 'a dc_fns \<Rightarrow> u8 \<Rightarrow> ptr \<Rightarrow> 'a usbdc_scheme \<Rightarrow> (bool \<times> 'a usbdc_scheme) option" where
  "usbdc_cb_ctl_req call fns ep req s =
     (case usbdc_request_handler fns ep req USB_SETUP_STAGE s of
        None \<Rightarrow> None
      | Some (rc, s) \<Rightarrow>
          if rc = 1 then Some (True, s)
          else if rc = -1 then Some (False, s)
          else
            (let t = bmRequestType (umem s) req AND 0xE0 in
             if t = 0 then usbdc_set_req call fns ep req s
             else if t = 0x80 then usbdc_get_req call fns ep req s
             else Some (False, s)))"

definition usbdc_ctrl_status_end :: "'a dc_fns \<Rightarrow> ptr \<Rightarrow> 'a usbdc_scheme \<Rightarrow> 'a usbdc_scheme option" where
  "usbdc_ctrl_status_end fns req s =
     (let v = wValue (umem s) req in
      if bmRequestType (umem s) req \<noteq> 0 then Some s
      else if bRequest (umem s) req = 9 then
        (let s = s\<lparr>cfg_value := ucast v, dc_state := (if v \<noteq> 0 then USBD_S_CONFIG else USBD_S_ADDRESS)\<rparr>
         in usbdc_change_notify fns USBDC_C_STATE (ucast (dc_state s)) s)
      else if bRequest (umem s) req = 5 then
        (let s = usbdc_set_address (ucast v) s;
             s = s\<lparr>dc_state := (if v \<noteq> 0 then USBD_S_ADDRESS else USBD_S_DEFAULT)\<rparr>
         in usbdc_change_notify fns USBDC_C_STATE (ucast (dc_state s)) s)
      else Some s)"

definition usbdc_ctrl_data_end :: "'a dc_fns \<Rightarrow> ptr \<Rightarrow> 'a usbdc_scheme \<Rightarrow> (bool \<times> 'a usbdc_scheme) option" where
  "usbdc_ctrl_data_end fns req s =
     map_option (\<lambda>(_, s). (False, s)) (usbdc_request_handler fns 0 req USB_DATA_STAGE s)"

definition usbdc_cb_ctl_done ::
    "'a dc_fns \<Rightarrow> u8 \<Rightarrow> usb_xfer_code \<Rightarrow> ptr \<Rightarrow> 'a usbdc_scheme \<Rightarrow> (bool \<times> 'a usbdc_scheme) option" where
  "usbdc_cb_ctl_done fns ep code req s =
     (case code of
        USB_XFER_DONE \<Rightarrow> map_option (Pair False) (usbdc_ctrl_status_end fns req s)
      | USB_XFER_DATA \<Rightarrow> usbdc_ctrl_data_end fns req s
      | _ \<Rightarrow> Some (False, s))"

definition usbdc_reset :: "'a dc_call \<Rightarrow> 'a dc_fns \<Rightarrow> 'a usbdc_scheme \<Rightarrow> 'a usbdc_scheme option" where
  "usbdc_reset call fns s =
     (case usbdc_unconfig fns s of
        None \<Rightarrow> None
      | Some s \<Rightarrow>
          (case usb_d_ep_deinit call 0 (s\<lparr>dc_state := USBD_S_DEFAULT, cfg_value := 0, ifc_alt_map := 0\<rparr>) of
             None \<Rightarrow> None
           | Some s \<Rightarrow>
               (let s = snd (usb_d_ep0_init (ctrl_size s) s);
                    s = usb_d_ep_register_callback 0 USB_D_EP_CB_SETUP (Some Usbdc_cb_ctl_req) s;
                    s = usb_d_ep_register_callback 0 USB_D_EP_CB_XFER (Some Usbdc_cb_ctl_done) s
                in Some (snd (usb_d_ep_enable 0 s)))))"

definition usbd_event_cb :: "'a dc_call \<Rightarrow> 'a dc_fns \<Rightarrow> nat \<Rightarrow> u32 \<Rightarrow> 'a usbdc_scheme \<Rightarrow> 'a usbdc_scheme option" where
  "usbd_event_cb call fns ev param s =
     (if ev = 0 then usbdc_change_notify fns USBDC_C_CONN param s
      else if ev = USB_EV_RESET then usbdc_reset call fns s
      else Some s)"

subsection \<open>Set-up\<close>

definition usbdc_register_handler :: "bool \<Rightarrow> usbdc_handler_type \<Rightarrow> ptr \<Rightarrow> 'a usbdc_scheme \<Rightarrow> 'a usbdc_scheme option" where
  "usbdc_register_handler debug type h s =
     (case type of
        USBDC_HDL_SOF \<Rightarrow> map_option (\<lambda>(nx, hd). s\<lparr>dc_links := nx, sof_list := hd\<rparr>) (list_insert_at_end debug (dc_links s) (sof_list s) h)
      | USBDC_HDL_REQ \<Rightarrow> map_option (\<lambda>(nx, hd). s\<lparr>dc_links := nx, req_list := hd\<rparr>) (list_insert_at_end debug (dc_links s) (req_list s) h)
      | USBDC_HDL_CHANGE \<Rightarrow>
          map_option (\<lambda>(nx, hd). s\<lparr>dc_links := nx, change_list := hd\<rparr>) (list_insert_at_end debug (dc_links s) (change_list s) h))"

definition usbdc_unregister_handler :: "usbdc_handler_type \<Rightarrow> ptr \<Rightarrow> 'a usbdc_scheme \<Rightarrow> 'a usbdc_scheme option" where
  "usbdc_unregister_handler type h s =
     (case type of
        USBDC_HDL_SOF \<Rightarrow> map_option (\<lambda>(_, nx, hd). s\<lparr>dc_links := nx, sof_list := hd\<rparr>) (list_delete_element (dc_links s) (sof_list s) h)
      | USBDC_HDL_REQ \<Rightarrow> map_option (\<lambda>(_, nx, hd). s\<lparr>dc_links := nx, req_list := hd\<rparr>) (list_delete_element (dc_links s) (req_list s) h)
      | USBDC_HDL_CHANGE \<Rightarrow>
          map_option (\<lambda>(_, nx, hd). s\<lparr>dc_links := nx, change_list := hd\<rparr>) (list_delete_element (dc_links s) (change_list s) h))"

definition usbdc_init :: "bool \<Rightarrow> 'a dc_call \<Rightarrow> ptr \<Rightarrow> 'a usbdc_scheme \<Rightarrow> 'a ret" where
  "usbdc_init debug call buf s =
     c_assert debug (Some (buf \<noteq> NULL))
       (case usb_d_init call s of
          None \<Rightarrow> None
        | Some (rc, s) \<Rightarrow>
            if rc < 0 then Some (rc, s)
            else
              (let s = s\<lparr>ls_fs := None, sof_list := NULL, req_list := NULL, change_list := NULL, func_list := NULL,
                         ctrl_buf := NULL, dc_state := 0, cfg_value := 0, ctrl_size := 0, ifc_alt_map := 0\<rparr>;
                   s = s\<lparr>ctrl_buf := buf\<rparr>;
                   s = usb_d_register_callback USB_D_CB_SOF (Some Usbd_sof_cb) s;
                   s = usb_d_register_callback USB_D_CB_EVENT (Some Usbd_event_cb) s
               in Some (0, s)))"

definition usbdc_deinit :: "'a usbdc_scheme \<Rightarrow> 'a ret" where
  "usbdc_deinit s = map_option (Pair 0) (usb_d_deinit s)"

definition usbdc_register_function :: "bool \<Rightarrow> ptr \<Rightarrow> 'a usbdc_scheme \<Rightarrow> 'a usbdc_scheme option" where
  "usbdc_register_function debug func s =
     map_option (\<lambda>(nx, hd). s\<lparr>dc_links := nx, func_list := hd\<rparr>) (list_insert_at_end debug (dc_links s) (func_list s) func)"

definition usbdc_unregister_function :: "ptr \<Rightarrow> 'a usbdc_scheme \<Rightarrow> 'a usbdc_scheme option" where
  "usbdc_unregister_function func s =
     map_option (\<lambda>(_, nx, hd). s\<lparr>dc_links := nx, func_list := hd\<rparr>) (list_delete_element (dc_links s) (func_list s) func)"

definition usbdc_validate_desces :: "mem \<Rightarrow> usbd_descriptors option \<Rightarrow> rc option" where
  "usbdc_validate_desces m desces =
     (case desces of
        None \<Rightarrow> Some ERR_NOT_FOUND
      | Some d \<Rightarrow>
          (case usb_find_desc m (sod d) (eod d) USB_DT_DEVICE of
             None \<Rightarrow> None
           | Some p \<Rightarrow>
               if p = NULL then Some ERR_BAD_DATA
               else (case usb_find_desc m (sod d) (eod d) USB_DT_CONFIG of
                       None \<Rightarrow> None
                     | Some p \<Rightarrow>
                         if p = NULL then Some ERR_BAD_DATA
                         else if eod d < p + ucast (usb_cfg_desc_total_len m p) then Some ERR_BAD_DATA
                         else Some 0)))"

definition usbdc_check_desces :: "mem \<Rightarrow> usbd_descriptors option \<Rightarrow> rc option" where
  "usbdc_check_desces m desces = usbdc_validate_desces m desces"

definition usbdc_start :: "usbd_descriptors option \<Rightarrow> 'a usbdc_scheme \<Rightarrow> rc \<times> 'a usbdc_scheme" where
  "usbdc_start desces s =
     (if USBD_S_POWER \<le> dc_state s then (ERR_BUSY, s)
      else case desces of
             None \<Rightarrow> (ERR_BAD_DATA, s)
           | Some d \<Rightarrow>
               (let s = s\<lparr>ls_fs := Some d\<rparr>;
                    s = s\<lparr>ctrl_size := umem s (sod d + 7), dc_state := USBD_S_POWER\<rparr>
                in (ERR_NONE, snd (usb_d_enable s))))"

definition usbdc_stop :: "'a usbdc_scheme \<Rightarrow> rc \<times> 'a usbdc_scheme" where
  "usbdc_stop s = (ERR_NONE, (usb_d_disable s)\<lparr>dc_state := USBD_S_OFF\<rparr>)"

definition usbdc_attach :: "'a usbdc_scheme \<Rightarrow> 'a usbdc_scheme" where "usbdc_attach s = usb_d_attach s"
definition usbdc_detach :: "'a usbdc_scheme \<Rightarrow> 'a usbdc_scheme" where "usbdc_detach s = usb_d_detach s"

definition usbdc_remotewakeup :: "'a usbdc_scheme \<Rightarrow> 'a usbdc_scheme option" where
  "usbdc_remotewakeup s = map_option (\<lambda>s. s\<lparr>dc_state := USBD_S_POWER\<rparr>) (usb_d_send_remotewakeup s)"

definition usbdc_get_ctrl_buffer :: "'a usbdc_scheme \<Rightarrow> ptr" where "usbdc_get_ctrl_buffer s = ctrl_buf s"

definition usbdc_get_state :: "'a usbdc_scheme \<Rightarrow> u8" where
  "usbdc_get_state s = (if dc_state s AND USBD_S_SUSPEND \<noteq> 0 then USBD_S_SUSPEND else dc_state s)"

end
