(* ===== verification/CdcAcm.thy ===== *)
theory CdcAcm
  imports UsbDc
begin

text \<open>
  The CDC ACM function driver \<open>usb/class/cdc/device/cdcdf_acm.c\<close>: the serial port's
  interfaces and endpoints, its class requests, and the data transfers.

  \<open>_cdcdf_acm_funcd\<close> is the extension of the device core's state.  The line coding is sent
  from and stored in memory.  The two application callbacks are numbers, called through the
  record \<open>app\<close>.
\<close>

record cdcdf = usbdc +
  func_iface :: "nat \<Rightarrow> u8"
  func_ep_in :: "nat \<Rightarrow> u8"
  func_ep_out :: u8
  cdc_enabled :: bool
  notify_state :: "nat option"
  set_line_coding :: "nat option"

type_synonym 'a cdc_call = "'a cdcdf_ext dc_call"

record 'a cdc_app =
  app_coding :: "nat \<Rightarrow> u8 list \<Rightarrow> 'a cdcdf_scheme \<Rightarrow> (bool \<times> 'a cdcdf_scheme) option"
  app_state :: "nat \<Rightarrow> u16 \<Rightarrow> 'a cdcdf_scheme \<Rightarrow> 'a cdcdf_scheme option"

definition cdcdf_acm_drv :: ptr where "cdcdf_acm_drv = 0x20000E00"  \<comment> \<open>\<open>&_cdcdf_acm\<close>\<close>
definition cdcdf_acm_req_h :: ptr where "cdcdf_acm_req_h = 0x20000E10"
definition line_coding :: ptr where "line_coding = 0x20000E20"  \<comment> \<open>\<open>&usbd_cdc_line_coding\<close>, 7 bytes\<close>

abbreviation (input) CDC_CLASS_COMM :: u8 where "CDC_CLASS_COMM \<equiv> 2"
abbreviation (input) CDC_CLASS_DATA :: u8 where "CDC_CLASS_DATA \<equiv> 0x0A"

subsection \<open>Function control\<close>

partial_function (option) install_eps ::
    "nat \<Rightarrow> ptr \<Rightarrow> usbd_descriptors \<Rightarrow> 'a cdcdf_scheme \<Rightarrow> (rc \<times> usbd_descriptors \<times> 'a cdcdf_scheme) option" where
  "install_eps i ep d s =
     (if ep = NULL then Some (ERR_NONE, d, s)
      else
        (let addr = umem s (ep + 2) in
         case usb_d_ep_init addr (umem s (ep + 3)) (usb_get_u16 (umem s) (ep + 4)) s of
           (rc, s) \<Rightarrow>
             if rc \<noteq> 0 then Some (ERR_NOT_INITIALIZED, d, s)
             else
               (let s = (if addr AND 0x80 \<noteq> 0
                         then snd (usb_d_ep_enable addr (s\<lparr>func_ep_in := (func_ep_in s)(i := addr)\<rparr>))
                         else snd (usb_d_ep_enable addr (s\<lparr>func_ep_out := addr\<rparr>)));
                    d = d\<lparr>sod := ep\<rparr>
                in case usb_find_ep_desc (umem s) (usb_desc_next (umem s) ep) (eod d) of
                     None \<Rightarrow> None
                   | Some ep \<Rightarrow> install_eps i ep d s)))"

declare install_eps.simps [code]

fun enable_ifaces ::
    "nat list \<Rightarrow> ptr \<Rightarrow> usbd_descriptors \<Rightarrow> 'a cdcdf_scheme \<Rightarrow> (rc \<times> usbd_descriptors \<times> 'a cdcdf_scheme) option" where
  "enable_ifaces [] ifc d s = Some (ERR_NONE, d, s\<lparr>cdc_enabled := True\<rparr>)"
| "enable_ifaces (i # is) ifc d s =
     (if ifc = NULL then Some (ERR_NOT_FOUND, d, s)
      else
        (let n = umem s (ifc + 2); cls = umem s (ifc + 5) in
         if \<not> (cls = CDC_CLASS_COMM \<or> cls = CDC_CLASS_DATA) then Some (ERR_NOT_FOUND, d, s)
         else if func_iface s i = n then Some (ERR_ALREADY_INITIALIZED, d, s)
         else if func_iface s i \<noteq> 0xFF then Some (ERR_NO_RESOURCE, d, s)
         else
           (let s = s\<lparr>func_iface := (func_iface s)(i := n)\<rparr> in
            case usb_find_desc (umem s) ifc (eod d) USB_DT_ENDPOINT of
              None \<Rightarrow> None
            | Some ep \<Rightarrow>
                (case install_eps i ep d s of
                   None \<Rightarrow> None
                 | Some (rc, d, s) \<Rightarrow>
                     if rc \<noteq> ERR_NONE then Some (rc, d, s)
                     else case usb_find_desc (umem s) (usb_desc_next (umem s) (sod d)) (eod d) USB_DT_INTERFACE of
                            None \<Rightarrow> None
                          | Some ifc \<Rightarrow> enable_ifaces is ifc d s))))"

definition cdcdf_acm_enable ::
    "usbd_descriptors \<Rightarrow> 'a cdcdf_scheme \<Rightarrow> (rc \<times> usbd_descriptors \<times> 'a cdcdf_scheme) option" where
  "cdcdf_acm_enable d s = enable_ifaces [0, 1] (sod d) d s"

fun disable_ifaces :: "'a cdc_call \<Rightarrow> nat list \<Rightarrow> 'a cdcdf_scheme \<Rightarrow> 'a cdcdf_scheme option" where
  "disable_ifaces call [] s = Some s"
| "disable_ifaces call (i # is) s =
     (if func_iface s i = 0xFF then disable_ifaces call is s
      else
        (let s = s\<lparr>func_iface := (func_iface s)(i := 0xFF)\<rparr> in
         if func_ep_in s i \<noteq> 0xFF then
           (case usb_d_ep_deinit call (func_ep_in s i) s of
              None \<Rightarrow> None
            | Some s \<Rightarrow> disable_ifaces call is (s\<lparr>func_ep_in := (func_ep_in s)(i := 0xFF)\<rparr>))
         else disable_ifaces call is s))"

definition cdcdf_acm_disable ::
    "'a cdc_call \<Rightarrow> usbd_descriptors option \<Rightarrow> 'a cdcdf_scheme \<Rightarrow> (rc \<times> 'a cdcdf_scheme) option" where
  "cdcdf_acm_disable call desc s =
     (let alien = (case desc of None \<Rightarrow> False
                   | Some d \<Rightarrow> (let cls = umem s (sod d + 5) in cls \<noteq> CDC_CLASS_COMM \<and> cls \<noteq> CDC_CLASS_DATA))
      in if alien then Some (ERR_NOT_FOUND, s)
         else case disable_ifaces call [0, 1] s of
                None \<Rightarrow> None
              | Some s \<Rightarrow>
                  (case (if func_ep_out s \<noteq> 0xFF
                         then map_option (\<lambda>s. s\<lparr>func_ep_out := 0xFF\<rparr>) (usb_d_ep_deinit call (func_ep_out s) s)
                         else Some s) of
                     None \<Rightarrow> None
                   | Some s \<Rightarrow> Some (ERR_NONE, s\<lparr>cdc_enabled := False\<rparr>)))"

definition cdcdf_acm_ctrl ::
    "'a cdc_call \<Rightarrow> usbdf_control \<Rightarrow> 'a cdcdf_scheme \<Rightarrow> (rc \<times> usbdf_control \<times> 'a cdcdf_scheme) option" where
  "cdcdf_acm_ctrl call ctrl s =
     (case ctrl of
        USBDF_ENABLE d \<Rightarrow> map_option (\<lambda>(rc, d, s). (rc, USBDF_ENABLE d, s)) (cdcdf_acm_enable d s)
      | USBDF_DISABLE d \<Rightarrow> map_option (\<lambda>(rc, s). (rc, ctrl, s)) (cdcdf_acm_disable call d s)
      | USBDF_GET_IFACE _ \<Rightarrow> Some (ERR_UNSUPPORTED_OP, ctrl, s))"

subsection \<open>Class requests\<close>

definition cdcdf_acm_set_req ::
    "'a cdc_call \<Rightarrow> 'a cdc_app \<Rightarrow> u8 \<Rightarrow> ptr \<Rightarrow> usb_ctrl_stage \<Rightarrow> 'a cdcdf_scheme \<Rightarrow> (rc \<times> 'a cdcdf_scheme) option" where
  "cdcdf_acm_set_req call app ep req stage s =
     (let len = wLength (umem s) req; buf = usbdc_get_ctrl_buffer s; r = bRequest (umem s) req in
      if r = 0x20 then
        (if len \<noteq> 7 then Some (ERR_INVALID_DATA, s)
         else if stage = USB_SETUP_STAGE then usbdc_xfer call ep buf (ucast len) False s
         else
           (let tmp = bytes_at (umem s) buf 7 in
            case (case set_line_coding s of None \<Rightarrow> Some (True, s) | Some f \<Rightarrow> app_coding app f tmp s) of
              None \<Rightarrow> None
            | Some (ok, s) \<Rightarrow> Some (ERR_NONE, if ok then write_mem line_coding tmp s else s)))
      else if r = 0x22 then
        (case usbdc_xfer call 0 NULL 0 False s of
           None \<Rightarrow> None
         | Some (_, s) \<Rightarrow>
             (case notify_state s of
                None \<Rightarrow> Some (ERR_NONE, s)
              | Some f \<Rightarrow> map_option (Pair ERR_NONE) (app_state app f (wValue (umem s) req) s)))
      else Some (ERR_INVALID_ARG, s))"

definition cdcdf_acm_get_req ::
    "'a cdc_call \<Rightarrow> u8 \<Rightarrow> ptr \<Rightarrow> usb_ctrl_stage \<Rightarrow> 'a cdcdf_scheme \<Rightarrow> (rc \<times> 'a cdcdf_scheme) option" where
  "cdcdf_acm_get_req call ep req stage s =
     (let len = wLength (umem s) req in
      if stage = USB_DATA_STAGE then Some (ERR_NONE, s)
      else if bRequest (umem s) req = 0x21 then
        (if len \<noteq> 7 then Some (ERR_INVALID_DATA, s)
         else usbdc_xfer call ep line_coding (ucast len) False s)
      else Some (ERR_INVALID_ARG, s))"

definition cdcdf_acm_req ::
    "'a cdc_call \<Rightarrow> 'a cdc_app \<Rightarrow> u8 \<Rightarrow> ptr \<Rightarrow> usb_ctrl_stage \<Rightarrow> 'a cdcdf_scheme \<Rightarrow> (rc \<times> 'a cdcdf_scheme) option" where
  "cdcdf_acm_req call app ep req stage s =
     (if 1 \<noteq> drop_bit 5 (bmRequestType (umem s) req) AND 3 then Some (ERR_NOT_FOUND, s)
      else if wIndex (umem s) req = ucast (func_iface s 0) \<or> wIndex (umem s) req = ucast (func_iface s 1) then
        (if bmRequestType (umem s) req AND 0x80 \<noteq> 0 then cdcdf_acm_get_req call ep req stage s
         else cdcdf_acm_set_req call app ep req stage s)
      else Some (ERR_NOT_FOUND, s))"

subsection \<open>Interface to the application\<close>

definition cdcdf_acm_init :: "bool \<Rightarrow> 'a cdcdf_scheme \<Rightarrow> (rc \<times> 'a cdcdf_scheme) option" where
  "cdcdf_acm_init debug s =
     (if USBD_S_POWER < usbdc_get_state s then Some (ERR_DENIED, s)
      else
        (let s = s\<lparr>dc_cb := (dc_cb s)(cdcdf_acm_drv := Some Cdcdf_acm_ctrl)\<rparr> in
         case usbdc_register_function debug cdcdf_acm_drv s of
           None \<Rightarrow> None
         | Some s \<Rightarrow> map_option (Pair ERR_NONE) (usbdc_register_handler debug USBDC_HDL_REQ cdcdf_acm_req_h s)))"

definition cdcdf_acm_deinit :: "'a cdc_call \<Rightarrow> 'a cdcdf_scheme \<Rightarrow> 'a cdcdf_scheme option" where
  "cdcdf_acm_deinit call s =
     (case usb_d_ep_deinit call (func_ep_in s 0) s of
        None \<Rightarrow> None
      | Some s \<Rightarrow>
          (case usb_d_ep_deinit call (func_ep_in s 1) s of
             None \<Rightarrow> None
           | Some s \<Rightarrow> usb_d_ep_deinit call (func_ep_out s) s))"

definition cdcdf_acm_is_enabled :: "'a cdcdf_scheme \<Rightarrow> bool" where "cdcdf_acm_is_enabled s = cdc_enabled s"

definition cdcdf_acm_read :: "'a cdc_call \<Rightarrow> ptr \<Rightarrow> u32 \<Rightarrow> 'a cdcdf_scheme \<Rightarrow> (rc \<times> 'a cdcdf_scheme) option" where
  "cdcdf_acm_read call buf n s =
     (if \<not> cdcdf_acm_is_enabled s then Some (ERR_DENIED, s) else usbdc_xfer call (func_ep_out s) buf n False s)"

definition cdcdf_acm_write :: "'a cdc_call \<Rightarrow> ptr \<Rightarrow> u32 \<Rightarrow> 'a cdcdf_scheme \<Rightarrow> (rc \<times> 'a cdcdf_scheme) option" where
  "cdcdf_acm_write call buf n s =
     (if \<not> cdcdf_acm_is_enabled s then Some (ERR_DENIED, s) else usbdc_xfer call (func_ep_in s 1) buf n True s)"

definition cdcdf_acm_stop_xfer :: "'a cdc_call \<Rightarrow> 'a cdcdf_scheme \<Rightarrow> 'a cdcdf_scheme option" where
  "cdcdf_acm_stop_xfer call s =
     (case usb_d_ep_abort call (func_ep_in s 1) s of
        None \<Rightarrow> None
      | Some s \<Rightarrow> usb_d_ep_abort call (func_ep_out s) s)"

datatype cdcdf_acm_cb = CDCDF_ACM_CB_READ "usb_fn option" | CDCDF_ACM_CB_WRITE "usb_fn option"
  | CDCDF_ACM_CB_LINE_CODING_C "nat option" | CDCDF_ACM_CB_STATE_C "nat option"

definition cdcdf_acm_register_callback :: "cdcdf_acm_cb \<Rightarrow> 'a cdcdf_scheme \<Rightarrow> rc \<times> 'a cdcdf_scheme" where
  \<comment> \<open>the callback's type with the function, whose signature depends on it\<close>
  "cdcdf_acm_register_callback cb s =
     (ERR_NONE,
      case cb of
        CDCDF_ACM_CB_READ f \<Rightarrow> usb_d_ep_register_callback (func_ep_out s) USB_D_EP_CB_XFER f s
      | CDCDF_ACM_CB_WRITE f \<Rightarrow> usb_d_ep_register_callback (func_ep_in s 1) USB_D_EP_CB_XFER f s
      | CDCDF_ACM_CB_LINE_CODING_C f \<Rightarrow> s\<lparr>set_line_coding := f\<rparr>
      | CDCDF_ACM_CB_STATE_C f \<Rightarrow> s\<lparr>notify_state := f\<rparr>)"

definition cdcdf_acm_get_line_coding :: ptr where "cdcdf_acm_get_line_coding = line_coding"

end
