(* ===== verification/UsbTransfer.thy ===== *)
theory UsbTransfer
  imports HplUsb
begin

text \<open>
  What the host receives: the sequence of packets an IN transfer of \<open>hpl/usb/hpl_usb.c\<close>
  sends, through the endpoint's cache or from the caller's buffer.
\<close>

subsection \<open>Sent packets\<close>

definition bank_data :: "u8 \<Rightarrow> ('f, 'a) usb_hpl_scheme \<Rightarrow> u8 list" where
  \<comment> \<open>what the controller sends when the host asks for the armed IN packet\<close>
  "bank_data epn s = bytes_at (umem s) (bk_addr (bank s epn True)) (unat (bk_count (bank s epn True)))"

definition host_takes :: "u8 \<Rightarrow> ('f, 'a) usb_hpl_scheme \<Rightarrow> ('f, 'a) usb_hpl_scheme" where
  \<comment> \<open>the host has acknowledged it\<close>
  "host_takes epn = upd_epr epn (\<lambda>r. r\<lparr>epintflag := epintflag r OR TRCPT1, epstatus := epstatus r AND NOT 0x80\<rparr>)"

fun in_run ::
    "('f, 'a) usb_call \<Rightarrow> nat \<Rightarrow> nat \<Rightarrow> ('f, 'a) usb_hpl_scheme \<Rightarrow> (u8 list \<times> ('f, 'a) usb_hpl_scheme) option" where
  \<comment> \<open>\<open>k\<close> packets taken by the host, each followed by the driver's handler\<close>
  "in_run call i 0 s = Some ([], s)"
| "in_run call i (Suc k) s =
     (let epn = ep_get_n (ep_addr (ept s i)) in
      case in_next call i True (host_takes epn s) of
        None \<Rightarrow> None
      | Some s1 \<Rightarrow> map_option (\<lambda>(d, s2). (bank_data epn s @ d, s2)) (in_run call i k s1))"

definition in_chunk :: "usb_d_dev_ep \<Rightarrow> nat \<Rightarrow> nat" where
  "in_chunk e c = min (if use_cache e then unat (ep_size e) else 8192) (unat (trans_size e) - c)"

definition buffer_apart :: "usb_d_dev_ep \<Rightarrow> bool" where
  \<comment> \<open>the endpoint's cache does not overlap the transfer's buffer\<close>
  "buffer_apart e \<longleftrightarrow> (\<forall>k < unat (trans_size e). unat (ep_size e) \<le> unat (trans_buf e + of_nat k - ep_cache e))"

definition in_armed_at :: "usb_d_dev_ep \<Rightarrow> (ptr \<Rightarrow> u8) \<Rightarrow> nat \<Rightarrow> nat \<Rightarrow> ('f, 'a) usb_hpl_scheme \<Rightarrow> bool" where
  \<comment> \<open>\<open>c\<close> bytes of the buffer, whose contents are \<open>m\<close>, have been sent, and the next packet is armed\<close>
  "in_armed_at e m i c s \<longleftrightarrow>
     (let epn = ep_get_n (ep_addr e) in
      ept s i = e\<lparr>trans_count := of_nat c\<rparr> \<and> c < unat (trans_size e)
      \<and> unat (bk_count (bank s epn True)) = in_chunk e c
      \<and> bk_addr (bank s epn True) = (if use_cache e then ep_cache e else trans_buf e + of_nat c)
      \<and> bank_data epn s = bytes_at m (trans_buf e + of_nat c) (in_chunk e c)
      \<and> (\<forall>k < unat (trans_size e). umem s (trans_buf e + of_nat k) = m (trans_buf e + of_nat k)))"

definition still :: "('f, 'a) usb_hpl_scheme \<Rightarrow> ('f, 'a) usb_hpl_scheme" where
  "still s = s\<lparr>umem := (\<lambda>_. 0), epr := (\<lambda>_. zero_epr), bank := (\<lambda>_ _. zero_bank), ept := (\<lambda>_. undefined)\<rparr>"

definition only_transfers :: "('f, 'a) usb_hpl_scheme \<Rightarrow> ('f, 'a) usb_hpl_scheme \<Rightarrow> bool" where
  \<comment> \<open>the states agree but for memory, the endpoints' transfers, registers and bank descriptors\<close>
  "only_transfers s s' \<longleftrightarrow> still s' = still s"

lemma only_transfers_refl [simp]: "only_transfers s s"
  by (simp add: only_transfers_def)

lemma only_transfers_trans: "only_transfers s s' \<Longrightarrow> only_transfers s' s'' \<Longrightarrow> only_transfers s s''"
  by (simp add: only_transfers_def)

lemma only_transfers_cb: "only_transfers s s' \<Longrightarrow> cb_done s' = cb_done s"
  unfolding only_transfers_def by (drule arg_cong [of _ _ cb_done]) (simp add: still_def)

lemma only_transfers_upd [simp]:
  "only_transfers s (upd_ept i f s') = only_transfers s s'" "only_transfers s (upd_epr n g s') = only_transfers s s'"
  "only_transfers s (upd_bank n b h s') = only_transfers s s'" "only_transfers s (memcpy d a k s') = only_transfers s s'"
  by (simp_all add: only_transfers_def still_def upd_ept_def upd_epr_def upd_bank_def memcpy_def)

lemma in_arm_spec:
  assumes e: "ept s i = e\<lparr>trans_count := of_nat c\<rparr>" and epn: "epn = ep_get_n (ep_addr e)"
    and c: "c < unat (trans_size e)" and n: "unat (trans_size e) < 65536"
    and sz: "0 < ep_size e" "ep_size e < 1023" and apart: "use_cache e \<Longrightarrow> buffer_apart e"
    and mem: "\<forall>k < unat (trans_size e). umem s (trans_buf e + of_nat k) = m (trans_buf e + of_nat k)"
  shows "in_armed_at e m i c (in_arm i epn ctrl isr s) \<and> only_transfers s (in_arm i epn ctrl isr s)"
proof -
  let ?r = "ucast (trans_size e - of_nat c) :: u16"
  let ?n = "if use_cache e then (if ep_size e < ?r then ep_size e else ?r) else (if USB_D_DEV_TRANS_MAX < ?r then USB_D_DEV_TRANS_MAX else ?r)"
  have cc: "unat (of_nat c :: u32) = c" using c n by (simp add: unat_of_nat)
  have lt: "(of_nat c :: u32) < trans_size e" using c cc by (simp add: word_less_nat_alt)
  have r: "unat ?r = unat (trans_size e) - c"
  proof -
    have "unat (trans_size e - of_nat c) = unat (trans_size e) - c"
      using lt cc by (simp add: unat_sub less_imp_le)
    then show ?thesis using n by (simp add: unsigned_ucast_eq take_bit_nat_eq_self)
  qed
  have chunk: "unat ?n = in_chunk e c"
    using r by (auto simp: in_chunk_def word_less_nat_alt USB_D_DEV_TRANS_MAX_def)
  have n14: "take_bit 14 ?n = ?n"
  proof -
    have "in_chunk e c \<le> 8192" using sz by (auto simp: in_chunk_def word_less_nat_alt)
    then have "unat ?n < 2 ^ 14" unfolding chunk by simp
    then show ?thesis by (simp only: word_unat_eq_iff unsigned_take_bit_eq take_bit_nat_eq_self)
  qed
  let ?s' = "in_arm i epn ctrl isr s"
  have fr: "ept ?s' = ept s" "only_transfers s ?s'" "bk_count (bank ?s' epn True) = take_bit 14 ?n"
    using e by (auto simp: in_arm_def Let_def usb_helpers)
  have le: "in_chunk e c + c \<le> unat (trans_size e)" using c by (simp add: in_chunk_def)
  have addr: "trans_buf e + of_nat c + of_nat k = trans_buf e + of_nat (c + k)" for k by simp
  show ?thesis
  proof (cases "use_cache e")
    case True
    let ?n' = "if ep_size e < ?r then ep_size e else ?r"
    have n': "unat ?n' = in_chunk e c" using chunk True by simp
    have m2: "umem ?s' = umem (memcpy (ep_cache e) (trans_buf e + of_nat c) (unat ?n') s)"
      and a2: "bk_addr (bank ?s' epn True) = ep_cache e"
      using True e by (simp_all add: in_arm_def Let_def usb_helpers)
    have small: "in_chunk e c \<le> unat (ep_size e)" using True by (simp add: in_chunk_def)
    have "umem ?s' (ep_cache e + of_nat k) = m (trans_buf e + of_nat c + of_nat k)" if "k < in_chunk e c" for k
    proof -
      have "k < 4294967296" using that le n by simp
      then have "unat (of_nat k :: u32) = k" by (simp add: unat_of_nat)
      moreover have "umem s (trans_buf e + of_nat (c + k)) = m (trans_buf e + of_nat (c + k))"
        using mem that le by (simp del: of_nat_add)
      ultimately show ?thesis using that by (simp only: m2 umem_memcpy n' addr add_diff_cancel_left' if_True)
    qed
    then have "bank_data epn ?s' = bytes_at m (trans_buf e + of_nat c) (in_chunk e c)"
      using fr(3) n14 chunk by (simp add: bank_data_def a2 bytes_at_def)
    moreover have "\<forall>k < unat (trans_size e). umem ?s' (trans_buf e + of_nat k) = m (trans_buf e + of_nat k)"
      using apart [OF True] small mem unfolding m2 umem_memcpy n' buffer_apart_def by fastforce
    ultimately show ?thesis using fr e c n14 chunk epn True a2 by (simp add: in_armed_at_def)
  next
    case False
    have m2: "umem ?s' = umem s" and a2: "bk_addr (bank ?s' epn True) = trans_buf e + of_nat c"
      using False e by (simp_all add: in_arm_def Let_def usb_helpers)
    have "umem s (trans_buf e + of_nat c + of_nat k) = m (trans_buf e + of_nat c + of_nat k)" if "k < in_chunk e c" for k
      using mem that le by (simp only: addr)
    then have "bank_data epn ?s' = bytes_at m (trans_buf e + of_nat c) (in_chunk e c)"
      using fr(3) n14 chunk by (simp add: bank_data_def a2 m2 bytes_at_def)
    then show ?thesis using fr e c n14 chunk epn m2 mem False a2 by (simp add: in_armed_at_def)
  qed
qed

lemma in_complete_spec:
  assumes "last_pkt \<noteq> ep_size (ept s i)" and "ep_addr (ept s i) \<noteq> 0xFF" and "is_busy (ept s i)"
  shows "\<exists>s1. in_complete call i epn c last_pkt s
      = invoke_proc call (cb_done s) (Cb_done (ep_addr (ept s i)) USB_TRANS_DONE (trans_count (ept s i))) s1
    \<and> only_transfers s s1 \<and> ept s1 = (ept s)(i := (ept s i)\<lparr>is_busy := False\<rparr>)"
  using assms by (auto simp: in_complete_def Let_def trans_done_spec usb_helpers)

definition in_ended :: "('f, 'a) usb_call \<Rightarrow> usb_d_dev_ep \<Rightarrow> nat \<Rightarrow> ('f, 'a) usb_hpl_scheme \<Rightarrow> bool" where
  \<comment> \<open>when the host has taken the armed packet, the driver reports the whole transfer\<close>
  "in_ended call e i s \<longleftrightarrow>
     (\<exists>s'. in_next call i True (host_takes (ep_get_n (ep_addr e)) s)
        = invoke_proc call (cb_done s) (Cb_done (ep_addr e) USB_TRANS_DONE (trans_size e)) s'
      \<and> ept s' i = e\<lparr>trans_count := trans_size e, need_zlp := False, is_busy := False\<rparr> \<and> only_transfers s s')"

lemma in_next_unfold:
  assumes "ept s i = e\<lparr>trans_count := c, need_zlp := z\<rparr>" and "epn = ep_get_n (ep_addr e)"
  obtains s0 where "ept s0 i = e\<lparr>trans_count := c + ucast (bk_count (bank s epn True)), need_zlp := z\<rparr>"
    "umem s0 = umem s" "only_transfers s s0"
    "in_next call i True (host_takes epn s) =
      (if c + ucast (bk_count (bank s epn True)) < trans_size e then Some (in_arm i epn (eptype e = EPTYPE_CTRL) True s0)
       else if z then Some (in_tx_exec epn (eptype e = EPTYPE_CTRL) True
         (ep_set_in_trans epn True 0 0 (upd_ept i (\<lambda>e. e\<lparr>need_zlp := False\<rparr>) s0)))
       else in_complete call i epn (eptype e = EPTYPE_CTRL) (bk_count (bank s epn True) AND size_mask (ep_size e)) s0)"
proof
  let ?S = "upd_ept i (\<lambda>x. x\<lparr>trans_count := trans_count x + ucast (bk_count (bank s epn True))\<rparr>)
    (ep_ack_io_cpt epn True (host_takes epn s))"
  have h: "ept (host_takes epn s) = ept s" "bank (host_takes epn s) = bank s" by (simp_all add: host_takes_def)
  show S: "ept ?S i = e\<lparr>trans_count := c + ucast (bk_count (bank s epn True)), need_zlp := z\<rparr>"
    "umem ?S = umem s" "only_transfers s ?S"
    using assms by (simp_all add: usb_helpers host_takes_def)
  have e: "ep_get_n (ep_addr (ept s i)) = epn" "eptype (ept s i) = eptype e" "ep_size (ept s i) = ep_size e"
    using assms by simp_all
  show "in_next call i True (host_takes epn s) =
      (if c + ucast (bk_count (bank s epn True)) < trans_size e then Some (in_arm i epn (eptype e = EPTYPE_CTRL) True ?S)
       else if z then Some (in_tx_exec epn (eptype e = EPTYPE_CTRL) True
         (ep_set_in_trans epn True 0 0 (upd_ept i (\<lambda>e. e\<lparr>need_zlp := False\<rparr>) ?S)))
       else in_complete call i epn (eptype e = EPTYPE_CTRL) (bk_count (bank s epn True) AND size_mask (ep_size e)) ?S)"
    unfolding in_next_def Let_def h e if_True S(1) by simp
qed

lemma in_next_ends:
  assumes e: "ept s i = e\<lparr>trans_count := c, need_zlp := False\<rparr>"
    and c: "c + ucast (bk_count (bank s (ep_get_n (ep_addr e)) True)) = trans_size e"
    and sz: "0 < ep_size e" "ep_size e < 1023" and used: "ep_addr e \<noteq> 0xFF" "is_busy e"
  shows "in_ended call e i s"
proof -
  let ?epn = "ep_get_n (ep_addr e)"
  let ?last = "bk_count (bank s ?epn True) AND size_mask (ep_size e)"
  obtain s0 where s0: "ept s0 i = e\<lparr>trans_count := trans_size e, need_zlp := False\<rparr>" "only_transfers s s0"
      "in_next call i True (host_takes ?epn s) = in_complete call i ?epn (eptype e = EPTYPE_CTRL) ?last s0"
    using in_next_unfold [OF e refl, of call] unfolding c by auto
  have "?last < ep_size e" using sz by (intro size_mask_less) auto
  then have "?last \<noteq> ep_size (ept s0 i)" using s0(1) by simp
  from in_complete_spec [OF this, of call ?epn "eptype e = EPTYPE_CTRL"] used s0(1)
  obtain s1 where "in_complete call i ?epn (eptype e = EPTYPE_CTRL) ?last s0
      = invoke_proc call (cb_done s0) (Cb_done (ep_addr e) USB_TRANS_DONE (trans_size e)) s1"
    "only_transfers s0 s1" "ept s1 i = e\<lparr>trans_count := trans_size e, need_zlp := False, is_busy := False\<rparr>"
    by auto
  then show ?thesis
    using s0(2,3) only_transfers_trans only_transfers_cb unfolding in_ended_def by metis
qed

lemma in_next_step:
  assumes arm: "in_armed_at e m i c s" and ctrl: "n = in_chunk e c"
    and n: "unat (trans_size e) < 65536" and sz: "0 < ep_size e" "ep_size e < 1023"
    and apart: "use_cache e \<Longrightarrow> buffer_apart e" and used: "ep_addr e \<noteq> 0xFF" "is_busy e"
  shows "if c + n < unat (trans_size e)
    then \<exists>s'. in_next call i True (host_takes (ep_get_n (ep_addr e)) s) = Some s' \<and> in_armed_at e m i (c + n) s'
      \<and> only_transfers s s'
    else if need_zlp e
    then \<exists>s'. in_next call i True (host_takes (ep_get_n (ep_addr e)) s) = Some s' \<and> in_ended call e i s'
      \<and> bank_data (ep_get_n (ep_addr e)) s' = [] \<and> only_transfers s s'
    else in_ended call e i s"
proof -
  let ?epn = "ep_get_n (ep_addr e)"
  let ?tc = "bk_count (bank s ?epn True)"
  have arm': "ept s i = e\<lparr>trans_count := of_nat c\<rparr>" "c < unat (trans_size e)" "unat ?tc = in_chunk e c"
    "\<forall>k < unat (trans_size e). umem s (trans_buf e + of_nat k) = m (trans_buf e + of_nat k)"
    using arm by (auto simp: in_armed_at_def Let_def)
  have le: "in_chunk e c + c \<le> unat (trans_size e)" using arm'(2) by (simp add: in_chunk_def)
  have count: "(of_nat c :: u32) + ucast ?tc = of_nat (c + n)"
    using arm'(3) ctrl by (metis of_nat_add of_nat_unat)
  have e: "ept s i = e\<lparr>trans_count := of_nat c, need_zlp := need_zlp e\<rparr>" using arm'(1) by simp
  obtain s0 where s0: "ept s0 i = e\<lparr>trans_count := of_nat (c + n), need_zlp := need_zlp e\<rparr>" "umem s0 = umem s" "only_transfers s s0"
    and run: "in_next call i True (host_takes ?epn s) =
      (if of_nat (c + n) < trans_size e then Some (in_arm i ?epn (eptype e = EPTYPE_CTRL) True s0)
       else if need_zlp e then Some (in_tx_exec ?epn (eptype e = EPTYPE_CTRL) True
         (ep_set_in_trans ?epn True 0 0 (upd_ept i (\<lambda>e. e\<lparr>need_zlp := False\<rparr>) s0)))
       else in_complete call i ?epn (eptype e = EPTYPE_CTRL) (?tc AND size_mask (ep_size e)) s0)"
    by (rule in_next_unfold [OF e refl, of call, unfolded count])
  have cn: "unat (of_nat (c + n) :: u32) = c + n" using le ctrl n by (simp add: unat_of_nat del: of_nat_add)
  show ?thesis
  proof (cases "c + n < unat (trans_size e)")
    case True
    then have lt: "(of_nat (c + n) :: u32) < trans_size e" using cn by (simp only: word_less_nat_alt)
    have e0: "ept s0 i = e\<lparr>trans_count := of_nat (c + n)\<rparr>" using s0(1) by simp
    have "\<forall>k < unat (trans_size e). umem s0 (trans_buf e + of_nat k) = m (trans_buf e + of_nat k)"
      using arm'(4) s0(2) by simp
    from in_arm_spec [OF e0 refl True n sz apart this, of "eptype e = EPTYPE_CTRL" True]
    show ?thesis using True lt s0(3) only_transfers_trans by (simp only: run if_True) blast
  next
    case False
    then have "c + n = unat (trans_size e)" using le ctrl by simp
    then have w: "(of_nat (c + n) :: u32) = trans_size e" by simp
    show ?thesis
    proof (cases "need_zlp e")
      case True
      let ?z = "in_tx_exec ?epn (eptype e = EPTYPE_CTRL) True (ep_set_in_trans ?epn True 0 0 (upd_ept i (\<lambda>e. e\<lparr>need_zlp := False\<rparr>) s0))"
      have z: "ept ?z i = e\<lparr>trans_count := trans_size e, need_zlp := False\<rparr>" "bk_count (bank ?z ?epn True) = 0" "only_transfers s ?z"
        using s0(1,3) w by (simp_all add: usb_helpers)
      have "in_ended call e i ?z" using in_next_ends [OF z(1) _ sz used] z(2) by simp
      moreover have "bank_data ?epn ?z = []" using z(2) by (simp add: bank_data_def bytes_at_def)
      ultimately show ?thesis using True False z(3) by (simp only: run w if_True if_False) simp
    next
      case z: False
      then show ?thesis
        using False in_next_ends [of s i "of_nat c" e call] e count w sz used by (simp only: if_False) auto
    qed
  qed
qed

lemma in_run_all:
  assumes n: "unat (trans_size e) < 65536" and sz: "0 < ep_size e" "ep_size e < 1023"
    and apart: "use_cache e \<Longrightarrow> buffer_apart e" and used: "ep_addr e \<noteq> 0xFF" "is_busy e"
  shows "in_armed_at e m i c s \<Longrightarrow> \<exists>k d s1. in_run call i k s = Some (d, s1)
    \<and> d @ bank_data (ep_get_n (ep_addr e)) s1 = bytes_at m (trans_buf e + of_nat c) (unat (trans_size e) - c)
    \<and> (need_zlp e \<longrightarrow> bank_data (ep_get_n (ep_addr e)) s1 = []) \<and> in_ended call e i s1 \<and> only_transfers s s1"
proof (induction "unat (trans_size e) - c" arbitrary: c s rule: less_induct)
  case less
  let ?epn = "ep_get_n (ep_addr e)" and ?n = "in_chunk e c" and ?N = "unat (trans_size e)"
  have arm: "ept s i = e\<lparr>trans_count := of_nat c\<rparr>" "c < ?N" "bank_data ?epn s = bytes_at m (trans_buf e + of_nat c) ?n"
    using less.prems by (auto simp: in_armed_at_def Let_def)
  have pos: "0 < ?n" using arm(2) sz(1) by (auto simp: in_chunk_def word_gt_0 unat_gt_0)
  note step = in_next_step [OF less.prems refl n sz apart used, of call]
  show ?case
  proof (cases "c + ?n < ?N")
    case True
    then obtain s' where s': "in_next call i True (host_takes ?epn s) = Some s'" "in_armed_at e m i (c + ?n) s'"
        "only_transfers s s'"
      using step by auto
    have "?N - (c + ?n) < ?N - c" using arm(2) pos by simp
    from less.hyps [OF this s'(2)] obtain k d s1 where k: "in_run call i k s' = Some (d, s1)"
        "d @ bank_data ?epn s1 = bytes_at m (trans_buf e + of_nat (c + ?n)) (?N - (c + ?n))"
        "need_zlp e \<longrightarrow> bank_data ?epn s1 = []" "in_ended call e i s1" "only_transfers s' s1"
      by blast
    have run: "in_run call i (Suc k) s = Some (bank_data ?epn s @ d, s1)"
      using s'(1) k(1) arm(1) by simp
    have "bytes_at m (trans_buf e + of_nat c) ?n @ bytes_at m (trans_buf e + of_nat c + of_nat ?n) (?N - (c + ?n))
        = bytes_at m (trans_buf e + of_nat c) (?N - c)"
      using True by (simp add: bytes_at_append)
    then have "(bank_data ?epn s @ d) @ bank_data ?epn s1 = bytes_at m (trans_buf e + of_nat c) (?N - c)"
      using k(2) arm(3) by (simp add: add.assoc)
    with run k(3,4) only_transfers_trans [OF s'(3) k(5)] show ?thesis by blast
  next
    case False
    then have all: "?N - c = ?n" using arm(2) by (auto simp: in_chunk_def)
    show ?thesis
    proof (cases "need_zlp e")
      case True
      then obtain s' where "in_next call i True (host_takes ?epn s) = Some s'" "in_ended call e i s'"
          "bank_data ?epn s' = []" "only_transfers s s'"
        using step False by auto
      moreover from this have "in_run call i 1 s = Some (bank_data ?epn s, s')" using arm(1) by simp
      ultimately show ?thesis using all arm(3) by (metis append_Nil2)
    next
      case z: False
      then have "in_ended call e i s" using step False by auto
      then show ?thesis
        using all arm(3) z by (intro exI [of _ 0] exI [of _ "[]"] exI [of _ s]) simp
    qed
  qed
qed

definition started :: "usb_d_transfer \<Rightarrow> usb_d_dev_ep \<Rightarrow> usb_d_dev_ep" where
  \<comment> \<open>the endpoint once the driver has accepted an IN transfer\<close>
  "started x e = e\<lparr>is_busy := True, trans_buf := xf_buf x, trans_size := xf_size x, ep_dir := True,
     use_cache := \<not> in_ram (xf_buf x) (xf_size x) \<or> \<not> usb_is_aligned (xf_buf x),
     need_zlp := xf_zlp x \<and> xf_size x AND ucast (size_mask (ep_size e)) = 0, trans_count := 0\<rparr>"

definition in_free :: "u8 \<Rightarrow> usb_d_dev_ep \<Rightarrow> bool" where
  \<comment> \<open>the record of an IN endpoint that is open and has nothing to do\<close>
  "in_free ep e \<longleftrightarrow> ep_addr e = ep \<and> \<not> is_busy e \<and> \<not> is_stalled e \<and> 0 < ep_size e \<and> ep_size e < 1023 \<and> ep_cache e \<noteq> NULL"

lemma in_trans_armed:
  fixes s :: "('f, 'a) usb_hpl_scheme"
  assumes ep: "ep_get_n (xf_ep x) \<le> MAX_EP_N" "ep_get_dir (xf_ep x)" and i: "i = dev_ept (ep_get_n (xf_ep x)) True"
    and e: "in_free (xf_ep x) (ept s i)" and n: "0 < xf_size x" "xf_size x < 65536"
    and apart: "buffer_apart (started x (ept s i))"
  shows "\<exists>s0. usb_dev_ep_trans call x s = Some (ERR_NONE, s0) \<and> in_armed_at (started x (ept s i)) (umem s) i 0 s0
    \<and> only_transfers s s0"
proof -
  let ?e = "started x (ept s i)" and ?epn = "ep_get_n (xf_ep x)"
  let ?s = "upd_ept i (\<lambda>_. ?e) s"
  let ?armed = "in_arm i ?epn (eptype (ept s i) = EPTYPE_CTRL) False ?s"
  have f: "ep_addr ?e = xf_ep x" "trans_size ?e = xf_size x" "trans_count ?e = 0" "ep_size ?e = ep_size (ept s i)"
      "ep_addr (ept s i) = xf_ep x" "eptype ?e = eptype (ept s i)"
    using e by (simp_all add: started_def in_free_def)
  have pos: "0 < unat (trans_size ?e)" and n2: "unat (trans_size ?e) < 65536"
    using n by (simp_all add: f word_gt_0 unat_gt_0 word_less_nat_alt)
  have e0: "ept ?s i = ?e\<lparr>trans_count := of_nat 0\<rparr>" by (simp add: started_def)
  have "in_armed_at ?e (umem s) i 0 ?armed \<and> only_transfers ?s ?armed"
    by (rule in_arm_spec [OF e0 _ pos n2 _ _ apart]) (use e in \<open>simp_all add: f in_free_def\<close>)
  moreover have e1: "started x (ept s i)\<lparr>trans_count := 0\<rparr> = started x (ept s i)" by (simp add: started_def)
  have "in_next call i False ?s = Some ?armed"
    using n f by (simp add: in_next_def upd_ept_def e1)
  moreover have "usb_dev_ep_trans call x s = map_option (Pair ERR_NONE) (in_next call i False ?s)"
  proof -
    have c: "dev_ept ?epn True = i" "(MAX_EP_N < ?epn) = False" "ep_get_dir (xf_ep x) = True"
        "is_stalled (ept s i) = False" "is_busy (ept s i) = False" "(ep_cache (ept s i) = NULL) = False"
      using ep i e by (auto simp: in_free_def)
    show ?thesis
      unfolding usb_dev_ep_trans_def Let_def c simp_thms if_True if_False upd_ept_def
      by (simp add: started_def)
  qed
  ultimately show ?thesis using only_transfers_trans [of s ?s ?armed] by simp
qed

text \<open>
  An IN transfer accepted on an idle endpoint sends exactly the bytes of its buffer, in
  order: after some number of packets the host has taken, what it received followed by the
  armed packet is the buffer as it was when the transfer started, and the next completed
  packet reports the whole size to the layer above and frees the endpoint.  If an empty
  packet was asked for and the size is a multiple of the endpoint's, it is the last one.
\<close>

theorem in_transfer_sends_buffer:
  fixes s :: "('f, 'a) usb_hpl_scheme"
  assumes "ep_get_n (xf_ep x) \<le> MAX_EP_N" and "ep_get_dir (xf_ep x)" and "xf_ep x \<noteq> 0xFF"
    and "i = dev_ept (ep_get_n (xf_ep x)) True" and "in_free (xf_ep x) (ept s i)"
    and "0 < xf_size x" and "xf_size x < 65536" and "buffer_apart (started x (ept s i))"
  shows "\<exists>s0 k d s1 s2. usb_dev_ep_trans call x s = Some (ERR_NONE, s0) \<and> in_run call i k s0 = Some (d, s1)
    \<and> d @ bank_data (ep_get_n (xf_ep x)) s1 = bytes_at (umem s) (xf_buf x) (unat (xf_size x))
    \<and> (xf_zlp x \<and> xf_size x AND ucast (size_mask (ep_size (ept s i))) = 0 \<longrightarrow> bank_data (ep_get_n (xf_ep x)) s1 = [])
    \<and> in_next call i True (host_takes (ep_get_n (xf_ep x)) s1)
        = invoke_proc call (cb_done s) (Cb_done (xf_ep x) USB_TRANS_DONE (xf_size x)) s2
    \<and> in_free (xf_ep x) (ept s2 i) \<and> only_transfers s s2"
proof -
  let ?e = "started x (ept s i)"
  have f: "ep_addr ?e = xf_ep x" "trans_size ?e = xf_size x" "trans_buf ?e = xf_buf x" "is_busy ?e"
      "need_zlp ?e = (xf_zlp x \<and> xf_size x AND ucast (size_mask (ep_size (ept s i))) = 0)" "ep_size ?e = ep_size (ept s i)"
    using assms(5) by (simp_all add: started_def in_free_def)
  obtain s0 where s0: "usb_dev_ep_trans call x s = Some (ERR_NONE, s0)" "in_armed_at ?e (umem s) i 0 s0" "only_transfers s s0"
    using in_trans_armed [OF assms(1,2,4-8)] by blast
  have p: "unat (trans_size ?e) < 65536" "0 < ep_size ?e" "ep_size ?e < 1023" "ep_addr ?e \<noteq> 0xFF"
    using assms(3,5,7) by (simp_all add: f in_free_def word_less_nat_alt)
  obtain k d s1 where k: "in_run call i k s0 = Some (d, s1)"
      "d @ bank_data (ep_get_n (xf_ep x)) s1 = bytes_at (umem s) (xf_buf x) (unat (xf_size x))"
      "need_zlp ?e \<longrightarrow> bank_data (ep_get_n (xf_ep x)) s1 = []" "in_ended call ?e i s1" "only_transfers s0 s1"
    using in_run_all [OF p(1-3) assms(8) p(4) f(4) s0(2), of call] by (auto simp: f)
  then obtain s2 where s2: "in_next call i True (host_takes (ep_get_n (xf_ep x)) s1)
        = invoke_proc call (cb_done s1) (Cb_done (xf_ep x) USB_TRANS_DONE (xf_size x)) s2"
      "ept s2 i = ?e\<lparr>trans_count := trans_size ?e, need_zlp := False, is_busy := False\<rparr>" "only_transfers s1 s2"
    unfolding in_ended_def f by blast
  have "in_free (xf_ep x) (ept s2 i)" using assms(5) s2(2) by (simp add: in_free_def started_def)
  moreover have t: "only_transfers s s1" using s0(3) k(5) only_transfers_trans by blast
  ultimately show ?thesis
    using s0(1) k(1-3) s2(1) only_transfers_cb [OF t] only_transfers_trans [OF t s2(3)] unfolding f(5)
    by (intro exI [of _ s0] exI [of _ k] exI [of _ d] exI [of _ s1] exI [of _ s2]) simp
qed

lemma in_transfer_sends_buffer_witness:
  "\<exists>s0 k d s1. usb_dev_ep_trans (\<lambda>_ _ _. None) \<lparr>xf_buf = 0x20000A00, xf_size = 128, xf_ep = 0x81, xf_zlp = True\<rparr> sample_hpl
      = Some (ERR_NONE, s0)
    \<and> in_run (\<lambda>_ _ _. None) 3 k s0 = Some (d, s1) \<and> d = bytes_at (umem sample_hpl) 0x20000A00 128 \<and> bank_data 1 s1 = []"
proof -
  let ?e = "sample_ept 3" and ?x = "\<lparr>xf_buf = 0x20000A00, xf_size = 128, xf_ep = 0x81, xf_zlp = True\<rparr>"
  have e: "ept sample_hpl 3 = ?e" "in_free 0x81 ?e" "ep_size ?e = 64"
    by (simp_all add: sample_hpl_def sample_ept_def in_free_def)
  have a: "ep_get_n 0x81 = 1" "ep_get_n 0x81 \<le> MAX_EP_N" "ep_get_dir 0x81" "3 = dev_ept (ep_get_n 0x81) True"
    by (simp_all add: ep_get_n_def ep_get_dir_def dev_ept_def MAX_EP_N_def)
  have "unat (ep_size ?e) \<le> unat (0x20000A00 + of_nat k - ep_cache ?e)" if "k < 128" for k
  proof -
    have "0x20000A00 + of_nat k - ep_cache ?e = of_nat (k + 0x140)" by (simp add: sample_ept_def)
    moreover have "unat (of_nat (k + 0x140) :: u32) = k + 0x140"
      using that by (simp add: unat_of_nat del: of_nat_add)
    ultimately show ?thesis by (simp add: sample_ept_def del: of_nat_add)
  qed
  then have far: "buffer_apart (started ?x ?e)" by (simp add: buffer_apart_def started_def)
  have z: "(128 :: u32) AND ucast (size_mask 64) = 0" by (simp add: size_mask_def)
  obtain s0 k d s1 where r: "usb_dev_ep_trans (\<lambda>_ _ _. None) ?x sample_hpl = Some (ERR_NONE, s0)"
      "in_run (\<lambda>_ _ _. None) 3 k s0 = Some (d, s1)"
      "d @ bank_data 1 s1 = bytes_at (umem sample_hpl) 0x20000A00 (unat (128 :: u32))" "bank_data 1 s1 = []"
    using in_transfer_sends_buffer [of ?x 3 sample_hpl "\<lambda>_ _ _. None", unfolded e(1)] e(2,3) a far z by auto
  then show ?thesis by auto
qed

end
