(* ===== verification/UsbStack.thy ===== *)
theory UsbStack
  imports CdcAcm UsbTransfer
begin

text \<open>
  The USB stack of the firmware put together, and its start-up \<open>usb_start.c\<close>.

  \<open>usb_call\<close> is the call through a function pointer: it runs the function of the layer
  that installed the pointer, which may call on through further pointers.  Its argument
  bounds the depth of such calls.  Handlers registered by nobody in this program are the
  parameter \<open>user\<close>, the two application callbacks of the serial port the parameter \<open>app\<close>.

  \<open>single_desc_bytes\<close> is written out as the macros of \<open>usb_protocol.h\<close>,
  \<open>usb_protocol_cdc.h\<close> and \<open>cdcdf_acm_desc.h\<close> expand with \<open>usbd_config.h\<close>.
\<close>

subsection \<open>Descriptors\<close>

definition le16 :: "u16 \<Rightarrow> u8 list" where
  \<comment> \<open>\<open>LE_BYTE0, LE_BYTE1\<close>\<close>
  "le16 w = [ucast w, ucast (drop_bit 8 w)]"

definition usb_dev_desc_bytes ::
    "u16 \<Rightarrow> u8 \<Rightarrow> u8 \<Rightarrow> u8 \<Rightarrow> u8 \<Rightarrow> u16 \<Rightarrow> u16 \<Rightarrow> u16 \<Rightarrow> u8 \<Rightarrow> u8 \<Rightarrow> u8 \<Rightarrow> u8 \<Rightarrow> u8 list" where
  "usb_dev_desc_bytes bcd cls sub proto maxp vid pid bcddev iman iprod iser ncfg =
     [18, 1] @ le16 bcd @ [cls, sub, proto, maxp] @ le16 vid @ le16 pid @ le16 bcddev @ [iman, iprod, iser, ncfg]"

definition usb_config_desc_bytes :: "u16 \<Rightarrow> u8 \<Rightarrow> u8 \<Rightarrow> u8 \<Rightarrow> u8 \<Rightarrow> u8 \<Rightarrow> u8 list" where
  "usb_config_desc_bytes tot nif cfgval icfg attr maxpower = [9, 2] @ le16 tot @ [nif, cfgval, icfg, attr, maxpower]"

definition usb_iface_desc_bytes :: "u8 \<Rightarrow> u8 \<Rightarrow> u8 \<Rightarrow> u8 \<Rightarrow> u8 \<Rightarrow> u8 \<Rightarrow> u8 \<Rightarrow> u8 list" where
  "usb_iface_desc_bytes num alt neps cls sub proto istr = [9, 4, num, alt, neps, cls, sub, proto, istr]"

definition usb_endp_desc_bytes :: "u8 \<Rightarrow> u8 \<Rightarrow> u16 \<Rightarrow> u8 \<Rightarrow> u8 list" where
  "usb_endp_desc_bytes addr attr maxp interval = [7, 5, addr, attr] @ le16 maxp @ [interval]"

definition usb_cdc_hdr_desc_bytes :: "u16 \<Rightarrow> u8 list" where "usb_cdc_hdr_desc_bytes bcd = [5, 0x24, 0] @ le16 bcd"
definition usb_cdc_call_mgmt_desc_bytes :: "u8 \<Rightarrow> u8 \<Rightarrow> u8 list" where
  "usb_cdc_call_mgmt_desc_bytes cap ifc = [5, 0x24, 1, cap, ifc]"
definition usb_cdc_acm_desc_bytes :: "u8 \<Rightarrow> u8 list" where "usb_cdc_acm_desc_bytes cap = [4, 0x24, 2, cap]"
definition usb_cdc_union_desc_bytes :: "u8 \<Rightarrow> u8 \<Rightarrow> u8 list" where "usb_cdc_union_desc_bytes m s = [5, 0x24, 6, m, s]"

definition cdcd_acm_dev_desc :: "u8 list" where
  "cdcd_acm_dev_desc = usb_dev_desc_bytes 0x200 2 0 0 0x40 0x3EB 0x2404 0x100 0 0 0 1"

definition cdcd_acm_cfg_desc :: "u8 list" where "cdcd_acm_cfg_desc = usb_config_desc_bytes 67 2 1 0 0x80 0x32"

definition cdcd_acm_comm_iface_desces :: "u8 list list" where
  "cdcd_acm_comm_iface_desces =
     [usb_iface_desc_bytes 0 0 1 2 2 0 0, usb_cdc_hdr_desc_bytes 0x1001, usb_cdc_call_mgmt_desc_bytes 1 0,
      usb_cdc_acm_desc_bytes 2, usb_cdc_union_desc_bytes 0 1, usb_endp_desc_bytes 0x82 3 0x40 10]"

definition cdcd_acm_data_iface_desces :: "u8 list list" where
  "cdcd_acm_data_iface_desces =
     [usb_iface_desc_bytes 1 0 2 0x0A 0 0 0, usb_endp_desc_bytes 1 2 0x40 0, usb_endp_desc_bytes 0x81 2 0x40 0]"

definition cdcd_acm_desces_ls_fs :: "u8 list list" where
  "cdcd_acm_desces_ls_fs = [cdcd_acm_dev_desc, cdcd_acm_cfg_desc] @ cdcd_acm_comm_iface_desces @ cdcd_acm_data_iface_desces"

definition single_desc_bytes :: ptr where "single_desc_bytes = 0x20000E40"  \<comment> \<open>placed by the linker\<close>

definition single_desc :: usbd_descriptors where
  "single_desc = \<lparr>sod = single_desc_bytes, eod = single_desc_bytes + of_nat (length (concat cdcd_acm_desces_ls_fs))\<rparr>"

subsection \<open>Application callbacks and calls through pointers\<close>

definition usbd_cdc_buffer :: ptr where "usbd_cdc_buffer = 0x20000F00"
definition ctrl_buffer :: ptr where "ctrl_buffer = 0x20000F40"
definition CDCD_ECHO_BUF_SIZ :: u32 where "CDCD_ECHO_BUF_SIZ = 0x40"

definition usb_device_cb_bulk_out ::
    "'a cdc_call \<Rightarrow> u8 \<Rightarrow> usb_xfer_code \<Rightarrow> u32 \<Rightarrow> 'a cdcdf_scheme \<Rightarrow> (bool \<times> 'a cdcdf_scheme) option" where
  "usb_device_cb_bulk_out call ep rc count s =
     map_option (\<lambda>(_, s). (False, s)) (cdcdf_acm_write call usbd_cdc_buffer count s)"

definition usb_device_cb_bulk_in ::
    "'a cdc_call \<Rightarrow> u8 \<Rightarrow> usb_xfer_code \<Rightarrow> u32 \<Rightarrow> 'a cdcdf_scheme \<Rightarrow> (bool \<times> 'a cdcdf_scheme) option" where
  "usb_device_cb_bulk_in call ep rc count s =
     map_option (\<lambda>(_, s). (False, s)) (cdcdf_acm_read call usbd_cdc_buffer CDCD_ECHO_BUF_SIZ s)"

definition stack_fns :: "'a cdcdf_ext dc_fns \<Rightarrow> 'a cdc_app \<Rightarrow> 'a cdc_call \<Rightarrow> 'a cdcdf_ext dc_fns" where
  \<comment> \<open>the functions in the nodes of the device core's lists\<close>
  "stack_fns user app call =
     \<lparr>fn_sof = fn_sof user, fn_change = fn_change user,
       fn_req = (\<lambda>f. if f = Cdcdf_acm_req then cdcdf_acm_req call app else fn_req user f),
       fn_ctrl = (\<lambda>f. if f = Cdcdf_acm_ctrl then cdcdf_acm_ctrl call else fn_ctrl user f)\<rparr>"

fun usb_call :: "'a cdcdf_ext dc_fns \<Rightarrow> 'a cdc_app \<Rightarrow> nat \<Rightarrow> 'a cdc_call" where
  "usb_call user app 0 f arg s = None"
| "usb_call user app (Suc n) f arg s =
     (let call = usb_call user app n; fns = stack_fns user app call; proc = map_option (Pair False) in
      case f of
        Usb_d_cb_trans_setup \<Rightarrow> (case arg of Cb_setup ep \<Rightarrow> proc (usb_d_cb_trans_setup call ep s) | _ \<Rightarrow> None)
      | Usb_d_cb_trans_more \<Rightarrow> (case arg of Cb_more ep k \<Rightarrow> usb_d_cb_trans_more call ep k s | _ \<Rightarrow> None)
      | Usb_d_cb_trans_done \<Rightarrow> (case arg of Cb_done ep code k \<Rightarrow> proc (usb_d_cb_trans_done call ep code k s) | _ \<Rightarrow> None)
      | Usbd_sof_cb \<Rightarrow> (case arg of Cb_sof \<Rightarrow> proc (usbd_sof_cb fns s) | _ \<Rightarrow> None)
      | Usbd_event_cb \<Rightarrow> (case arg of Cb_event ev p \<Rightarrow> proc (usbd_event_cb call fns ev p s) | _ \<Rightarrow> None)
      | Usbdc_cb_ctl_req \<Rightarrow> (case arg of Cb_req ep req \<Rightarrow> usbdc_cb_ctl_req call fns ep req s | _ \<Rightarrow> None)
      | Usbdc_cb_ctl_done \<Rightarrow> (case arg of Cb_xfer ep code p \<Rightarrow> usbdc_cb_ctl_done fns ep code p s | _ \<Rightarrow> None)
      | Usb_device_cb_bulk_out \<Rightarrow> (case arg of Cb_xfer ep code p \<Rightarrow> usb_device_cb_bulk_out call ep code p s | _ \<Rightarrow> None)
      | Usb_device_cb_bulk_in \<Rightarrow> (case arg of Cb_xfer ep code p \<Rightarrow> usb_device_cb_bulk_in call ep code p s | _ \<Rightarrow> None))"

subsection \<open>Start-up\<close>

definition cdc_device_acm_init :: "bool \<Rightarrow> 'a cdc_call \<Rightarrow> 'a cdcdf_scheme \<Rightarrow> (rc \<times> 'a cdcdf_scheme) option" where
  "cdc_device_acm_init debug call s =
     (case usbdc_init debug call ctrl_buffer s of
        None \<Rightarrow> None
      | Some (rv, s) \<Rightarrow>
          if rv \<noteq> 0 then Some (rv, s)
          else
            (case cdcdf_acm_init debug s of
               None \<Rightarrow> None
             | Some (rv, s) \<Rightarrow>
                 if rv \<noteq> ERR_NONE then Some (rv, s)
                 else
                   (case usbdc_start (Some single_desc) s of
                      (rv, s) \<Rightarrow> if rv \<noteq> ERR_NONE then Some (rv, s) else Some (0, usbdc_attach s))))"

definition usb_init :: "bool \<Rightarrow> 'a cdc_call \<Rightarrow> 'a cdcdf_scheme \<Rightarrow> (rc \<times> 'a cdcdf_scheme) option" where
  "usb_init debug call s = cdc_device_acm_init debug call s"

definition cdcd_acm_example :: "'a cdc_call \<Rightarrow> 'a cdcdf_scheme \<Rightarrow> 'a cdcdf_scheme option" where
  \<comment> \<open>the state in which its last loop spins; \<open>None\<close> while the function is not enabled\<close>
  "cdcd_acm_example call s =
     (if \<not> cdcdf_acm_is_enabled s then None
      else
        (let s = snd (cdcdf_acm_register_callback (CDCDF_ACM_CB_READ (Some Usb_device_cb_bulk_out)) s);
             s = snd (cdcdf_acm_register_callback (CDCDF_ACM_CB_WRITE (Some Usb_device_cb_bulk_in)) s)
         in map_option snd (cdcdf_acm_read call usbd_cdc_buffer CDCD_ECHO_BUF_SIZ s)))"

end
