(* ===== verification/UsbControl.thy ===== *)
theory UsbControl
  imports UsbStack
begin

text \<open>
  Control transfers through all layers: the interrupt handler of the controller driver, the
  HAL's endpoint states, the device core and the serial port's class requests.
\<close>

subsection \<open>What the controller driver leaves alone\<close>

lemma dc_frame [simp]:
  fixes s :: "'a cdcdf_scheme"
  shows "hal_ep (upd_ept i f s) = hal_ep s" "hal_ep (upd_epr n g s) = hal_ep s" "hal_ep (upd_bank n b h s) = hal_ep s"
    "hal_ep (memcpy d a k s) = hal_ep s"
  by (simp_all add: upd_ept_def upd_epr_def upd_bank_def memcpy_def)

definition dc_view :: "'a cdcdf_scheme \<Rightarrow> _" where
  \<comment> \<open>everything above the HAL, and the device's address\<close>
  "dc_view s = ((dev_dadd s, ls_fs s, dc_links s, dc_cb s, sof_list s, req_list s, change_list s, func_list s),
     (ctrl_buf s, dc_state s, cfg_value s, ctrl_size s, ifc_alt_map s),
     (func_iface s, func_ep_in s, func_ep_out s, cdc_enabled s, notify_state s, set_line_coding s))"

lemma dc_view_frame [simp]:
  fixes s :: "'a cdcdf_scheme"
  shows "dc_view (upd_ept i f s) = dc_view s" "dc_view (upd_epr n g s) = dc_view s" "dc_view (upd_bank n b h s) = dc_view s"
    "dc_view (memcpy d a k s) = dc_view s" "dc_view (upd_hal j e s) = dc_view s"
  by (simp_all add: dc_view_def upd_ept_def upd_epr_def upd_bank_def memcpy_def upd_hal_def)

lemma upd_hal_simps [simp]:
  "hal_ep (upd_hal j e s) = (hal_ep s)(j := e (hal_ep s j))" "umem (upd_hal j e s) = umem s" "ept (upd_hal j e s) = ept s"
  "epr (upd_hal j e s) = epr s" "bank (upd_hal j e s) = bank s" "cb_setup (upd_hal j e s) = cb_setup s"
  "cb_done (upd_hal j e s) = cb_done s" "cb_more (upd_hal j e s) = cb_more s"
  by (simp_all add: upd_hal_def)

lemma upd_hal_upd_hal [simp]: "upd_hal j f (upd_hal j g s) = upd_hal j (\<lambda>e. f (g e)) s"
  by (simp add: upd_hal_def)

subsection \<open>Endpoint 0\<close>

definition ep0_ok :: "'a cdcdf_scheme \<Rightarrow> bool" where
  \<comment> \<open>endpoint 0 is initialised and enabled, with the callbacks of the layers above\<close>
  "ep0_ok s \<longleftrightarrow>
     ep_addr (ept s 0) = 0 \<and> eptype (ept s 0) = EPTYPE_CTRL \<and> ep_size (ept s 0) = 64 \<and> ep_cache (ept s 0) = 0x20000800
     \<and> xep (hal_ep s 0) = 0 \<and> xtype (hal_ep s 0) = XTYPE_CTRL \<and> req_cb (hal_ep s 0) = Some Usbdc_cb_ctl_req
     \<and> xfer_cb (hal_ep s 0) = Some Usbdc_cb_ctl_done \<and> epcfg (epr s 0) = USB_D_EPCFG_CTRL
     \<and> cb_setup s = Some Usb_d_cb_trans_setup \<and> cb_done s = Some Usb_d_cb_trans_done"

lemma find_ep_0 [simp]: "xep (hal_ep s 0) = 0 \<Longrightarrow> usb_d_find_ep 0 s = 0"
  by (simp add: usb_d_find_ep_def CONF_USB_D_NUM_EP_SP_def upt_rec)

lemma req_addr: "xfer_req 0 = 0x20000C0C"
  by (simp add: xfer_req_def)

definition ep_cfg :: "usb_d_dev_ep \<Rightarrow> u8 \<times> u8 \<times> u16 \<times> ptr" where
  "ep_cfg e = (ep_addr e, eptype e, ep_size e, ep_cache e)"

definition undisturbed :: "'a cdcdf_scheme \<Rightarrow> 'a cdcdf_scheme \<Rightarrow> bool" where
  \<comment> \<open>only registers, descriptors and transfers of the controller driver differ\<close>
  "undisturbed s s' \<longleftrightarrow>
     umem s' = umem s \<and> hal_ep s' = hal_ep s \<and> dc_view s' = dc_view s
     \<and> cb_setup s' = cb_setup s \<and> cb_done s' = cb_done s \<and> cb_more s' = cb_more s
     \<and> (\<forall>n. epcfg (epr s' n) = epcfg (epr s n)) \<and> (\<forall>i. ep_cfg (ept s' i) = ep_cfg (ept s i))"

lemma undisturbed_refl [simp]: "undisturbed s s"
  by (simp add: undisturbed_def)

lemma undisturbed_trans: "undisturbed s s' \<Longrightarrow> undisturbed s' s'' \<Longrightarrow> undisturbed s s''"
  by (simp add: undisturbed_def)

lemma undisturbed_upd [simp]:
  fixes s s' :: "'a cdcdf_scheme"
  shows "(\<And>r. epcfg (g r) = epcfg r) \<Longrightarrow> undisturbed s (upd_epr n g s') = undisturbed s s'"
    "(\<And>e. ep_cfg (f e) = ep_cfg e) \<Longrightarrow> undisturbed s (upd_ept i f s') = undisturbed s s'"
    "undisturbed s (upd_bank n b h s') = undisturbed s s'"
  by (auto simp: undisturbed_def)

lemma ep0_ok_undisturbed: "undisturbed s s' \<Longrightarrow> ep0_ok s' = ep0_ok s"
  by (auto simp: undisturbed_def ep0_ok_def ep_cfg_def)

lemma undisturbed_setup_clear [simp]: "undisturbed s (setup_clear i s')  = undisturbed s s'"
  by (simp add: setup_clear_def Let_def usb_helpers ep_cfg_def)

lemma setup_clear_simps [simp]:
  "\<not> is_busy (ept (setup_clear i s) i)" "\<not> is_stalled (ept (setup_clear i s) i)"
  "bk_addr (bank (setup_clear i s) n b) = bk_addr (bank s n b)"
  "bk_count (bank (setup_clear i s) n b) = bk_count (bank s n b)"
  "epintflag (epr (setup_clear i s) n) AND RXSTP = epintflag (epr s n) AND RXSTP"
  by (simp_all add: setup_clear_def Let_def usb_helpers and.assoc)

lemma undisturbed_stall [simp]: "undisturbed s (snd (usb_dev_ep_stall ep c s')) = undisturbed s s'"
  by (cases c) (simp_all add: usb_dev_ep_stall_def Let_def ep_stall_set_def ep_stall_clr_def usb_helpers ep_cfg_def)

lemma undisturbed_stall_both [simp]: "undisturbed s (stall_both ep c s') = undisturbed s s'"
  by (simp add: stall_both_def)

lemma undisturbedD:
  "undisturbed s s' \<Longrightarrow> umem s' = umem s" "undisturbed s s' \<Longrightarrow> hal_ep s' = hal_ep s"
  "undisturbed s s' \<Longrightarrow> dc_view s' = dc_view s"
  by (simp_all add: undisturbed_def)

lemmas stall_frame [simp] = undisturbedD [OF undisturbed_stall [THEN iffD2, OF undisturbed_refl]]
  undisturbedD [OF undisturbed_stall_both [THEN iffD2, OF undisturbed_refl]]
  undisturbedD [OF undisturbed_setup_clear [THEN iffD2, OF undisturbed_refl]]

lemma stall_clr_keeps:
  "is_busy (ept (snd (usb_dev_ep_stall ep USB_EP_STALL_CLR s)) j) = is_busy (ept s j)"
  "\<not> is_stalled (ept s j) \<Longrightarrow> \<not> is_stalled (ept (snd (usb_dev_ep_stall ep USB_EP_STALL_CLR s)) j)"
  by (auto simp: usb_dev_ep_stall_def Let_def ep_stall_clr_def usb_helpers)

subsection \<open>Calls through the function pointers\<close>

lemma invoke_stack [simp]:
  "invoke (usb_call user app (Suc n)) (Some Usb_d_cb_trans_setup) (Cb_setup ep) s
     = map_option (Pair False) (usb_d_cb_trans_setup (usb_call user app n) ep s)"
  "invoke (usb_call user app (Suc n)) (Some Usb_d_cb_trans_done) (Cb_done ep code k) s
     = map_option (Pair False) (usb_d_cb_trans_done (usb_call user app n) ep code k s)"
  "invoke (usb_call user app (Suc n)) (Some Usbd_event_cb) (Cb_event ev p) s
     = map_option (Pair False) (usbd_event_cb (usb_call user app n) (stack_fns user app (usb_call user app n)) ev p s)"
  "invoke (usb_call user app (Suc n)) (Some Usbdc_cb_ctl_req) (Cb_req ep req) s
     = usbdc_cb_ctl_req (usb_call user app n) (stack_fns user app (usb_call user app n)) ep req s"
  "invoke (usb_call user app (Suc n)) (Some Usbdc_cb_ctl_done) (Cb_xfer ep xc p) s
     = usbdc_cb_ctl_done (stack_fns user app (usb_call user app n)) ep xc p s"
  by (simp_all add: invoke_def Let_def)

declare usb_call.simps [simp del]

lemma invoke_None [simp]: "invoke call None arg s = Some (False, s)"
  by (simp add: invoke_def)

subsection \<open>The setup stage\<close>

definition setup_read :: "'a cdcdf_scheme \<Rightarrow> 'a cdcdf_scheme" where
  \<comment> \<open>the state in which the device core gets the request\<close>
  "setup_read s =
     upd_hal 0 (\<lambda>e. e\<lparr>xstate := USB_EP_S_IDLE\<rparr>)
       (stall_both 0 USB_EP_STALL_CLR
         (ep_ack_setup 0 (memcpy (xfer_req 0) (bk_addr (bank s 0 False)) 8 (setup_clear 0 s))))"

definition setup_pending :: "'a cdcdf_scheme \<Rightarrow> bool" where
  "setup_pending s \<longleftrightarrow> epintflag (epr s 0) AND RXSTP \<noteq> 0 \<and> bk_count (bank s 0 False) = 8"

lemma setup_stage:
  fixes s :: "'a cdcdf_scheme"
  assumes ok: "ep0_ok s" and p: "setup_pending s"
  shows "handle_setup (usb_call user app (Suc (Suc n))) 0 s =
     map_option (\<lambda>(ok, s). if ok then s else stall_both 0 USB_EP_STALL_SET (upd_hal 0 (\<lambda>e. e\<lparr>xstate := USB_EP_S_HALTED\<rparr>) s))
       (usbdc_cb_ctl_req (usb_call user app n) (stack_fns user app (usb_call user app n)) 0 (xfer_req 0) (setup_read s))"
proof -
  let ?c = "setup_clear 0 s"
  have u: "undisturbed s ?c" by simp
  then have c: "ep0_ok ?c" using ok ep0_ok_undisturbed by blast
  have req: "usb_dev_ep_read_req 0 (xfer_req 0) ?c
      = (8, ep_ack_setup 0 (memcpy (xfer_req 0) (bk_addr (bank s 0 False)) 8 ?c))"
    using c p by (simp add: usb_dev_ep_read_req_def Let_def ep_get_n_def MAX_EP_N_def ep_is_ctrl_hw_def ep_is_setup_def
        ep0_ok_def setup_pending_def req_addr)
  have e: "eptype (ept s 0) = EPTYPE_CTRL" "ep_addr (ept s 0) = 0" "cb_setup ?c = Some Usb_d_cb_trans_setup"
      "usb_d_find_ep 0 ?c = 0" "ep_addr (ept ?c 0) = 0"
    using ok c by (simp_all add: ep0_ok_def)
  have cb: "req_cb (hal_ep (ep_ack_setup 0 (memcpy (xfer_req 0) (bk_addr (bank s 0 False)) 8 ?c)) 0) = Some Usbdc_cb_ctl_req"
    using c by (simp add: ep0_ok_def ep_ack_setup_def ep_int_ack_def)
  show ?thesis
    using e req cb
    by (simp add: handle_setup_def Let_def invoke_proc_def usb_d_cb_trans_setup_def setup_read_def [symmetric]
        option.map_comp comp_def split: option.splits)
qed

lemma setup_read_spec:
  assumes ok: "ep0_ok s"
  shows "ep0_ok (setup_read s)" and "xstate (hal_ep (setup_read s) 0) = USB_EP_S_IDLE"
    and "dc_view (setup_read s) = dc_view s"
    and "umem (setup_read s) p = (if unat (p - xfer_req 0) < 8 then umem s (bk_addr (bank s 0 False) + (p - xfer_req 0)) else umem s p)"
    and "\<not> is_busy (ept (setup_read s) 0)" and "\<not> is_stalled (ept (setup_read s) 0)"
proof -
  let ?c = "setup_clear 0 s"
  let ?m = "ep_ack_setup 0 (memcpy (xfer_req 0) (bk_addr (bank s 0 False)) 8 ?c)"
  have c: "ep0_ok ?c" using ok ep0_ok_undisturbed [of s ?c] by simp
  then have m: "ep0_ok ?m"
    by (auto simp: ep0_ok_def ep_ack_setup_def ep_int_ack_def memcpy_def)
  then have "ep0_ok (stall_both 0 USB_EP_STALL_CLR ?m)"
    using ep0_ok_undisturbed [of ?m "stall_both 0 USB_EP_STALL_CLR ?m"] by simp
  then show "ep0_ok (setup_read s)" by (simp add: setup_read_def ep0_ok_def)
  show "xstate (hal_ep (setup_read s) 0) = USB_EP_S_IDLE" "dc_view (setup_read s) = dc_view s"
    "umem (setup_read s) p = (if unat (p - xfer_req 0) < 8 then umem s (bk_addr (bank s 0 False) + (p - xfer_req 0)) else umem s p)"
    by (simp_all add: setup_read_def ep_ack_setup_def ep_int_ack_def umem_memcpy)
  show "\<not> is_busy (ept (setup_read s) 0)" "\<not> is_stalled (ept (setup_read s) 0)"
    by (simp_all add: setup_read_def stall_both_def stall_clr_keeps ep_ack_setup_def ep_int_ack_def)
qed

subsection \<open>The answer to a request without data\<close>

definition status_in :: "'a cdcdf_scheme \<Rightarrow> bool" where
  \<comment> \<open>a packet of length 0 is armed on endpoint 0 IN\<close>
  "status_in s \<longleftrightarrow> is_busy (ept s 0) \<and> trans_count (ept s 0) = 0 \<and> trans_size (ept s 0) = 0 \<and> \<not> need_zlp (ept s 0)
     \<and> ep_dir (ept s 0) \<and> bk_count (bank s 0 True) = 0 \<and> bit (epstatus (epr s 0)) 7"

lemma zlp_in:
  fixes s :: "'a cdcdf_scheme"
  assumes "ep0_ok s" and "\<not> is_busy (ept s 0)" "\<not> is_stalled (ept s 0)"
  shows "\<exists>s'. usb_d_trans call 0 True buf 0 True s = Some (ERR_NONE, s') \<and> undisturbed s s' \<and> status_in s'
    \<and> bk_addr (bank s' 0 False) = bk_addr (bank s 0 False) \<and> (\<forall>i. i \<noteq> 0 \<longrightarrow> ept s' i = ept s i)"
  using assms
  by (simp add: usb_d_trans_def usb_dev_ep_trans_def Let_def ep0_ok_def ep_get_n_def
      ep_get_dir_def dev_ept_def MAX_EP_N_def in_next_def usb_helpers status_in_def ep_cfg_def shl_def bit_simps)

lemma req_len_wLength: "req_len m req = wLength m req"
  by (simp add: wLength_def usb_get_u16_def req_len_def add.assoc)

lemma answer_no_data:
  fixes s :: "'a cdcdf_scheme"
  assumes ok: "ep0_ok s" and idle: "xstate (hal_ep s 0) = USB_EP_S_IDLE" and n0: "wLength (umem s) (xfer_req 0) = 0"
    and free: "\<not> is_busy (ept s 0)" "\<not> is_stalled (ept s 0)"
  shows "\<exists>s'. usbdc_xfer call 0 buf n zlp s = Some (ERR_NONE, s')
    \<and> undisturbed (upd_hal 0 (\<lambda>e. e\<lparr>xstate := USB_EP_S_X_STATUS\<rparr>) s) s' \<and> status_in s'
    \<and> (\<forall>i. i \<noteq> 0 \<longrightarrow> ept s' i = ept s i)"
proof -
  let ?s = "upd_hal 0 (\<lambda>e. e\<lparr>xstate := USB_EP_S_X_STATUS\<rparr>) s"
  have "ep0_ok ?s" using ok by (simp add: ep0_ok_def)
  then obtain s' where "usb_d_trans call 0 True buf 0 True ?s = Some (ERR_NONE, s')" "undisturbed ?s s'" "status_in s'"
      "\<forall>i. i \<noteq> 0 \<longrightarrow> ept s' i = ept s i"
    using zlp_in [of ?s call buf] free by auto
  moreover have "usbdc_xfer call 0 buf n zlp s = usb_d_trans call 0 True buf 0 True ?s"
    using ok idle n0 by (simp add: usbdc_xfer_def usb_d_ep_transfer_def Let_def ep0_ok_def req_len_wLength)
  ultimately show ?thesis by auto
qed

subsection \<open>The status stage\<close>

definition status_taken :: "'a cdcdf_scheme \<Rightarrow> 'a cdcdf_scheme" where
  \<comment> \<open>the state in which the device core learns that the host has taken the status packet\<close>
  "status_taken s =
     upd_hal 0 (\<lambda>e. e\<lparr>xstatus := USB_XFER_DONE\<rparr>)
       (upd_ept 0 (\<lambda>e. e\<lparr>is_busy := False\<rparr>)
         (ep_int_dis 0 (BANK1_INT_FLAGS OR TRCPT0)
           (upd_ept 0 (\<lambda>e. e\<lparr>trans_count := trans_count e + 0\<rparr>) (ep_ack_io_cpt 0 True (host_takes 0 s)))))"

lemma host_takes_frame [simp]: "undisturbed s (host_takes epn s') = undisturbed s s'"
  by (simp add: host_takes_def)

lemma status_taken_spec:
  assumes "ep0_ok s"
  shows "undisturbed (upd_hal 0 (\<lambda>e. e\<lparr>xstatus := USB_XFER_DONE\<rparr>) s) (status_taken s)" and "ep0_ok (status_taken s)"
proof -
  let ?t = "upd_ept 0 (\<lambda>e. e\<lparr>is_busy := False\<rparr>)
         (ep_int_dis 0 (BANK1_INT_FLAGS OR TRCPT0)
           (upd_ept 0 (\<lambda>e. e\<lparr>trans_count := trans_count e + 0\<rparr>) (ep_ack_io_cpt 0 True (host_takes 0 s))))"
  have u: "undisturbed s ?t" by (simp add: usb_helpers ep_cfg_def)
  then show "undisturbed (upd_hal 0 (\<lambda>e. e\<lparr>xstatus := USB_XFER_DONE\<rparr>) s) (status_taken s)"
    unfolding status_taken_def by (simp add: undisturbed_def)
  have "ep0_ok ?t" using ep0_ok_undisturbed [OF u] assms by simp
  then show "ep0_ok (status_taken s)" unfolding status_taken_def by (simp add: ep0_ok_def)
qed

lemma status_stage:
  fixes s :: "'a cdcdf_scheme"
  assumes ok: "ep0_ok s" and st: "status_in s" and x: "xstate (hal_ep s 0) = USB_EP_S_X_STATUS"
  shows "in_next (usb_call user app (Suc (Suc n))) 0 True (host_takes 0 s) =
     map_option (upd_hal 0 (\<lambda>e. e\<lparr>xstate := USB_EP_S_X_SETUP\<rparr>))
       (usbdc_ctrl_status_end (stack_fns user app (usb_call user app n)) (xfer_req 0) (status_taken s))"
proof -
  let ?a = "ep_int_dis 0 (BANK1_INT_FLAGS OR TRCPT0)
           (upd_ept 0 (\<lambda>e. e\<lparr>trans_count := trans_count e + 0\<rparr>) (ep_ack_io_cpt 0 True (host_takes 0 s)))"
  have e: "ep_addr (ept s 0) = 0" "eptype (ept s 0) = EPTYPE_CTRL" "ep_size (ept s 0) = 64" "cb_done s = Some Usb_d_cb_trans_done"
      "xep (hal_ep s 0) = 0" "xtype (hal_ep s 0) = 0" "xfer_cb (hal_ep s 0) = Some Usbdc_cb_ctl_done"
      "is_busy (ept s 0)" "trans_size (ept s 0) = 0" "trans_count (ept s 0) = 0" "\<not> need_zlp (ept s 0)"
      "bk_count (bank s 0 True) = 0"
    using ok st by (simp_all add: ep0_ok_def status_in_def)
  have "in_next call 0 True (host_takes 0 s) = trans_done call 0 USB_TRANS_DONE ?a" for call
    using e by (simp add: in_next_def Let_def ep_get_n_def host_takes_def usb_helpers in_complete_def)
  moreover have "trans_done (usb_call user app (Suc (Suc n))) 0 USB_TRANS_DONE ?a =
      usb_d_cb_trans_done (usb_call user app (Suc n)) 0 USB_TRANS_DONE 0 (upd_ept 0 (\<lambda>e. e\<lparr>is_busy := False\<rparr>) ?a)"
    using e by (simp add: trans_done_def Let_def usb_helpers host_takes_def invoke_proc_def option.map_comp comp_def option.map_ident)
  moreover have "usb_d_cb_trans_done (usb_call user app (Suc n)) 0 USB_TRANS_DONE 0 (upd_ept 0 (\<lambda>e. e\<lparr>is_busy := False\<rparr>) ?a)
      = ctrl_trans_done (usb_call user app (Suc n)) 0 (status_taken s)"
    using e by (simp add: usb_d_cb_trans_done_def Let_def status_taken_def usb_helpers host_takes_def)
  moreover have "xstate (hal_ep (status_taken s) 0) = USB_EP_S_X_STATUS" "xfer_cb (hal_ep (status_taken s) 0) = Some Usbdc_cb_ctl_done"
    using x e by (simp_all add: status_taken_def usb_helpers host_takes_def)
  ultimately show ?thesis
    by (simp add: ctrl_trans_done_def Let_def usbdc_cb_ctl_done_def option.map_comp comp_def split: option.splits)
qed

subsection \<open>Standard requests\<close>

definition dc_ok :: "'a cdcdf_scheme \<Rightarrow> bool" where
  \<comment> \<open>the serial port is the only handler of requests, and nobody listens for changes of state\<close>
  "dc_ok s \<longleftrightarrow> req_list s = cdcdf_acm_req_h \<and> dc_links s cdcdf_acm_req_h = NULL
     \<and> dc_cb s cdcdf_acm_req_h = Some Cdcdf_acm_req \<and> change_list s = NULL"

lemma dc_ok_view: "dc_view s' = dc_view s \<Longrightarrow> dc_ok s' = dc_ok s"
  by (simp add: dc_view_def dc_ok_def)

lemma fn_stack [simp]:
  "fn_req (stack_fns user app call) Cdcdf_acm_req = cdcdf_acm_req call app"
  "fn_ctrl (stack_fns user app call) Cdcdf_acm_ctrl = cdcdf_acm_ctrl call"
  by (simp_all add: stack_fns_def)

lemma handler_passes_standard:
  assumes "dc_ok s" and "1 \<noteq> drop_bit 5 (bmRequestType (umem s) req) AND 3"
  shows "usbdc_request_handler (stack_fns user app call) ep req stage s = Some (0, s)"
proof -
  have h: "cdcdf_acm_req_h \<noteq> NULL" by (simp add: cdcdf_acm_req_h_def)
  have "request_loop fns NULL ep req stage s = Some (0, s)" for fns by (subst request_loop.simps) simp
  moreover have "cdcdf_acm_req call app ep req stage s = Some (ERR_NOT_FOUND, s)"
    using assms(2) by (simp add: cdcdf_acm_req_def)
  moreover have "req_list s = cdcdf_acm_req_h" "dc_links s cdcdf_acm_req_h = NULL" "dc_cb s cdcdf_acm_req_h = Some Cdcdf_acm_req"
    using assms(1) by (simp_all add: dc_ok_def)
  ultimately show ?thesis
    using h unfolding usbdc_request_handler_def by (subst request_loop.simps) simp
qed

lemma change_notify_nobody: "change_list s = NULL \<Longrightarrow> usbdc_change_notify fns c v s = Some s"
  by (simp add: usbdc_change_notify_def change_loop.simps)

definition packet :: "'a cdcdf_scheme \<Rightarrow> u8 list" where
  \<comment> \<open>the setup packet the controller has received\<close>
  "packet s = bytes_at (umem s) (bk_addr (bank s 0 False)) 8"

lemma packet_nth: "k < 8 \<Longrightarrow> umem s (bk_addr (bank s 0 False) + of_nat k) = packet s ! k"
  by (simp add: packet_def bytes_at_def)

lemma request_fields:
  assumes "ep0_ok s"
  shows "bmRequestType (umem (setup_read s)) (xfer_req 0) = packet s ! 0"
    and "bRequest (umem (setup_read s)) (xfer_req 0) = packet s ! 1"
    and "wValue (umem (setup_read s)) (xfer_req 0) = ucast (packet s ! 2) + push_bit 8 (ucast (packet s ! 3))"
    and "wIndex (umem (setup_read s)) (xfer_req 0) = ucast (packet s ! 4) + push_bit 8 (ucast (packet s ! 5))"
    and "wLength (umem (setup_read s)) (xfer_req 0) = ucast (packet s ! 6) + push_bit 8 (ucast (packet s ! 7))"
  using packet_nth [of 0 s] packet_nth [of 1 s] packet_nth [of 2 s] packet_nth [of 3 s] packet_nth [of 4 s]
    packet_nth [of 5 s] packet_nth [of 6 s] packet_nth [of 7 s]
  by (simp_all add: bmRequestType_def bRequest_def wValue_def wIndex_def wLength_def usb_get_u16_def
      setup_read_spec(4) [OF assms] add.assoc)

lemma request_fields_kept:
  "umem s' = umem s \<Longrightarrow> bmRequestType (umem s') r = bmRequestType (umem s) r"
  "umem s' = umem s \<Longrightarrow> bRequest (umem s') r = bRequest (umem s) r"
  "umem s' = umem s \<Longrightarrow> wValue (umem s') r = wValue (umem s) r"
  by simp_all

text \<open>
  C8. \<open>SET_ADDRESS\<close>, from the interrupt for the setup packet to the interrupt for the status
  packet: the first answers with a packet of length 0 and leaves the device's address alone;
  the address, and the device's state, change when the host has taken that packet.
  Endpoint 0 then waits for the next setup packet.
\<close>

theorem set_address_after_status:
  fixes s :: "'a cdcdf_scheme"
  assumes ok: "ep0_ok s" "dc_ok s" "setup_pending s" and pk: "packet s = [0, 5, a, 0, 0, 0, 0, 0]"
  shows "\<exists>s1 s2. handle_setup (usb_call user app (Suc (Suc n))) 0 s = Some s1
    \<and> status_in s1 \<and> dev_dadd s1 = dev_dadd s \<and> dc_state s1 = dc_state s
    \<and> in_next (usb_call user app (Suc (Suc n))) 0 True (host_takes 0 s1) = Some s2
    \<and> dev_dadd s2 = 0x80 OR (a AND 0x7F) \<and> dc_state s2 = (if a \<noteq> 0 then USBD_S_ADDRESS else USBD_S_DEFAULT)
    \<and> ep0_ok s2 \<and> dc_ok s2 \<and> xstate (hal_ep s2 0) = USB_EP_S_X_SETUP"
proof -
  let ?r = "setup_read s" and ?req = "xfer_req 0" and ?call = "usb_call user app n"
  let ?fns = "stack_fns user app ?call"
  note r = setup_read_spec(1-3,5,6) [OF ok(1)] and f = request_fields [OF ok(1), unfolded pk, simplified]
  have dcr: "dc_ok ?r" using dc_ok_view [OF r(3)] ok(2) by simp
  have "usbdc_request_handler ?fns 0 ?req USB_SETUP_STAGE ?r = Some (0, ?r)"
    using handler_passes_standard [OF dcr] f by simp
  moreover obtain s1 where s1: "usbdc_xfer ?call 0 NULL 0 True ?r = Some (ERR_NONE, s1)"
      "undisturbed (upd_hal 0 (\<lambda>e. e\<lparr>xstate := USB_EP_S_X_STATUS\<rparr>) ?r) s1" "status_in s1"
    using answer_no_data [OF r(1,2) f(5) r(4,5)] by blast
  ultimately have "usbdc_cb_ctl_req ?call ?fns 0 ?req ?r = Some (True, s1)"
    using f by (simp add: usbdc_cb_ctl_req_def Let_def usbdc_set_req_def answer_def)
  then have one: "handle_setup (usb_call user app (Suc (Suc n))) 0 s = Some s1"
    using setup_stage [OF ok(1,3)] by simp
  have ok1: "ep0_ok s1" using ep0_ok_undisturbed [OF s1(2)] r(1) by (simp add: ep0_ok_def)
  have x1: "xstate (hal_ep s1 0) = USB_EP_S_X_STATUS" and v1: "dc_view s1 = dc_view s" and m1: "umem s1 = umem ?r"
    using s1(2) r(3) by (simp_all add: undisturbed_def)
  let ?t = "status_taken s1"
  have v2: "dc_view ?t = dc_view s" "umem ?t = umem ?r"
    using undisturbedD [OF status_taken_spec(1) [OF ok1]] v1 m1 by simp_all
  let ?s2 = "(usbdc_set_address a ?t)\<lparr>dc_state := if a \<noteq> 0 then USBD_S_ADDRESS else USBD_S_DEFAULT\<rparr>"
  have cl: "change_list ?s2 = NULL" using v2(1) ok(2) by (simp add: dc_view_def dc_ok_def usbdc_set_address_def usb_d_set_address_def usb_dev_set_address_def)
  have "(ucast (ucast a :: u16) :: u8) = a" "((ucast a :: u16) = 0) = (a = 0)" by (simp_all add: word_unat_eq_iff)
  then have "usbdc_ctrl_status_end ?fns ?req ?t = Some ?s2"
    using f request_fields_kept [OF v2(2), of ?req] change_notify_nobody [OF cl]
    by (simp add: usbdc_ctrl_status_end_def Let_def)
  then have "in_next (usb_call user app (Suc (Suc n))) 0 True (host_takes 0 s1)
      = Some (upd_hal 0 (\<lambda>e. e\<lparr>xstate := USB_EP_S_X_SETUP\<rparr>) ?s2)"
    using status_stage [OF ok1 s1(3) x1] by simp
  moreover have "ep0_ok ?t" by (rule status_taken_spec(2) [OF ok1])
  ultimately show ?thesis
    using one s1(3) v1 v2(1) ok(2)
    by (simp add: ep0_ok_def dc_view_def dc_ok_def usbdc_set_address_def usb_d_set_address_def usb_dev_set_address_def upd_hal_def)
qed

subsection \<open>The data stage\<close>

definition data_out :: "ptr \<Rightarrow> 'a cdcdf_scheme \<Rightarrow> bool" where
  \<comment> \<open>endpoint 0 expects 7 bytes for the buffer\<close>
  "data_out buf s \<longleftrightarrow> is_busy (ept s 0) \<and> trans_buf (ept s 0) = buf \<and> trans_size (ept s 0) = 7 \<and> trans_count (ept s 0) = 0
     \<and> use_cache (ept s 0) \<and> \<not> ep_dir (ept s 0) \<and> \<not> need_zlp (ept s 0) \<and> \<not> is_stalled (ept s 0)
     \<and> bk_addr (bank s 0 False) = 0x20000800"

lemma undisturbed_out_copy_0 [simp]: "undisturbed s (out_copy i 0 s') = undisturbed s s'"
proof -
  have "undisturbed s' (out_copy i 0 s')" "undisturbed (out_copy i 0 s') s'"
    by (auto simp: undisturbed_def out_copy_nothing) (auto simp: out_copy_def Let_def memcpy_def dc_view_def)
  then show ?thesis using undisturbed_trans by blast
qed

lemma answer_out:
  fixes s :: "'a cdcdf_scheme"
  assumes ok: "ep0_ok s" and idle: "xstate (hal_ep s 0) = USB_EP_S_IDLE" and n7: "wLength (umem s) (xfer_req 0) = 7"
    and dir: "umem s (xfer_req 0) AND 0x80 = 0" and free: "\<not> is_busy (ept s 0)" "\<not> is_stalled (ept s 0)"
  shows "\<exists>s'. usbdc_xfer call 0 buf 7 zlp s = Some (ERR_NONE, s')
    \<and> undisturbed (upd_hal 0 (\<lambda>e. e\<lparr>xstate := USB_EP_S_X_DATA\<rparr>) s) s' \<and> data_out buf s'"
proof -
  let ?s = "upd_hal 0 (\<lambda>e. e\<lparr>xstate := USB_EP_S_X_DATA\<rparr>) s"
  let ?e = "upd_ept 0 (\<lambda>e. e\<lparr>is_busy := True, trans_buf := buf, trans_size := 7, ep_dir := False, use_cache := True,
      need_zlp := False, trans_count := 0\<rparr>) ?s"
  have "usbdc_xfer call 0 buf 7 zlp s = usb_d_trans call 0 False buf 7 False ?s"
    using ok idle n7 dir by (simp add: usbdc_xfer_def usb_d_ep_transfer_def Let_def ep0_ok_def req_len_wLength)
  also have "\<dots> = map_option (Pair ERR_NONE) (out_next call 0 False ?e)"
    using ok free by (simp add: usb_d_trans_def usb_dev_ep_trans_def Let_def ep0_ok_def ep_get_n_def
        ep_get_dir_def dev_ept_def MAX_EP_N_def)
  finally show ?thesis
    using ok free
    by (simp add: out_next_def Let_def ep0_ok_def ep_get_n_def usb_helpers ep_cfg_def data_out_def)
qed

definition host_sends :: "u8 list \<Rightarrow> 'a cdcdf_scheme \<Rightarrow> 'a cdcdf_scheme" where
  \<comment> \<open>the host sends a data packet to endpoint 0\<close>
  "host_sends d s =
     upd_epr 0 (\<lambda>r. r\<lparr>epintflag := epintflag r OR TRCPT0\<rparr>)
       (upd_bank 0 False (\<lambda>b. b\<lparr>bk_count := of_nat (length d)\<rparr>) (write_mem (bk_addr (bank s 0 False)) d s))"

definition data_taken :: "'a cdcdf_scheme \<Rightarrow> 'a cdcdf_scheme" where
  \<comment> \<open>the state in which the device core learns that the data stage has ended\<close>
  "data_taken s =
     upd_hal 0 (\<lambda>e. e\<lparr>xstatus := USB_XFER_DONE\<rparr>)
       (upd_ept 0 (\<lambda>e. e\<lparr>is_busy := False\<rparr>)
         (ep_set_buf 0 False 0x20000800
           (ep_int_dis 0 (BANK0_INT_FLAGS OR TRFAIL1)
             (upd_ept 0 (\<lambda>e. e\<lparr>need_zlp := False, trans_count := trans_count e + 7\<rparr>)
               (out_copy 0 7 (ep_ack_io_cpt 0 False s))))))"

lemma write_mem_frame [simp]:
  fixes s :: "'a cdcdf_scheme"
  shows "ept (write_mem p d s) = ept s" "epr (write_mem p d s) = epr s" "bank (write_mem p d s) = bank s"
    "hal_ep (write_mem p d s) = hal_ep s" "dc_view (write_mem p d s) = dc_view s" "cb_done (write_mem p d s) = cb_done s"
    "cb_setup (write_mem p d s) = cb_setup s"
    "umem (write_mem p d s) q = (if unat (q - p) < length d then d ! unat (q - p) else umem s q)"
  by (simp_all add: write_mem_def dc_view_def)

lemma out_copy_frame [simp]:
  fixes s :: "'a cdcdf_scheme"
  shows "hal_ep (out_copy i k s) = hal_ep s" "dc_view (out_copy i k s) = dc_view s" "cb_setup (out_copy i k s) = cb_setup s"
  by (simp_all add: out_copy_def Let_def memcpy_def dc_view_def)

lemma data_stage:
  fixes s :: "'a cdcdf_scheme"
  assumes ok: "ep0_ok s" and d: "data_out buf s" and n: "length d = 7"
  shows "out_next (usb_call user app (Suc n)) 0 True (host_sends d s)
      = ctrl_trans_done (usb_call user app n) 0 (data_taken (host_sends d s))"
proof -
  let ?h = "host_sends d s"
  let ?a = "upd_ept 0 (\<lambda>e. e\<lparr>need_zlp := False, trans_count := trans_count e + 7\<rparr>)
      (out_copy 0 7 (ep_ack_io_cpt 0 False ?h))"
  have e: "ep_addr (ept s 0) = 0" "eptype (ept s 0) = EPTYPE_CTRL" "ep_size (ept s 0) = 64" "ep_cache (ept s 0) = 0x20000800"
      "cb_done s = Some Usb_d_cb_trans_done" "xep (hal_ep s 0) = 0" "xtype (hal_ep s 0) = 0" "is_busy (ept s 0)"
      "trans_size (ept s 0) = 7"
    using ok d by (simp_all add: ep0_ok_def data_out_def)
  have "out_next call 0 True ?h = out_finish call 0 0 True ?a" for call
    using e n by (simp add: out_next_def Let_def ep_get_n_def host_sends_def usb_helpers size_mask_def)
  moreover have "out_finish (usb_call user app (Suc n)) 0 0 True ?a
      = ctrl_trans_done (usb_call user app n) 0 (data_taken ?h)"
    using e by (simp add: out_finish_def Let_def trans_done_def host_sends_def usb_helpers data_taken_def
        invoke_proc_def option.map_comp comp_def option.map_ident usb_d_cb_trans_done_def)
  ultimately show ?thesis by simp
qed

lemma data_taken_spec:
  fixes s :: "'a cdcdf_scheme"
  assumes ok: "ep0_ok s" and d: "data_out buf s" and n: "length d = 7"
  defines "s' \<equiv> data_taken (host_sends d s)"
  shows "ep0_ok s'" and "dc_view s' = dc_view s" and "xstate (hal_ep s' 0) = xstate (hal_ep s 0)"
    and "\<not> is_busy (ept s' 0)" and "\<not> is_stalled (ept s' 0)" and "bk_addr (bank s' 0 False) = 0x20000800"
    and "umem s' q = (if unat (q - buf) < 7 then d ! unat (q - buf)
           else if unat (q - 0x20000800) < 7 then d ! unat (q - 0x20000800) else umem s q)"
proof -
  have e: "trans_buf (ept s 0) = buf" "trans_size (ept s 0) = 7" "trans_count (ept s 0) = 0" "use_cache (ept s 0)"
      "bk_addr (bank s 0 False) = 0x20000800" "ep_cache (ept s 0) = 0x20000800" "\<not> is_stalled (ept s 0)"
    using ok d by (simp_all add: ep0_ok_def data_out_def)
  show "ep0_ok s'" "dc_view s' = dc_view s" "xstate (hal_ep s' 0) = xstate (hal_ep s 0)"
    "\<not> is_busy (ept s' 0)" "\<not> is_stalled (ept s' 0)" "bk_addr (bank s' 0 False) = 0x20000800"
    using ok e by (simp_all add: s'_def data_taken_def host_sends_def usb_helpers ep0_ok_def)
  have "unat (q - buf) < 7 \<Longrightarrow> unat (0x20000800 + (q - buf) - 0x20000800 :: u32) < 7" by simp
  then show "umem s' q = (if unat (q - buf) < 7 then d ! unat (q - buf)
           else if unat (q - 0x20000800) < 7 then d ! unat (q - 0x20000800) else umem s q)"
    using e n by (simp add: s'_def data_taken_def host_sends_def usb_helpers out_copy_def Let_def umem_memcpy)
qed

subsection \<open>The serial port's requests\<close>

lemma handler_class:
  assumes "dc_ok s" and "cdcdf_acm_req call app ep req stage s = Some (ERR_NONE, s')"
  shows "usbdc_request_handler (stack_fns user app call) ep req stage s = Some (1, s')"
proof -
  have "req_list s = cdcdf_acm_req_h" "dc_cb s cdcdf_acm_req_h = Some Cdcdf_acm_req" "cdcdf_acm_req_h \<noteq> NULL"
    using assms(1) by (simp_all add: dc_ok_def cdcdf_acm_req_h_def)
  then show ?thesis
    using assms(2) unfolding usbdc_request_handler_def by (subst request_loop.simps) simp
qed

lemma bytes_at_eqI: "length d = n \<Longrightarrow> (\<And>k. k < n \<Longrightarrow> m (p + of_nat k) = d ! k) \<Longrightarrow> bytes_at m p n = d"
  by (simp add: bytes_at_def list_eq_iff_nth_eq)

lemma bytes_at_nth [simp]: "k < n \<Longrightarrow> bytes_at m p n ! k = m (p + of_nat k)"
  by (simp add: bytes_at_def)

lemma unat_offset: "k < 256 \<Longrightarrow> unat (of_nat k :: u32) = k"
  by (simp add: unat_of_nat)

definition acm_ok :: "'a cdcdf_scheme \<Rightarrow> bool" where
  \<comment> \<open>the control buffer of \<open>usb_start.c\<close>, and no application callback for the line coding\<close>
  "acm_ok s \<longleftrightarrow> dc_ok s \<and> ctrl_buf s = ctrl_buffer \<and> set_line_coding s = None"

lemma acm_ok_view: "dc_view s' = dc_view s \<Longrightarrow> acm_ok s' = acm_ok s \<and> func_iface s' = func_iface s"
  by (simp add: acm_ok_def dc_view_def dc_ok_def)

lemma set_line_coding_setup:
  fixes s :: "'a cdcdf_scheme"
  assumes ok: "ep0_ok s" "acm_ok s" "setup_pending s" and pk: "packet s = [0x21, 0x20, 0, 0, func_iface s 0, 0, 7, 0]"
  shows "\<exists>s1. handle_setup (usb_call user app (Suc (Suc n))) 0 s = Some s1 \<and> data_out ctrl_buffer s1 \<and> ep0_ok s1
    \<and> xstate (hal_ep s1 0) = USB_EP_S_X_DATA \<and> dc_view s1 = dc_view s \<and> umem s1 = umem (setup_read s)"
proof -
  let ?r = "setup_read s" and ?req = "xfer_req 0" and ?call = "usb_call user app n"
  note r = setup_read_spec(1-3,5,6) [OF ok(1)] and f = request_fields [OF ok(1), unfolded pk, simplified]
  have acm: "acm_ok ?r" "func_iface ?r = func_iface s" using acm_ok_view [OF r(3)] ok(2) by simp_all
  have bm: "umem ?r ?req AND 0x80 = 0" using f(1) by (simp add: bmRequestType_def)
  obtain s1 where s1: "usbdc_xfer ?call 0 ctrl_buffer 7 False ?r = Some (ERR_NONE, s1)"
      "undisturbed (upd_hal 0 (\<lambda>e. e\<lparr>xstate := USB_EP_S_X_DATA\<rparr>) ?r) s1" "data_out ctrl_buffer s1"
    using answer_out [OF r(1,2) f(5) bm r(4,5)] by blast
  have "cdcdf_acm_req ?call app 0 ?req USB_SETUP_STAGE ?r = Some (ERR_NONE, s1)"
    using f s1(1) acm by (simp add: cdcdf_acm_req_def cdcdf_acm_set_req_def Let_def usbdc_get_ctrl_buffer_def acm_ok_def)
  then have "handle_setup (usb_call user app (Suc (Suc n))) 0 s = Some s1"
    using handler_class [of ?r] acm setup_stage [OF ok(1,3)] by (simp add: usbdc_cb_ctl_req_def acm_ok_def)
  moreover have "ep0_ok s1" using ep0_ok_undisturbed [OF s1(2)] r(1) by (simp add: ep0_ok_def)
  ultimately show ?thesis using s1(2,3) r(3) by (intro exI [of _ s1]) (simp add: undisturbed_def)
qed

lemma set_line_coding_data:
  fixes s :: "'a cdcdf_scheme"
  assumes ok: "ep0_ok s" "acm_ok s" and d: "data_out ctrl_buffer s" "length d = 7" and x: "xstate (hal_ep s 0) = USB_EP_S_X_DATA"
    and rq: "bmRequestType (umem s) (xfer_req 0) = 0x21" "bRequest (umem s) (xfer_req 0) = 0x20"
      "wIndex (umem s) (xfer_req 0) = ucast (func_iface s 0)" "wLength (umem s) (xfer_req 0) = 7"
  shows "\<exists>s2. out_next (usb_call user app (Suc (Suc n))) 0 True (host_sends d s) = Some s2 \<and> status_in s2 \<and> ep0_ok s2
    \<and> xstate (hal_ep s2 0) = USB_EP_S_X_STATUS \<and> dc_view s2 = dc_view s \<and> bytes_at (umem s2) line_coding 7 = d
    \<and> bmRequestType (umem s2) (xfer_req 0) = 0x21 \<and> bk_addr (bank s2 0 False) = 0x20000800"
proof -
  let ?t = "data_taken (host_sends d s)" and ?req = "xfer_req 0"
  let ?fns = "stack_fns user app (usb_call user app n)"
  note t = data_taken_spec [OF ok(1) d]
  have acm: "acm_ok ?t" "func_iface ?t = func_iface s" using acm_ok_view [OF t(2)] ok(2) by simp_all
  have keep: "umem ?t (?req + of_nat k) = umem s (?req + of_nat k)" if "k < 8" for k
  proof -
    from that have "k \<in> {0, 1, 2, 3, 4, 5, 6, 7}" by auto
    then show ?thesis by (auto simp: t(7) req_addr ctrl_buffer_def)
  qed
  have rq': "bmRequestType (umem ?t) ?req = 0x21" "bRequest (umem ?t) ?req = 0x20"
      "wIndex (umem ?t) ?req = ucast (func_iface s 0)" "wLength (umem ?t) ?req = 7"
    using rq keep [of 0] keep [of 1] keep [of 4] keep [of 5] keep [of 6] keep [of 7]
    by (simp_all add: bmRequestType_def bRequest_def wIndex_def wLength_def usb_get_u16_def add.assoc)
  have got: "bytes_at (umem ?t) ctrl_buffer 7 = d"
    using d(2) by (intro bytes_at_eqI) (simp_all add: t(7) unat_offset)
  let ?w = "write_mem line_coding d ?t"
  have "cdcdf_acm_req (usb_call user app n) app 0 ?req USB_DATA_STAGE ?t = Some (ERR_NONE, ?w)"
    using rq' acm got by (simp add: cdcdf_acm_req_def cdcdf_acm_set_req_def Let_def usbdc_get_ctrl_buffer_def acm_ok_def)
  from handler_class [OF _ this, of user] have dn: "usbdc_cb_ctl_done ?fns 0 USB_XFER_DATA ?req ?t = Some (False, ?w)"
    using acm(1) by (simp add: usbdc_cb_ctl_done_def usbdc_ctrl_data_end_def acm_ok_def)
  let ?x = "upd_hal 0 (\<lambda>e. e\<lparr>xstate := USB_EP_S_X_STATUS\<rparr>) ?w"
  have okx: "ep0_ok ?x" using t(1) by (simp add: ep0_ok_def)
  obtain s2 where s2: "usb_d_trans (usb_call user app (Suc n)) 0 True NULL 0 True ?x = Some (ERR_NONE, s2)"
      "undisturbed ?x s2" "status_in s2" "bk_addr (bank s2 0 False) = bk_addr (bank ?x 0 False)"
    using zlp_in [OF okx, of "usb_call user app (Suc n)" NULL] t(4,5) by auto
  have "out_next (usb_call user app (Suc (Suc n))) 0 True (host_sends d s) = Some s2"
    using data_stage [OF ok(1) d] x t(1,3) dn s2(1) rq'(1)
    by (simp add: ctrl_trans_done_def Let_def ep0_ok_def bmRequestType_def)
  moreover have "ep0_ok s2" using ep0_ok_undisturbed [OF s2(2)] okx by simp
  moreover have m: "umem s2 = umem ?w" "hal_ep s2 = hal_ep ?x" "dc_view s2 = dc_view s"
    using undisturbedD [OF s2(2)] t(2) by simp_all
  moreover have "bytes_at (umem s2) line_coding 7 = d"
    unfolding m(1) using d(2) by (intro bytes_at_eqI) (simp_all add: unat_offset)
  moreover have "bmRequestType (umem s2) ?req = 0x21"
    using rq'(1) d(2) unfolding m(1) by (simp add: bmRequestType_def req_addr line_coding_def)
  ultimately show ?thesis using s2(3,4) t(6) by (intro exI [of _ s2]) simp
qed

lemma class_status_stage:
  fixes s :: "'a cdcdf_scheme"
  assumes ok: "ep0_ok s" and st: "status_in s" "xstate (hal_ep s 0) = USB_EP_S_X_STATUS"
    and bm: "bmRequestType (umem s) (xfer_req 0) \<noteq> 0"
  shows "\<exists>s3. in_next (usb_call user app (Suc (Suc n))) 0 True (host_takes 0 s) = Some s3 \<and> ep0_ok s3
    \<and> umem s3 = umem s \<and> dc_view s3 = dc_view s \<and> xstate (hal_ep s3 0) = USB_EP_S_X_SETUP
    \<and> bk_addr (bank s3 0 False) = bk_addr (bank s 0 False)"
proof -
  note t = status_taken_spec [OF ok]
  have "usbdc_ctrl_status_end (stack_fns user app (usb_call user app n)) (xfer_req 0) (status_taken s) = Some (status_taken s)"
    using bm undisturbedD(1) [OF t(1)] by (simp add: usbdc_ctrl_status_end_def)
  then show ?thesis
    using status_stage [OF ok st, of user app n] t(2) undisturbedD [OF t(1)]
    by (simp add: ep0_ok_def status_taken_def usb_helpers host_takes_def)
qed

lemma data_in_line_coding:
  fixes s :: "'a cdcdf_scheme"
  assumes ok: "ep0_ok s" and idle: "xstate (hal_ep s 0) = USB_EP_S_IDLE" and n7: "wLength (umem s) (xfer_req 0) = 7"
    and dir: "umem s (xfer_req 0) AND 0x80 \<noteq> 0" and free: "\<not> is_busy (ept s 0)" "\<not> is_stalled (ept s 0)"
  shows "\<exists>s'. usbdc_xfer call 0 line_coding 7 zlp s = Some (ERR_NONE, s') \<and> is_busy (ept s' 0)
    \<and> bank_data 0 s' = bytes_at (umem s) line_coding 7"
proof -
  let ?s = "upd_hal 0 (\<lambda>e. e\<lparr>xstate := USB_EP_S_X_DATA\<rparr>) s"
  let ?e = "upd_ept 0 (\<lambda>e. e\<lparr>is_busy := True, trans_buf := line_coding, trans_size := 7, ep_dir := True, use_cache := False,
      need_zlp := False, trans_count := 0\<rparr>) ?s"
  have "usbdc_xfer call 0 line_coding 7 zlp s = usb_d_trans call 0 True line_coding 7 False ?s"
    using ok idle n7 dir by (simp add: usbdc_xfer_def usb_d_ep_transfer_def Let_def ep0_ok_def req_len_wLength)
  also have "\<dots> = map_option (Pair ERR_NONE) (in_next call 0 False ?e)"
    using ok free by (simp add: usb_d_trans_def usb_dev_ep_trans_def Let_def ep0_ok_def ep_get_n_def
        ep_get_dir_def dev_ept_def MAX_EP_N_def in_ram_def usb_is_aligned_def line_coding_def)
  finally show ?thesis
    using ok free
    by (simp add: in_next_def in_arm_def Let_def ep0_ok_def ep_get_n_def usb_helpers bank_data_def USB_D_DEV_TRANS_MAX_def)
qed

definition host_setup :: "u8 list \<Rightarrow> 'a cdcdf_scheme \<Rightarrow> 'a cdcdf_scheme" where
  \<comment> \<open>the host sends a setup packet to endpoint 0\<close>
  "host_setup p s =
     upd_epr 0 (\<lambda>r. r\<lparr>epintflag := epintflag r OR RXSTP\<rparr>)
       (upd_bank 0 False (\<lambda>b. b\<lparr>bk_count := 8\<rparr>) (write_mem (bk_addr (bank s 0 False)) p s))"

lemma or_and_same [simp]: "(x OR y) AND y = (y :: 'b::len word)"
  by (auto intro!: bit_word_eqI simp: bit_simps)

lemma host_setup_spec:
  assumes "ep0_ok s" and "length p = 8"
  shows "ep0_ok (host_setup p s)" and "setup_pending (host_setup p s)" and "packet (host_setup p s) = p"
    and "dc_view (host_setup p s) = dc_view s" and "bank (host_setup p s) 0 False = (bank s 0 False)\<lparr>bk_count := 8\<rparr>"
proof -
  show "ep0_ok (host_setup p s)" using assms(1) by (simp add: host_setup_def ep0_ok_def)
  show "setup_pending (host_setup p s)" by (simp add: host_setup_def setup_pending_def)
  show "packet (host_setup p s) = p"
    unfolding packet_def using assms(2) by (intro bytes_at_eqI) (simp_all add: host_setup_def unat_offset)
qed (simp_all add: host_setup_def)

lemma get_line_coding_setup:
  fixes s :: "'a cdcdf_scheme"
  assumes ok: "ep0_ok s" "acm_ok s" "setup_pending s" and pk: "packet s = [0xA1, 0x21, 0, 0, func_iface s 0, 0, 7, 0]"
  shows "\<exists>s1. handle_setup (usb_call user app (Suc (Suc n))) 0 s = Some s1 \<and> is_busy (ept s1 0)
    \<and> bank_data 0 s1 = bytes_at (umem s) line_coding 7"
proof -
  let ?r = "setup_read s" and ?req = "xfer_req 0" and ?call = "usb_call user app n"
  note r = setup_read_spec [OF ok(1)] and f = request_fields [OF ok(1), unfolded pk, simplified]
  have acm: "acm_ok ?r" "func_iface ?r = func_iface s" using acm_ok_view [OF r(3)] ok(2) by simp_all
  have bm: "umem ?r ?req AND 0x80 \<noteq> 0" using f(1) by (simp add: bmRequestType_def)
  obtain s1 where s1: "usbdc_xfer ?call 0 line_coding 7 False ?r = Some (ERR_NONE, s1)" "is_busy (ept s1 0)"
      "bank_data 0 s1 = bytes_at (umem ?r) line_coding 7"
    using data_in_line_coding [OF r(1,2) f(5) bm r(5,6)] by blast
  have "cdcdf_acm_req ?call app 0 ?req USB_SETUP_STAGE ?r = Some (ERR_NONE, s1)"
    using f s1(1) acm by (simp add: cdcdf_acm_req_def cdcdf_acm_get_req_def Let_def)
  then have "handle_setup (usb_call user app (Suc (Suc n))) 0 s = Some s1"
    using handler_class [of ?r] acm setup_stage [OF ok(1,3)] by (simp add: usbdc_cb_ctl_req_def acm_ok_def)
  moreover have "bytes_at (umem ?r) line_coding 7 = bytes_at (umem s) line_coding 7"
  proof (rule bytes_at_cong, intro allI impI)
    fix k :: nat
    assume "k < 7"
    then have "k \<in> {0, 1, 2, 3, 4, 5, 6}" by auto
    then show "umem ?r (line_coding + of_nat k) = umem s (line_coding + of_nat k)"
      by (auto simp: r(4) req_addr line_coding_def)
  qed
  ultimately show ?thesis using s1(2,3) by auto
qed

text \<open>
  C3. The line coding comes back as it was set: after the host has sent 7 bytes with
  \<open>SET_LINE_CODING\<close>, through the setup, data and status stages, its \<open>GET_LINE_CODING\<close> is
  answered with a packet of the same 7 bytes.
\<close>

theorem line_coding_round_trip:
  fixes s :: "'a cdcdf_scheme"
  assumes ok: "ep0_ok s" "acm_ok s" and d: "length d = 7" and i: "i = func_iface s 0"
  shows "\<exists>s1 s2 s3 s4.
      handle_setup (usb_call user app (Suc (Suc n))) 0 (host_setup [0x21, 0x20, 0, 0, i, 0, 7, 0] s) = Some s1
    \<and> out_next (usb_call user app (Suc (Suc n))) 0 True (host_sends d s1) = Some s2
    \<and> in_next (usb_call user app (Suc (Suc n))) 0 True (host_takes 0 s2) = Some s3
    \<and> handle_setup (usb_call user app (Suc (Suc n))) 0 (host_setup [0xA1, 0x21, 0, 0, i, 0, 7, 0] s3) = Some s4
    \<and> bank_data 0 s4 = d"
proof -
  let ?p = "[0x21, 0x20, 0, 0, i, 0, 7, 0] :: u8 list" and ?q = "[0xA1, 0x21, 0, 0, i, 0, 7, 0] :: u8 list"
  let ?s = "host_setup ?p s"
  have h: "ep0_ok ?s" "setup_pending ?s" "packet ?s = ?p" "dc_view ?s = dc_view s"
    using host_setup_spec [OF ok(1), of ?p] by simp_all
  have acm: "acm_ok ?s" "func_iface ?s = func_iface s" using acm_ok_view [OF h(4)] ok(2) by simp_all
  obtain s1 where s1: "handle_setup (usb_call user app (Suc (Suc n))) 0 ?s = Some s1" "data_out ctrl_buffer s1" "ep0_ok s1"
      "xstate (hal_ep s1 0) = USB_EP_S_X_DATA" "dc_view s1 = dc_view s" "umem s1 = umem (setup_read ?s)"
    using set_line_coding_setup [OF h(1) acm(1) h(2), of user app n] h(3,4) acm(2) i by auto
  have acm1: "acm_ok s1" "func_iface s1 = func_iface s" using acm_ok_view [OF s1(5)] ok(2) by simp_all
  note f = request_fields [OF h(1), unfolded h(3), simplified]
  obtain s2 where s2: "out_next (usb_call user app (Suc (Suc n))) 0 True (host_sends d s1) = Some s2" "status_in s2" "ep0_ok s2"
      "xstate (hal_ep s2 0) = USB_EP_S_X_STATUS" "dc_view s2 = dc_view s" "bytes_at (umem s2) line_coding 7 = d"
      "bmRequestType (umem s2) (xfer_req 0) = 0x21" "bk_addr (bank s2 0 False) = 0x20000800"
    using set_line_coding_data [OF s1(3) acm1(1) s1(2) d s1(4), of user app n] f acm1(2) i s1(5,6) by auto
  obtain s3 where s3: "in_next (usb_call user app (Suc (Suc n))) 0 True (host_takes 0 s2) = Some s3" "ep0_ok s3"
      "umem s3 = umem s2" "dc_view s3 = dc_view s2" "bk_addr (bank s3 0 False) = bk_addr (bank s2 0 False)"
    using class_status_stage [OF s2(3,2,4), of user app n] s2(7) by auto
  let ?u = "host_setup ?q s3"
  have u: "ep0_ok ?u" "setup_pending ?u" "packet ?u = ?q" "dc_view ?u = dc_view s"
    using host_setup_spec [OF s3(2), of ?q] s3(4) s2(5) by simp_all
  have acmu: "acm_ok ?u" "func_iface ?u = func_iface s" using acm_ok_view [OF u(4)] ok(2) by simp_all
  have "bytes_at (umem ?u) line_coding 7 = bytes_at (umem s3) line_coding 7"
  proof (rule bytes_at_cong, intro allI impI)
    fix k :: nat
    assume "k < 7"
    then have "k \<in> {0, 1, 2, 3, 4, 5, 6}" by auto
    then show "umem ?u (line_coding + of_nat k) = umem s3 (line_coding + of_nat k)"
      using s3(5) s2(8) by (auto simp: host_setup_def line_coding_def)
  qed
  then obtain s4 where "handle_setup (usb_call user app (Suc (Suc n))) 0 ?u = Some s4" "bank_data 0 s4 = d"
    using get_line_coding_setup [OF u(1) acmu(1) u(2), of user app n] u(3) acmu(2) i s3(3) s2(6) by auto
  with s1(1) s2(1) s3(1) show ?thesis by blast
qed

subsection \<open>A device in use\<close>

definition no_user :: "unit cdcdf_ext dc_fns" where
  \<comment> \<open>no handlers but those of the program\<close>
  "no_user = \<lparr>fn_sof = (\<lambda>_ _. None), fn_change = (\<lambda>_ _ _ _. None), fn_req = (\<lambda>_ _ _ _ _. None), fn_ctrl = (\<lambda>_ _ _. None)\<rparr>"

definition no_app :: "unit cdc_app" where
  "no_app = \<lparr>app_coding = (\<lambda>_ _ _. None), app_state = (\<lambda>_ _ _. None)\<rparr>"

definition sample_dev :: cdcdf where
  \<comment> \<open>endpoint 0 open, no other endpoint, the device not yet addressed\<close>
  "sample_dev =
     \<lparr>umem = (\<lambda>_. 0),
       epr = (\<lambda>n. \<lparr>epcfg = (if n = 0 then 0x11 else 0), epstatus = 0x40, epintflag = 0, epinten = 0x10\<rparr>),
       bank = (\<lambda>n b. \<lparr>bk_addr = 0x20000800, bk_count = 0, bk_multi = 64, bk_sz = 3, bk_status = 0, bk_subpid = 0, bk_variable = 0\<rparr>),
       dev_ctrla = 2, dev_ctrlb = 0, dev_syncbusy = 0, dev_dadd = 0, dev_intflag = 0, dev_inten = 0x28D, dev_fnum = 0,
       dev_fsm = 2, dev_speed = 0, dev_descadd = 0x20000A00, dev_padcal = 0, dev_qos = 0, otp4 = (\<lambda>_. 0),
       dfll_usbcrm = True, dfll_flags = 0x70, usb_irq_on = True, usb_irq_pending = False, ept = sample_ept,
       cb_sof = Some Usbd_sof_cb, cb_event = Some Usbd_event_cb, cb_setup = Some Usb_d_cb_trans_setup,
       cb_more = Some Usb_d_cb_trans_more, cb_done = Some Usb_d_cb_trans_done,
       hal_ep = (\<lambda>i. if i = 0 then \<lparr>xtype = 0, xep = 0, xstate = USB_EP_S_X_SETUP, xstatus = USB_XFER_DONE,
         req_cb = Some Usbdc_cb_ctl_req, more_cb = None, xfer_cb = Some Usbdc_cb_ctl_done\<rparr> else zero_ep),
       ls_fs = Some single_desc, dc_links = (\<lambda>_. NULL),
       dc_cb = (\<lambda>p. if p = cdcdf_acm_req_h then Some Cdcdf_acm_req else if p = cdcdf_acm_drv then Some Cdcdf_acm_ctrl else None),
       sof_list = NULL, req_list = cdcdf_acm_req_h, change_list = NULL, func_list = cdcdf_acm_drv,
       ctrl_buf = ctrl_buffer, dc_state = USBD_S_DEFAULT, cfg_value = 0, ctrl_size = 64, ifc_alt_map = 0,
       func_iface = (\<lambda>i. of_nat i), func_ep_in = (\<lambda>i. if i = 0 then 0x82 else 0x81), func_ep_out = 1,
       cdc_enabled = True, notify_state = None, set_line_coding = None\<rparr>"

lemma sample_dev_ok: "ep0_ok sample_dev" "acm_ok sample_dev" "dc_ok sample_dev" "func_iface sample_dev 0 = 0"
  by (simp_all add: ep0_ok_def acm_ok_def dc_ok_def sample_dev_def sample_ept_def)

lemma set_address_after_status_witness:
  "\<exists>s1 s2. handle_setup (usb_call no_user no_app 2) 0 (host_setup [0, 5, 7, 0, 0, 0, 0, 0] sample_dev) = Some s1
    \<and> in_next (usb_call no_user no_app 2) 0 True (host_takes 0 s1) = Some s2 \<and> dev_dadd s1 = 0 \<and> dev_dadd s2 = 0x87"
proof -
  let ?p = "[0, 5, 7, 0, 0, 0, 0, 0] :: u8 list"
  let ?s = "host_setup ?p sample_dev"
  note h = host_setup_spec [OF sample_dev_ok(1), of ?p, simplified]
  have dc: "dc_ok ?s" using dc_ok_view [OF h(4)] sample_dev_ok(3) by simp
  have "dev_dadd ?s = 0" by (simp add: host_setup_def upd_epr_def upd_bank_def write_mem_def sample_dev_def)
  then show ?thesis
    using set_address_after_status [OF h(1) dc h(2,3), of no_user no_app 0] by (auto simp: numeral_2_eq_2)
qed

lemma line_coding_round_trip_witness:
  "\<exists>s1 s2 s3 s4.
      handle_setup (usb_call no_user no_app 2) 0 (host_setup [0x21, 0x20, 0, 0, 0, 0, 7, 0] sample_dev) = Some s1
    \<and> out_next (usb_call no_user no_app 2) 0 True (host_sends [0x80, 0x25, 0, 0, 0, 0, 8] s1) = Some s2
    \<and> in_next (usb_call no_user no_app 2) 0 True (host_takes 0 s2) = Some s3
    \<and> handle_setup (usb_call no_user no_app 2) 0 (host_setup [0xA1, 0x21, 0, 0, 0, 0, 7, 0] s3) = Some s4
    \<and> bank_data 0 s4 = [0x80, 0x25, 0, 0, 0, 0, 8]"
  using line_coding_round_trip [OF sample_dev_ok(1,2), of "[0x80, 0x25, 0, 0, 0, 0, 8]" 0 no_user no_app 0] sample_dev_ok(4)
  by (simp add: numeral_2_eq_2)

end
