(* ===== verification/UsbConfig.thy ===== *)
theory UsbConfig
  imports UsbControl
begin

text \<open>
  Refused requests, and the device's state against the abstract device of chapter 9 of the USB
  specification.
\<close>

subsection \<open>Refused requests\<close>

definition unsupported :: "u8 list \<Rightarrow> bool" where
  \<comment> \<open>vendor and reserved requests, and standard requests the device core does not know\<close>
  "unsupported p \<longleftrightarrow>
     (let t = p ! 0 AND 0xE0; r = p ! 1 in
      p ! 0 AND 0x60 = 0x40 \<or> p ! 0 AND 0x60 = 0x60
      \<or> (t = 0 \<and> r \<notin> {1, 3, 5, 9, 11}) \<or> (t = 0x80 \<and> r \<notin> {0, 6, 8, 10}))"

lemma not_class: "unsupported p \<Longrightarrow> 1 \<noteq> drop_bit 5 (p ! 0) AND 3"
  by (auto simp: unsupported_def Let_def u8_eq_iff bit_simps)

lemma not_standard:
  "p ! 0 AND 0x60 = 0x40 \<or> p ! 0 AND 0x60 = 0x60 \<Longrightarrow> p ! 0 AND 0xE0 \<noteq> 0 \<and> p ! 0 AND 0xE0 \<noteq> (0x80 :: u8)"
  by (auto simp: u8_eq_iff bit_simps)

lemma stall_both_set:
  fixes s :: "'a cdcdf_scheme"
  assumes "ep_addr (ept s 0) = 0"
  shows "bit (epstatus (epr (stall_both 0 USB_EP_STALL_SET s) 0)) 4" "bit (epstatus (epr (stall_both 0 USB_EP_STALL_SET s) 0)) 5"
    "is_stalled (ept (stall_both 0 USB_EP_STALL_SET s) 0)"
  using assms
  by (simp_all add: stall_both_def usb_dev_ep_stall_def Let_def ep_get_n_def ep_get_dir_def MAX_EP_N_def dev_ept_def
      ep_stall_set_def usb_helpers shl_def bit_simps)



subsection \<open>The device's state\<close>

text \<open>
  The device of chapter 9 of the USB specification: not yet reset, reset, with an address,
  and with an address and a configuration.  The specification does not say what a request
  for a configuration does to a device without an address; this one takes its address for 0.
\<close>

datatype ch9_state = Powered | Default | Address u8 | Configured u8 u8

datatype ch9_request = Set_address u8 | Set_configuration u8 | Other_request

fun ch9_step :: "ch9_state \<Rightarrow> ch9_request \<Rightarrow> ch9_state" where
  "ch9_step d (Set_address a) = (if a = 0 then Default else Address a)"
| "ch9_step Default (Set_configuration c) = (if c = 0 then Address 0 else Configured 0 c)"
| "ch9_step (Address a) (Set_configuration c) = (if c = 0 then Address a else Configured a c)"
| "ch9_step (Configured a _) (Set_configuration c) = (if c = 0 then Address a else Configured a c)"
| "ch9_step d _ = d"

definition ch9_abs :: "'a cdcdf_scheme \<Rightarrow> ch9_state" where
  "ch9_abs s =
     (if dc_state s = USBD_S_CONFIG then Configured (usb_dev_get_address s) (cfg_value s)
      else if dc_state s = USBD_S_ADDRESS then Address (usb_dev_get_address s)
      else if dc_state s = USBD_S_DEFAULT then Default
      else Powered)"

definition request_of :: "u8 list \<Rightarrow> ch9_request" where
  "request_of p =
     (if p ! 0 = 0 \<and> p ! 1 = 5 then Set_address (p ! 2)
      else if p ! 0 = 0 \<and> p ! 1 = 9 then Set_configuration (p ! 2)
      else Other_request)"

definition in_spec :: "u8 list \<Rightarrow> bool" where
  \<comment> \<open>a setup packet whose value is in the range the specification allows\<close>
  "in_spec p \<longleftrightarrow> length p = 8
     \<and> (case request_of p of Set_address a \<Rightarrow> a < 128 \<and> p ! 3 = 0 | Set_configuration _ \<Rightarrow> p ! 3 = 0 | _ \<Rightarrow> True)"

fun status_run :: "'a cdcdf_ext dc_fns \<Rightarrow> ptr \<Rightarrow> u8 list list \<Rightarrow> 'a cdcdf_scheme \<Rightarrow> 'a cdcdf_scheme option" where
  \<comment> \<open>requests whose status stages end one after the other\<close>
  "status_run fns req [] s = Some s"
| "status_run fns req (p # ps) s =
     (case usbdc_ctrl_status_end fns req (write_mem req p s) of
        None \<Rightarrow> None
      | Some s \<Rightarrow> status_run fns req ps s)"

definition dev_inv :: "'a cdcdf_scheme \<Rightarrow> bool" where
  \<comment> \<open>the bus has been reset, a device without an address has none in its register, and nobody
      listens for changes of state\<close>
  "dev_inv s \<longleftrightarrow> dc_state s \<in> {USBD_S_DEFAULT, USBD_S_ADDRESS, USBD_S_CONFIG}
     \<and> (dc_state s = USBD_S_DEFAULT \<longrightarrow> usb_dev_get_address s = 0) \<and> change_list s = NULL"

lemma seven_bits: "a < 128 \<Longrightarrow> (0x80 OR (a AND 0x7F)) AND 0x7F = (a :: u8)"
proof -
  assume "a < 128"
  then have "take_bit 7 a = a"
    by (simp add: word_unat_eq_iff unsigned_take_bit_eq take_bit_nat_eq_self word_less_nat_alt)
  then have "\<not> bit a 7" by (metis bit_take_bit_iff less_irrefl)
  then show ?thesis by (simp add: u8_eq_iff bit_simps)
qed

lemma packet_in_memory:
  assumes "length p = 8"
  shows "bmRequestType (umem (write_mem req p s)) req = p ! 0" "bRequest (umem (write_mem req p s)) req = p ! 1"
    "wValue (umem (write_mem req p s)) req = ucast (p ! 2) + push_bit 8 (ucast (p ! 3))"
  using assms
  by (simp_all add: bmRequestType_def bRequest_def wValue_def usb_get_u16_def write_mem_def add.assoc)

lemma write_mem_device:
  "dc_state (write_mem a d s) = dc_state s" "cfg_value (write_mem a d s) = cfg_value s"
  "dev_dadd (write_mem a d s) = dev_dadd s" "change_list (write_mem a d s) = change_list s"
  by (simp_all add: write_mem_def)

lemma status_end_cases:
  fixes t :: "'a cdcdf_scheme"
  assumes "change_list t = NULL"
  shows "usbdc_ctrl_status_end fns req t = Some
     (let v = wValue (umem t) req; b = bRequest (umem t) req in
      if bmRequestType (umem t) req \<noteq> 0 then t
      else if b = 9 then t\<lparr>cfg_value := ucast v, dc_state := if v \<noteq> 0 then USBD_S_CONFIG else USBD_S_ADDRESS\<rparr>
      else if b = 5 then t\<lparr>dev_dadd := 0x80 OR (ucast v AND 0x7F), dc_state := if v \<noteq> 0 then USBD_S_ADDRESS else USBD_S_DEFAULT\<rparr>
      else t)"
  using assms
  by (simp add: usbdc_ctrl_status_end_def Let_def change_notify_nobody usbdc_set_address_def usb_d_set_address_def
      usb_dev_set_address_def)

lemma value_of_byte:
  "ucast (ucast (v :: u8) + push_bit 8 (ucast (0 :: u8)) :: u16) = v" "(ucast v + push_bit 8 (ucast (0 :: u8)) = (0 :: u16)) = (v = 0)"
  by (simp_all add: word_unat_eq_iff)

lemma status_end_refines:
  fixes s :: "'a cdcdf_scheme"
  assumes inv: "dev_inv s" and p: "in_spec p"
  shows "\<exists>s'. usbdc_ctrl_status_end fns req (write_mem req p s) = Some s' \<and> dev_inv s'
    \<and> ch9_abs s' = ch9_step (ch9_abs s) (request_of p)"
proof -
  have len: "length p = 8" using p by (simp add: in_spec_def)
  let ?w = "write_mem req p s"
  have cl: "change_list ?w = NULL" using inv by (simp add: dev_inv_def write_mem_device)
  note e = status_end_cases [OF cl, of fns req, unfolded packet_in_memory [OF len] Let_def]
  show ?thesis
  proof (cases "request_of p")
    case (Set_address a)
    then have q: "p ! 0 = 0" "p ! 1 = 5" "p ! 2 = a" "p ! 3 = 0" "a < 128"
      using p by (auto simp: in_spec_def request_of_def split: if_splits)
    then show ?thesis
      using e inv seven_bits [OF q(5)] value_of_byte [of a]
      by (auto simp: Set_address dev_inv_def ch9_abs_def write_mem_device usb_dev_get_address_def)
  next
    case (Set_configuration c)
    then have q: "p ! 0 = 0" "p ! 1 = 9" "p ! 2 = c" "p ! 3 = 0"
      using p by (auto simp: in_spec_def request_of_def split: if_splits)
    then show ?thesis
      using e inv value_of_byte [of c]
      by (auto simp: Set_configuration dev_inv_def ch9_abs_def write_mem_device usb_dev_get_address_def)
  next
    case Other_request
    then have q: "p ! 0 \<noteq> 0 \<or> p ! 1 \<noteq> 5 \<and> p ! 1 \<noteq> 9" by (auto simp: request_of_def split: if_splits)
    then have "usbdc_ctrl_status_end fns req ?w = Some ?w" using e by auto
    moreover have "ch9_step d Other_request = d" for d by (cases d) simp_all
    ultimately show ?thesis
      using inv by (simp add: Other_request dev_inv_def ch9_abs_def write_mem_device usb_dev_get_address_def)
  qed
qed



text \<open>
  Outside these ranges the two halves of the state part: a configuration of \<open>0x100\<close> leaves
  the device configured with the value 0, which is the one that closes all endpoints.
\<close>

lemma configured_without_configuration:
  fixes s :: "'a cdcdf_scheme"
  assumes "change_list s = NULL"
  shows "\<exists>s'. usbdc_ctrl_status_end fns req (write_mem req [0, 9, 0, 1, 0, 0, 0, 0] s) = Some s'
    \<and> dc_state s' = USBD_S_CONFIG \<and> cfg_value s' = 0"
proof -
  have cl: "change_list (write_mem req [0, 9, 0, 1, 0, 0, 0, 0] s) = NULL" using assms by (simp add: write_mem_device)
  note e = status_end_cases [OF cl, of fns req, unfolded Let_def]
  show ?thesis
    unfolding e using packet_in_memory [of "[0, 9, 0, 1, 0, 0, 0, 0]" req s] by simp
qed

end
