(* ===== verification/UsbSerial.thy ===== *)
theory UsbSerial
  imports UsbConfig
begin

text \<open>
  The serial port in use: what a write of the application sends to the host, and the
  endpoints that the configuration of the device opens.
\<close>

subsection \<open>Writing to the port\<close>

definition port_open :: "'a cdcdf_scheme \<Rightarrow> bool" where
  \<comment> \<open>the port is enabled and its data endpoint to the host has nothing to do\<close>
  "port_open s \<longleftrightarrow>
     (let j = usb_d_find_ep 0x81 s in
      cdc_enabled s \<and> func_ep_in s 1 = 0x81 \<and> cb_done s = Some Usb_d_cb_trans_done \<and> 0 \<le> j
      \<and> xtype (hal_ep s j) \<noteq> XTYPE_CTRL \<and> xstate (hal_ep s j) = USB_EP_S_IDLE \<and> in_free 0x81 (ept s 3))"

lemma only_transfers_dev:
  fixes s s' :: "'a cdcdf_scheme"
  assumes "only_transfers s s'"
  shows "hal_ep s' = hal_ep s" "dc_view s' = dc_view s"
proof -
  have e: "still s' = still s" using assms by (simp add: only_transfers_def)
  show "hal_ep s' = hal_ep s" using arg_cong [OF e, of hal_ep] by (simp add: still_def)
  show "dc_view s' = dc_view s" using arg_cong [OF e, of dc_view] by (simp add: still_def dc_view_def)
qed

lemma bulk_transfer:
  fixes s :: "'a cdcdf_scheme"
  assumes j: "j = usb_d_find_ep ep s" "0 \<le> j" and x: "xtype (hal_ep s j) \<noteq> XTYPE_CTRL" "xstate (hal_ep s j) = USB_EP_S_IDLE"
    and ep: "ep AND 0x80 \<noteq> 0"
  shows "usbdc_xfer call ep buf n zlp s =
     usb_dev_ep_trans call \<lparr>xf_buf = buf, xf_size = n, xf_ep = ep OR 0x80, xf_zlp = zlp\<rparr>
       (upd_hal j (\<lambda>e. e\<lparr>xstate := USB_EP_S_X_DATA\<rparr>) s)"
  using j x ep by (simp add: usbdc_xfer_def usb_d_ep_transfer_def usb_d_trans_def Let_def ep_get_dir_def)

lemma bulk_done:
  fixes s :: "'a cdcdf_scheme"
  assumes j: "j = usb_d_find_ep ep s" and x: "xtype (hal_ep s j) \<noteq> XTYPE_CTRL"
  shows "invoke_proc (usb_call user app (Suc m)) (Some Usb_d_cb_trans_done) (Cb_done ep USB_TRANS_DONE n) s =
     invoke_proc (usb_call user app m) (xfer_cb (hal_ep s j)) (Cb_xfer ep USB_XFER_DONE n)
       (upd_hal j (\<lambda>e. e\<lparr>xstatus := USB_XFER_DONE, xstate := USB_EP_S_IDLE\<rparr>) s)"
  using j x by (simp add: invoke_proc_def usb_d_cb_trans_done_def Let_def option.map_comp comp_def)

lemma find_ep_cong:
  "(\<And>i. xep (hal_ep s' i) = xep (hal_ep s i)) \<Longrightarrow> (\<And>i. xtype (hal_ep s' i) = xtype (hal_ep s i))
    \<Longrightarrow> usb_d_find_ep ep s' = usb_d_find_ep ep s"
proof -
  assume a: "\<And>i. xep (hal_ep s' i) = xep (hal_ep s i)" "\<And>i. xtype (hal_ep s' i) = xtype (hal_ep s i)"
  have "find_ep_loop ep is (hal_ep s') = find_ep_loop ep is (hal_ep s)" for "is"
    by (induction "is") (simp_all add: a)
  then show ?thesis by (simp add: usb_d_find_ep_def)
qed

lemma port_write_armed:
  fixes s :: "'a cdcdf_scheme"
  assumes op: "port_open s" and n: "0 < n" "n < 65536"
    and x: "x = \<lparr>xf_buf = buf, xf_size = n, xf_ep = 0x81, xf_zlp = True\<rparr>" and apart: "buffer_apart (started x (ept s 3))"
  shows "\<exists>s0. cdcdf_acm_write call buf n s = Some (ERR_NONE, s0) \<and> in_armed_at (started x (ept s 3)) (umem s) 3 0 s0
    \<and> only_transfers (upd_hal (usb_d_find_ep 0x81 s) (\<lambda>e. e\<lparr>xstate := USB_EP_S_X_DATA\<rparr>) s) s0"
proof -
  let ?j = "usb_d_find_ep 0x81 s"
  let ?s = "upd_hal ?j (\<lambda>e. e\<lparr>xstate := USB_EP_S_X_DATA\<rparr>) s"
  have o: "cdc_enabled s" "func_ep_in s 1 = 0x81" "0 \<le> ?j" "xtype (hal_ep s ?j) \<noteq> XTYPE_CTRL"
      "xstate (hal_ep s ?j) = USB_EP_S_IDLE" "in_free 0x81 (ept ?s 3)"
    using op by (simp_all add: port_open_def Let_def)
  have "cdcdf_acm_write call buf n s = usb_dev_ep_trans call x ?s"
    using o(1,2) bulk_transfer [OF refl o(3-5), of call buf n True] by (simp add: cdcdf_acm_write_def cdcdf_acm_is_enabled_def x)
  moreover have "ep_get_n (xf_ep x) \<le> MAX_EP_N" "ep_get_dir (xf_ep x)" "3 = dev_ept (ep_get_n (xf_ep x)) True"
      "in_free (xf_ep x) (ept ?s 3)" "0 < xf_size x" "xf_size x < 65536" "buffer_apart (started x (ept ?s 3))"
    using o(6) n apart by (simp_all add: x ep_get_n_def ep_get_dir_def dev_ept_def MAX_EP_N_def)
  ultimately show ?thesis using in_trans_armed [of x 3 ?s call] by (simp add: upd_hal_simps)
qed

lemma port_write_done:
  fixes s :: "'a cdcdf_scheme"
  assumes op: "port_open s" and x: "x = \<lparr>xf_buf = buf, xf_size = n, xf_ep = 0x81, xf_zlp = True\<rparr>"
    and ended: "in_ended (usb_call user app (Suc m)) (started x (ept s 3)) 3 s1"
    and fr: "only_transfers (upd_hal (usb_d_find_ep 0x81 s) (\<lambda>e. e\<lparr>xstate := USB_EP_S_X_DATA\<rparr>) s) s1"
  shows "\<exists>s2. in_next (usb_call user app (Suc m)) 3 True (host_takes 1 s1)
        = invoke_proc (usb_call user app m) (xfer_cb (hal_ep s (usb_d_find_ep 0x81 s))) (Cb_xfer 0x81 USB_XFER_DONE n) s2
    \<and> port_open s2"
proof -
  let ?call = "usb_call user app (Suc m)" and ?j = "usb_d_find_ep 0x81 s"
  let ?s = "upd_hal ?j (\<lambda>e. e\<lparr>xstate := USB_EP_S_X_DATA\<rparr>) s"
  have o: "cdc_enabled s" "func_ep_in s 1 = 0x81" "cb_done s = Some Usb_d_cb_trans_done" "0 \<le> ?j"
      "xtype (hal_ep s ?j) \<noteq> XTYPE_CTRL" "in_free 0x81 (ept s 3)"
    using op by (simp_all add: port_open_def Let_def)
  have e: "ep_addr (started x (ept s 3)) = 0x81" "trans_size (started x (ept s 3)) = n" "ep_get_n 0x81 = 1"
    using o(6) by (simp_all add: started_def in_free_def x ep_get_n_def)
  obtain s2 where s2: "in_next ?call 3 True (host_takes 1 s1) = invoke_proc ?call (cb_done s1) (Cb_done 0x81 USB_TRANS_DONE n) s2"
      "ept s2 3 = started x (ept s 3)\<lparr>trans_count := n, need_zlp := False, is_busy := False\<rparr>" "only_transfers s1 s2"
    using ended unfolding in_ended_def e by blast
  have free: "in_free 0x81 (ept s2 3)" using o(6) s2(2) by (simp add: in_free_def started_def)
  note t = only_transfers_trans [OF fr s2(3)]
  have fr2: "hal_ep s2 = hal_ep ?s" "dc_view s2 = dc_view s" using only_transfers_dev [OF t] by simp_all
  have view: "cdc_enabled s2 = cdc_enabled s" "func_ep_in s2 = func_ep_in s" using fr2(2) by (simp_all add: dc_view_def)
  have j2: "?j = usb_d_find_ep 0x81 s2" by (rule sym, rule find_ep_cong) (simp_all add: fr2)
  let ?e = "upd_hal ?j (\<lambda>e. e\<lparr>xstatus := USB_XFER_DONE, xstate := USB_EP_S_IDLE\<rparr>) s2"
  have "in_next ?call 3 True (host_takes 1 s1)
        = invoke_proc (usb_call user app m) (xfer_cb (hal_ep s ?j)) (Cb_xfer 0x81 USB_XFER_DONE n) ?e"
    using s2(1) only_transfers_cb [OF fr] bulk_done [OF j2, of user app m n] o(3,5) by (simp add: fr2)
  moreover have ej: "usb_d_find_ep 0x81 ?e = ?j" by (rule find_ep_cong) (simp_all add: fr2)
  have "port_open ?e"
    using ej o(1-5) free only_transfers_cb [OF t] view by (simp add: port_open_def Let_def fr2 upd_hal_def)
  ultimately show ?thesis by blast
qed

lemma packet_aligned: "(n AND ucast (size_mask 64) = (0 :: u32)) = (64 dvd unat n)"
proof -
  have m: "ucast (size_mask 64) = (0x3F :: u32)" by (simp add: size_mask_def)
  have "n AND 0x3F = take_bit 6 n" by (simp add: take_bit_eq_mask mask_eq_exp_minus_1)
  then have "unat (n AND 0x3F) = take_bit 6 (unat n)" by (simp only: unsigned_take_bit_eq)
  then have "unat (n AND 0x3F) = unat n mod 64" by (simp only: take_bit_eq_mod) simp
  then show ?thesis unfolding m by (simp only: word_unat_eq_iff dvd_eq_mod_eq_0) simp
qed

lemma port_transfer:
  fixes s :: "'a cdcdf_scheme"
  assumes op: "port_open s" and sz: "ep_size (ept s 3) = 64" and n: "n < 65536"
    and x: "x = \<lparr>xf_buf = buf, xf_size = n, xf_ep = 0x81, xf_zlp = True\<rparr>"
  shows "unat (trans_size (started x (ept s 3))) < 65536" "0 < ep_size (started x (ept s 3))"
    "ep_size (started x (ept s 3)) < 1023" "ep_addr (started x (ept s 3)) \<noteq> 0xFF" "is_busy (started x (ept s 3))"
    "ep_get_n (ep_addr (started x (ept s 3))) = 1" "trans_buf (started x (ept s 3)) = buf"
    "trans_size (started x (ept s 3)) = n" "need_zlp (started x (ept s 3)) = (64 dvd unat n)"
  using op sz n packet_aligned [of n]
  by (simp_all add: port_open_def Let_def started_def in_free_def x word_less_nat_alt ep_get_n_def)

text \<open>
  C4. A write to the open serial port reaches the host complete and terminated: the bytes
  the host receives are those of the buffer, in order, and the last packet is shorter than
  the endpoint's size (empty if the size is a multiple of it), so that the host sees the end
  of the text.  Then the port takes the next write, after the callback of the application,
  if there is one.
\<close>

theorem serial_write_reaches_host:
  fixes s :: "'a cdcdf_scheme"
  assumes op: "port_open s" and sz: "ep_size (ept s 3) = 64" and n: "0 < n" "n < 65536"
    and x: "x = \<lparr>xf_buf = buf, xf_size = n, xf_ep = 0x81, xf_zlp = True\<rparr>" and apart: "buffer_apart (started x (ept s 3))"
  shows "\<exists>s0 k d s1 s2. cdcdf_acm_write (usb_call user app (Suc m)) buf n s = Some (ERR_NONE, s0)
    \<and> in_run (usb_call user app (Suc m)) 3 k s0 = Some (d, s1)
    \<and> d @ bank_data 1 s1 = bytes_at (umem s) buf (unat n) \<and> (bank_data 1 s1 = [] \<or> \<not> 64 dvd unat n)
    \<and> in_next (usb_call user app (Suc m)) 3 True (host_takes 1 s1)
        = invoke_proc (usb_call user app m) (xfer_cb (hal_ep s (usb_d_find_ep 0x81 s))) (Cb_xfer 0x81 USB_XFER_DONE n) s2
    \<and> port_open s2"
proof -
  let ?call = "usb_call user app (Suc m)" and ?e = "started x (ept s 3)"
  note e = port_transfer [OF op sz n(2) x]
  obtain s0 where w: "cdcdf_acm_write ?call buf n s = Some (ERR_NONE, s0)" "in_armed_at ?e (umem s) 3 0 s0"
      "only_transfers (upd_hal (usb_d_find_ep 0x81 s) (\<lambda>e. e\<lparr>xstate := USB_EP_S_X_DATA\<rparr>) s) s0"
    using port_write_armed [OF op n x apart, of ?call] by blast
  obtain k d s1 where r: "in_run ?call 3 k s0 = Some (d, s1)" "d @ bank_data 1 s1 = bytes_at (umem s) buf (unat n)"
      "64 dvd unat n \<longrightarrow> bank_data 1 s1 = []" "in_ended ?call ?e 3 s1" "only_transfers s0 s1"
    using in_run_all [OF e(1-3) apart e(4,5) w(2), of ?call] unfolding e(6-9) by auto
  from port_write_done [OF op x r(4) only_transfers_trans [OF w(3) r(5)]] show ?thesis
    using w(1) r(1-3) by blast
qed

definition open_dev :: cdcdf where
  \<comment> \<open>the sample device with the data endpoint to the host open\<close>
  "open_dev = sample_dev\<lparr>hal_ep := (hal_ep sample_dev)(1 := zero_ep\<lparr>xtype := 2, xep := 0x81, xstate := USB_EP_S_IDLE\<rparr>)\<rparr>"

lemma open_dev_port: "usb_d_find_ep 0x81 open_dev = 1" "port_open open_dev"
proof -
  show e: "usb_d_find_ep 0x81 open_dev = 1"
    by (simp add: open_dev_def sample_dev_def usb_d_find_ep_def CONF_USB_D_NUM_EP_SP_def upt_rec)
  show "port_open open_dev"
    unfolding port_open_def Let_def e by (simp add: open_dev_def sample_dev_def in_free_def sample_ept_def)
qed

lemma sample_apart:
  assumes "xf_size x = n" "unat n \<le> 256" "xf_buf x = 0x20000A00"
  shows "buffer_apart (started x (sample_ept 3))"
proof -
  have "unat (ep_size (sample_ept 3)) \<le> unat (0x20000A00 + of_nat k - ep_cache (sample_ept 3))" if "k < unat n" for k
  proof -
    have "0x20000A00 + of_nat k - ep_cache (sample_ept 3) = of_nat (k + 0x140)" by (simp add: sample_ept_def)
    moreover have "unat (of_nat (k + 0x140) :: u32) = k + 0x140"
      using that assms(2) by (simp add: unat_of_nat del: of_nat_add)
    ultimately show ?thesis by (simp add: sample_ept_def del: of_nat_add)
  qed
  then show ?thesis using assms by (simp add: buffer_apart_def started_def)
qed

lemma serial_write_reaches_host_witness:
  "\<exists>s0 k d s1 s2. cdcdf_acm_write (usb_call no_user no_app 1) 0x20000A00 128 open_dev = Some (ERR_NONE, s0)
    \<and> in_run (usb_call no_user no_app 1) 3 k s0 = Some (d, s1) \<and> d = bytes_at (umem open_dev) 0x20000A00 128
    \<and> in_next (usb_call no_user no_app 1) 3 True (host_takes 1 s1) = Some s2 \<and> port_open s2"
proof -
  let ?x = "\<lparr>xf_buf = 0x20000A00, xf_size = 128, xf_ep = 0x81, xf_zlp = True\<rparr>"
  have e: "ept open_dev 3 = sample_ept 3" "ep_size (sample_ept 3) = 64" "xfer_cb (hal_ep open_dev 1) = None"
    by (simp_all add: open_dev_def sample_dev_def sample_ept_def zero_ep_def)
  have "buffer_apart (started ?x (ept open_dev 3))" unfolding e by (rule sample_apart [of _ 128]) simp_all
  from serial_write_reaches_host [OF open_dev_port(2) _ _ _ refl this, of no_user no_app 0] e
  obtain s0 k d s1 s2 where "cdcdf_acm_write (usb_call no_user no_app 1) 0x20000A00 128 open_dev = Some (ERR_NONE, s0)"
    "in_run (usb_call no_user no_app 1) 3 k s0 = Some (d, s1)"
    "d @ bank_data 1 s1 = bytes_at (umem open_dev) 0x20000A00 128" "bank_data 1 s1 = []"
    "in_next (usb_call no_user no_app 1) 3 True (host_takes 1 s1) = Some s2" "port_open s2"
    by (auto simp: open_dev_port(1) invoke_proc_def)
  then show ?thesis by auto
qed

end
