(* ===== verification/UsbOpen.thy ===== *)
theory UsbOpen
  imports UsbSerial
begin

text \<open>
  \<open>SET_CONFIGURATION\<close>: the device core walks the configuration's descriptors, the serial
  port takes its two interfaces and opens their endpoints.
\<close>

subsection \<open>Opening one endpoint\<close>

definition dc_rest :: "'a cdcdf_scheme \<Rightarrow> _" where
  \<comment> \<open>what opening endpoints leaves alone\<close>
  "dc_rest s = ((dev_dadd s, ls_fs s, dc_links s, dc_cb s, sof_list s, req_list s, change_list s, func_list s),
     (ctrl_buf s, dc_state s, cfg_value s, ctrl_size s, ifc_alt_map s),
     (func_iface s, cdc_enabled s, notify_state s, set_line_coding s), (cb_setup s, cb_done s, cb_more s))"

lemma dc_rest_frame [simp]:
  fixes s :: "'a cdcdf_scheme"
  shows "dc_rest (upd_ept i f s) = dc_rest s" "dc_rest (upd_epr n g s) = dc_rest s" "dc_rest (upd_bank n b h s) = dc_rest s"
    "dc_rest (upd_hal j e s) = dc_rest s" "dc_rest (s\<lparr>func_ep_in := p\<rparr>) = dc_rest s" "dc_rest (s\<lparr>func_ep_out := q\<rparr>) = dc_rest s"
  by (simp_all add: dc_rest_def upd_ept_def upd_epr_def upd_bank_def upd_hal_def)

definition eps_view :: "'a cdcdf_scheme \<Rightarrow> _" where
  "eps_view s = (umem s, func_ep_in s, func_ep_out s)"

lemma eps_view_frame [simp]:
  fixes s :: "'a cdcdf_scheme"
  shows "eps_view (upd_ept i f s) = eps_view s" "eps_view (upd_epr n g s) = eps_view s" "eps_view (upd_bank n b h s) = eps_view s"
    "eps_view (upd_hal j e s) = eps_view s"
  by (simp_all add: eps_view_def upd_ept_def upd_epr_def upd_bank_def upd_hal_def)

definition hpl_closed :: "u8 \<Rightarrow> 'a cdcdf_scheme \<Rightarrow> bool" where
  \<comment> \<open>the driver's endpoint is free and disabled, and its cache holds 64 bytes\<close>
  "hpl_closed ep s \<longleftrightarrow>
     (let n = ep_get_n ep; c = usb_ep_cfgs n in
      n \<le> MAX_EP_N \<and> ep_addr (ept s (dev_ept n (ep_get_dir ep))) = 0xFF
      \<and> epcfg (epr s n) AND (if ep_get_dir ep then 0x70 else 7) = 0
      \<and> (if ep_get_dir ep then cfg_i_cache c \<noteq> NULL \<and> 64 \<le> cfg_i_size c else cfg_cache c \<noteq> NULL \<and> 64 \<le> cfg_size c))"

definition opened :: "u8 \<Rightarrow> u8 \<Rightarrow> usb_d_dev_ep \<Rightarrow> usb_d_dev_ep" where
  "opened ep attr e = e\<lparr>ep_cache := (let c = usb_ep_cfgs (ep_get_n ep) in if ep_get_dir ep then cfg_i_cache c else cfg_cache c),
     ep_size := 64, eptype := attr + 1, is_stalled := False, need_zlp := False, use_cache := False, is_busy := False,
     ep_dir := False, ep_addr := ep\<rparr>"

lemma ep_init_opens:
  fixes s :: "'a cdcdf_scheme"
  assumes "usb_d_find_ep ep s < 0" and "usb_d_find_ep 0xFF s = j" "0 \<le> j" and c: "hpl_closed ep s"
    and "attr AND 3 = attr" "attr \<noteq> 0"
  shows "usb_d_ep_init ep attr 64 s
    = (0, upd_hal j (\<lambda>e. e\<lparr>xep := ep, xtype := attr\<rparr>) (upd_ept (dev_ept (ep_get_n ep) (ep_get_dir ep)) (opened ep attr) s))"
proof -
  have "opened ep attr = (\<lambda>e. e\<lparr>ep_cache := (if ep_get_dir ep then cfg_i_cache (usb_ep_cfgs (ep_get_n ep)) else cfg_cache (usb_ep_cfgs (ep_get_n ep))),
     ep_size := 64, eptype := attr + 1, is_stalled := False, need_zlp := False, use_cache := False, is_busy := False,
     ep_dir := False, ep_addr := ep\<rparr>)"
    by (simp add: opened_def fun_eq_iff Let_def)
  then show ?thesis
    using assms by (auto simp: usb_d_ep_init_def usb_dev_ep_init_def hpl_closed_def Let_def split: if_splits)
qed

lemma ep_enable_opens:
  fixes s :: "'a cdcdf_scheme"
  assumes "usb_d_find_ep ep s = j" "0 \<le> j" and n: "n = ep_get_n ep" "n \<le> MAX_EP_N" and i: "i = dev_ept n (ep_get_dir ep)"
    and e: "ep_addr (ept s i) = ep" "ep \<noteq> 0xFF" "eptype (ept s i) \<noteq> EPTYPE_CTRL"
    and cfg: "epcfg (epr s n) AND (if ep_get_dir ep then 0x70 else 7) = 0" and x: "xtype (hal_ep s j) \<noteq> XTYPE_CTRL"
  shows "\<exists>s'. usb_d_ep_enable ep s = (0, s') \<and> hal_ep s' = (hal_ep s)(j := (hal_ep s j)\<lparr>xstate := USB_EP_S_IDLE\<rparr>)
    \<and> ept s' = ept s \<and> dc_rest s' = dc_rest s \<and> eps_view s' = eps_view s
    \<and> (\<lambda>m. epcfg (epr s' m)) = (\<lambda>m. epcfg (epr s m))(n := epcfg (epr s n) OR
          (if ep_get_dir ep then push_bit 4 (eptype (ept s i)) AND 0x70 else eptype (ept s i) AND 7))"
proof -
  have c: "usb_d_find_ep ep s = j" "(j < 0) = False" "ep_get_n ep = n" "(MAX_EP_N < n) = False"
      "(xtype (hal_ep s j) = XTYPE_CTRL) = False"
    using assms by auto
  show ?thesis
  proof (cases "ep_get_dir ep")
    case True
    then have d: "dev_ept n True = i" using i by simp
    show ?thesis
      using e cfg True by (simp add: usb_d_ep_enable_def usb_dev_ep_enable_def Let_def c d usb_helpers set_pcksize_def fun_eq_iff)
  next
    case False
    then have d: "dev_ept n False = i" using i by simp
    show ?thesis
      using e cfg False by (simp add: usb_d_ep_enable_def usb_dev_ep_enable_def Let_def c d usb_helpers set_pcksize_def fun_eq_iff)
  qed
qed

subsection \<open>Installing the endpoints of an interface\<close>

lemma install_ep:
  fixes s :: "'a cdcdf_scheme"
  assumes d: "umem s (p + 2) = ep" "umem s (p + 3) = attr" "usb_get_u16 (umem s) (p + 4) = 64" "p \<noteq> NULL"
    and f: "usb_d_find_ep ep s < 0" "usb_d_find_ep 0xFF s = j" "0 \<le> j"
    and f2: "find_ep_loop ep [0..<CONF_USB_D_NUM_EP_SP] ((hal_ep s)(j := (hal_ep s j)\<lparr>xep := ep, xtype := attr\<rparr>)) = j"
    and c: "hpl_closed ep s" and attr: "attr AND 3 = attr" "attr \<noteq> 0" "ep \<noteq> 0xFF" "attr + 1 \<noteq> EPTYPE_CTRL"
  shows "\<exists>s'. install_eps k p d0 s =
      (case usb_find_ep_desc (umem s) (usb_desc_next (umem s) p) (eod d0) of
         None \<Rightarrow> None | Some q \<Rightarrow> install_eps k q (d0\<lparr>sod := p\<rparr>) s')
    \<and> hal_ep s' = (hal_ep s)(j := (hal_ep s j)\<lparr>xep := ep, xtype := attr, xstate := USB_EP_S_IDLE\<rparr>)
    \<and> (let i = dev_ept (ep_get_n ep) (ep_get_dir ep) in ept s' = (ept s)(i := opened ep attr (ept s i)))
    \<and> (\<lambda>m. epcfg (epr s' m)) = (\<lambda>m. epcfg (epr s m))(ep_get_n ep := epcfg (epr s (ep_get_n ep)) OR
          (if ep_get_dir ep then push_bit 4 (attr + 1) AND 0x70 else (attr + 1) AND 7))
    \<and> dc_rest s' = dc_rest s
    \<and> eps_view s' = (umem s, if ep_get_dir ep then (func_ep_in s)(k := ep) else func_ep_in s,
        if ep_get_dir ep then func_ep_out s else ep)"
proof -
  let ?n = "ep_get_n ep" and ?dir = "ep_get_dir ep"
  let ?i = "dev_ept ?n ?dir"
  let ?a = "upd_hal j (\<lambda>e. e\<lparr>xep := ep, xtype := attr\<rparr>) (upd_ept ?i (opened ep attr) s)"
  let ?b = "if ?dir then ?a\<lparr>func_ep_in := (func_ep_in ?a)(k := ep)\<rparr> else ?a\<lparr>func_ep_out := ep\<rparr>"
  note init = ep_init_opens [OF f c attr(1,2)]
  have h: "hal_ep ?b = (hal_ep s)(j := (hal_ep s j)\<lparr>xep := ep, xtype := attr\<rparr>)"
      "ept ?b = (ept s)(?i := opened ep attr (ept s ?i))" "epr ?b = epr s" "dc_rest ?b = dc_rest s"
      "eps_view ?b = (umem s, if ?dir then (func_ep_in s)(k := ep) else func_ep_in s, if ?dir then func_ep_out s else ep)"
    by (simp_all add: eps_view_def dc_rest_def upd_ept_def upd_hal_def)
  have n: "?n \<le> MAX_EP_N" "epcfg (epr s ?n) AND (if ?dir then 0x70 else 7) = 0" using c by (simp_all add: hpl_closed_def Let_def)
  have "usb_d_find_ep ep ?b = j" using f2 by (simp add: usb_d_find_ep_def h(1))
  then obtain s' where s': "usb_d_ep_enable ep ?b = (0, s')" "hal_ep s' = (hal_ep ?b)(j := (hal_ep ?b j)\<lparr>xstate := USB_EP_S_IDLE\<rparr>)"
      "ept s' = ept ?b" "dc_rest s' = dc_rest ?b" "eps_view s' = eps_view ?b"
      "(\<lambda>m. epcfg (epr s' m)) = (\<lambda>m. epcfg (epr ?b m))(?n := epcfg (epr ?b ?n) OR
          (if ?dir then push_bit 4 (eptype (ept ?b ?i)) AND 0x70 else eptype (ept ?b ?i) AND 7))"
    using ep_enable_opens [of ep ?b j ?n ?i] f(3) n attr h(1-3) by (auto simp: opened_def)
  have "umem s' = umem s" using s'(5) h(5) by (simp add: eps_view_def)
  then have "install_eps k p d0 s =
      (case usb_find_ep_desc (umem s) (usb_desc_next (umem s) p) (eod d0) of
         None \<Rightarrow> None | Some q \<Rightarrow> install_eps k q (d0\<lparr>sod := p\<rparr>) s')"
    using d init s'(1)
    by (subst install_eps.simps, cases ?dir) (simp_all add: ep_get_dir_def [symmetric] Let_def split: option.splits)
  with s' show ?thesis unfolding h by (intro exI [of _ s']) (simp add: h opened_def)
qed

subsection \<open>The serial port's descriptors\<close>

definition descs_in_memory :: "'a cdcdf_scheme \<Rightarrow> bool" where
  "descs_in_memory s \<longleftrightarrow> descs_at (umem s) single_desc_bytes cdcd_acm_desces_ls_fs (eod single_desc)"

lemma descs_at_drop: "descs_at m p (d # ds) e \<Longrightarrow> descs_at m (p + of_nat (length d)) ds e"
  by simp

lemmas desc_bytes_defs = cdcd_acm_desces_ls_fs_def cdcd_acm_dev_desc_def cdcd_acm_cfg_desc_def
  cdcd_acm_comm_iface_desces_def cdcd_acm_data_iface_desces_def usb_dev_desc_bytes_def usb_config_desc_bytes_def
  usb_iface_desc_bytes_def usb_endp_desc_bytes_def usb_cdc_hdr_desc_bytes_def usb_cdc_call_mgmt_desc_bytes_def
  usb_cdc_acm_desc_bytes_def usb_cdc_union_desc_bytes_def le16_def

lemma desc_table: "cdcd_acm_desces_ls_fs =
  [[18, 1, 0, 2, 2, 0, 0, 64, 0xEB, 3, 4, 0x24, 0, 1, 0, 0, 0, 1], [9, 2, 67, 0, 2, 1, 0, 0x80, 0x32],
   [9, 4, 0, 0, 1, 2, 2, 0, 0], [5, 0x24, 0, 1, 0x10], [5, 0x24, 1, 1, 0], [4, 0x24, 2, 2], [5, 0x24, 6, 0, 1],
   [7, 5, 0x82, 3, 64, 0, 10], [9, 4, 1, 0, 2, 0x0A, 0, 0, 0], [7, 5, 1, 2, 64, 0, 0], [7, 5, 0x81, 2, 64, 0, 0]]"
  by (simp add: desc_bytes_defs)

lemma desc_ends: "single_desc_bytes = 0x20000E40" "sod single_desc = 0x20000E40" "eod single_desc = 0x20000E95"
  by (simp_all add: single_desc_def single_desc_bytes_def desc_table)

lemma desc_places:
  assumes "descs_in_memory s"
  defines "L \<equiv> cdcd_acm_desces_ls_fs" and "E \<equiv> 0x20000E95"
  shows "descs_at (umem s) 0x20000E40 L E" "descs_at (umem s) 0x20000E52 (drop 1 L) E" "descs_at (umem s) 0x20000E5B (drop 2 L) E"
    "descs_at (umem s) 0x20000E77 (drop 7 L) E" "descs_at (umem s) 0x20000E7E (drop 8 L) E" "descs_at (umem s) 0x20000E87 (drop 9 L) E"
    "descs_at (umem s) 0x20000E8E (drop 10 L) E" "descs_at (umem s) 0x20000E95 [] E"
proof -
  have *: "descs_at (umem s) 0x20000E40 L E" using assms by (simp add: descs_in_memory_def desc_ends)
  then show "descs_at (umem s) 0x20000E40 L E" .
  then show "descs_at (umem s) 0x20000E52 (drop 1 L) E" "descs_at (umem s) 0x20000E5B (drop 2 L) E"
    "descs_at (umem s) 0x20000E77 (drop 7 L) E" "descs_at (umem s) 0x20000E7E (drop 8 L) E"
    "descs_at (umem s) 0x20000E87 (drop 9 L) E" "descs_at (umem s) 0x20000E8E (drop 10 L) E" "descs_at (umem s) 0x20000E95 [] E"
    unfolding L_def E_def desc_table by simp_all
qed

lemma desc_byte: "descs_at m p (d # ds) e \<Longrightarrow> k < length d \<Longrightarrow> m (p + of_nat k) = d ! k"
  by simp

lemma desc_bytes:
  assumes "descs_in_memory s"
  shows "umem s 0x20000E52 = 9" "umem s 0x20000E53 = 2" "umem s 0x20000E54 = 67" "umem s 0x20000E55 = 0" "umem s 0x20000E57 = 1"
    "umem s 0x20000E5D = 0" "umem s 0x20000E60 = 2" "umem s 0x20000E80 = 1" "umem s 0x20000E83 = 0x0A"
    "umem s 0x20000E79 = 0x82" "umem s 0x20000E7A = 3" "usb_get_u16 (umem s) 0x20000E7B = 64"
    "umem s 0x20000E89 = 1" "umem s 0x20000E8A = 2" "usb_get_u16 (umem s) 0x20000E8B = 64"
    "umem s 0x20000E90 = 0x81" "umem s 0x20000E91 = 2" "usb_get_u16 (umem s) 0x20000E92 = 64"
proof -
  note p = desc_places [OF assms]
  have c: "descs_at (umem s) 0x20000E52 ([9, 2, 67, 0, 2, 1, 0, 0x80, 0x32] # drop 2 cdcd_acm_desces_ls_fs) 0x20000E95"
    using p(2) by (simp add: desc_table)
  show "umem s 0x20000E52 = 9" "umem s 0x20000E53 = 2" "umem s 0x20000E54 = 67" "umem s 0x20000E55 = 0" "umem s 0x20000E57 = 1"
    using desc_byte [OF c, of 0] desc_byte [OF c, of 1] desc_byte [OF c, of 2] desc_byte [OF c, of 3] desc_byte [OF c, of 5]
    by simp_all
  have i: "descs_at (umem s) 0x20000E5B ([9, 4, 0, 0, 1, 2, 2, 0, 0] # drop 3 cdcd_acm_desces_ls_fs) 0x20000E95"
    using p(3) by (simp add: desc_table)
  show "umem s 0x20000E5D = 0" "umem s 0x20000E60 = 2" using desc_byte [OF i, of 2] desc_byte [OF i, of 5] by simp_all
  have d: "descs_at (umem s) 0x20000E7E ([9, 4, 1, 0, 2, 0x0A, 0, 0, 0] # drop 9 cdcd_acm_desces_ls_fs) 0x20000E95"
    using p(5) by (simp add: desc_table)
  show "umem s 0x20000E80 = 1" "umem s 0x20000E83 = 0x0A" using desc_byte [OF d, of 2] desc_byte [OF d, of 5] by simp_all
  have ep: "umem s (q + 2) = addr \<and> umem s (q + 3) = attr \<and> usb_get_u16 (umem s) (q + 4) = 64"
    if "descs_at (umem s) q ([7, 5, addr, attr, 64, 0, x] # ds) e" for q addr attr x ds e
    using desc_byte [OF that, of 2] desc_byte [OF that, of 3] desc_byte [OF that, of 4] desc_byte [OF that, of 5]
    by (simp add: usb_get_u16_def add.assoc)
  have e: "descs_at (umem s) 0x20000E77 ([7, 5, 0x82, 3, 64, 0, 10] # drop 8 cdcd_acm_desces_ls_fs) 0x20000E95"
      "descs_at (umem s) 0x20000E87 ([7, 5, 1, 2, 64, 0, 0] # drop 10 cdcd_acm_desces_ls_fs) 0x20000E95"
      "descs_at (umem s) 0x20000E8E ([7, 5, 0x81, 2, 64, 0, 0] # drop 11 cdcd_acm_desces_ls_fs) 0x20000E95"
    using p(4,6,7) by (simp_all add: desc_table)
  show "umem s 0x20000E79 = 0x82" "umem s 0x20000E7A = 3" "usb_get_u16 (umem s) 0x20000E7B = 64"
    "umem s 0x20000E89 = 1" "umem s 0x20000E8A = 2" "usb_get_u16 (umem s) 0x20000E8B = 64"
    "umem s 0x20000E90 = 0x81" "umem s 0x20000E91 = 2" "usb_get_u16 (umem s) 0x20000E92 = 64"
    using ep [OF e(1)] ep [OF e(2)] ep [OF e(3)] by simp_all
qed

lemma desc_walks:
  assumes "descs_in_memory s"
  defines "m \<equiv> umem s" and "E \<equiv> 0x20000E95 :: ptr"
  shows "usb_find_cfg_desc m 0x20000E40 E 1 = Some 0x20000E52" "ucast (usb_cfg_desc_total_len m 0x20000E52) = (67 :: u32)"
    "usb_find_desc m 0x20000E52 E 4 = Some 0x20000E5B" "usb_find_desc m 0x20000E5B E 5 = Some 0x20000E77"
    "usb_desc_next m 0x20000E77 = 0x20000E7E" "usb_find_ep_desc m 0x20000E7E E = Some NULL"
    "usb_find_desc m 0x20000E7E E 4 = Some 0x20000E7E" "usb_find_desc m 0x20000E7E E 5 = Some 0x20000E87"
    "usb_desc_next m 0x20000E87 = 0x20000E8E" "usb_find_ep_desc m 0x20000E8E E = Some 0x20000E8E"
    "usb_desc_next m 0x20000E8E = E" "usb_find_ep_desc m E E = Some NULL" "usb_find_desc m E E 4 = Some NULL"
proof -
  note p = desc_places [OF assms(1), folded m_def E_def] and b = desc_bytes [OF assms(1), folded m_def]
  have "usb_find_desc m 0x20000E40 E 2 = Some 0x20000E52" using find_desc_descs [OF p(1)] by (simp add: desc_table)
  then show "usb_find_cfg_desc m 0x20000E40 E 1 = Some 0x20000E52"
    using b by (simp add: usb_find_cfg_desc_def cfg_loop.simps usb_desc_len_def E_def)
  show "ucast (usb_cfg_desc_total_len m 0x20000E52) = (67 :: u32)"
    using b by (simp add: usb_cfg_desc_total_len_def usb_get_u16_def)
  show "usb_find_desc m 0x20000E52 E 4 = Some 0x20000E5B" using find_desc_descs [OF p(2)] by (simp add: desc_table)
  show "usb_find_desc m 0x20000E5B E 5 = Some 0x20000E77" using find_desc_descs [OF p(3)] by (simp add: desc_table)
  show "usb_find_ep_desc m 0x20000E7E E = Some NULL" using find_ep_desc_descs [OF p(5)] by (simp add: desc_table)
  show "usb_find_desc m 0x20000E7E E 4 = Some 0x20000E7E" "usb_find_desc m 0x20000E7E E 5 = Some 0x20000E87"
    using find_desc_descs [OF p(5)] by (simp_all add: desc_table)
  show "usb_find_ep_desc m 0x20000E8E E = Some 0x20000E8E" using find_ep_desc_descs [OF p(7)] by (simp add: desc_table)
  show "usb_find_ep_desc m E E = Some NULL" "usb_find_desc m E E 4 = Some NULL"
    by (simp_all add: usb_find_ep_desc.simps usb_find_desc.simps)
  have nx: "usb_desc_next m q = q + of_nat (length d)" if "descs_at m q (d # ds) E" for q d ds
    by (rule descs_at_head(4) [OF that])
  show "usb_desc_next m 0x20000E77 = 0x20000E7E" "usb_desc_next m 0x20000E87 = 0x20000E8E" "usb_desc_next m 0x20000E8E = E"
    using nx [of "0x20000E77" "[7, 5, 0x82, 3, 64, 0, 10]" "drop 8 cdcd_acm_desces_ls_fs"]
      nx [of "0x20000E87" "[7, 5, 1, 2, 64, 0, 0]" "drop 10 cdcd_acm_desces_ls_fs"]
      nx [of "0x20000E8E" "[7, 5, 0x81, 2, 64, 0, 0]" "drop 11 cdcd_acm_desces_ls_fs"] p(4,6,7)
    unfolding E_def by (simp_all add: desc_table)
qed

subsection \<open>Enabling the port\<close>

definition unconfigured :: "'a cdcdf_scheme \<Rightarrow> bool" where
  \<comment> \<open>the device is started, and only endpoint 0 is open\<close>
  "unconfigured s \<longleftrightarrow> descs_in_memory s \<and> ls_fs s = Some single_desc \<and> func_list s = cdcdf_acm_drv
     \<and> dc_cb s cdcdf_acm_drv = Some Cdcdf_acm_ctrl \<and> func_iface s 0 = 0xFF \<and> func_iface s 1 = 0xFF
     \<and> xep (hal_ep s 0) = 0 \<and> list_all (\<lambda>i. xep (hal_ep s i) = 0xFF) [1, 2, 3, 4, 5]
     \<and> list_all (\<lambda>i. ep_addr (ept s i) = 0xFF) [1, 3, 4] \<and> epcfg (epr s 1) = 0 \<and> epcfg (epr s 2) = 0"

lemma ep_table: "[0..<CONF_USB_D_NUM_EP_SP] = [0, 1, 2, 3, 4, 5]"
  by (simp add: CONF_USB_D_NUM_EP_SP_def upt_rec)

lemma find_in_table: "usb_d_find_ep ep s = find_ep_loop ep [0, 1, 2, 3, 4, 5] (hal_ep s)"
  by (simp only: usb_d_find_ep_def ep_table)

definition hal_open :: "u8 \<Rightarrow> u8 \<Rightarrow> usb_d_ep \<Rightarrow> usb_d_ep" where
  "hal_open ep attr e = e\<lparr>xep := ep, xtype := attr, xstate := USB_EP_S_IDLE\<rparr>"

lemma ep_numbers: "ep_get_n 0x82 = 2" "ep_get_n 0x81 = 1" "ep_get_n 1 = 1"
  by code_simp+

lemma ep_directions: "ep_get_dir 0x82" "ep_get_dir 0x81" "\<not> ep_get_dir 1"
  by code_simp+

lemma ept_parts:
  "dev_ept 2 True = 4" "dev_ept 1 True = 3" "dev_ept 1 False = 1"
  by (simp_all add: dev_ept_def MAX_EP_N_def)

lemmas parts [simp] = ep_numbers ep_directions ept_parts

definition opened_from :: "'a cdcdf_scheme \<Rightarrow> 'a cdcdf_scheme \<Rightarrow> bool" where
  \<comment> \<open>the port's interfaces and endpoints have been taken, and nothing else has changed\<close>
  "opened_from s s' \<longleftrightarrow>
     hal_ep s' = (hal_ep s)(1 := hal_open 0x82 3 (hal_ep s 1), 2 := hal_open 1 2 (hal_ep s 2), 3 := hal_open 0x81 2 (hal_ep s 3))
     \<and> ept s' = (ept s)(4 := opened 0x82 3 (ept s 4), 1 := opened 1 2 (ept s 1), 3 := opened 0x81 2 (ept s 3))
     \<and> dc_rest s' = dc_rest (s\<lparr>func_iface := (func_iface s)(0 := 0, 1 := 1), cdc_enabled := True\<rparr>)
     \<and> eps_view s' = (umem s, (func_ep_in s)(0 := 0x82, 1 := 0x81), 1) \<and> epcfg (epr s' 0) = epcfg (epr s 0)"

lemma acm_enabled:
  fixes s :: "'a cdcdf_scheme"
  assumes u: "unconfigured s"
  shows "\<exists>s'. cdcdf_acm_enable \<lparr>sod = 0x20000E5B, eod = 0x20000E95\<rparr> s
      = Some (ERR_NONE, \<lparr>sod = 0x20000E8E, eod = 0x20000E95\<rparr>, s') \<and> opened_from s s'"
proof -
  have h: "descs_in_memory s" "func_iface s 0 = 0xFF" "func_iface s 1 = 0xFF" "xep (hal_ep s 0) = 0"
      "xep (hal_ep s 1) = 0xFF" "xep (hal_ep s 2) = 0xFF" "xep (hal_ep s 3) = 0xFF" "xep (hal_ep s 4) = 0xFF"
      "xep (hal_ep s 5) = 0xFF" "ep_addr (ept s 1) = 0xFF" "ep_addr (ept s 3) = 0xFF" "ep_addr (ept s 4) = 0xFF"
      "epcfg (epr s 1) = 0" "epcfg (epr s 2) = 0"
    using u by (simp_all add: unconfigured_def)
  note w = desc_walks [OF h(1)] and b = desc_bytes [OF h(1)]
  let ?E = "0x20000E95 :: ptr"
  let ?a = "s\<lparr>func_iface := (func_iface s)(0 := 0)\<rparr>"
  have c1: "hpl_closed 0x82 ?a" using h by (simp add: hpl_closed_def usb_ep_cfgs_def MAX_EP_N_def)
  have f1: "usb_d_find_ep 0x82 ?a < 0" "usb_d_find_ep 0xFF ?a = 1"
    using h by (simp_all add: find_in_table)
  obtain s1 where s1: "install_eps 0 0x20000E77 \<lparr>sod = 0x20000E5B, eod = ?E\<rparr> ?a
        = Some (ERR_NONE, \<lparr>sod = 0x20000E77, eod = ?E\<rparr>, s1)"
      "hal_ep s1 = (hal_ep s)(1 := hal_open 0x82 3 (hal_ep s 1))" "ept s1 = (ept s)(4 := opened 0x82 3 (ept s 4))"
      "(\<lambda>m. epcfg (epr s1 m)) = (\<lambda>m. epcfg (epr s m))(2 := 0x40)" "dc_rest s1 = dc_rest ?a"
      "eps_view s1 = (umem s, (func_ep_in s)(0 := 0x82), func_ep_out s)"
    using install_ep [of ?a "0x20000E77" "0x82" 3 1 0 "\<lparr>sod = 0x20000E5B, eod = ?E\<rparr>"] b w c1 f1 h
    by (auto simp: ep_table hal_open_def install_eps.simps)
  let ?b = "s1\<lparr>func_iface := (func_iface s1)(1 := 1)\<rparr>"
  have cfg1: "epcfg (epr s1 1) = 0" "epcfg (epr s1 0) = epcfg (epr s 0)"
    using fun_cong [OF s1(4), of 1] fun_cong [OF s1(4), of 0] h by simp_all
  have c2: "hpl_closed 1 ?b" using h s1(3) cfg1 by (simp add: hpl_closed_def usb_ep_cfgs_def MAX_EP_N_def)
  have m1: "umem s1 = umem s" using s1(6) by (simp add: eps_view_def)
  have f2: "usb_d_find_ep 1 ?b < 0" "usb_d_find_ep 0xFF ?b = 2"
    using h by (simp_all add: find_in_table s1(2) hal_open_def)
  obtain s2 where s2: "install_eps 1 0x20000E87 \<lparr>sod = 0x20000E77, eod = ?E\<rparr> ?b
        = install_eps 1 0x20000E8E \<lparr>sod = 0x20000E87, eod = ?E\<rparr> s2"
      "hal_ep s2 = (hal_ep s1)(2 := hal_open 1 2 (hal_ep s 2))" "ept s2 = (ept s1)(1 := opened 1 2 (ept s 1))"
      "(\<lambda>m. epcfg (epr s2 m)) = (\<lambda>m. epcfg (epr s1 m))(1 := 3)" "dc_rest s2 = dc_rest ?b"
      "eps_view s2 = (umem s, (func_ep_in s)(0 := 0x82), 1)"
    using install_ep [of ?b "0x20000E87" 1 2 2 1 "\<lparr>sod = 0x20000E77, eod = ?E\<rparr>"] b w c2 f2 h s1 m1 cfg1
    by (auto simp: ep_table hal_open_def eps_view_def)
  have cfg2: "epcfg (epr s2 1) = 3" "epcfg (epr s2 0) = epcfg (epr s 0)"
    using fun_cong [OF s2(4), of 1] fun_cong [OF s2(4), of 0] cfg1 by simp_all
  have c3: "hpl_closed 0x81 s2" using h s1(3) s2(3) cfg2 by (simp add: hpl_closed_def usb_ep_cfgs_def MAX_EP_N_def)
  have m2: "umem s2 = umem s" using s2(6) by (simp add: eps_view_def)
  have f3: "usb_d_find_ep 0x81 s2 < 0" "usb_d_find_ep 0xFF s2 = 3"
    using h by (simp_all add: find_in_table s1(2) s2(2) hal_open_def)
  obtain s3 where s3: "install_eps 1 0x20000E8E \<lparr>sod = 0x20000E87, eod = ?E\<rparr> s2
        = Some (ERR_NONE, \<lparr>sod = 0x20000E8E, eod = ?E\<rparr>, s3)"
      "hal_ep s3 = (hal_ep s2)(3 := hal_open 0x81 2 (hal_ep s 3))" "ept s3 = (ept s2)(3 := opened 0x81 2 (ept s 3))"
      "(\<lambda>m. epcfg (epr s3 m)) = (\<lambda>m. epcfg (epr s2 m))(1 := 3 OR 0x30)" "dc_rest s3 = dc_rest s2"
      "eps_view s3 = (umem s, (func_ep_in s)(0 := 0x82, 1 := 0x81), 1)"
    using install_ep [of s2 "0x20000E8E" "0x81" 2 3 1 "\<lparr>sod = 0x20000E87, eod = ?E\<rparr>"] b w c3 f3 h s1 s2 m1 m2 cfg2
    by (auto simp: ep_table hal_open_def eps_view_def install_eps.simps)
  have m3: "umem s3 = umem s" using s3(6) by (simp add: eps_view_def)
  let ?s = "s3\<lparr>cdc_enabled := True\<rparr>"
  have i1: "func_iface s1 = (func_iface s)(0 := 0)" using s1(5) by (simp add: dc_rest_def)
  have "cdcdf_acm_enable \<lparr>sod = 0x20000E5B, eod = ?E\<rparr> s = Some (ERR_NONE, \<lparr>sod = 0x20000E8E, eod = ?E\<rparr>, ?s)"
    using b w h i1 m1 m3 s1(1) s2(1) s3(1) by (simp add: cdcdf_acm_enable_def Let_def)
  moreover have "dc_rest ?s = dc_rest (s\<lparr>func_iface := (func_iface s)(0 := 0, 1 := 1), cdc_enabled := True\<rparr>)"
    using s1(5) s2(5) s3(5) by (auto simp: dc_rest_def)
  moreover have "epcfg (epr ?s 0) = epcfg (epr s 0)" using fun_cong [OF s3(4), of 0] cfg2 by simp
  moreover have "eps_view ?s = (umem s, (func_ep_in s)(0 := 0x82, 1 := 0x81), 1)" using s3(6) by (simp add: eps_view_def)
  ultimately show ?thesis using s1(2,3) s2(2,3) s3(2,3) by (intro exI [of _ ?s]) (simp add: opened_from_def)
qed

lemma set_config_opens:
  fixes s :: "'a cdcdf_scheme"
  assumes u: "unconfigured s"
  shows "\<exists>s'. usbdc_set_config (stack_fns user app call) 1 s = Some (True, s') \<and> opened_from s s'"
proof -
  have h: "descs_in_memory s" "ls_fs s = Some single_desc" "func_list s = cdcdf_acm_drv" "dc_cb s cdcdf_acm_drv = Some Cdcdf_acm_ctrl"
    using u by (simp_all add: unconfigured_def)
  note w = desc_walks [OF h(1)] and b = desc_bytes [OF h(1)]
  let ?fns = "stack_fns user app call" and ?d = "\<lparr>sod = 0x20000E5B, eod = 0x20000E95\<rparr>"
  obtain s' where s': "cdcdf_acm_enable ?d s = Some (ERR_NONE, \<lparr>sod = 0x20000E8E, eod = 0x20000E95\<rparr>, s')" "opened_from s s'"
    using acm_enabled [OF u] by blast
  have m: "umem s' = umem s" using s'(2) by (simp add: opened_from_def eps_view_def)
  have "cdcdf_acm_drv \<noteq> NULL" by (simp add: cdcdf_acm_drv_def)
  then have "enable_funcs ?fns cdcdf_acm_drv ?d s = Some (\<lparr>sod = 0x20000E8E, eod = 0x20000E95\<rparr>, s')"
    using h(4) s'(1) by (simp add: enable_funcs.simps stack_fns_def cdcdf_acm_ctrl_def)
  then have "set_config_loop ?fns 0xFF ?d s = Some s'"
    using b w h(3) m by (subst set_config_loop.simps) (simp add: Let_def set_config_loop.simps)
  then have "usbdc_set_config ?fns 1 s = Some (True, s')"
    using w h(2) by (simp add: usbdc_set_config_def descs_def desc_ends Let_def)
  then show ?thesis using s'(2) by blast
qed

lemma descs_at_memory:
  "descs_at m p ds e \<Longrightarrow> (\<And>q. p \<le> q \<Longrightarrow> q < e \<Longrightarrow> m' q = m q) \<Longrightarrow> descs_at m' p ds e"
proof (induction ds arbitrary: p)
  case (Cons d ds)
  let ?p = "p + of_nat (length d)"
  have tail: "descs_at m ?p ds e" using Cons.prems(1) by simp
  note u = descs_at_head(5) [OF Cons.prems(1)]
  have le: "unat ?p \<le> unat e" using descs_at_le [OF tail] by (simp add: word_le_nat_alt)
  have "m' (p + of_nat k) = m (p + of_nat k)" if k: "k < length d" for k
  proof (rule Cons.prems(2))
    have "unat p + k < 4294967296" using Cons.prems(1) k by simp
    then have "unat (p + of_nat k) = unat p + k" using k by (simp add: unat_word_ariths unat_of_nat)
    then show "p \<le> p + of_nat k" "p + of_nat k < e" using k u le by (simp_all add: word_le_nat_alt word_less_nat_alt)
  qed
  moreover have "descs_at m' ?p ds e"
    by (rule Cons.IH [OF tail], rule Cons.prems(2)) (use u in \<open>simp_all add: word_le_nat_alt\<close>)
  ultimately show ?case using Cons.prems(1) by simp
qed simp

subsection \<open>The request\<close>

lemma setup_read_eps:
  fixes s :: "'a cdcdf_scheme"
  shows "epcfg (epr (setup_read s) n) = epcfg (epr s n)" "ep_addr (ept (setup_read s) i) = ep_addr (ept s i)"
    "hal_ep (setup_read s) = (hal_ep s)(0 := (hal_ep s 0)\<lparr>xstate := USB_EP_S_IDLE\<rparr>)"
proof -
  let ?c = "setup_clear 0 s"
  let ?m = "ep_ack_setup 0 (memcpy (xfer_req 0) (bk_addr (bank s 0 False)) 8 ?c)"
  let ?t = "stall_both 0 USB_EP_STALL_CLR ?m"
  have u: "undisturbed s ?c" "undisturbed ?m ?t" by simp_all
  have "epcfg (epr ?t n) = epcfg (epr ?m n)" "ep_cfg (ept ?t i) = ep_cfg (ept ?m i)" using u(2) by (simp_all add: undisturbed_def)
  moreover have "epcfg (epr ?m n) = epcfg (epr s n)" "ep_cfg (ept ?m i) = ep_cfg (ept s i)"
    using u(1) by (simp_all add: undisturbed_def ep_ack_setup_def ep_int_ack_def)
  ultimately show "epcfg (epr (setup_read s) n) = epcfg (epr s n)" "ep_addr (ept (setup_read s) i) = ep_addr (ept s i)"
    by (simp_all add: setup_read_def ep_cfg_def)
  show "hal_ep (setup_read s) = (hal_ep s)(0 := (hal_ep s 0)\<lparr>xstate := USB_EP_S_IDLE\<rparr>)"
    by (simp add: setup_read_def ep_ack_setup_def ep_int_ack_def)
qed

lemma unconfigured_setup_read:
  fixes s :: "'a cdcdf_scheme"
  assumes "ep0_ok s" and "unconfigured s"
  shows "unconfigured (setup_read s)"
proof -
  have "umem (setup_read s) q = umem s q" if "single_desc_bytes \<le> q" "q < eod single_desc" for q
  proof -
    have "unat (q - 0x20000C0C) = unat q - 0x20000C0C" "0x20000E40 \<le> unat q"
      using that by (simp_all add: desc_ends unat_sub word_le_nat_alt)
    then have "\<not> unat (q - 0x20000C0C) < 8" by linarith
    then show ?thesis by (simp add: setup_read_spec(4) [OF assms(1)] req_addr)
  qed
  then have "descs_in_memory (setup_read s)"
    using descs_at_memory assms(2) unfolding unconfigured_def descs_in_memory_def by blast
  then show ?thesis
    using assms(2) setup_read_spec(3) [OF assms(1)] by (simp add: unconfigured_def setup_read_eps dc_view_def)
qed

lemma set_configuration_setup:
  fixes s :: "'a cdcdf_scheme"
  assumes ok: "ep0_ok s" "dc_ok s" "setup_pending s" and pk: "packet s = [0, 9, 1, 0, 0, 0, 0, 0]" and u: "unconfigured s"
  shows "\<exists>s0 s1. handle_setup (usb_call user app (Suc (Suc n))) 0 s = Some s1 \<and> opened_from (setup_read s) s0 \<and> ep0_ok s0
    \<and> undisturbed (upd_hal 0 (\<lambda>e. e\<lparr>xstate := USB_EP_S_X_STATUS\<rparr>) s0) s1 \<and> status_in s1 \<and> (\<forall>i. i \<noteq> 0 \<longrightarrow> ept s1 i = ept s0 i)"
proof -
  let ?r = "setup_read s" and ?req = "xfer_req 0" and ?call = "usb_call user app n"
  let ?fns = "stack_fns user app ?call"
  note r = setup_read_spec(1-3,5,6) [OF ok(1)] and f = request_fields [OF ok(1), unfolded pk, simplified]
  have dcr: "dc_ok ?r" using dc_ok_view [OF r(3)] ok(2) by simp
  have rh: "usbdc_request_handler ?fns 0 ?req USB_SETUP_STAGE ?r = Some (0, ?r)"
    using handler_passes_standard [OF dcr] f by simp
  obtain s0 where s0: "usbdc_set_config ?fns 1 ?r = Some (True, s0)" "opened_from ?r s0"
    using set_config_opens [OF unconfigured_setup_read [OF ok(1) u], of user app ?call] by blast
  have m0: "umem s0 = umem ?r" using s0(2) by (simp add: opened_from_def eps_view_def)
  have ok0: "ep0_ok s0" and x0: "xstate (hal_ep s0 0) = USB_EP_S_IDLE"
    and e0: "\<not> is_busy (ept s0 0)" "\<not> is_stalled (ept s0 0)"
    using r s0(2) by (simp_all add: opened_from_def ep0_ok_def dc_rest_def)
  obtain s1 where s1: "usbdc_xfer ?call 0 NULL 0 True s0 = Some (ERR_NONE, s1)"
      "undisturbed (upd_hal 0 (\<lambda>e. e\<lparr>xstate := USB_EP_S_X_STATUS\<rparr>) s0) s1" "status_in s1" "\<forall>i. i \<noteq> 0 \<longrightarrow> ept s1 i = ept s0 i"
    using answer_no_data [OF ok0 x0 f(5) [folded m0] e0, of ?call NULL 0 True] by blast
  have "usbdc_cb_ctl_req ?call ?fns 0 ?req ?r = Some (True, s1)"
    using rh f s0(1) s1(1) by (simp add: usbdc_cb_ctl_req_def Let_def usbdc_set_req_def answer_def)
  then have "handle_setup (usb_call user app (Suc (Suc n))) 0 s = Some s1"
    using setup_stage [OF ok(1,3)] by simp
  then show ?thesis using s0(2) ok0 s1(2-4) by blast
qed

lemma port_opened:
  fixes s0 s2 :: "'a cdcdf_scheme"
  assumes o: "opened_from r s0" and ok: "ep0_ok s2" and h: "\<And>j. j \<noteq> 0 \<Longrightarrow> hal_ep s2 j = hal_ep s0 j" and e: "ept s2 3 = ept s0 3"
    and v: "cdc_enabled s2 = cdc_enabled s0" "func_ep_in s2 = func_ep_in s0"
  shows "port_open s2"
proof -
  have "xep (hal_ep s2 0) = 0" using ok by (simp add: ep0_ok_def)
  then have j: "usb_d_find_ep 0x81 s2 = 3"
    unfolding find_in_table using h [of 1] h [of 2] h [of 3] o by (simp add: opened_from_def hal_open_def)
  have "in_free 0x81 (ept s2 3)" using e o by (simp add: opened_from_def in_free_def opened_def usb_ep_cfgs_def)
  moreover have "cdc_enabled s2" "func_ep_in s2 1 = 0x81"
    using v o by (simp_all add: opened_from_def dc_rest_def eps_view_def)
  ultimately show ?thesis
    unfolding port_open_def Let_def j using ok h [of 3] o by (simp add: ep0_ok_def opened_from_def hal_open_def)
qed

text \<open>
  C5. \<open>SET_CONFIGURATION\<close> opens the serial port: the setup stage finds the configuration in
  the device's descriptors, opens the notification endpoint 0x82 and the data endpoints 0x01
  and 0x81 of the two interfaces as the descriptors say, and answers with an empty packet;
  once the host has taken it, the device is configured and a write to the port is possible.
\<close>

theorem set_configuration_opens_port:
  fixes s :: "'a cdcdf_scheme"
  assumes ok: "ep0_ok s" "dc_ok s" "setup_pending s" and pk: "packet s = [0, 9, 1, 0, 0, 0, 0, 0]" and u: "unconfigured s"
  shows "\<exists>s1 s2. handle_setup (usb_call user app (Suc (Suc n))) 0 s = Some s1 \<and> status_in s1 \<and> dc_state s1 = dc_state s
    \<and> map (\<lambda>j. (xep (hal_ep s1 j), xtype (hal_ep s1 j), xstate (hal_ep s1 j))) [1, 2, 3]
       = [(0x82, 3, USB_EP_S_IDLE), (1, 2, USB_EP_S_IDLE), (0x81, 2, USB_EP_S_IDLE)]
    \<and> in_next (usb_call user app (Suc (Suc n))) 0 True (host_takes 0 s1) = Some s2
    \<and> dc_state s2 = USBD_S_CONFIG \<and> cfg_value s2 = 1 \<and> ep0_ok s2 \<and> port_open s2"
proof -
  let ?req = "xfer_req 0" and ?fns = "stack_fns user app (usb_call user app n)"
  note r = setup_read_spec(1-3) [OF ok(1)] and f = request_fields [OF ok(1), unfolded pk, simplified]
  obtain s0 s1 where one: "handle_setup (usb_call user app (Suc (Suc n))) 0 s = Some s1" and o: "opened_from (setup_read s) s0"
      and ok0: "ep0_ok s0" and u1: "undisturbed (upd_hal 0 (\<lambda>e. e\<lparr>xstate := USB_EP_S_X_STATUS\<rparr>) s0) s1"
      and st: "status_in s1" and e1: "\<forall>i. i \<noteq> 0 \<longrightarrow> ept s1 i = ept s0 i"
    using set_configuration_setup [OF assms, of user app n] by blast
  note d1 = undisturbedD [OF u1]
  have ok1: "ep0_ok s1" using ep0_ok_undisturbed [OF u1] ok0 by (simp add: ep0_ok_def)
  have x1: "xstate (hal_ep s1 0) = USB_EP_S_X_STATUS" using d1(2) by simp
  let ?t = "status_taken s1"
  note t = status_taken_spec [OF ok1]
  have v: "dc_view ?t = dc_view s0" "umem ?t = umem (setup_read s)" "\<And>j. j \<noteq> 0 \<Longrightarrow> hal_ep ?t j = hal_ep s0 j"
    using undisturbedD [OF t(1)] d1 o by (simp_all add: opened_from_def eps_view_def)
  have cl: "change_list ?t = NULL"
    using v(1) o ok(2) dc_ok_view [OF r(3)] by (simp add: opened_from_def dc_view_def dc_rest_def dc_ok_def)
  let ?s2 = "upd_hal 0 (\<lambda>e. e\<lparr>xstate := USB_EP_S_X_SETUP\<rparr>) (?t\<lparr>cfg_value := 1, dc_state := USBD_S_CONFIG\<rparr>)"
  have "in_next (usb_call user app (Suc (Suc n))) 0 True (host_takes 0 s1) = Some ?s2"
    using status_stage [OF ok1 st x1, of user app n] status_end_cases [OF cl, of ?fns ?req] f request_fields_kept [OF v(2), of ?req]
    by simp
  moreover have ok2: "ep0_ok ?s2" using t(2) by (simp add: ep0_ok_def)
  moreover have "port_open ?s2"
  proof (rule port_opened [OF o ok2])
    show "ept ?s2 3 = ept s0 3" using e1 by (simp add: status_taken_def usb_helpers host_takes_def)
    show "cdc_enabled ?s2 = cdc_enabled s0" "func_ep_in ?s2 = func_ep_in s0"
      using v(1) by (simp_all add: dc_view_def upd_hal_def)
  qed (use v(3) in simp)
  moreover have "dc_state s1 = dc_state s"
    using d1(3) o r(3) unfolding dc_view_frame by (simp add: opened_from_def dc_view_def dc_rest_def)
  moreover have "map (\<lambda>j. (xep (hal_ep s1 j), xtype (hal_ep s1 j), xstate (hal_ep s1 j))) [1, 2, 3]
       = [(0x82, 3, USB_EP_S_IDLE), (1, 2, USB_EP_S_IDLE), (0x81, 2, USB_EP_S_IDLE)]"
    using d1(2) o by (simp add: opened_from_def hal_open_def)
  moreover have "dc_state ?s2 = USBD_S_CONFIG" "cfg_value ?s2 = 1" by (simp_all add: upd_hal_def)
  ultimately show ?thesis using one st by - (rule exI [of _ s1], rule exI [of _ ?s2], simp)
qed

definition fresh_dev :: cdcdf where
  \<comment> \<open>the sample device before its configuration, with the descriptors in memory\<close>
  "fresh_dev = sample_dev\<lparr>umem := (\<lambda>p. let k = unat (p - single_desc_bytes) in if k < 85 then concat cdcd_acm_desces_ls_fs ! k else 0),
     ept := (\<lambda>i. if i = 0 then sample_ept 0 else (sample_ept i)\<lparr>ep_addr := 0xFF\<rparr>),
     func_iface := (\<lambda>_. 0xFF), func_ep_in := (\<lambda>_. 0xFF), func_ep_out := 0xFF, cdc_enabled := False\<rparr>"

lemma descs_at_bytes:
  "(\<And>k. k < length (concat ds) \<Longrightarrow> m (p + of_nat k) = concat ds ! k) \<Longrightarrow> 0 < unat p
    \<Longrightarrow> unat p + length (concat ds) < 4294967296 \<Longrightarrow> list_all (\<lambda>d. 2 \<le> length d \<and> unat (d ! 0) = length d) ds
    \<Longrightarrow> descs_at m p ds (p + of_nat (length (concat ds)))"
proof (induction ds arbitrary: p)
  case (Cons d ds)
  let ?p = "p + of_nat (length d)"
  have u: "unat ?p = unat p + length d" using Cons.prems(3) by (simp add: unat_word_ariths unat_of_nat)
  have "descs_at m ?p ds (?p + of_nat (length (concat ds)))"
  proof (rule Cons.IH)
    fix k
    assume "k < length (concat ds)"
    then show "m (?p + of_nat k) = concat ds ! k"
      using Cons.prems(1) [of "length d + k"] by (simp add: nth_append add.assoc)
  qed (use Cons.prems u in simp_all)
  moreover have "m (p + of_nat k) = d ! k" if "k < length d" for k
    using Cons.prems(1) [of k] that by (simp add: nth_append)
  ultimately show ?case using Cons.prems(2-4) by (auto simp: add.assoc)
qed simp

lemma fresh_dev_ok: "ep0_ok fresh_dev" "dc_ok fresh_dev" "unconfigured fresh_dev"
proof -
  show "ep0_ok fresh_dev" "dc_ok fresh_dev"
    using sample_dev_ok(1,3) by (simp_all add: ep0_ok_def dc_ok_def fresh_dev_def sample_dev_def)
  have "umem fresh_dev (single_desc_bytes + of_nat k) = concat cdcd_acm_desces_ls_fs ! k" if "k < 85" for k
    using that by (simp add: fresh_dev_def unat_of_nat)
  then have "descs_at (umem fresh_dev) single_desc_bytes cdcd_acm_desces_ls_fs (eod single_desc)"
    unfolding single_desc_def usbd_descriptors.simps
    by (intro descs_at_bytes) (simp_all add: desc_table single_desc_bytes_def)
  then show "unconfigured fresh_dev"
    by (simp add: unconfigured_def descs_in_memory_def fresh_dev_def sample_dev_def zero_ep_def cdcdf_acm_drv_def
        cdcdf_acm_req_h_def)
qed

lemma set_configuration_opens_port_witness:
  "\<exists>s1 s2. handle_setup (usb_call no_user no_app 2) 0 (host_setup [0, 9, 1, 0, 0, 0, 0, 0] fresh_dev) = Some s1
    \<and> in_next (usb_call no_user no_app 2) 0 True (host_takes 0 s1) = Some s2
    \<and> dc_state s1 = USBD_S_DEFAULT \<and> dc_state s2 = USBD_S_CONFIG \<and> port_open s2"
proof -
  let ?p = "[0, 9, 1, 0, 0, 0, 0, 0] :: u8 list"
  let ?s = "host_setup ?p fresh_dev"
  note h = host_setup_spec [OF fresh_dev_ok(1), of ?p, simplified]
  have dc: "dc_ok ?s" using dc_ok_view [OF h(4)] fresh_dev_ok(2) by simp
  have "umem ?s q = umem fresh_dev q" if "single_desc_bytes \<le> q" "q < eod single_desc" for q
  proof -
    have "unat (q - 0x20000800) = unat q - 0x20000800" "0x20000E40 \<le> unat q"
      using that by (simp_all add: desc_ends unat_sub word_le_nat_alt)
    then have "\<not> unat (q - 0x20000800) < 8" by linarith
    then show ?thesis by (simp add: host_setup_def write_mem_def fresh_dev_def sample_dev_def)
  qed
  then have "descs_in_memory ?s"
    using descs_at_memory fresh_dev_ok(3) unfolding unconfigured_def descs_in_memory_def by blast
  then have "unconfigured ?s"
    using fresh_dev_ok(3) by (simp add: unconfigured_def host_setup_def upd_epr_def upd_bank_def write_mem_def)
  moreover have "dc_state ?s = USBD_S_DEFAULT"
    by (simp add: host_setup_def upd_epr_def upd_bank_def write_mem_def fresh_dev_def sample_dev_def)
  ultimately show ?thesis
    using set_configuration_opens_port [OF h(1) dc h(2,3), of no_user no_app 0] by (auto simp: numeral_2_eq_2)
qed

end
