(* ===== verification/PowerlogReport.thy ===== *)
theory PowerlogReport
  imports PowerlogMain UsbOpen
begin

text \<open>
  The application of \<open>main.c\<close> on the serial port of \<open>cdcdf_acm.c\<close>: the call of
  \<open>cdcdf_acm_write\<close> at the end of \<open>sample_report_once\<close>, with the USB stack in place of the
  parameter of the application's model, and what the host receives.
\<close>

subsection \<open>The write of a report\<close>

definition acm_write_usb ::
    "'a cdc_call \<Rightarrow> ptr \<Rightarrow> string \<Rightarrow> nat \<Rightarrow> 'a cdcdf_scheme option \<Rightarrow> 'a cdcdf_scheme option" where
  \<comment> \<open>the text is in the buffer at \<open>report_buf\<close>; \<open>None\<close> once a call of the stack does not return\<close>
  "acm_write_usb call report_buf text used u =
     Option.bind u (\<lambda>u. map_option snd
       (cdcdf_acm_write call report_buf (of_nat used) (write_mem report_buf (map of_char text @ [0]) u)))"

definition report_buffer_ok :: "ptr \<Rightarrow> usb_d_dev_ep \<Rightarrow> bool" where
  \<comment> \<open>the 96 bytes on the stack do not overlap the endpoint's cache\<close>
  "report_buffer_ok report_buf e \<longleftrightarrow> (\<forall>k < 96. unat (ep_size e) \<le> unat (report_buf + of_nat k - ep_cache e))"

lemma write_mem_port [simp]:
  "port_open (write_mem a d s) = port_open s" "ept (write_mem a d s) = ept s" "hal_ep (write_mem a d s) = hal_ep s"
  "usb_d_find_ep ep (write_mem a d s) = usb_d_find_ep ep s"
  by (simp_all add: write_mem_def port_open_def usb_d_find_ep_def)

lemma bytes_at_written:
  assumes "n \<le> length bs" and "length bs < 2 ^ 32"
  shows "bytes_at (umem (write_mem a bs s)) a n = take n bs"
proof (rule nth_equalityI)
  fix k assume k: "k < length (bytes_at (umem (write_mem a bs s)) a n)"
  then have "unat (of_nat k :: u32) = k" using assms by (simp add: unat_of_nat)
  then show "bytes_at (umem (write_mem a bs s)) a n ! k = take n bs ! k"
    using k assms by (simp add: bytes_at_def write_mem_def)
qed (use assms in simp)

lemma length_report_line: "0 < length (report_line n regs)" "length (report_line n regs) \<le> 57"
proof -
  show "0 < length (report_line n regs)" by (simp add: report_line_def)
  have "length (channel_text (sint (regs b)) (uint (regs u) * 5)) \<le> 15" for b u by (rule channel_text_length)
  from this [of 2 1] this [of 4 3] this [of 6 5] length_fmt_id [of n]
  show "length (report_line n regs) \<le> 57" by (simp add: report_line_def)
qed

lemma short_write_armed:
  fixes u :: "'a cdcdf_scheme"
  assumes op: "port_open u" and sz: "ep_size (ept u 3) = 64" and buf: "report_buffer_ok report_buf (ept u 3)"
    and len: "0 < length text" "length text < 64"
    and x: "x = \<lparr>xf_buf = report_buf, xf_size = of_nat (length text), xf_ep = 0x81, xf_zlp = True\<rparr>"
  obtains u' where "acm_write_usb call report_buf text (length text) (Some u) = Some u'"
    "bk_addr (bank u' 1 True) = (if use_cache (started x (ept u 3)) then ep_cache (ept u 3) else report_buf)"
    "unat (bk_count (bank u' 1 True)) = length text" "bank_data 1 u' = map of_char text"
    "in_armed_at (started x (ept u 3)) (umem (write_mem report_buf (map of_char text @ [0]) u)) 3 0 u'"
    "only_transfers (upd_hal (usb_d_find_ep 0x81 u) (\<lambda>e. e\<lparr>xstate := USB_EP_S_X_DATA\<rparr>)
       (write_mem report_buf (map of_char text @ [0]) u)) u'"
proof -
  let ?bs = "map of_char text @ [0] :: u8 list" and ?n = "of_nat (length text) :: u32"
  let ?w = "write_mem report_buf ?bs u" and ?e = "started x (ept u 3)"
  have n: "unat ?n = length text" using len by (simp add: unat_of_nat)
  then have n0: "0 < ?n" "?n < 65536" using len by (simp_all add: word_less_nat_alt)
  have opw: "port_open ?w" and szw: "ep_size (ept ?w 3) = 64" using op sz by simp_all
  note e = port_transfer [OF opw szw n0(2) x, simplified write_mem_port]
  have apart: "buffer_apart (started x (ept ?w 3))"
    using buf len n by (auto simp: buffer_apart_def report_buffer_ok_def started_def x)
  obtain u' where u': "cdcdf_acm_write call report_buf ?n ?w = Some (ERR_NONE, u')"
      "in_armed_at ?e (umem ?w) 3 0 u'"
      "only_transfers (upd_hal (usb_d_find_ep 0x81 u) (\<lambda>e. e\<lparr>xstate := USB_EP_S_X_DATA\<rparr>) ?w) u'"
    using port_write_armed [OF opw n0 x apart, of call] by auto
  have esz: "ep_size ?e = 64" "ep_cache ?e = ep_cache (ept u 3)" using sz by (simp_all add: started_def)
  have chunk: "in_chunk ?e 0 = length text"
    using len by (simp add: in_chunk_def e(8) n esz)
  have "bank_data 1 u' = bytes_at (umem ?w) report_buf (length text)"
      "bk_addr (bank u' 1 True) = (if use_cache ?e then ep_cache (ept u 3) else report_buf)"
      "unat (bk_count (bank u' 1 True)) = length text"
    using u'(2) unfolding in_armed_at_def Let_def chunk e(6,7) esz by simp_all
  moreover have "bytes_at (umem ?w) report_buf (length text) = map of_char text"
    using len by (subst bytes_at_written) simp_all
  ultimately show ?thesis using that u' by (simp add: acm_write_usb_def)
qed

lemma report_sent:
  assumes "ina_app_ok (periph (ina s)) (ina s)" and "usb s = Some u"
    and "port_open u" and "ep_size (ept u 3) = 64" and "report_buffer_ok report_buf (ept u 3)"
    and "line = report_line (sample_id s) (ina_regs (periph (ina s)))"
    and "x = \<lparr>xf_buf = report_buf, xf_size = of_nat (length line), xf_ep = 0x81, xf_zlp = True\<rparr>"
  obtains s' u' where "sample_report_once ina_bus (acm_write_usb call report_buf) s = Some s'" "usb s' = Some u'"
    "bk_addr (bank u' 1 True) = (if use_cache (started x (ept u 3)) then ep_cache (ept u 3) else report_buf)"
    "unat (bk_count (bank u' 1 True)) = length line" "bank_data 1 u' = map of_char line"
    "in_armed_at (started x (ept u 3)) (umem (write_mem report_buf (map of_char line @ [0]) u)) 3 0 u'"
    "only_transfers (upd_hal (usb_d_find_ep 0x81 u) (\<lambda>e. e\<lparr>xstate := USB_EP_S_X_DATA\<rparr>)
       (write_mem report_buf (map of_char line @ [0]) u)) u'"
proof -
  obtain s' where s': "sample_report_once ina_bus (acm_write_usb call report_buf) s = Some s'"
      "usb s' = acm_write_usb call report_buf line (length line) (usb s)"
    using report_ref [OF assms(1), of "acm_write_usb call report_buf"] assms(6) by blast
  have "0 < length line" "length line < 64"
    using length_report_line [of "sample_id s" "ina_regs (periph (ina s))"] assms(6) by simp_all
  from short_write_armed [OF assms(3-5) this assms(7), of call] obtain u' where
      "acm_write_usb call report_buf line (length line) (Some u) = Some u'"
      "bk_addr (bank u' 1 True) = (if use_cache (started x (ept u 3)) then ep_cache (ept u 3) else report_buf)"
      "unat (bk_count (bank u' 1 True)) = length line" "bank_data 1 u' = map of_char line"
      "in_armed_at (started x (ept u 3)) (umem (write_mem report_buf (map of_char line @ [0]) u)) 3 0 u'"
      "only_transfers (upd_hal (usb_d_find_ep 0x81 u) (\<lambda>e. e\<lparr>xstate := USB_EP_S_X_DATA\<rparr>)
         (write_mem report_buf (map of_char line @ [0]) u)) u'"
    by blast
  with s' assms(2) that show ?thesis by simp
qed


lemma stack_in_ram:
  assumes "0x20000000 \<le> a" and "a < 0x20000F00" and "unat n < 96"
  shows "in_ram a n"
proof -
  have "unat a < 0x20000F00" using assms(2) by (simp add: word_less_nat_alt)
  then have "unat (a + n) < 0x20001000" using assms(3) by (simp add: unat_word_ariths)
  then show ?thesis using assms(1) by (simp add: in_ram_def word_less_nat_alt)
qed

text \<open>
  C14. The report is sent from the stack: \<open>sample_report_once\<close> returns before the host has
  asked for the packet, and if its buffer is word-aligned the controller will read the
  memory where the buffer was, whatever the memory holds by then; only a buffer that is not
  aligned has been copied to the endpoint's cache.
\<close>

theorem report_read_after_return:
  assumes "ina_app_ok (periph (ina s)) (ina s)" and "usb s = Some u"
    and "port_open u" and "ep_size (ept u 3) = 64" and "report_buffer_ok report_buf (ept u 3)"
    and "0x20000000 \<le> report_buf" and "report_buf < 0x20000F00"
  shows "\<exists>s' u'. sample_report_once ina_bus (acm_write_usb call report_buf) s = Some s' \<and> usb s' = Some u'
    \<and> (\<forall>m. bank_data 1 (u'\<lparr>umem := m\<rparr>) = bytes_at m (if usb_is_aligned report_buf then report_buf else ep_cache (ept u 3))
         (length (report_line (sample_id s) (ina_regs (periph (ina s))))))"
proof -
  let ?line = "report_line (sample_id s) (ina_regs (periph (ina s)))"
  let ?x = "\<lparr>xf_buf = report_buf, xf_size = of_nat (length ?line) :: u32, xf_ep = 0x81, xf_zlp = True\<rparr>"
  obtain s' u' where r: "sample_report_once ina_bus (acm_write_usb call report_buf) s = Some s'" "usb s' = Some u'"
      "bk_addr (bank u' 1 True) = (if use_cache (started ?x (ept u 3)) then ep_cache (ept u 3) else report_buf)"
      "unat (bk_count (bank u' 1 True)) = length ?line"
    using report_sent [OF assms(1-5) refl refl, of call] by blast
  have "unat (of_nat (length ?line) :: u32) < 96"
    using length_report_line [of "sample_id s" "ina_regs (periph (ina s))"] by (simp add: unat_of_nat)
  then have "use_cache (started ?x (ept u 3)) = (\<not> usb_is_aligned report_buf)"
    using stack_in_ram [OF assms(6,7)] by (simp add: started_def)
  with r show ?thesis by (auto simp: bank_data_def)
qed

subsection \<open>A station with the port open\<close>

definition with_usb :: "'v \<Rightarrow> ('h, 'u) app_state \<Rightarrow> ('h, 'v) app_state" where
  "with_usb v s = \<lparr>tc_of = tc_of s, nvic_enabled = nvic_enabled s, nvic_pending = nvic_pending s,
     tc3_dev = tc3_dev s, dev_hw = dev_hw s, t_next = t_next s, t_time_label = t_time_label s,
     t_interval = t_interval s, t_cb = t_cb s, t_mode = t_mode s,
     descr_device = descr_device s, descr_time = descr_time s, descr_tasks = descr_tasks s, descr_flags = descr_flags s,
     sample_id = sample_id s, run_sample = run_sample s, pins = pins s, led_log = led_log s,
     ina = ina s, usb = v\<rparr>"

definition sample_station :: "(u8 \<Rightarrow> u16) \<Rightarrow> (ina, cdcdf option) app_state" where
  "sample_station regs = with_usb (Some open_dev) (sample_app regs)"

lemma sample_station_ok:
  "ina_app_ok (periph (ina (sample_station regs))) (ina (sample_station regs))"
  "usb (sample_station regs) = Some open_dev" "ep_size (ept open_dev 3) = 64" "report_buffer_ok 0x20000C00 (ept open_dev 3)"
  "sample_id (sample_station regs) = 41" "ina_regs (periph (ina (sample_station regs))) = regs"
proof -
  have e: "ept open_dev 3 = sample_ept 3" by (simp add: open_dev_def sample_dev_def)
  have "unat (ep_size (sample_ept 3)) \<le> unat (0x20000C00 + of_nat k - ep_cache (sample_ept 3))" if "k < 96" for k
  proof -
    have "0x20000C00 + of_nat k - ep_cache (sample_ept 3) = of_nat (k + 0x340)" by (simp add: sample_ept_def)
    moreover have "unat (of_nat (k + 0x340) :: u32) = k + 0x340" using that by (simp add: unat_of_nat del: of_nat_add)
    ultimately show ?thesis by (simp add: sample_ept_def del: of_nat_add)
  qed
  then show "report_buffer_ok 0x20000C00 (ept open_dev 3)" by (simp add: report_buffer_ok_def e)
  show "ep_size (ept open_dev 3) = 64" by (simp add: e sample_ept_def)
qed (use sample_app_ina [of regs] in \<open>simp_all add: sample_station_def with_usb_def sample_app_def
  sample_ina_state_def sample_ina_def\<close>)


lemma report_read_after_return_witness:
  "\<exists>s' u'. sample_report_once ina_bus (acm_write_usb (usb_call no_user no_app 1) 0x20000C00) (sample_station (\<lambda>_. 0)) = Some s'
    \<and> usb s' = Some u' \<and> hd (bank_data 1 (u'\<lparr>umem := (\<lambda>_. 0xEE)\<rparr>)) = 0xEE"
proof -
  have l: "length (report_line 41 (\<lambda>_. 0)) = 52" by code_simp
  have "usb_is_aligned 0x20000C00" by (simp add: usb_is_aligned_def)
  then show ?thesis
    using report_read_after_return [OF sample_station_ok(1,2) open_dev_port(2) sample_station_ok(3,4), of "usb_call no_user no_app 1" "\<lambda>_. 0"]
    by (simp add: sample_station_ok(5,6) l) (fastforce simp: bytes_at_def upt_rec)
qed

end
