(* ===== verification/UtilsEvent.thy ===== *)
theory UtilsEvent
  imports UtilsList
begin

text \<open>
  The event system of \<open>hal/utils/src/utils_event.c\<close>: a list of \<open>struct event\<close> objects,
  each with the mask of the event numbers it is called for, and one mask of the numbers
  that have a subscriber.  \<open>EVENT_MAX_AMOUNT\<close> is 8, so a mask is an array of one byte.
  Callbacks are called through the parameter \<open>call\<close>.
\<close>

definition EVENT_MAX_AMOUNT :: u8 where "EVENT_MAX_AMOUNT = 8"
definition EVENT_MASK_SIZE :: nat where "EVENT_MASK_SIZE = 1"

record 'f event_state =
  ev_next :: links
  ev_mask :: "ptr \<Rightarrow> nat \<Rightarrow> u8"
  ev_cb :: "ptr \<Rightarrow> 'f"
  events_head :: ptr
  subscribed :: "nat \<Rightarrow> u8"

definition event_pos :: "u8 \<Rightarrow> nat" where "event_pos eid = unat (drop_bit 3 eid)"
definition event_bit :: "u8 \<Rightarrow> u8" where "event_bit eid = push_bit (unat (eid AND 7)) 1"

subsection \<open>Operations\<close>

definition event_subscribe ::
    "bool \<Rightarrow> ptr \<Rightarrow> u8 \<Rightarrow> 'f \<Rightarrow> ('f, 'a) event_state_scheme \<Rightarrow> (rc \<times> ('f, 'a) event_state_scheme) option" where
  "event_subscribe debug event eid cb s =
     (let position = event_pos eid; msk = event_bit eid in
      c_assert debug (Some (event \<noteq> NULL \<and> eid < EVENT_MAX_AMOUNT))
       (if ev_mask s event position AND msk \<noteq> 0 then Some (ERR_NO_CHANGE, s)
        else case is_list_element (ev_next s) (events_head s) event of
          None \<Rightarrow> None
        | Some listed \<Rightarrow>
           (case (if listed then Some s
                  else (let s = s\<lparr>ev_mask := (ev_mask s)(event := (\<lambda>_. 0))\<rparr> in
                        case list_insert_as_head debug (ev_next s) (events_head s) event of
                          None \<Rightarrow> None
                        | Some (nx, h) \<Rightarrow> Some (s\<lparr>ev_next := nx, events_head := h\<rparr>))) of
              None \<Rightarrow> None
            | Some s \<Rightarrow>
                (let s = s\<lparr>ev_cb := (ev_cb s)(event := cb)\<rparr>;
                     s = s\<lparr>ev_mask := (ev_mask s)(event :=
                          (ev_mask s event)(position := ev_mask s event position OR msk))\<rparr>;
                     s = s\<lparr>subscribed := (subscribed s)(position := subscribed s position OR msk)\<rparr>
                 in Some (ERR_NONE, s)))))"

partial_function (option) find_subscriber ::
    "links \<Rightarrow> (ptr \<Rightarrow> nat \<Rightarrow> u8) \<Rightarrow> nat \<Rightarrow> u8 \<Rightarrow> ptr \<Rightarrow> ptr option" where
  \<comment> \<open>the \<open>for\<close> loop of \<open>event_unsubscribe\<close>: the first element with the bit set, or \<open>NULL\<close>\<close>
  "find_subscriber nx masks position msk current =
     (if current = NULL then Some NULL
      else if masks current position AND msk \<noteq> 0 then Some current
      else find_subscriber nx masks position msk (list_get_next_element nx current))"

declare find_subscriber.simps [code]

definition event_unsubscribe ::
    "bool \<Rightarrow> ptr \<Rightarrow> u8 \<Rightarrow> ('f, 'a) event_state_scheme \<Rightarrow> (rc \<times> ('f, 'a) event_state_scheme) option" where
  "event_unsubscribe debug event eid s =
     (let position = event_pos eid; msk = event_bit eid in
      c_assert debug (Some (event \<noteq> NULL \<and> eid < EVENT_MAX_AMOUNT))
       (if ev_mask s event position AND msk = 0 then Some (ERR_NO_CHANGE, s)
        else
          (let s = s\<lparr>ev_mask := (ev_mask s)(event :=
                 (ev_mask s event)(position := ev_mask s event position AND NOT msk))\<rparr> in
           case find_subscriber (ev_next s) (ev_mask s) position msk (list_get_head (events_head s)) of
             None \<Rightarrow> None
           | Some current \<Rightarrow>
              (let s = (if current = NULL
                        then s\<lparr>subscribed := (subscribed s)(position := subscribed s position AND NOT msk)\<rparr>
                        else s) in
               if \<exists>i \<in> set [0..<EVENT_MASK_SIZE]. ev_mask s event i \<noteq> 0 then Some (ERR_NONE, s)
               else case list_delete_element (ev_next s) (events_head s) event of
                  None \<Rightarrow> None
                | Some (_, nx, h) \<Rightarrow> Some (ERR_NONE, s\<lparr>ev_next := nx, events_head := h\<rparr>)))))"

partial_function (option) event_post_loop ::
    "('f \<Rightarrow> u8 \<Rightarrow> u32 \<Rightarrow> ('f, 'a) event_state_scheme \<Rightarrow> ('f, 'a) event_state_scheme option)
      \<Rightarrow> u8 \<Rightarrow> u32 \<Rightarrow> ptr \<Rightarrow> ('f, 'a) event_state_scheme \<Rightarrow> ('f, 'a) event_state_scheme option" where
  "event_post_loop call eid data current s =
     (if current = NULL then Some s
      else Option.bind
        (if ev_mask s current (event_pos eid) AND event_bit eid \<noteq> 0 then call (ev_cb s current) eid data s
         else Some s)
        (\<lambda>s1. event_post_loop call eid data (list_get_next_element (ev_next s1) current) s1))"

declare event_post_loop.simps [code]

definition event_post ::
    "bool \<Rightarrow> ('f \<Rightarrow> u8 \<Rightarrow> u32 \<Rightarrow> ('f, 'a) event_state_scheme \<Rightarrow> ('f, 'a) event_state_scheme option)
      \<Rightarrow> u8 \<Rightarrow> u32 \<Rightarrow> ('f, 'a) event_state_scheme \<Rightarrow> ('f, 'a) event_state_scheme option" where
  "event_post debug call eid data s =
     c_assert debug (Some (eid < EVENT_MAX_AMOUNT))
       (if subscribed s (event_pos eid) AND event_bit eid = 0 then Some s
        else event_post_loop call eid data (list_get_head (events_head s)) s)"

subsection \<open>The masks agree\<close>

definition wants :: "('f, 'a) event_state_scheme \<Rightarrow> u8 \<Rightarrow> ptr \<Rightarrow> bool" where
  "wants s eid e \<longleftrightarrow> ev_mask s e (event_pos eid) AND event_bit eid \<noteq> 0"

definition events_ok :: "('f, 'a) event_state_scheme \<Rightarrow> ptr list \<Rightarrow> bool" where
  \<comment> \<open>a number is marked as subscribed exactly when a listed event wants it\<close>
  "events_ok s es \<longleftrightarrow> is_list (ev_next s) (events_head s) es
     \<and> (\<forall>eid < EVENT_MAX_AMOUNT. subscribed s (event_pos eid) AND event_bit eid \<noteq> 0 \<longleftrightarrow> (\<exists>e \<in> set es. wants s eid e))"

lemma event_id_cases:
  fixes eid :: u8
  assumes "eid < EVENT_MAX_AMOUNT"
  shows "eid = 0 \<or> eid = 1 \<or> eid = 2 \<or> eid = 3 \<or> eid = 4 \<or> eid = 5 \<or> eid = 6 \<or> eid = 7"
proof -
  have "unat eid < 8" using assms by (simp add: EVENT_MAX_AMOUNT_def word_less_nat_alt)
  then have "unat eid = 0 \<or> unat eid = 1 \<or> unat eid = 2 \<or> unat eid = 3 \<or> unat eid = 4 \<or> unat eid = 5
      \<or> unat eid = 6 \<or> unat eid = 7" by arith
  then show ?thesis by (simp add: word_unat_eq_iff)
qed

lemma event_pos_0: "eid < EVENT_MAX_AMOUNT \<Longrightarrow> event_pos eid = 0"
  by (drule event_id_cases) (auto simp: event_pos_def)

lemma event_bit_test: "m AND event_bit eid \<noteq> 0 \<longleftrightarrow> bit m (unat (eid AND 7))"
  using and_exp_eq_0_iff_not_bit [of m "unat (eid AND 7)"]
  by (simp add: event_bit_def push_bit_eq_mult)

lemma event_bit_index:
  "eid < EVENT_MAX_AMOUNT \<Longrightarrow> unat (eid AND 7) = unat eid \<and> unat eid < 8"
  by (drule event_id_cases) auto

lemma event_bit_set:
  assumes "eid < EVENT_MAX_AMOUNT" and "eid' < EVENT_MAX_AMOUNT"
  shows "(m OR event_bit eid) AND event_bit eid' \<noteq> 0 \<longleftrightarrow> eid' = eid \<or> m AND event_bit eid' \<noteq> 0"
    and "(m AND NOT (event_bit eid)) AND event_bit eid' \<noteq> 0 \<longleftrightarrow> eid' \<noteq> eid \<and> m AND event_bit eid' \<noteq> 0"
proof -
  have eq: "eid' = eid \<longleftrightarrow> unat eid' = unat eid" by (rule word_unat_eq_iff)
  have b: "bit (event_bit eid) (unat eid') \<longleftrightarrow> unat eid' = unat eid"
    using event_bit_index [OF assms(1)] event_bit_index [OF assms(2)]
    by (auto simp: event_bit_def bit_simps)
  show "(m OR event_bit eid) AND event_bit eid' \<noteq> 0 \<longleftrightarrow> eid' = eid \<or> m AND event_bit eid' \<noteq> 0"
    unfolding event_bit_test eq using b event_bit_index [OF assms(2)] by (auto simp: bit_or_iff)
  show "(m AND NOT (event_bit eid)) AND event_bit eid' \<noteq> 0 \<longleftrightarrow> eid' \<noteq> eid \<and> m AND event_bit eid' \<noteq> 0"
    unfolding event_bit_test eq using b event_bit_index [OF assms(2)]
    by (auto simp: bit_and_iff bit_not_iff)
qed

lemma mask_byte_zero:
  assumes "\<forall>eid < EVENT_MAX_AMOUNT. m AND event_bit eid = 0"
  shows "m = 0"
proof (rule ccontr)
  assume "m \<noteq> 0"
  then obtain n where n: "bit m n" by (metis bit_word_eqI bit_0_eq bot_apply bot_bool_def)
  then have "n < 8" using bit_imp_le_length by fastforce
  then have k: "unat (of_nat n :: u8) = n" by (simp add: unat_of_nat)
  then have lt: "(of_nat n :: u8) < EVENT_MAX_AMOUNT"
    using \<open>n < 8\<close> by (simp add: EVENT_MAX_AMOUNT_def word_less_nat_alt)
  with assms have "m AND event_bit (of_nat n) = 0" by blast
  then show False using event_bit_test [of m "of_nat n"] event_bit_index [OF lt] k n by simp
qed

subsection \<open>Subscribing and unsubscribing\<close>

text \<open>
  C32. Subscribing to a valid event number returns \<open>ERR_NONE\<close> when the event object does
  not want the number yet; afterwards it is in the list, wants the number with the given
  callback, every other listed event wants what it wanted, and the mask of subscribed
  numbers still agrees with the list.
\<close>

lemma event_subscribe_ok:
  assumes ok: "events_ok s es" and e: "e \<noteq> NULL" and eid: "eid < EVENT_MAX_AMOUNT"
    and new: "\<not> wants s eid e"
  shows "\<exists>s' es'. event_subscribe debug e eid cb s = Some (ERR_NONE, s')
    \<and> events_ok s' es' \<and> set es' = insert e (set es)
    \<and> wants s' eid e \<and> ev_cb s' e = cb
    \<and> (\<forall>x k. x \<noteq> e \<longrightarrow> wants s' k x = wants s k x)"
proof -
  have list: "is_list (ev_next s) (events_head s) es" using ok by (simp add: events_ok_def)
  note pos = event_pos_0
  define listed where "listed = (e \<in> set es)"
  define s1 where "s1 = (if listed then s else s\<lparr>ev_mask := (ev_mask s)(e := (\<lambda>_. 0)),
      ev_next := (ev_next s)(e := events_head s), events_head := e\<rparr>)"
  define s2 where "s2 = s1\<lparr>ev_cb := (ev_cb s1)(e := cb),
      ev_mask := (ev_mask s1)(e := (ev_mask s1 e)(0 := ev_mask s1 e 0 OR event_bit eid)),
      subscribed := (subscribed s1)(0 := subscribed s1 0 OR event_bit eid)\<rparr>"
  have run: "event_subscribe debug e eid cb s = Some (ERR_NONE, s2)"
    using new e eid list
    by (auto simp: event_subscribe_def wants_def pos Let_def is_list_element_correct listed_def
        s1_def s2_def list_insert_as_head_def)
  let ?es = "if listed then es else e # es"
  have l2: "is_list (ev_next s2) (events_head s2) ?es"
    using list e by (auto simp: s1_def s2_def listed_def)
  have m1: "ev_mask s1 = (if listed then ev_mask s else (ev_mask s)(e := (\<lambda>_. 0)))"
    by (simp add: s1_def)
  have other: "wants s2 k x = wants s k x" if "x \<noteq> e" for x k
    using that by (simp add: wants_def s2_def m1)
  have self: "wants s2 k e \<longleftrightarrow> k = eid \<or> listed \<and> wants s k e" if k: "k < EVENT_MAX_AMOUNT" for k
    using pos [OF k] event_bit_set(1) [OF eid k] by (auto simp: wants_def s2_def m1)
  have sub: "subscribed s2 0 AND event_bit k \<noteq> 0 \<longleftrightarrow> k = eid \<or> subscribed s 0 AND event_bit k \<noteq> 0"
    if k: "k < EVENT_MAX_AMOUNT" for k
    using event_bit_set(1) [OF eid k] by (auto simp: s2_def s1_def)
  have "events_ok s2 ?es"
    unfolding events_ok_def
  proof (intro conjI allI impI)
    fix k assume k: "k < EVENT_MAX_AMOUNT"
    have "subscribed s 0 AND event_bit k \<noteq> 0 \<longleftrightarrow> (\<exists>x \<in> set es. wants s k x)"
      using ok k unfolding events_ok_def by (metis pos)
    moreover have "(\<exists>x \<in> set ?es. wants s2 k x) \<longleftrightarrow> k = eid \<or> (\<exists>x \<in> set es. wants s k x)"
      using self [OF k] other unfolding listed_def by (auto, metis+)
    ultimately show "subscribed s2 (event_pos k) AND event_bit k \<noteq> 0 \<longleftrightarrow> (\<exists>x \<in> set ?es. wants s2 k x)"
      using sub [OF k] pos [OF k] by simp
  qed (rule l2)
  moreover have "ev_cb s2 e = cb" by (simp add: s2_def)
  ultimately show ?thesis
    using run self [OF eid] other
    by (intro exI [of _ s2] exI [of _ ?es]) (auto simp: listed_def)
qed

definition sample_events :: "nat event_state" where
  "sample_events = \<lparr>ev_next = (\<lambda>_. 0), ev_mask = (\<lambda>p _. if p = 16 then 5 else 0), ev_cb = (\<lambda>_. 0),
     events_head = 16, subscribed = (\<lambda>_. 5)\<rparr>"

lemma sample_events_ok: "events_ok sample_events [16]"
  unfolding events_ok_def
proof (intro conjI allI impI)
  fix k assume "k < EVENT_MAX_AMOUNT"
  then show "subscribed sample_events (event_pos k) AND event_bit k \<noteq> 0
      \<longleftrightarrow> (\<exists>e \<in> set [16]. wants sample_events k e)"
    by (simp add: wants_def sample_events_def)
qed (simp add: sample_events_def)

lemma event_subscribe_ok_witness:
  "\<exists>s' es'. event_subscribe True 32 3 7 sample_events = Some (ERR_NONE, s')
    \<and> events_ok s' es' \<and> set es' = {32, 16} \<and> ev_cb s' 32 = 7"
  using event_subscribe_ok [OF sample_events_ok, of 32 3 True 7]
  by (auto simp: EVENT_MAX_AMOUNT_def wants_def sample_events_def event_bit_test)

lemma find_subscriber_correct:
  "is_list nx p xs \<Longrightarrow>
     find_subscriber nx masks k m p =
       Some (case filter (\<lambda>x. masks x k AND m \<noteq> 0) xs of [] \<Rightarrow> NULL | y # _ \<Rightarrow> y)"
proof (induction xs arbitrary: p)
  case Nil
  then show ?case by (simp add: find_subscriber.simps)
next
  case (Cons x xs)
  then have "p = x" "x \<noteq> NULL" "is_list nx (nx x) xs" by auto
  with Cons.IH [of "nx x"] show ?case
    by (subst find_subscriber.simps) (simp add: list_get_next_element_def)
qed

lemma find_subscriber_NULL:
  assumes "is_list nx p xs"
  shows "\<exists>c. find_subscriber nx masks k m p = Some c \<and> (c = NULL \<longleftrightarrow> (\<forall>x \<in> set xs. masks x k AND m = 0))"
proof -
  have "(case filter (\<lambda>x. masks x k AND m \<noteq> 0) xs of [] \<Rightarrow> NULL | y # _ \<Rightarrow> y) = NULL
      \<longleftrightarrow> (\<forall>x \<in> set xs. masks x k AND m = 0)"
  proof (cases "filter (\<lambda>x. masks x k AND m \<noteq> 0) xs")
    case (Cons y ys)
    then have "y \<in> set xs" "masks y k AND m \<noteq> 0"
      using filter_eq_ConsD [OF Cons] by auto
    with Cons is_list_elems [OF assms] show ?thesis by auto
  qed (simp add: filter_empty_conv)
  with find_subscriber_correct [OF assms] show ?thesis by blast
qed

text \<open>
  C24. Unsubscribing a listed event from a number it wants returns \<open>ERR_NONE\<close>; the event
  no longer wants the number, wants of other events and other numbers are unchanged, the
  mask of subscribed numbers agrees with the list again, and the event leaves the list
  exactly when it wants nothing any more.
\<close>

lemma event_unsubscribe_ok:
  assumes ok: "events_ok s es" and e: "e \<in> set es" and eid: "eid < EVENT_MAX_AMOUNT"
    and old: "wants s eid e"
  shows "\<exists>s' es'. event_unsubscribe debug e eid s = Some (ERR_NONE, s')
    \<and> events_ok s' es'
    \<and> (\<forall>k < EVENT_MAX_AMOUNT. \<forall>x. wants s' k x \<longleftrightarrow> wants s k x \<and> (x = e \<longrightarrow> k \<noteq> eid))
    \<and> es' = (if \<exists>k < EVENT_MAX_AMOUNT. wants s' k e then es else remove1 e es)"
proof -
  have list: "is_list (ev_next s) (events_head s) es" using ok by (simp add: events_ok_def)
  have e0: "e \<noteq> NULL" using is_list_elems [OF list] e by auto
  note pos = event_pos_0
  define s1 where "s1 = s\<lparr>ev_mask := (ev_mask s)(e := (ev_mask s e)(0 := ev_mask s e 0 AND NOT (event_bit eid)))\<rparr>"
  have w1: "wants s1 k x \<longleftrightarrow> wants s k x \<and> (x = e \<longrightarrow> k \<noteq> eid)" if k: "k < EVENT_MAX_AMOUNT" for k x
    using pos [OF k] event_bit_set(2) [OF eid k] by (auto simp: wants_def s1_def)
  obtain c where c: "find_subscriber (ev_next s1) (ev_mask s1) 0 (event_bit eid) (events_head s1) = Some c"
      and c0: "c = NULL \<longleftrightarrow> (\<forall>x \<in> set es. \<not> wants s1 eid x)"
    using find_subscriber_NULL [of "ev_next s1" "events_head s1" es "ev_mask s1" 0 "event_bit eid"] list pos [OF eid]
    by (auto simp: s1_def wants_def)
  define s2 where "s2 = (if c = NULL then s1\<lparr>subscribed := (subscribed s1)(0 := subscribed s1 0 AND NOT (event_bit eid))\<rparr> else s1)"
  have w2: "wants s2 = wants s1" by (simp add: s2_def wants_def fun_eq_iff)
  have sub: "subscribed s2 0 AND event_bit k \<noteq> 0 \<longleftrightarrow> (\<exists>x \<in> set es. wants s2 k x)"
    if k: "k < EVENT_MAX_AMOUNT" for k
  proof -
    have s: "subscribed s 0 AND event_bit k \<noteq> 0 \<longleftrightarrow> (\<exists>x \<in> set es. wants s k x)"
      using ok k unfolding events_ok_def by (metis pos)
    have "subscribed s1 = subscribed s" by (simp add: s1_def)
    with s c0 w1 [OF k] e old event_bit_set(2) [OF eid k] show ?thesis
      unfolding w2 by (auto simp: s2_def)
  qed
  have l2: "is_list (ev_next s2) (events_head s2) es" using list by (simp add: s2_def s1_def)
  have none: "ev_mask s2 e 0 \<noteq> 0 \<longleftrightarrow> (\<exists>k < EVENT_MAX_AMOUNT. wants s2 k e)"
    using mask_byte_zero [of "ev_mask s2 e 0"] unfolding wants_def by (metis pos and_zero_eq bit.conj_zero_left)
  have run: "event_unsubscribe debug e eid s =
     (if ev_mask s2 e 0 \<noteq> 0 then Some (ERR_NONE, s2)
      else case list_delete_element (ev_next s2) (events_head s2) e of
         None \<Rightarrow> None | Some (_, nx, h) \<Rightarrow> Some (ERR_NONE, s2\<lparr>ev_next := nx, events_head := h\<rparr>))"
    using old e0 eid c
    by (simp add: event_unsubscribe_def wants_def pos [OF eid] Let_def EVENT_MASK_SIZE_def
        list_get_head_def s1_def [symmetric] s2_def [symmetric])
  show ?thesis
  proof (cases "ev_mask s2 e 0 \<noteq> 0")
    case True
    then have "events_ok s2 es" using l2 sub by (simp add: events_ok_def pos)
    with True run none w1 w2 show ?thesis by (intro exI [of _ s2] exI [of _ es]) auto
  next
    case False
    obtain nx h where del: "list_delete_element (ev_next s2) (events_head s2) e = Some (True, nx, h)"
        and l3: "is_list nx h (remove1 e es)"
      using list_delete_element_correct [OF l2, of e] e by auto
    let ?s3 = "s2\<lparr>ev_next := nx, events_head := h\<rparr>"
    have w3: "wants ?s3 = wants s2" by (simp add: wants_def fun_eq_iff)
    have rem: "set (remove1 e es) = set es - {e}"
      using is_list_distinct [OF list] by simp
    have "events_ok ?s3 (remove1 e es)"
      using l3 sub none False unfolding events_ok_def w3 rem by (auto simp: pos)
    with False run del none w1 w2 w3 show ?thesis
      by (intro exI [of _ ?s3] exI [of _ "remove1 e es"]) auto
  qed
qed

lemma event_unsubscribe_ok_witness:
  "\<exists>s' es'. event_unsubscribe True 16 2 sample_events = Some (ERR_NONE, s') \<and> events_ok s' es'
    \<and> \<not> wants s' 2 16 \<and> wants s' 0 16"
proof -
  have w: "wants sample_events 2 16" "wants sample_events 0 16"
    by (simp_all add: wants_def sample_events_def event_bit_test event_pos_def)
  from event_unsubscribe_ok [OF sample_events_ok, of 16 2 True] w
  obtain s' es' where "event_unsubscribe True 16 2 sample_events = Some (ERR_NONE, s')" "events_ok s' es'"
      "\<forall>k < EVENT_MAX_AMOUNT. \<forall>x. wants s' k x \<longleftrightarrow> wants sample_events k x \<and> (x = 16 \<longrightarrow> k \<noteq> 2)"
    by (auto simp: EVENT_MAX_AMOUNT_def)
  with w show ?thesis by (auto simp: EVENT_MAX_AMOUNT_def)
qed

subsection \<open>Posting\<close>

definition quiet_event_callback ::
    "('f \<Rightarrow> u8 \<Rightarrow> u32 \<Rightarrow> ('f, 'a) event_state_scheme \<Rightarrow> ('f, 'a) event_state_scheme option) \<Rightarrow> bool" where
  \<comment> \<open>the callbacks leave the event list and masks alone; they may change all other state\<close>
  "quiet_event_callback call \<longleftrightarrow>
     (\<forall>f k d s s'. call f k d s = Some s' \<longrightarrow> event_state.truncate s' = event_state.truncate s)"

fun run_all ::
    "('f \<Rightarrow> u8 \<Rightarrow> u32 \<Rightarrow> 's \<Rightarrow> 's option) \<Rightarrow> u8 \<Rightarrow> u32 \<Rightarrow> 'f list \<Rightarrow> 's \<Rightarrow> 's option" where
  "run_all call k d [] s = Some s"
| "run_all call k d (f # fs) s = Option.bind (call f k d s) (run_all call k d fs)"

lemma quiet_event_fields:
  assumes "quiet_event_callback call" and "call f k d s = Some s'"
  shows "ev_next s' = ev_next s" "ev_mask s' = ev_mask s" "ev_cb s' = ev_cb s"
    "events_head s' = events_head s" "subscribed s' = subscribed s"
  using assms unfolding quiet_event_callback_def
  by (metis event_state.simps(1-5) event_state.defs(4) event_state.select_convs)+

lemma event_post_loop_runs:
  assumes quiet: "quiet_event_callback call"
  shows "is_list (ev_next s) p xs \<Longrightarrow>
     event_post_loop call k d p s = run_all call k d (map (ev_cb s) (filter (wants s k) xs)) s"
proof (induction xs arbitrary: p s)
  case Nil
  then show ?case by (simp add: event_post_loop.simps)
next
  case (Cons x xs)
  then have p: "p = x" "x \<noteq> NULL" and l: "is_list (ev_next s) (ev_next s x) xs" by auto
  have test: "(ev_mask s x (event_pos k) AND event_bit k \<noteq> 0) = wants s k x" by (simp add: wants_def)
  show ?case
  proof (cases "wants s k x")
    case False
    then show ?thesis
      using p Cons.IH [OF l]
      by (subst event_post_loop.simps) (simp add: test list_get_next_element_def)
  next
    case True
    have "event_post_loop call k d (list_get_next_element (ev_next s1) x) s1
        = run_all call k d (map (ev_cb s) (filter (wants s k) xs)) s1"
      if s1: "call (ev_cb s x) k d s = Some s1" for s1
    proof -
      note same = quiet_event_fields [OF quiet s1]
      have "wants s1 k = wants s k" by (simp add: wants_def same fun_eq_iff)
      then show ?thesis
        using Cons.IH [of s1 "ev_next s1 x"] l p by (simp add: list_get_next_element_def same)
    qed
    then show ?thesis
      using p True
      by (subst event_post_loop.simps) (cases "call (ev_cb s x) k d s", simp_all add: test)
  qed
qed

text \<open>
  C23. With callbacks that leave the event list alone, posting a valid number calls the
  callbacks of exactly the listed events that want it, in list order, and returns when
  they all do.
\<close>

lemma event_post_runs:
  assumes "quiet_event_callback call" and "events_ok s es" and "k < EVENT_MAX_AMOUNT"
  shows "event_post debug call k d s = run_all call k d (map (ev_cb s) (filter (wants s k) es)) s"
proof (cases "subscribed s (event_pos k) AND event_bit k = 0")
  case True
  then have "filter (wants s k) es = []"
    using assms unfolding events_ok_def filter_empty_conv by metis
  with True assms(3) show ?thesis by (simp add: event_post_def)
next
  case False
  have "is_list (ev_next s) (events_head s) es" using assms(2) by (simp add: events_ok_def)
  from event_post_loop_runs [OF assms(1) this] show ?thesis
    using False assms(3) by (simp add: event_post_def list_get_head_def)
qed

record event_log = "nat event_state" +
  event_calls :: "(nat \<times> u8 \<times> u32) list"

lemma event_post_runs_witness:
  "map_option event_calls
     (event_post True (\<lambda>f k d s. Some (s\<lparr>event_calls := event_calls s @ [(f, k, d)]\<rparr>)) 2 9
       (event_state.extend sample_events \<lparr>event_calls = []\<rparr>)) = Some [(0, 2, 9)]"
proof -
  have "events_ok (event_state.extend sample_events \<lparr>event_calls = []\<rparr>) [16]"
    using sample_events_ok by (simp add: events_ok_def wants_def event_state.defs)
  from event_post_runs [OF _ this, of "\<lambda>f k d s. Some (s\<lparr>event_calls := event_calls s @ [(f, k, d)]\<rparr>)" 2 True 9]
  show ?thesis
    by (simp add: quiet_event_callback_def event_state.defs EVENT_MAX_AMOUNT_def wants_def
        sample_events_def event_bit_test)
qed

end
