(* ===== verification/Ornament.thy ===== *)
theory Ornament
  imports Prelude
begin

text \<open>
  The ATtiny84 firmware of the 2020 ornament, \<open>src/pcbs/ornament2020/fw\<close>: the pattern
  tables and \<open>next_pattern\<close> of \<open>pattern.c\<close>, the gamma table of \<open>gamma.c\<close>, and from
  \<open>main.c\<close> the frame generator, the software PWM, the interrupt handlers and the main loop.

  The preprocessor values are those of the Makefile: \<open>PWM_RESOLUTION_STEPS\<close> is 0x80 and
  \<open>MAX_BRIGHTNESS\<close>, which the Makefile gives to \<open>gentable.py\<close> only, defaults to it in
  \<open>main.c\<close>.  \<open>DEBUG\<close> selects the pattern list and is a parameter.  \<open>__uint24\<close> is a
  24-bit word.  An access through \<open>NULL\<close> or past a pattern table is the result \<open>None\<close>;
  program memory after the gamma table is a parameter \<open>flash\<close>.
\<close>

subsection \<open>Constants and tables\<close>

type_synonym u24 = "24 word"

abbreviation (input) NUM_LEDS :: nat where "NUM_LEDS \<equiv> 6"
definition OFF :: u8 where "OFF = 0"
definition ON :: u8 where "ON = 1"
definition RAMP_UP :: u8 where "RAMP_UP = 2"
definition RAMP_DN :: u8 where "RAMP_DN = 3"
definition RAMP_TIME :: u16 where "RAMP_TIME = 0x40"
definition MAX_BRIGHTNESS :: u8 where "MAX_BRIGHTNESS = 0x80"
definition PWM_FRAME_MASK :: u8 where "PWM_FRAME_MASK = 0x80 - 1"
definition AUTO_OFF_FRAMES :: u24 where "AUTO_OFF_FRAMES = 3 * 60 * 60 * 60"

lemmas orn_consts = OFF_def ON_def RAMP_UP_def RAMP_DN_def RAMP_TIME_def MAX_BRIGHTNESS_def
  PWM_FRAME_MASK_def AUTO_OFF_FRAMES_def

record pattern_frame =
  duration :: u16
  led_states :: "u8 list"

record pattern =
  frames :: "pattern_frame list"
  frame_idx :: u8 \<comment> \<open>the member \<open>frame_id\<close>\<close>
  frame_timer :: u16

definition mk_frame :: "u16 \<Rightarrow> u8 list \<Rightarrow> pattern_frame" where
  "mk_frame d ls = \<lparr>duration = d, led_states = ls\<rparr>"

definition test_pattern_frames :: "pattern_frame list" where
  "test_pattern_frames =
    [mk_frame 100 [OFF, OFF, OFF, OFF, OFF, OFF],
     mk_frame 100 [ON, OFF, OFF, OFF, OFF, OFF],
     mk_frame 100 [OFF, ON, OFF, OFF, OFF, OFF],
     mk_frame 100 [OFF, OFF, ON, OFF, OFF, OFF],
     mk_frame 100 [OFF, OFF, OFF, ON, OFF, OFF],
     mk_frame 100 [OFF, OFF, OFF, OFF, ON, OFF],
     mk_frame 100 [OFF, OFF, OFF, OFF, OFF, ON],
     mk_frame 100 [OFF, OFF, OFF, OFF, OFF, RAMP_DN],
     mk_frame 0 [OFF, OFF, OFF, OFF, OFF, OFF]]"

definition ramps :: "pattern_frame list" where
  "ramps =
    [mk_frame 100 [RAMP_UP, OFF, OFF, OFF, OFF, RAMP_DN],
     mk_frame 100 [RAMP_DN, RAMP_UP, OFF, OFF, OFF, OFF],
     mk_frame 100 [OFF, RAMP_DN, RAMP_UP, OFF, OFF, OFF],
     mk_frame 100 [OFF, OFF, RAMP_DN, RAMP_UP, OFF, OFF],
     mk_frame 100 [OFF, OFF, OFF, RAMP_DN, RAMP_UP, OFF],
     mk_frame 100 [OFF, OFF, OFF, OFF, RAMP_DN, RAMP_UP],
     mk_frame 0 [OFF, OFF, OFF, OFF, OFF, OFF]]"

definition ornament :: "pattern_frame list" where
  "ornament =
    [mk_frame RAMP_TIME [RAMP_UP, OFF, OFF, OFF, OFF, OFF],
     mk_frame RAMP_TIME [ON, RAMP_UP, OFF, OFF, OFF, OFF],
     mk_frame RAMP_TIME [ON, ON, RAMP_UP, OFF, OFF, OFF],
     mk_frame 1800 [ON, ON, ON, OFF, OFF, OFF],
     mk_frame RAMP_TIME [RAMP_DN, ON, ON, OFF, OFF, OFF],
     mk_frame RAMP_TIME [OFF, RAMP_DN, ON, OFF, OFF, OFF],
     mk_frame RAMP_TIME [OFF, OFF, RAMP_DN, OFF, OFF, OFF],
     mk_frame RAMP_TIME [OFF, OFF, OFF, RAMP_UP, OFF, OFF],
     mk_frame RAMP_TIME [OFF, OFF, OFF, ON, RAMP_UP, RAMP_UP],
     mk_frame 1800 [OFF, OFF, OFF, ON, ON, ON],
     mk_frame 40 [OFF, OFF, OFF, ON, ON, OFF],
     mk_frame 40 [OFF, OFF, OFF, ON, ON, ON],
     mk_frame RAMP_TIME [OFF, OFF, OFF, RAMP_DN, ON, ON],
     mk_frame RAMP_TIME [OFF, OFF, OFF, OFF, RAMP_DN, RAMP_DN],
     mk_frame 600 [OFF, OFF, OFF, OFF, OFF, OFF],
     mk_frame 0 [OFF, OFF, OFF, OFF, OFF, OFF]]"

definition all_on :: "pattern_frame list" where
  "all_on =
    [mk_frame 100 [ON, ON, ON, ON, ON, ON],
     mk_frame 0 [OFF, OFF, OFF, OFF, OFF, OFF]]"

definition patterns :: "bool \<Rightarrow> pattern_frame list option list" where
  \<comment> \<open>the trailing \<open>NULL\<close> included\<close>
  "patterns debug =
     (if debug then [Some test_pattern_frames, Some ramps, Some ornament, Some all_on]
      else [Some ornament]) @ [None]"

definition gamma_table :: "u8 list" where
  "gamma_table =
    [0, 0, 0, 0, 0, 0, 0, 0, 0, 0, 0, 0, 0, 0, 0, 0, 0, 0, 0, 0, 0, 0, 0, 0, 0, 1, 1, 1, 1, 1,
     1, 1, 1, 1, 1, 1, 1, 1, 1, 1, 1, 1, 1, 1, 1, 1, 1, 2, 2, 2, 2, 2, 2, 2, 2, 2, 2, 2, 2, 3,
     3, 3, 3, 3, 3, 3, 3, 3, 4, 4, 4, 4, 4, 4, 4, 4, 5, 5, 5, 5, 5, 5, 6, 6, 6, 6, 6, 6, 7, 7,
     7, 7, 7, 7, 8, 8, 8, 8, 8, 9, 9, 9, 9, 10, 10, 10, 10, 10, 11, 11, 11, 11, 12, 12, 12,
     12, 13, 13, 13, 14, 14, 14, 14, 15, 15, 15, 16, 16]"

subsection \<open>State\<close>

text \<open>
  \<open>current_pattern\<close> is either \<open>NULL\<close> or the address of the one static object \<open>master\<close>.
  \<open>irq_on\<close> is the interrupt flag of the status register.
\<close>

record orn_state =
  PORTA :: u8
  PORTB :: u8
  PRR :: u8
  DDRA :: u8
  DDRB :: u8
  CLKPR :: u8
  OCR0A :: u8
  TIMSK0 :: u8
  TCCR0A :: u8
  TCCR0B :: u8
  MCUCR :: u8
  GIMSK :: u8
  sleep_idle :: bool
  irq_on :: bool
  current_pattern :: bool
  master :: pattern
  pattern_id :: int
  update_frame :: u8
  frame_id :: u24
  pwm_no :: u8 \<comment> \<open>the static \<open>pwm_frame\<close>\<close>
  brightness :: "u8 list"

definition PRTIM0 :: u8 where "PRTIM0 = 4" \<comment> \<open>\<open>1 << PRTIM0\<close>, bit 2 of the power reduction register\<close>

definition TIMER_INTERVAL :: u8 where
  "TIMER_INTERVAL = of_nat (4000000 div (60 * (0x7F + 1)) div 8)"

definition avr_setup :: "orn_state \<Rightarrow> orn_state" where
  "avr_setup s =
     (let s = s\<lparr>irq_on := False\<rparr>;
          s = s\<lparr>CLKPR := 0x80\<rparr>; s = s\<lparr>CLKPR := 1\<rparr>;
          s = s\<lparr>DDRA := 0x0F\<rparr>; s = s\<lparr>DDRB := 0x03\<rparr>;
          s = s\<lparr>PORTA := 0\<rparr>; s = s\<lparr>PORTB := 0\<rparr>;
          s = s\<lparr>OCR0A := TIMER_INTERVAL\<rparr>; s = s\<lparr>TIMSK0 := 0x02\<rparr>; s = s\<lparr>TCCR0A := 0x02\<rparr>;
          s = s\<lparr>TCCR0B := 2\<rparr>;
          s = s\<lparr>PRR := PRR s OR (8 OR 2 OR 1)\<rparr>;
          s = s\<lparr>MCUCR := MCUCR s OR (2 OR 1)\<rparr>;
          s = s\<lparr>GIMSK := GIMSK s OR 0x40\<rparr>;
          s = s\<lparr>sleep_idle := True\<rparr>
      in s\<lparr>irq_on := True\<rparr>)"

subsection \<open>pattern.c\<close>

definition new_pattern :: "pattern_frame list \<Rightarrow> pattern" where
  "new_pattern fs = \<lparr>frames = fs, frame_idx = 0, frame_timer = 0\<rparr>"

definition next_pattern :: "bool \<Rightarrow> orn_state \<Rightarrow> orn_state" where
  \<comment> \<open>the returned pointer is always that of \<open>master\<close>\<close>
  "next_pattern debug s =
     (let s = s\<lparr>pattern_id := pattern_id s + 1\<rparr> in
      case patterns debug ! nat (pattern_id s) of
        None \<Rightarrow> s\<lparr>pattern_id := 0, master := new_pattern (the (patterns debug ! 0))\<rparr>
      | Some p \<Rightarrow> s\<lparr>master := new_pattern p\<rparr>)"

subsection \<open>Output\<close>

definition update_out :: "u8 \<Rightarrow> orn_state \<Rightarrow> orn_state" where
  "update_out leds s =
     s\<lparr>PORTA := (PORTA s AND NOT 0x0F) OR (leds AND 0x0F),
       PORTB := (PORTB s AND NOT 0x3) OR (drop_bit 4 leds AND 0x3)\<rparr>"

definition gamma_read :: "(u8 \<Rightarrow> u8) \<Rightarrow> u8 \<Rightarrow> u8" where
  "gamma_read flash i = (if unat i < length gamma_table then gamma_table ! unat i else flash i)"

fun pwm_bits :: "(u8 \<Rightarrow> u8) \<Rightarrow> u8 \<Rightarrow> nat \<Rightarrow> u8 list \<Rightarrow> u8 \<Rightarrow> u8" where
  \<comment> \<open>the loop of \<open>pwm_frame_update\<close> from LED \<open>i\<close> on\<close>
  "pwm_bits flash frame_no i [] out = out"
| "pwm_bits flash frame_no i (b # bs) out =
     (if b = 0 then pwm_bits flash frame_no (Suc i) bs out
      else pwm_bits flash frame_no (Suc i) bs
             (if frame_no < gamma_read flash b then out OR push_bit i 1 else out))"

definition pwm_frame_update :: "(u8 \<Rightarrow> u8) \<Rightarrow> u8 \<Rightarrow> u8 list \<Rightarrow> orn_state \<Rightarrow> orn_state" where
  "pwm_frame_update flash frame_no bs s = update_out (pwm_bits flash frame_no 0 (take NUM_LEDS bs) 0) s"

subsection \<open>Frame generator\<close>

definition led_level :: "u16 \<Rightarrow> u8 \<Rightarrow> u8 \<Rightarrow> u8" where
  \<comment> \<open>the \<open>switch\<close>: the new brightness of an LED in a given state, whose old brightness stays
      for a state that has no \<open>case\<close>\<close>
  "led_level timer st old =
     (if st = OFF then 0
      else if st = ON then MAX_BRIGHTNESS
      else if st = RAMP_UP then
        (if timer < RAMP_TIME then ucast ((ucast MAX_BRIGHTNESS * ucast timer :: u24) div ucast RAMP_TIME)
         else MAX_BRIGHTNESS)
      else if st = RAMP_DN then
        (if timer < RAMP_TIME
         then MAX_BRIGHTNESS - ucast ((ucast MAX_BRIGHTNESS * ucast timer :: u24) div ucast RAMP_TIME)
         else 0)
      else old)"

definition frame_at :: "pattern \<Rightarrow> u8 \<Rightarrow> pattern_frame option" where
  "frame_at p i = (if unat i < length (frames p) then Some (frames p ! unat i) else None)"

definition get_brightness_from_pattern :: "u8 list \<Rightarrow> pattern option \<Rightarrow> (u8 list \<times> pattern) option" where
  "get_brightness_from_pattern bs p =
     (case p of
        None \<Rightarrow> None \<comment> \<open>clears the LEDs, then reads \<open>p->frames\<close> all the same\<close>
      | Some p \<Rightarrow>
         (case frame_at p (frame_idx p) of
            None \<Rightarrow> None
          | Some frame \<Rightarrow>
             (let p = p\<lparr>frame_timer := frame_timer p + 1\<rparr>; t = frame_timer p in
              if t = duration frame then
                (let p = p\<lparr>frame_timer := 0, frame_idx := frame_idx p + 1\<rparr> in
                 case frame_at p (frame_idx p) of
                   None \<Rightarrow> None
                 | Some frame \<Rightarrow>
                     Some (bs, if duration frame = 0 then p\<lparr>frame_idx := 0\<rparr> else p))
              else Some (map2 (led_level t) (led_states frame) bs, p))))"

subsection \<open>Main loop and interrupts\<close>

definition sleep_until_touch :: "orn_state \<Rightarrow> orn_state" where
  \<comment> \<open>up to the sleep instruction\<close>
  "sleep_until_touch s =
     (let s = s\<lparr>current_pattern := False\<rparr>;
          s = update_out 0 s;
          s = s\<lparr>PRR := PRR s OR PRTIM0\<rparr>
      in s\<lparr>irq_on := True\<rparr>)"

datatype step_result = Stepped orn_state | Auto_off orn_state

definition update_loop_step :: "(u8 \<Rightarrow> u8) \<Rightarrow> orn_state \<Rightarrow> step_result option" where
  \<comment> \<open>\<open>Auto_off\<close>: asleep in the nested \<open>sleep_until_touch\<close>, which returns when woken\<close>
  "update_loop_step flash s =
     (let s = s\<lparr>pwm_no := pwm_no s AND PWM_FRAME_MASK\<rparr>;
          show = (\<lambda>s. Stepped (pwm_frame_update flash (pwm_no s) (brightness s)
                                 (s\<lparr>pwm_no := pwm_no s + 1\<rparr>)))
      in if pwm_no s = 0 then
           (if AUTO_OFF_FRAMES \<le> frame_id s then Some (Auto_off (sleep_until_touch (s\<lparr>frame_id := 0\<rparr>)))
            else
              (let s = s\<lparr>frame_id := frame_id s + 1\<rparr> in
               case get_brightness_from_pattern (brightness s)
                      (if current_pattern s then Some (master s) else None) of
                 None \<Rightarrow> None
               | Some (bs, p) \<Rightarrow> Some (show (s\<lparr>brightness := bs, master := p\<rparr>))))
         else Some (show s))"

definition TIM0_COMPA_vect :: "orn_state \<Rightarrow> orn_state" where
  "TIM0_COMPA_vect s = s\<lparr>update_frame := 1\<rparr>"

function debounce :: "(nat \<Rightarrow> u8) \<Rightarrow> nat \<Rightarrow> u16 \<Rightarrow> bool" where
  \<comment> \<open>whether the sensor pin stays high while \<open>i\<close> counts down to zero; \<open>pinb k\<close> is the
      \<open>k\<close>-th sample of \<open>PINB\<close>\<close>
  "debounce pinb k i =
     (if i = 0 then True
      else if pinb k AND 4 = 0 then False
      else debounce pinb (Suc k) (i - 1))"
  by pat_completeness auto
termination
  by (relation "measure (\<lambda>(_, _, i). unat i)") (auto simp: unat_minus_one_less)

definition EXT_INT0_vect :: "bool \<Rightarrow> (nat \<Rightarrow> u8) \<Rightarrow> orn_state \<Rightarrow> orn_state" where
  "EXT_INT0_vect debug pinb s =
     (let s = update_out 0 s in
      if \<not> debounce pinb 0 0xFEEE then s
      else
        (let s = s\<lparr>PRR := PRR s AND NOT PRTIM0\<rparr>;
             s = (if current_pattern s then s\<lparr>current_pattern := False\<rparr>
                  else (next_pattern debug s)\<lparr>current_pattern := True\<rparr>)
         in s\<lparr>frame_id := 0\<rparr>))"

declare debounce.simps [simp del]

datatype loc = Top | Asleep_main | Check | Critical | Asleep_auto | Asleep_idle | Undefined

fun resume :: "loc \<Rightarrow> orn_state \<Rightarrow> loc \<times> orn_state" where
  \<comment> \<open>where the main loop goes on after an interrupt: a sleep instruction returns\<close>
  "resume Asleep_main s = (Check, s)"
| "resume Asleep_auto s = (Asleep_idle, s\<lparr>update_frame := 0, irq_on := True\<rparr>)"
| "resume Asleep_idle s = (Top, s)"
| "resume l s = (l, s)"

inductive orn_step :: "bool \<Rightarrow> (u8 \<Rightarrow> u8) \<Rightarrow> loc \<times> orn_state \<Rightarrow> loc \<times> orn_state \<Rightarrow> bool"
  for debug flash where
  top_null: "\<not> current_pattern s \<Longrightarrow> orn_step debug flash (Top, s) (Asleep_main, sleep_until_touch s)"
| top_run: "current_pattern s \<Longrightarrow> orn_step debug flash (Top, s) (Check, s)"
| check_no: "update_frame s = 0 \<Longrightarrow> orn_step debug flash (Check, s) (Asleep_idle, s)"
| check_yes: "update_frame s \<noteq> 0 \<Longrightarrow> orn_step debug flash (Check, s) (Critical, s\<lparr>irq_on := False\<rparr>)"
| step: "update_loop_step flash s = Some (Stepped s') \<Longrightarrow>
    orn_step debug flash (Critical, s) (Asleep_idle, s'\<lparr>update_frame := 0, irq_on := True\<rparr>)"
| step_off: "update_loop_step flash s = Some (Auto_off s') \<Longrightarrow>
    orn_step debug flash (Critical, s) (Asleep_auto, s')"
| step_undefined: "update_loop_step flash s = None \<Longrightarrow> orn_step debug flash (Critical, s) (Undefined, s)"
| tick: "l \<noteq> Undefined \<Longrightarrow> irq_on s \<Longrightarrow> PRR s AND PRTIM0 = 0 \<Longrightarrow>
    orn_step debug flash (l, s) (resume l (TIM0_COMPA_vect s))"
| touch: "l \<noteq> Undefined \<Longrightarrow> irq_on s \<Longrightarrow>
    orn_step debug flash (l, s) (resume l (EXT_INT0_vect debug pinb s))"

definition orn_reset :: orn_state where
  "orn_reset = \<lparr>PORTA = 0, PORTB = 0, PRR = 0, DDRA = 0, DDRB = 0, CLKPR = 0, OCR0A = 0, TIMSK0 = 0,
     TCCR0A = 0, TCCR0B = 0, MCUCR = 0, GIMSK = 0, sleep_idle = False, irq_on = False,
     current_pattern = False, master = new_pattern [], pattern_id = 0, update_frame = 1, frame_id = 0,
     pwm_no = 0, brightness = [0, 0, 0, 0, 0, 0]\<rparr>"

definition orn_start :: "bool \<Rightarrow> loc \<times> orn_state" where
  \<comment> \<open>\<open>main\<close> up to the loop\<close>
  "orn_start debug = (Top, (next_pattern debug (avr_setup orn_reset))\<lparr>current_pattern := True\<rparr>)"

inductive orn_reachable :: "bool \<Rightarrow> (u8 \<Rightarrow> u8) \<Rightarrow> loc \<times> orn_state \<Rightarrow> bool" for debug flash where
  start: "orn_reachable debug flash (orn_start debug)"
| more: "orn_reachable debug flash c \<Longrightarrow> orn_step debug flash c c' \<Longrightarrow> orn_reachable debug flash c'"

inductive_cases orn_step_critical: "orn_step debug flash (Critical, s) c"

subsection \<open>The pattern tables\<close>

definition frame_ok :: "pattern_frame \<Rightarrow> bool" where
  "frame_ok f \<longleftrightarrow> duration f \<noteq> 0 \<and> length (led_states f) = NUM_LEDS"

definition table_ok :: "pattern_frame list \<Rightarrow> bool" where
  "table_ok fs \<longleftrightarrow> 2 \<le> length fs \<and> length fs \<le> 256 \<and> duration (last fs) = 0
     \<and> list_all frame_ok (butlast fs)"

lemmas table_defs = test_pattern_frames_def ramps_def ornament_def all_on_def mk_frame_def

lemma tables_ok: "table_ok test_pattern_frames" "table_ok ramps" "table_ok ornament" "table_ok all_on"
  by (simp_all add: table_ok_def table_defs frame_ok_def RAMP_TIME_def)

definition pattern_ok :: "pattern \<Rightarrow> bool" where
  \<comment> \<open>the cursor stands on a frame before the terminator and inside its duration\<close>
  "pattern_ok p \<longleftrightarrow> table_ok (frames p) \<and> Suc (unat (frame_idx p)) < length (frames p)
     \<and> frame_timer p < duration (frames p ! unat (frame_idx p))"

lemma table_ok_nth:
  assumes "table_ok fs" and "Suc i < length fs"
  shows "frame_ok (fs ! i)"
proof -
  have "fs ! i = butlast fs ! i" using assms(2) by (simp add: nth_butlast)
  moreover have "butlast fs ! i \<in> set (butlast fs)" using assms(2) by simp
  ultimately show ?thesis using assms(1) by (simp add: table_ok_def list_all_iff)
qed

lemma table_ok_terminator:
  "table_ok fs \<Longrightarrow> i < length fs \<Longrightarrow> duration (fs ! i) = 0 \<longleftrightarrow> Suc i = length fs"
  by (metis Suc_lessI diff_Suc_1 frame_ok_def last_conv_nth list.size(3) not_less_zero table_ok_def table_ok_nth)

lemma new_pattern_ok: "table_ok fs \<Longrightarrow> pattern_ok (new_pattern fs)"
  using table_ok_nth [of fs 0]
  by (auto simp: pattern_ok_def new_pattern_def table_ok_def frame_ok_def word_gt_0)

definition bright_ok :: "u8 list \<Rightarrow> bool" where
  "bright_ok bs \<longleftrightarrow> length bs = NUM_LEDS \<and> list_all (\<lambda>b. b \<le> MAX_BRIGHTNESS) bs"

lemma ramp_value:
  fixes timer :: u16
  assumes "timer < RAMP_TIME"
  shows "unat (ucast ((ucast MAX_BRIGHTNESS * ucast timer :: u24) div ucast RAMP_TIME) :: u8) = 2 * unat timer"
proof -
  have t: "unat timer < 64" using assms by (simp add: RAMP_TIME_def word_less_nat_alt)
  have t24: "unat (ucast timer :: u24) = unat timer" by (rule unat_ucast_up) simp
  have "unat (0x80 * ucast timer :: u24) = 0x80 * unat timer"
    using t t24 by (subst unat_mult_lem [THEN iffD1]) simp_all
  then have "unat ((0x80 * ucast timer :: u24) div 0x40) = 2 * unat timer"
    by (simp add: unat_div)
  moreover have "(2 * unat timer) mod 256 = 2 * unat timer" using t by simp
  ultimately show ?thesis
    by (simp add: MAX_BRIGHTNESS_def RAMP_TIME_def unsigned_ucast_eq take_bit_eq_mod)
qed

lemma led_level_le: "old \<le> MAX_BRIGHTNESS \<Longrightarrow> led_level timer st old \<le> MAX_BRIGHTNESS"
proof -
  assume old: "old \<le> MAX_BRIGHTNESS"
  let ?v = "ucast ((ucast MAX_BRIGHTNESS * ucast timer :: u24) div ucast RAMP_TIME) :: u8"
  have "?v \<le> MAX_BRIGHTNESS" if "timer < RAMP_TIME"
    using ramp_value [OF that] that
    by (simp add: word_le_nat_alt MAX_BRIGHTNESS_def RAMP_TIME_def word_less_nat_alt)
  then show ?thesis
    using old by (auto simp: led_level_def word_sub_le)
qed

lemma patterns_ok: "Some fs \<in> set (patterns debug) \<Longrightarrow> table_ok fs"
  using tables_ok by (auto simp: patterns_def split: if_splits)

lemma next_pattern_ok:
  assumes "0 \<le> pattern_id s" and "pattern_id s < int (length (patterns debug)) - 1"
  shows "pattern_ok (master (next_pattern debug s)) \<and> 0 \<le> pattern_id (next_pattern debug s)
    \<and> pattern_id (next_pattern debug s) < int (length (patterns debug)) - 1"
proof (cases "patterns debug ! nat (pattern_id s + 1)")
  case None
  have "\<exists>fs. patterns debug ! 0 = Some fs \<and> table_ok fs" "1 < length (patterns debug)"
    using tables_ok by (simp_all add: patterns_def)
  with None show ?thesis by (auto simp: next_pattern_def Let_def new_pattern_ok)
next
  case (Some fs)
  have lt: "nat (pattern_id s + 1) < length (patterns debug)" using assms by simp
  moreover have "patterns debug ! (length (patterns debug) - 1) = None" by (simp add: patterns_def)
  ultimately have "nat (pattern_id s + 1) \<noteq> length (patterns debug) - 1" using Some by auto
  moreover have "table_ok fs" using Some lt by (metis nth_mem patterns_ok)
  ultimately show ?thesis using Some assms lt by (auto simp: next_pattern_def Let_def new_pattern_ok)
qed

lemma get_brightness_ok:
  assumes p: "pattern_ok p" and bs: "bright_ok bs"
  shows "\<exists>bs' p'. get_brightness_from_pattern bs (Some p) = Some (bs', p')
    \<and> bright_ok bs' \<and> pattern_ok p' \<and> frames p' = frames p"
proof -
  let ?i = "unat (frame_idx p)"
  let ?f = "frames p ! ?i"
  have tab: "table_ok (frames p)" and i: "Suc ?i < length (frames p)" and t: "frame_timer p < duration ?f"
    using p by (simp_all add: pattern_ok_def)
  have f: "frame_ok ?f" by (rule table_ok_nth [OF tab i])
  have at: "frame_at p (frame_idx p) = Some ?f" using i by (simp add: frame_at_def)
  have i255: "?i < 255" using i tab by (simp add: table_ok_def)
  then have Suc_i: "unat (frame_idx p + 1) = Suc ?i" by (simp add: unat_word_ariths)
  show ?thesis
  proof (cases "frame_timer p + 1 = duration ?f")
    case False
    have "frame_timer p + 1 < duration ?f"
      using t False by (metis inc_le order_le_imp_less_or_eq)
    moreover have "bright_ok (map2 (led_level (frame_timer p + 1)) (led_states ?f) bs)"
      using bs f led_level_le unfolding bright_ok_def frame_ok_def
      by (auto simp: list_all_length)
    ultimately show ?thesis
      using False at tab i by (simp add: get_brightness_from_pattern_def pattern_ok_def Let_def)
  next
    case True
    have at': "frame_at (p\<lparr>frame_timer := 0, frame_idx := frame_idx p + 1\<rparr>) (frame_idx p + 1)
        = Some (frames p ! Suc ?i)"
      using i Suc_i by (simp add: frame_at_def)
    have first: "0 < duration (frames p ! 0)"
      using table_ok_nth [OF tab, of 0] tab by (auto simp: frame_ok_def word_gt_0 table_ok_def)
    have "pattern_ok (p\<lparr>frame_timer := 0, frame_idx := 0\<rparr>)"
      using tab first by (simp add: pattern_ok_def table_ok_def)
    moreover have "duration (frames p ! Suc ?i) \<noteq> 0 \<Longrightarrow>
        pattern_ok (p\<lparr>frame_timer := 0, frame_idx := frame_idx p + 1\<rparr>)"
      using tab i Suc_i table_ok_terminator [OF tab i] by (auto simp: pattern_ok_def word_gt_0)
    ultimately show ?thesis
      using True at at' bs by (simp add: get_brightness_from_pattern_def Let_def)
  qed
qed

subsection \<open>The running program\<close>

definition orn_ok :: "bool \<Rightarrow> orn_state \<Rightarrow> bool" where
  "orn_ok debug s \<longleftrightarrow> pattern_ok (master s) \<and> bright_ok (brightness s)
     \<and> 0 \<le> pattern_id s \<and> pattern_id s < int (length (patterns debug)) - 1"

lemma next_pattern_frame [simp]:
  "brightness (next_pattern debug s) = brightness s"
  "update_frame (next_pattern debug s) = update_frame s"
  "frame_id (next_pattern debug s) = frame_id s"
  "pwm_no (next_pattern debug s) = pwm_no s"
  "irq_on (next_pattern debug s) = irq_on s"
  "current_pattern (next_pattern debug s) = current_pattern s"
  by (auto simp: next_pattern_def Let_def split: option.splits)

lemma orn_ok_frame:
  "orn_ok debug s \<Longrightarrow> master s' = master s \<Longrightarrow> brightness s' = brightness s \<Longrightarrow>
     pattern_id s' = pattern_id s \<Longrightarrow> orn_ok debug s'"
  by (simp add: orn_ok_def)

lemma orn_ok_next: "orn_ok debug s \<Longrightarrow> orn_ok debug (next_pattern debug s)"
  using next_pattern_ok [of s debug] by (simp add: orn_ok_def)

lemma orn_ok_sleep: "orn_ok debug s \<Longrightarrow> orn_ok debug (sleep_until_touch s)"
  by (simp add: orn_ok_def sleep_until_touch_def Let_def update_out_def)

lemma orn_ok_tick: "orn_ok debug s \<Longrightarrow> orn_ok debug (TIM0_COMPA_vect s)"
  by (simp add: orn_ok_def TIM0_COMPA_vect_def)

lemma orn_ok_touch: "orn_ok debug s \<Longrightarrow> orn_ok debug (EXT_INT0_vect debug pinb s)"
proof -
  assume ok: "orn_ok debug s"
  let ?s = "(update_out 0 s)\<lparr>PRR := PRR (update_out 0 s) AND NOT PRTIM0\<rparr>"
  have base: "orn_ok debug (update_out 0 s)" "orn_ok debug ?s"
    by (rule orn_ok_frame [OF ok]; simp add: update_out_def)+
  have "orn_ok debug (next_pattern debug ?s)" by (rule orn_ok_next [OF base(2)])
  with base show ?thesis
    by (simp add: EXT_INT0_vect_def Let_def orn_ok_def)
qed

lemma orn_ok_resume: "orn_ok debug s \<Longrightarrow> orn_ok debug (snd (resume l s))"
  by (cases l) (simp_all add: orn_ok_def)

lemma update_loop_step_cases:
  assumes "orn_ok debug s"
  shows "update_loop_step flash s = None \<longleftrightarrow>
      \<not> current_pattern s \<and> pwm_no s AND PWM_FRAME_MASK = 0 \<and> frame_id s < AUTO_OFF_FRAMES"
    and "update_loop_step flash s = Some (Stepped s') \<Longrightarrow> orn_ok debug s'"
    and "update_loop_step flash s = Some (Auto_off s') \<Longrightarrow> orn_ok debug s'"
proof -
  obtain bs p where get: "get_brightness_from_pattern (brightness s) (Some (master s)) = Some (bs, p)"
      and ok: "bright_ok bs" "pattern_ok p"
    using get_brightness_ok [of "master s" "brightness s"] assms by (auto simp: orn_ok_def)
  have null: "get_brightness_from_pattern b None = None" for b
    by (simp add: get_brightness_from_pattern_def)
  show "update_loop_step flash s = None \<longleftrightarrow>
      \<not> current_pattern s \<and> pwm_no s AND PWM_FRAME_MASK = 0 \<and> frame_id s < AUTO_OFF_FRAMES"
    using get by (auto simp: update_loop_step_def Let_def null not_le)
  show "update_loop_step flash s = Some (Stepped s') \<Longrightarrow> orn_ok debug s'"
    using get ok assms
    by (auto simp: update_loop_step_def Let_def null orn_ok_def pwm_frame_update_def update_out_def
        split: if_splits)
  show "update_loop_step flash s = Some (Auto_off s') \<Longrightarrow> orn_ok debug s'"
    using assms
    by (auto simp: update_loop_step_def Let_def null orn_ok_def sleep_until_touch_def update_out_def
        split: if_splits option.splits prod.splits)
qed

lemma orn_step_ok:
  assumes "orn_step debug flash c c'" and "orn_ok debug (snd c)"
  shows "orn_ok debug (snd c')"
  using assms
proof (cases rule: orn_step.cases)
  case (check_yes s)
  with assms show ?thesis by (simp add: orn_ok_def)
next
  case (step s s')
  with assms update_loop_step_cases(2) [of debug s flash s'] show ?thesis by (simp add: orn_ok_def)
next
  case (step_off s s')
  with assms update_loop_step_cases(3) [of debug s flash s'] show ?thesis by simp
next
  case (tick l s)
  with assms show ?thesis by (simp add: orn_ok_resume orn_ok_tick)
next
  case (touch l s pinb)
  with assms show ?thesis by (simp add: orn_ok_resume orn_ok_touch)
qed (simp_all add: orn_ok_sleep)

lemma orn_start_ok: "orn_ok debug (snd (orn_start debug))"
proof -
  have "bright_ok (brightness orn_reset)" by (simp add: bright_ok_def orn_reset_def)
  moreover have "pattern_id (avr_setup orn_reset) = 0" "brightness (avr_setup orn_reset) = brightness orn_reset"
    by (simp_all add: avr_setup_def orn_reset_def Let_def)
  moreover have "0 < int (length (patterns debug)) - 1" by (simp add: patterns_def)
  ultimately show ?thesis
    using next_pattern_ok [of "avr_setup orn_reset" debug] by (simp add: orn_start_def orn_ok_def)
qed

lemma orn_reachable_ok: "orn_reachable debug flash c \<Longrightarrow> orn_ok debug (snd c)"
  by (induction rule: orn_reachable.induct) (auto intro: orn_start_ok orn_step_ok)

text \<open>
  C16. In every reachable state, whatever the timer and the touch sensor do, the pattern
  cursor stands on a frame before the table's terminator and inside its duration, every
  brightness is at most \<open>MAX_BRIGHTNESS\<close>, and the pattern number indexes the pattern list.
\<close>

lemma orn_reachable_invariant:
  assumes "orn_reachable debug flash (l, s)"
  shows "pattern_ok (master s) \<and> length (brightness s) = NUM_LEDS
    \<and> list_all (\<lambda>b. b \<le> MAX_BRIGHTNESS) (brightness s)
    \<and> 0 \<le> pattern_id s \<and> pattern_id s < int (length (patterns debug)) - 1"
  using orn_reachable_ok [OF assms] by (simp add: orn_ok_def bright_ok_def)

lemma orn_reachable_invariant_witness:
  "pattern_ok (master (snd (orn_start False)))"
  using orn_reachable_invariant [of False "\<lambda>_. 0" Top "snd (orn_start False)"]
    orn_reachable.start [of False "\<lambda>_. 0"] by (simp add: orn_start_def)

text \<open>
  C25. From a reachable state with a current pattern, the frame step never reads through
  \<open>NULL\<close> or past a pattern table; it is undefined only for a \<open>NULL\<close> pattern at the start
  of a PWM cycle before the auto-off time.
\<close>

lemma frame_step_defined:
  assumes "orn_reachable debug flash (l, s)"
  shows "update_loop_step flash s = None \<longleftrightarrow>
     \<not> current_pattern s \<and> pwm_no s AND PWM_FRAME_MASK = 0 \<and> frame_id s < AUTO_OFF_FRAMES"
  using orn_reachable_ok [OF assms] by (intro update_loop_step_cases(1)) simp

lemma frame_step_defined_witness:
  "update_loop_step (\<lambda>_. 0) (snd (orn_start False)) \<noteq> None"
  using frame_step_defined [of False "\<lambda>_. 0" Top "snd (orn_start False)"]
    orn_reachable.start [of False "\<lambda>_. 0"] by (simp add: orn_start_def)

lemma debounce_held: "(\<forall>k. pinb k AND 4 \<noteq> 0) \<Longrightarrow> debounce pinb k i"
  by (induction pinb k i rule: debounce.induct) (subst debounce.simps, simp)

text \<open>
  C27. The main loop tests the pattern pointer with interrupts enabled, so a touch between
  that test and \<open>cli()\<close> switches the pattern off and the frame generator then runs with a
  \<open>NULL\<close> pattern: the undefined state is reachable.
\<close>

lemma null_pattern_race: "\<exists>s. orn_reachable debug flash (Undefined, s)"
proof -
  obtain s where start: "orn_start debug = (Top, s)" by (simp add: orn_start_def)
  then have s: "current_pattern s" "irq_on s" "update_frame s = 1" "pwm_no s = 0" "orn_ok debug s"
    using orn_start_ok [of debug]
    by (auto simp: orn_start_def avr_setup_def orn_reset_def Let_def)
  define s1 where "s1 = EXT_INT0_vect debug (\<lambda>_. 4) s"
  have s1: "\<not> current_pattern s1" "update_frame s1 = 1" "pwm_no s1 = 0" "frame_id s1 = 0"
    using s debounce_held [of "\<lambda>_. 4"]
    by (simp_all add: s1_def EXT_INT0_vect_def Let_def update_out_def)
  have "orn_reachable debug flash (Check, s)"
    using orn_reachable.more [OF orn_reachable.start] start top_run [OF s(1)] by metis
  moreover have "orn_step debug flash (Check, s) (Check, s1)"
    using touch [of Check s debug flash "\<lambda>_. 4"] s by (simp add: s1_def)
  moreover have "orn_step debug flash (Check, s1) (Critical, s1\<lparr>irq_on := False\<rparr>)"
    by (rule check_yes) (simp add: s1)
  moreover have "orn_step debug flash (Critical, s1\<lparr>irq_on := False\<rparr>) (Undefined, s1\<lparr>irq_on := False\<rparr>)"
  proof (rule step_undefined)
    have "orn_ok debug (s1\<lparr>irq_on := False\<rparr>)"
      by (rule orn_ok_frame [OF orn_ok_touch [OF s(5), of "\<lambda>_. 4"]]) (simp_all add: s1_def)
    from update_loop_step_cases(1) [OF this, of flash] show "update_loop_step flash (s1\<lparr>irq_on := False\<rparr>) = None"
      by (simp add: s1 AUTO_OFF_FRAMES_def)
  qed
  ultimately show ?thesis by (meson orn_reachable.more)
qed

subsection \<open>Software PWM\<close>

lemma pwm_bits_bit:
  assumes "j < 8"
  shows "bit (pwm_bits flash n i bs out) j \<longleftrightarrow> bit out j
    \<or> (i \<le> j \<and> j < i + length bs \<and> bs ! (j - i) \<noteq> 0 \<and> n < gamma_read flash (bs ! (j - i)))"
proof (induction bs arbitrary: i out)
  case (Cons b bs)
  have set: "bit (out OR 2 ^ i) j \<longleftrightarrow> bit out j \<or> j = i" for out :: u8
    using assms by (auto simp: bit_or_iff bit_exp_iff)
  have self: "i = j \<Longrightarrow> bit (out OR 2 ^ j) j" using set [of out] by simp
  show ?case
    using assms by (cases "i = j") (auto simp: Cons.IH self set nth_Cons' Suc_le_eq not_less le_Suc_eq)
qed auto

definition lit :: "orn_state \<Rightarrow> nat \<Rightarrow> bool" where
  \<comment> \<open>LED \<open>i\<close>: the low four bits of port A, then the low two of port B\<close>
  "lit s i \<longleftrightarrow> (if i < 4 then bit (PORTA s) i else bit (PORTB s) (i - 4))"

lemma lit_update_out: "i < NUM_LEDS \<Longrightarrow> lit (update_out leds s) i \<longleftrightarrow> bit leds i"
proof -
  assume "i < NUM_LEDS"
  then have "i = 0 \<or> i = 1 \<or> i = 2 \<or> i = 3 \<or> i = 4 \<or> i = 5" by arith
  then show ?thesis by (elim disjE) (simp_all add: lit_def update_out_def bit_simps)
qed

lemma card_below: "card {n :: u8. n < g} = unat g"
proof -
  have "bij_betw unat {n :: u8. n < g} {..<unat g}"
  proof (rule bij_betwI')
    fix y assume "y \<in> {..<unat g}"
    moreover from this have "y < 256" using u8_lt [of g] by (simp del: u8_lt)
    ultimately show "\<exists>x \<in> {n :: u8. n < g}. y = unat x"
      by (intro bexI [of _ "of_nat y"]) (simp_all add: word_less_nat_alt unat_of_nat)
  qed (simp_all add: word_unat_eq_iff word_less_nat_alt)
  then show ?thesis by (simp add: bij_betw_same_card)
qed

text \<open>
  C20. Over the 128 steps of a PWM cycle an LED of brightness \<open>b\<close> is lit in exactly as many
  steps as the gamma table gives for \<open>b\<close>, as long as \<open>b\<close> is inside the table; a brightness
  of zero is never lit.
\<close>

lemma pwm_duty_cycle:
  assumes "length bs = NUM_LEDS" and "i < NUM_LEDS" and "unat (bs ! i) < length gamma_table"
  shows "card {n. n \<le> PWM_FRAME_MASK \<and> lit (pwm_frame_update flash n bs s) i} =
     unat (gamma_table ! unat (bs ! i))"
proof -
  let ?g = "gamma_table ! unat (bs ! i)"
  have "\<forall>g \<in> set gamma_table. g \<le> 16" by (simp add: gamma_table_def)
  then have "?g \<le> 16" using assms(3) nth_mem by blast
  then have small: "n < ?g \<Longrightarrow> n \<le> PWM_FRAME_MASK" for n
    by (simp add: PWM_FRAME_MASK_def word_le_nat_alt word_less_nat_alt)
  have "gamma_table ! 0 = 0" by (simp add: gamma_table_def)
  then have "lit (pwm_frame_update flash n bs s) i \<longleftrightarrow> n < ?g" for n
    using assms pwm_bits_bit [of i flash n 0 bs 0]
    by (auto simp: pwm_frame_update_def lit_update_out gamma_read_def)
  then have "{n. n \<le> PWM_FRAME_MASK \<and> lit (pwm_frame_update flash n bs s) i} = {n. n < ?g}"
    using small by auto
  then show ?thesis by (simp add: card_below)
qed

lemma pwm_duty_cycle_witness:
  "card {n. n \<le> PWM_FRAME_MASK \<and> lit (pwm_frame_update (\<lambda>_. 0) n [0, 64, 127, 0, 0, 0] orn_reset) 2} = 16"
  using pwm_duty_cycle [of "[0, 64, 127, 0, 0, 0]" 2 "\<lambda>_. 0" orn_reset] by (simp add: gamma_table_def)

text \<open>
  C26. \<open>MAX_BRIGHTNESS\<close> is one past the end of the gamma table: for an LED that is fully on,
  the number of lit steps is decided by the byte of program memory behind the table.
\<close>

lemma full_brightness_reads_past_table:
  "length gamma_table = unat MAX_BRIGHTNESS \<and> led_level timer ON old = MAX_BRIGHTNESS
    \<and> (\<forall>n bs. bs = [MAX_BRIGHTNESS, 0, 0, 0, 0, 0] \<longrightarrow>
         (lit (pwm_frame_update flash n bs s) 0 \<longleftrightarrow> n < flash MAX_BRIGHTNESS))"
proof -
  have "length gamma_table = 128" by (simp add: gamma_table_def)
  then show ?thesis
    by (auto simp: pwm_frame_update_def lit_update_out gamma_read_def MAX_BRIGHTNESS_def
        led_level_def orn_consts)
qed

lemma full_brightness_reads_past_table_witness:
  "lit (pwm_frame_update (\<lambda>_. 1) 0 [MAX_BRIGHTNESS, 0, 0, 0, 0, 0] orn_reset) 0
    \<and> \<not> lit (pwm_frame_update (\<lambda>_. 0) 0 [MAX_BRIGHTNESS, 0, 0, 0, 0, 0] orn_reset) 0"
  using full_brightness_reads_past_table [of 0 0 "\<lambda>_. 1" orn_reset]
    full_brightness_reads_past_table [of 0 0 "\<lambda>_. 0" orn_reset] by simp

subsection \<open>Frame timing\<close>

fun run_frames :: "nat \<Rightarrow> u8 list \<times> pattern \<Rightarrow> (u8 list \<times> pattern) option" where
  "run_frames 0 c = Some c"
| "run_frames (Suc n) (bs, p) = Option.bind (get_brightness_from_pattern bs (Some p)) (run_frames n)"

definition advanced :: "pattern \<Rightarrow> pattern" where
  \<comment> \<open>the cursor at the start of the next frame, cyclically\<close>
  "advanced p = p\<lparr>frame_timer := 0,
     frame_idx := (if Suc (Suc (unat (frame_idx p))) = length (frames p) then 0 else frame_idx p + 1)\<rparr>"

lemma get_brightness_timer:
  assumes p: "pattern_ok p"
  shows "frame_timer p + 1 \<noteq> duration (frames p ! unat (frame_idx p)) \<Longrightarrow>
      \<exists>bs'. get_brightness_from_pattern bs (Some p) = Some (bs', p\<lparr>frame_timer := frame_timer p + 1\<rparr>)"
    and "frame_timer p + 1 = duration (frames p ! unat (frame_idx p)) \<Longrightarrow>
      get_brightness_from_pattern bs (Some p) = Some (bs, advanced p)"
proof -
  let ?i = "unat (frame_idx p)"
  have tab: "table_ok (frames p)" and i: "Suc ?i < length (frames p)"
    using p by (simp_all add: pattern_ok_def)
  have at: "frame_at p (frame_idx p) = Some (frames p ! ?i)" using i by (simp add: frame_at_def)
  then show "frame_timer p + 1 \<noteq> duration (frames p ! ?i) \<Longrightarrow>
      \<exists>bs'. get_brightness_from_pattern bs (Some p) = Some (bs', p\<lparr>frame_timer := frame_timer p + 1\<rparr>)"
    by (simp add: get_brightness_from_pattern_def Let_def)
  have "?i < 255" using i tab by (simp add: table_ok_def)
  then have "unat (frame_idx p + 1) = Suc ?i" by (simp add: unat_word_ariths)
  with i at table_ok_terminator [OF tab i]
  show "frame_timer p + 1 = duration (frames p ! ?i) \<Longrightarrow>
      get_brightness_from_pattern bs (Some p) = Some (bs, advanced p)"
    by (auto simp: get_brightness_from_pattern_def Let_def frame_at_def advanced_def)
qed

lemma run_frames_rest:
  assumes "pattern_ok p"
  shows "\<exists>bs'. run_frames (unat (duration (frames p ! unat (frame_idx p))) - unat (frame_timer p)) (bs, p)
    = Some (bs', advanced p)"
  using assms
proof (induction "unat (duration (frames p ! unat (frame_idx p))) - unat (frame_timer p)" arbitrary: p bs)
  case 0
  then show ?case by (simp add: pattern_ok_def word_less_nat_alt)
next
  case (Suc m)
  let ?d = "duration (frames p ! unat (frame_idx p))"
  let ?p = "p\<lparr>frame_timer := frame_timer p + 1\<rparr>"
  have t: "frame_timer p < ?d" using Suc.prems by (simp add: pattern_ok_def)
  then have t': "unat (frame_timer p + 1) = Suc (unat (frame_timer p))"
    by (rule unat_Suc_less)
  show ?case
  proof (cases "frame_timer p + 1 = ?d")
    case True
    then have "unat ?d - unat (frame_timer p) = Suc 0" using t' by simp
    with get_brightness_timer(2) [OF Suc.prems True, of bs] show ?thesis by simp
  next
    case False
    have "frame_timer p + 1 < ?d" using t False by (metis inc_le order_le_imp_less_or_eq)
    then have "pattern_ok ?p" using Suc.prems by (simp add: pattern_ok_def)
    moreover obtain bs1 where "get_brightness_from_pattern bs (Some p) = Some (bs1, ?p)"
      using get_brightness_timer(1) [OF Suc.prems False] by blast
    moreover have "advanced ?p = advanced p" by (simp add: advanced_def)
    moreover have m: "m = unat ?d - unat (frame_timer p + 1)"
      using Suc.hyps(2) t' by simp
    ultimately have "\<exists>bs'. run_frames m (bs1, ?p) = Some (bs', advanced p)"
      using Suc.hyps(1) [of ?p bs1] by (simp flip: m)
    with \<open>get_brightness_from_pattern bs (Some p) = Some (bs1, ?p)\<close> show ?thesis
      by (simp flip: Suc.hyps(2))
  qed
qed

text \<open>
  Every frame of a pattern lasts exactly its duration: as many calls of the generator
  later the cursor is at the start of the next frame, and after the last frame before the
  terminator at the start of the first.
\<close>

lemma frame_lasts_its_duration:
  assumes "pattern_ok p" and "frame_timer p = 0"
  shows "\<exists>bs'. run_frames (unat (duration (frames p ! unat (frame_idx p)))) (bs, p)
     = Some (bs', p\<lparr>frame_idx := (if Suc (Suc (unat (frame_idx p))) = length (frames p) then 0
                                  else frame_idx p + 1)\<rparr>)"
proof -
  have "advanced p = p\<lparr>frame_idx := (if Suc (Suc (unat (frame_idx p))) = length (frames p) then 0
                                     else frame_idx p + 1)\<rparr>"
    using assms(2) by (cases p) (simp add: advanced_def)
  with run_frames_rest [OF assms(1), of bs] assms(2) show ?thesis by simp
qed

lemma frame_lasts_its_duration_witness:
  "\<exists>bs'. run_frames 64 ([0, 0, 0, 0, 0, 0], new_pattern ornament) =
     Some (bs', (new_pattern ornament)\<lparr>frame_idx := 1\<rparr>)"
  using frame_lasts_its_duration [OF new_pattern_ok [OF tables_ok(3)], of "[0, 0, 0, 0, 0, 0]"]
  by (simp add: new_pattern_def ornament_def mk_frame_def RAMP_TIME_def)

end
