(* ===== verification/Ipv4Ext.thy ===== *)
theory Ipv4Ext
  imports Prelude
begin

text \<open>
  The SQLite extension \<open>src/go/gopot/analysis/sqlite3-inet/ipv4-ext.c\<close>: IPv4 addresses,
  masks and networks as SQL functions.

  SQLite itself is a parameter: \<open>sqlite\<close> holds the three conversions the code calls on
  an argument, and \<open>sqlite_ok\<close> what their documentation says of text and of integers in
  range.  \<open>inet_pton\<close>, \<open>inet_ntop\<close>, \<open>htonl\<close>, \<open>atoi\<close> and \<open>strchr\<close> are the C library's, on a
  little-endian host; an out parameter is returned beside the status code.  The result
  \<open>None\<close> of a function is undefined behaviour: \<open>netIpFromAddress\<close> on a string without
  a slash computes a length from a \<open>NULL\<close> pointer.
\<close>

subsection \<open>Values and results\<close>

datatype 'o sql_value = SQL_NULL | SQL_INTEGER int | SQL_TEXT string | SQL_OTHER 'o

datatype sql_result = Res_null | Res_int int | Res_text string

record 'o sqlite =
  value_text :: "'o sql_value \<Rightarrow> string"
  value_int :: "'o sql_value \<Rightarrow> int"
  value_int64 :: "'o sql_value \<Rightarrow> int"

definition sqlite_ok :: "'o sqlite \<Rightarrow> bool" where
  "sqlite_ok q \<longleftrightarrow> (\<forall>s. value_text q (SQL_TEXT s) = s)
     \<and> (\<forall>i. - (2 ^ 31) \<le> i \<and> i < 2 ^ 31 \<longrightarrow> value_int q (SQL_INTEGER i) = i)
     \<and> (\<forall>i. - (2 ^ 63) \<le> i \<and> i < 2 ^ 63 \<longrightarrow> value_int64 q (SQL_INTEGER i) = i)"

subsection \<open>C library\<close>

definition is_digit :: "char \<Rightarrow> bool" where
  "is_digit c \<longleftrightarrow> 48 \<le> (of_char c :: nat) \<and> (of_char c :: nat) \<le> 57"

definition digit_of :: "char \<Rightarrow> nat" where "digit_of c = of_char c - 48"

definition digit_char :: "nat \<Rightarrow> char" where "digit_char n = char_of (48 + n)"

fun split_on :: "char \<Rightarrow> string \<Rightarrow> string list" where
  "split_on d [] = [[]]"
| "split_on d (c # cs) =
     (if c = d then [] # split_on d cs
      else (case split_on d cs of [] \<Rightarrow> [[c]] | p # ps \<Rightarrow> (c # p) # ps))"

fun parse_octet_loop :: "string \<Rightarrow> nat \<Rightarrow> bool \<Rightarrow> nat option" where
  \<comment> \<open>\<open>inet_pton\<close> on one component: digits only, no leading zero, at most 255\<close>
  "parse_octet_loop [] v saw = (if saw then Some v else None)"
| "parse_octet_loop (c # cs) v saw =
     (if \<not> is_digit c then None
      else if saw \<and> v = 0 then None
      else if 255 < v * 10 + digit_of c then None
      else parse_octet_loop cs (v * 10 + digit_of c) True)"

definition parse_octet :: "string \<Rightarrow> nat option" where "parse_octet s = parse_octet_loop s 0 False"

definition inet_pton4 :: "string \<Rightarrow> u8 list option" where
  \<comment> \<open>the four bytes in network order, \<open>None\<close> when it does not return 1\<close>
  "inet_pton4 s =
     (case map parse_octet (split_on CHR ''.'' s) of
        [Some a, Some b, Some c, Some d] \<Rightarrow> Some [of_nat a, of_nat b, of_nat c, of_nat d]
      | _ \<Rightarrow> None)"

definition show_octet :: "u8 \<Rightarrow> string" where
  "show_octet b =
     (let n = unat b in
      if n < 10 then [digit_char n]
      else if n < 100 then [digit_char (n div 10), digit_char (n mod 10)]
      else [digit_char (n div 100), digit_char (n div 10 mod 10), digit_char (n mod 10)])"

definition inet_ntop4 :: "u8 list \<Rightarrow> string" where
  "inet_ntop4 bs = show_octet (bs ! 0) @ ''.'' @ show_octet (bs ! 1) @ ''.'' @ show_octet (bs ! 2)
     @ ''.'' @ show_octet (bs ! 3)"

definition load32 :: "u8 list \<Rightarrow> u32" where
  \<comment> \<open>a \<open>u_int32_t\<close> read from memory, little endian\<close>
  "load32 bs = ucast (bs ! 0) OR push_bit 8 (ucast (bs ! 1)) OR push_bit 16 (ucast (bs ! 2))
     OR push_bit 24 (ucast (bs ! 3))"

definition store32 :: "u32 \<Rightarrow> u8 list" where
  "store32 w = [ucast w, ucast (drop_bit 8 w), ucast (drop_bit 16 w), ucast (drop_bit 24 w)]"

definition htonl :: "u32 \<Rightarrow> u32" where
  "htonl w = load32 (rev (store32 w))"

abbreviation ntohl :: "u32 \<Rightarrow> u32" where "ntohl \<equiv> htonl"

fun atoi_digits :: "string \<Rightarrow> int \<Rightarrow> int" where
  "atoi_digits [] v = v"
| "atoi_digits (c # cs) v = (if is_digit c then atoi_digits cs (v * 10 + int (digit_of c)) else v)"

definition is_space :: "char \<Rightarrow> bool" where
  "is_space c \<longleftrightarrow> c = CHR '' '' \<or> (9 \<le> (of_char c :: nat) \<and> (of_char c :: nat) \<le> 13)"

definition atoi :: "string \<Rightarrow> int" where
  "atoi s =
     (case dropWhile is_space s of
        [] \<Rightarrow> 0
      | c # cs \<Rightarrow> if c = CHR ''-'' then - atoi_digits cs 0
                 else if c = CHR ''+'' then atoi_digits cs 0 else atoi_digits (c # cs) 0)"

fun strchr :: "string \<Rightarrow> char \<Rightarrow> nat option" where
  "strchr [] d = None"
| "strchr (c # cs) d = (if c = d then Some 0 else map_option Suc (strchr cs d))"

subsection \<open>Argument parsing\<close>

definition netMask :: "'o sqlite \<Rightarrow> 'o sql_value \<Rightarrow> int \<times> u32 option" where
  "netMask q v =
     (let from_text = (case v of
          SQL_TEXT _ \<Rightarrow> (case inet_pton4 (value_text q v) of
              Some bs \<Rightarrow> (1, Some (htonl (load32 bs))) | None \<Rightarrow> (0, None))
        | _ \<Rightarrow> (0, None))
      in case v of
           SQL_INTEGER _ \<Rightarrow>
             (if 0 < value_int q v \<and> value_int q v \<le> 32
              then (1, Some (NOT (push_bit (nat (32 - value_int q v)) 1 - 1)))
              else from_text)
         | _ \<Rightarrow> from_text)"

definition netLength :: "'o sqlite \<Rightarrow> 'o sql_value \<Rightarrow> int \<times> u32 option" where
  "netLength q v =
     (case netMask q v of
        (rc, m) \<Rightarrow> if rc \<noteq> 1 then (0, m) else (1, map_option (\<lambda>m. NOT m + 1) m))"

definition netIpFromAddressStrict :: "'o sqlite \<Rightarrow> 'o sql_value \<Rightarrow> int \<times> u32 option" where
  "netIpFromAddressStrict q v =
     (if v = SQL_NULL then (0, None)
      else case inet_pton4 (value_text q v) of
             None \<Rightarrow> (0, None)
           | Some bs \<Rightarrow> (1, Some (htonl (load32 bs))))"

definition netIpFromAddress :: "'o sqlite \<Rightarrow> 'o sql_value \<Rightarrow> (int \<times> u32 option) option" where
  "netIpFromAddress q v =
     (if v = SQL_NULL then Some (0, None)
      else case strchr (value_text q v) CHR ''/'' of
             None \<Rightarrow> None
           | Some ipLen \<Rightarrow>
               (if ipLen = 0 then Some (- 1, None)
                else let stringIP = take ipLen (value_text q v) in
                     case inet_pton4 stringIP of
                       Some bs \<Rightarrow> Some (1, Some (htonl (load32 bs)))
                     | None \<Rightarrow> Some (0, None)))"

definition netMaskFromAddress :: "'o sqlite \<Rightarrow> 'o sql_value \<Rightarrow> int \<times> u32 option" where
  \<comment> \<open>no caller reads the mask after a status other than 1\<close>
  "netMaskFromAddress q v =
     (if v = SQL_NULL then (0, None)
      else case strchr (value_text q v) CHR ''/'' of
             None \<Rightarrow> (0, None)
           | Some k \<Rightarrow>
              (let rest = drop (Suc k) (value_text q v);
                   n = (of_int (atoi rest) :: u32)
               in if (length rest = 1 \<and> n \<noteq> 0) \<or> (length rest = 2 \<and> n \<noteq> 0 \<and> 9 < n) then
                    (if 0 < n \<and> n \<le> 32 then (1, Some (push_bit (unat (32 - n)) (- 1))) else (0, None))
                  else case inet_pton4 rest of
                         Some bs \<Rightarrow> (1, Some (htonl (load32 bs)))
                       | None \<Rightarrow> (0, None)))"

subsection \<open>SQL functions\<close>

definition res_bool :: "bool \<Rightarrow> sql_result" where "res_bool b = Res_int (if b then 1 else 0)"
definition res_u32 :: "u32 \<Rightarrow> sql_result" where "res_u32 w = Res_int (uint w)"

definition isinnet3Func :: "'o sqlite \<Rightarrow> 'o sql_value \<Rightarrow> 'o sql_value \<Rightarrow> 'o sql_value \<Rightarrow> sql_result" where
  "isinnet3Func q a0 a1 a2 =
     (case (netIpFromAddressStrict q a0, netIpFromAddressStrict q a1, netMask q a2) of
        ((r0, Some ad), (r1, Some net), (r2, Some m)) \<Rightarrow>
          if r0 \<noteq> 1 \<or> r1 \<noteq> 1 \<or> r2 \<noteq> 1 then Res_null else res_bool (ad AND m = net)
      | _ \<Rightarrow> Res_null)"

definition with_net :: "'o sqlite \<Rightarrow> 'o sql_value \<Rightarrow> (u32 \<Rightarrow> u32 \<Rightarrow> sql_result) \<Rightarrow> sql_result option" where
  \<comment> \<open>the shared guard \<open>netMaskFromAddress(..) != 1 || netIpFromAddress(..) != 1\<close>: \<open>NULL\<close>, or
      the body on the network address and the mask\<close>
  "with_net q v body =
     (case netMaskFromAddress q v of
        (rc, m) \<Rightarrow>
          if rc \<noteq> 1 then Some Res_null
          else case netIpFromAddress q v of
                 None \<Rightarrow> None
               | Some (rc', net) \<Rightarrow>
                   if rc' \<noteq> 1 then Some Res_null else Some (body (the net) (the m)))"

definition isinnet2Func :: "'o sqlite \<Rightarrow> 'o sql_value \<Rightarrow> 'o sql_value \<Rightarrow> sql_result option" where
  "isinnet2Func q a0 a1 =
     (case netIpFromAddressStrict q a0 of
        (rc, ad) \<Rightarrow> if rc \<noteq> 1 then Some Res_null
                   else with_net q a1 (\<lambda>net m. res_bool (the ad AND m = net)))"

definition issamenet3Func :: "'o sqlite \<Rightarrow> 'o sql_value \<Rightarrow> 'o sql_value \<Rightarrow> 'o sql_value \<Rightarrow> sql_result" where
  "issamenet3Func q a0 a1 a2 =
     (case (netIpFromAddressStrict q a0, netIpFromAddressStrict q a1, netMask q a2) of
        ((r0, Some net1), (r1, Some net2), (r2, Some m)) \<Rightarrow>
          if r0 \<noteq> 1 \<or> r1 \<noteq> 1 \<or> r2 \<noteq> 1 then Res_null else res_bool (net1 AND m = net2 AND m)
      | _ \<Rightarrow> Res_null)"

definition ip2intFunc :: "'o sqlite \<Rightarrow> 'o sql_value \<Rightarrow> sql_result" where
  "ip2intFunc q a0 =
     (case netIpFromAddressStrict q a0 of
        (rc, ad) \<Rightarrow> if rc \<noteq> 1 then Res_null else res_u32 (the ad))"

definition int2ipFunc :: "'o sqlite \<Rightarrow> 'o sql_value \<Rightarrow> sql_result" where
  "int2ipFunc q a0 =
     (if a0 = SQL_NULL then Res_null
      else let ip = of_int (value_int64 q a0) :: u32; ip = ntohl ip
           in Res_text (inet_ntop4 (store32 ip)))"

definition netfrom1Func :: "'o sqlite \<Rightarrow> 'o sql_value \<Rightarrow> sql_result option" where
  "netfrom1Func q a0 = with_net q a0 (\<lambda>net m. res_u32 (net AND m))"

definition netfrom2Func :: "'o sqlite \<Rightarrow> 'o sql_value \<Rightarrow> 'o sql_value \<Rightarrow> sql_result" where
  "netfrom2Func q a0 a1 =
     (case (netIpFromAddressStrict q a0, netMask q a1) of
        ((r0, Some net), (r1, Some m)) \<Rightarrow>
          if r0 \<noteq> 1 \<or> r1 \<noteq> 1 then Res_null else res_u32 (net AND m)
      | _ \<Rightarrow> Res_null)"

definition netlength1Func :: "'o sqlite \<Rightarrow> 'o sql_value \<Rightarrow> sql_result option" where
  "netlength1Func q a0 = with_net q a0 (\<lambda>net m. res_u32 (NOT m + 1))"

definition netlength2Func :: "'o sqlite \<Rightarrow> 'o sql_value \<Rightarrow> 'o sql_value \<Rightarrow> sql_result" where
  "netlength2Func q a0 a1 =
     (if fst (netIpFromAddressStrict q a0) \<noteq> 1 then Res_null
      else case netLength q a1 of (rc, len) \<Rightarrow> if rc \<noteq> 1 then Res_null else res_u32 (the len))"

definition netmasklengthFunc :: "'o sqlite \<Rightarrow> 'o sql_value \<Rightarrow> sql_result option" where
  "netmasklengthFunc q a0 =
     (case a0 of
        SQL_TEXT _ \<Rightarrow>
          (case netMaskFromAddress q a0 of
             (rc, m) \<Rightarrow>
               if rc = 1 then
                 (case netIpFromAddress q a0 of
                    None \<Rightarrow> None
                  | Some (rc', _) \<Rightarrow> if rc' \<noteq> 0 then Some (res_u32 (NOT (the m) + 1)) else Some Res_null)
               else Some Res_null)
      | SQL_INTEGER _ \<Rightarrow>
          (case netMask q a0 of
             (rc, m) \<Rightarrow> if rc = 1 then Some (res_u32 (NOT (the m) + 1)) else Some Res_null)
      | _ \<Rightarrow> Some Res_null)"

definition netto1Func :: "'o sqlite \<Rightarrow> 'o sql_value \<Rightarrow> sql_result option" where
  "netto1Func q a0 =
     with_net q a0 (\<lambda>net m. let mask_length = NOT m + 1 in res_u32 ((net AND m) + mask_length - 1))"

definition netto2Func :: "'o sqlite \<Rightarrow> 'o sql_value \<Rightarrow> 'o sql_value \<Rightarrow> sql_result" where
  "netto2Func q a0 a1 =
     (case netIpFromAddressStrict q a0 of
        (rc, net) \<Rightarrow>
          if rc \<noteq> 1 then Res_null
          else case netMask q a1 of
                 (rc', m) \<Rightarrow>
                   if rc' \<noteq> 1 then Res_null
                   else let mask_length = NOT (the m) + 1 in
                        res_u32 ((the net AND the m) + mask_length - 1))"

subsection \<open>Registration\<close>

type_synonym 'o sql_function = "'o sql_value list \<Rightarrow> sql_result option"

definition aFuncs :: "'o sqlite \<Rightarrow> (string \<times> nat \<times> 'o sql_function) list" where
  \<comment> \<open>name, number of arguments and function; the argument type and the text encoding are the same in every row\<close>
  "aFuncs q =
     [(''ip2int'', 1, \<lambda>v. Some (ip2intFunc q (v ! 0))),
      (''int2ip'', 1, \<lambda>v. Some (int2ipFunc q (v ! 0))),
      (''netfrom'', 1, \<lambda>v. netfrom1Func q (v ! 0)),
      (''netfrom'', 2, \<lambda>v. Some (netfrom2Func q (v ! 0) (v ! 1))),
      (''netto'', 1, \<lambda>v. netto1Func q (v ! 0)),
      (''netto'', 2, \<lambda>v. Some (netto2Func q (v ! 0) (v ! 1))),
      (''netlength'', 1, \<lambda>v. netlength1Func q (v ! 0)),
      (''netlength'', 2, \<lambda>v. Some (netlength2Func q (v ! 0) (v ! 1))),
      (''netmasklength'', 1, \<lambda>v. netmasklengthFunc q (v ! 0)),
      (''isinnet'', 3, \<lambda>v. Some (isinnet3Func q (v ! 0) (v ! 1) (v ! 2))),
      (''isinnet'', 2, \<lambda>v. isinnet2Func q (v ! 0) (v ! 1)),
      (''issamenet'', 3, \<lambda>v. Some (issamenet3Func q (v ! 0) (v ! 1) (v ! 2)))]"

definition sqlite3InetInit ::
    "(string \<Rightarrow> nat \<Rightarrow> 'o sql_function \<Rightarrow> 'd \<Rightarrow> 'd) \<Rightarrow> 'o sqlite \<Rightarrow> 'd \<Rightarrow> int \<times> 'd" where
  \<comment> \<open>\<open>create\<close> is \<open>sqlite3_create_function\<close>, whose status is ignored\<close>
  "sqlite3InetInit create q db = (0, fold (\<lambda>(name, n, f). create name n f) (aFuncs q) db)"

subsection \<open>Byte order\<close>

lemma store32_load32: "store32 (load32 [a, b, c, d]) = [a, b, c, d]"
  by (simp add: store32_def load32_def u8_eq_iff bit_simps)

lemma load32_store32: "load32 (store32 w) = w"
proof (rule bit_word_eqI)
  fix n assume "n < LENGTH(32)"
  then have "n < 32" by simp
  then consider "n < 8" | "8 \<le> n" "n < 16" | "16 \<le> n" "n < 24" | "24 \<le> n" "n < 32"
    by linarith
  then show "bit (load32 (store32 w)) n = bit w n"
    by cases (auto simp: load32_def store32_def bit_simps)
qed

lemma htonl_load32: "htonl (load32 [a, b, c, d]) = load32 [d, c, b, a]"
  by (simp add: htonl_def store32_load32)

lemma htonl_htonl [simp]: "htonl (htonl w) = w"
proof -
  obtain a b c d where w: "store32 w = [a, b, c, d]" by (simp add: store32_def)
  then have "htonl w = load32 [d, c, b, a]" by (simp add: htonl_def)
  then have "htonl (htonl w) = load32 [a, b, c, d]" by (simp add: htonl_load32)
  also have "\<dots> = w" using load32_store32 [of w] w by simp
  finally show ?thesis .
qed

subsection \<open>Dotted quads\<close>

lemma digit_char_simps:
  assumes "n < 10"
  shows "is_digit (digit_char n)" "digit_of (digit_char n) = n"
  using assms by (simp_all add: is_digit_def digit_char_def digit_of_def of_char_of)

lemma parse_show_octet: "parse_octet (show_octet b) = Some (unat b)"
proof -
  define n where "n = unat b"
  have n: "n < 256" by (simp add: n_def)
  have three: "n div 100 < 10" "n div 10 mod 10 < 10" "n mod 10 < 10" using n by auto
  have "n div 100 = n div 10 div 10" by (simp flip: div_mult2_eq)
  then have sum: "(n div 100 * 10 + n div 10 mod 10) * 10 + n mod 10 = n" by simp
  show ?thesis
  proof (cases "n < 10")
    case True
    then show ?thesis
      by (simp add: show_octet_def parse_octet_def digit_char_simps flip: n_def)
  next
    case False
    then have d: "n div 10 \<noteq> 0" "n div 10 * 10 + n mod 10 = n" by auto
    show ?thesis
    proof (cases "n < 100")
      case True
      then have "n div 10 < 10" by auto
      with d n three show ?thesis
        using \<open>\<not> n < 10\<close> True by (simp add: show_octet_def parse_octet_def digit_char_simps Let_def flip: n_def)
    next
      case False
      then have "n div 100 \<noteq> 0" by auto
      then show ?thesis
        using False n three sum by (simp add: show_octet_def parse_octet_def digit_char_simps Let_def flip: n_def)
    qed
  qed
qed

lemma show_octet_digits: "list_all is_digit (show_octet b)"
  using u8_lt [of b] by (simp add: show_octet_def Let_def digit_char_simps del: u8_lt)

lemma split_on_nonempty [simp]: "split_on d s \<noteq> []"
  by (cases s) (auto split: list.splits)

lemma split_on_none: "d \<notin> set s \<Longrightarrow> split_on d s = [s]"
  by (induction s) auto

lemma split_on_append: "d \<notin> set s \<Longrightarrow> split_on d (s @ d # t) = s # split_on d t"
  by (induction s) auto

lemma not_digit: "\<not> is_digit CHR ''.''" "\<not> is_digit CHR ''/''"
  by (simp_all add: is_digit_def)

lemma show_octet_plain: "CHR ''.'' \<notin> set (show_octet b)" "CHR ''/'' \<notin> set (show_octet b)"
  using show_octet_digits [of b] not_digit by (auto simp: list_all_iff)

lemma inet_pton_ntop: "inet_pton4 (inet_ntop4 [a, b, c, d]) = Some [a, b, c, d]"
proof -
  have "split_on CHR ''.'' (inet_ntop4 [a, b, c, d]) = [show_octet a, show_octet b, show_octet c, show_octet d]"
    by (simp add: inet_ntop4_def split_on_append split_on_none show_octet_plain)
  then show ?thesis by (simp add: inet_pton4_def parse_show_octet)
qed

definition addr_text :: "u32 \<Rightarrow> string" where
  "addr_text w = inet_ntop4 (store32 (ntohl w))"

lemma addr_text_plain: "CHR ''/'' \<notin> set (addr_text w)"
  using show_octet_plain by (auto simp: addr_text_def inet_ntop4_def)

lemma inet_pton_addr_text:
  "\<exists>bs. inet_pton4 (addr_text w) = Some bs \<and> htonl (load32 bs) = w"
proof -
  obtain a b c d where bs: "store32 (ntohl w) = [a, b, c, d]" by (simp add: store32_def)
  then have "load32 [a, b, c, d] = ntohl w" using load32_store32 [of "ntohl w"] by simp
  with bs show ?thesis by (simp add: addr_text_def inet_pton_ntop)
qed

subsection \<open>Prefix masks\<close>

definition cidr_mask :: "nat \<Rightarrow> u32" where
  "cidr_mask n = push_bit (32 - n) (- 1)"

definition dec_text :: "nat \<Rightarrow> string" where
  "dec_text n = (if n < 10 then [digit_char n] else [digit_char (n div 10), digit_char (n mod 10)])"

definition cidr_text :: "u32 \<Rightarrow> nat \<Rightarrow> string" where
  "cidr_text w n = addr_text w @ ''/'' @ dec_text n"

lemma and_cidr: "w AND cidr_mask n = push_bit (32 - n) (drop_bit (32 - n) w)"
  by (rule bit_word_eqI) (auto simp: cidr_mask_def bit_simps)

lemma unat_and_cidr: "unat (w AND cidr_mask n) = unat w div 2 ^ (32 - n) * 2 ^ (32 - n)"
proof -
  have "unat w div 2 ^ (32 - n) * 2 ^ (32 - n) \<le> unat w" by simp
  also have "unat w < 2 ^ 32" using unsigned_less [of w] by simp
  finally have "unat w div 2 ^ (32 - n) * 2 ^ (32 - n) < 2 ^ 32" .
  then show ?thesis
    unfolding and_cidr unsigned_push_bit_eq unsigned_drop_bit_eq
    by (simp add: push_bit_eq_mult drop_bit_eq_div take_bit_nat_eq_self)
qed

lemma cidr_length: "NOT (cidr_mask n) + 1 = 2 ^ (32 - n)"
proof -
  have "cidr_mask n = - (2 ^ (32 - n))" by (simp add: cidr_mask_def push_bit_eq_mult)
  then show ?thesis by (simp add: not_eq_complement)
qed

lemma unat_pow_cidr: "1 \<le> n \<Longrightarrow> unat (2 ^ (32 - n) :: u32) = 2 ^ (32 - n)"
proof -
  assume "1 \<le> n"
  then have "(2 :: nat) ^ (32 - n) < 2 ^ 32" by (intro power_strict_increasing) simp_all
  then have "unat (of_nat (2 ^ (32 - n)) :: u32) = 2 ^ (32 - n)"
    by (simp only: unat_of_nat) simp
  then show ?thesis by simp
qed

lemma unat_net_end:
  assumes "1 \<le> n"
  shows "unat ((w AND cidr_mask n) + (NOT (cidr_mask n) + 1) - 1)
    = unat w div 2 ^ (32 - n) * 2 ^ (32 - n) + 2 ^ (32 - n) - 1"
proof -
  let ?K = "2 ^ (32 - n) :: nat"
  have K: "0 < ?K" "?K dvd 2 ^ 32" by (simp, rule le_imp_power_dvd, simp)
  have "unat w < 2 ^ 32" using unsigned_less [of w] by simp
  moreover have "2 ^ 32 = 2 ^ 32 div ?K * ?K" using K by simp
  ultimately have "unat w div ?K < 2 ^ 32 div ?K"
    using K(1) by (metis less_mult_imp_div_less)
  then have "Suc (unat w div ?K) * ?K \<le> 2 ^ 32 div ?K * ?K" by (intro mult_le_mono1 Suc_leI)
  then have top: "unat w div ?K * ?K + ?K \<le> 2 ^ 32" using K by simp
  have a: "unat (2 ^ (32 - n) - 1 :: u32) = ?K - 1"
    using unat_pow_cidr [OF assms] K(1) assms by (subst unat_minus_one) (auto simp flip: unat_gt_0)
  have "unat ((w AND cidr_mask n) + (2 ^ (32 - n) - 1)) = unat w div ?K * ?K + (?K - 1)"
    using top K(1) by (subst unat_add_lem [THEN iffD1]) (simp_all add: unat_and_cidr a)
  then show ?thesis using K(1) by (simp add: cidr_length add_diff_eq)
qed

lemma strchr_none: "strchr s d = None \<longleftrightarrow> d \<notin> set s"
  by (induction s) auto

lemma strchr_append: "d \<notin> set s \<Longrightarrow> strchr (s @ d # t) d = Some (length s)"
  by (induction s) auto

lemma strchr_some: "strchr s d = Some k \<Longrightarrow> k < length s"
  by (induction s arbitrary: k) (auto split: if_splits)

lemma digit_char_not:
  assumes "n < 10"
  shows "\<not> is_space (digit_char n)" "digit_char n \<noteq> CHR ''-''" "digit_char n \<noteq> CHR ''+''"
proof -
  have o: "of_char (digit_char n) = 48 + n"
    using assms by (simp add: digit_char_def of_char_of)
  show "\<not> is_space (digit_char n)"
  proof
    assume "is_space (digit_char n)"
    then consider "digit_char n = CHR '' ''" | "of_char (digit_char n) \<le> (13 :: nat)"
      by (auto simp: is_space_def)
    then show False
    proof cases
      case 1
      with o have "48 + n = of_char (CHR '' '')" by simp
      then show False by simp
    qed (use o in simp)
  qed
  show "digit_char n \<noteq> CHR ''-''" "digit_char n \<noteq> CHR ''+''"
    using o by (auto dest: arg_cong [of _ _ "of_char :: char \<Rightarrow> nat"])
qed

lemma atoi_dec_text: "n < 100 \<Longrightarrow> atoi (dec_text n) = int n"
proof -
  assume n: "n < 100"
  have "n div 10 * 10 + n mod 10 = n" by (rule div_mult_mod_eq)
  then have "int (n div 10) * 10 + int (n mod 10) = int n" by linarith
  then show ?thesis
    using n by (simp add: atoi_def dec_text_def digit_char_simps digit_char_not)
qed

lemma netMaskFromAddress_cidr:
  assumes q: "sqlite_ok q" and n: "1 \<le> n" "n \<le> 32"
  shows "netMaskFromAddress q (SQL_TEXT (cidr_text w n)) = (1, Some (cidr_mask n))"
proof -
  have "length (dec_text n) = (if n < 10 then 1 else 2)" by (simp add: dec_text_def)
  moreover have "unat (of_nat n :: u32) = n" using n by (simp add: unat_of_nat)
  moreover from this have "(of_nat n :: u32) \<noteq> 0" "0 < (of_nat n :: u32)" "(of_nat n :: u32) \<le> 32"
      "9 < (of_nat n :: u32) \<longleftrightarrow> 9 < n" "unat (32 - of_nat n :: u32) = 32 - n"
    using n by (auto simp: word_less_nat_alt word_le_nat_alt unat_sub)
  ultimately show ?thesis
    using q n atoi_dec_text [of n]
    by (simp add: netMaskFromAddress_def sqlite_ok_def cidr_text_def strchr_append addr_text_plain
        cidr_mask_def)
qed

lemma netIpFromAddress_cidr:
  assumes q: "sqlite_ok q"
  shows "netIpFromAddress q (SQL_TEXT (cidr_text w n)) = Some (1, Some w)"
proof -
  obtain bs where bs: "inet_pton4 (addr_text w) = Some bs" "htonl (load32 bs) = w"
    using inet_pton_addr_text by blast
  have "addr_text w \<noteq> []" by (simp add: addr_text_def inet_ntop4_def)
  with q bs show ?thesis
    by (simp add: netIpFromAddress_def sqlite_ok_def cidr_text_def strchr_append addr_text_plain)
qed

lemma netIpFromAddressStrict_text:
  "sqlite_ok q \<Longrightarrow> netIpFromAddressStrict q (SQL_TEXT (addr_text w)) = (1, Some w)"
  using inet_pton_addr_text [of w] by (auto simp: netIpFromAddressStrict_def sqlite_ok_def)

lemma with_net_cidr:
  "sqlite_ok q \<Longrightarrow> 1 \<le> n \<Longrightarrow> n \<le> 32 \<Longrightarrow>
     with_net q (SQL_TEXT (cidr_text w n)) body = Some (body w (cidr_mask n))"
  by (simp add: with_net_def netMaskFromAddress_cidr netIpFromAddress_cidr)

subsection \<open>Properties\<close>

text \<open>
  C17. \<open>INT2IP\<close> and \<open>IP2INT\<close> are inverse: the text \<open>INT2IP\<close> gives for any 32-bit number
  is read back by \<open>IP2INT\<close> as that number.
\<close>

lemma ip2int_int2ip:
  assumes "sqlite_ok q" and "0 \<le> i" and "i < 2 ^ 32"
  shows "\<exists>t. int2ipFunc q (SQL_INTEGER i) = Res_text t \<and> ip2intFunc q (SQL_TEXT t) = Res_int i"
proof -
  have "value_int64 q (SQL_INTEGER i) = i" using assms by (simp add: sqlite_ok_def)
  then have "int2ipFunc q (SQL_INTEGER i) = Res_text (addr_text (of_int i))"
    by (simp add: int2ipFunc_def addr_text_def Let_def)
  moreover have "uint (of_int i :: u32) = i" using assms by (simp add: uint_word_of_int take_bit_int_eq_self)
  ultimately show ?thesis
    using assms by (simp add: ip2intFunc_def netIpFromAddressStrict_text res_u32_def)
qed

definition sample_sqlite :: "unit sqlite" where
  "sample_sqlite = \<lparr>value_text = (\<lambda>v. case v of SQL_TEXT s \<Rightarrow> s | _ \<Rightarrow> []),
     value_int = (\<lambda>v. case v of SQL_INTEGER i \<Rightarrow> i | _ \<Rightarrow> 0),
     value_int64 = (\<lambda>v. case v of SQL_INTEGER i \<Rightarrow> i | _ \<Rightarrow> 0)\<rparr>"

lemma sample_sqlite_ok: "sqlite_ok sample_sqlite"
  by (simp add: sqlite_ok_def sample_sqlite_def)

lemma ip2int_int2ip_witness:
  "\<exists>t. int2ipFunc sample_sqlite (SQL_INTEGER 3232235777) = Res_text t
     \<and> ip2intFunc sample_sqlite (SQL_TEXT t) = Res_int 3232235777"
  by (rule ip2int_int2ip [OF sample_sqlite_ok]) simp_all

text \<open>
  C21. For an address with a prefix length from 1 to 32, \<open>NETFROM\<close> is the address rounded
  down to a multiple of the network's size, \<open>NETTO\<close> is the last address of the network and
  \<open>NETLENGTH\<close> is its size, without wrap-around.
\<close>

lemma net_range_of_cidr:
  assumes "sqlite_ok q" and "1 \<le> n" and "n \<le> 32"
  shows "netfrom1Func q (SQL_TEXT (cidr_text w n)) = Some (Res_int (uint w div 2 ^ (32 - n) * 2 ^ (32 - n)))
    \<and> netto1Func q (SQL_TEXT (cidr_text w n))
        = Some (Res_int (uint w div 2 ^ (32 - n) * 2 ^ (32 - n) + 2 ^ (32 - n) - 1))
    \<and> netlength1Func q (SQL_TEXT (cidr_text w n)) = Some (Res_int (2 ^ (32 - n)))"
proof -
  let ?K = "2 ^ (32 - n) :: nat"
  have u: "uint x = int (unat x)" for x :: u32 by simp
  have "uint (w AND cidr_mask n) = int (unat w div ?K * ?K)" by (simp add: u unat_and_cidr del: of_nat_mult)
  moreover have "uint ((w AND cidr_mask n) + (NOT (cidr_mask n) + 1) - 1) = int (unat w div ?K * ?K + ?K - 1)"
    by (simp only: u unat_net_end [OF assms(2)])
  moreover have "uint (NOT (cidr_mask n) + 1) = int ?K"
    by (simp only: u cidr_length unat_pow_cidr [OF assms(2)])
  moreover have "int (unat w div ?K * ?K) = uint w div 2 ^ (32 - n) * 2 ^ (32 - n)"
    by (simp add: zdiv_int)
  moreover have "int (unat w div ?K * ?K + ?K - 1) = int (unat w div ?K * ?K) + int ?K - 1"
    by (subst of_nat_diff) (simp_all add: trans_le_add2 Suc_le_eq)
  moreover have "int ?K = 2 ^ (32 - n)" by simp
  ultimately show ?thesis
    using with_net_cidr [OF assms, of w]
    by (simp only: netfrom1Func_def netto1Func_def netlength1Func_def res_u32_def Let_def)
qed

lemma net_range_of_cidr_witness:
  "netfrom1Func sample_sqlite (SQL_TEXT (cidr_text 3232235777 17)) = Some (Res_int 3232235520)
    \<and> netlength1Func sample_sqlite (SQL_TEXT (cidr_text 3232235777 17)) = Some (Res_int 32768)
    \<and> cidr_text 3232235777 17 = ''192.168.1.1/17''"
proof -
  have "cidr_text 3232235777 17 = ''192.168.1.1/17''" by code_simp
  then show ?thesis using net_range_of_cidr [OF sample_sqlite_ok, of 17 3232235777] by simp
qed

lemma and_cidr_iff:
  assumes "1 \<le> n"
  shows "a AND cidr_mask n = w \<longleftrightarrow>
     2 ^ (32 - n) dvd uint w \<and> uint w \<le> uint a \<and> uint a < uint w + 2 ^ (32 - n)"
proof -
  let ?K = "2 ^ (32 - n) :: int"
  have "uint (a AND cidr_mask n) = int (unat a div 2 ^ (32 - n) * 2 ^ (32 - n))"
    by (simp only: unat_and_cidr uint_nat)
  then have u: "uint (a AND cidr_mask n) = uint a div ?K * ?K" by (simp add: zdiv_int)
  have "a AND cidr_mask n = w \<longleftrightarrow> uint a div ?K * ?K = uint w"
    by (simp only: word_uint_eq_iff u)
  also have "\<dots> \<longleftrightarrow> ?K dvd uint w \<and> uint w \<le> uint a \<and> uint a < uint w + ?K"
  proof
    assume eq: "uint a div ?K * ?K = uint w"
    have "uint a div ?K * ?K + uint a mod ?K = uint a" by (rule div_mult_mod_eq)
    moreover have "0 \<le> uint a mod ?K" "uint a mod ?K < ?K" by simp_all
    ultimately show "?K dvd uint w \<and> uint w \<le> uint a \<and> uint a < uint w + ?K"
      unfolding eq [symmetric] by (intro conjI dvd_triv_right; linarith)
  next
    assume r: "?K dvd uint w \<and> uint w \<le> uint a \<and> uint a < uint w + ?K"
    then obtain c where c: "uint w = ?K * c" by (auto elim: dvdE)
    have "uint a div ?K = c"
      by (rule int_div_pos_eq [where r = "uint a - uint w"]) (use r c in auto)
    then show "uint a div ?K * ?K = uint w" using c by simp
  qed
  finally show ?thesis .
qed

text \<open>
  C30. \<open>ISINNET(address, 'network/n')\<close> is 1 exactly when the network address has no host
  bits and the address lies in the \<open>2 ^ (32 - n)\<close> addresses from it on; a network given
  with host bits contains no address at all.
\<close>

lemma isinnet_of_cidr:
  assumes "sqlite_ok q" and "1 \<le> n" and "n \<le> 32"
  shows "isinnet2Func q (SQL_TEXT (addr_text a)) (SQL_TEXT (cidr_text w n)) =
     Some (Res_int (if 2 ^ (32 - n) dvd uint w \<and> uint w \<le> uint a \<and> uint a < uint w + 2 ^ (32 - n)
                    then 1 else 0))"
  using assms
  by (simp add: isinnet2Func_def netIpFromAddressStrict_text with_net_cidr res_bool_def and_cidr_iff)

lemma isinnet_of_cidr_witness:
  "isinnet2Func sample_sqlite (SQL_TEXT (addr_text 0xAC100128)) (SQL_TEXT (cidr_text 0xAC100100 16)) = Some (Res_int 0)
    \<and> isinnet2Func sample_sqlite (SQL_TEXT (addr_text 0xAC100128)) (SQL_TEXT (cidr_text 0xAC100100 24)) = Some (Res_int 1)"
  using isinnet_of_cidr [OF sample_sqlite_ok, of 16 "0xAC100128" "0xAC100100"]
    isinnet_of_cidr [OF sample_sqlite_ok, of 24 "0xAC100128" "0xAC100100"] by simp

text \<open>
  C30. A mask given as a text without dots, such as a prefix length in quotes, is never
  accepted: \<open>NETFROM\<close>, \<open>NETTO\<close>, \<open>NETLENGTH\<close> and \<open>ISINNET\<close> with it are \<open>NULL\<close>.
\<close>

lemma text_prefix_length_rejected:
  assumes "sqlite_ok q" and "CHR ''.'' \<notin> set m"
  shows "netfrom2Func q a (SQL_TEXT m) = Res_null \<and> netto2Func q a (SQL_TEXT m) = Res_null
    \<and> netlength2Func q a (SQL_TEXT m) = Res_null \<and> isinnet3Func q a b (SQL_TEXT m) = Res_null"
proof -
  have "netMask q (SQL_TEXT m) = (0, None)"
    using assms by (simp add: netMask_def sqlite_ok_def inet_pton4_def split_on_none split: option.splits)
  then show ?thesis
    by (auto simp: netfrom2Func_def netto2Func_def netlength2Func_def netLength_def isinnet3Func_def
        split: prod.splits option.splits)
qed

lemma text_prefix_length_rejected_witness:
  "netfrom2Func sample_sqlite (SQL_TEXT ''192.168.1.1'') (SQL_TEXT ''24'') = Res_null"
  using text_prefix_length_rejected [OF sample_sqlite_ok, of "''24''"] by simp

text \<open>
  SQLite's documentation of \<open>sqlite3_create_function\<close>: the functions of a connection are told apart by name and
  number of arguments, and a registration replaces an earlier one of the same name and number.
\<close>

definition creates :: "(string \<Rightarrow> nat \<Rightarrow> 'o sql_function \<Rightarrow> 'd \<Rightarrow> 'd) \<Rightarrow> ('d \<Rightarrow> string \<Rightarrow> nat \<Rightarrow> 'o sql_function option) \<Rightarrow> bool" where
  "creates create lookup \<longleftrightarrow>
     (\<forall>name n f db m k. lookup (create name n f db) m k = (if m = name \<and> k = n then Some f else lookup db m k))"

lemma registered:
  assumes "creates create lookup" and "distinct (map (\<lambda>(name, n, _). (name, n)) fs)" and "(name, n, f) \<in> set fs"
  shows "lookup (fold (\<lambda>(name, n, f). create name n f) fs db) name n = Some f"
  using assms(2,3)
proof (induction fs arbitrary: db)
  case (Cons g fs)
  have other: "lookup (fold (\<lambda>(name, n, f). create name n f) gs db) name n = lookup db name n"
    if "(name, n) \<notin> set (map (\<lambda>(name, n, _). (name, n)) gs)" for gs db
    using that assms(1) by (induction gs arbitrary: db) (auto simp: creates_def)
  from Cons show ?case using other [of fs] assms(1) by (auto simp: creates_def)
qed simp

lemma functions_defined:
  "netfrom1Func q v \<noteq> None \<and> netto1Func q v \<noteq> None \<and> netlength1Func q v \<noteq> None
    \<and> netmasklengthFunc q v \<noteq> None \<and> isinnet2Func q u v \<noteq> None"
proof -
  have guard: "fst (netMaskFromAddress q v) \<noteq> 1" if "netIpFromAddress q v = None"
    using that by (auto simp: netIpFromAddress_def netMaskFromAddress_def Let_def split: if_splits option.splits)
  then have "with_net q v body \<noteq> None" for body
    by (auto simp: with_net_def split: prod.splits option.splits)
  then show ?thesis
    using guard
    by (auto simp: netfrom1Func_def netto1Func_def netlength1Func_def netmasklengthFunc_def
        isinnet2Func_def split: prod.splits option.splits sql_value.splits)
qed



end
