(* ===== verification/SercomUsart.thy ===== *)
theory SercomUsart
  imports Sercom
begin

text \<open>
  The USART part of \<open>hpl/sercom/hpl_sercom.c\<close>.  The functions come in a synchronous and an
  asynchronous version, most of which forward to the same code.
\<close>

record usart_configuration =
  us_number :: u8
  us_ctrl_a :: u32
  us_ctrl_b :: u32
  us_baud :: u16
  us_fractional :: u8
  us_rxpl :: u8
  us_debug_ctrl :: u8

record 'h usart_state = "'h sercom_state" +
  usart_hw :: ptr

datatype usart_baud_rate_mode =
  USART_BAUDRATE_ASYNCH_ARITHMETIC | USART_BAUDRATE_ASYNCH_FRACTIONAL | USART_BAUDRATE_SYNCH
datatype usart_data_order = USART_DATA_ORDER_MSB | USART_DATA_ORDER_LSB
datatype usart_mode = USART_MODE_ASYNCHRONOUS | USART_MODE_SYNCHRONOUS
datatype usart_parity = USART_PARITY_EVEN | USART_PARITY_ODD | USART_PARITY_NONE | USART_PARITY_SPACE | USART_PARITY_MARK
datatype usart_stop_bits = USART_STOP_BITS_ONE | USART_STOP_BITS_TWO | USART_STOP_BITS_ONE_P_FIVE
datatype usart_async_callback_type = USART_ASYNC_BYTE_SENT | USART_ASYNC_RX_DONE | USART_ASYNC_TX_DONE | USART_ASYNC_ERROR

abbreviation (input) USART_DRE :: u32 where "USART_DRE \<equiv> 1"
abbreviation (input) USART_TXC :: u32 where "USART_TXC \<equiv> 2"
abbreviation (input) USART_RXC :: u32 where "USART_RXC \<equiv> 4"
abbreviation (input) USART_ERROR :: u32 where "USART_ERROR \<equiv> 0x80"
abbreviation (input) USART_CTRLA_FORM_1 :: u32 where "USART_CTRLA_FORM_1 \<equiv> 0x1000000"

definition usart_sampr :: "u32 \<Rightarrow> u32" where
  "usart_sampr n = push_bit 13 n AND 0xE000"

definition write_bit :: "'h sercom_bus \<Rightarrow> sercom_reg \<Rightarrow> nat \<Rightarrow> bool \<Rightarrow> ('h, 'a) sercom_state_scheme \<Rightarrow> ('h, 'a) sercom_state_scheme" where
  \<comment> \<open>the accessors that write one bit of a control register\<close>
  "write_bit b r pos v = reg_modify b r (\<lambda>x. (x AND NOT (push_bit pos 1)) OR (if v then push_bit pos 1 else 0))"

subsection \<open>Initialisation\<close>

fun get_sercom_index_loop :: "usart_configuration list \<Rightarrow> u8 \<Rightarrow> nat \<Rightarrow> nat option" where
  "get_sercom_index_loop [] sercom_offset i = None"
| "get_sercom_index_loop (c # cs) sercom_offset i =
     (if us_number c = sercom_offset then Some i else get_sercom_index_loop cs sercom_offset (Suc i))"

definition get_sercom_index :: "bool \<Rightarrow> usart_configuration list \<Rightarrow> ptr \<Rightarrow> nat option" where
  \<comment> \<open>an instance that is not configured fails the assertion; without assertions it is the first\<close>
  "get_sercom_index debug usarts hw =
     (case get_sercom_index_loop usarts (sercom_get_hardware_index hw) 0 of
        Some i \<Rightarrow> Some i
      | None \<Rightarrow> c_assert debug (Some False) (Some 0))"

definition usart_init ::
    "'h sercom_bus \<Rightarrow> bool \<Rightarrow> usart_configuration list \<Rightarrow> ptr \<Rightarrow> ('h, 'a) sercom_state_scheme
      \<Rightarrow> (rc \<times> ('h, 'a) sercom_state_scheme) option" where
  "usart_init b debug usarts hw s =
     (case get_sercom_index debug usarts hw of
        None \<Rightarrow> None
      | Some i \<Rightarrow>
         (let c = usarts ! i in
          case reg_read b SYNCBUSY s of
            (sync, s) \<Rightarrow>
              (let s = (if sync AND 1 = 0 then
                          (case reg_read b CTRLA s of
                             (ctrla, s) \<Rightarrow>
                               (let s = (if ctrla AND CTRLA_ENABLE \<noteq> 0
                                         then reg_modify b CTRLA (\<lambda>v. v AND NOT CTRLA_ENABLE) s else s)
                                in reg_write b CTRLA (CTRLA_SWRST OR (us_ctrl_a c AND CTRLA_MODE_Msk)) s))
                        else s);
                   s = reg_write b CTRLA (us_ctrl_a c) s;
                   s = reg_write b CTRLB (us_ctrl_b c) s;
                   s = (if us_ctrl_a c AND usart_sampr 1 \<noteq> 0 \<or> us_ctrl_a c AND usart_sampr 3 \<noteq> 0 then
                          (let s = reg_modify b BAUD (\<lambda>v. (v AND NOT 0x1FFF) OR (ucast (us_baud c) AND 0x1FFF)) s
                           in reg_modify b BAUD (\<lambda>v. (v AND NOT 0xE000) OR push_bit 13 (ucast (us_fractional c) AND 7)) s)
                        else reg_write b BAUD (ucast (us_baud c)) s);
                   s = reg_write b RXPL (ucast (us_rxpl c)) s
               in Some (ERR_NONE, reg_write b DBGCTRL (ucast (us_debug_ctrl c)) s))))"

definition usart_deinit :: "'h sercom_bus \<Rightarrow> ('h, 'a) sercom_state_scheme \<Rightarrow> ('h, 'a) sercom_state_scheme" where
  "usart_deinit b s =
     (let s = reg_modify b CTRLA (\<lambda>v. v AND NOT CTRLA_ENABLE) s in reg_modify b CTRLA (\<lambda>v. v OR CTRLA_SWRST) s)"

definition usart_sync_init ::
    "'h sercom_bus \<Rightarrow> bool \<Rightarrow> usart_configuration list \<Rightarrow> ptr \<Rightarrow> ('h, 'a) usart_state_scheme
      \<Rightarrow> (rc \<times> ('h, 'a) usart_state_scheme) option" where
  "usart_sync_init b debug usarts hw s = usart_init b debug usarts hw (s\<lparr>usart_hw := hw\<rparr>)"

definition usart_async_init ::
    "'h sercom_bus \<Rightarrow> bool \<Rightarrow> usart_configuration list \<Rightarrow> ptr \<Rightarrow> ('h, 'a) usart_state_scheme
      \<Rightarrow> (rc \<times> ('h, 'a) usart_state_scheme) option" where
  "usart_async_init b debug usarts hw s =
     (case usart_init b debug usarts hw s of
        None \<Rightarrow> None
      | Some (init_status, s) \<Rightarrow>
          if init_status \<noteq> 0 then Some (init_status, s)
          else (let s = s\<lparr>usart_hw := hw\<rparr>; s = s\<lparr>sercom_irq_on := False\<rparr>; s = s\<lparr>sercom_irq_pending := False\<rparr>
                in Some (ERR_NONE, s\<lparr>sercom_irq_on := True\<rparr>)))"

definition usart_async_deinit :: "'h sercom_bus \<Rightarrow> ('h, 'a) sercom_state_scheme \<Rightarrow> ('h, 'a) sercom_state_scheme" where
  "usart_async_deinit b s = usart_deinit b (s\<lparr>sercom_irq_on := False\<rparr>)"

definition usart_sync_enable :: "'h sercom_bus \<Rightarrow> ('h, 'a) sercom_state_scheme \<Rightarrow> ('h, 'a) sercom_state_scheme" where
  "usart_sync_enable b = reg_modify b CTRLA (\<lambda>v. v OR CTRLA_ENABLE)"

definition usart_async_enable :: "'h sercom_bus \<Rightarrow> ('h, 'a) sercom_state_scheme \<Rightarrow> ('h, 'a) sercom_state_scheme" where
  "usart_async_enable b = reg_modify b CTRLA (\<lambda>v. v OR CTRLA_ENABLE)"

definition usart_sync_disable :: "'h sercom_bus \<Rightarrow> ('h, 'a) sercom_state_scheme \<Rightarrow> ('h, 'a) sercom_state_scheme" where
  "usart_sync_disable b = reg_modify b CTRLA (\<lambda>v. v AND NOT CTRLA_ENABLE)"

definition usart_async_disable :: "'h sercom_bus \<Rightarrow> ('h, 'a) sercom_state_scheme \<Rightarrow> ('h, 'a) sercom_state_scheme" where
  "usart_async_disable b = reg_modify b CTRLA (\<lambda>v. v AND NOT CTRLA_ENABLE)"

subsection \<open>Settings\<close>

definition usart_calculate_baud_rate ::
    "u32 \<Rightarrow> u32 \<Rightarrow> u8 \<Rightarrow> usart_baud_rate_mode \<Rightarrow> u8 \<Rightarrow> u16 option" where
  \<comment> \<open>\<open>None\<close>: a division by zero\<close>
  "usart_calculate_baud_rate baud clock_rate samples mode fraction =
     (case mode of
        USART_BAUDRATE_ASYNCH_ARITHMETIC \<Rightarrow>
          if clock_rate = 0 then None
          else Some (ucast (65536 - (65536 * ucast samples * ucast baud) div ucast clock_rate :: 64 word))
      | USART_BAUDRATE_ASYNCH_FRACTIONAL \<Rightarrow>
          if baud = 0 \<or> samples = 0 then None
          else Some (ucast (clock_rate div baud div ucast samples + (push_bit 13 (ucast fraction) AND 0xE000)))
      | USART_BAUDRATE_SYNCH \<Rightarrow> if baud = 0 then None else Some (ucast (clock_rate div baud div 2 - 1)))"

definition reconfigure ::
    "'h sercom_bus \<Rightarrow> (('h, 'a) sercom_state_scheme \<Rightarrow> ('h, 'a) sercom_state_scheme)
      \<Rightarrow> ('h, 'a) sercom_state_scheme \<Rightarrow> ('h, 'a) sercom_state_scheme" where
  \<comment> \<open>what the setters share: the module is disabled while a setting is written\<close>
  "reconfigure b write s =
     (case reg_read b CTRLA s of
        (v, s) \<Rightarrow>
          (let enabled = (v AND CTRLA_ENABLE \<noteq> 0);
               s = reg_modify b CTRLA (\<lambda>v. v AND NOT CTRLA_ENABLE) s;
               s = write s
           in write_bit b CTRLA 1 enabled s))"

definition usart_set_baud_rate :: "'h sercom_bus \<Rightarrow> u32 \<Rightarrow> ('h, 'a) sercom_state_scheme \<Rightarrow> ('h, 'a) sercom_state_scheme" where
  "usart_set_baud_rate b baud_rate = reconfigure b (reg_write b BAUD (baud_rate AND 0xFFFF))"

definition usart_set_data_order :: "'h sercom_bus \<Rightarrow> usart_data_order \<Rightarrow> ('h, 'a) sercom_state_scheme \<Rightarrow> ('h, 'a) sercom_state_scheme" where
  "usart_set_data_order b order = reconfigure b (write_bit b CTRLA 30 (order \<noteq> USART_DATA_ORDER_MSB))"

definition usart_set_mode :: "'h sercom_bus \<Rightarrow> usart_mode \<Rightarrow> ('h, 'a) sercom_state_scheme \<Rightarrow> ('h, 'a) sercom_state_scheme" where
  "usart_set_mode b mode = reconfigure b (write_bit b CTRLA 28 (mode \<noteq> USART_MODE_ASYNCHRONOUS))"

definition usart_set_parity :: "'h sercom_bus \<Rightarrow> usart_parity \<Rightarrow> ('h, 'a) sercom_state_scheme \<Rightarrow> ('h, 'a) sercom_state_scheme" where
  "usart_set_parity b parity =
     reconfigure b (\<lambda>s.
       let s = (if parity \<noteq> USART_PARITY_NONE then reg_modify b CTRLA (\<lambda>v. v OR USART_CTRLA_FORM_1) s
                else reg_modify b CTRLA (\<lambda>v. v AND NOT USART_CTRLA_FORM_1) s)
       in write_bit b CTRLB 13 (parity \<noteq> USART_PARITY_EVEN) s)"

definition usart_set_stop_bits :: "'h sercom_bus \<Rightarrow> usart_stop_bits \<Rightarrow> ('h, 'a) sercom_state_scheme \<Rightarrow> ('h, 'a) sercom_state_scheme" where
  "usart_set_stop_bits b stop_bits = reconfigure b (write_bit b CTRLB 6 (stop_bits \<noteq> USART_STOP_BITS_ONE))"

definition usart_set_character_size :: "'h sercom_bus \<Rightarrow> u32 \<Rightarrow> ('h, 'a) sercom_state_scheme \<Rightarrow> ('h, 'a) sercom_state_scheme" where
  \<comment> \<open>\<open>sz\<close>: the value of the enumeration; this setter writes \<open>ENABLE\<close> only to set it\<close>
  "usart_set_character_size b sz s =
     (case reg_read b CTRLA s of
        (v, s) \<Rightarrow>
          (let enabled = (v AND CTRLA_ENABLE \<noteq> 0);
               s = reg_modify b CTRLA (\<lambda>v. v AND NOT CTRLA_ENABLE) s;
               s = reg_modify b CTRLB (\<lambda>v. (v AND NOT 7) OR (sz AND 7)) s
           in if enabled then reg_modify b CTRLA (\<lambda>v. v OR CTRLA_ENABLE) s else s))"

subsection \<open>Characters and interrupts\<close>

definition usart_sync_get_status :: "'h sercom_bus \<Rightarrow> ('h, 'a) sercom_state_scheme \<Rightarrow> u32 \<times> ('h, 'a) sercom_state_scheme" where
  "usart_sync_get_status b = reg_read b STATUS"

definition usart_async_get_status :: "'h sercom_bus \<Rightarrow> ('h, 'a) sercom_state_scheme \<Rightarrow> u32 \<times> ('h, 'a) sercom_state_scheme" where
  "usart_async_get_status b = reg_read b STATUS"

definition usart_sync_write_byte :: "'h sercom_bus \<Rightarrow> u8 \<Rightarrow> ('h, 'a) sercom_state_scheme \<Rightarrow> ('h, 'a) sercom_state_scheme" where
  "usart_sync_write_byte b d = reg_write b DATA (ucast d)"

definition usart_async_write_byte :: "'h sercom_bus \<Rightarrow> u8 \<Rightarrow> ('h, 'a) sercom_state_scheme \<Rightarrow> ('h, 'a) sercom_state_scheme" where
  "usart_async_write_byte b d = reg_write b DATA (ucast d)"

definition usart_sync_read_byte :: "'h sercom_bus \<Rightarrow> ('h, 'a) sercom_state_scheme \<Rightarrow> u8 \<times> ('h, 'a) sercom_state_scheme" where
  "usart_sync_read_byte b s = (case reg_read b DATA s of (d, s) \<Rightarrow> (ucast d, s))"

definition usart_flag :: "'h sercom_bus \<Rightarrow> u32 \<Rightarrow> ('h, 'a) sercom_state_scheme \<Rightarrow> bool \<times> ('h, 'a) sercom_state_scheme" where
  "usart_flag b flag s = (case reg_read b INTFLAG s of (v, s) \<Rightarrow> (v AND flag \<noteq> 0, s))"

definition usart_sync_is_ready_to_send :: "'h sercom_bus \<Rightarrow> ('h, 'a) sercom_state_scheme \<Rightarrow> bool \<times> ('h, 'a) sercom_state_scheme" where
  "usart_sync_is_ready_to_send b = usart_flag b USART_DRE"

definition usart_sync_is_transmit_done :: "'h sercom_bus \<Rightarrow> ('h, 'a) sercom_state_scheme \<Rightarrow> bool \<times> ('h, 'a) sercom_state_scheme" where
  "usart_sync_is_transmit_done b = usart_flag b USART_TXC"

definition usart_async_is_byte_sent :: "'h sercom_bus \<Rightarrow> ('h, 'a) sercom_state_scheme \<Rightarrow> bool \<times> ('h, 'a) sercom_state_scheme" where
  "usart_async_is_byte_sent b = usart_flag b USART_DRE"

definition usart_sync_is_byte_received :: "'h sercom_bus \<Rightarrow> ('h, 'a) sercom_state_scheme \<Rightarrow> bool \<times> ('h, 'a) sercom_state_scheme" where
  "usart_sync_is_byte_received b = usart_flag b USART_RXC"

definition usart_sync_set_flow_control_state :: "u8 \<Rightarrow> ('h, 'a) sercom_state_scheme \<Rightarrow> ('h, 'a) sercom_state_scheme" where
  "usart_sync_set_flow_control_state st s = s"

definition usart_async_set_flow_control_state :: "u8 \<Rightarrow> ('h, 'a) sercom_state_scheme \<Rightarrow> ('h, 'a) sercom_state_scheme" where
  "usart_async_set_flow_control_state st s = s"

definition usart_sync_get_flow_control_state :: u8 where
  \<comment> \<open>the bit \<open>unavailable\<close>\<close>
  "usart_sync_get_flow_control_state = 4"

definition usart_async_get_flow_control_state :: u8 where
  \<comment> \<open>the bit \<open>unavailable\<close>\<close>
  "usart_async_get_flow_control_state = 4"

definition usart_async_enable_byte_sent_irq :: "'h sercom_bus \<Rightarrow> ('h, 'a) sercom_state_scheme \<Rightarrow> ('h, 'a) sercom_state_scheme" where
  "usart_async_enable_byte_sent_irq b = reg_write b INTENSET USART_DRE"

definition usart_async_enable_tx_done_irq :: "'h sercom_bus \<Rightarrow> ('h, 'a) sercom_state_scheme \<Rightarrow> ('h, 'a) sercom_state_scheme" where
  "usart_async_enable_tx_done_irq b = reg_write b INTENSET USART_TXC"

definition usart_async_set_irq_state ::
    "'h sercom_bus \<Rightarrow> usart_async_callback_type \<Rightarrow> bool \<Rightarrow> ('h, 'a) sercom_state_scheme \<Rightarrow> ('h, 'a) sercom_state_scheme" where
  "usart_async_set_irq_state b type state s =
     (if type = USART_ASYNC_BYTE_SENT \<or> type = USART_ASYNC_TX_DONE then
        write_inten b USART_TXC state (write_inten b USART_DRE state s)
      else if type = USART_ASYNC_RX_DONE then write_inten b USART_RXC state s
      else if type = USART_ASYNC_ERROR then write_inten b USART_ERROR state s
      else s)"

subsection \<open>Entry points that forward\<close>

definition usart_sync_calculate_baud_rate where
  "usart_sync_calculate_baud_rate baud clock_rate samples mode fraction = usart_calculate_baud_rate baud clock_rate samples mode fraction"

definition usart_async_calculate_baud_rate where
  "usart_async_calculate_baud_rate baud clock_rate samples mode fraction = usart_calculate_baud_rate baud clock_rate samples mode fraction"

definition usart_sync_set_baud_rate where
  "usart_sync_set_baud_rate b baud_rate s = usart_set_baud_rate b baud_rate s"

definition usart_async_set_baud_rate where
  "usart_async_set_baud_rate b baud_rate s = usart_set_baud_rate b baud_rate s"

definition usart_sync_set_data_order where
  "usart_sync_set_data_order b order s = usart_set_data_order b order s"

definition usart_async_set_data_order where
  "usart_async_set_data_order b order s = usart_set_data_order b order s"

definition usart_sync_set_mode where
  "usart_sync_set_mode b mode s = usart_set_mode b mode s"

definition usart_async_set_mode where
  "usart_async_set_mode b mode s = usart_set_mode b mode s"

definition usart_sync_set_parity where
  "usart_sync_set_parity b parity s = usart_set_parity b parity s"

definition usart_async_set_parity where
  "usart_async_set_parity b parity s = usart_set_parity b parity s"

definition usart_sync_set_stop_bits where
  "usart_sync_set_stop_bits b stop_bits s = usart_set_stop_bits b stop_bits s"

definition usart_async_set_stop_bits where
  "usart_async_set_stop_bits b stop_bits s = usart_set_stop_bits b stop_bits s"

definition usart_sync_set_character_size where
  "usart_sync_set_character_size b sz s = usart_set_character_size b sz s"

definition usart_async_set_character_size where
  "usart_async_set_character_size b sz s = usart_set_character_size b sz s"

definition usart_sync_deinit where
  "usart_sync_deinit b s = usart_deinit b s"

definition usart_sync_get_hardware_index :: "('h, 'a) usart_state_scheme \<Rightarrow> u8" where
  "usart_sync_get_hardware_index s = sercom_get_hardware_index (usart_hw s)"

definition usart_async_get_hardware_index :: "('h, 'a) usart_state_scheme \<Rightarrow> u8" where
  "usart_async_get_hardware_index s = sercom_get_hardware_index (usart_hw s)"

subsection \<open>The rate of the module\<close>

text \<open>
  C40. With arithmetic baud generation the module's rate is
  \<open>clock / samples * (1 - BAUD / 65536)\<close>.  The value computed for a rate between
  \<open>clock / (65536 * samples)\<close> and \<open>clock / samples\<close> gives the greatest rate the register can express
  that is not above the requested one.
\<close>

theorem usart_arithmetic_baud:
  assumes "unat clock_rate \<le> 65536 * (unat samples * unat baud)" and "unat samples * unat baud \<le> unat clock_rate"
    and "0 < clock_rate"
  shows "\<exists>v. usart_calculate_baud_rate baud clock_rate samples USART_BAUDRATE_ASYNCH_ARITHMETIC fraction = Some v
    \<and> (65536 - unat v) * unat clock_rate \<le> 65536 * (unat samples * unat baud)
    \<and> 65536 * (unat samples * unat baud) < (65536 - unat v + 1) * unat clock_rate"
proof -
  let ?n = "65536 * (unat samples * unat baud)" and ?c = "unat clock_rate"
  let ?q = "(65536 * ucast samples * ucast baud) div ucast clock_rate :: 64 word"
  have c: "0 < ?c" using assms(3) by (simp add: word_gt_0 unat_gt_0)
  have "unat samples * unat baud \<le> 255 * 4294967295" using u8_lt [of samples] u32_lt [of baud] by (intro mult_mono) linarith+
  then have lt: "?n < 2 ^ 64" by (simp add: mult.commute)
  have n: "unat (65536 * ucast samples * ucast baud :: 64 word) = ?n"
  proof -
    have "take_bit 64 (unat samples) = unat samples" "take_bit 64 (unat baud) = unat baud"
      by (rule take_bit_nat_eq_self, rule less_trans [OF u8_lt], simp)
        (rule take_bit_nat_eq_self, rule less_trans [OF u32_lt], simp)
    moreover have "?n mod 2 ^ 64 = ?n" by (rule mod_less [OF lt])
    ultimately show ?thesis by (simp add: unat_word_ariths unsigned_ucast_eq mult.assoc)
  qed
  have cw: "unat (ucast clock_rate :: 64 word) = ?c" 
    unfolding unsigned_ucast_eq by (rule take_bit_nat_eq_self, rule less_trans [OF u32_lt], simp)
  have q: "unat ?q = ?n div ?c" by (simp only: unat_div n cw)
  have q1: "1 \<le> ?n div ?c" using assms(1) c by (simp add: Suc_le_eq div_greater_zero_iff)
  have q2: "?n div ?c \<le> 65536"
  proof -
    have "?n div ?c \<le> (65536 * ?c) div ?c" using assms(2) by (intro div_le_mono mult_le_mono2)
    then show ?thesis using c by simp
  qed
  have "unat (65536 - ?q) = 65536 - ?n div ?c"
    using q q2 by (simp add: unat_sub word_le_nat_alt)
  then have v: "unat (ucast (65536 - ?q) :: u16) = 65536 - ?n div ?c"
    using q1 by (simp add: unsigned_ucast_eq take_bit_nat_eq_self)
  have "65536 - (65536 - ?n div ?c) = ?n div ?c" using q2 by simp
  moreover have "?n div ?c * ?c \<le> ?n" "?n < (?n div ?c + 1) * ?c"
    using c by (simp_all add: div_times_less_eq_dividend dividend_less_div_times)
  ultimately show ?thesis using assms(3) by (simp add: usart_calculate_baud_rate_def v)
qed

lemma usart_arithmetic_baud_witness:
  "\<exists>v. usart_calculate_baud_rate 9600 8000000 16 USART_BAUDRATE_ASYNCH_ARITHMETIC 0 = Some v
    \<and> (65536 - unat v) * 8000000 \<le> 65536 * (16 * 9600) \<and> 65536 * (16 * 9600) < (65536 - unat v + 1) * 8000000"
  using usart_arithmetic_baud [of 8000000 16 9600 0] by simp

subsection \<open>Sampling with eight clocks\<close>

text \<open>
  The test for fractional baud generation looks for either of the two low bits of \<open>SAMPR\<close>,
  so it takes arithmetic generation with eight samples (\<open>SAMPR\<close> 2) for fractional: the upper
  three bits of the configured \<open>BAUD\<close> are lost, and the fraction is written in their place.
\<close>

theorem usart_init_splits_arithmetic_baud:
  assumes "get_sercom_index debug usarts hw = Some i" and "us_ctrl_a (usarts ! i) AND 0xE000 = 0x4000"
    and "periph s SYNCBUSY = 0"
  shows "\<exists>s'. usart_init regs_bus debug usarts hw s = Some (ERR_NONE, s')
    \<and> periph s' CTRLA = us_ctrl_a (usarts ! i) \<and> periph s' CTRLB = us_ctrl_b (usarts ! i)
    \<and> ucast (periph s' BAUD) = (us_baud (usarts ! i) AND 0x1FFF) OR push_bit 13 (ucast (us_fractional (usarts ! i)))"
proof -
  let ?a = "us_ctrl_a (usarts ! i)"
  have "?a AND usart_sampr 3 = (?a AND 0xE000) AND 0x6000" by (simp add: usart_sampr_def and.assoc)
  then have f: "?a AND usart_sampr 3 \<noteq> 0" using assms(2) by simp
  have w: "ucast ((((v AND NOT 0x1FFF) OR (ucast p AND 0x1FFF)) AND NOT 0xE000) OR push_bit 13 (ucast q AND 7) :: u32)
      = (p AND 0x1FFF) OR push_bit 13 (ucast q)" for v :: u32 and p :: u16 and q :: u8
    by (simp add: u16_eq_iff bit_simps)
  show ?thesis
    using assms(1,3) f by (simp add: usart_init_def Let_def w [simplified])
qed

definition sample_usart :: usart_configuration where
  "sample_usart = \<lparr>us_number = 0, us_ctrl_a = 0x4004, us_ctrl_b = 0x30000, us_baud = 0xFB15, us_fractional = 0,
     us_rxpl = 0, us_debug_ctrl = 0\<rparr>"

lemma usart_init_splits_arithmetic_baud_witness:
  "\<exists>s'. usart_init regs_bus True [sample_usart] SERCOM0
      \<lparr>periph = (\<lambda>_. 0), imem = (\<lambda>_. 0), sercom_irq_on = False, sercom_irq_pending = False\<rparr> = Some (ERR_NONE, s')
    \<and> ucast (periph s' BAUD) = (0x1B15 :: u16)"
proof -
  have "get_sercom_index True [sample_usart] SERCOM0 = Some 0"
    by (simp add: get_sercom_index_def sample_usart_def sercom_get_hardware_index_def)
  from usart_init_splits_arithmetic_baud [OF this, of "\<lparr>periph = (\<lambda>_. 0), imem = (\<lambda>_. 0),
      sercom_irq_on = False, sercom_irq_pending = False\<rparr>"]
  show ?thesis by (auto simp: sample_usart_def)
qed

end
