(* ===== verification/SercomI2cs.thy ===== *)
theory SercomI2cs
  imports Sercom
begin

text \<open>
  The I2C slave part of \<open>hpl/sercom/hpl_sercom.c\<close>.  The functions come in a synchronous and an
  asynchronous version.
\<close>

record i2cs_configuration =
  i2cs_number :: u8
  i2cs_ctrl_a :: u32
  i2cs_ctrl_b :: u32
  i2cs_address :: u32

record 'h i2cs_state = "'h sercom_state" +
  i2cs_hw :: ptr

datatype i2c_s_async_callback_type = I2C_S_DEVICE_ERROR | I2C_S_DEVICE_TX | I2C_S_DEVICE_RX_COMPLETE

abbreviation (input) I2CS_PREC :: u32 where "I2CS_PREC \<equiv> 1"
abbreviation (input) I2CS_AMATCH :: u32 where "I2CS_AMATCH \<equiv> 2"
abbreviation (input) I2CS_DRDY :: u32 where "I2CS_DRDY \<equiv> 4"
abbreviation (input) I2CS_ERROR :: u32 where "I2CS_ERROR \<equiv> 0x80"
abbreviation (input) I2CS_ADDR_Msk :: u32 where "I2CS_ADDR_Msk \<equiv> 0x7FE"

subsection \<open>Initialisation\<close>

fun get_i2c_s_index_loop :: "i2cs_configuration list \<Rightarrow> u8 \<Rightarrow> int \<Rightarrow> int" where
  "get_i2c_s_index_loop [] sercom_offset i = - 1"
| "get_i2c_s_index_loop (c # cs) sercom_offset i =
     (if i2cs_number c = sercom_offset then i else get_i2c_s_index_loop cs sercom_offset (i + 1))"

definition get_i2c_s_index :: "bool \<Rightarrow> i2cs_configuration list \<Rightarrow> ptr \<Rightarrow> int option" where
  "get_i2c_s_index debug i2css hw =
     (let i = get_i2c_s_index_loop i2css (sercom_get_hardware_index hw) 0 in
      if i = - 1 then c_assert debug (Some False) (Some (- 1)) else Some i)"

definition i2c_s_init ::
    "'h sercom_bus \<Rightarrow> bool \<Rightarrow> i2cs_configuration list \<Rightarrow> ptr \<Rightarrow> ('h, 'a) sercom_state_scheme
      \<Rightarrow> (rc \<times> ('h, 'a) sercom_state_scheme) option" where
  "i2c_s_init b debug i2css hw s =
     (case get_i2c_s_index debug i2css hw of
        None \<Rightarrow> None
      | Some i \<Rightarrow>
         if i = - 1 then Some (ERR_INVALID_ARG, s)
         else
           (let c = i2css ! nat i in
            case reg_read b SYNCBUSY s of
              (sync, s) \<Rightarrow>
                (let s = (if sync AND CTRLA_SWRST = 0 then
                            (case reg_read b CTRLA s of
                               (ctrla, s) \<Rightarrow>
                                 (let s = (if ctrla AND CTRLA_ENABLE \<noteq> 0
                                           then reg_modify b CTRLA (\<lambda>v. v AND NOT CTRLA_ENABLE) s else s)
                                  in reg_write b CTRLA (CTRLA_SWRST OR (i2cs_ctrl_a c AND CTRLA_MODE_Msk)) s))
                          else s);
                     s = reg_write b CTRLA (i2cs_ctrl_a c) s;
                     s = reg_write b CTRLB (i2cs_ctrl_b c) s
                 in Some (ERR_NONE, reg_write b ADDR (i2cs_address c) s))))"

definition i2c_s_deinit :: "'h sercom_bus \<Rightarrow> ('h, 'a) sercom_state_scheme \<Rightarrow> ('h, 'a) sercom_state_scheme" where
  "i2c_s_deinit b s =
     (let s = reg_modify b CTRLA (\<lambda>v. v AND NOT CTRLA_ENABLE) s in reg_modify b CTRLA (\<lambda>v. v OR CTRLA_SWRST) s)"

definition i2c_s_sync_init ::
    "'h sercom_bus \<Rightarrow> bool \<Rightarrow> i2cs_configuration list \<Rightarrow> ptr \<Rightarrow> ('h, 'a) i2cs_state_scheme
      \<Rightarrow> (rc \<times> ('h, 'a) i2cs_state_scheme) option" where
  "i2c_s_sync_init b debug i2css hw s =
     (case i2c_s_init b debug i2css hw s of
        None \<Rightarrow> None
      | Some (status, s) \<Rightarrow> if status \<noteq> 0 then Some (status, s) else Some (ERR_NONE, s\<lparr>i2cs_hw := hw\<rparr>))"

definition i2c_s_async_init ::
    "'h sercom_bus \<Rightarrow> bool \<Rightarrow> i2cs_configuration list \<Rightarrow> ptr \<Rightarrow> ('h, 'a) i2cs_state_scheme
      \<Rightarrow> (rc \<times> ('h, 'a) i2cs_state_scheme) option" where
  "i2c_s_async_init b debug i2css hw s =
     (case i2c_s_init b debug i2css hw s of
        None \<Rightarrow> None
      | Some (init_status, s) \<Rightarrow>
          if init_status \<noteq> 0 then Some (init_status, s)
          else (let s = s\<lparr>i2cs_hw := hw\<rparr>;
                    s = s\<lparr>sercom_irq_on := False\<rparr>; s = s\<lparr>sercom_irq_pending := False\<rparr>; s = s\<lparr>sercom_irq_on := True\<rparr>;
                    s = reg_write b INTENSET I2CS_AMATCH s
                in Some (ERR_NONE, reg_write b INTENSET I2CS_PREC s)))"

definition i2c_s_sync_deinit :: "'h sercom_bus \<Rightarrow> ('h, 'a) sercom_state_scheme \<Rightarrow> rc \<times> ('h, 'a) sercom_state_scheme" where
  "i2c_s_sync_deinit b s = (ERR_NONE, i2c_s_deinit b s)"

definition i2c_s_async_deinit :: "'h sercom_bus \<Rightarrow> ('h, 'a) sercom_state_scheme \<Rightarrow> rc \<times> ('h, 'a) sercom_state_scheme" where
  "i2c_s_async_deinit b s = (ERR_NONE, i2c_s_deinit b (s\<lparr>sercom_irq_on := False\<rparr>))"

definition i2c_s_sync_enable :: "'h sercom_bus \<Rightarrow> ('h, 'a) sercom_state_scheme \<Rightarrow> rc \<times> ('h, 'a) sercom_state_scheme" where
  "i2c_s_sync_enable b s = (ERR_NONE, reg_modify b CTRLA (\<lambda>v. v OR CTRLA_ENABLE) s)"

definition i2c_s_async_enable :: "'h sercom_bus \<Rightarrow> ('h, 'a) sercom_state_scheme \<Rightarrow> rc \<times> ('h, 'a) sercom_state_scheme" where
  "i2c_s_async_enable b s = (ERR_NONE, reg_modify b CTRLA (\<lambda>v. v OR CTRLA_ENABLE) s)"

definition i2c_s_sync_disable :: "'h sercom_bus \<Rightarrow> ('h, 'a) sercom_state_scheme \<Rightarrow> rc \<times> ('h, 'a) sercom_state_scheme" where
  "i2c_s_sync_disable b s = (ERR_NONE, reg_modify b CTRLA (\<lambda>v. v AND NOT CTRLA_ENABLE) s)"

definition i2c_s_async_disable :: "'h sercom_bus \<Rightarrow> ('h, 'a) sercom_state_scheme \<Rightarrow> rc \<times> ('h, 'a) sercom_state_scheme" where
  "i2c_s_async_disable b s = (ERR_NONE, reg_modify b CTRLA (\<lambda>v. v AND NOT CTRLA_ENABLE) s)"

subsection \<open>Addresses, bytes and interrupts\<close>

definition i2c_s_sync_is_10bit_addressing_on :: "'h sercom_bus \<Rightarrow> ('h, 'a) sercom_state_scheme \<Rightarrow> rc \<times> ('h, 'a) sercom_state_scheme" where
  "i2c_s_sync_is_10bit_addressing_on b s = (case reg_read b ADDR s of (v, s) \<Rightarrow> (if v AND 0x8000 \<noteq> 0 then 1 else 0, s))"

definition i2c_s_async_is_10bit_addressing_on :: "'h sercom_bus \<Rightarrow> ('h, 'a) sercom_state_scheme \<Rightarrow> rc \<times> ('h, 'a) sercom_state_scheme" where
  "i2c_s_async_is_10bit_addressing_on b s = (case reg_read b ADDR s of (v, s) \<Rightarrow> (if v AND 0x8000 \<noteq> 0 then 1 else 0, s))"

definition i2c_s_set_address :: "'h sercom_bus \<Rightarrow> u16 \<Rightarrow> ('h, 'a) sercom_state_scheme \<Rightarrow> rc \<times> ('h, 'a) sercom_state_scheme" where
  "i2c_s_set_address b address s =
     (case reg_read b CTRLA s of
        (v, s) \<Rightarrow>
          (let enabled = (v AND CTRLA_ENABLE \<noteq> 0);
               s = reg_modify b CTRLA (\<lambda>v. v AND NOT CTRLA_ENABLE) s;
               s = reg_modify b ADDR (\<lambda>v. (v AND NOT I2CS_ADDR_Msk) OR (push_bit 1 (ucast address) AND I2CS_ADDR_Msk)) s
           in (ERR_NONE, if enabled then reg_modify b CTRLA (\<lambda>v. v OR CTRLA_ENABLE) s else s)))"

definition i2c_s_sync_write_byte :: "'h sercom_bus \<Rightarrow> u8 \<Rightarrow> ('h, 'a) sercom_state_scheme \<Rightarrow> ('h, 'a) sercom_state_scheme" where
  "i2c_s_sync_write_byte b d = reg_write b DATA (ucast d)"

definition i2c_s_async_write_byte :: "'h sercom_bus \<Rightarrow> u8 \<Rightarrow> ('h, 'a) sercom_state_scheme \<Rightarrow> ('h, 'a) sercom_state_scheme" where
  "i2c_s_async_write_byte b d = reg_write b DATA (ucast d)"

definition i2c_s_sync_read_byte :: "'h sercom_bus \<Rightarrow> ('h, 'a) sercom_state_scheme \<Rightarrow> u8 \<times> ('h, 'a) sercom_state_scheme" where
  "i2c_s_sync_read_byte b s = (case reg_read b DATA s of (d, s) \<Rightarrow> (ucast d, s))"

definition i2c_s_data_ready :: "'h sercom_bus \<Rightarrow> ('h, 'a) sercom_state_scheme \<Rightarrow> bool \<times> ('h, 'a) sercom_state_scheme" where
  \<comment> \<open>the flag says that a byte has been sent and that one has been received alike\<close>
  "i2c_s_data_ready b s = (case reg_read b INTFLAG s of (v, s) \<Rightarrow> (v AND I2CS_DRDY \<noteq> 0, s))"

definition i2c_s_sync_is_byte_sent :: "'h sercom_bus \<Rightarrow> ('h, 'a) sercom_state_scheme \<Rightarrow> bool \<times> ('h, 'a) sercom_state_scheme" where
  "i2c_s_sync_is_byte_sent b = i2c_s_data_ready b"

definition i2c_s_sync_is_byte_received :: "'h sercom_bus \<Rightarrow> ('h, 'a) sercom_state_scheme \<Rightarrow> bool \<times> ('h, 'a) sercom_state_scheme" where
  "i2c_s_sync_is_byte_received b = i2c_s_data_ready b"

definition i2c_s_sync_get_status :: "'h sercom_bus \<Rightarrow> ('h, 'a) sercom_state_scheme \<Rightarrow> u32 \<times> ('h, 'a) sercom_state_scheme" where
  "i2c_s_sync_get_status b = reg_read b STATUS"

definition i2c_s_async_get_status :: "'h sercom_bus \<Rightarrow> ('h, 'a) sercom_state_scheme \<Rightarrow> u32 \<times> ('h, 'a) sercom_state_scheme" where
  "i2c_s_async_get_status b = reg_read b STATUS"

definition i2c_s_sync_clear_data_ready_flag :: "'h sercom_bus \<Rightarrow> ('h, 'a) sercom_state_scheme \<Rightarrow> rc \<times> ('h, 'a) sercom_state_scheme" where
  "i2c_s_sync_clear_data_ready_flag b s = (ERR_NONE, reg_write b INTFLAG I2CS_DRDY s)"

definition i2c_s_async_abort_transmission :: "'h sercom_bus \<Rightarrow> ('h, 'a) sercom_state_scheme \<Rightarrow> rc \<times> ('h, 'a) sercom_state_scheme" where
  "i2c_s_async_abort_transmission b s = (ERR_NONE, reg_write b INTENCLR I2CS_DRDY s)"

definition i2c_s_async_set_irq_state ::
    "'h sercom_bus \<Rightarrow> i2c_s_async_callback_type \<Rightarrow> bool \<Rightarrow> ('h, 'a) sercom_state_scheme \<Rightarrow> rc \<times> ('h, 'a) sercom_state_scheme" where
  "i2c_s_async_set_irq_state b type state s =
     (ERR_NONE,
      if type = I2C_S_DEVICE_TX \<or> type = I2C_S_DEVICE_RX_COMPLETE then write_inten b I2CS_DRDY state s
      else if type = I2C_S_DEVICE_ERROR then write_inten b I2CS_ERROR state s
      else s)"

subsection \<open>Entry points that forward\<close>

definition i2c_s_sync_set_address where
  "i2c_s_sync_set_address b address s = i2c_s_set_address b address s"

definition i2c_s_async_set_address where
  "i2c_s_async_set_address b address s = i2c_s_set_address b address s"

subsection \<open>Setting the address\<close>

lemma set_address_registers:
  \<comment> \<open>the address field changes, and nothing else does\<close>
  "periph (snd (i2c_s_set_address regs_bus address s))
    = (periph s)(ADDR := (periph s ADDR AND NOT I2CS_ADDR_Msk) OR (push_bit 1 (ucast address) AND I2CS_ADDR_Msk))"
proof -
  have e: "(v AND NOT 2) OR 2 = v" if "v AND 2 \<noteq> 0" for v :: u32
  proof -
    have "bit v 1" using that by (metis and_exp_eq_0_iff_not_bit power_one_right)
    then show ?thesis by (auto intro!: bit_eqI simp: bit_simps bit_2_iff)
  qed
  have d: "v AND NOT 2 = v" if "v AND 2 = 0" for v :: u32
  proof -
    have "\<not> bit v 1" using that by (metis and_exp_eq_0_iff_not_bit power_one_right)
    then show ?thesis by (auto intro!: bit_eqI simp: bit_simps bit_2_iff)
  qed
  show ?thesis using e [of "periph s CTRLA"] d [of "periph s CTRLA"]
    by (auto simp: i2c_s_set_address_def Let_def fun_eq_iff)
qed

end
