(* ===== verification/SercomSpi.thy ===== *)
theory SercomSpi
  imports Sercom
begin

text \<open>
  The SPI part of \<open>hpl/sercom/hpl_sercom.c\<close>: set-up of a SERCOM as SPI master or slave, the
  polled full-duplex transfer of the master, and the single-character operations the
  interrupt-driven and the slave drivers are made of.
\<close>

record sercomspi_regs_cfg =
  sr_ctrla :: u32
  sr_ctrlb :: u32
  sr_addr :: u32
  sr_baud :: u8
  sr_dbgctrl :: u8
  sr_dummy_byte :: u16
  sr_n :: u8

record spi_msg =
  sm_txbuf :: ptr
  sm_rxbuf :: ptr
  sm_size :: u32

record 'h spi_state = "'h sercom_state" +
  spi_prvt :: ptr
  spi_char_size :: u8
  spi_dummy_byte :: u16

record ('h, 'f) spi_async_state = "'h spi_state" +
  spi_cb_tx :: "'f option"
  spi_cb_rx :: "'f option"
  spi_cb_complete :: "'f option"
  spi_cb_err :: "'f option"

datatype spi_transfer_mode = SPI_MODE_0 | SPI_MODE_1 | SPI_MODE_2 | SPI_MODE_3
datatype spi_data_order = SPI_DATA_ORDER_MSB_1ST | SPI_DATA_ORDER_LSB_1ST
datatype spi_async_dev_cb_type = SPI_DEV_CB_TX | SPI_DEV_CB_RX | SPI_DEV_CB_COMPLETE | SPI_DEV_CB_ERROR

abbreviation (input) SPI_SYNC_SWRST :: u32 where "SPI_SYNC_SWRST \<equiv> 1"
abbreviation (input) SPI_SYNC_ENABLE :: u32 where "SPI_SYNC_ENABLE \<equiv> 2"
abbreviation (input) SPI_SYNC_CTRLB :: u32 where "SPI_SYNC_CTRLB \<equiv> 4"
abbreviation (input) SPI_DRE :: u32 where "SPI_DRE \<equiv> 1"
abbreviation (input) SPI_TXC :: u32 where "SPI_TXC \<equiv> 2"
abbreviation (input) SPI_RXC :: u32 where "SPI_RXC \<equiv> 4"
abbreviation (input) SPI_ERROR :: u32 where "SPI_ERROR \<equiv> 0x80"
abbreviation (input) SPI_CTRLA_IBON :: u32 where "SPI_CTRLA_IBON \<equiv> 0x100"
abbreviation (input) SPI_CTRLA_CPHA :: u32 where "SPI_CTRLA_CPHA \<equiv> 0x10000000"
abbreviation (input) SPI_CTRLA_CPOL :: u32 where "SPI_CTRLA_CPOL \<equiv> 0x20000000"
abbreviation (input) SPI_CTRLA_DORD :: u32 where "SPI_CTRLA_DORD \<equiv> 0x40000000"
abbreviation (input) SPI_CTRLB_CHSIZE_Msk :: u32 where "SPI_CTRLB_CHSIZE_Msk \<equiv> 7"
abbreviation (input) SPI_CTRLB_PLOADEN :: u32 where "SPI_CTRLB_PLOADEN \<equiv> 0x40"
abbreviation (input) SPI_CTRLB_SSDE :: u32 where "SPI_CTRLB_SSDE \<equiv> 0x200"
abbreviation (input) SPI_CTRLB_MSSEN :: u32 where "SPI_CTRLB_MSSEN \<equiv> 0x2000"
abbreviation (input) SPI_CTRLB_AMODE_Msk :: u32 where "SPI_CTRLB_AMODE_Msk \<equiv> 0xC000"
abbreviation (input) SPI_CTRLB_RXEN :: u32 where "SPI_CTRLB_RXEN \<equiv> 0x20000"
abbreviation (input) MODE_SPI_SLAVE :: u32 where "MODE_SPI_SLAVE \<equiv> 8"

subsection \<open>Settings\<close>

definition spi_is_syncing :: "'h sercom_bus \<Rightarrow> u32 \<Rightarrow> ('h, 'a) sercom_state_scheme \<Rightarrow> bool \<times> ('h, 'a) sercom_state_scheme" where
  "spi_is_syncing b msk s = (case reg_read b SYNCBUSY s of (v, s) \<Rightarrow> (v AND msk \<noteq> 0, s))"

definition spi_deinit :: "'h sercom_bus \<Rightarrow> ('h, 'a) sercom_state_scheme \<Rightarrow> rc \<times> ('h, 'a) sercom_state_scheme" where
  "spi_deinit b s =
     (let s = reg_modify b CTRLA (\<lambda>v. v AND NOT CTRLA_ENABLE) s
      in (ERR_NONE, reg_modify b CTRLA (\<lambda>v. v OR CTRLA_SWRST) s))"

definition spi_sync_enable :: "'h sercom_bus \<Rightarrow> ('h, 'a) sercom_state_scheme \<Rightarrow> rc \<times> ('h, 'a) sercom_state_scheme" where
  "spi_sync_enable b s =
     (case spi_is_syncing b SPI_SYNC_SWRST s of
        (busy, s) \<Rightarrow> if busy then (ERR_BUSY, s) else (ERR_NONE, reg_modify b CTRLA (\<lambda>v. v OR CTRLA_ENABLE) s))"

definition spi_async_enable :: "'h sercom_bus \<Rightarrow> ('h, 'a) sercom_state_scheme \<Rightarrow> rc \<times> ('h, 'a) sercom_state_scheme" where
  \<comment> \<open>whether the module was enabled is not looked at\<close>
  "spi_async_enable b s = (case spi_sync_enable b s of (_, s) \<Rightarrow> (ERR_NONE, s\<lparr>sercom_irq_on := True\<rparr>))"

definition spi_sync_disable :: "'h sercom_bus \<Rightarrow> ('h, 'a) sercom_state_scheme \<Rightarrow> rc \<times> ('h, 'a) sercom_state_scheme" where
  "spi_sync_disable b s =
     (case spi_is_syncing b SPI_SYNC_SWRST s of
        (busy, s) \<Rightarrow> if busy then (ERR_BUSY, s) else (ERR_NONE, reg_modify b CTRLA (\<lambda>v. v AND NOT CTRLA_ENABLE) s))"

definition spi_async_disable :: "'h sercom_bus \<Rightarrow> ('h, 'a) sercom_state_scheme \<Rightarrow> rc \<times> ('h, 'a) sercom_state_scheme" where
  "spi_async_disable b s =
     (case spi_sync_disable b s of
        (_, s) \<Rightarrow>
          (let s = reg_write b INTENCLR (SPI_ERROR OR SPI_RXC OR SPI_TXC OR SPI_DRE) s
           in (ERR_NONE, s\<lparr>sercom_irq_on := False\<rparr>)))"

definition spi_mode_bits :: "spi_transfer_mode \<Rightarrow> u32" where
  "spi_mode_bits mode = (case mode of SPI_MODE_0 \<Rightarrow> 0 | SPI_MODE_1 \<Rightarrow> 1 | SPI_MODE_2 \<Rightarrow> 2 | SPI_MODE_3 \<Rightarrow> 3)"

definition spi_set_mode ::
    "'h sercom_bus \<Rightarrow> spi_transfer_mode \<Rightarrow> ('h, 'a) sercom_state_scheme \<Rightarrow> rc \<times> ('h, 'a) sercom_state_scheme" where
  "spi_set_mode b mode s =
     (case spi_is_syncing b (SPI_SYNC_SWRST OR SPI_SYNC_ENABLE) s of
        (busy, s) \<Rightarrow>
          if busy then (ERR_BUSY, s)
          else (ERR_NONE, reg_modify b CTRLA
                 (\<lambda>v. (v AND NOT (SPI_CTRLA_CPOL OR SPI_CTRLA_CPHA)) OR push_bit 28 (spi_mode_bits mode AND 3)) s))"

definition spi_set_baudrate ::
    "'h sercom_bus \<Rightarrow> u32 \<Rightarrow> ('h, 'a) sercom_state_scheme \<Rightarrow> rc \<times> ('h, 'a) sercom_state_scheme" where
  \<comment> \<open>the register has eight bits\<close>
  "spi_set_baudrate b baud_val s =
     (case spi_is_syncing b SPI_SYNC_SWRST s of
        (busy, s) \<Rightarrow> if busy then (ERR_BUSY, s) else (ERR_NONE, reg_write b BAUD (baud_val AND 0xFF) s))"

definition spi_set_char_size ::
    "'h sercom_bus \<Rightarrow> u32 \<Rightarrow> ('h, 'a) spi_state_scheme \<Rightarrow> rc \<times> ('h, 'a) spi_state_scheme" where
  \<comment> \<open>\<open>char_size\<close>: the value of the enumeration; 0 is 8 bits, 1 is 9 bits\<close>
  "spi_set_char_size b char_size s =
     (if \<not> (char_size = 0 \<or> char_size = 1) then (ERR_INVALID_ARG, s)
      else case spi_is_syncing b (SPI_SYNC_SWRST OR SPI_SYNC_CTRLB) s of
             (busy, s) \<Rightarrow>
               if busy then (ERR_BUSY, s)
               else
                 (let s = reg_modify b CTRLB (\<lambda>v. (v AND NOT SPI_CTRLB_CHSIZE_Msk) OR (char_size AND SPI_CTRLB_CHSIZE_Msk)) s
                  in (ERR_NONE, s\<lparr>spi_char_size := (if char_size = 0 then 1 else 2)\<rparr>)))"

definition spi_set_data_order ::
    "'h sercom_bus \<Rightarrow> spi_data_order \<Rightarrow> ('h, 'a) sercom_state_scheme \<Rightarrow> rc \<times> ('h, 'a) sercom_state_scheme" where
  "spi_set_data_order b dord s =
     (case spi_is_syncing b SPI_SYNC_SWRST s of
        (busy, s) \<Rightarrow>
          if busy then (ERR_BUSY, s)
          else (ERR_NONE, reg_modify b CTRLA
                 (\<lambda>v. if dord = SPI_DATA_ORDER_LSB_1ST then v OR SPI_CTRLA_DORD else v AND NOT SPI_CTRLA_DORD) s))"

definition spi_calc_baud_val :: "u32 \<Rightarrow> u32 \<Rightarrow> rc" where
  "spi_calc_baud_val clk baud =
     (if clk = 0 \<or> baud = 0 then ERR_INVALID_ARG
      else if \<not> (baud \<le> drop_bit 1 clk \<and> drop_bit 8 clk \<le> baud) then ERR_INVALID_ARG
      else sint (drop_bit 1 clk div baud - 1))"

subsection \<open>Initialisation\<close>

definition spi_load_regs_master ::
    "'h sercom_bus \<Rightarrow> sercomspi_regs_cfg \<Rightarrow> ('h, 'a) sercom_state_scheme \<Rightarrow> ('h, 'a) sercom_state_scheme" where
  "spi_load_regs_master b regs s =
     (let s = reg_write b CTRLA (sr_ctrla regs AND NOT (SPI_CTRLA_IBON OR CTRLA_ENABLE OR CTRLA_SWRST)) s;
          s = reg_write b CTRLB
                ((sr_ctrlb regs AND NOT (SPI_CTRLB_MSSEN OR SPI_CTRLB_AMODE_Msk OR SPI_CTRLB_SSDE OR SPI_CTRLB_PLOADEN))
                 OR SPI_CTRLB_RXEN) s;
          s = reg_write b BAUD (ucast (sr_baud regs)) s
      in reg_write b DBGCTRL (ucast (sr_dbgctrl regs)) s)"

definition spi_load_regs_slave ::
    "'h sercom_bus \<Rightarrow> sercomspi_regs_cfg \<Rightarrow> ('h, 'a) sercom_state_scheme \<Rightarrow> ('h, 'a) sercom_state_scheme" where
  "spi_load_regs_slave b regs s =
     (let s = reg_write b CTRLA (sr_ctrla regs AND NOT (SPI_CTRLA_IBON OR CTRLA_ENABLE OR CTRLA_SWRST)) s;
          s = reg_write b CTRLB
                ((sr_ctrlb regs AND NOT SPI_CTRLB_MSSEN) OR (SPI_CTRLB_RXEN OR SPI_CTRLB_SSDE OR SPI_CTRLB_PLOADEN)) s;
          s = reg_write b ADDR (sr_addr regs) s
      in reg_write b DBGCTRL (ucast (sr_dbgctrl regs)) s)"

fun spi_get_regs_loop :: "u8 \<Rightarrow> sercomspi_regs_cfg list \<Rightarrow> sercomspi_regs_cfg option" where
  "spi_get_regs_loop n [] = None"
| "spi_get_regs_loop n (r # rs) = (if sr_n r = n then Some r else spi_get_regs_loop n rs)"

definition spi_get_regs :: "sercomspi_regs_cfg list \<Rightarrow> ptr \<Rightarrow> sercomspi_regs_cfg option" where
  "spi_get_regs regs hw_addr = spi_get_regs_loop (sercom_get_hardware_index hw_addr) regs"

definition spi_m_sync_init ::
    "'h sercom_bus \<Rightarrow> sercomspi_regs_cfg list \<Rightarrow> ptr \<Rightarrow> ('h, 'a) spi_state_scheme \<Rightarrow> rc \<times> ('h, 'a) spi_state_scheme" where
  "spi_m_sync_init b regs hw s =
     (case spi_get_regs regs hw of
        None \<Rightarrow> (ERR_INVALID_ARG, s)
      | Some r \<Rightarrow>
          (case spi_is_syncing b SPI_SYNC_SWRST s of
             (busy, s) \<Rightarrow>
               (let s = (if \<not> busy then
                           (case reg_read b CTRLA s of
                              (ctrla, s) \<Rightarrow>
                                (let s = (if ctrla AND CTRLA_ENABLE \<noteq> 0
                                          then reg_modify b CTRLA (\<lambda>v. v AND NOT CTRLA_ENABLE) s else s)
                                 in reg_write b CTRLA (CTRLA_SWRST OR (sr_ctrla r AND CTRLA_MODE_Msk)) s))
                         else s);
                    s = s\<lparr>spi_prvt := hw\<rparr>;
                    s = (if sr_ctrla r AND CTRLA_MODE_Msk = MODE_SPI_SLAVE
                         then spi_load_regs_slave b r s else spi_load_regs_master b r s);
                    s = s\<lparr>spi_char_size := (if sr_ctrlb r AND SPI_CTRLB_CHSIZE_Msk = 0 then 1 else 2)\<rparr>
                in (ERR_NONE, s\<lparr>spi_dummy_byte := sr_dummy_byte r\<rparr>))))"

definition spi_m_async_init ::
    "'h sercom_bus \<Rightarrow> sercomspi_regs_cfg list \<Rightarrow> ptr \<Rightarrow> ('h, 'f, 'a) spi_async_state_scheme
      \<Rightarrow> rc \<times> ('h, 'f, 'a) spi_async_state_scheme" where
  \<comment> \<open>the error callback keeps what it was\<close>
  "spi_m_async_init b regs hw s =
     (case spi_m_sync_init b regs hw s of
        (rc, s) \<Rightarrow>
          if rc < 0 then (rc, s)
          else (let s = s\<lparr>spi_cb_complete := None\<rparr>; s = s\<lparr>spi_cb_rx := None\<rparr>; s = s\<lparr>spi_cb_tx := None\<rparr>;
                    s = s\<lparr>sercom_irq_on := False\<rparr>
                in (ERR_NONE, s\<lparr>sercom_irq_pending := False\<rparr>)))"

definition spi_m_async_deinit ::
    "'h sercom_bus \<Rightarrow> ('h, 'a) sercom_state_scheme \<Rightarrow> rc \<times> ('h, 'a) sercom_state_scheme" where
  "spi_m_async_deinit b s = spi_deinit b (s\<lparr>sercom_irq_on := False, sercom_irq_pending := False\<rparr>)"

subsection \<open>The polled transfer\<close>

record spi_trans_ctrl =
  tr_txbuf :: ptr
  tr_rxbuf :: ptr
  tr_txcnt :: u32
  tr_rxcnt :: u32
  tr_char_size :: u8

definition spi_rx_check_and_receive ::
    "'h sercom_bus \<Rightarrow> u32 \<Rightarrow> spi_trans_ctrl \<Rightarrow> ('h, 'a) sercom_state_scheme
      \<Rightarrow> bool \<times> spi_trans_ctrl \<times> ('h, 'a) sercom_state_scheme" where
  "spi_rx_check_and_receive b iflag ctrl s =
     (if iflag AND SPI_RXC = 0 then (False, ctrl, s)
      else case reg_read b DATA s of
             (d, s) \<Rightarrow>
               (let p = tr_rxbuf ctrl;
                    (ctrl, s) =
                      (if p = NULL then (ctrl, s)
                       else if 1 < tr_char_size ctrl then
                         (ctrl\<lparr>tr_rxbuf := p + 2\<rparr>,
                          s\<lparr>imem := (imem s)(p := ucast d, p + 1 := ucast (drop_bit 8 d))\<rparr>)
                       else (ctrl\<lparr>tr_rxbuf := p + 1\<rparr>, s\<lparr>imem := (imem s)(p := ucast d)\<rparr>))
                in (True, ctrl\<lparr>tr_rxcnt := tr_rxcnt ctrl + 1\<rparr>, s)))"

definition spi_tx_check_and_send ::
    "'h sercom_bus \<Rightarrow> u32 \<Rightarrow> spi_trans_ctrl \<Rightarrow> u16 \<Rightarrow> ('h, 'a) sercom_state_scheme
      \<Rightarrow> spi_trans_ctrl \<times> ('h, 'a) sercom_state_scheme" where
  "spi_tx_check_and_send b iflag ctrl dummy s =
     (if iflag AND SPI_DRE = 0 then (ctrl, s)
      else
        (let p = tr_txbuf ctrl;
             (d, ctrl) =
               (if p = NULL then (ucast dummy, ctrl)
                else if 1 < tr_char_size ctrl then
                  (ucast (imem s p) OR push_bit 8 (ucast (imem s (p + 1))), ctrl\<lparr>tr_txbuf := p + 2\<rparr>)
                else (ucast (imem s p), ctrl\<lparr>tr_txbuf := p + 1\<rparr>));
             ctrl = ctrl\<lparr>tr_txcnt := tr_txcnt ctrl + 1\<rparr>
         in (ctrl, reg_write b DATA d s)))"

definition spi_err_check ::
    "'h sercom_bus \<Rightarrow> u32 \<Rightarrow> ('h, 'a) sercom_state_scheme \<Rightarrow> rc \<times> ('h, 'a) sercom_state_scheme" where
  "spi_err_check b iflag s =
     (if iflag AND SPI_ERROR \<noteq> 0 then
        (let s = reg_write b STATUS 0xFFFF s in (ERR_OVERFLOW, reg_write b INTFLAG SPI_ERROR s))
      else (ERR_NONE, s))"

partial_function (option) spi_wait_bus_idle ::
    "'h sercom_bus \<Rightarrow> ('h, 'a) sercom_state_scheme \<Rightarrow> ('h, 'a) sercom_state_scheme option" where
  "spi_wait_bus_idle b s =
     (case reg_read b INTFLAG s of
        (v, s) \<Rightarrow>
          if v AND (SPI_TXC OR SPI_DRE) = 0 then spi_wait_bus_idle b s
          else Some (reg_write b INTFLAG (SPI_TXC OR SPI_DRE) s))"

definition spi_trans_step ::
    "'h sercom_bus \<Rightarrow> u16 \<Rightarrow> spi_trans_ctrl \<Rightarrow> ('h, 'a) sercom_state_scheme
      \<Rightarrow> rc \<times> spi_trans_ctrl \<times> ('h, 'a) sercom_state_scheme" where
  \<comment> \<open>one turn of the loop up to its two exits\<close>
  "spi_trans_step b dummy ctrl s =
     (case reg_read b INTFLAG s of
        (iflag, s) \<Rightarrow>
          (case spi_rx_check_and_receive b iflag ctrl s of
             (received, ctrl, s) \<Rightarrow>
               (let (ctrl, s) = (if \<not> received \<and> tr_txcnt ctrl \<le> tr_rxcnt ctrl
                                 then spi_tx_check_and_send b iflag ctrl dummy s else (ctrl, s))
                in case spi_err_check b iflag s of (rc, s) \<Rightarrow> (rc, ctrl, s))))"

partial_function (option) spi_trans_loop ::
    "'h sercom_bus \<Rightarrow> u16 \<Rightarrow> u32 \<Rightarrow> spi_trans_ctrl \<Rightarrow> ('h, 'a) sercom_state_scheme
      \<Rightarrow> (rc \<times> ('h, 'a) sercom_state_scheme) option" where
  "spi_trans_loop b dummy msg_size ctrl s =
     (case spi_trans_step b dummy ctrl s of
        (rc, ctrl, s) \<Rightarrow>
          if rc < 0 then Some (rc, s)
          else if msg_size \<le> tr_txcnt ctrl \<and> msg_size \<le> tr_rxcnt ctrl then Some (sint (tr_txcnt ctrl), s)
          else spi_trans_loop b dummy msg_size ctrl s)"

definition spi_m_sync_trans ::
    "'h sercom_bus \<Rightarrow> spi_msg \<Rightarrow> ('h, 'a) spi_state_scheme \<Rightarrow> (rc \<times> ('h, 'a) spi_state_scheme) option" where
  "spi_m_sync_trans b msg s =
     (let ctrl = \<lparr>tr_txbuf = sm_txbuf msg, tr_rxbuf = sm_rxbuf msg, tr_txcnt = 0, tr_rxcnt = 0,
                  tr_char_size = spi_char_size s\<rparr>
      in case spi_is_syncing b (SPI_SYNC_SWRST OR SPI_SYNC_ENABLE OR SPI_SYNC_CTRLB) s of
           (busy, s) \<Rightarrow>
             if busy then Some (ERR_BUSY, s)
             else (case reg_read b CTRLA s of
                     (ctrla, s) \<Rightarrow>
                       if ctrla AND CTRLA_ENABLE = 0 then Some (ERR_NOT_INITIALIZED, s)
                       else (case spi_trans_loop b (spi_dummy_byte s) (sm_size msg) ctrl s of
                               None \<Rightarrow> None
                             | Some (rc, s) \<Rightarrow> map_option (Pair rc) (spi_wait_bus_idle b s))))"

subsection \<open>Single characters and interrupts\<close>

definition spi_enable_int :: "'h sercom_bus \<Rightarrow> u32 \<Rightarrow> bool \<Rightarrow> ('h, 'a) sercom_state_scheme \<Rightarrow> rc \<times> ('h, 'a) sercom_state_scheme" where
  \<comment> \<open>the three functions that switch one interrupt of the master: DRE, RXC or TXC\<close>
  "spi_enable_int b flag state s = (ERR_NONE, write_inten b flag state s)"

definition spi_m_async_enable_tx :: "'h sercom_bus \<Rightarrow> bool \<Rightarrow> ('h, 'a) sercom_state_scheme \<Rightarrow> rc \<times> ('h, 'a) sercom_state_scheme" where
  "spi_m_async_enable_tx b = spi_enable_int b SPI_DRE"

definition spi_m_async_enable_rx :: "'h sercom_bus \<Rightarrow> bool \<Rightarrow> ('h, 'a) sercom_state_scheme \<Rightarrow> rc \<times> ('h, 'a) sercom_state_scheme" where
  "spi_m_async_enable_rx b = spi_enable_int b SPI_RXC"

definition spi_m_async_enable_tx_complete ::
    "'h sercom_bus \<Rightarrow> bool \<Rightarrow> ('h, 'a) sercom_state_scheme \<Rightarrow> rc \<times> ('h, 'a) sercom_state_scheme" where
  "spi_m_async_enable_tx_complete b = spi_enable_int b SPI_TXC"

definition spi_m_async_write_one :: "'h sercom_bus \<Rightarrow> u16 \<Rightarrow> ('h, 'a) sercom_state_scheme \<Rightarrow> rc \<times> ('h, 'a) sercom_state_scheme" where
  "spi_m_async_write_one b d s = (ERR_NONE, reg_write b DATA (ucast d) s)"

definition spi_m_async_read_one :: "'h sercom_bus \<Rightarrow> ('h, 'a) sercom_state_scheme \<Rightarrow> u16 \<times> ('h, 'a) sercom_state_scheme" where
  "spi_m_async_read_one b s = (case reg_read b DATA s of (d, s) \<Rightarrow> (ucast d, s))"

definition spi_m_async_register_callback ::
    "spi_async_dev_cb_type \<Rightarrow> 'f option \<Rightarrow> ('h, 'f, 'a) spi_async_state_scheme \<Rightarrow> rc \<times> ('h, 'f, 'a) spi_async_state_scheme" where
  "spi_m_async_register_callback cb_type func s =
     (ERR_NONE,
      case cb_type of
        SPI_DEV_CB_TX \<Rightarrow> s\<lparr>spi_cb_tx := func\<rparr>
      | SPI_DEV_CB_RX \<Rightarrow> s\<lparr>spi_cb_rx := func\<rparr>
      | SPI_DEV_CB_COMPLETE \<Rightarrow> s\<lparr>spi_cb_complete := func\<rparr>
      | SPI_DEV_CB_ERROR \<Rightarrow> s\<lparr>spi_cb_err := func\<rparr>)"

definition spi_get_intflag :: "'h sercom_bus \<Rightarrow> u32 \<Rightarrow> ('h, 'a) sercom_state_scheme \<Rightarrow> bool \<times> ('h, 'a) sercom_state_scheme" where
  "spi_get_intflag b flag s = (case reg_read b INTFLAG s of (v, s) \<Rightarrow> (v AND flag \<noteq> 0, s))"

definition spi_s_sync_is_tx_ready :: "'h sercom_bus \<Rightarrow> ('h, 'a) sercom_state_scheme \<Rightarrow> bool \<times> ('h, 'a) sercom_state_scheme" where
  "spi_s_sync_is_tx_ready b = spi_get_intflag b SPI_DRE"

definition spi_s_sync_is_rx_ready :: "'h sercom_bus \<Rightarrow> ('h, 'a) sercom_state_scheme \<Rightarrow> bool \<times> ('h, 'a) sercom_state_scheme" where
  "spi_s_sync_is_rx_ready b = spi_get_intflag b SPI_RXC"

definition spi_s_sync_is_ss_deactivated :: "'h sercom_bus \<Rightarrow> ('h, 'a) sercom_state_scheme \<Rightarrow> bool \<times> ('h, 'a) sercom_state_scheme" where
  "spi_s_sync_is_ss_deactivated b s =
     (case spi_get_intflag b SPI_TXC s of
        (v, s) \<Rightarrow> if v then (True, reg_write b INTFLAG SPI_TXC s) else (False, s))"

definition spi_s_sync_is_error :: "'h sercom_bus \<Rightarrow> ('h, 'a) sercom_state_scheme \<Rightarrow> bool \<times> ('h, 'a) sercom_state_scheme" where
  "spi_s_sync_is_error b s =
     (case spi_get_intflag b SPI_ERROR s of
        (v, s) \<Rightarrow>
          if v then (let s = reg_write b STATUS 4 s in (True, reg_write b INTFLAG SPI_ERROR s)) else (False, s))"

definition spi_m_async_set_irq_state ::
    "'h sercom_bus \<Rightarrow> spi_async_dev_cb_type \<Rightarrow> bool \<Rightarrow> ('h, 'a) sercom_state_scheme \<Rightarrow> ('h, 'a) sercom_state_scheme" where
  "spi_m_async_set_irq_state b type state s =
     (if type = SPI_DEV_CB_ERROR then write_inten b SPI_ERROR state s else s)"

subsection \<open>Entry points that forward\<close>

definition spi_s_sync_init where
  "spi_s_sync_init b regs hw s = spi_m_sync_init b regs hw s"

definition spi_s_async_init where
  "spi_s_async_init b regs hw s = spi_m_async_init b regs hw s"

definition spi_s_async_deinit where
  "spi_s_async_deinit b s = spi_m_async_deinit b s"

definition spi_m_sync_deinit where
  "spi_m_sync_deinit b s = spi_deinit b s"

definition spi_s_sync_deinit where
  "spi_s_sync_deinit b s = spi_deinit b s"

definition spi_m_sync_enable where
  "spi_m_sync_enable b s = spi_sync_enable b s"

definition spi_m_async_enable where
  "spi_m_async_enable b s = spi_async_enable b s"

definition spi_m_sync_disable where
  "spi_m_sync_disable b s = spi_sync_disable b s"

definition spi_m_async_disable where
  "spi_m_async_disable b s = spi_async_disable b s"

definition spi_m_sync_set_mode where
  "spi_m_sync_set_mode b mode s = spi_set_mode b mode s"

definition spi_m_sync_set_char_size where
  "spi_m_sync_set_char_size b char_size s = spi_set_char_size b char_size s"

definition spi_m_sync_set_data_order where
  "spi_m_sync_set_data_order b dord s = spi_set_data_order b dord s"

definition spi_m_async_set_mode where
  "spi_m_async_set_mode b mode s = spi_set_mode b mode s"

definition spi_m_async_set_char_size where
  "spi_m_async_set_char_size b char_size s = spi_set_char_size b char_size s"

definition spi_m_async_set_data_order where
  "spi_m_async_set_data_order b dord s = spi_set_data_order b dord s"

definition spi_s_sync_enable where
  "spi_s_sync_enable b s = spi_sync_enable b s"

definition spi_s_async_enable where
  "spi_s_async_enable b s = spi_async_enable b s"

definition spi_s_sync_disable where
  "spi_s_sync_disable b s = spi_sync_disable b s"

definition spi_s_async_disable where
  "spi_s_async_disable b s = spi_async_disable b s"

definition spi_s_sync_set_mode where
  "spi_s_sync_set_mode b mode s = spi_set_mode b mode s"

definition spi_s_sync_set_char_size where
  "spi_s_sync_set_char_size b char_size s = spi_set_char_size b char_size s"

definition spi_s_sync_set_data_order where
  "spi_s_sync_set_data_order b dord s = spi_set_data_order b dord s"

definition spi_s_async_set_mode where
  "spi_s_async_set_mode b mode s = spi_set_mode b mode s"

definition spi_s_async_set_char_size where
  "spi_s_async_set_char_size b char_size s = spi_set_char_size b char_size s"

definition spi_s_async_set_data_order where
  "spi_s_async_set_data_order b dord s = spi_set_data_order b dord s"

definition spi_m_sync_set_baudrate where
  "spi_m_sync_set_baudrate b baud_val s = spi_set_baudrate b baud_val s"

definition spi_m_async_set_baudrate where
  "spi_m_async_set_baudrate b baud_val s = spi_set_baudrate b baud_val s"

definition spi_s_async_enable_tx where
  "spi_s_async_enable_tx b state s = spi_m_async_enable_tx b state s"

definition spi_s_async_enable_rx where
  "spi_s_async_enable_rx b state s = spi_m_async_enable_rx b state s"

definition spi_s_async_enable_ss_detect where
  "spi_s_async_enable_ss_detect b state s = spi_m_async_enable_tx_complete b state s"

definition spi_s_async_write_one where
  "spi_s_async_write_one b d s = spi_m_async_write_one b d s"

definition spi_s_sync_write_one where
  "spi_s_sync_write_one b d s = spi_m_async_write_one b d s"

definition spi_s_async_read_one where
  "spi_s_async_read_one b s = spi_m_async_read_one b s"

definition spi_s_sync_read_one where
  "spi_s_sync_read_one b s = spi_m_async_read_one b s"

definition spi_s_async_register_callback where
  "spi_s_async_register_callback cb_type func s = spi_m_async_register_callback cb_type func s"

definition spi_s_async_set_irq_state where
  "spi_s_async_set_irq_state b type state s = spi_m_async_set_irq_state b type state s"

subsection \<open>The clock divider\<close>

text \<open>
  For a requested rate within the range of the module the divider fits its 8-bit register,
  and gives the smallest rate the module can make that is not below the requested one.
\<close>

theorem spi_baud_value:
  assumes "drop_bit 8 clk \<le> baud" and "baud \<le> drop_bit 1 clk" and "0 < baud"
  shows "\<exists>v < 256. spi_calc_baud_val clk baud = int v \<and> unat baud * (2 * (v + 1)) \<le> unat clk
    \<and> unat clk < unat baud * (2 * (v + 2))"
proof -
  let ?b = "unat baud" and ?c = "unat clk"
  have h: "unat (drop_bit 1 clk) = ?c div 2" "unat (drop_bit 8 clk) = ?c div 256"
    by (simp_all add: drop_bit_eq_div unat_div)
  have b: "?c div 256 \<le> ?b" "?b \<le> ?c div 2" "0 < ?b"
    using assms h by (simp_all add: word_le_nat_alt word_gt_0 unat_gt_0)
  let ?q = "(?c div 2) div ?b"
  have q1: "1 \<le> ?q" using b by (simp add: Suc_le_eq div_greater_zero_iff)
  have q2: "?q \<le> 255"
  proof -
    have "?c div 2 < 256 * ?b"
    proof (cases "?c div 256 = 0")
      case True
      then have "?c < 256" by (simp add: div_eq_0_iff)
      then show ?thesis using b(3) by auto
    next
      case False
      have "?c div 2 \<le> 128 * (?c div 256) + 127" by linarith
      then show ?thesis using b(1) False by linarith
    qed
    then show ?thesis using b(3) less_mult_imp_div_less [of "?c div 2" 256 ?b] by simp
  qed
  have v: "unat (drop_bit 1 clk div baud - 1) = ?q - 1"
  proof -
    have d: "unat (drop_bit 1 clk div baud) = ?q" by (simp only: unat_div h)
    then have "1 \<le> drop_bit 1 clk div baud" using q1 by (simp only: word_le_nat_alt unsigned_1)
    then show ?thesis using d by (simp only: unat_sub unsigned_1)
  qed
  then have "uint (drop_bit 1 clk div baud - 1) = int (?q - 1)" by (metis uint_nat)
  then have s: "sint (drop_bit 1 clk div baud - 1) = int (?q - 1)"
    using q2 by (simp only: sint_uint) (simp add: signed_take_bit_int_eq_self)
  have ne: "clk \<noteq> 0" "baud \<noteq> 0" using b by auto
  have "?b * ?q \<le> ?c div 2" "?c div 2 < ?b * (?q + 1)"
    using b(3) by (simp_all add: times_div_less_eq_dividend dividend_less_times_div)
  then have "?b * (2 * ?q) \<le> ?c" "?c < ?b * (2 * (?q + 1))" by linarith+
  moreover have "spi_calc_baud_val clk baud = int (?q - 1)"
    unfolding spi_calc_baud_val_def s using ne assms by simp
  ultimately show ?thesis using q1 q2 by (intro exI [of _ "?q - 1"]) auto
qed

lemma spi_baud_value_witness:
  "\<exists>v < 256. spi_calc_baud_val 48000000 1000000 = int v \<and> 1000000 * (2 * (v + 1)) \<le> (48000000 :: nat)
    \<and> 48000000 < 1000000 * (2 * (v + 2))"
  using spi_baud_value [of 48000000 1000000] by simp

end
