(* ===== verification/SpiTransfer.thy ===== *)
theory SpiTransfer
  imports SercomSpi
begin

text \<open>
  What a polled SPI transfer exchanges with the device on the bus, for a module that shifts
  one character at a time.
\<close>

subsection \<open>The module as a shift register\<close>

datatype spi_phase = Spi_idle | Spi_shifting nat

text \<open>
  \<open>spi_link b ph sent reply\<close>: as the driver polls, a character written to \<open>DATA\<close> while nothing is
  being shifted takes some number of polls; then the character the device
  answered, which may depend on everything sent so far, waits to be read.
\<close>

definition spi_link ::
    "'h sercom_bus \<Rightarrow> ('h \<Rightarrow> spi_phase) \<Rightarrow> ('h \<Rightarrow> u32 list) \<Rightarrow> (u32 list \<Rightarrow> u32) \<Rightarrow> bool" where
  "spi_link b ph sent reply \<longleftrightarrow>
     (\<forall>h. sent (snd (rd b INTFLAG h)) = sent h \<and> fst (rd b INTFLAG h) AND SPI_ERROR = 0) \<and>
     (\<forall>h. ph h = Spi_idle \<longrightarrow> fst (rd b INTFLAG h) AND SPI_RXC = 0 \<and> fst (rd b INTFLAG h) AND SPI_DRE \<noteq> 0
        \<and> ph (snd (rd b INTFLAG h)) = Spi_idle) \<and>
     (\<forall>h n. ph h = Spi_shifting (Suc n) \<longrightarrow>
        fst (rd b INTFLAG h) AND SPI_RXC = 0 \<and> ph (snd (rd b INTFLAG h)) = Spi_shifting n) \<and>
     (\<forall>h. ph h = Spi_shifting 0 \<longrightarrow> fst (rd b INTFLAG h) AND SPI_RXC \<noteq> 0
        \<and> fst (rd b INTFLAG h) AND (SPI_TXC OR SPI_DRE) \<noteq> 0 \<and> ph (snd (rd b INTFLAG h)) = Spi_shifting 0) \<and>
     (\<forall>h. ph h = Spi_shifting 0 \<longrightarrow> fst (rd b DATA h) = reply (sent h)
        \<and> ph (snd (rd b DATA h)) = Spi_idle \<and> sent (snd (rd b DATA h)) = sent h) \<and>
     (\<forall>h d. ph h = Spi_idle \<longrightarrow> (\<exists>n. ph (wr b DATA d h) = Spi_shifting n) \<and> sent (wr b DATA d h) = sent h @ [d]) \<and>
     (\<forall>h v. ph (wr b INTFLAG v h) = ph h \<and> sent (wr b INTFLAG v h) = sent h) \<and>
     (\<forall>h. snd (rd b SYNCBUSY h) = h \<and> snd (rd b CTRLA h) = h)"

lemma spi_linkD:
  assumes "spi_link b ph sent reply"
  shows "sent (snd (rd b INTFLAG h)) = sent h" "fst (rd b INTFLAG h) AND SPI_ERROR = 0"
    "ph h = Spi_idle \<Longrightarrow> fst (rd b INTFLAG h) AND SPI_RXC = 0"
    "ph h = Spi_idle \<Longrightarrow> fst (rd b INTFLAG h) AND SPI_DRE \<noteq> 0"
    "ph h = Spi_idle \<Longrightarrow> ph (snd (rd b INTFLAG h)) = Spi_idle"
    "ph h = Spi_shifting (Suc n) \<Longrightarrow> fst (rd b INTFLAG h) AND SPI_RXC = 0"
    "ph h = Spi_shifting (Suc n) \<Longrightarrow> ph (snd (rd b INTFLAG h)) = Spi_shifting n"
    "ph h = Spi_shifting 0 \<Longrightarrow> fst (rd b INTFLAG h) AND SPI_RXC \<noteq> 0"
    "ph h = Spi_shifting 0 \<Longrightarrow> fst (rd b INTFLAG h) AND (SPI_TXC OR SPI_DRE) \<noteq> 0"
    "ph h = Spi_shifting 0 \<Longrightarrow> ph (snd (rd b INTFLAG h)) = Spi_shifting 0"
    "ph h = Spi_shifting 0 \<Longrightarrow> fst (rd b DATA h) = reply (sent h)"
    "ph h = Spi_shifting 0 \<Longrightarrow> ph (snd (rd b DATA h)) = Spi_idle"
    "ph h = Spi_shifting 0 \<Longrightarrow> sent (snd (rd b DATA h)) = sent h"
    "ph h = Spi_idle \<Longrightarrow> \<exists>n. ph (wr b DATA d h) = Spi_shifting n"
    "ph h = Spi_idle \<Longrightarrow> sent (wr b DATA d h) = sent h @ [d]"
    "ph (wr b INTFLAG v h) = ph h" "sent (wr b INTFLAG v h) = sent h"
    "snd (rd b SYNCBUSY h) = h" "snd (rd b CTRLA h) = h"
  using assms unfolding spi_link_def by blast+

subsection \<open>Characters in memory\<close>

definition char_width :: "u8 \<Rightarrow> nat" where "char_width cs = (if 1 < cs then 2 else 1)"

definition char_bytes :: "u8 \<Rightarrow> u32 \<Rightarrow> u8 list" where
  "char_bytes cs d = (if 1 < cs then [ucast d, ucast (drop_bit 8 d)] else [ucast d])"

definition advance :: "ptr \<Rightarrow> nat \<Rightarrow> ptr" where
  \<comment> \<open>a buffer pointer that stays null\<close>
  "advance p n = (if p = NULL then NULL else p + of_nat n)"

definition next_char :: "(ptr \<Rightarrow> u8) \<Rightarrow> u8 \<Rightarrow> u16 \<Rightarrow> ptr \<Rightarrow> u32" where
  "next_char m cs dummy p =
     (if p = NULL then ucast dummy
      else if 1 < cs then ucast (m p) OR push_bit 8 (ucast (m (p + 1))) else ucast (m p))"

definition tx_chars :: "(ptr \<Rightarrow> u8) \<Rightarrow> u8 \<Rightarrow> u16 \<Rightarrow> ptr \<Rightarrow> nat \<Rightarrow> u32 list" where
  \<comment> \<open>the first \<open>n\<close> characters of the transmit buffer\<close>
  "tx_chars m cs dummy p n = map (\<lambda>k. next_char m cs dummy (advance p (char_width cs * k))) [0..<n]"

definition rx_bytes :: "(u32 list \<Rightarrow> u32) \<Rightarrow> u8 \<Rightarrow> u32 list \<Rightarrow> u32 list \<Rightarrow> u8 list" where
  \<comment> \<open>the answers to the characters \<open>ts\<close>, sent after \<open>old\<close>\<close>
  "rx_bytes reply cs old ts = concat (map (\<lambda>k. char_bytes cs (reply (old @ take (Suc k) ts))) [0..<length ts])"

lemma length_tx_chars [simp]: "length (tx_chars m cs dummy p n) = n"
  by (simp add: tx_chars_def)

lemma tx_chars_Suc:
  "tx_chars m cs dummy p (Suc n) = tx_chars m cs dummy p n @ [next_char m cs dummy (advance p (char_width cs * n))]"
  by (simp add: tx_chars_def)

lemma rx_bytes_snoc: "rx_bytes reply cs old (ts @ [t]) = rx_bytes reply cs old ts @ char_bytes cs (reply (old @ ts @ [t]))"
proof -
  have e: "map (\<lambda>k. char_bytes cs (reply (old @ take (Suc k) (ts @ [t])))) [0..<length ts]
      = map (\<lambda>k. char_bytes cs (reply (old @ take (Suc k) ts))) [0..<length ts]"
    by (rule map_cong) simp_all
  have "[0..<length (ts @ [t])] = [0..<length ts] @ [length ts]" by simp
  then show ?thesis unfolding rx_bytes_def by (simp only: map_append e) simp
qed

lemma length_char_bytes [simp]: "length (char_bytes cs d) = char_width cs"
  by (simp add: char_bytes_def char_width_def)

text \<open>A buffer that does not run over the end of the address space.\<close>

definition spi_buffer :: "ptr \<Rightarrow> nat \<Rightarrow> bool" where
  "spi_buffer p n \<longleftrightarrow> unat p + n < 2 ^ 32"

lemma advance_0 [simp]: "advance p 0 = p"
  by (simp add: advance_def)

lemma advance_null [simp]: "spi_buffer p n \<Longrightarrow> i \<le> n \<Longrightarrow> (advance p i = NULL) = (p = NULL)"
proof -
  assume a: "spi_buffer p n" "i \<le> n"
  then have u: "unat (p + of_nat i) = unat p + i" by (simp add: spi_buffer_def unat_word_ariths unat_of_nat)
  show ?thesis
  proof (cases "p = NULL")
    case False
    then have "0 < unat p" by (simp add: unat_gt_0)
    then have "p + of_nat i \<noteq> NULL" using u by (metis add_is_0 not_gr_zero unat_0)
    then show ?thesis using False by (simp add: advance_def)
  qed (simp add: advance_def)
qed

lemma advance_add: "spi_buffer p n \<Longrightarrow> i \<le> n \<Longrightarrow> advance (advance p i) k = advance p (i + k)"
  using advance_null [of p n i] by (simp add: advance_def algebra_simps)

definition store :: "ptr \<Rightarrow> u8 list \<Rightarrow> (ptr \<Rightarrow> u8) \<Rightarrow> (ptr \<Rightarrow> u8)" where
  \<comment> \<open>memory once the bytes are stored at \<open>p\<close>, if there is a buffer\<close>
  "store p bs m = (\<lambda>q. if p \<noteq> NULL \<and> unat (q - p) < length bs then bs ! unat (q - p) else m q)"

lemma store_null [simp]: "store NULL bs m = m" and store_nil [simp]: "store p [] m = m"
  by (simp_all add: store_def)

lemma store_one: "p \<noteq> NULL \<Longrightarrow> store p [x] m = m(p := x)"
  by (auto simp: store_def fun_eq_iff unat_eq_0)

lemma store_two: "p \<noteq> NULL \<Longrightarrow> store p [x, y] m = m(p := x, p + 1 := y)"
proof
  fix q assume p: "p \<noteq> NULL"
  have "unat (q - p) < 2 \<longleftrightarrow> q = p \<or> q = p + 1"
  proof
    assume "unat (q - p) < 2"
    then have "unat (q - p) = 0 \<or> unat (q - p) = 1" by auto
    then have "q - p = 0 \<or> q - p = 1" by (auto simp: word_unat_eq_iff)
    then show "q = p \<or> q = p + 1" by (metis eq_iff_diff_eq_0 diff_eq_eq add.commute)
  qed auto
  then show "store p [x, y] m q = (m(p := x, p + 1 := y)) q"
    using p by (auto simp: store_def)
qed

lemma store_append:
  assumes "spi_buffer p (length bs + length cs)"
  shows "store (advance p (length bs)) cs (store p bs m) = store p (bs @ cs) m"
proof (cases "p = NULL")
  case False
  have ne: "advance p (length bs) \<noteq> NULL" using advance_null [OF assms, of "length bs"] False by simp
  have "store (advance p (length bs)) cs (store p bs m) q = store p (bs @ cs) m q" for q
  proof -
    let ?d = "q - p" and ?n = "length bs"
    have n: "?n + length cs < 2 ^ 32" using assms by (simp add: spi_buffer_def)
    have e: "q - advance p ?n = ?d - of_nat ?n" using False by (simp add: advance_def algebra_simps)
    have un: "unat (of_nat ?n :: u32) = ?n" using n by (simp add: unat_of_nat)
    show ?thesis
    proof (cases "unat ?d < ?n")
      case True
      then have "unat (?d - of_nat ?n) = 2 ^ 32 + unat ?d - ?n"
        using un n by (simp add: unat_sub_if' word_le_nat_alt)
      then have "\<not> unat (?d - of_nat ?n) < length cs" using n by simp
      then show ?thesis using True False by (simp add: store_def e nth_append)
    next
      case ge: False
      then have "unat (?d - of_nat ?n) = unat ?d - ?n"
        using un by (simp add: unat_sub word_le_nat_alt)
      then show ?thesis using ge False ne by (auto simp: store_def e nth_append)
    qed
  qed
  then show ?thesis by (rule ext)
qed (simp add: advance_def)

lemma store_other: "(\<And>i. i < length bs \<Longrightarrow> q \<noteq> p + of_nat i) \<Longrightarrow> store p bs m q = m q"
proof -
  assume a: "\<And>i. i < length bs \<Longrightarrow> q \<noteq> p + of_nat i"
  have "q = p + of_nat (unat (q - p))" by simp
  then show ?thesis using a [of "unat (q - p)"] by (auto simp: store_def)
qed

subsection \<open>One turn of the loop\<close>

lemmas turn_defs = spi_trans_step_def reg_read_def reg_write_def spi_err_check_def

lemma turn_sends:
  assumes link: "spi_link b ph sent reply" and idle: "ph (periph s) = Spi_idle" and eq: "tr_txcnt ctrl \<le> tr_rxcnt ctrl"
  shows "\<exists>h n. spi_trans_step b dummy ctrl s =
      (0, ctrl\<lparr>tr_txbuf := advance (tr_txbuf ctrl) (char_width (tr_char_size ctrl)), tr_txcnt := tr_txcnt ctrl + 1\<rparr>, s\<lparr>periph := h\<rparr>)
    \<and> ph h = Spi_shifting n \<and> sent h = sent (periph s) @ [next_char (imem s) (tr_char_size ctrl) dummy (tr_txbuf ctrl)]"
proof -
  obtain f h where r: "rd b INTFLAG (periph s) = (f, h)" by (cases "rd b INTFLAG (periph s)")
  note l = spi_linkD [OF link, where h = "periph s", unfolded r fst_conv snd_conv]
  let ?c = "next_char (imem s) (tr_char_size ctrl) dummy (tr_txbuf ctrl)"
  obtain n where "ph (wr b DATA ?c h) = Spi_shifting n" using spi_linkD(14) [OF link l(5) [OF idle]] by blast
  moreover have "sent (wr b DATA ?c h) = sent (periph s) @ [?c]" using spi_linkD(15) [OF link l(5) [OF idle]] l(1) by simp
  moreover have "spi_trans_step b dummy ctrl s =
      (0, ctrl\<lparr>tr_txbuf := advance (tr_txbuf ctrl) (char_width (tr_char_size ctrl)), tr_txcnt := tr_txcnt ctrl + 1\<rparr>,
       s\<lparr>periph := wr b DATA ?c h\<rparr>)"
    using l(2) l(3,4) [OF idle] eq
    by (simp add: turn_defs r spi_rx_check_and_receive_def spi_tx_check_and_send_def next_char_def advance_def char_width_def Let_def)
  ultimately show ?thesis by blast
qed

lemma turn_waits:
  assumes link: "spi_link b ph sent reply" and full: "ph (periph s) = Spi_shifting (Suc n)" and "\<not> tr_txcnt ctrl \<le> tr_rxcnt ctrl"
  shows "\<exists>h. spi_trans_step b dummy ctrl s = (0, ctrl, s\<lparr>periph := h\<rparr>) \<and> ph h = Spi_shifting n \<and> sent h = sent (periph s)"
proof -
  obtain f h where r: "rd b INTFLAG (periph s) = (f, h)" by (cases "rd b INTFLAG (periph s)")
  note l = spi_linkD [OF link, where h = "periph s", unfolded r fst_conv snd_conv]
  show ?thesis
    using assms(3) l(1,2) l(6,7) [OF full]
    by (intro exI [of _ h]) (simp add: turn_defs r spi_rx_check_and_receive_def)
qed

lemma turn_receives:
  assumes link: "spi_link b ph sent reply" and full: "ph (periph s) = Spi_shifting 0"
  shows "\<exists>h. spi_trans_step b dummy ctrl s =
      (0, ctrl\<lparr>tr_rxbuf := advance (tr_rxbuf ctrl) (char_width (tr_char_size ctrl)), tr_rxcnt := tr_rxcnt ctrl + 1\<rparr>,
       s\<lparr>periph := h, imem := store (tr_rxbuf ctrl) (char_bytes (tr_char_size ctrl) (reply (sent (periph s)))) (imem s)\<rparr>)
    \<and> ph h = Spi_idle \<and> sent h = sent (periph s)"
proof -
  obtain f g where r: "rd b INTFLAG (periph s) = (f, g)" by (cases "rd b INTFLAG (periph s)")
  obtain d h where q: "rd b DATA g = (d, h)" by (cases "rd b DATA g")
  note l = spi_linkD [OF link, where h = "periph s", unfolded r fst_conv snd_conv]
  note k = spi_linkD(11-13) [OF link l(10) [OF full], unfolded q fst_conv snd_conv]
  show ?thesis
    using l(1,2) l(8) [OF full] k
    by (intro exI [of _ h])
      (simp add: turn_defs r q spi_rx_check_and_receive_def store_one store_two char_bytes_def advance_def char_width_def Let_def)
qed

subsection \<open>The whole transfer\<close>

definition spi_buffers :: "spi_msg \<Rightarrow> nat \<Rightarrow> bool" where
  \<comment> \<open>\<open>n\<close> bytes in either buffer; no received byte overwrites one that is still to be sent, as it
      does not if the buffers are apart or the same\<close>
  "spi_buffers msg n \<longleftrightarrow>
     spi_buffer (sm_txbuf msg) n \<and> spi_buffer (sm_rxbuf msg) n
     \<and> (sm_txbuf msg = NULL \<or> sm_rxbuf msg = NULL \<or>
        (\<forall>i j. i < j \<longrightarrow> j < n \<longrightarrow> sm_txbuf msg + of_nat j \<noteq> sm_rxbuf msg + of_nat i))"

definition exchanged ::
    "('h \<Rightarrow> spi_phase) \<Rightarrow> ('h \<Rightarrow> u32 list) \<Rightarrow> (u32 list \<Rightarrow> u32) \<Rightarrow> spi_msg \<Rightarrow> u8 \<Rightarrow> u16
      \<Rightarrow> ('h, 'a) sercom_state_scheme \<Rightarrow> nat \<Rightarrow> spi_trans_ctrl \<Rightarrow> ('h, 'a) sercom_state_scheme \<Rightarrow> bool" where
  \<comment> \<open>\<open>n\<close> characters have been sent and their answers stored\<close>
  "exchanged ph sent reply msg cs dummy s n ctrl s' \<longleftrightarrow>
     (let ts = tx_chars (imem s) cs dummy (sm_txbuf msg) n; w = char_width cs in
      ctrl = \<lparr>tr_txbuf = advance (sm_txbuf msg) (w * n), tr_rxbuf = advance (sm_rxbuf msg) (w * n),
              tr_txcnt = of_nat n, tr_rxcnt = of_nat n, tr_char_size = cs\<rparr>
      \<and> ph (periph s') = Spi_idle \<and> sent (periph s') = sent (periph s) @ ts
      \<and> imem s' = store (sm_rxbuf msg) (rx_bytes reply cs (sent (periph s)) ts) (imem s))"

lemma length_rx_bytes [simp]: "length (rx_bytes reply cs old ts) = char_width cs * length ts"
proof (induction ts rule: rev_induct)
  case (snoc t ts)
  then show ?case by (simp add: rx_bytes_snoc)
qed (simp add: rx_bytes_def)

lemma next_char_store:
  assumes "spi_buffers msg (char_width cs * N)" and "n < N" and "length bs = char_width cs * n"
  shows "next_char (store (sm_rxbuf msg) bs m) cs dummy (advance (sm_txbuf msg) (char_width cs * n))
    = next_char m cs dummy (advance (sm_txbuf msg) (char_width cs * n))"
proof (cases "sm_txbuf msg = NULL \<or> sm_rxbuf msg = NULL")
  case False
  let ?w = "char_width cs"
  have apart: "sm_txbuf msg + of_nat j \<noteq> sm_rxbuf msg + of_nat i" if "i < j" "j < ?w * N" for i j
    using assms(1) False that by (auto simp: spi_buffers_def)
  have le: "?w * Suc n \<le> ?w * N" using assms(2) by (simp only: mult_le_mono2 Suc_le_eq)
  have keep: "store (sm_rxbuf msg) bs m (sm_txbuf msg + of_nat j) = m (sm_txbuf msg + of_nat j)"
    if "?w * n \<le> j" "j < ?w * Suc n" for j
    using that le assms(3) by (intro store_other apart) simp_all
  have "keep2": "store (sm_rxbuf msg) bs m (sm_txbuf msg + of_nat (?w * n) + 1) = m (sm_txbuf msg + of_nat (?w * n) + 1)"
    if "1 < cs"
  proof -
    have "?w = 2" using that by (simp add: char_width_def)
    then show ?thesis using keep [of "?w * n + 1"] by (simp add: algebra_simps)
  qed
  have "0 < ?w" by (simp add: char_width_def)
  then show ?thesis using keep [of "?w * n"] keep2 False by (auto simp: next_char_def advance_def)
qed (auto simp: next_char_def advance_def)

lemma transfer_waits:
  assumes "spi_link b ph sent reply"
  shows "ph (periph s) = Spi_shifting n \<Longrightarrow> \<not> tr_txcnt ctrl \<le> tr_rxcnt ctrl \<Longrightarrow> \<not> msg_size \<le> tr_rxcnt ctrl
    \<Longrightarrow> \<exists>h. spi_trans_loop b dummy msg_size ctrl s = spi_trans_loop b dummy msg_size ctrl (s\<lparr>periph := h\<rparr>)
      \<and> ph h = Spi_shifting 0 \<and> sent h = sent (periph s)"
proof (induction n arbitrary: s)
  case 0
  then show ?case by (intro exI [of _ "periph s"]) simp
next
  case (Suc n)
  obtain h where h: "spi_trans_step b dummy ctrl s = (0, ctrl, s\<lparr>periph := h\<rparr>)" "ph h = Spi_shifting n" "sent h = sent (periph s)"
    using turn_waits [OF assms Suc.prems(1,2)] by blast
  have "spi_trans_loop b dummy msg_size ctrl s = spi_trans_loop b dummy msg_size ctrl (s\<lparr>periph := h\<rparr>)"
    using Suc.prems(3) by (subst spi_trans_loop.simps) (simp add: h(1))
  moreover from Suc.IH [of "s\<lparr>periph := h\<rparr>"] Suc.prems h(2,3)
  obtain h2 where "spi_trans_loop b dummy msg_size ctrl (s\<lparr>periph := h\<rparr>)
      = spi_trans_loop b dummy msg_size ctrl (s\<lparr>periph := h2\<rparr>)" "ph h2 = Spi_shifting 0" "sent h2 = sent (periph s)"
    by auto
  ultimately show ?case by auto
qed

lemma exchange_facts:
  assumes bufs: "spi_buffers msg (char_width cs * N)" and N: "N < 2 ^ 31" "n < N" "N = unat (sm_size msg)"
  shows "\<not> of_nat n + 1 \<le> (of_nat n :: u32)" "\<not> sm_size msg \<le> of_nat n"
    "(sm_size msg \<le> of_nat n + 1) = (Suc n = N)" "sint (of_nat n + 1 :: u32) = int (Suc n)"
    "advance (advance (sm_txbuf msg) (char_width cs * n)) (char_width cs) = advance (sm_txbuf msg) (char_width cs * Suc n)"
    "advance (advance (sm_rxbuf msg) (char_width cs * n)) (char_width cs) = advance (sm_rxbuf msg) (char_width cs * Suc n)"
    "spi_buffer (sm_rxbuf msg) (char_width cs * n + char_width cs)"
proof -
  let ?w = "char_width cs"
  have un: "unat (of_nat n :: u32) = n" "unat (of_nat (Suc n) :: u32) = Suc n"
    using N(1,2) by (simp_all add: unat_of_nat del: of_nat_Suc)
  then have un1: "unat (of_nat n + 1 :: u32) = Suc n" by (simp add: add.commute)
  show "\<not> of_nat n + 1 \<le> (of_nat n :: u32)" "\<not> sm_size msg \<le> of_nat n"
      "(sm_size msg \<le> of_nat n + 1) = (Suc n = N)"
    using un un1 N by (auto simp: word_le_nat_alt)
  have "uint (of_nat n + 1 :: u32) = int (Suc n)" using un1 by (metis uint_nat)
  then show "sint (of_nat n + 1 :: u32) = int (Suc n)"
    using N(1,2) by (simp only: sint_uint) (simp add: signed_take_bit_int_eq_self)
  have le: "?w * n + ?w \<le> ?w * N" using N(2) by (metis Suc_leI mult_Suc_right add.commute mult_le_mono2)
  have bf: "spi_buffer (sm_txbuf msg) (?w * N)" "spi_buffer (sm_rxbuf msg) (?w * N)"
    using bufs by (simp_all add: spi_buffers_def)
  have adv: "advance (advance p (?w * n)) ?w = advance p (?w * Suc n)" if "spi_buffer p (?w * N)" for p
    using advance_add [OF that, of "?w * n" ?w] N(2) by (simp add: add.commute)
  show "advance (advance (sm_txbuf msg) (?w * n)) ?w = advance (sm_txbuf msg) (?w * Suc n)"
      "advance (advance (sm_rxbuf msg) (?w * n)) ?w = advance (sm_rxbuf msg) (?w * Suc n)"
      "spi_buffer (sm_rxbuf msg) (?w * n + ?w)"
    using adv [OF bf(1)] adv [OF bf(2)] bf(2) le by (simp_all add: spi_buffer_def)
qed

lemma exchange_sends:
  assumes link: "spi_link b ph sent reply" and bufs: "spi_buffers msg (char_width cs * N)"
    and N: "N < 2 ^ 31" "n < N" "N = unat (sm_size msg)"
    and ex: "exchanged ph sent reply msg cs dummy s n ctrl s'"
  shows "\<exists>ctrl1 g. spi_trans_loop b dummy (sm_size msg) ctrl s' = spi_trans_loop b dummy (sm_size msg) ctrl1 (s'\<lparr>periph := g\<rparr>)
    \<and> ph g = Spi_shifting 0 \<and> sent g = sent (periph s) @ tx_chars (imem s) cs dummy (sm_txbuf msg) (Suc n)
    \<and> ctrl1 = \<lparr>tr_txbuf = advance (sm_txbuf msg) (char_width cs * Suc n), tr_rxbuf = advance (sm_rxbuf msg) (char_width cs * n),
         tr_txcnt = of_nat n + 1, tr_rxcnt = of_nat n, tr_char_size = cs\<rparr>"
proof -
  let ?w = "char_width cs" and ?ts = "tx_chars (imem s) cs dummy (sm_txbuf msg)"
  let ?loop = "spi_trans_loop b dummy (sm_size msg)"
  note f = exchange_facts [OF bufs N]
  have ctrl: "ctrl = \<lparr>tr_txbuf = advance (sm_txbuf msg) (?w * n), tr_rxbuf = advance (sm_rxbuf msg) (?w * n),
              tr_txcnt = of_nat n, tr_rxcnt = of_nat n, tr_char_size = cs\<rparr>"
    and idle: "ph (periph s') = Spi_idle" "sent (periph s') = sent (periph s) @ ?ts n"
    and mem: "imem s' = store (sm_rxbuf msg) (rx_bytes reply cs (sent (periph s)) (?ts n)) (imem s)"
    using ex by (simp_all add: exchanged_def Let_def)
  have ch: "next_char (imem s') cs dummy (advance (sm_txbuf msg) (?w * n))
      = next_char (imem s) cs dummy (advance (sm_txbuf msg) (?w * n))"
    unfolding mem by (rule next_char_store [OF bufs N(2)]) simp
  let ?ctrl1 = "\<lparr>tr_txbuf = advance (sm_txbuf msg) (?w * Suc n), tr_rxbuf = advance (sm_rxbuf msg) (?w * n),
         tr_txcnt = of_nat n + 1, tr_rxcnt = of_nat n, tr_char_size = cs\<rparr>"
  obtain h k where h: "spi_trans_step b dummy ctrl s' = (0, ?ctrl1, s'\<lparr>periph := h\<rparr>)" "ph h = Spi_shifting k"
      "sent h = sent (periph s) @ ?ts (Suc n)"
    using turn_sends [OF link idle(1), of ctrl dummy] idle(2) ch f(5) by (auto simp: ctrl tx_chars_Suc)
  have l1: "?loop ctrl s' = ?loop ?ctrl1 (s'\<lparr>periph := h\<rparr>)"
    using f(2) by (subst spi_trans_loop.simps, subst h(1)) simp
  have w: "\<not> tr_txcnt ?ctrl1 \<le> tr_rxcnt ?ctrl1" "\<not> sm_size msg \<le> tr_rxcnt ?ctrl1" "ph (periph (s'\<lparr>periph := h\<rparr>)) = Spi_shifting k"
    using f(1,2) h(2) by simp_all
  obtain g where "?loop ?ctrl1 (s'\<lparr>periph := h\<rparr>) = ?loop ?ctrl1 (s'\<lparr>periph := g\<rparr>)" "ph g = Spi_shifting 0" "sent g = sent h"
    using transfer_waits [OF link w(3,1,2), of dummy] by auto
  with l1 h(3) show ?thesis by auto
qed

lemma exchange_one:
  assumes link: "spi_link b ph sent reply" and bufs: "spi_buffers msg (char_width cs * N)"
    and N: "N < 2 ^ 31" "n < N" "N = unat (sm_size msg)"
    and ex: "exchanged ph sent reply msg cs dummy s n ctrl s'"
  shows "\<exists>ctrl' s''. exchanged ph sent reply msg cs dummy s (Suc n) ctrl' s''
    \<and> spi_trans_loop b dummy (sm_size msg) ctrl s' =
        (if Suc n = N then Some (int N, s'') else spi_trans_loop b dummy (sm_size msg) ctrl' s'')"
proof -
  let ?w = "char_width cs" and ?ts = "tx_chars (imem s) cs dummy (sm_txbuf msg)"
  let ?loop = "spi_trans_loop b dummy (sm_size msg)"
  note f = exchange_facts [OF bufs N]
  have mem: "imem s' = store (sm_rxbuf msg) (rx_bytes reply cs (sent (periph s)) (?ts n)) (imem s)"
    using ex by (simp add: exchanged_def Let_def)
  obtain ctrl1 g where g: "?loop ctrl s' = ?loop ctrl1 (s'\<lparr>periph := g\<rparr>)"
      "ph g = Spi_shifting 0" "sent g = sent (periph s) @ ?ts (Suc n)"
    and c1: "ctrl1 = \<lparr>tr_txbuf = advance (sm_txbuf msg) (?w * Suc n), tr_rxbuf = advance (sm_rxbuf msg) (?w * n),
         tr_txcnt = of_nat n + 1, tr_rxcnt = of_nat n, tr_char_size = cs\<rparr>"
    using exchange_sends [OF link bufs N ex] by blast
  let ?c2 = "\<lparr>tr_txbuf = advance (sm_txbuf msg) (?w * Suc n), tr_rxbuf = advance (sm_rxbuf msg) (?w * Suc n),
         tr_txcnt = of_nat n + 1, tr_rxcnt = of_nat n + 1, tr_char_size = cs\<rparr>"
  let ?m = "store (advance (sm_rxbuf msg) (?w * n)) (char_bytes cs (reply (sent g))) (imem s')"
  obtain h where h: "spi_trans_step b dummy ctrl1 (s'\<lparr>periph := g\<rparr>) = (0, ?c2, s'\<lparr>periph := h, imem := ?m\<rparr>)"
      "ph h = Spi_idle" "sent h = sent g"
    using turn_receives [OF link, of "s'\<lparr>periph := g\<rparr>" dummy ctrl1] g(2) f(6) by (auto simp: c1)
  have "?m = store (sm_rxbuf msg) (rx_bytes reply cs (sent (periph s)) (?ts (Suc n))) (imem s)"
    using store_append [of "sm_rxbuf msg" "rx_bytes reply cs (sent (periph s)) (?ts n)" "char_bytes cs (reply (sent g))" "imem s"]
      f(7) g(3) by (simp add: mem tx_chars_Suc rx_bytes_snoc)
  then have "exchanged ph sent reply msg cs dummy s (Suc n) ?c2 (s'\<lparr>periph := h, imem := ?m\<rparr>)"
    using h(2,3) g(3) by (simp add: exchanged_def Let_def add.commute)
  moreover have "?loop ctrl1 (s'\<lparr>periph := g\<rparr>)
      = (if Suc n = N then Some (int N, s'\<lparr>periph := h, imem := ?m\<rparr>) else ?loop ?c2 (s'\<lparr>periph := h, imem := ?m\<rparr>))"
    using f(3,4) by (subst spi_trans_loop.simps, subst h(1)) auto
  ultimately show ?thesis using g(1) by metis
qed

lemma exchange_all:
  assumes link: "spi_link b ph sent reply" and bufs: "spi_buffers msg (char_width cs * N)"
    and N: "N < 2 ^ 31" "N = unat (sm_size msg)"
  shows "n < N \<Longrightarrow> exchanged ph sent reply msg cs dummy s n ctrl s' \<Longrightarrow>
    \<exists>ctrl' s''. exchanged ph sent reply msg cs dummy s N ctrl' s''
      \<and> spi_trans_loop b dummy (sm_size msg) ctrl s' = Some (int N, s'')"
proof (induction "N - n" arbitrary: n ctrl s')
  case (Suc k)
  obtain ctrl1 s1 where one: "exchanged ph sent reply msg cs dummy s (Suc n) ctrl1 s1"
      "spi_trans_loop b dummy (sm_size msg) ctrl s' =
        (if Suc n = N then Some (int N, s1) else spi_trans_loop b dummy (sm_size msg) ctrl1 s1)"
    using exchange_one [OF link bufs N(1) Suc.prems(1) N(2) Suc.prems(2)] by blast
  show ?case
  proof (cases "Suc n = N")
    case True
    then show ?thesis using one by auto
  next
    case False
    then have "k = N - Suc n" "Suc n < N" using Suc.hyps(2) Suc.prems(1) by simp_all
    from Suc.hyps(1) [OF this one(1)] show ?thesis using one(2) False by auto
  qed
qed simp

lemma trans_starts:
  assumes link: "spi_link b ph sent reply" and "fst (rd b SYNCBUSY (periph s)) AND 7 = 0"
    and "fst (rd b CTRLA (periph s)) AND CTRLA_ENABLE \<noteq> 0"
  shows "spi_m_sync_trans b msg s =
    (case spi_trans_loop b (spi_dummy_byte s) (sm_size msg) \<lparr>tr_txbuf = sm_txbuf msg, tr_rxbuf = sm_rxbuf msg,
        tr_txcnt = 0, tr_rxcnt = 0, tr_char_size = spi_char_size s\<rparr> s of
       None \<Rightarrow> None | Some (rc, s) \<Rightarrow> map_option (Pair rc) (spi_wait_bus_idle b s))"
proof -
  obtain v w where r: "rd b SYNCBUSY (periph s) = (v, periph s)" "rd b CTRLA (periph s) = (w, periph s)"
    using spi_linkD(18,19) [OF link, of "periph s"] by (metis prod.collapse)
  have "(1 OR 2 OR 4 :: u32) = 7" by simp
  then show ?thesis
    using assms(2,3) by (simp add: spi_m_sync_trans_def spi_is_syncing_def reg_read_def r Let_def)
qed

text \<open>
  C37. The polled SPI transfer of \<open>n > 0\<close> characters of one or two bytes returns \<open>n\<close>,
  having sent the characters of the transmit buffer (or the dummy character, without a
  buffer) in order, each once the answer to the one before has been taken, and stored the
  answers in order in the receive buffer, if there is one, and nowhere else.
\<close>

theorem spi_transfer_exchanges:
  assumes "spi_link b ph sent reply" and "ph (periph s) = Spi_idle" and "fst (rd b SYNCBUSY (periph s)) AND 7 = 0"
    and "fst (rd b CTRLA (periph s)) AND CTRLA_ENABLE \<noteq> 0" and "n = unat (sm_size msg)" and "0 < n" "n < 2 ^ 31"
    and "spi_buffers msg (char_width (spi_char_size s) * n)"
    and "ts = tx_chars (imem s) (spi_char_size s) (spi_dummy_byte s) (sm_txbuf msg) n"
  shows "\<exists>s'. spi_m_sync_trans b msg s = Some (int n, s') \<and> sent (periph s') = sent (periph s) @ ts
    \<and> imem s' = store (sm_rxbuf msg) (rx_bytes reply (spi_char_size s) (sent (periph s)) ts) (imem s)
    \<and> ph (periph s') = Spi_idle"
proof -
  let ?ctrl = "\<lparr>tr_txbuf = sm_txbuf msg, tr_rxbuf = sm_rxbuf msg, tr_txcnt = 0, tr_rxcnt = 0, tr_char_size = spi_char_size s\<rparr>"
  have "exchanged ph sent reply msg (spi_char_size s) (spi_dummy_byte s) s 0 ?ctrl s"
    using assms(2) by (simp add: exchanged_def tx_chars_def rx_bytes_def)
  then obtain ctrl' s1 where ex: "exchanged ph sent reply msg (spi_char_size s) (spi_dummy_byte s) s n ctrl' s1"
      "spi_trans_loop b (spi_dummy_byte s) (sm_size msg) ?ctrl s = Some (int n, s1)"
    using exchange_all [OF assms(1,8,7,5,6)] by blast
  have s1: "ph (periph s1) = Spi_idle" "sent (periph s1) = sent (periph s) @ ts"
      "imem s1 = store (sm_rxbuf msg) (rx_bytes reply (spi_char_size s) (sent (periph s)) ts) (imem s)"
    using ex(1) assms(9) by (simp_all add: exchanged_def Let_def)
  obtain v h where r: "rd b INTFLAG (periph s1) = (v, h)" by (cases "rd b INTFLAG (periph s1)")
  note l = spi_linkD [OF assms(1), where h = "periph s1", unfolded r fst_conv snd_conv]
  have "v AND (SPI_TXC OR SPI_DRE) \<noteq> 0"
    using l(4) [OF s1(1)] by (metis and.assoc and_zero_eq bit.conj_disj_distrib or_eq_0_iff)
  then have "spi_wait_bus_idle b s1 = Some (reg_write b INTFLAG (SPI_TXC OR SPI_DRE) (s1\<lparr>periph := h\<rparr>))"
    by (subst spi_wait_bus_idle.simps) (simp add: reg_read_def r)
  then show ?thesis
    using trans_starts [OF assms(1,3,4), of msg] ex(2) s1 l(1) l(5) [OF s1(1)] spi_linkD(16,17) [OF assms(1)]
    by (auto simp: reg_write_def)
qed

lemma wait_while_shifting:
  assumes link: "spi_link b ph sent reply"
  shows "ph (periph s) = Spi_shifting n \<Longrightarrow> \<exists>s' k. spi_wait_bus_idle b s = Some s'
    \<and> ph (periph s') = Spi_shifting k \<and> sent (periph s') = sent (periph s) \<and> imem s' = imem s"
proof (induction n arbitrary: s)
  case (0 s)
  obtain v h where r: "rd b INTFLAG (periph s) = (v, h)" by (cases "rd b INTFLAG (periph s)")
  note l = spi_linkD [OF link, where h = "periph s", unfolded r fst_conv snd_conv]
  show ?case
    using l(1) l(9,10) [OF 0] spi_linkD(16,17) [OF link]
    by (subst spi_wait_bus_idle.simps) (simp add: reg_read_def reg_write_def r)
next
  case (Suc n s)
  obtain v h where r: "rd b INTFLAG (periph s) = (v, h)" by (cases "rd b INTFLAG (periph s)")
  note l = spi_linkD [OF link, where h = "periph s", unfolded r fst_conv snd_conv]
  have h: "ph (periph (s\<lparr>periph := h\<rparr>)) = Spi_shifting n" using l(7) [OF Suc.prems] by simp
  show ?case
  proof (cases "v AND (SPI_TXC OR SPI_DRE) = 0")
    case True
    then have "spi_wait_bus_idle b s = spi_wait_bus_idle b (s\<lparr>periph := h\<rparr>)"
      by (subst spi_wait_bus_idle.simps) (simp add: reg_read_def r)
    then show ?thesis using Suc.IH [OF h] l(1) by simp
  next
    case False
    then show ?thesis
      using h l(1) spi_linkD(16,17) [OF link]
      by (subst spi_wait_bus_idle.simps) (simp add: reg_read_def reg_write_def r)
  qed
qed

text \<open>
  A transfer of no characters sends one all the same and returns 1; it does not take the
  answer, which is left in the module for the next transfer.
\<close>

theorem spi_empty_transfer_sends:
  assumes "spi_link b ph sent reply" and "ph (periph s) = Spi_idle" and "fst (rd b SYNCBUSY (periph s)) AND 7 = 0"
    and "fst (rd b CTRLA (periph s)) AND CTRLA_ENABLE \<noteq> 0" and "sm_size msg = 0"
  shows "\<exists>s' n. spi_m_sync_trans b msg s = Some (1, s')
    \<and> sent (periph s') = sent (periph s) @ [next_char (imem s) (spi_char_size s) (spi_dummy_byte s) (sm_txbuf msg)]
    \<and> ph (periph s') = Spi_shifting n \<and> imem s' = imem s"
proof -
  let ?ctrl = "\<lparr>tr_txbuf = sm_txbuf msg, tr_rxbuf = sm_rxbuf msg, tr_txcnt = 0, tr_rxcnt = 0, tr_char_size = spi_char_size s\<rparr>"
  obtain h n where h: "spi_trans_step b (spi_dummy_byte s) ?ctrl s =
      (0, ?ctrl\<lparr>tr_txbuf := advance (sm_txbuf msg) (char_width (spi_char_size s)), tr_txcnt := 1\<rparr>, s\<lparr>periph := h\<rparr>)"
      "ph h = Spi_shifting n" "sent h = sent (periph s) @ [next_char (imem s) (spi_char_size s) (spi_dummy_byte s) (sm_txbuf msg)]"
    using turn_sends [OF assms(1,2), of ?ctrl "spi_dummy_byte s"] by auto
  have "spi_trans_loop b (spi_dummy_byte s) (sm_size msg) ?ctrl s = Some (1, s\<lparr>periph := h\<rparr>)"
    using assms(5) by (subst spi_trans_loop.simps) (simp add: h(1))
  then show ?thesis
    using trans_starts [OF assms(1,3,4), of msg] wait_while_shifting [OF assms(1), of "s\<lparr>periph := h\<rparr>" n] h(2,3) by auto
qed

subsection \<open>A module\<close>

fun echo_rd :: "sercom_reg \<Rightarrow> spi_phase \<times> u32 list \<Rightarrow> u32 \<times> spi_phase \<times> u32 list" where
  "echo_rd INTFLAG (Spi_idle, l) = (1, Spi_idle, l)"
| "echo_rd INTFLAG (Spi_shifting 0, l) = (7, Spi_shifting 0, l)"
| "echo_rd INTFLAG (Spi_shifting (Suc n), l) = (0, Spi_shifting n, l)"
| "echo_rd DATA (p, l) = (last l + 1, Spi_idle, l)"
| "echo_rd CTRLA h = (CTRLA_ENABLE, h)"
| "echo_rd r h = (0, h)"

definition echo_bus :: "(spi_phase \<times> u32 list) sercom_bus" where
  \<comment> \<open>the device answers each character with its successor\<close>
  "echo_bus = \<lparr>rd = echo_rd, wr = (\<lambda>r v h. if r = DATA then (Spi_shifting 2, snd h @ [v]) else h)\<rparr>"

lemma echo_rd_INTFLAG:
  "echo_rd INTFLAG h = (case fst h of Spi_idle \<Rightarrow> (1, h) | Spi_shifting 0 \<Rightarrow> (7, h) | Spi_shifting (Suc n) \<Rightarrow> (0, Spi_shifting n, snd h))"
  by (cases "(INTFLAG, h)" rule: echo_rd.cases) auto

lemma echo_link: "spi_link echo_bus fst snd (\<lambda>l. last l + 1)"
  unfolding spi_link_def
  by (auto simp: echo_bus_def echo_rd_INTFLAG split: spi_phase.split nat.split)

definition echo_spi :: "(spi_phase \<times> u32 list) spi_state" where
  "echo_spi = \<lparr>periph = (Spi_idle, []), imem = ucast, sercom_irq_on = False, sercom_irq_pending = False,
     spi_prvt = SERCOM0, spi_char_size = 1, spi_dummy_byte = 0x1FF\<rparr>"

lemma echo_ready:
  "fst (periph echo_spi) = Spi_idle" "fst (rd echo_bus SYNCBUSY (periph echo_spi)) AND 7 = 0"
  "fst (rd echo_bus CTRLA (periph echo_spi)) AND CTRLA_ENABLE \<noteq> 0"
  by (simp_all add: echo_spi_def echo_bus_def)

lemma spi_transfer_exchanges_witness:
  "\<exists>s'. spi_m_sync_trans echo_bus \<lparr>sm_txbuf = 0x20000140, sm_rxbuf = 0x20000140, sm_size = 2\<rparr> echo_spi = Some (2, s')
    \<and> snd (periph s') = [0x40, 0x41] \<and> bytes_at (imem s') 0x20000140 2 = [0x41, 0x42] \<and> imem s' 0x20000142 = 0x42"
proof -
  let ?m = "\<lparr>sm_txbuf = 0x20000140, sm_rxbuf = 0x20000140, sm_size = 2\<rparr>"
  have apart: "(0x20000140 :: u32) + of_nat j \<noteq> 0x20000140 + of_nat i" if "i < j" "j < 2" for i j :: nat
  proof -
    have "i = 0" "j = 1" using that by simp_all
    then show ?thesis by simp
  qed
  then have bufs: "spi_buffers ?m (char_width (spi_char_size echo_spi) * 2)"
    by (simp add: spi_buffers_def spi_buffer_def echo_spi_def char_width_def)
  have ts: "[0x40, 0x41] = tx_chars (imem echo_spi) (spi_char_size echo_spi) (spi_dummy_byte echo_spi) (sm_txbuf ?m) 2"
    by (simp add: tx_chars_def echo_spi_def next_char_def char_width_def advance_def upt_rec)
  have n: "2 = unat (sm_size ?m)" by simp
  obtain s' where s': "spi_m_sync_trans echo_bus ?m echo_spi = Some (int 2, s')"
      "snd (periph s') = snd (periph echo_spi) @ [0x40, 0x41]"
      "imem s' = store (sm_rxbuf ?m) (rx_bytes (\<lambda>l. last l + 1) (spi_char_size echo_spi) (snd (periph echo_spi)) [0x40, 0x41]) (imem echo_spi)"
    using spi_transfer_exchanges [OF echo_link echo_ready n _ _ bufs ts] by auto
  have e: "snd (periph echo_spi) = []" "spi_char_size echo_spi = 1" "imem echo_spi = ucast" "int 2 = 2"
      "rx_bytes (\<lambda>l. last l + 1) 1 [] [0x40, 0x41] = [0x41, 0x42]"
    by (simp_all add: echo_spi_def rx_bytes_def char_bytes_def upt_rec)
  note m = s'(3) [unfolded e spi_msg.select_convs]
  have "bytes_at (imem s') 0x20000140 2 = [0x41, 0x42]" "imem s' 0x20000142 = 0x42"
    unfolding m by (simp_all add: bytes_at_def upt_rec store_def)
  with s'(1,2) show ?thesis unfolding e by simp
qed

lemma spi_empty_transfer_sends_witness:
  "\<exists>s' n. spi_m_sync_trans echo_bus \<lparr>sm_txbuf = NULL, sm_rxbuf = NULL, sm_size = 0\<rparr> echo_spi = Some (1, s')
    \<and> periph s' = (Spi_shifting n, [0x1FF])"
proof -
  have e: "snd (periph echo_spi) = []" "spi_dummy_byte echo_spi = 0x1FF" by (simp_all add: echo_spi_def)
  show ?thesis
    using spi_empty_transfer_sends [OF echo_link echo_ready, of "\<lparr>sm_txbuf = NULL, sm_rxbuf = NULL, sm_size = 0\<rparr>"]
    by (simp add: e next_char_def prod_eq_iff) blast
qed

end
