(* ===== verification/Dlhdr.thy ===== *)
theory Dlhdr
  imports Prelude
begin

text \<open>
  \<open>linux/elf/symbols/dlhdr.c\<close>: a process lists the dynamic symbols of the objects loaded into it.

  The program reads its own memory through the pointers it finds there; what is at an
  address (\<open>elf_mem\<close>: entries of a dynamic section, of a symbol table, strings) and the
  answers of \<open>dlsym\<close> are parameters.  Sizes are those of 64-bit ELF: 16 bytes for a dynamic
  entry, 24 for a symbol.  What the program prints is a list of events.  \<open>malloc\<close> is taken to
  succeed.
\<close>

type_synonym u64 = "64 word"

record dl_phdr =
  p_type :: u32
  p_vaddr :: u64
  p_memsz :: u64

record dl_phdr_info =
  dlpi_addr :: u64
  dlpi_name :: string
  dlpi_phdr :: "dl_phdr list"

record elf_dyn =
  d_tag :: u64
  d_ptr :: u64

record elf_sym =
  st_name :: u32
  st_shndx :: u16
  st_value :: u64

record elf_mem =
  dyn_at :: "u64 \<Rightarrow> nat \<Rightarrow> elf_dyn"
  sym_at :: "u64 \<Rightarrow> nat \<Rightarrow> elf_sym"
  str_at :: "u64 \<Rightarrow> string"

record sym_entry =
  se_name :: string
  se_ptr :: u64

datatype dl_event =
    Ev_object u64 string
  | Ev_phdr nat string
  | Ev_tables u64 u64 u64
  | Ev_entry string u16 u64
  | Ev_symbol u64 string
  | Ev_dupe string u64 u64
  | Ev_mismatch string u64 u64

text \<open>The list from \<open>sym_head\<close> on, and what has been printed, oldest first.\<close>

record dl_state =
  sym_head :: "sym_entry list"
  dl_out :: "dl_event list"

definition emit :: "dl_event \<Rightarrow> dl_state \<Rightarrow> dl_state" where
  "emit e s = s\<lparr>dl_out := dl_out s @ [e]\<rparr>"

definition pt_type_str :: "u32 \<Rightarrow> string" where
  "pt_type_str type =
     (if type = 0 then ''NULL'' else if type = 1 then ''LOAD'' else if type = 2 then ''DYNAMIC''
      else if type = 3 then ''INTERP'' else if type = 4 then ''NOTE'' else if type = 5 then ''SHLIB''
      else if type = 6 then ''PHDR'' else ''UNKNOWN'')"

subsection \<open>Symbols\<close>

fun report_dupes :: "string \<Rightarrow> u64 \<Rightarrow> sym_entry list \<Rightarrow> dl_state \<Rightarrow> dl_state" where
  "report_dupes name p [] s = s"
| "report_dupes name p (e # es) s =
     report_dupes name p es (if name = se_name e then emit (Ev_dupe name (se_ptr e) p) s else s)"

definition add_symbol :: "string \<Rightarrow> u64 \<Rightarrow> dl_state \<Rightarrow> dl_state" where
  "add_symbol name p s =
     (let s = report_dupes name p (sym_head s) s
      in s\<lparr>sym_head := \<lparr>se_name = name, se_ptr = p\<rparr> # sym_head s\<rparr>)"

definition parse_symbol :: "elf_mem \<Rightarrow> (string \<Rightarrow> u64) \<Rightarrow> u64 \<Rightarrow> u64 \<Rightarrow> elf_sym \<Rightarrow> dl_state \<Rightarrow> dl_state" where
  \<comment> \<open>one turn of the loop\<close>
  "parse_symbol em dlsym strtab base_addr entry s =
     (let shndx = st_shndx entry; addr = st_value entry;
          name = str_at em (strtab + ucast (st_name entry));
          s = emit (Ev_entry name shndx addr) s
      in if shndx = 0 \<or> 0xFF00 \<le> shndx then s
         else
           (let sym_addr = base_addr + addr;
                s = emit (Ev_symbol sym_addr name) s;
                s = add_symbol name sym_addr s;
                rtld_sym = dlsym name
            in if rtld_sym \<noteq> sym_addr then emit (Ev_mismatch name sym_addr rtld_sym) s else s))"

definition n_syms :: "u64 \<Rightarrow> int" where
  \<comment> \<open>the quotient of the 64-bit size, converted to \<open>int\<close>\<close>
  "n_syms symtab_sz = sint (ucast (symtab_sz div 24) :: u32)"

definition parse_symbol_table ::
    "elf_mem \<Rightarrow> (string \<Rightarrow> u64) \<Rightarrow> u64 \<Rightarrow> u64 \<Rightarrow> u64 \<Rightarrow> u64 \<Rightarrow> dl_state \<Rightarrow> rc \<times> dl_state" where
  "parse_symbol_table em dlsym symtab symtab_sz strtab base_addr s =
     (0, fold (parse_symbol em dlsym strtab base_addr) (map (sym_at em symtab) [0..<nat (n_syms symtab_sz)]) s)"

subsection \<open>The dynamic section\<close>

definition int_tag :: "elf_dyn \<Rightarrow> int" where
  "int_tag d = sint (ucast (d_tag d) :: u32)"

fun find_tables :: "elf_dyn list \<Rightarrow> u64 \<Rightarrow> u64 \<Rightarrow> u64 \<times> u64" where
  \<comment> \<open>the first loop: \<open>symtab\<close> and \<open>strtab\<close>\<close>
  "find_tables [] symtab strtab = (symtab, strtab)"
| "find_tables (d # ds) symtab strtab =
     (if int_tag d = 6 then find_tables ds (d_ptr d) strtab
      else if int_tag d = 5 then find_tables ds symtab (d_ptr d)
      else find_tables ds symtab strtab)"

definition is_table_tag :: "int \<Rightarrow> bool" where
  \<comment> \<open>PLTGOT, HASH, STRTAB, RELA, INIT, FINI, REL, DEBUG, JMPREL, INIT_ARRAY, FINI_ARRAY\<close>
  "is_table_tag tag \<longleftrightarrow> tag = 3 \<or> tag = 4 \<or> tag = 5 \<or> tag = 7 \<or> tag = 12 \<or> tag = 13 \<or> tag = 17
     \<or> tag = 21 \<or> tag = 23 \<or> tag = 25 \<or> tag = 26"

fun find_end :: "u64 \<Rightarrow> elf_dyn list \<Rightarrow> u64 \<Rightarrow> u64" where
  \<comment> \<open>the second loop: \<open>symtab_end\<close>\<close>
  "find_end symtab [] symtab_end = symtab_end"
| "find_end symtab (d # ds) symtab_end =
     (if is_table_tag (int_tag d) then
        (let p = d_ptr d in
         if p < symtab then find_end symtab ds symtab_end
         else if symtab_end \<noteq> 0 \<and> symtab_end < p then find_end symtab ds symtab_end
         else find_end symtab ds p)
      else find_end symtab ds symtab_end)"

definition dyn_items :: "u64 \<Rightarrow> int" where
  "dyn_items memsz = sint (ucast (memsz div 16) :: u32)"

definition parse_dynamic_section ::
    "elf_mem \<Rightarrow> (string \<Rightarrow> u64) \<Rightarrow> dl_phdr \<Rightarrow> u64 \<Rightarrow> u64 \<Rightarrow> dl_state \<Rightarrow> rc \<times> dl_state" where
  "parse_dynamic_section em dlsym sect section_vaddr base_addr s =
     (let items = map (dyn_at em section_vaddr) [0..<nat (dyn_items (p_memsz sect))];
          (symtab, strtab) = find_tables items 0 0
      in if symtab = 0 \<or> symtab < 0x1000 then (1, s)
         else
           (let symtab_end = find_end symtab items 0;
                s = emit (Ev_tables symtab symtab_end strtab) s;
                (rc, s) = parse_symbol_table em dlsym symtab (symtab_end - symtab) strtab base_addr s
            in (0, s)))"

subsection \<open>Loaded objects\<close>

fun phdr_loop :: "elf_mem \<Rightarrow> (string \<Rightarrow> u64) \<Rightarrow> u64 \<Rightarrow> nat \<Rightarrow> dl_phdr list \<Rightarrow> dl_state \<Rightarrow> dl_state" where
  "phdr_loop em dlsym base hdr [] s = s"
| "phdr_loop em dlsym base hdr (h # hs) s =
     (let s = emit (Ev_phdr hdr (pt_type_str (p_type h))) s;
          s = (if p_type h = 2 then snd (parse_dynamic_section em dlsym h (base + p_vaddr h) base s) else s)
      in phdr_loop em dlsym base (Suc hdr) hs s)"

definition phdr_callback :: "elf_mem \<Rightarrow> (string \<Rightarrow> u64) \<Rightarrow> dl_phdr_info \<Rightarrow> dl_state \<Rightarrow> rc \<times> dl_state" where
  "phdr_callback em dlsym info s =
     (let s = emit (Ev_object (dlpi_addr info) (dlpi_name info)) s
      in (0, phdr_loop em dlsym (dlpi_addr info) 0 (dlpi_phdr info) s))"

fun dl_iterate :: "(dl_phdr_info \<Rightarrow> dl_state \<Rightarrow> rc \<times> dl_state) \<Rightarrow> dl_phdr_info list \<Rightarrow> dl_state \<Rightarrow> dl_state" where
  \<comment> \<open>\<open>dl_iterate_phdr\<close>: the callback for each loaded object, until it returns another value than 0\<close>
  "dl_iterate cb [] s = s"
| "dl_iterate cb (i # is) s = (case cb i s of (rc, s) \<Rightarrow> if rc \<noteq> 0 then s else dl_iterate cb is s)"

definition dlhdr_main :: "elf_mem \<Rightarrow> (string \<Rightarrow> u64) \<Rightarrow> dl_phdr_info list \<Rightarrow> dl_state" where
  "dlhdr_main em dlsym objects = dl_iterate (phdr_callback em dlsym) objects \<lparr>sym_head = [], dl_out = []\<rparr>"

subsection \<open>The symbols that are listed\<close>

definition symbol_defined :: "elf_sym \<Rightarrow> bool" where
  "symbol_defined e \<longleftrightarrow> st_shndx e \<noteq> 0 \<and> st_shndx e < 0xFF00"

definition entry_of :: "elf_mem \<Rightarrow> u64 \<Rightarrow> u64 \<Rightarrow> elf_sym \<Rightarrow> sym_entry" where
  "entry_of em strtab base e = \<lparr>se_name = str_at em (strtab + ucast (st_name e)), se_ptr = base + st_value e\<rparr>"

lemma sym_head_emit [simp]: "sym_head (emit e s) = sym_head s"
  by (simp add: emit_def)

lemma sym_head_dupes [simp]: "sym_head (report_dupes name p es s) = sym_head s"
  by (induction name p es s rule: report_dupes.induct) simp_all

lemma parse_symbol_head:
  "sym_head (parse_symbol em dlsym strtab base e s)
    = (if symbol_defined e then entry_of em strtab base e # sym_head s else sym_head s)"
  by (auto simp: parse_symbol_def Let_def add_symbol_def symbol_defined_def entry_of_def)

lemma parse_symbols_head:
  "sym_head (fold (parse_symbol em dlsym strtab base) es s)
    = rev (map (entry_of em strtab base) (filter symbol_defined es)) @ sym_head s"
  by (induction es arbitrary: s) (simp_all add: parse_symbol_head)

definition table_starts :: "u64 \<Rightarrow> elf_dyn list \<Rightarrow> u64 set" where
  \<comment> \<open>where the tables start that do not lie below the symbols\<close>
  "table_starts symtab ds = d_ptr ` {d \<in> set ds. is_table_tag (int_tag d) \<and> symtab \<le> d_ptr d}"

lemma table_starts_Cons:
  "table_starts symtab (d # ds) =
     (if is_table_tag (int_tag d) \<and> symtab \<le> d_ptr d then insert (d_ptr d) (table_starts symtab ds) else table_starts symtab ds)"
  by (auto simp: table_starts_def)

lemma find_end_from:
  "e \<noteq> 0 \<Longrightarrow> 0 < symtab \<Longrightarrow> find_end symtab ds e = Min (insert e (table_starts symtab ds))"
proof (induction symtab ds e rule: find_end.induct)
  case (1 symtab symtab_end)
  then show ?case by (simp add: table_starts_def)
next
  case (2 symtab d ds e)
  have fin: "finite (table_starts symtab ds)" by (simp add: table_starts_def)
  let ?p = "d_ptr d"
  show ?case
  proof (cases "is_table_tag (int_tag d) \<and> symtab \<le> ?p")
    case True
    show ?thesis
    proof (cases "e < ?p")
      case lt: True
      have "Min (insert e (insert ?p (table_starts symtab ds))) = Min (insert e (table_starts symtab ds))"
        using lt fin by (cases "table_starts symtab ds = {}") (auto simp: min_def)
      then show ?thesis using True lt "2.IH"(2) "2.prems" by (simp add: table_starts_Cons Let_def not_less)
    next
      case False
      then have "?p \<noteq> 0" using True "2.prems"(2) by auto
      then have "find_end symtab ds ?p = Min (insert ?p (table_starts symtab ds))"
        using True False "2.IH"(3) "2.prems"(2) by (simp add: not_less)
      moreover have "Min (insert e (insert ?p (table_starts symtab ds))) = Min (insert ?p (table_starts symtab ds))"
        using False fin by (cases "table_starts symtab ds = {}") (auto simp: min_def)
      ultimately show ?thesis using True False by (auto simp: table_starts_Cons Let_def)
    qed
  next
    case False
    then show ?thesis using "2.IH"(1,4) "2.prems" by (auto simp: table_starts_Cons Let_def not_less)
  qed
qed

lemma find_end_spec:
  "0 < symtab \<Longrightarrow> find_end symtab ds 0 = (if table_starts symtab ds = {} then 0 else Min (table_starts symtab ds))"
proof (induction ds)
  case Nil
  then show ?case by (simp add: table_starts_def)
next
  case (Cons d ds)
  have "d_ptr d \<noteq> 0" if "symtab \<le> d_ptr d" using that Cons.prems by auto
  then show ?case
    using Cons find_end_from [of "d_ptr d" symtab ds] by (auto simp: table_starts_Cons Let_def not_less)
qed


definition sample_elf :: elf_mem where
  \<comment> \<open>a symbol table of three entries, one of them defined, followed by the string table\<close>
  "sample_elf = \<lparr>dyn_at = (\<lambda>_ i. if i = 0 then \<lparr>d_tag = 6, d_ptr = 0x4000\<rparr> else \<lparr>d_tag = 5, d_ptr = 0x4048\<rparr>),
     sym_at = (\<lambda>_ i. \<lparr>st_name = 1, st_shndx = (if i = 0 then 0 else if i = 1 then 5 else 0xFFF1), st_value = 0x10\<rparr>),
     str_at = (\<lambda>a. if a = 0x4049 then ''f'' else '''')\<rparr>"


text \<open>
  Without a table after the symbols the end is the null pointer: the size is the
  negated address, and the number of symbols whatever its quotient leaves in 32 bits: for a
  shared library at a usual address more than a thousand million entries, past the end of
  the library, for a program that is not relocated none.
\<close>

lemma no_end_size: "find_end symtab [] 0 = 0" "n_syms (0 - 0x7FFFF7A00398) = 1437510276" "n_syms (0 - 0x400398) = - 1431830567"
  by (simp_all add: n_syms_def)

end
