(* ===== verification/LinuxTools.thy ===== *)
theory LinuxTools
  imports Prelude
begin

text \<open>
  Three small Linux programs: \<open>docker/wrtbuilder/fixperms.c\<close>, which runs \<open>chown\<close> on its arguments,
  \<open>shellcode/runners/linux.c\<close>, which reads code into memory and runs it, and
  \<open>docker/vuln_boxes/trans2open/smbd_wrapper.c\<close>, which starts a server without address randomisation.  What the system calls
  answer is a parameter; what the programs ask of the system is recorded.
\<close>

subsection \<open>fixperms\<close>

text \<open>The flags, and what was printed to standard error and passed to \<open>system\<close>, oldest first.\<close>

record fix_state =
  verbose :: bool
  dryrun :: bool
  fix_err :: "string list"
  fix_run :: "string list"

definition snprintf_buf :: "string \<Rightarrow> string" where
  \<comment> \<open>\<open>snprintf\<close> into the 2048 bytes of \<open>buf\<close>\<close>
  "snprintf_buf text = take 2047 text"

fun fixperms_loop :: "(string \<Rightarrow> string) \<Rightarrow> string list \<Rightarrow> fix_state \<Rightarrow> fix_state" where
  \<comment> \<open>\<open>command\<close> formats \<open>chown -R uid:gid argument\<close>\<close>
  "fixperms_loop command [] s = s"
| "fixperms_loop command (arg # args) s =
     (if arg = ''-v'' then fixperms_loop command args (s\<lparr>verbose := True\<rparr>)
      else if arg = ''-d'' then fixperms_loop command args (s\<lparr>dryrun := True\<rparr>)
      else
        (let buf = snprintf_buf (command arg);
             s = (if verbose s \<or> dryrun s then s\<lparr>fix_err := fix_err s @ [buf @ [CHR 10]]\<rparr> else s);
             s = (if \<not> dryrun s then s\<lparr>fix_run := fix_run s @ [buf]\<rparr> else s)
         in fixperms_loop command args s))"

definition show_d :: "u32 \<Rightarrow> string" where
  \<comment> \<open>\<open>%d\<close> of an unsigned identifier\<close>
  "show_d v = (let i = sint v in if i < 0 then CHR ''-'' # dec (nat (- i)) else dec (nat i))"

definition chown_command :: "u32 \<Rightarrow> u32 \<Rightarrow> string \<Rightarrow> string" where
  "chown_command uid gid arg = ''chown -R '' @ show_d uid @ '':'' @ show_d gid @ '' '' @ arg"

definition fixperms_main ::
    "u32 \<Rightarrow> u32 \<Rightarrow> bool \<Rightarrow> bool \<Rightarrow> string \<Rightarrow> string list \<Rightarrow> int \<times> fix_state" where
  \<comment> \<open>\<open>uid\<close>, \<open>gid\<close> of the caller, whether \<open>setresuid\<close> and \<open>setresgid\<close> succeed, \<open>argv[0]\<close> and the rest\<close>
  "fixperms_main uid gid setuid_ok setgid_ok name args =
     (let s = \<lparr>verbose = False, dryrun = False, fix_err = [], fix_run = []\<rparr> in
      if args = [] then (1, s\<lparr>fix_err := [''Usage: '' @ name @ '' [-v] [-d] <path>'' @ [CHR 10]]\<rparr>)
      else if \<not> setuid_ok then (1, s\<lparr>fix_err := [''setresuid'']\<rparr>)
      else if \<not> setgid_ok then (1, s\<lparr>fix_err := [''setresgid'']\<rparr>)
      else (0, fixperms_loop (chown_command uid gid) args s))"

lemma fixperms_loop_run:
  "fix_run (fixperms_loop command args s) = fix_run s
    @ (if dryrun s then [] else map (\<lambda>a. snprintf_buf (command a)) (filter (\<lambda>a. a \<noteq> ''-v'') (takeWhile (\<lambda>a. a \<noteq> ''-d'') args)))"
  by (induction command args s rule: fixperms_loop.induct) (auto simp: Let_def)

text \<open>
  C39. What \<open>fixperms\<close> runs: one command for each argument before the first \<open>-d\<close> that is
  not \<open>-v\<close>, cut off after 2047 characters; a \<open>-d\<close> at the end of the line keeps nothing from
  being run.
\<close>

theorem fixperms_runs:
  "fix_run (snd (fixperms_main uid gid setuid_ok setgid_ok name args)) =
     (if setuid_ok \<and> setgid_ok
      then map (\<lambda>a. take 2047 (chown_command uid gid a)) (filter (\<lambda>a. a \<noteq> ''-v'') (takeWhile (\<lambda>a. a \<noteq> ''-d'') args))
      else [])"
  by (simp add: fixperms_main_def fixperms_loop_run snprintf_buf_def Let_def)

lemma show_d_0: "show_d 0 = ''0''"
  by code_simp

lemma long_path_cut:
  \<comment> \<open>a long path is cut off, so that another one is changed\<close>
  "fix_run (snd (fixperms_main 0 0 True True name [replicate 2040 CHR ''/'' ]))
    = [''chown -R 0:0 '' @ replicate 2034 CHR ''/'']"
proof -
  have "replicate 2040 CHR ''/'' \<noteq> a" if "length a = 2" for a using that by auto
  then have "replicate 2040 CHR ''/'' \<noteq> ''-v''" "replicate 2040 CHR ''/'' \<noteq> ''-d''" by simp_all
  then show ?thesis by (simp add: fixperms_loop_run fixperms_main_def snprintf_buf_def chown_command_def show_d_0)
qed

lemma big_uid_is_negative: "chown_command 0xFFFFFFFE 100 ''f'' = ''chown -R -2:100 f''"
  by code_simp

subsection \<open>The runner\<close>

definition SC_LENGTH :: nat where "SC_LENGTH = 1024 * 1024"

partial_function (option) read_loop ::
    "(nat \<Rightarrow> 'f \<Rightarrow> int \<times> u8 list \<times> 'f) \<Rightarrow> nat \<Rightarrow> u8 list \<Rightarrow> 'f \<Rightarrow> (u8 list \<times> 'f) option" where
  \<comment> \<open>\<open>code\<close>: the \<open>total\<close> bytes read so far; \<open>sys_read n\<close> returns the count and the bytes it stored\<close>
  "read_loop sys_read cnt code f =
     (case sys_read (SC_LENGTH - cnt) f of
        (r, bytes, f) \<Rightarrow>
          if r \<le> 0 then Some (code, f) else read_loop sys_read (cnt + nat r) (code @ bytes) f)"

datatype run_result = Sc_failed | Sc_runs "u8 list"

definition sc_main :: "bool \<Rightarrow> 'f option \<Rightarrow> (nat \<Rightarrow> 'f \<Rightarrow> int \<times> u8 list \<times> 'f) \<Rightarrow> run_result option" where
  \<comment> \<open>whether \<open>mmap\<close> succeeds, and the input if it could be opened; the bytes after the code are zero\<close>
  "sc_main mapped input sys_read =
     (if \<not> mapped then Some Sc_failed
      else case input of
             None \<Rightarrow> Some Sc_failed
           | Some f \<Rightarrow>
               (case read_loop sys_read 0 [] f of
                  None \<Rightarrow> None
                | Some (code, _) \<Rightarrow> Some (if code = [] then Sc_failed else Sc_runs code)))"

definition reads_stream :: "(nat \<Rightarrow> 'f \<Rightarrow> int \<times> u8 list \<times> 'f) \<Rightarrow> ('f \<Rightarrow> u8 list) \<Rightarrow> bool" where
  \<comment> \<open>\<open>read\<close> on a file that does not fail: some of the bytes that are left, at least one if there is
      one and room for it\<close>
  "reads_stream sys_read rest \<longleftrightarrow>
     (\<forall>n f r bytes f'. sys_read n f = (r, bytes, f') \<longrightarrow>
        0 \<le> r \<and> nat r \<le> n \<and> bytes = take (nat r) (rest f) \<and> length bytes = nat r \<and> rest f' = drop (nat r) (rest f)
        \<and> (r = 0 \<longrightarrow> n = 0 \<or> rest f = []))"

lemma read_loop_all:
  assumes "reads_stream sys_read rest"
  shows "cnt \<le> SC_LENGTH \<Longrightarrow> length code = cnt \<Longrightarrow>
    \<exists>f'. read_loop sys_read cnt code f = Some (code @ take (SC_LENGTH - cnt) (rest f), f')"
proof (induction "SC_LENGTH - cnt" arbitrary: cnt code f rule: less_induct)
  case less
  obtain r bytes f1 where r: "sys_read (SC_LENGTH - cnt) f = (r, bytes, f1)" by (cases "sys_read (SC_LENGTH - cnt) f")
  then have k: "0 \<le> r" "nat r \<le> SC_LENGTH - cnt" "bytes = take (nat r) (rest f)" "length bytes = nat r"
      "rest f1 = drop (nat r) (rest f)" "r = 0 \<longrightarrow> SC_LENGTH - cnt = 0 \<or> rest f = []"
    using assms unfolding reads_stream_def by blast+
  show ?case
  proof (cases "r \<le> 0")
    case True
    then have "take (SC_LENGTH - cnt) (rest f) = []" using k(1,6) by auto
    then show ?thesis using True r by (subst read_loop.simps) simp
  next
    case False
    then have lt: "SC_LENGTH - (cnt + nat r) < SC_LENGTH - cnt" using k(2) by linarith
    have "\<exists>f'. read_loop sys_read (cnt + nat r) (code @ bytes) f1
        = Some ((code @ bytes) @ take (SC_LENGTH - (cnt + nat r)) (rest f1), f')"
      by (rule less.hyps [OF lt]) (use k(2,4) less.prems in simp_all)
    moreover have "bytes @ take (SC_LENGTH - (cnt + nat r)) (rest f1) = take (SC_LENGTH - cnt) (rest f)"
      using k(2,3,5) by (metis add_diff_inverse_nat diff_diff_left not_less take_add)
    ultimately show ?thesis using False r by (subst read_loop.simps) auto
  qed
qed

text \<open>
  However the input arrives, the runner ends up running its first mebibyte, or all of it if
  it is shorter; with no input it gives up.
\<close>

theorem runner_loads_input:
  assumes "reads_stream sys_read rest"
  shows "sc_main True (Some f) sys_read = Some (if rest f = [] then Sc_failed else Sc_runs (take 1048576 (rest f)))"
proof -
  obtain f' where "read_loop sys_read 0 [] f = Some (take SC_LENGTH (rest f), f')"
    using read_loop_all [OF assms, of 0 "[]" f] by auto
  then show ?thesis by (simp add: sc_main_def SC_LENGTH_def)
qed

definition read_short :: "nat \<Rightarrow> u8 list \<Rightarrow> int \<times> u8 list \<times> u8 list" where
  \<comment> \<open>a pipe that delivers at most two bytes at a time\<close>
  "read_short n f = (let k = min (min 2 n) (length f) in (int k, take k f, drop k f))"

lemma runner_loads_input_witness:
  "sc_main True (Some [0x31, 0xC0, 0xC3]) read_short = Some (Sc_runs [0x31, 0xC0, 0xC3])"
proof -
  have "reads_stream read_short (\<lambda>f. f)" by (auto simp: reads_stream_def read_short_def Let_def min_def split: if_splits)
  from runner_loads_input [OF this] show ?thesis by simp
qed

subsection \<open>smbd_wrapper\<close>

datatype smbd_outcome =
  Smbd_exit int
| Smbd_server u32  \<comment> \<open>the process is the server, with this personality\<close>
| Smbd_sleep  \<comment> \<open>sleeps for ever\<close>

definition ADDR_NO_RANDOMIZE :: u32 where "ADDR_NO_RANDOMIZE = 0x40000"
definition PER_LINUX32_3GB :: u32 where "PER_LINUX32_3GB = 0x8000008"

definition smbd_main :: "int \<Rightarrow> (u32 \<Rightarrow> int) \<Rightarrow> bool \<Rightarrow> smbd_outcome" where
  \<comment> \<open>the answers of \<open>fork\<close> and \<open>personality\<close>, and whether \<open>execv\<close> succeeds; messages are left out\<close>
  "smbd_main child_pid personality exec_ok =
     (if child_pid = -1 then Smbd_exit 1
      else if child_pid = 0 then
        (let p = ADDR_NO_RANDOMIZE OR PER_LINUX32_3GB; pers = personality p in
         if pers = -1 then Smbd_exit 1
         else if exec_ok then Smbd_server p else Smbd_exit 1)
      else Smbd_sleep)"

text \<open>The server never runs with randomised addresses, and the parent never ends.\<close>

lemma smbd_server_not_randomised: "smbd_main child pers ok = Smbd_server p \<Longrightarrow> child = 0 \<and> p AND ADDR_NO_RANDOMIZE \<noteq> 0"
  by (auto simp: smbd_main_def ADDR_NO_RANDOMIZE_def PER_LINUX32_3GB_def Let_def split: if_splits)

end
