(* ===== verification/Ieee.thy ===== *)
theory Ieee
  imports Prelude Complex_Main
begin

text \<open>
  The arithmetic of C's \<open>float\<close> and \<open>double\<close>, as far as the sources use it: IEEE 754 binary32 and
  binary64 in the default rounding mode, on numbers within the range of the formats, as rational
  numbers.  The result of an operation is the exact result rounded to 24 or 53 significant bits,
  ties to even.
\<close>

subsection \<open>Rounding\<close>

fun bit_count :: "nat \<Rightarrow> nat" where
  "bit_count n = (if n = 0 then 0 else Suc (bit_count (n div 2)))"

declare bit_count.simps [simp del]

lemma bit_count_bounds: "n < 2 ^ bit_count n \<and> (0 < n \<longrightarrow> 2 ^ bit_count n \<le> 2 * n)"
proof (induction n rule: bit_count.induct)
  case (1 n)
  show ?case
  proof (cases "n = 0")
    case True
    then show ?thesis by (simp add: bit_count.simps)
  next
    case False
    then have step: "bit_count n = Suc (bit_count (n div 2))" by (subst bit_count.simps) simp
    have ih: "n div 2 < 2 ^ bit_count (n div 2)" "0 < n div 2 \<longrightarrow> 2 ^ bit_count (n div 2) \<le> 2 * (n div 2)"
      using 1 False by auto
    show ?thesis
    proof (cases "n = 1")
      case True
      moreover have "bit_count 1 = 1" by (simp add: bit_count.simps [of 1] bit_count.simps [of 0] del: One_nat_def)
      ultimately show ?thesis by (simp only:) simp
    next
      case False
      with \<open>n \<noteq> 0\<close> have "0 < n div 2" by auto
      with ih show ?thesis unfolding step by auto
    qed
  qed
qed

definition round_even :: "rat \<Rightarrow> int" where
  \<comment> \<open>to the nearest integer, ties to the even one\<close>
  "round_even y =
     (let n = \<lfloor>y\<rfloor>; d = y - of_int n in
      if d < 1 / 2 then n else if 1 / 2 < d then n + 1 else if even n then n else n + 1)"

lemma round_even_error: "\<bar>of_int (round_even y) - y\<bar> \<le> 1 / 2"
proof -
  have "of_int \<lfloor>y\<rfloor> \<le> y" "y < of_int \<lfloor>y\<rfloor> + 1" using floor_correct [of y] by simp_all
  then show ?thesis by (auto simp: round_even_def Let_def abs_le_iff; linarith)
qed

lemma round_even_int [simp]: "round_even (of_int k) = k"
  by (simp add: round_even_def)

definition fp_exp :: "nat \<Rightarrow> rat \<Rightarrow> int" where
  \<comment> \<open>the exponent with which a number other than 0 has a \<open>p\<close>-bit significand\<close>
  "fp_exp p x =
     (case quotient_of \<bar>x\<bar> of
        (a, b) \<Rightarrow>
          (let e = int (bit_count (nat a)) - int (bit_count (nat b)) - int p
           in if 2 ^ p \<le> \<bar>x\<bar> / 2 powi e then e + 1 else e))"

lemma bit_count_rat:
  assumes "0 < a"
  shows "of_int a < (2 :: rat) ^ bit_count (nat a)" "(2 :: rat) ^ bit_count (nat a) \<le> 2 * of_int a"
proof -
  have "nat a < 2 ^ bit_count (nat a)" "2 ^ bit_count (nat a) \<le> 2 * nat a"
    using bit_count_bounds [of "nat a"] assms by auto
  then show "of_int a < (2 :: rat) ^ bit_count (nat a)" "(2 :: rat) ^ bit_count (nat a) \<le> 2 * of_int a"
    using assms by (simp_all add: of_nat_less_iff [where 'a=rat, symmetric] of_nat_le_iff [where 'a=rat, symmetric] del: of_nat_less_iff of_nat_le_iff)
qed

lemma fp_exp_bounds:
  assumes "x \<noteq> 0" and p: "p = Suc q"
  shows "2 ^ q \<le> \<bar>x\<bar> / 2 powi fp_exp p x" "\<bar>x\<bar> / 2 powi fp_exp p x < 2 ^ p"
proof -
  obtain a b where q: "quotient_of \<bar>x\<bar> = (a, b)" by fastforce
  have b: "0 < b" using quotient_of_denom_pos [OF q] .
  have x: "\<bar>x\<bar> = of_int a / of_int b" using quotient_of_div [OF q] .
  have "0 < of_int a / (of_int b :: rat)" using assms(1) x by (metis zero_less_abs_iff)
  then have a: "0 < a" using b by (simp add: zero_less_divide_iff)
  let ?m = "bit_count (nat a)" and ?n = "bit_count (nat b)"
  let ?e = "int ?m - int ?n - int p"
  note ra = bit_count_rat [OF a] and rb = bit_count_rat [OF b]
  have y: "\<bar>x\<bar> / 2 powi ?e = of_int a * (2 ^ ?n * 2 ^ p) / (of_int b * 2 ^ ?m)"
    by (simp add: x power_int_diff power_int_add field_simps)
  have pos: "0 < (of_int b :: rat)" "(0 :: rat) < 2 ^ ?m" using b by simp_all
  have "2 ^ ?m * of_int b \<le> 2 * of_int a * (2 :: rat) ^ ?n"
    using ra rb a b by (intro mult_mono) auto
  then have "2 ^ q * (2 ^ ?m * of_int b) \<le> 2 ^ q * (2 * of_int a * (2 :: rat) ^ ?n)" by (rule mult_left_mono) simp
  then have low: "2 ^ q \<le> \<bar>x\<bar> / 2 powi ?e"
    unfolding y using pos by (simp add: p pos_le_divide_eq mult_ac)
  have "of_int a * (2 :: rat) ^ ?n < 2 ^ ?m * (2 * of_int b)"
    using less_le_trans [OF mult_strict_right_mono [OF ra(1)] mult_left_mono [OF rb(2)]] by (simp del: of_int_less_numeral_power_cancel_iff)
  then have "2 ^ p * (of_int a * (2 :: rat) ^ ?n) < 2 ^ p * (2 ^ ?m * (2 * of_int b))" by (rule mult_strict_left_mono) simp
  then have high: "\<bar>x\<bar> / 2 powi ?e < 2 * 2 ^ p"
    unfolding y using pos by (simp add: pos_divide_less_eq mult_ac)
  have halved: "\<bar>x\<bar> / 2 powi (?e + 1) = \<bar>x\<bar> / 2 powi ?e / 2"
    by (subst power_int_add_1) simp_all
  have pick: "2 ^ q \<le> f (if 2 ^ p \<le> f e then e + 1 else e)" "f (if 2 ^ p \<le> f e then e + 1 else e) < 2 ^ p"
    if "2 ^ q \<le> f e" "f e < 2 * 2 ^ p" "f (e + 1) = f e / 2" for f :: "int \<Rightarrow> rat" and e
    using that p by simp_all
  show "2 ^ q \<le> \<bar>x\<bar> / 2 powi fp_exp p x" "\<bar>x\<bar> / 2 powi fp_exp p x < 2 ^ p"
    using pick [of "\<lambda>e. \<bar>x\<bar> / 2 powi e", OF low high halved] by (simp_all only: fp_exp_def \<open>quotient_of \<bar>x\<bar> = (a, b)\<close> Let_def prod.case)
qed

text \<open>The exponent is the only one, so a number in binary notation shows it.\<close>

lemma fp_exp_unique:
  assumes "2 ^ q \<le> \<bar>x\<bar> / 2 powi e" and "\<bar>x\<bar> / 2 powi e < 2 ^ p" and p: "p = Suc q"
  shows "fp_exp p x = e"
proof -
  have half: "\<not> e < e'" if "2 ^ q \<le> \<bar>x\<bar> / 2 powi e'" "\<bar>x\<bar> / 2 powi e < 2 ^ p" for e e'
  proof
    assume "e < e'"
    then obtain k where k: "e' = e + 1 + int k" using zle_iff_zadd [of "e + 1" e'] by auto
    have "2 * (2 :: rat) powi e = 2 powi (e + 1)" by (simp add: power_int_add_1)
    also have "\<dots> \<le> 2 powi e'" by (rule power_int_increasing) (simp_all add: k)
    finally have "2 ^ q * (2 * (2 :: rat) powi e) \<le> 2 ^ q * 2 powi e'" by (rule mult_left_mono) simp
    also have "\<dots> \<le> \<bar>x\<bar>" using that(1) by (simp add: pos_le_divide_eq)
    finally have "2 ^ p * (2 :: rat) powi e \<le> \<bar>x\<bar>" by (simp add: p)
    with that(2) show False by (simp add: pos_divide_less_eq)
  qed
  have "x \<noteq> 0" using assms(1) by (metis abs_zero div_0 not_le zero_less_numeral zero_less_power)
  note b = fp_exp_bounds [OF this p]
  show ?thesis using half [OF b(1) assms(2)] half [OF assms(1) b(2)] by simp
qed

definition fp_round :: "nat \<Rightarrow> rat \<Rightarrow> rat" where
  "fp_round p x = (if x = 0 then 0 else of_int (round_even (x / 2 powi fp_exp p x)) * 2 powi fp_exp p x)"

abbreviation flt_round :: "rat \<Rightarrow> rat" where "flt_round \<equiv> fp_round 24"
abbreviation dbl_round :: "rat \<Rightarrow> rat" where "dbl_round \<equiv> fp_round 53"

lemma fp_round_error:
  assumes "0 < p"
  shows "\<bar>fp_round p x - x\<bar> \<le> \<bar>x\<bar> / 2 ^ p"
proof (cases "x = 0")
  case False
  obtain q where q: "p = Suc q" using assms gr0_conv_Suc by auto
  let ?u = "2 powi fp_exp p x :: rat"
  have u: "0 < ?u" by simp
  have "fp_round p x - x = (of_int (round_even (x / ?u)) - x / ?u) * ?u"
    using u False by (simp add: fp_round_def left_diff_distrib)
  then have "\<bar>fp_round p x - x\<bar> = \<bar>of_int (round_even (x / ?u)) - x / ?u\<bar> * ?u"
    using u by (simp add: abs_mult)
  also have "\<dots> \<le> 1 / 2 * ?u"
    using round_even_error u by (intro mult_right_mono) auto
  also have "\<dots> \<le> \<bar>x\<bar> / 2 ^ p"
    using fp_exp_bounds(1) [OF False q] u by (simp add: q field_simps)
  finally show ?thesis .
qed (simp add: fp_round_def)

lemma fp_round_near:
  assumes "0 \<le> x" and "0 < p"
  shows "x * (1 - 1 / 2 ^ p) \<le> fp_round p x" "fp_round p x \<le> x * (1 + 1 / 2 ^ p)" "0 \<le> fp_round p x"
proof -
  have "\<bar>fp_round p x - x\<bar> \<le> x / 2 ^ p" using fp_round_error [OF assms(2), of x] assms(1) by simp
  then have r: "x - x / 2 ^ p \<le> fp_round p x" "fp_round p x \<le> x + x / 2 ^ p" unfolding abs_le_iff by linarith+
  then show "x * (1 - 1 / 2 ^ p) \<le> fp_round p x" "fp_round p x \<le> x * (1 + 1 / 2 ^ p)" by (simp_all add: algebra_simps)
  have "x / 2 ^ p \<le> x / 1" using assms(1) by (intro divide_left_mono) simp_all
  then show "0 \<le> fp_round p x" using r(1) by linarith
qed

text \<open>A rounding is shown by the significand and the exponent of the result.\<close>

lemma fp_round_eq:
  assumes "2 ^ q \<le> x / 2 powi e" and "x / 2 powi e < 2 ^ p" and "\<bar>of_int n - x / 2 powi e\<bar> < 1 / 2" and "p = Suc q"
  shows "fp_round p x = of_int n * 2 powi e"
proof -
  have "0 < x / 2 powi e" using assms(1) by (rule less_le_trans [rotated]) simp
  moreover have "(0 :: rat) < 2 powi e" by simp
  ultimately have x: "0 < x" by (metis zero_less_divide_iff order_less_asym)
  then have e: "fp_exp p x = e" using fp_exp_unique [of q x e p] assms by simp
  have "\<bar>of_int (round_even (x / 2 powi e)) - of_int n\<bar> < (1 :: rat)"
    using round_even_error [of "x / 2 powi e"] assms(3) by linarith
  then have "of_int \<bar>round_even (x / 2 powi e) - n\<bar> < (of_int 1 :: rat)" by simp
  then have "round_even (x / 2 powi e) = n" unfolding of_int_less_iff by simp
  then show ?thesis using x by (simp add: fp_round_def e)
qed

text \<open>The numbers of a format that are integers: for \<open>double\<close>, a 32-bit word converts exactly.\<close>

lemma fp_round_int:
  assumes "\<bar>k\<bar> < 2 ^ p" and "0 < p"
  shows "fp_round p (of_int k) = of_int k"
proof (cases "k = 0")
  case False
  obtain q where q: "p = Suc q" using assms(2) gr0_conv_Suc by auto
  let ?x = "of_int k :: rat"
  let ?e = "fp_exp p ?x"
  have x: "?x \<noteq> 0" using False by simp
  have "?e \<le> 0"
  proof (rule ccontr)
    assume "\<not> ?e \<le> 0"
    then have "?e = int (Suc (nat (?e - 1)))" by simp
    then have "(2 :: rat) powi ?e = 2 ^ Suc (nat (?e - 1))" by (metis power_int_of_nat)
    then have "(2 :: rat) \<le> 2 powi ?e" by simp
    then have "(2 :: rat) ^ q * 2 \<le> 2 ^ q * 2 powi ?e" by (rule mult_left_mono) simp
    also have "\<dots> \<le> \<bar>?x\<bar>" using fp_exp_bounds(1) [OF x q] by (simp only: pos_le_divide_eq zero_less_power_int zero_less_numeral)
    finally have "of_int (2 ^ p) \<le> (of_int \<bar>k\<bar> :: rat)" by (simp add: q)
    then have "2 ^ p \<le> \<bar>k\<bar>" unfolding of_int_le_iff .
    then show False using assms(1) by simp
  qed
  then have p: "?x / 2 powi ?e = of_int (k * 2 ^ nat (- ?e))"
    by (simp add: power_int_def field_simps)
  then have "of_int (round_even (?x / 2 powi ?e)) = ?x / 2 powi ?e" by (simp only: round_even_int)
  then show ?thesis using x by (simp add: fp_round_def)
qed (simp add: fp_round_def)

end
