(* ===== verification/I2cBaud.thy ===== *)
theory I2cBaud
  imports SercomI2cm Ieee
begin

text \<open>
  The baud rate of the I2C master, \<open>_i2c_m_sync_set_baudrate\<close> and \<open>_i2c_m_async_set_baudrate\<close> of
  \<open>hpl/sercom/hpl_sercom.c\<close> and \<open>i2c_m_sync_set_baudrate\<close> of \<open>hal_i2c_m_sync.c\<close>, which compute
  in \<open>double\<close>.  A division by zero, or a conversion of a \<open>double\<close> that does not fit
  \<open>uint32_t\<close>, is undefined in C: it is \<open>None\<close>.
\<close>

subsection \<open>Functions\<close>

definition double_to_u32 :: "rat \<Rightarrow> u32 option" where
  \<comment> \<open>the cast truncates towards zero\<close>
  "double_to_u32 x = (if x \<le> - 1 \<or> 2 ^ 32 \<le> x then None else if x < 0 then Some 0 else Some (word_of_int \<lfloor>x\<rfloor>))"

definition i2c_baud_double :: "u32 \<Rightarrow> u32 \<Rightarrow> u16 \<Rightarrow> rat" where
  \<comment> \<open>\<open>(clkrate - 10 * baudrate - baudrate * clkrate * (trise * 0.000000001)) / (2 * baudrate)\<close>\<close>
  "i2c_baud_double clkrate baudrate trise =
     (let rise = dbl_round (of_nat (unat trise) * dbl_round (1 / 1000000000));
          lost = dbl_round (of_nat (unat (baudrate * clkrate)) * rise);
          num = dbl_round (of_nat (unat (clkrate - 10 * baudrate)) - lost)
      in dbl_round (num / of_nat (unat (2 * baudrate))))"

definition set_baudrate_implementation ::
    "'h sercom_bus \<Rightarrow> i2cm_configuration list \<Rightarrow> u32 \<Rightarrow> ('h, 'a) i2c_state_scheme \<Rightarrow> (rc \<times> ('h, 'a) i2c_state_scheme) option" where
  \<comment> \<open>the body of both functions\<close>
  "set_baudrate_implementation b i2cms baudrate s =
     (case reg_read b CTRLA s of
        (ctrla, s) \<Rightarrow>
          if ctrla AND CTRLA_ENABLE \<noteq> 0 then Some (ERR_DENIED, s)
          else (case get_i2cm_index i2cms (i2c_hw s) of
                  None \<Rightarrow> None
                | Some tmp \<Rightarrow>
                    (let clkrate = i2cm_clk (i2cms ! tmp) div 1000 in
                     if svc_mode s = 0 \<or> svc_mode s = 1 then
                       (if 2 * baudrate = 0 then None
                        else (case double_to_u32 (i2c_baud_double clkrate baudrate (svc_trise s)) of
                                None \<Rightarrow> None
                              | Some tmp \<Rightarrow> Some (ERR_NONE, reg_modify b BAUD (\<lambda>v. (v AND NOT 0xFF) OR (0xFF AND tmp)) s)))
                     else if svc_mode s = 2 then
                       (if 2 * baudrate = 0 then None
                        else (let tmp = (clkrate - 2 * baudrate) div (2 * baudrate)
                              in Some (ERR_NONE, reg_modify b BAUD (\<lambda>v. (v AND NOT 0xFF0000) OR (0xFF0000 AND push_bit 16 tmp)) s)))
                     else Some (ERR_INVALID_ARG, s))))"

definition i2c_m_async_set_baudrate ::
    "'h sercom_bus \<Rightarrow> i2cm_configuration list \<Rightarrow> u32 \<Rightarrow> u32 \<Rightarrow> ('h, 'a) i2c_state_scheme \<Rightarrow> (rc \<times> ('h, 'a) i2c_state_scheme) option" where
  \<comment> \<open>the argument \<open>clkrate\<close> is overwritten\<close>
  "i2c_m_async_set_baudrate b i2cms clkrate baudrate s = set_baudrate_implementation b i2cms baudrate s"

definition hpl_i2c_m_sync_set_baudrate ::
    "'h sercom_bus \<Rightarrow> i2cm_configuration list \<Rightarrow> u32 \<Rightarrow> u32 \<Rightarrow> ('h, 'a) i2c_state_scheme \<Rightarrow> (rc \<times> ('h, 'a) i2c_state_scheme) option" where
  "hpl_i2c_m_sync_set_baudrate b i2cms clkrate baudrate s = set_baudrate_implementation b i2cms baudrate s"

definition i2c_m_sync_set_baudrate ::
    "'h sercom_bus \<Rightarrow> i2cm_configuration list \<Rightarrow> u32 \<Rightarrow> u32 \<Rightarrow> ('h, 'a) i2c_state_scheme \<Rightarrow> (rc \<times> ('h, 'a) i2c_state_scheme) option" where
  "i2c_m_sync_set_baudrate b i2cms clkrate baudrate s = hpl_i2c_m_sync_set_baudrate b i2cms clkrate baudrate s"

subsection \<open>The rounding errors\<close>

lemma dbl_round_near:
  assumes "0 \<le> x"
  shows "x * (1 - 1 / 2 ^ 53) \<le> dbl_round x" "dbl_round x \<le> x * (1 + 1 / 2 ^ 53)" "0 \<le> dbl_round x"
  by (rule fp_round_near; simp add: assms)+

text \<open>The computation on natural numbers: \<open>A\<close> is \<open>clkrate - 10 * baudrate\<close>, \<open>P\<close> the product of the two rates.\<close>

lemma lost_bounds:
  fixes P t :: nat
  defines "R \<equiv> of_nat (P * t) / 10 ^ 9 :: rat"
  defines "L \<equiv> dbl_round (of_nat P * dbl_round (of_nat t * dbl_round (1 / 1000000000)))"
  shows "0 \<le> L" "L \<le> R * (1 + 1 / 2 ^ 53) ^ 3"
proof -
  define c where "c = dbl_round (1 / 1000000000)"
  define r where "r = dbl_round (of_nat t * c)"
  have c: "0 \<le> c" "c \<le> 1 / 10 ^ 9 * (1 + 1 / 2 ^ 53)"
    using dbl_round_near [of "1 / 1000000000"] by (simp_all add: c_def)
  have r: "0 \<le> r" "r \<le> of_nat t * c * (1 + 1 / 2 ^ 53)"
    using dbl_round_near [of "of_nat t * c"] c(1) by (simp_all add: r_def)
  have L: "0 \<le> L" "L \<le> of_nat P * r * (1 + 1 / 2 ^ 53)"
    using dbl_round_near [of "of_nat P * r"] r(1) by (simp_all add: L_def r_def c_def)
  show "0 \<le> L" by fact
  have "of_nat t * c * (1 + 1 / 2 ^ 53) \<le> of_nat t * (1 / 10 ^ 9 * (1 + 1 / 2 ^ 53)) * (1 + 1 / 2 ^ 53 :: rat)"
    by (intro mult_right_mono mult_left_mono c) simp_all
  with r have "r \<le> of_nat t * (1 / 10 ^ 9 * (1 + 1 / 2 ^ 53)) * (1 + 1 / 2 ^ 53)" by linarith
  then have "of_nat P * r * (1 + 1 / 2 ^ 53) \<le> of_nat P * (of_nat t * (1 / 10 ^ 9 * (1 + 1 / 2 ^ 53)) * (1 + 1 / 2 ^ 53)) * (1 + 1 / 2 ^ 53)"
    by (intro mult_right_mono mult_left_mono) simp_all
  also have "\<dots> = R * (1 + 1 / 2 ^ 53) ^ 3"
    unfolding R_def of_nat_mult power3_eq_cube by (simp only: times_divide_eq_left times_divide_eq_right mult_1_left mult_ac)
  finally show "L \<le> R * (1 + 1 / 2 ^ 53) ^ 3" using L(2) by linarith
qed

lemma quotient_bounds:
  fixes A kk P t :: nat and L x :: rat
  assumes "0 \<le> L" and "L \<le> of_nat (P * t) / 10 ^ 9 * (1 + 1 / 2 ^ 53) ^ 3" and "P * t + 10 ^ 9 \<le> 10 ^ 9 * A"
    and "A < 2 ^ 32" and "0 < kk" and x: "x = dbl_round (dbl_round (of_nat A - L) / of_nat kk)"
  shows "0 \<le> x" "x * of_nat kk \<le> of_nat A + 1 / 2" "of_nat A < x * of_nat kk + of_nat (P * t) / 10 ^ 9 + 1"
proof -
  define R where "R = (of_nat (P * t) / 10 ^ 9 :: rat)"
  define u where "u = (1 / 2 ^ 53 :: rat)"
  have "of_nat (P * t + 10 ^ 9) \<le> (of_nat (10 ^ 9 * A) :: rat)" using assms(3) of_nat_le_iff by blast
  then have R: "0 \<le> R" "R + 1 \<le> of_nat A" by (simp_all add: R_def field_simps)
  have A: "of_nat A \<le> (2 ^ 32 :: rat)" using of_nat_mono [OF less_imp_le [OF assms(4)], where 'a=rat] by simp
  have "(1 + 1 / 2 ^ 53) ^ 3 \<le> 1 + 4 / (2 :: rat) ^ 53" by (simp add: power3_eq_cube)
  then have "R * (1 + 1 / 2 ^ 53) ^ 3 \<le> R * (1 + 4 / 2 ^ 53)" using R(1) by (rule mult_left_mono)
  then have "L \<le> R * (1 + 4 / 2 ^ 53)" using assms(2) [folded R_def] by (rule order_trans [rotated])
  then have L: "0 \<le> L" "L \<le> R + R * (4 / 2 ^ 53)" using assms(1) by (simp_all only: distrib_left mult_1_right)
  define d where "d = of_nat A - L"
  have small: "R * (4 / 2 ^ 53) \<le> 1 / 2 ^ 19" using R A by simp
  have d: "0 \<le> d" "d \<le> of_nat A" "of_nat A - R - 1 / 2 ^ 19 \<le> d"
    using L R small by (simp_all add: d_def)
  define m where "m = dbl_round d"
  have m: "0 \<le> m" "d - d / 2 ^ 53 \<le> m" "m \<le> d + d / 2 ^ 53"
    using dbl_round_near [OF d(1)] by (simp_all add: m_def algebra_simps)
  have ds: "d / 2 ^ 53 \<le> 1 / 2 ^ 21" using d A by simp
  have kk: "(0 :: rat) < of_nat kk" using assms(5) by simp
  define q where "q = m / of_nat kk"
  have q: "0 \<le> q" "q * of_nat kk = m" using m(1) kk by (simp_all add: q_def)
  have x: "x = dbl_round q" by (simp only: x q_def m_def d_def)
  note xq = dbl_round_near [OF q(1), folded x]
  show "0 \<le> x" by (rule xq(3))
  have q53: "q * (1 + 1 / 2 ^ 53) * of_nat kk = m + m / 2 ^ 53" "q * (1 - 1 / 2 ^ 53) * of_nat kk = m - m / 2 ^ 53"
    unfolding q(2) [symmetric] by (simp_all add: algebra_simps)
  have "x * of_nat kk \<le> q * (1 + 1 / 2 ^ 53) * of_nat kk" "q * (1 - 1 / 2 ^ 53) * of_nat kk \<le> x * of_nat kk"
    using xq kk by (intro mult_right_mono; linarith)+
  then have hi: "x * of_nat kk \<le> m + m / 2 ^ 53" and lo: "m - m / 2 ^ 53 \<le> x * of_nat kk" by (simp_all only: q53)
  have ms: "m / 2 ^ 53 \<le> 1 / 2 ^ 20" using m(3) ds d A by simp
  show "x * of_nat kk \<le> of_nat A + 1 / 2" using hi ms m(3) ds d(2) by simp
  show "of_nat A < x * of_nat kk + of_nat (P * t) / 10 ^ 9 + 1" using lo ms m(2) ds d(3) unfolding R_def by simp
qed

subsection \<open>The rate that is set\<close>

lemma cast_bounds:
  fixes x :: rat and A kk R :: nat
  assumes "0 \<le> x" and "x * of_nat kk \<le> of_nat A + 1 / 2" and "of_nat A < x * of_nat kk + of_nat R / 10 ^ 9 + 1" and "0 < kk" and "A < 2 ^ 32"
  shows "\<exists>v. double_to_u32 x = Some v \<and> unat v * kk \<le> A \<and> A < (unat v + 1) * kk + R div 10 ^ 9 + 2"
proof -
  obtain n where n: "\<lfloor>x\<rfloor> = int n" using assms(1) by (metis nonneg_int_cases zero_le_floor)
  have nx: "of_nat n \<le> x" "x < of_nat n + 1" using floor_correct [of x] by (simp_all add: n)
  have kk: "(0 :: rat) < of_nat kk" using assms(4) by simp
  have "of_nat n * of_nat kk \<le> x * of_nat kk" using nx(1) kk by (intro mult_right_mono) auto
  then have "(of_nat (2 * (n * kk)) :: rat) \<le> of_nat (2 * A + 1)" using assms(2) by simp
  then have "2 * (n * kk) \<le> 2 * A + 1" unfolding of_nat_le_iff .
  then have low: "n * kk \<le> A" by simp
  have "x * of_nat kk < (of_nat n + 1) * of_nat kk" using nx(2) kk by (rule mult_strict_right_mono)
  with assms(3) have "of_nat A < (of_nat n + 1) * of_nat kk + of_nat R / 10 ^ 9 + (1 :: rat)" by linarith
  then have "(of_nat (10 ^ 9 * A) :: rat) < of_nat (10 ^ 9 * ((n + 1) * kk) + R + 10 ^ 9)" by (simp add: field_simps)
  then have "10 ^ 9 * A < 10 ^ 9 * ((n + 1) * kk) + R + 10 ^ 9" unfolding of_nat_less_iff .
  moreover have "R < 10 ^ 9 + R div 10 ^ 9 * 10 ^ 9" by (rule dividend_less_div_times) simp
  moreover have "p * a < p * m + r + p \<Longrightarrow> r < p + q * p \<Longrightarrow> p * a < p * (m + q + 2)" for p a m q r :: nat
    by (simp add: algebra_simps)
  ultimately have "10 ^ 9 * A < 10 ^ 9 * ((n + 1) * kk + R div 10 ^ 9 + 2)" by blast
  then have high: "A < (n + 1) * kk + R div 10 ^ 9 + 2" by (simp only: mult_less_cancel1)
  have "n \<le> n * kk" using assms(4) by simp
  then have n32: "n < 2 ^ 32" using low assms(5) by (rule order_trans [THEN le_less_trans])
  have "of_nat (n + 1) \<le> (of_nat (2 ^ 32) :: rat)" using n32 by (intro of_nat_mono) simp
  then have "x < 2 ^ 32" using nx(2) by simp
  then have "double_to_u32 x = Some (word_of_nat n)" using assms(1) n by (simp add: double_to_u32_def)
  moreover have "unat (word_of_nat n :: u32) = n" using n32 by (simp add: unat_of_nat take_bit_nat_eq_self)
  ultimately show ?thesis using low high by auto
qed

lemma baud_double_fits:
  assumes "unat clkrate = f" and "unat baudrate = k" and "unat trise = t"
    and "0 < k" and "f * k < 2 ^ 32" and "f < 2 ^ 32 div 1000 + 1" and "k * f * t + 10 ^ 9 * (10 * k + 1) \<le> 10 ^ 9 * f"
  shows "\<exists>v. double_to_u32 (i2c_baud_double clkrate baudrate trise) = Some v
    \<and> k * (10 + 2 * unat v) \<le> f \<and> f < k * (10 + 2 * (unat v + 1)) + k * f * t div 10 ^ 9 + 2"
proof -
  have fk: "10 * k + 1 \<le> f" using assms(7) by simp
  then have words: "unat (clkrate - 10 * baudrate) = f - 10 * k" "unat (2 * baudrate) = 2 * k" "unat (baudrate * clkrate) = k * f"
    using assms(1,2,5,6) by (simp_all add: unat_sub word_le_nat_alt unat_word_ariths mult.commute)
  define A where "A = f - 10 * k"
  define L where "L = dbl_round (of_nat (k * f) * dbl_round (of_nat t * dbl_round (1 / 1000000000)))"
  have A: "f = A + 10 * k" "A < 2 ^ 32" "k * f * t + 10 ^ 9 \<le> 10 ^ 9 * A" using fk assms(6,7) by (simp_all add: A_def)
  have x: "i2c_baud_double clkrate baudrate trise = dbl_round (dbl_round (of_nat A - L) / of_nat (2 * k))"
    by (simp only: i2c_baud_double_def Let_def words assms(3) L_def A_def)
  have kk: "0 < 2 * k" using assms(4) by simp
  from cast_bounds [OF quotient_bounds [OF lost_bounds [of "k * f" t, folded L_def] A(3,2) kk x] kk A(2)]
  obtain v where v: "double_to_u32 (i2c_baud_double clkrate baudrate trise) = Some v" "unat v * (2 * k) \<le> A"
    "A < (unat v + 1) * (2 * k) + k * f * t div 10 ^ 9 + 2" by blast
  have "k * (10 + 2 * unat v) = unat v * (2 * k) + 10 * k" "k * (10 + 2 * (unat v + 1)) = (unat v + 1) * (2 * k) + 10 * k"
    by (simp_all add: algebra_simps)
  with v A(1) show ?thesis by (intro exI [of _ v]) linarith
qed

lemma reg_read_keeps:
  assumes "reg_read b r s = (v, s')"
  shows "svc_mode s' = svc_mode s" "svc_trise s' = svc_trise s" "i2c_hw s' = i2c_hw s"
  using assms by (auto simp: reg_read_def split: prod.splits)


definition sample_i2cms :: "i2cm_configuration list" where
  \<comment> \<open>the firmware's configuration\<close>
  "sample_i2cms =
     [\<lparr>i2cm_number = 0, i2cm_ctrl_a = 0x200014, i2cm_ctrl_b = 0x100, i2cm_baud = 0xE6E5, i2cm_dbgctrl = 0,
       i2cm_trise = 215, i2cm_clk = 48000000\<rparr>]"

definition sample_master :: "(sercom_reg \<Rightarrow> u32) i2c_state" where
  "sample_master =
     \<lparr>periph = (\<lambda>_. 0), imem = (\<lambda>_. 0), sercom_irq_on = False, sercom_irq_pending = False,
      svc_msg = \<lparr>m_addr = 0, m_flags = 0, m_len = 0, m_buffer = 0\<rparr>, svc_mode = 0, svc_trise = 215, i2c_hw = SERCOM0\<rparr>"

lemma sample_index: "get_i2cm_index sample_i2cms (i2c_hw sample_master) = Some 0"
  by (simp add: get_i2cm_index_def sample_i2cms_def sample_master_def sercom_get_hardware_index_def SERCOM0_def)


text \<open>
  A rate that needs a divider beyond 255 is accepted: for 90 kHz the divider is 261, of which
  5 is kept, for a bus of 2.4 MHz.
\<close>

lemma slow_rate_wraps:
  "\<exists>s'. i2c_m_sync_set_baudrate regs_bus sample_i2cms 0 90 sample_master = Some (ERR_NONE, s') \<and> periph s' BAUD = 5"
proof -
  have "unat (48000 :: u32) = 48000" "unat (90 :: u32) = 90" "unat (215 :: u16) = 215" by simp_all
  from baud_double_fits [OF this] obtain v where v: "double_to_u32 (i2c_baud_double 48000 90 215) = Some v" "unat v = 261" by auto
  from v(2) have "v = 261" by (simp add: word_unat_eq_iff)
  then show ?thesis
    using v(1) sample_index
    by (simp add: i2c_m_sync_set_baudrate_def hpl_i2c_m_sync_set_baudrate_def set_baudrate_implementation_def sample_i2cms_def
        sample_master_def Let_def)
qed

end
