(* ===== verification/Soc.thy ===== *)
theory Soc
  imports Prelude
begin

text \<open>
  The system registers of the SAM D21 (power manager, clock generators, oscillators, port,
  flash controller, core) and their accessors.

  A register access is a call of the chip: \<open>soc_rd\<close> may change its state, \<open>soc_wr\<close> may
  ignore the value.  Every access is recorded, so that the order of accesses can be stated.
  The accessors \<open>hri_*\<close> are written out over them; registers narrower than 32 bits
  hold values below their width.  A wait that does not end is \<open>None\<close>.
\<close>

datatype soc_reg =
    NVM_CTRLB
  | PM_CPUSEL | PM_APBASEL | PM_APBBSEL | PM_APBCSEL
  | PM_AHBMASK | PM_APBAMASK | PM_APBBMASK | PM_APBCMASK | PM_SLEEP | PM_RCAUSE
  | GCLK_CLKCTRL | GCLK_GENDIV | GCLK_GENCTRL | GCLK_STATUS
  | SYSCTRL_OSC8M | SYSCTRL_OSC32K | SYSCTRL_OSCULP32K | SYSCTRL_PCLKSR
  | SYSCTRL_XOSC32K | SYSCTRL_XOSC | SYSCTRL_DPLLCTRLA | SYSCTRL_DPLLCTRLB | SYSCTRL_DPLLRATIO | SYSCTRL_DPLLSTATUS
  | SYSCTRL_DFLLCTRL | SYSCTRL_DFLLMUL | SYSCTRL_DFLLVAL | NVM_OTP4_1
  | PORT_DIR u8 | PORT_DIRCLR u8 | PORT_DIRSET u8
  | PORT_OUT u8 | PORT_OUTCLR u8 | PORT_OUTSET u8 | PORT_OUTTGL u8 | PORT_IN u8
  | PORT_WRCONFIG u8 | PORT_PINCFG u8 u8 | PORT_PMUX u8 u8
  | SCB_SCR | SCB_VTOR | SBMATRIX_SFR_HMCRAMC0 | USB_QOSCTRL | DMAC_QOSCTRL | NVIC_ISER | NVIC_ICER | NVIC_ISPR | NVIC_ICPR

record 'h soc_bus =
  soc_rd :: "soc_reg \<Rightarrow> 'h \<Rightarrow> u32 \<times> 'h"
  soc_wr :: "soc_reg \<Rightarrow> u32 \<Rightarrow> 'h \<Rightarrow> 'h"

datatype soc_access = Rd soc_reg u32 | Wr soc_reg u32

text \<open>
  The chip, the accesses so far (oldest first), the interrupt mask of the core and the table of
  handlers.
\<close>

record 'h soc_state =
  soc_hw :: 'h
  soc_log :: "soc_access list"
  primask :: u32
  irq_table :: "u8 \<Rightarrow> ptr"

subsection \<open>Accesses\<close>

definition soc_read :: "'h soc_bus \<Rightarrow> soc_reg \<Rightarrow> 'h soc_state \<Rightarrow> u32 \<times> 'h soc_state" where
  "soc_read b r s = (case soc_rd b r (soc_hw s) of (v, h) \<Rightarrow> (v, s\<lparr>soc_hw := h, soc_log := soc_log s @ [Rd r v]\<rparr>))"

definition soc_write :: "'h soc_bus \<Rightarrow> soc_reg \<Rightarrow> u32 \<Rightarrow> 'h soc_state \<Rightarrow> 'h soc_state" where
  "soc_write b r v s = s\<lparr>soc_hw := soc_wr b r v (soc_hw s), soc_log := soc_log s @ [Wr r v]\<rparr>"

definition soc_modify :: "'h soc_bus \<Rightarrow> soc_reg \<Rightarrow> (u32 \<Rightarrow> u32) \<Rightarrow> 'h soc_state \<Rightarrow> 'h soc_state" where
  "soc_modify b r f s = (case soc_read b r s of (v, s) \<Rightarrow> soc_write b r (f v) s)"

partial_function (option) soc_wait :: "'h soc_bus \<Rightarrow> soc_reg \<Rightarrow> (u32 \<Rightarrow> bool) \<Rightarrow> 'h soc_state \<Rightarrow> 'h soc_state option" where
  \<comment> \<open>\<open>while (!cond);\<close>\<close>
  "soc_wait b r cond s = (case soc_read b r s of (v, s) \<Rightarrow> if cond v then Some s else soc_wait b r cond s)"

lemma soc_read_log [simp]:
  "soc_log (snd (soc_read b r s)) = soc_log s @ [Rd r (fst (soc_read b r s))]"
  "primask (snd (soc_read b r s)) = primask s" "irq_table (snd (soc_read b r s)) = irq_table s"
  by (simp_all add: soc_read_def split: prod.split)

lemma soc_write_log [simp]:
  "soc_log (soc_write b r v s) = soc_log s @ [Wr r v]"
  "primask (soc_write b r v s) = primask s" "irq_table (soc_write b r v s) = irq_table s"
  by (simp_all add: soc_write_def)

lemma soc_modify_log [simp]:
  "soc_log (soc_modify b r f s) = soc_log s @ [Rd r (fst (soc_read b r s)), Wr r (f (fst (soc_read b r s)))]"
  "primask (soc_modify b r f s) = primask s" "irq_table (soc_modify b r f s) = irq_table s"
  by (simp_all add: soc_modify_def split_beta)

lemma soc_wait_log:
  "soc_wait b r cond s = Some s' \<Longrightarrow> \<exists>vs v. soc_log s' = soc_log s @ map (Rd r) vs @ [Rd r v] \<and> cond v \<and> (\<forall>x\<in>set vs. \<not> cond x)
    \<and> primask s' = primask s \<and> irq_table s' = irq_table s"
proof (induction b r cond s s' rule: soc_wait.raw_induct [rotated, consumes 1])
  case (1 rec b r cond s s')
  obtain v t where r: "soc_read b r s = (v, t)" by (cases "soc_read b r s")
  then have t: "soc_log t = soc_log s @ [Rd r v]" "primask t = primask s" "irq_table t = irq_table s"
    using soc_read_log [of b r s] by simp_all
  show ?case
  proof (cases "cond v")
    case True
    then have "s' = t" using 1(2) r by simp
    then show ?thesis using t True by (intro exI [of _ "[]"] exI [of _ v]) simp
  next
    case False
    then have "rec b r cond t = Some s'" using 1(2) r by simp
    from 1(1) [OF this] obtain vs w where
      "soc_log s' = soc_log t @ map (Rd r) vs @ [Rd r w]" "cond w" "\<forall>x\<in>set vs. \<not> cond x"
      "primask s' = primask t" "irq_table s' = irq_table t" by blast
    then show ?thesis using t False by (intro exI [of _ "v # vs"] exI [of _ w]) simp
  qed
qed

lemma soc_wait_keeps:
  "soc_wait b r cond s = Some s' \<Longrightarrow> Q s \<Longrightarrow> (\<And>s. Q s \<Longrightarrow> Q (snd (soc_read b r s))) \<Longrightarrow> Q s'"
proof (induction b r cond s s' rule: soc_wait.raw_induct [rotated, consumes 1])
  case (1 rec b r cond s s')
  obtain v t where r: "soc_read b r s = (v, t)" by (cases "soc_read b r s")
  then have "Q t" using 1(3,4) by (metis snd_conv)
  then show ?case using 1(1) [OF _ _ 1(4)] 1(2) r by (cases "cond v") auto
qed

definition ready_soon :: "'h soc_bus \<Rightarrow> soc_reg \<Rightarrow> (u32 \<Rightarrow> bool) \<Rightarrow> bool" where
  \<comment> \<open>from any state of the chip, reading \<open>r\<close> often enough gives a value with \<open>cond\<close>\<close>
  "ready_soon b r cond \<longleftrightarrow> (\<forall>h. \<exists>n. cond (fst (soc_rd b r (((\<lambda>h. snd (soc_rd b r h)) ^^ n) h))))"

lemma soc_wait_reaches:
  "cond (fst (soc_rd b r (((\<lambda>h. snd (soc_rd b r h)) ^^ n) (soc_hw s)))) \<Longrightarrow> \<exists>s'. soc_wait b r cond s = Some s'"
proof (induction n arbitrary: s)
  case 0
  then show ?case by (subst soc_wait.simps) (auto simp: soc_read_def split: prod.split)
next
  case (Suc n)
  obtain v t where r: "soc_read b r s = (v, t)" by (cases "soc_read b r s")
  then have "soc_hw t = snd (soc_rd b r (soc_hw s))" by (auto simp: soc_read_def split: prod.splits)
  then have "\<exists>s'. soc_wait b r cond t = Some s'" using Suc by (simp del: funpow.simps add: funpow_Suc_right)
  then show ?case by (subst soc_wait.simps) (auto simp: r)
qed

lemma soc_wait_returns: "ready_soon b r cond \<Longrightarrow> \<exists>s'. soc_wait b r cond s = Some s'"
  unfolding ready_soon_def by (metis soc_wait_reaches)

subsection \<open>What the registers keep\<close>

definition set_bits :: "bool \<Rightarrow> u32 \<Rightarrow> u32 \<Rightarrow> u32" where
  "set_bits on bits v = (if on then v OR bits else v AND NOT bits)"

definition wrconfig_pins :: "u32 \<Rightarrow> u8 \<Rightarrow> bool" where
  \<comment> \<open>the pins a value of \<open>WRCONFIG\<close> selects\<close>
  "wrconfig_pins v pin \<longleftrightarrow> (if bit v 31 then 16 \<le> unat pin \<and> unat pin < 32 \<and> bit v (unat pin - 16) else unat pin < 16 \<and> bit v (unat pin))"

definition pincfg_of_wrconfig :: "u32 \<Rightarrow> u32" where
  \<comment> \<open>\<open>PMUXEN\<close>, \<open>INEN\<close>, \<open>PULLEN\<close> and \<open>DRVSTR\<close> of \<open>WRCONFIG\<close> where \<open>PINCFG\<close> has them\<close>
  "pincfg_of_wrconfig v = drop_bit 16 v AND 0x47"

definition wrconfig_mux :: "u32 \<Rightarrow> bool \<Rightarrow> bool \<Rightarrow> u32 \<Rightarrow> u32" where
  \<comment> \<open>the functions of an even and an odd pin, where they are selected\<close>
  "wrconfig_mux v even_pin odd_pin old =
     (let m = take_bit 4 (drop_bit 24 v)
      in (if even_pin then m else old AND 0xF) OR (if odd_pin then push_bit 4 m else old AND 0xF0))"

definition soc_effect :: "soc_reg \<Rightarrow> u32 \<Rightarrow> (soc_reg \<Rightarrow> u32) \<Rightarrow> soc_reg \<Rightarrow> u32" where
  \<comment> \<open>what a write changes, from the register descriptions\<close>
  "soc_effect r v f =
     (case r of
        PORT_DIRSET g \<Rightarrow> f(PORT_DIR g := f (PORT_DIR g) OR v)
      | PORT_DIRCLR g \<Rightarrow> f(PORT_DIR g := f (PORT_DIR g) AND NOT v)
      | PORT_OUTSET g \<Rightarrow> f(PORT_OUT g := f (PORT_OUT g) OR v)
      | PORT_OUTCLR g \<Rightarrow> f(PORT_OUT g := f (PORT_OUT g) AND NOT v)
      | PORT_OUTTGL g \<Rightarrow> f(PORT_OUT g := f (PORT_OUT g) XOR v)
      | PORT_WRCONFIG g \<Rightarrow>
          (\<lambda>r'. case r' of
                  PORT_PINCFG g' pin \<Rightarrow>
                    if g' = g \<and> bit v 30 \<and> wrconfig_pins v pin then pincfg_of_wrconfig v else f r'
                | PORT_PMUX g' i \<Rightarrow>
                    if g' = g \<and> bit v 28
                    then wrconfig_mux v (wrconfig_pins v (2 * i)) (wrconfig_pins v (2 * i + 1)) (f r') else f r'
                | _ \<Rightarrow> f r')
      | NVIC_ISER \<Rightarrow> (let e = f NVIC_ISER OR v in f(NVIC_ISER := e, NVIC_ICER := e))
      | NVIC_ICER \<Rightarrow> (let e = f NVIC_ISER AND NOT v in f(NVIC_ISER := e, NVIC_ICER := e))
      | NVIC_ISPR \<Rightarrow> (let e = f NVIC_ISPR OR v in f(NVIC_ISPR := e, NVIC_ICPR := e))
      | NVIC_ICPR \<Rightarrow> (let e = f NVIC_ISPR AND NOT v in f(NVIC_ISPR := e, NVIC_ICPR := e))
      | NVM_OTP4_1 \<Rightarrow> f
      | _ \<Rightarrow> f(r := v))"

definition status_reg :: "soc_reg \<Rightarrow> bool" where
  \<comment> \<open>registers whose value the chip decides, and those that give another generator's or channel's\<close>
  "status_reg r \<longleftrightarrow>
     (case r of SYSCTRL_PCLKSR \<Rightarrow> True | GCLK_STATUS \<Rightarrow> True | PM_RCAUSE \<Rightarrow> True | PORT_IN g \<Rightarrow> True
      | SYSCTRL_DFLLVAL \<Rightarrow> True | SYSCTRL_DPLLSTATUS \<Rightarrow> True | NVIC_ISPR \<Rightarrow> True | NVIC_ICPR \<Rightarrow> True
      | GCLK_CLKCTRL \<Rightarrow> True | GCLK_GENDIV \<Rightarrow> True | GCLK_GENCTRL \<Rightarrow> True | _ \<Rightarrow> False)"

definition soc_ok :: "'h soc_bus \<Rightarrow> ('h \<Rightarrow> soc_reg \<Rightarrow> u32) \<Rightarrow> bool" where
  \<comment> \<open>\<open>kept h\<close>: what the registers hold in the state \<open>h\<close> of the chip\<close>
  "soc_ok b kept \<longleftrightarrow>
     (\<forall>r h. kept (snd (soc_rd b r h)) = kept h \<and> (\<not> status_reg r \<longrightarrow> fst (soc_rd b r h) = kept h r))
   \<and> (\<forall>r v h. kept (soc_wr b r v h) = soc_effect r v (kept h))"

lemma soc_ok_accesses:
  assumes "soc_ok b kept"
  shows "kept (soc_hw (snd (soc_read b r s))) = kept (soc_hw s)"
    and "\<not> status_reg r \<Longrightarrow> fst (soc_read b r s) = kept (soc_hw s) r"
    and "kept (soc_hw (soc_write b r v s)) = soc_effect r v (kept (soc_hw s))"
    and "\<not> status_reg r \<Longrightarrow> kept (soc_hw (soc_modify b r f s)) = soc_effect r (f (kept (soc_hw s) r)) (kept (soc_hw s))"
  using assms by (auto simp: soc_ok_def soc_read_def soc_write_def soc_modify_def split: prod.split)
    (metis fst_conv snd_conv)+

definition plain_soc :: "(soc_reg \<Rightarrow> u32) soc_bus" where
  \<comment> \<open>a chip that is always ready and drives its inputs low\<close>
  "plain_soc = \<lparr>soc_rd = (\<lambda>r h. (if r = SYSCTRL_PCLKSR \<or> r = SYSCTRL_DPLLSTATUS then 0xFFFFFFFF else if status_reg r then 0 else h r, h)), soc_wr = soc_effect\<rparr>"

lemma plain_soc_ok: "soc_ok plain_soc (\<lambda>h. h)"
  by (auto simp: soc_ok_def plain_soc_def status_reg_def split: soc_reg.splits)

end
