(* ===== verification/Core.thy ===== *)
theory Core
  imports Soc
begin

text \<open>
  The Cortex-M0+ layer \<open>hpl/core/hpl_core_m0plus_base.c\<close> with \<open>hal_delay.c\<close>, \<open>hal_atomic.c\<close>,
  \<open>hal_sleep.c\<close> and the sleep modes of \<open>hpl/pm/hpl_pm.c\<close>: delays, interrupt lines, critical
  sections and sleep.
\<close>

subsection \<open>Delays\<close>

definition CONF_CPU_FREQUENCY :: u32 where "CONF_CPU_FREQUENCY = 48000000"

definition CPU_FREQ_POWER :: "u32 \<Rightarrow> u8" where
  \<comment> \<open>the preprocessor's choice; a frequency of 100 MHz or more defines no power and does not compile\<close>
  "CPU_FREQ_POWER freq =
     (if freq < 1000 then 3 else if freq < 10000 then 4 else if freq < 100000 then 5
      else if freq < 1000000 then 6 else if freq < 10000000 then 7 else 8)"

definition get_cycles_for_us_internal :: "u16 \<Rightarrow> u32 \<Rightarrow> u8 \<Rightarrow> u32" where
  "get_cycles_for_us_internal us freq pow =
     (let us = ucast us in
      if pow = 8 then (us * (freq div 100000) + 29) div 30
      else if pow = 7 then (us * (freq div 10000) + 299) div 300
      else if pow = 6 then (us * (freq div 1000) + 2999) div 3000
      else if pow = 5 then (us * (freq div 100) + 29999) div 30000
      else if pow = 4 then (us * (freq div 10) + 299999) div 300000
      else (us * freq + 2999999) div 3000000)"

definition get_cycles_for_us :: "u16 \<Rightarrow> u32" where
  "get_cycles_for_us us = get_cycles_for_us_internal us CONF_CPU_FREQUENCY (CPU_FREQ_POWER CONF_CPU_FREQUENCY)"

definition get_cycles_for_ms_internal :: "u16 \<Rightarrow> u32 \<Rightarrow> u8 \<Rightarrow> u32" where
  "get_cycles_for_ms_internal ms freq pow =
     (let ms = ucast ms in
      if pow = 8 then (ms * (freq div 100000) + 2) div 3 * 100
      else if pow = 7 then (ms * (freq div 10000) + 2) div 3 * 10
      else if pow = 6 then (ms * (freq div 1000) + 2) div 3
      else if pow = 5 then (ms * (freq div 100) + 29) div 30
      else if pow = 4 then (ms * (freq div 10) + 299) div 300
      else (ms * (freq div 1) + 2999) div 3000)"

definition get_cycles_for_ms :: "u16 \<Rightarrow> u32" where
  "get_cycles_for_ms ms = get_cycles_for_ms_internal ms CONF_CPU_FREQUENCY (CPU_FREQ_POWER CONF_CPU_FREQUENCY)"

function delay_cycles :: "u32 \<Rightarrow> nat" where
  \<comment> \<open>how often \<open>subs r1, r1, #1; bhi __delay\<close> runs: \<open>subs\<close> sets the carry if it does not borrow, \<open>bhi\<close>
      goes back while carry is set and the result is not zero\<close>
  "delay_cycles r1 =
     (let r = r1 - 1; carry = (1 \<le> r1) in if carry \<and> r \<noteq> 0 then Suc (delay_cycles r) else 1)"
  by auto
termination
  by (relation "measure unat") (auto intro!: unat_minus_one_less)

declare delay_cycles.simps [simp del]

definition hal_delay_us :: "u16 \<Rightarrow> nat" where "hal_delay_us us = delay_cycles (get_cycles_for_us us)"

definition hal_delay_ms :: "u16 \<Rightarrow> nat" where "hal_delay_ms ms = delay_cycles (get_cycles_for_ms ms)"

lemma delay_cycles_turns: "delay_cycles r = max 1 (unat r)"
proof (induction r rule: delay_cycles.induct)
  case (1 r)
  show ?case
  proof (cases "1 \<le> r \<and> r - 1 \<noteq> 0")
    case True
    then have "r \<noteq> 0" by auto
    then have "unat (r - 1) = unat r - 1" "1 \<le> unat r" using unat_gt_0 [of r] by (simp_all add: unat_minus_one)
    moreover have "unat (r - 1) \<noteq> 0" using True by (simp add: unat_eq_zero)
    ultimately show ?thesis using 1 True by (subst delay_cycles.simps) (auto simp: Let_def)
  next
    case False
    then have "r = 0 \<or> r = 1" by (auto simp: word_le_nat_alt not_le unat_eq_zero)
    then have "unat r \<le> 1" by auto
    then show ?thesis using False by (subst delay_cycles.simps) (auto simp: Let_def)
  qed
qed

lemma unat_mul_add_small:
  fixes x y z :: u32
  assumes "unat x * unat y + unat z < 4294967296"
  shows "unat (x * y + z) = unat x * unat y + unat z"
  using assms by (simp add: unat_word_ariths(1,2))

lemma mult_div_le: "x \<le> 65535 \<Longrightarrow> y < 1000 \<Longrightarrow> x * y \<le> 65469465" for x y :: nat
  using mult_le_mono [of x 65535 y 999] by simp

lemma power_cases:
  obtains "CPU_FREQ_POWER freq = 3" | "CPU_FREQ_POWER freq = 4" | "CPU_FREQ_POWER freq = 5"
    | "CPU_FREQ_POWER freq = 6" | "CPU_FREQ_POWER freq = 7" | "CPU_FREQ_POWER freq = 8"
  unfolding CPU_FREQ_POWER_def by (cases "freq < 1000"; cases "freq < 10000"; cases "freq < 100000";
    cases "freq < 1000000"; cases "freq < 10000000") simp_all

lemma freq_div_unit:
  assumes "unat freq < 100000000" and "d = 10 ^ (unat (CPU_FREQ_POWER freq) - 3)"
  shows "unat freq div d < 1000"
  using assms by (auto simp: CPU_FREQ_POWER_def word_less_nat_alt split: if_splits)

lemma cycles_us:
  assumes "unat freq < 100000000" and "d = 10 ^ (unat (CPU_FREQ_POWER freq) - 3)"
  shows "unat (get_cycles_for_us_internal us freq (CPU_FREQ_POWER freq))
    = (unat us * (unat freq div d) + (3000000 div d - 1)) div (3000000 div d)"
proof -
  have "unat us \<le> 65535" using u16_lt [of us] by linarith
  from mult_div_le [OF this freq_div_unit [OF assms]]
  have "unat us * (unat freq div d) \<le> 65469465" .
  then show ?thesis
    by (cases freq rule: power_cases)
      (simp_all add: assms(2) get_cycles_for_us_internal_def unat_div unat_mul_add_small)
qed

lemma cycles_ms:
  assumes "unat freq < 100000000" and "d = 10 ^ (unat (CPU_FREQ_POWER freq) - 3)"
  shows "unat (get_cycles_for_ms_internal ms freq (CPU_FREQ_POWER freq))
    = (if d \<le> 1000 then (unat ms * (unat freq div d) + (3000 div d - 1)) div (3000 div d)
       else (unat ms * (unat freq div d) + 2) div 3 * (d div 1000))"
proof -
  have "unat ms \<le> 65535" using u16_lt [of ms] by linarith
  from mult_div_le [OF this freq_div_unit [OF assms]]
  have le: "unat ms * (unat freq div d) \<le> 65469465" .
  then have "(unat ms * (unat freq div d) + 2) div 3 \<le> 21823155" by simp
  then show ?thesis using le
    by (cases freq rule: power_cases)
      (simp_all add: assms(2) get_cycles_for_ms_internal_def unat_div unat_mul_add_small unat_word_ariths(2))
qed

lemma ceil_bounds: "0 < n \<Longrightarrow> x \<le> (x + (n - 1)) div n * n \<and> (x + (n - 1)) div n * n < x + n" for x n :: nat
  using div_mult_mod_eq [of "x + (n - 1)" n] mod_less_divisor [of n "x + (n - 1)"] by linarith

text \<open>
  For every clock the firmware can be compiled for, the turns of the delay loop, at three
  cycles each, take at least the requested time, where the part of the frequency below
  the unit of the computation is dropped, and at most three cycles (in microseconds) or 300
  cycles (in milliseconds) more; the products do not overflow for any request.
\<close>

theorem delay_lasts:
  assumes "unat freq < 100000000" and "d = 10 ^ (unat (CPU_FREQ_POWER freq) - 3)"
    and "c_us = unat (get_cycles_for_us_internal us freq (CPU_FREQ_POWER freq))"
    and "c_ms = unat (get_cycles_for_ms_internal ms freq (CPU_FREQ_POWER freq))"
  shows "unat us * (unat freq div d * d) \<le> 3 * c_us * 1000000 \<and> 3 * c_us * 1000000 < unat us * (unat freq div d * d) + 3 * 1000000
    \<and> unat ms * (unat freq div d * d) \<le> 3 * c_ms * 1000 \<and> 3 * c_ms * 1000 < unat ms * (unat freq div d * d) + 300 * 1000"
proof -
  have d: "d \<in> {1, 10, 100, 1000, 10000, 100000}"
    using assms(2) by (auto simp: CPU_FREQ_POWER_def)
  show ?thesis
    using d unfolding assms(3,4) cycles_us [OF assms(1,2)] cycles_ms [OF assms(1,2)]
    using ceil_bounds [of "3000000 div d" "unat us * (unat freq div d)"]
      ceil_bounds [of "3000 div d" "unat ms * (unat freq div d)"] ceil_bounds [of 3 "unat ms * (unat freq div d)"]
    by auto
qed

lemma delay_lasts_witness:
  "48000 * 200 \<le> 3 * unat (get_cycles_for_ms_internal 200 48000000 8)
    \<and> 48 * 7 \<le> 3 * unat (get_cycles_for_us_internal 7 48000000 8)"
proof -
  have p: "CPU_FREQ_POWER 48000000 = 8" by (simp add: CPU_FREQ_POWER_def)
  have "unat (48000000 :: u32) < 100000000" "(100000 :: nat) = 10 ^ (unat (CPU_FREQ_POWER 48000000) - 3)" by (simp_all add: p)
  from delay_lasts [OF this refl refl, of 7 200] show ?thesis unfolding p by simp
qed

text \<open>At the firmware's 48 MHz the times are exact, but a delay of nothing is one turn.\<close>

lemma hal_delay_turns: "hal_delay_us us = max 1 (16 * unat us)" "hal_delay_ms ms = max 1 (16000 * unat ms)"
proof -
  have p: "CPU_FREQ_POWER CONF_CPU_FREQUENCY = 8" by (simp add: CPU_FREQ_POWER_def CONF_CPU_FREQUENCY_def)
  have f: "unat CONF_CPU_FREQUENCY < 100000000" "(100000 :: nat) = 10 ^ (unat (CPU_FREQ_POWER CONF_CPU_FREQUENCY) - 3)"
    by (simp_all add: p) (simp_all add: CONF_CPU_FREQUENCY_def)
  have q: "unat CONF_CPU_FREQUENCY div 100000 = 480" by (simp add: CONF_CPU_FREQUENCY_def)
  have ceil: "(unat ms * 480 + 2) div 3 = unat ms * 160" by simp
  show "hal_delay_us us = max 1 (16 * unat us)"
    using cycles_us [OF f, of us] by (simp add: hal_delay_us_def delay_cycles_turns get_cycles_for_us_def q)
  show "hal_delay_ms ms = max 1 (16000 * unat ms)"
    using cycles_ms [OF f, of ms] ceil by (simp add: hal_delay_ms_def delay_cycles_turns get_cycles_for_ms_def q)
qed

subsection \<open>Interrupt lines\<close>

abbreviation (input) PERIPH_COUNT_IRQn :: u8 where "PERIPH_COUNT_IRQn \<equiv> 28"

definition irq_get_current :: "u32 \<Rightarrow> u8" where
  \<comment> \<open>from the exception number in \<open>IPSR\<close>\<close>
  "irq_get_current ipsr = ucast ipsr - 16"

definition irq_bit :: "u8 \<Rightarrow> u32" where
  \<comment> \<open>\<open>1 << ((uint32_t)(IRQn) & 0x1F)\<close> of the CMSIS accessors\<close>
  "irq_bit n = push_bit (unat n mod 32) 1"

definition irq_disable :: "'h soc_bus \<Rightarrow> u8 \<Rightarrow> 'h soc_state \<Rightarrow> 'h soc_state" where
  "irq_disable b n s = soc_write b NVIC_ICER (irq_bit n) s"

definition irq_set :: "'h soc_bus \<Rightarrow> u8 \<Rightarrow> 'h soc_state \<Rightarrow> 'h soc_state" where
  "irq_set b n s = soc_write b NVIC_ISPR (irq_bit n) s"

definition irq_clear :: "'h soc_bus \<Rightarrow> u8 \<Rightarrow> 'h soc_state \<Rightarrow> 'h soc_state" where
  "irq_clear b n s = soc_write b NVIC_ICPR (irq_bit n) s"

definition irq_enable :: "'h soc_bus \<Rightarrow> u8 \<Rightarrow> 'h soc_state \<Rightarrow> 'h soc_state" where
  "irq_enable b n s = soc_write b NVIC_ISER (irq_bit n) s"

definition irq_register :: "bool \<Rightarrow> u8 \<Rightarrow> ptr \<Rightarrow> 'h soc_state \<Rightarrow> 'h soc_state option" where
  \<comment> \<open>without \<open>DEBUG\<close> a number that is not a line is written past the table: that is \<open>None\<close> as well\<close>
  "irq_register debug n irq s =
     c_assert debug (Some (n < PERIPH_COUNT_IRQn))
       (if n < PERIPH_COUNT_IRQn then Some (s\<lparr>irq_table := (irq_table s)(n := irq)\<rparr>) else None)"

subsection \<open>Critical sections\<close>

definition atomic_enter_critical :: "'h soc_state \<Rightarrow> u32 \<times> 'h soc_state" where
  \<comment> \<open>the first result is what is stored in \<open>*atomic\<close>\<close>
  "atomic_enter_critical s = (primask s, s\<lparr>primask := 1\<rparr>)"

definition atomic_leave_critical :: "u32 \<Rightarrow> 'h soc_state \<Rightarrow> 'h soc_state" where
  "atomic_leave_critical atomic s = s\<lparr>primask := atomic AND 1\<rparr>"

definition critical :: "('h soc_state \<Rightarrow> 'x \<times> 'h soc_state) \<Rightarrow> 'h soc_state \<Rightarrow> 'x \<times> 'h soc_state" where
  \<comment> \<open>\<open>CRITICAL_SECTION_ENTER() .. CRITICAL_SECTION_LEAVE()\<close> around \<open>body\<close>\<close>
  "critical body s =
     (case atomic_enter_critical s of (a, s) \<Rightarrow> case body s of (x, s) \<Rightarrow> (x, atomic_leave_critical a s))"

text \<open>Sections nest: the body runs masked, and a section leaves the mask as it found it.\<close>

lemma critical_restores:
  assumes "primask s \<in> {0, 1}"
  shows "primask (snd (critical body s)) = primask s" "fst (critical body s) = fst (body (s\<lparr>primask := 1\<rparr>))"
  using assms by (auto simp: critical_def atomic_enter_critical_def atomic_leave_critical_def split: prod.split)

subsection \<open>Sleep\<close>

definition set_sleep_mode :: "'h soc_bus \<Rightarrow> u8 \<Rightarrow> 'h soc_state \<Rightarrow> rc \<times> 'h soc_state" where
  "set_sleep_mode b mode s =
     (if mode = 0 \<or> mode = 1 \<or> mode = 2 then
        (let s = soc_modify b SCB_SCR (\<lambda>v. v AND NOT 4) s;
             s = soc_write b PM_SLEEP (ucast mode) s
         in (ERR_NONE, s))
      else if mode = 3 then (ERR_NONE, soc_modify b SCB_SCR (\<lambda>v. v OR 4) s)
      else (ERR_INVALID_ARG, s))"

definition hal_sleep :: "'h soc_bus \<Rightarrow> ('h soc_state \<Rightarrow> 'h soc_state) \<Rightarrow> u8 \<Rightarrow> 'h soc_state \<Rightarrow> rc \<times> 'h soc_state" where
  \<comment> \<open>\<open>wfi\<close>: the core waits for an interrupt\<close>
  "hal_sleep b wfi mode s =
     (case set_sleep_mode b mode s of
        (r, s) \<Rightarrow> if r \<noteq> ERR_NONE then (ERR_INVALID_ARG, s) else (ERR_NONE, wfi s))"

definition get_reset_reason :: "'h soc_bus \<Rightarrow> 'h soc_state \<Rightarrow> u32 \<times> 'h soc_state" where
  "get_reset_reason b s = soc_read b PM_RCAUSE s"

text \<open>Deep sleep is on exactly in standby, the one mode that needs it; an unknown mode does not sleep at all.\<close>

lemma sleep_mode_chosen:
  assumes "soc_ok b kept"
  shows "hal_sleep b (\<lambda>s. s) mode s = (rc, s') \<Longrightarrow>
    (if mode \<le> 3 then rc = ERR_NONE \<and> bit (kept (soc_hw s') SCB_SCR) 2 = (mode = 3)
       \<and> (mode < 3 \<longrightarrow> kept (soc_hw s') PM_SLEEP = ucast mode)
     else rc = ERR_INVALID_ARG \<and> s' = s)"
proof -
  have "unat mode \<le> 3 \<longleftrightarrow> unat mode = 0 \<or> unat mode = 1 \<or> unat mode = 2 \<or> unat mode = 3"
    "unat mode < 3 \<longleftrightarrow> unat mode = 0 \<or> unat mode = 1 \<or> unat mode = 2" by auto
  then have m: "mode \<le> 3 \<longleftrightarrow> mode = 0 \<or> mode = 1 \<or> mode = 2 \<or> mode = 3" "mode < 3 \<longleftrightarrow> mode = 0 \<or> mode = 1 \<or> mode = 2"
    unfolding word_le_nat_alt word_less_nat_alt word_unat_eq_iff by simp_all
  show "hal_sleep b (\<lambda>s. s) mode s = (rc, s') \<Longrightarrow> ?thesis"
    unfolding m by (auto simp: hal_sleep_def set_sleep_mode_def soc_ok_accesses [OF assms] soc_effect_def status_reg_def bit_simps)
qed

end
