(* ===== verification/Clocks.thy ===== *)
theory Clocks
  imports Core
begin

text \<open>
  Clocks: the bus clocks of \<open>hpl/pm/hpl_pm_base.h\<close> and \<open>hpl_pm.c\<close>, the generators of
  \<open>hpl/gclk/hpl_gclk.c\<close>, the oscillators of \<open>hpl/sysctrl/hpl_sysctrl.c\<close>, and their order in
  \<open>_init_chip\<close> of \<open>hpl/core/hpl_init.c\<close>.

  The configuration macros are the values of a function (\<open>cfg\<close>, \<open>gens\<close>): a preprocessor
  condition on them is a condition of the model, and \<open>powerlog_conf\<close> and \<open>powerlog_gens\<close> are
  the firmware's.  A macro that is not defined is 0 in a condition, as for the preprocessor.
\<close>

subsection \<open>Bus clocks\<close>

datatype pm_bus = PM_BUS_AHB | PM_BUS_APBA | PM_BUS_APBB | PM_BUS_APBC

definition pm_bus_value :: "pm_bus \<Rightarrow> u32" where
  "pm_bus_value bus = (case bus of PM_BUS_AHB \<Rightarrow> 0 | PM_BUS_APBA \<Rightarrow> 1 | PM_BUS_APBB \<Rightarrow> 2 | PM_BUS_APBC \<Rightarrow> 3)"

abbreviation (input) PAC1_base :: ptr where "PAC1_base \<equiv> 0x41000000"
abbreviation (input) DSU_base :: ptr where "DSU_base \<equiv> 0x41002000"
abbreviation (input) NVMCTRL_base :: ptr where "NVMCTRL_base \<equiv> 0x41004000"
abbreviation (input) PORT_base :: ptr where "PORT_base \<equiv> 0x41004400"
abbreviation (input) DMAC_base :: ptr where "DMAC_base \<equiv> 0x41004800"
abbreviation (input) USB_base :: ptr where "USB_base \<equiv> 0x41005000"

definition pm_get_ahb_index :: "ptr \<Rightarrow> int" where
  "pm_get_ahb_index module =
     (if module = pm_bus_value PM_BUS_APBA then 0
      else if module = pm_bus_value PM_BUS_APBB then 1
      else if module = pm_bus_value PM_BUS_APBC then 2
      else if module = DSU_base then 3
      else if module = NVMCTRL_base then 4
      else if module = DMAC_base then 5
      else if module = USB_base then 6
      else ERR_INVALID_ARG)"

definition pm_get_apbb_index :: "ptr \<Rightarrow> int" where
  "pm_get_apbb_index module =
     (if module = PAC1_base then 0
      else if module = DSU_base then 1
      else if module = NVMCTRL_base then 2
      else if module = PORT_base then 3
      else if module = DMAC_base then 4
      else if module = USB_base then 5
      else ERR_INVALID_ARG)"

definition peripheral_index :: "ptr \<Rightarrow> u32" where
  "peripheral_index module = drop_bit 10 (module AND 0xFF00)"

definition pm_enable_bus_clock :: "'h soc_bus \<Rightarrow> pm_bus \<Rightarrow> ptr \<Rightarrow> 'h soc_state \<Rightarrow> 'h soc_state" where
  \<comment> \<open>a shift of 32 or more, which C leaves undefined, sets no bit\<close>
  "pm_enable_bus_clock b bus module s =
     (case bus of
        PM_BUS_AHB \<Rightarrow>
          if 0 \<le> pm_get_ahb_index module then soc_modify b PM_AHBMASK (set_bits True (push_bit (nat (pm_get_ahb_index module)) 1)) s else s
      | PM_BUS_APBA \<Rightarrow> soc_modify b PM_APBAMASK (set_bits True (push_bit (unat (peripheral_index module)) 1)) s
      | PM_BUS_APBB \<Rightarrow>
          if 0 \<le> pm_get_apbb_index module then soc_modify b PM_APBBMASK (set_bits True (push_bit (nat (pm_get_apbb_index module)) 1)) s else s
      | PM_BUS_APBC \<Rightarrow> soc_modify b PM_APBCMASK (set_bits True (push_bit (unat (peripheral_index module)) 1)) s)"

definition pm_disable_bus_clock :: "'h soc_bus \<Rightarrow> pm_bus \<Rightarrow> ptr \<Rightarrow> 'h soc_state \<Rightarrow> 'h soc_state" where
  "pm_disable_bus_clock b bus module s =
     (case bus of
        PM_BUS_AHB \<Rightarrow>
          if 0 \<le> pm_get_ahb_index module then soc_modify b PM_AHBMASK (set_bits False (push_bit (nat (pm_get_ahb_index module)) 1)) s else s
      | PM_BUS_APBA \<Rightarrow> soc_modify b PM_APBAMASK (set_bits False (push_bit (unat (peripheral_index module)) 1)) s
      | PM_BUS_APBB \<Rightarrow>
          if 0 \<le> pm_get_apbb_index module then soc_modify b PM_APBBMASK (set_bits False (push_bit (nat (pm_get_apbb_index module)) 1)) s else s
      | PM_BUS_APBC \<Rightarrow> soc_modify b PM_APBCMASK (set_bits False (push_bit (unat (peripheral_index module)) 1)) s)"

subsection \<open>Configuration\<close>

type_synonym conf = "string \<Rightarrow> u32" \<comment> \<open>the value of a configuration macro, by its name\<close>

record gen_conf =
  gen_config :: u32
  gen_runstdby :: u32
  gen_divsel :: u32
  gen_oe :: u32
  gen_oov :: u32
  gen_idc :: u32
  gen_src :: u32
  gen_div :: u32

definition field :: "nat \<Rightarrow> nat \<Rightarrow> u32 \<Rightarrow> u32" where
  \<comment> \<open>the bit-field macros: \<open>(v << pos) & mask\<close> for a field of \<open>n\<close> bits\<close>
  "field pos n v = push_bit pos v AND push_bit pos (mask n)"

lemma field_read:
  "pos + n \<le> 32 \<Longrightarrow> take_bit n (drop_bit pos (v OR field pos n w)) = take_bit n (drop_bit pos v) OR take_bit n w" for v w :: u32
  by (rule bit_word_eqI) (auto simp: field_def bit_simps)

subsection \<open>Power manager\<close>

definition pm_init :: "'h soc_bus \<Rightarrow> conf \<Rightarrow> 'h soc_state \<Rightarrow> 'h soc_state" where
  "pm_init b cfg s =
     (let s = soc_modify b PM_CPUSEL (\<lambda>v. v OR field 0 3 (cfg ''CONF_CPU_DIV'')) s;
          s = soc_modify b PM_APBASEL (\<lambda>v. v OR field 0 3 (cfg ''CONF_APBA_DIV'')) s;
          s = soc_modify b PM_APBBSEL (\<lambda>v. v OR field 0 3 (cfg ''CONF_APBB_DIV'')) s
      in soc_modify b PM_APBCSEL (\<lambda>v. v OR field 0 3 (cfg ''CONF_APBC_DIV'')) s)"

subsection \<open>Generators\<close>

definition gclk_enable_channel :: "'h soc_bus \<Rightarrow> u8 \<Rightarrow> u8 \<Rightarrow> 'h soc_state \<Rightarrow> 'h soc_state" where
  "gclk_enable_channel b channel source s =
     soc_write b GCLK_CLKCTRL (field 0 6 (ucast channel) OR field 8 4 (ucast source) OR push_bit 14 1) s"

definition genctrl_value :: "gen_conf \<Rightarrow> nat \<Rightarrow> u32" where
  "genctrl_value g i =
     push_bit 21 (gen_runstdby g) OR push_bit 20 (gen_divsel g) OR push_bit 19 (gen_oe g) OR push_bit 18 (gen_oov g)
     OR push_bit 17 (gen_idc g) OR push_bit 16 (gen_config g) OR gen_src g OR field 0 4 (of_nat i)"

definition gclk_init_generator :: "'h soc_bus \<Rightarrow> gen_conf \<Rightarrow> nat \<Rightarrow> 'h soc_state \<Rightarrow> 'h soc_state option" where
  \<comment> \<open>the block of one generator, with the wait of \<open>hri_gclk_write_GENCTRL_reg\<close>\<close>
  "gclk_init_generator b g i s =
     (let s = soc_write b GCLK_GENDIV (field 8 16 (gen_div g) OR field 0 4 (of_nat i)) s;
          s = soc_write b GCLK_GENCTRL (genctrl_value g i) s
      in soc_wait b GCLK_STATUS (\<lambda>v. \<not> bit v 7) s)"

primrec gclk_init_from :: "'h soc_bus \<Rightarrow> (nat \<Rightarrow> gen_conf) \<Rightarrow> (nat \<Rightarrow> bool) \<Rightarrow> nat list \<Rightarrow> 'h soc_state \<Rightarrow> 'h soc_state option" where
  \<comment> \<open>the blocks of the generators that are left; \<open>sel\<close> is the run-time condition of a block\<close>
  "gclk_init_from b gens sel [] s = Some s"
| "gclk_init_from b gens sel (i # is) s =
     (if gen_config (gens i) = 1 \<and> sel i
      then Option.bind (gclk_init_generator b (gens i) i s) (gclk_init_from b gens sel is)
      else gclk_init_from b gens sel is s)"

definition gclk_init_generators :: "'h soc_bus \<Rightarrow> (nat \<Rightarrow> gen_conf) \<Rightarrow> 'h soc_state \<Rightarrow> 'h soc_state option" where
  "gclk_init_generators b gens s = gclk_init_from b gens (\<lambda>i. True) [0..<9] s"

definition gclk_init_generators_by_fref :: "'h soc_bus \<Rightarrow> (nat \<Rightarrow> gen_conf) \<Rightarrow> u32 \<Rightarrow> 'h soc_state \<Rightarrow> 'h soc_state option" where
  "gclk_init_generators_by_fref b gens bm s = gclk_init_from b gens (\<lambda>i. bit bm i) [0..<9] s"

subsection \<open>Oscillators\<close>

definition dfll_val :: "'h soc_bus \<Rightarrow> conf \<Rightarrow> 'h soc_state \<Rightarrow> u32 \<times> 'h soc_state" where
  \<comment> \<open>\<open>CONF_DFLLVAL\<close> of \<open>hpl_sysctrl_config.h\<close>; the calibration word is a constant of the chip, and one
      read stands for the macro's two\<close>
  "dfll_val b cfg s =
     (if cfg ''CONF_DFLL_OVERWRITE_CALIBRATION'' = 0 then
        (case soc_read b NVM_OTP4_1 s of
           (v, s) \<Rightarrow>
             (let cal = take_bit 6 (drop_bit 26 v)
              in (field 10 6 (if cal = 0x3F then 0x1F else cal) OR field 0 10 512, s)))
      else (field 10 6 (cfg ''CONF_DFLL_COARSE'') OR field 0 10 (cfg ''CONF_DFLL_FINE''), s))"

definition osc8m_config :: "'h soc_bus \<Rightarrow> conf \<Rightarrow> 'h soc_state \<Rightarrow> 'h soc_state" where
  "osc8m_config b cfg s =
     (case soc_read b SYSCTRL_OSC8M s of
        (v, s) \<Rightarrow>
          (let calib = take_bit 16 (take_bit 12 (drop_bit 16 v)) in
           case soc_read b SYSCTRL_OSC8M s of
             (w, s) \<Rightarrow>
               soc_write b SYSCTRL_OSC8M
                 (field 30 2 (take_bit 2 (drop_bit 30 w))
                  OR field 16 12 (if cfg ''CONF_OSC8M_OVERWRITE_CALIBRATION'' = 1 then cfg ''CONF_OSC8M_CALIB'' else calib)
                  OR field 8 2 (cfg ''CONF_OSC8M_PRESC'') OR push_bit 6 (cfg ''CONF_OSC8M_RUNSTDBY'')
                  OR push_bit 1 (cfg ''CONF_OSC8M_ENABLE'')) s))"

definition osc32k_config :: "'h soc_bus \<Rightarrow> conf \<Rightarrow> 'h soc_state \<Rightarrow> 'h soc_state" where
  "osc32k_config b cfg s =
     (if cfg ''CONF_OSC32K_CONFIG'' = 1 then
        (case soc_read b SYSCTRL_OSC32K s of
           (v, s) \<Rightarrow>
             (let calib = take_bit 7 (drop_bit 16 v) in
              soc_write b SYSCTRL_OSC32K
                (field 16 7 (if cfg ''CONF_OSC32K_OVERWRITE_CALIBRATION'' = 1 then cfg ''CONF_OSC32K_CALIB'' else calib)
                 OR push_bit 12 (cfg ''CONF_OSC32K_WRTLOCK'') OR field 8 3 (cfg ''CONF_OSC32K_STARTUP'')
                 OR push_bit 6 (cfg ''CONF_OSC32K_RUNSTDBY'') OR push_bit 3 (cfg ''CONF_OSC32K_EN1K'')
                 OR push_bit 2 (cfg ''CONF_OSC32K_EN32K'') OR push_bit 1 1) s))
      else soc_modify b SYSCTRL_OSC32K (\<lambda>v. v OR 2) s)"

definition osculp32k_config :: "'h soc_bus \<Rightarrow> conf \<Rightarrow> 'h soc_state \<Rightarrow> 'h soc_state" where
  "osculp32k_config b cfg s =
     (if cfg ''CONF_OSCULP32K_CONFIG'' = 1 then
        (case soc_read b SYSCTRL_OSCULP32K s of
           (v, s) \<Rightarrow>
             (let calib = take_bit 5 v in
              soc_write b SYSCTRL_OSCULP32K
                (field 0 5 (if cfg ''OSC32K_OVERWRITE_CALIBRATION'' = 1 then cfg ''CONF_OSCULP32K_CALIB'' else calib)
                 OR push_bit 7 (cfg ''CONF_OSC32K_WRTLOCK'')) s))
      else s)"

definition wait_if :: "bool \<Rightarrow> 'h soc_bus \<Rightarrow> soc_reg \<Rightarrow> (u32 \<Rightarrow> bool) \<Rightarrow> 'h soc_state \<Rightarrow> 'h soc_state option" where
  "wait_if c b r cond s = (if c then soc_wait b r cond s else Some s)"

definition set_if :: "bool \<Rightarrow> 'h soc_bus \<Rightarrow> soc_reg \<Rightarrow> u32 \<Rightarrow> 'h soc_state \<Rightarrow> 'h soc_state" where
  "set_if c b r bits s = (if c then soc_modify b r (\<lambda>v. v OR bits) s else s)"

definition sysctrl_ready :: "'h soc_bus \<Rightarrow> conf \<Rightarrow> 'h soc_state \<Rightarrow> 'h soc_state option" where
  \<comment> \<open>the waits of \<open>_sysctrl_init_sources\<close>, and the on-demand bits after each\<close>
  "sysctrl_ready b cfg s =
     (let on = (\<lambda>m. cfg m = 1);
          xosc32k = on ''CONF_XOSC32K_CONFIG''; xosc = on ''CONF_XOSC_CONFIG'';
          osc32k = on ''CONF_OSC32K_CONFIG''; osc8m = on ''CONF_OSC8M_CONFIG'' in
      Option.bind (wait_if (xosc32k \<and> on ''CONF_XOSC32K_ENABLE'') b SYSCTRL_PCLKSR (\<lambda>v. bit v 1) s) (\<lambda>s.
      let s = set_if (xosc32k \<and> on ''CONF_XOSC32K_ONDEMAND'') b SYSCTRL_XOSC32K 0x80 s in
      Option.bind (wait_if (xosc \<and> on ''CONF_XOSC_ENABLE'') b SYSCTRL_PCLKSR (\<lambda>v. bit v 0) s) (\<lambda>s.
      let s = set_if (xosc \<and> on ''CONF_XOSC_AMPGC'') b SYSCTRL_XOSC 0x800 s;
          s = set_if (xosc \<and> on ''CONF_XOSC_ONDEMAND'') b SYSCTRL_XOSC 0x80 s in
      Option.bind (wait_if (osc32k \<and> on ''CONF_OSC32K_ENABLE'') b SYSCTRL_PCLKSR (\<lambda>v. bit v 2) s) (\<lambda>s.
      let s = set_if (osc32k \<and> on ''CONF_OSC32K_ONDEMAND'') b SYSCTRL_OSC32K 0x80 s in
      Option.bind (wait_if (osc8m \<and> on ''CONF_OSC8M_ENABLE'') b SYSCTRL_PCLKSR (\<lambda>v. bit v 3) s) (\<lambda>s.
      Some (set_if (osc8m \<and> on ''CONF_OSC8M_ONDEMAND'') b SYSCTRL_OSC8M 0x80 s))))))"

definition sysctrl_init_sources :: "'h soc_bus \<Rightarrow> conf \<Rightarrow> 'h soc_state \<Rightarrow> 'h soc_state option" where
  "sysctrl_init_sources b cfg s =
     (let s = (if cfg ''CONF_XOSC32K_CONFIG'' = 1
               then soc_write b SYSCTRL_XOSC32K
                      (push_bit 12 (cfg ''CONF_XOSC32K_WRTLOCK'') OR field 8 3 (cfg ''CONF_XOSC32K_STARTUP'')
                       OR push_bit 6 (cfg ''CONF_XOSC32K_RUNSTDBY'') OR push_bit 5 (cfg ''CONF_XOSC32K_AAMPEN'')
                       OR push_bit 4 (cfg ''CONF_XOSC32K_EN1K'') OR push_bit 3 (cfg ''CONF_XOSC32K_EN32K'')
                       OR push_bit 2 (cfg ''CONF_XOSC32K_XTALEN'') OR push_bit 1 (cfg ''CONF_XOSC32K_ENABLE'')) s
               else s);
          s = (if cfg ''CONF_XOSC_CONFIG'' = 1
               then soc_write b SYSCTRL_XOSC
                      (field 12 4 (cfg ''CONF_XOSC_STARTUP'') OR push_bit 11 0 OR field 8 3 (cfg ''CONF_XOSC_GAIN'')
                       OR push_bit 6 (cfg ''CONF_XOSC_RUNSTDBY'') OR push_bit 2 (cfg ''CONF_XOSC_XTALEN'')
                       OR push_bit 1 (cfg ''CONF_XOSC_ENABLE'')) s
               else s);
          s = (if cfg ''CONF_OSC8M_CONFIG'' = 1 then osc8m_config b cfg s else s);
          s = osc32k_config b cfg s;
          s = osculp32k_config b cfg s
      in sysctrl_ready b cfg s)"

subsection \<open>The DFLL and the DPLL\<close>

definition clkctrl_value :: "u32 \<Rightarrow> u32 \<Rightarrow> u32" where
  "clkctrl_value i gen = field 0 6 i OR field 8 4 gen OR push_bit 14 1"

definition dfll_control :: "conf \<Rightarrow> u32" where
  \<comment> \<open>\<open>tmp\<close>\<close>
  "dfll_control cfg =
     push_bit 11 (cfg ''CONF_DFLL_WAITLOCK'') OR push_bit 10 (cfg ''CONF_DFLL_BPLCKC'') OR push_bit 9 (cfg ''CONF_DFLL_QLDIS'')
     OR push_bit 8 (cfg ''CONF_DFLL_CCDIS'') OR push_bit 6 (cfg ''CONF_DFLL_RUNSTDBY'') OR push_bit 5 (cfg ''CONF_DFLL_USBCRM'')
     OR push_bit 4 (cfg ''CONF_DFLL_LLAW'') OR push_bit 3 (cfg ''CONF_DFLL_STABLE'') OR push_bit 2 (cfg ''CONF_DFLL_MODE'')
     OR push_bit 1 (cfg ''CONF_DFLL_ENABLE'')"

definition dfll_config :: "'h soc_bus \<Rightarrow> conf \<Rightarrow> 'h soc_state \<Rightarrow> 'h soc_state option" where
  "dfll_config b cfg s =
     (let s = (if cfg ''CONF_DFLL_USBCRM'' \<noteq> 1 \<and> cfg ''CONF_DFLL_MODE'' \<noteq> 0
               then soc_write b GCLK_CLKCTRL (clkctrl_value 0 (cfg ''CONF_DFLL_GCLK'')) s else s);
          s = soc_write b SYSCTRL_DFLLCTRL 2 s
      in Option.bind (soc_wait b SYSCTRL_PCLKSR (\<lambda>v. bit v 4) s) (\<lambda>s.
         let s = soc_write b SYSCTRL_DFLLMUL
                   (field 26 6 (cfg ''CONF_DFLL_CSTEP'') OR field 16 10 (cfg ''CONF_DFLL_FSTEP'') OR field 0 16 (cfg ''CONF_DFLL_MUL'')) s
         in case dfll_val b cfg s of
              (v, s) \<Rightarrow> Some (soc_write b SYSCTRL_DFLLCTRL (dfll_control cfg) (soc_write b SYSCTRL_DFLLVAL v s))))"

definition dpll_config :: "'h soc_bus \<Rightarrow> conf \<Rightarrow> 'h soc_state \<Rightarrow> 'h soc_state" where
  "dpll_config b cfg s =
     (let s = (if cfg ''CONF_DPLL_REFCLK'' = 2 then soc_write b GCLK_CLKCTRL (clkctrl_value 1 (cfg ''CONF_DPLL_GCLK'')) s else s);
          s = soc_write b SYSCTRL_DPLLCTRLA (push_bit 6 (cfg ''CONF_DPLL_RUNSTDBY'') OR push_bit 1 (cfg ''CONF_DPLL_ENABLE'')) s;
          s = soc_write b SYSCTRL_DPLLRATIO (field 16 4 (cfg ''CONF_DPLL_LDRFRAC'') OR field 0 12 (cfg ''CONF_DPLL_LDR'')) s
      in soc_write b SYSCTRL_DPLLCTRLB
           (field 16 11 (cfg ''CONF_DPLL_DIV'') OR push_bit 12 (cfg ''CONF_DPLL_LBYPASS'') OR field 8 3 (cfg ''CONF_DPLL_LTIME'')
            OR field 4 2 (cfg ''CONF_DPLL_REFCLK'') OR push_bit 3 (cfg ''CONF_DPLL_WUF'') OR push_bit 2 (cfg ''CONF_DPLL_LPEN'')
            OR field 0 2 (cfg ''CONF_DPLL_FILTER'')) s)"

definition dfll_ready :: "'h soc_bus \<Rightarrow> conf \<Rightarrow> 'h soc_state \<Rightarrow> 'h soc_state option" where
  "dfll_ready b cfg s =
     (if cfg ''CONF_DFLL_ENABLE'' = 1 then
        (case soc_read b SYSCTRL_DFLLCTRL s of
           (v, s) \<Rightarrow>
             if bit v 2 then
               (let status_mask = (if cfg ''CONF_DFLL_USBCRM'' = 0 then 0xD0 else 0x10)
                in soc_wait b SYSCTRL_PCLKSR (\<lambda>v. v AND status_mask = status_mask) s)
             else soc_wait b SYSCTRL_PCLKSR (\<lambda>v. bit v 4) s)
      else Some s)"

definition sysctrl_init_referenced_generators :: "'h soc_bus \<Rightarrow> conf \<Rightarrow> 'h soc_state \<Rightarrow> 'h soc_state option" where
  "sysctrl_init_referenced_generators b cfg s =
     (let dfll = (cfg ''CONF_DFLL_CONFIG'' = 1); dpll = (cfg ''CONF_DPLL_CONFIG'' = 1) in
      Option.bind (if dfll then dfll_config b cfg s else Some s) (\<lambda>s.
      let s = (if dpll then dpll_config b cfg s else s) in
      Option.bind (if dfll then dfll_ready b cfg s else Some s) (\<lambda>s.
      let s = set_if (dfll \<and> cfg ''CONF_DFLL_ONDEMAND'' = 1) b SYSCTRL_DFLLCTRL 0x80 s in
      Option.bind (wait_if (dpll \<and> cfg ''CONF_DPLL_ENABLE'' = 1) b SYSCTRL_DPLLSTATUS (\<lambda>v. bit v 2 \<or> bit v 0 \<or> bit v 1) s) (\<lambda>s.
      let s = set_if (dpll \<and> cfg ''CONF_DPLL_ONDEMAND'' = 1) b SYSCTRL_DPLLCTRLA 0x80 s in
      Option.bind (wait_if dfll b GCLK_STATUS (\<lambda>v. \<not> bit v 7) s) (\<lambda>s.
      Some (if cfg ''CONF_OSC32K_CONFIG'' = 0 \<or> cfg ''CONF_OSC32K_ENABLE'' = 0
            then soc_modify b SYSCTRL_OSC32K (\<lambda>v. v AND NOT 2) s else s))))))"

subsection \<open>The chip\<close>

definition init_chip :: "'h soc_bus \<Rightarrow> conf \<Rightarrow> (nat \<Rightarrow> gen_conf) \<Rightarrow> 'h soc_state \<Rightarrow> 'h soc_state option" where
  \<comment> \<open>no generator is initialised first (\<open>_GCLK_INIT_1ST\<close> is 0), and the DMA controller is not enabled\<close>
  "init_chip b cfg gens s =
     (let s = soc_modify b NVM_CTRLB (\<lambda>v. v OR field 1 4 (cfg ''CONF_NVM_WAIT_STATE'')) s;
          s = pm_init b cfg s
      in Option.bind (sysctrl_init_sources b cfg s) (\<lambda>s.
         Option.bind (sysctrl_init_referenced_generators b cfg s) (\<lambda>s.
         gclk_init_generators_by_fref b gens 0xFF s)))"

subsection \<open>The configuration of the power logger\<close>

text \<open>
  The macros of \<open>hpl_pm_config.h\<close> and, a section for each clock source, of \<open>hpl_sysctrl_config.h\<close>, with the named values
  of the device headers written out.  \<open>CONF_DPLL_REFCLK\<close> is what the condition on \<open>CONF_DPLL_GCLK\<close> selects.
\<close>

definition conf_pm :: "(string \<times> u32) list" where
  "conf_pm =
    [(''CONF_SYSTEM_CONFIG'', 1), (''CONF_CPU_SRC'', 0), (''CONF_CPU_DIV'', 0), (''CONF_NVM_WAIT_STATE'', 1),
     (''CONF_APBA_DIV'', 0), (''CONF_APBB_DIV'', 0), (''CONF_APBC_DIV'', 0)]"

definition conf_osc8m :: "(string \<times> u32) list" where
  "conf_osc8m =
    [(''CONF_OSC8M_CONFIG'', 1), (''CONF_OSC8M_ENABLE'', 1), (''CONF_OSC8M_ONDEMAND'', 1),
     (''CONF_OSC8M_RUNSTDBY'', 0), (''CONF_OSC8M_PRESC'', 3), (''CONF_OSC8M_OVERWRITE_CALIBRATION'', 0),
     (''CONF_OSC8M_CALIB'', 0)]"

definition conf_osc32k :: "(string \<times> u32) list" where
  "conf_osc32k =
    [(''CONF_OSC32K_CONFIG'', 0), (''CONF_OSC32K_ENABLE'', 0), (''CONF_OSC32K_ONDEMAND'', 1),
     (''CONF_OSC32K_RUNSTDBY'', 0), (''CONF_OSC32K_EN32K'', 0), (''CONF_OSC32K_EN1K'', 0),
     (''CONF_OSC32K_WRTLOCK'', 0), (''CONF_OSC32K_STARTUP'', 0), (''CONF_OSC32K_OVERWRITE_CALIBRATION'', 0),
     (''CONF_OSC32K_CALIB'', 0)]"

definition conf_xosc32k :: "(string \<times> u32) list" where
  "conf_xosc32k =
    [(''CONF_XOSC32K_CONFIG'', 0), (''CONF_XOSC32K_ENABLE'', 0), (''CONF_XOSC32K_ONDEMAND'', 1),
     (''CONF_XOSC32K_RUNSTDBY'', 0), (''CONF_XOSC32K_EN1K'', 0), (''CONF_XOSC32K_EN32K'', 0),
     (''CONF_XOSC32K_XTALEN'', 0), (''CONF_XOSC32K_WRTLOCK'', 0), (''CONF_XOSC32K_AAMPEN'', 0),
     (''CONF_XOSC32K_STARTUP'', 0)]"

definition conf_xosc :: "(string \<times> u32) list" where
  "conf_xosc =
    [(''CONF_XOSC_CONFIG'', 0), (''CONF_XOSC_FREQUENCY'', 400000), (''CONF_XOSC_ENABLE'', 0),
     (''CONF_XOSC_ONDEMAND'', 1), (''CONF_XOSC_RUNSTDBY'', 0), (''CONF_XOSC_XTALEN'', 0), (''CONF_XOSC_AMPGC'', 0),
     (''CONF_XOSC_GAIN'', 0), (''CONF_XOSC_STARTUP'', 0)]"

definition conf_osculp32k :: "(string \<times> u32) list" where
  "conf_osculp32k =
    [(''CONF_OSCULP32K_CONFIG'', 1), (''CONF_OSCULP32K_WRTLOCK'', 0), (''CONF_OSCULP32K_OVERWRITE_CALIBRATION'', 0),
     (''CONF_OSCULP32K_CALIB'', 0)]"

definition conf_dfll :: "(string \<times> u32) list" where
  "conf_dfll =
    [(''CONF_DFLL_CONFIG'', 1), (''CONF_DFLL_GCLK'', 3), (''CONF_DFLL_ENABLE'', 1), (''CONF_DFLL_WAITLOCK'', 0),
     (''CONF_DFLL_BPLCKC'', 0), (''CONF_DFLL_QLDIS'', 0), (''CONF_DFLL_CCDIS'', 1), (''CONF_DFLL_ONDEMAND'', 0),
     (''CONF_DFLL_RUNSTDBY'', 0), (''CONF_DFLL_USBCRM'', 1), (''CONF_DFLL_LLAW'', 0), (''CONF_DFLL_STABLE'', 0),
     (''CONF_DFLL_MODE'', 1), (''CONF_DFLL_CSTEP'', 1), (''CONF_DFLL_FSTEP'', 1), (''CONF_DFLL_MUL'', 48000),
     (''CONF_DFLL_OVERWRITE_CALIBRATION'', 0), (''CONF_DFLL_COARSE'', 0x1F), (''CONF_DFLL_FINE'', 0x200)]"

definition conf_dpll :: "(string \<times> u32) list" where
  "conf_dpll =
    [(''CONF_DPLL_CONFIG'', 0), (''CONF_DPLL_GCLK'', 3), (''CONF_DPLL_REFCLK'', 2), (''CONF_DPLL_ONDEMAND'', 1),
     (''CONF_DPLL_RUNSTDBY'', 0), (''CONF_DPLL_ENABLE'', 0), (''CONF_DPLL_LBYPASS'', 0), (''CONF_DPLL_DIV'', 0),
     (''CONF_DPLL_LDRFRAC'', 13), (''CONF_DPLL_LDR'', 1463), (''CONF_DPLL_LTIME'', 0), (''CONF_DPLL_WUF'', 0),
     (''CONF_DPLL_LPEN'', 0), (''CONF_DPLL_FILTER'', 0)]"

definition powerlog_conf :: conf where
  "powerlog_conf m =
     (case map_of (conf_pm @ conf_osc8m @ conf_osc32k @ conf_xosc32k @ conf_xosc @ conf_osculp32k @ conf_dfll @ conf_dpll) m of
        None \<Rightarrow> 0 | Some v \<Rightarrow> v)"

lemmas powerlog_conf_defs = powerlog_conf_def conf_pm_def conf_osc8m_def conf_osc32k_def conf_xosc32k_def conf_xosc_def
  conf_osculp32k_def conf_dfll_def conf_dpll_def

text \<open>
  The generators of \<open>hpl_gclk_config.h\<close>: 0 from the DFLL, 1 from the 8 MHz oscillator by 8, 3 from the 32 kHz oscillator.
  No code reads \<open>CONF_GCLK_GEN_n_GENEN\<close>.
\<close>

definition gclk_gen_0 :: gen_conf where
  "gclk_gen_0 = \<lparr>gen_config = 1, gen_runstdby = 0, gen_divsel = 0, gen_oe = 0, gen_oov = 0, gen_idc = 0,
     gen_src = 0x700, gen_div = 1\<rparr>"

definition gclk_gen_1 :: gen_conf where
  "gclk_gen_1 = \<lparr>gen_config = 1, gen_runstdby = 0, gen_divsel = 0, gen_oe = 0, gen_oov = 0, gen_idc = 0,
     gen_src = 0x600, gen_div = 8\<rparr>"

definition gclk_gen_2 :: gen_conf where
  "gclk_gen_2 = \<lparr>gen_config = 0, gen_runstdby = 0, gen_divsel = 0, gen_oe = 0, gen_oov = 0, gen_idc = 0,
     gen_src = 0, gen_div = 1\<rparr>"

definition gclk_gen_3 :: gen_conf where
  "gclk_gen_3 = \<lparr>gen_config = 1, gen_runstdby = 0, gen_divsel = 0, gen_oe = 0, gen_oov = 0, gen_idc = 0,
     gen_src = 0x300, gen_div = 1\<rparr>"

definition gclk_gen_4 :: gen_conf where
  "gclk_gen_4 = \<lparr>gen_config = 0, gen_runstdby = 0, gen_divsel = 0, gen_oe = 0, gen_oov = 0, gen_idc = 0,
     gen_src = 0, gen_div = 1\<rparr>"

definition gclk_gen_5 :: gen_conf where
  "gclk_gen_5 = \<lparr>gen_config = 0, gen_runstdby = 0, gen_divsel = 0, gen_oe = 0, gen_oov = 0, gen_idc = 0,
     gen_src = 0, gen_div = 1\<rparr>"

definition gclk_gen_6 :: gen_conf where
  "gclk_gen_6 = \<lparr>gen_config = 0, gen_runstdby = 0, gen_divsel = 0, gen_oe = 0, gen_oov = 0, gen_idc = 0,
     gen_src = 0, gen_div = 1\<rparr>"

definition gclk_gen_7 :: gen_conf where
  "gclk_gen_7 = \<lparr>gen_config = 0, gen_runstdby = 0, gen_divsel = 0, gen_oe = 0, gen_oov = 0, gen_idc = 0,
     gen_src = 0, gen_div = 1\<rparr>"

definition powerlog_gens :: "nat \<Rightarrow> gen_conf" where
  "powerlog_gens i =
     (if i < 8 then [gclk_gen_0, gclk_gen_1, gclk_gen_2, gclk_gen_3, gclk_gen_4, gclk_gen_5, gclk_gen_6, gclk_gen_7] ! i
      else \<lparr>gen_config = 0, gen_runstdby = 0, gen_divsel = 0, gen_oe = 0, gen_oov = 0, gen_idc = 0, gen_src = 0, gen_div = 1\<rparr>)"

subsection \<open>What the chip's start leaves alone\<close>

definition clock_regs :: "soc_reg set" where
  \<comment> \<open>the registers that the start of the chip writes\<close>
  "clock_regs =
     {NVM_CTRLB, PM_CPUSEL, PM_APBASEL, PM_APBBSEL, PM_APBCSEL, GCLK_CLKCTRL, GCLK_GENDIV, GCLK_GENCTRL,
      SYSCTRL_OSC8M, SYSCTRL_OSC32K, SYSCTRL_OSCULP32K, SYSCTRL_XOSC32K, SYSCTRL_XOSC, SYSCTRL_DPLLCTRLA,
      SYSCTRL_DPLLCTRLB, SYSCTRL_DPLLRATIO, SYSCTRL_DFLLCTRL, SYSCTRL_DFLLMUL, SYSCTRL_DFLLVAL}"

text \<open>
  A property of the state that no read and no write of those registers can end is kept by the
  whole start.
\<close>

locale clock_closed =
  fixes b :: "'h soc_bus" and Q :: "'h soc_state \<Rightarrow> bool"
  assumes read_keeps: "Q s \<Longrightarrow> Q (snd (soc_read b r s))"
    and write_keeps: "r \<in> clock_regs \<Longrightarrow> Q s \<Longrightarrow> Q (soc_write b r v s)"
begin

lemma modify_keeps: "r \<in> clock_regs \<Longrightarrow> Q s \<Longrightarrow> Q (soc_modify b r f s)"
  by (simp add: soc_modify_def split_beta write_keeps read_keeps)

lemma set_if_keeps: "r \<in> clock_regs \<Longrightarrow> Q s \<Longrightarrow> Q (set_if c b r bits s)"
  by (simp add: set_if_def modify_keeps)

lemma wait_keeps: "soc_wait b r cond s = Some s' \<Longrightarrow> Q s \<Longrightarrow> Q s'"
  by (erule soc_wait_keeps) (blast intro: read_keeps)+

lemma wait_if_keeps: "wait_if c b r cond s = Some s' \<Longrightarrow> Q s \<Longrightarrow> Q s'"
  by (auto simp: wait_if_def wait_keeps split: if_splits)

lemmas keeps = read_keeps write_keeps modify_keeps set_if_keeps

lemma configs_keep:
  assumes "Q s"
  shows "Q (pm_init b cfg s)" "Q (osc8m_config b cfg s)" "Q (osc32k_config b cfg s)" "Q (osculp32k_config b cfg s)"
    "Q (dpll_config b cfg s)" "Q (snd (dfll_val b cfg s))"
  using assms
  by (simp_all add: pm_init_def osc8m_config_def osc32k_config_def osculp32k_config_def dpll_config_def dfll_val_def
      Let_def split_beta keeps clock_regs_def)

lemma sources_keep: "sysctrl_init_sources b cfg s = Some s' \<Longrightarrow> Q s \<Longrightarrow> Q s'"
  unfolding sysctrl_init_sources_def sysctrl_ready_def Let_def bind_eq_Some_conv
  by (elim exE conjE, (drule wait_if_keeps, simp add: keeps configs_keep clock_regs_def)+) (auto simp: keeps clock_regs_def)

lemma referenced_keep: "sysctrl_init_referenced_generators b cfg s = Some s' \<Longrightarrow> Q s \<Longrightarrow> Q s'"
proof -
  have dfll: "Q s'" if d: "dfll_config b cfg s = Some s'" and "Q s" for s s'
  proof -
    let ?s1 = "if cfg ''CONF_DFLL_USBCRM'' \<noteq> 1 \<and> cfg ''CONF_DFLL_MODE'' \<noteq> 0
      then soc_write b GCLK_CLKCTRL (clkctrl_value 0 (cfg ''CONF_DFLL_GCLK'')) s else s"
    obtain t v where "soc_wait b SYSCTRL_PCLKSR (\<lambda>v. bit v 4) (soc_write b SYSCTRL_DFLLCTRL 2 ?s1) = Some t"
      and s': "s' = soc_write b SYSCTRL_DFLLCTRL (dfll_control cfg)
        (soc_write b SYSCTRL_DFLLVAL (fst (dfll_val b cfg (soc_write b SYSCTRL_DFLLMUL v t))) (snd (dfll_val b cfg (soc_write b SYSCTRL_DFLLMUL v t))))"
      using d unfolding dfll_config_def Let_def bind_eq_Some_conv split_beta option.inject by blast
    then have "Q t" using that(2) by (auto dest!: wait_keeps simp: keeps clock_regs_def)
    then show ?thesis unfolding s' by (simp add: keeps configs_keep clock_regs_def)
  qed
  have ready: "Q s'" if "dfll_ready b cfg s = Some s'" "Q s" for s s'
  proof -
    have "s' = s \<or> (\<exists>cond. soc_wait b SYSCTRL_PCLKSR cond (snd (soc_read b SYSCTRL_DFLLCTRL s)) = Some s')"
      using that(1) unfolding dfll_ready_def split_beta Let_def
      by (cases "cfg ''CONF_DFLL_ENABLE'' = 1"; cases "bit (fst (soc_read b SYSCTRL_DFLLCTRL s)) 2") (simp_all, blast+)
    then show ?thesis using that(2) wait_keeps read_keeps by blast
  qed
  have dfll': "(if c then dfll_config b cfg s else Some s) = Some s' \<Longrightarrow> Q s \<Longrightarrow> Q s'"
    and ready': "(if c then dfll_ready b cfg s else Some s) = Some s' \<Longrightarrow> Q s \<Longrightarrow> Q s'" for c s s'
    using dfll ready by (cases c; simp)+
  show "sysctrl_init_referenced_generators b cfg s = Some s' \<Longrightarrow> Q s \<Longrightarrow> Q s'"
    unfolding sysctrl_init_referenced_generators_def Let_def bind_eq_Some_conv
    by (elim exE conjE, drule dfll', assumption, drule ready', simp add: configs_keep,
        (drule wait_if_keeps, simp add: keeps clock_regs_def)+) (auto simp: keeps clock_regs_def)
qed

lemma gclk_keep: "gclk_init_from b gens sel is s = Some s' \<Longrightarrow> Q s \<Longrightarrow> Q s'"
proof (induction "is" arbitrary: s)
  case (Cons i "is")
  have "Q t" if "gclk_init_generator b (gens i) i s = Some t" for t
    using wait_keeps [OF that [unfolded gclk_init_generator_def Let_def]] Cons.prems by (simp add: keeps clock_regs_def)
  then show ?case using Cons by (auto simp: bind_eq_Some_conv split: if_splits)
qed simp

lemma init_chip_keeps: "init_chip b cfg gens s = Some s' \<Longrightarrow> Q s \<Longrightarrow> Q s'"
  unfolding init_chip_def Let_def bind_eq_Some_conv gclk_init_generators_by_fref_def
  by (elim exE conjE, drule sources_keep, simp add: configs_keep keeps clock_regs_def)
    (blast dest: referenced_keep gclk_keep)

end

text \<open>One such property: what a register of another part of the chip holds.\<close>

lemma kept_elsewhere:
  assumes "soc_ok b kept" and "r' \<in> clock_regs" and "r \<notin> clock_regs"
  shows "kept (soc_hw (soc_write b r' v s)) r = kept (soc_hw s) r"
  using assms(2,3) by (auto simp: soc_ok_accesses(3) [OF assms(1)] soc_effect_def clock_regs_def)

interpretation elsewhere: clock_closed b "\<lambda>s. soc_ok b kept \<longrightarrow> r \<notin> clock_regs \<longrightarrow> kept (soc_hw s) r = x"
  for b :: "'h soc_bus" and kept r x
  by unfold_locales (auto simp: soc_ok_accesses(1) kept_elsewhere)

lemma init_chip_elsewhere:
  "init_chip b cfg gens s = Some s' \<Longrightarrow> soc_ok b kept \<Longrightarrow> r \<notin> clock_regs \<Longrightarrow> kept (soc_hw s') r = kept (soc_hw s) r"
  using elsewhere.init_chip_keeps [of b cfg gens s s' kept r "kept (soc_hw s) r"] by blast

subsection \<open>The switch to the fast clock\<close>

text \<open>
  What the accesses so far say of the core's clock: the flash has a wait state, the DFLL is
  enabled, it has reported ready since it was last configured, and whether generator 0 (the
  core's) was ever put on the DFLL without those three.
\<close>

record clock_mon =
  flash_waits :: bool
  dfll_on :: bool
  dfll_locked :: bool
  too_early :: bool

definition mon_step :: "clock_mon \<Rightarrow> soc_access \<Rightarrow> clock_mon" where
  "mon_step m a =
     (case a of
        Wr r v \<Rightarrow>
          if r = NVM_CTRLB then m\<lparr>flash_waits := take_bit 4 (drop_bit 1 v) \<noteq> 0\<rparr>
          else if r = SYSCTRL_DFLLCTRL then m\<lparr>dfll_on := bit v 1, dfll_locked := False\<rparr>
          else if r = GCLK_GENCTRL \<and> v AND 0xF = 0 \<and> v AND 0x1F00 = 0x700 \<and> \<not> (flash_waits m \<and> dfll_on m \<and> dfll_locked m)
            then m\<lparr>too_early := True\<rparr>
          else m
      | Rd r v \<Rightarrow> if r = SYSCTRL_PCLKSR \<and> bit v 4 then m\<lparr>dfll_locked := True\<rparr> else m)"

definition clock_monitor :: "soc_access list \<Rightarrow> clock_mon" where
  "clock_monitor = foldl mon_step \<lparr>flash_waits = False, dfll_on = False, dfll_locked = False, too_early = False\<rparr>"

definition mon :: "'h soc_state \<Rightarrow> clock_mon" where "mon s = clock_monitor (soc_log s)"

lemma mon_accesses [simp]:
  "mon (snd (soc_read b r s)) = mon_step (mon s) (Rd r (fst (soc_read b r s)))"
  "mon (soc_write b r v s) = mon_step (mon s) (Wr r v)"
  "mon (soc_modify b r f s) = mon_step (mon_step (mon s) (Rd r (fst (soc_read b r s)))) (Wr r (f (fst (soc_read b r s))))"
  by (simp_all add: mon_def clock_monitor_def)

lemma mon_quiet [simp]:
  "r \<noteq> SYSCTRL_PCLKSR \<Longrightarrow> mon_step m (Rd r v) = m"
  "r \<notin> {NVM_CTRLB, SYSCTRL_DFLLCTRL, GCLK_GENCTRL} \<Longrightarrow> mon_step m (Wr r v) = m"
  by (simp_all add: mon_step_def)

definition mon_grows :: "clock_mon \<Rightarrow> clock_mon \<Rightarrow> bool" where
  \<comment> \<open>only a report of the DFLL may have been added\<close>
  "mon_grows m m' \<longleftrightarrow> m' = m \<or> m' = m\<lparr>dfll_locked := True\<rparr>"

lemma mon_grows_trans: "mon_grows m m' \<Longrightarrow> mon_grows m' m'' \<Longrightarrow> mon_grows m m''"
  by (auto simp: mon_grows_def)

lemma mon_grows_read: "mon_grows m (mon_step m (Rd r v))"
  by (simp add: mon_grows_def mon_step_def)

lemma mon_reads: "mon_grows m (foldl mon_step m (map (Rd r) vs))"
  by (induction vs arbitrary: m) (simp add: mon_grows_def, metis foldl_Cons list.simps(9) mon_grows_trans mon_grows_read)

lemma mon_wait:
  assumes "soc_wait b r cond s = Some s'"
  shows "mon_grows (mon s) (mon s')"
    and "r \<noteq> SYSCTRL_PCLKSR \<Longrightarrow> mon s' = mon s"
    and "r = SYSCTRL_PCLKSR \<Longrightarrow> (\<forall>v. cond v \<longrightarrow> bit v 4) \<Longrightarrow> mon s' = (mon s)\<lparr>dfll_locked := True\<rparr>"
proof -
  from soc_wait_log [OF assms] obtain vs v where
    log: "soc_log s' = soc_log s @ map (Rd r) vs @ [Rd r v]" and v: "cond v" by blast
  then have m: "mon s' = mon_step (foldl mon_step (mon s) (map (Rd r) vs)) (Rd r v)"
    by (simp add: mon_def clock_monitor_def)
  show "mon_grows (mon s) (mon s')"
    using mon_reads [of "mon s" r vs] unfolding m by (auto simp: mon_grows_def mon_step_def)
  show "mon s' = mon s" if "r \<noteq> SYSCTRL_PCLKSR"
    unfolding m using that by (induction vs) simp_all
  show "mon s' = (mon s)\<lparr>dfll_locked := True\<rparr>" if "r = SYSCTRL_PCLKSR" "\<forall>v. cond v \<longrightarrow> bit v 4"
    using mon_reads [of "mon s" r vs] that v unfolding m by (auto simp: mon_grows_def mon_step_def)
qed

lemma mon_grows_refl [simp]: "mon_grows m m"
  by (simp add: mon_grows_def)

lemma wait_if_mon: "wait_if c b r cond s = Some s' \<Longrightarrow> mon_grows (mon s) (mon s')"
  by (auto simp: wait_if_def mon_wait(1) split: if_splits)

lemma wait_if_other: "wait_if c b r cond s = Some s' \<Longrightarrow> r \<noteq> SYSCTRL_PCLKSR \<Longrightarrow> mon s' = mon s"
  by (auto simp: wait_if_def mon_wait(2) split: if_splits)

lemma set_if_mon [simp]:
  "r \<notin> {NVM_CTRLB, SYSCTRL_DFLLCTRL, GCLK_GENCTRL, SYSCTRL_PCLKSR} \<Longrightarrow> mon (set_if c b r bits s) = mon s"
  by (simp add: set_if_def)

lemma configs_mon [simp]:
  "mon (pm_init b cfg s) = mon s" "mon (osc8m_config b cfg s) = mon s"
  "mon (osc32k_config b cfg s) = mon s" "mon (osculp32k_config b cfg s) = mon s" "mon (dpll_config b cfg s) = mon s"
  by (auto simp: pm_init_def osc8m_config_def osc32k_config_def osculp32k_config_def dpll_config_def Let_def split_beta)

lemma sysctrl_ready_mon: "sysctrl_ready b cfg s = Some s' \<Longrightarrow> mon_grows (mon s) (mon s')"
  unfolding sysctrl_ready_def Let_def bind_eq_Some_conv
  by (elim exE conjE, (drule wait_if_mon)+) (auto simp: mon_grows_def)

lemma sysctrl_init_sources_mon: "sysctrl_init_sources b cfg s = Some s' \<Longrightarrow> mon_grows (mon s) (mon s')"
  unfolding sysctrl_init_sources_def Let_def by (drule sysctrl_ready_mon) (simp split: if_splits)

lemma dfll_config_mon:
  assumes "dfll_config b cfg s = Some s'" and "cfg ''CONF_DFLL_ENABLE'' = 1"
  shows "mon s' = (mon s)\<lparr>dfll_on := True, dfll_locked := False\<rparr>"
proof -
  have "bit (dfll_control cfg) 1" using assms(2) by (simp add: dfll_control_def bit_simps)
  moreover have "mon (snd (dfll_val b cfg s)) = mon s" for s :: "'a soc_state"
    by (simp add: dfll_val_def split_beta Let_def)
  ultimately show ?thesis
    using assms(1) by (auto simp: dfll_config_def bind_eq_Some_conv split_beta Let_def mon_step_def mon_grows_def
        dest!: mon_wait(1) split: if_splits)
qed

lemma dfll_ready_mon:
  assumes "dfll_ready b cfg s = Some s'" and "cfg ''CONF_DFLL_ENABLE'' = 1"
  shows "mon s' = (mon s)\<lparr>dfll_locked := True\<rparr>"
proof -
  have "bit v 4" if "v AND m = m" "m = 0xD0 \<or> m = 0x10" for v m :: u32
  proof -
    have "bit m 4" using that(2) by (elim disjE) (simp_all add: bit_iff_odd_drop_bit)
    then show ?thesis using that(1) by (metis bit_and_iff)
  qed
  then show ?thesis
    using assms by (auto simp: dfll_ready_def split_beta Let_def dest!: mon_wait(3) split: if_splits)
qed

lemma referenced_generators_mon:
  assumes "sysctrl_init_referenced_generators b cfg s = Some s'"
    and "cfg ''CONF_DFLL_CONFIG'' = 1" and "cfg ''CONF_DFLL_ENABLE'' = 1" and "cfg ''CONF_DFLL_ONDEMAND'' \<noteq> 1"
  shows "mon s' = (mon s)\<lparr>dfll_on := True, dfll_locked := True\<rparr>"
  using assms
  unfolding sysctrl_init_referenced_generators_def Let_def
  by (auto simp: bind_eq_Some_conv set_if_def [of False] dest!: wait_if_other dfll_config_mon dfll_ready_mon)

lemma gclk_init_from_mon:
  "gclk_init_from b gens sel is s = Some s' \<Longrightarrow> flash_waits (mon s) \<Longrightarrow> dfll_on (mon s) \<Longrightarrow> dfll_locked (mon s) \<Longrightarrow> mon s' = mon s"
proof (induction "is" arbitrary: s)
  case (Cons i "is")
  have "mon t = mon s" if "gclk_init_generator b (gens i) i s = Some t" for t
    using mon_wait(2) [OF that [unfolded gclk_init_generator_def Let_def]] Cons.prems(2-4) by (simp add: mon_step_def)
  then show ?case using Cons by (auto simp: bind_eq_Some_conv split: if_splits)
qed simp

subsection \<open>Starting the chip returns\<close>

definition ready_when :: "'h soc_bus \<Rightarrow> ('h \<Rightarrow> soc_reg \<Rightarrow> u32) \<Rightarrow> soc_reg \<Rightarrow> soc_reg \<Rightarrow> (u32 \<Rightarrow> bool) \<Rightarrow> bool" where
  \<comment> \<open>once the enable bit of \<open>r0\<close> is set, reading \<open>r\<close> often enough gives a value with \<open>cond\<close>\<close>
  "ready_when b kept r0 r cond \<longleftrightarrow>
     (\<forall>h. bit (kept h r0) 1 \<longrightarrow> (\<exists>n. cond (fst (soc_rd b r (((\<lambda>h. snd (soc_rd b r h)) ^^ n) h)))))"

definition chip_ready :: "'h soc_bus \<Rightarrow> ('h \<Rightarrow> soc_reg \<Rightarrow> u32) \<Rightarrow> bool" where
  \<comment> \<open>an oscillator that is enabled becomes ready, the DFLL and the DPLL lock as well, and synchronisations end\<close>
  "chip_ready b kept \<longleftrightarrow>
     ready_when b kept SYSCTRL_XOSC32K SYSCTRL_PCLKSR (\<lambda>v. bit v 1)
   \<and> ready_when b kept SYSCTRL_XOSC SYSCTRL_PCLKSR (\<lambda>v. bit v 0)
   \<and> ready_when b kept SYSCTRL_OSC32K SYSCTRL_PCLKSR (\<lambda>v. bit v 2)
   \<and> ready_when b kept SYSCTRL_OSC8M SYSCTRL_PCLKSR (\<lambda>v. bit v 3)
   \<and> ready_when b kept SYSCTRL_DFLLCTRL SYSCTRL_PCLKSR (\<lambda>v. bit v 4)
   \<and> ready_when b kept SYSCTRL_DFLLCTRL SYSCTRL_PCLKSR (\<lambda>v. v AND 0x10 = 0x10)
   \<and> ready_when b kept SYSCTRL_DFLLCTRL SYSCTRL_PCLKSR (\<lambda>v. v AND 0xD0 = 0xD0)
   \<and> ready_when b kept SYSCTRL_DPLLCTRLA SYSCTRL_DPLLSTATUS (\<lambda>v. bit v 2 \<or> bit v 0 \<or> bit v 1)
   \<and> ready_soon b GCLK_STATUS (\<lambda>v. \<not> bit v 7)"

abbreviation kept_in :: "('h \<Rightarrow> soc_reg \<Rightarrow> u32) \<Rightarrow> 'h soc_state \<Rightarrow> soc_reg \<Rightarrow> u32" where
  "kept_in kept s \<equiv> kept (soc_hw s)"

lemma soc_wait_kept:
  assumes "soc_ok b kept" and "soc_wait b r cond s = Some s'"
  shows "kept_in kept s' = kept_in kept s"
  using soc_wait_keeps [OF assms(2), of "\<lambda>t. kept_in kept t = kept_in kept s"] soc_ok_accesses(1) [OF assms(1)] by simp

lemma wait_when_on:
  assumes "soc_ok b kept" and "ready_when b kept r0 r cond" and "c \<Longrightarrow> bit (kept_in kept s r0) 1"
  shows "\<exists>s'. wait_if c b r cond s = Some s' \<and> kept_in kept s' = kept_in kept s"
proof (cases c)
  case True
  obtain n where "cond (fst (soc_rd b r (((\<lambda>h. snd (soc_rd b r h)) ^^ n) (soc_hw s))))"
    using assms(2,3) True unfolding ready_when_def by blast
  then obtain s' where "soc_wait b r cond s = Some s'" using soc_wait_reaches by blast
  then show ?thesis using True soc_wait_kept [OF assms(1)] by (auto simp: wait_if_def)
qed (simp add: wait_if_def)

lemma set_if_kept:
  assumes "soc_ok b kept" and "r \<in> {SYSCTRL_XOSC32K, SYSCTRL_XOSC, SYSCTRL_OSC32K, SYSCTRL_OSC8M, SYSCTRL_DFLLCTRL, SYSCTRL_DPLLCTRLA}"
  shows "bit (kept_in kept s r0) 1 \<Longrightarrow> bit (kept_in kept (set_if c b r bits s) r0) 1"
  using assms(2) by (auto simp: set_if_def soc_ok_accesses(4) [OF assms(1)] status_reg_def soc_effect_def bit_or_iff)

lemma sysctrl_ready_returns:
  assumes "soc_ok b kept" and "chip_ready b kept"
    and "cfg ''CONF_XOSC32K_CONFIG'' = 1 \<and> cfg ''CONF_XOSC32K_ENABLE'' = 1 \<Longrightarrow> bit (kept_in kept s SYSCTRL_XOSC32K) 1"
    and "cfg ''CONF_XOSC_CONFIG'' = 1 \<and> cfg ''CONF_XOSC_ENABLE'' = 1 \<Longrightarrow> bit (kept_in kept s SYSCTRL_XOSC) 1"
    and "cfg ''CONF_OSC32K_CONFIG'' = 1 \<and> cfg ''CONF_OSC32K_ENABLE'' = 1 \<Longrightarrow> bit (kept_in kept s SYSCTRL_OSC32K) 1"
    and "cfg ''CONF_OSC8M_CONFIG'' = 1 \<and> cfg ''CONF_OSC8M_ENABLE'' = 1 \<Longrightarrow> bit (kept_in kept s SYSCTRL_OSC8M) 1"
  shows "\<exists>s'. sysctrl_ready b cfg s = Some s'"
proof -
  note w = wait_when_on [OF assms(1)] and k = set_if_kept [OF assms(1)]
  have rdy: "ready_when b kept SYSCTRL_XOSC32K SYSCTRL_PCLKSR (\<lambda>v. bit v 1)" "ready_when b kept SYSCTRL_XOSC SYSCTRL_PCLKSR (\<lambda>v. bit v 0)"
    "ready_when b kept SYSCTRL_OSC32K SYSCTRL_PCLKSR (\<lambda>v. bit v 2)" "ready_when b kept SYSCTRL_OSC8M SYSCTRL_PCLKSR (\<lambda>v. bit v 3)"
    using assms(2) by (simp_all add: chip_ready_def)
  from w [OF rdy(1) assms(3)] obtain s1 where s1: "wait_if (cfg ''CONF_XOSC32K_CONFIG'' = 1 \<and> cfg ''CONF_XOSC32K_ENABLE'' = 1) b SYSCTRL_PCLKSR (\<lambda>v. bit v 1) s = Some s1"
    and k1: "kept_in kept s1 = kept_in kept s" by blast
  let ?t1 = "set_if (cfg ''CONF_XOSC32K_CONFIG'' = 1 \<and> cfg ''CONF_XOSC32K_ONDEMAND'' = 1) b SYSCTRL_XOSC32K 0x80 s1"
  have on1: "bit (kept_in kept ?t1 r0) 1" if "bit (kept_in kept s r0) 1" for r0
    by (intro k) (use that in \<open>simp_all add: k1\<close>)
  from w [OF rdy(2) on1 [OF assms(4)]] obtain s2 where s2: "wait_if (cfg ''CONF_XOSC_CONFIG'' = 1 \<and> cfg ''CONF_XOSC_ENABLE'' = 1) b SYSCTRL_PCLKSR (\<lambda>v. bit v 0) ?t1 = Some s2"
    and k2: "kept_in kept s2 = kept_in kept ?t1" by blast
  let ?t2 = "set_if (cfg ''CONF_XOSC_CONFIG'' = 1 \<and> cfg ''CONF_XOSC_ONDEMAND'' = 1) b SYSCTRL_XOSC 0x80
    (set_if (cfg ''CONF_XOSC_CONFIG'' = 1 \<and> cfg ''CONF_XOSC_AMPGC'' = 1) b SYSCTRL_XOSC 0x800 s2)"
  have on2: "bit (kept_in kept ?t2 r0) 1" if "bit (kept_in kept s r0) 1" for r0
    by (intro k) (use on1 [OF that] in \<open>simp_all add: k2\<close>)
  from w [OF rdy(3) on2 [OF assms(5)]] obtain s3 where s3: "wait_if (cfg ''CONF_OSC32K_CONFIG'' = 1 \<and> cfg ''CONF_OSC32K_ENABLE'' = 1) b SYSCTRL_PCLKSR (\<lambda>v. bit v 2) ?t2 = Some s3"
    and k3: "kept_in kept s3 = kept_in kept ?t2" by blast
  let ?t3 = "set_if (cfg ''CONF_OSC32K_CONFIG'' = 1 \<and> cfg ''CONF_OSC32K_ONDEMAND'' = 1) b SYSCTRL_OSC32K 0x80 s3"
  have on3: "bit (kept_in kept ?t3 r0) 1" if "bit (kept_in kept s r0) 1" for r0
    by (intro k) (use on2 [OF that] in \<open>simp_all add: k3\<close>)
  from w [OF rdy(4) on3 [OF assms(6)]] obtain s4 where s4: "wait_if (cfg ''CONF_OSC8M_CONFIG'' = 1 \<and> cfg ''CONF_OSC8M_ENABLE'' = 1) b SYSCTRL_PCLKSR (\<lambda>v. bit v 3) ?t3 = Some s4"
    by blast
  show ?thesis using s1 s2 s3 s4 by (simp add: sysctrl_ready_def Let_def)
qed

lemma sources_return:
  assumes ok: "soc_ok b kept" and "chip_ready b kept"
  shows "\<exists>s'. sysctrl_init_sources b cfg s = Some s'"
proof -
  note acc = soc_ok_accesses [OF ok]
  have f: "bit (push_bit 1 (1 :: u32) OR x) 1" "bit (x OR push_bit 1 1) 1" for x :: u32 by (simp_all add: bit_simps)
  let ?s1 = "if cfg ''CONF_XOSC32K_CONFIG'' = 1
               then soc_write b SYSCTRL_XOSC32K
                      (push_bit 12 (cfg ''CONF_XOSC32K_WRTLOCK'') OR field 8 3 (cfg ''CONF_XOSC32K_STARTUP'')
                       OR push_bit 6 (cfg ''CONF_XOSC32K_RUNSTDBY'') OR push_bit 5 (cfg ''CONF_XOSC32K_AAMPEN'')
                       OR push_bit 4 (cfg ''CONF_XOSC32K_EN1K'') OR push_bit 3 (cfg ''CONF_XOSC32K_EN32K'')
                       OR push_bit 2 (cfg ''CONF_XOSC32K_XTALEN'') OR push_bit 1 (cfg ''CONF_XOSC32K_ENABLE'')) s
               else s"
  let ?s2 = "if cfg ''CONF_XOSC_CONFIG'' = 1
               then soc_write b SYSCTRL_XOSC
                      (field 12 4 (cfg ''CONF_XOSC_STARTUP'') OR push_bit 11 0 OR field 8 3 (cfg ''CONF_XOSC_GAIN'')
                       OR push_bit 6 (cfg ''CONF_XOSC_RUNSTDBY'') OR push_bit 2 (cfg ''CONF_XOSC_XTALEN'')
                       OR push_bit 1 (cfg ''CONF_XOSC_ENABLE'')) ?s1
               else ?s1"
  let ?s3 = "if cfg ''CONF_OSC8M_CONFIG'' = 1 then osc8m_config b cfg ?s2 else ?s2"
  let ?s4 = "osculp32k_config b cfg (osc32k_config b cfg ?s3)"
  have x: "kept_in kept (osculp32k_config b cfg t) r = kept_in kept t r" if "r \<noteq> SYSCTRL_OSCULP32K" for t r
    using that by (simp add: osculp32k_config_def Let_def split_beta acc status_reg_def soc_effect_def)
  have y: "kept_in kept (osc32k_config b cfg t) r = kept_in kept t r" if "r \<noteq> SYSCTRL_OSC32K" for t r
    using that by (simp add: osc32k_config_def Let_def split_beta acc status_reg_def soc_effect_def)
  have y': "bit (kept_in kept (osc32k_config b cfg t) SYSCTRL_OSC32K) 1" for t
    by (simp add: osc32k_config_def Let_def split_beta acc status_reg_def soc_effect_def bit_or_iff)
  have z: "kept_in kept (osc8m_config b cfg t) r = kept_in kept t r" if "r \<noteq> SYSCTRL_OSC8M" for t r
    using that by (simp add: osc8m_config_def Let_def split_beta acc status_reg_def soc_effect_def)
  have z': "bit (kept_in kept (osc8m_config b cfg t) SYSCTRL_OSC8M) 1" if "cfg ''CONF_OSC8M_ENABLE'' = 1" for t
    using that by (simp add: osc8m_config_def Let_def split_beta acc status_reg_def soc_effect_def bit_or_iff)
  have "\<exists>s'. sysctrl_ready b cfg ?s4 = Some s'"
    by (rule sysctrl_ready_returns [OF assms]) (auto simp: x y y' [unfolded One_nat_def] z z' [unfolded One_nat_def] acc status_reg_def soc_effect_def bit_or_iff)
  then show ?thesis by (simp add: sysctrl_init_sources_def Let_def)
qed

lemma dfll_returns:
  assumes ok: "soc_ok b kept" and rdy: "chip_ready b kept"
  shows "\<exists>s'. dfll_config b cfg s = Some s' \<and> (cfg ''CONF_DFLL_ENABLE'' = 1 \<longrightarrow> bit (kept_in kept s' SYSCTRL_DFLLCTRL) 1)"
    and "(cfg ''CONF_DFLL_ENABLE'' = 1 \<Longrightarrow> bit (kept_in kept s SYSCTRL_DFLLCTRL) 1) \<Longrightarrow> \<exists>s'. dfll_ready b cfg s = Some s'"
proof -
  have r: "ready_when b kept SYSCTRL_DFLLCTRL SYSCTRL_PCLKSR (\<lambda>v. bit v 4)"
    "ready_when b kept SYSCTRL_DFLLCTRL SYSCTRL_PCLKSR (\<lambda>v. v AND 0x10 = 0x10)"
    "ready_when b kept SYSCTRL_DFLLCTRL SYSCTRL_PCLKSR (\<lambda>v. v AND 0xD0 = 0xD0)"
    using rdy by (simp_all add: chip_ready_def)
  let ?s1 = "if cfg ''CONF_DFLL_USBCRM'' \<noteq> 1 \<and> cfg ''CONF_DFLL_MODE'' \<noteq> 0
      then soc_write b GCLK_CLKCTRL (clkctrl_value 0 (cfg ''CONF_DFLL_GCLK'')) s else s"
  have "bit (kept_in kept (soc_write b SYSCTRL_DFLLCTRL 2 ?s1) SYSCTRL_DFLLCTRL) 1"
    by (simp add: soc_ok_accesses(3) [OF ok] soc_effect_def)
  from wait_when_on [OF ok r(1) this, of True] obtain t where
    t: "soc_wait b SYSCTRL_PCLKSR (\<lambda>v. bit v 4) (soc_write b SYSCTRL_DFLLCTRL 2 ?s1) = Some t"
    by (auto simp: wait_if_def)
  have "bit (dfll_control cfg) 1" if "cfg ''CONF_DFLL_ENABLE'' = 1" using that by (simp add: dfll_control_def bit_simps)
  then show "\<exists>s'. dfll_config b cfg s = Some s' \<and> (cfg ''CONF_DFLL_ENABLE'' = 1 \<longrightarrow> bit (kept_in kept s' SYSCTRL_DFLLCTRL) 1)"
    using t by (simp add: dfll_config_def Let_def split_beta soc_ok_accesses(3) [OF ok] soc_effect_def)
  assume on: "cfg ''CONF_DFLL_ENABLE'' = 1 \<Longrightarrow> bit (kept_in kept s SYSCTRL_DFLLCTRL) 1"
  let ?t = "snd (soc_read b SYSCTRL_DFLLCTRL s)"
  have on': "cfg ''CONF_DFLL_ENABLE'' = 1 \<Longrightarrow> bit (kept_in kept ?t SYSCTRL_DFLLCTRL) 1"
    using on by (simp add: soc_ok_accesses(1) [OF ok])
  have "\<exists>s'. wait_if (cfg ''CONF_DFLL_ENABLE'' = 1) b SYSCTRL_PCLKSR cond ?t = Some s'"
    if "ready_when b kept SYSCTRL_DFLLCTRL SYSCTRL_PCLKSR cond" for cond
    using wait_when_on [OF ok that on'] by blast
  from this [OF r(1)] this [OF r(2)] this [OF r(3)] show "\<exists>s'. dfll_ready b cfg s = Some s'"
    by (auto simp: dfll_ready_def split_beta Let_def wait_if_def split: if_splits)
qed

lemma gclk_returns: "ready_soon b GCLK_STATUS (\<lambda>v. \<not> bit v 7) \<Longrightarrow> \<exists>s'. gclk_init_from b gens sel is s = Some s'"
proof (induction "is" arbitrary: s)
  case (Cons i "is")
  obtain t where "gclk_init_generator b (gens i) i s = Some t"
    unfolding gclk_init_generator_def Let_def using soc_wait_returns [OF Cons.prems] by blast
  then show ?case using Cons by simp
qed simp

lemma referenced_return:
  assumes ok: "soc_ok b kept" and rdy: "chip_ready b kept"
  shows "\<exists>s'. sysctrl_init_referenced_generators b cfg s = Some s'"
proof -
  let ?dfll = "cfg ''CONF_DFLL_CONFIG'' = 1" and ?dpll = "cfg ''CONF_DPLL_CONFIG'' = 1"
  obtain s1 where s1: "(if ?dfll then dfll_config b cfg s else Some s) = Some s1"
    and on1: "?dfll \<and> cfg ''CONF_DFLL_ENABLE'' = 1 \<longrightarrow> bit (kept_in kept s1 SYSCTRL_DFLLCTRL) 1"
    using dfll_returns(1) [OF assms, of cfg s] by (cases ?dfll) auto
  let ?s2 = "if ?dpll then dpll_config b cfg s1 else s1"
  have k2: "kept_in kept ?s2 SYSCTRL_DFLLCTRL = kept_in kept s1 SYSCTRL_DFLLCTRL"
    by (simp add: dpll_config_def Let_def soc_ok_accesses(3) [OF ok] soc_effect_def)
  have p2: "?dpll \<and> cfg ''CONF_DPLL_ENABLE'' = 1 \<Longrightarrow> bit (kept_in kept ?s2 SYSCTRL_DPLLCTRLA) 1"
    by (simp add: dpll_config_def Let_def soc_ok_accesses(3) [OF ok] soc_effect_def bit_or_iff)
  obtain s3 where s3: "(if ?dfll then dfll_ready b cfg ?s2 else Some ?s2) = Some s3"
    and k3: "kept_in kept s3 = kept_in kept ?s2"
  proof (cases ?dfll)
    case True
    then have "cfg ''CONF_DFLL_ENABLE'' = 1 \<Longrightarrow> bit (kept_in kept ?s2 SYSCTRL_DFLLCTRL) 1" using on1 k2 by simp
    from dfll_returns(2) [OF assms this] obtain t where t: "dfll_ready b cfg ?s2 = Some t" by blast
    then have "kept_in kept t = kept_in kept ?s2"
      by (auto simp: dfll_ready_def split_beta Let_def soc_ok_accesses(1) [OF ok] dest!: soc_wait_kept [OF ok] split: if_splits)
    then show ?thesis using that t True by simp
  qed (use that in simp)
  let ?s4 = "set_if (?dfll \<and> cfg ''CONF_DFLL_ONDEMAND'' = 1) b SYSCTRL_DFLLCTRL 0x80 s3"
  have on4: "bit (kept_in kept ?s4 SYSCTRL_DPLLCTRLA) 1" if "?dpll \<and> cfg ''CONF_DPLL_ENABLE'' = 1"
    by (rule set_if_kept [OF ok]) (use p2 [OF that] k3 in simp_all)
  have d: "ready_when b kept SYSCTRL_DPLLCTRLA SYSCTRL_DPLLSTATUS (\<lambda>v. bit v 2 \<or> bit v 0 \<or> bit v 1)"
    and g: "ready_soon b GCLK_STATUS (\<lambda>v. \<not> bit v 7)" using rdy by (simp_all add: chip_ready_def)
  from wait_when_on [OF ok d on4] obtain s5 where s5: "wait_if (?dpll \<and> cfg ''CONF_DPLL_ENABLE'' = 1) b SYSCTRL_DPLLSTATUS (\<lambda>v. bit v 2 \<or> bit v 0 \<or> bit v 1) ?s4 = Some s5"
    by blast
  have "\<exists>s6. wait_if ?dfll b GCLK_STATUS (\<lambda>v. \<not> bit v 7) t = Some s6" for t
    by (simp add: wait_if_def soc_wait_returns [OF g])
  then show ?thesis
    unfolding sysctrl_init_referenced_generators_def Let_def s1 bind_eq_Some_conv Option.bind.simps s3 s5 by blast
qed

lemma init_chip_returns:
  assumes "soc_ok b kept" and "chip_ready b kept"
  shows "\<exists>s'. init_chip b cfg gens s = Some s'"
  using sources_return [OF assms] referenced_return [OF assms] gclk_returns assms(2)
  unfolding init_chip_def Let_def gclk_init_generators_by_fref_def chip_ready_def by (metis (no_types, lifting) Option.bind.bind_lunit)

text \<open>
  C10. On any chip whose oscillators start, bringing up the clocks returns, and the core is never
  put on the 48 MHz oscillator before the flash has its wait state and the oscillator has been
  configured and has reported ready.
\<close>

theorem init_chip_clock_order:
  assumes "soc_ok b kept" and "chip_ready b kept" and "cfg ''CONF_DFLL_CONFIG'' = 1" and "cfg ''CONF_DFLL_ENABLE'' = 1"
    and "cfg ''CONF_DFLL_ONDEMAND'' \<noteq> 1" and "take_bit 4 (cfg ''CONF_NVM_WAIT_STATE'') \<noteq> 0" and "soc_log s = []"
  shows "\<exists>s'. init_chip b cfg gens s = Some s' \<and> \<not> too_early (mon s')"
proof -
  let ?s1 = "pm_init b cfg (soc_modify b NVM_CTRLB (\<lambda>v. v OR field 1 4 (cfg ''CONF_NVM_WAIT_STATE'')) s)"
  obtain s2 where s2: "sysctrl_init_sources b cfg ?s1 = Some s2" using sources_return [OF assms(1,2)] by blast
  obtain s3 where s3: "sysctrl_init_referenced_generators b cfg s2 = Some s3" using referenced_return [OF assms(1,2)] by blast
  obtain s4 where s4: "gclk_init_generators_by_fref b gens 0xFF s3 = Some s4"
    using gclk_returns assms(2) unfolding chip_ready_def gclk_init_generators_by_fref_def by blast
  have "take_bit 4 (drop_bit 1 (v OR field 1 4 w)) = take_bit 4 (drop_bit 1 v) OR take_bit 4 w" for v w :: u32
    by (rule field_read) simp
  then have "take_bit 4 (drop_bit 1 (v OR field 1 4 w)) \<noteq> 0" if "take_bit 4 w \<noteq> 0" for v w :: u32
    using that by (simp add: or_eq_0_iff)
  then have "flash_waits (mon ?s1)" "\<not> too_early (mon ?s1)"
    using assms(6,7) by (simp_all add: mon_step_def) (simp add: mon_def clock_monitor_def)
  then have "flash_waits (mon s2)" "\<not> too_early (mon s2)"
    using sysctrl_init_sources_mon [OF s2] by (auto simp: mon_grows_def)
  then have "flash_waits (mon s3)" "dfll_on (mon s3)" "dfll_locked (mon s3)" "\<not> too_early (mon s3)"
    unfolding referenced_generators_mon [OF s3 assms(3-5)] by simp_all
  then have "\<not> too_early (mon s4)"
    using gclk_init_from_mon [OF s4 [unfolded gclk_init_generators_by_fref_def]] by simp
  then show ?thesis using s2 s3 s4 by (simp add: init_chip_def Let_def)
qed

lemma minus_one_u32: "(- 1 :: u32) = 0xFFFFFFFF"
  by simp

lemma plain_soc_ready: "chip_ready plain_soc (\<lambda>h. h)"
proof -
  have "\<exists>n. cond (fst (soc_rd plain_soc r (((\<lambda>h. snd (soc_rd plain_soc r h)) ^^ n) h)))"
    if "cond (fst (soc_rd plain_soc r h))" for cond r h
    using that by (intro exI [of _ 0]) simp
  then show ?thesis
    by (simp add: chip_ready_def ready_soon_def ready_when_def plain_soc_def status_reg_def and.left_neutral [where 'a=u32, unfolded minus_one_u32])
qed

lemma init_chip_clock_order_witness:
  "\<exists>s'. init_chip plain_soc powerlog_conf powerlog_gens \<lparr>soc_hw = (\<lambda>_. 0), soc_log = [], primask = 0, irq_table = (\<lambda>_. 0)\<rparr>
     = Some s' \<and> \<not> too_early (mon s')"
  by (rule init_chip_clock_order [OF plain_soc_ok plain_soc_ready]) (simp_all add: powerlog_conf_defs)

text \<open>The firmware's chip start puts the core on the DFLL at all, and divides the others as configured.\<close>

lemma powerlog_generators:
  "map (\<lambda>i. genctrl_value (powerlog_gens i) i) [0, 1, 3] = [0x10700, 0x10601, 0x10303]"
  by code_simp

subsection \<open>Bus clocks switch one module\<close>

definition bus_mask_reg :: "pm_bus \<Rightarrow> soc_reg" where
  "bus_mask_reg bus = (case bus of PM_BUS_AHB \<Rightarrow> PM_AHBMASK | PM_BUS_APBA \<Rightarrow> PM_APBAMASK | PM_BUS_APBB \<Rightarrow> PM_APBBMASK | PM_BUS_APBC \<Rightarrow> PM_APBCMASK)"

definition bus_mask_bit :: "pm_bus \<Rightarrow> ptr \<Rightarrow> nat option" where
  \<comment> \<open>the bit of a module in the mask register of a bus, from the register description: a module on
      bridge A or C has the number of its 1 KB page; bridge B and the AHB are listed\<close>
  "bus_mask_bit bus module =
     (case bus of
        PM_BUS_AHB \<Rightarrow> map_of [(DSU_base, 3), (NVMCTRL_base, 4), (DMAC_base, 5), (USB_base, 6)] module
      | PM_BUS_APBA \<Rightarrow> if module AND 0xFFFF83FF = 0x40000000 then Some (unat module div 0x400 mod 64) else None
      | PM_BUS_APBB \<Rightarrow> map_of [(PAC1_base, 0), (DSU_base, 1), (NVMCTRL_base, 2), (PORT_base, 3), (DMAC_base, 4), (USB_base, 5)] module
      | PM_BUS_APBC \<Rightarrow> if module AND 0xFFFF83FF = 0x42000000 then Some (unat module div 0x400 mod 64) else None)"

lemma peripheral_index_page: "unat (peripheral_index module) = unat module div 0x400 mod 64"
proof -
  have "peripheral_index module = take_bit 6 (drop_bit 10 module)"
    by (simp add: peripheral_index_def take_bit_eq_mask mask_eq_exp_minus_1)
  then show ?thesis
    by (simp add: unsigned_take_bit_eq unsigned_drop_bit_eq drop_bit_eq_div take_bit_eq_mod unat_div unat_mod)
qed

text \<open>
  Switching the clock of a module on or off changes exactly its bit in the mask register of
  its bus, as the register description numbers the modules, and no other register.
\<close>

theorem bus_clock_exact:
  assumes "soc_ok b kept" and "bus_mask_bit bus module = Some k"
  shows "kept (soc_hw (pm_enable_bus_clock b bus module s))
      = (kept (soc_hw s))(bus_mask_reg bus := kept (soc_hw s) (bus_mask_reg bus) OR push_bit k 1)
    \<and> kept (soc_hw (pm_disable_bus_clock b bus module s))
      = (kept (soc_hw s))(bus_mask_reg bus := kept (soc_hw s) (bus_mask_reg bus) AND NOT (push_bit k 1))"
  using assms(2)
  by (cases bus)
    (auto simp: pm_enable_bus_clock_def pm_disable_bus_clock_def bus_mask_bit_def bus_mask_reg_def set_bits_def
      soc_ok_accesses(4) [OF assms(1)] status_reg_def soc_effect_def peripheral_index_page pm_get_ahb_index_def
      pm_get_apbb_index_def pm_bus_value_def split: if_splits)

lemma bus_clock_exact_witness:
  "soc_hw (pm_enable_bus_clock plain_soc PM_BUS_APBC 0x42002C00 \<lparr>soc_hw = (\<lambda>_. 0), soc_log = [], primask = 0, irq_table = (\<lambda>_. 0)\<rparr>)
    = (\<lambda>_. 0)(PM_APBCMASK := 0x800)"
  using bus_clock_exact [OF plain_soc_ok, of PM_BUS_APBC "0x42002C00" 11]
  by (simp add: bus_mask_bit_def bus_mask_reg_def)

text \<open>
  The bridges themselves cannot be asked for: the function compares the address with the
  number of the bus, and switches nothing for the bridge's address.
\<close>

lemma bridge_has_no_ahb_index: "pm_get_ahb_index 0x40000000 = ERR_INVALID_ARG" "pm_get_ahb_index 1 = 0"
  by (simp_all add: pm_get_ahb_index_def pm_bus_value_def)

end
