(* ===== verification/Gpio.thy ===== *)
theory Gpio
  imports Core
begin

text \<open>
  The port driver \<open>hpl/port/hpl_gpio_base.h\<close> and its interface \<open>hal_gpio.h\<close>.  \<open>PORT\<close> and
  \<open>PORT_IOBUS\<close> are two addresses of the same registers.
\<close>

datatype gpio_direction = GPIO_DIRECTION_OFF | GPIO_DIRECTION_IN | GPIO_DIRECTION_OUT

datatype gpio_pull_mode = GPIO_PULL_OFF | GPIO_PULL_UP | GPIO_PULL_DOWN

definition GPIO_PIN :: "u32 \<Rightarrow> u8" where "GPIO_PIN n = ucast (n AND 0x1F)"

definition GPIO_PORT :: "u32 \<Rightarrow> u8" where "GPIO_PORT n = ucast (drop_bit 5 n)"

abbreviation (input) GPIO_PIN_FUNCTION_OFF :: u32 where "GPIO_PIN_FUNCTION_OFF \<equiv> 0xFFFFFFFF"

definition gpio_mask :: "u32 \<Rightarrow> u32" where
  \<comment> \<open>\<open>1U << GPIO_PIN(pin)\<close>\<close>
  "gpio_mask pin = push_bit (unat (GPIO_PIN pin)) 1"

subsection \<open>Driver\<close>

definition write_wrconfig :: "'h soc_bus \<Rightarrow> u8 \<Rightarrow> u32 \<Rightarrow> u32 \<Rightarrow> 'h soc_state \<Rightarrow> 'h soc_state" where
  \<comment> \<open>the two writes for the halves of the mask: \<open>WRPINCFG\<close> is bit 30, \<open>HWSEL\<close> bit 31\<close>
  "write_wrconfig b port pins extra s =
     (let s = soc_write b (PORT_WRCONFIG port) (0x40000000 OR extra OR (pins AND 0xFFFF)) s
      in soc_write b (PORT_WRCONFIG port) (0x80000000 OR 0x40000000 OR extra OR drop_bit 16 (pins AND 0xFFFF0000)) s)"

definition port_set_direction :: "'h soc_bus \<Rightarrow> u8 \<Rightarrow> u32 \<Rightarrow> gpio_direction \<Rightarrow> 'h soc_state \<Rightarrow> 'h soc_state" where
  \<comment> \<open>\<open>INEN\<close> is bit 17\<close>
  "port_set_direction b port pins direction s =
     (case direction of
        GPIO_DIRECTION_OFF \<Rightarrow> write_wrconfig b port pins 0 (soc_write b (PORT_DIRCLR port) pins s)
      | GPIO_DIRECTION_IN \<Rightarrow> write_wrconfig b port pins 0x20000 (soc_write b (PORT_DIRCLR port) pins s)
      | GPIO_DIRECTION_OUT \<Rightarrow> write_wrconfig b port pins 0 (soc_write b (PORT_DIRSET port) pins s))"

definition port_set_level :: "'h soc_bus \<Rightarrow> u8 \<Rightarrow> u32 \<Rightarrow> bool \<Rightarrow> 'h soc_state \<Rightarrow> 'h soc_state" where
  "port_set_level b port pins level s =
     (if level then soc_write b (PORT_OUTSET port) pins s else soc_write b (PORT_OUTCLR port) pins s)"

definition port_toggle_level :: "'h soc_bus \<Rightarrow> u8 \<Rightarrow> u32 \<Rightarrow> 'h soc_state \<Rightarrow> 'h soc_state" where
  "port_toggle_level b port pins s = soc_write b (PORT_OUTTGL port) pins s"

definition port_get_level :: "'h soc_bus \<Rightarrow> u8 \<Rightarrow> 'h soc_state \<Rightarrow> u32 \<times> 'h soc_state" where
  "port_get_level b port s =
     critical (\<lambda>s.
       case soc_read b (PORT_DIR port) s of (dir_tmp, s) \<Rightarrow>
       case soc_read b (PORT_IN port) s of (v, s) \<Rightarrow>
       (let tmp = v AND (NOT dir_tmp) in
        case soc_read b (PORT_OUT port) s of (w, s) \<Rightarrow> (tmp OR (w AND dir_tmp), s))) s"

definition port_set_pin_pull_mode :: "'h soc_bus \<Rightarrow> u8 \<Rightarrow> u8 \<Rightarrow> gpio_pull_mode \<Rightarrow> 'h soc_state \<Rightarrow> 'h soc_state" where
  \<comment> \<open>\<open>PULLEN\<close> is bit 2\<close>
  "port_set_pin_pull_mode b port pin pull_mode s =
     (let bitmask = push_bit (unat pin) 1 in
      case pull_mode of
        GPIO_PULL_OFF \<Rightarrow> soc_modify b (PORT_PINCFG port pin) (\<lambda>v. v AND NOT 4) s
      | GPIO_PULL_UP \<Rightarrow>
          (let s = soc_write b (PORT_DIRCLR port) bitmask s;
               s = soc_modify b (PORT_PINCFG port pin) (\<lambda>v. v OR 4) s
           in soc_write b (PORT_OUTSET port) bitmask s)
      | GPIO_PULL_DOWN \<Rightarrow>
          (let s = soc_write b (PORT_DIRCLR port) bitmask s;
               s = soc_modify b (PORT_PINCFG port pin) (\<lambda>v. v OR 4) s
           in soc_write b (PORT_OUTCLR port) bitmask s))"

definition port_set_pin_function :: "'h soc_bus \<Rightarrow> u32 \<Rightarrow> u32 \<Rightarrow> 'h soc_state \<Rightarrow> 'h soc_state" where
  \<comment> \<open>\<open>PMUXEN\<close> is bit 0; the number of the function is the low nibble of \<open>PMUX\<close> for an even pin, the
      high one for an odd pin; the bit field's accessor takes 8 bits\<close>
  "port_set_pin_function b gpio function s =
     (let port = GPIO_PORT gpio; pin = GPIO_PIN gpio in
      if function = GPIO_PIN_FUNCTION_OFF
      then soc_modify b (PORT_PINCFG port pin) (\<lambda>v. (v AND NOT 1) OR 0) s
      else
        (let s = soc_modify b (PORT_PINCFG port pin) (\<lambda>v. (v AND NOT 1) OR 1) s;
             data = ucast (ucast (function AND 0xFFFF) :: u8) :: u32
         in if pin AND 1 \<noteq> 0
            then soc_modify b (PORT_PMUX port (drop_bit 1 pin)) (\<lambda>v. (v AND NOT 0xF0) OR (push_bit 4 data AND 0xF0)) s
            else soc_modify b (PORT_PMUX port (drop_bit 1 pin)) (\<lambda>v. (v AND NOT 0xF) OR (data AND 0xF)) s))"

subsection \<open>Interface\<close>

definition hal_gpio_set_pin_pull_mode :: "'h soc_bus \<Rightarrow> u8 \<Rightarrow> gpio_pull_mode \<Rightarrow> 'h soc_state \<Rightarrow> 'h soc_state" where
  "hal_gpio_set_pin_pull_mode b pin pull_mode s =
     port_set_pin_pull_mode b (GPIO_PORT (ucast pin)) (pin AND 0x1F) pull_mode s"

definition hal_gpio_set_pin_function :: "'h soc_bus \<Rightarrow> u32 \<Rightarrow> u32 \<Rightarrow> 'h soc_state \<Rightarrow> 'h soc_state" where
  "hal_gpio_set_pin_function b pin function s = port_set_pin_function b pin function s"

definition hal_gpio_set_port_direction :: "'h soc_bus \<Rightarrow> u8 \<Rightarrow> u32 \<Rightarrow> gpio_direction \<Rightarrow> 'h soc_state \<Rightarrow> 'h soc_state" where
  "hal_gpio_set_port_direction b port pins direction s = port_set_direction b port pins direction s"

definition hal_gpio_set_pin_direction :: "'h soc_bus \<Rightarrow> u8 \<Rightarrow> gpio_direction \<Rightarrow> 'h soc_state \<Rightarrow> 'h soc_state" where
  "hal_gpio_set_pin_direction b pin direction s =
     port_set_direction b (GPIO_PORT (ucast pin)) (gpio_mask (ucast pin)) direction s"

definition hal_gpio_set_port_level :: "'h soc_bus \<Rightarrow> u8 \<Rightarrow> u32 \<Rightarrow> bool \<Rightarrow> 'h soc_state \<Rightarrow> 'h soc_state" where
  "hal_gpio_set_port_level b port pins level s = port_set_level b port pins level s"

definition hal_gpio_set_pin_level :: "'h soc_bus \<Rightarrow> u8 \<Rightarrow> bool \<Rightarrow> 'h soc_state \<Rightarrow> 'h soc_state" where
  "hal_gpio_set_pin_level b pin level s = port_set_level b (GPIO_PORT (ucast pin)) (gpio_mask (ucast pin)) level s"

definition hal_gpio_toggle_port_level :: "'h soc_bus \<Rightarrow> u8 \<Rightarrow> u32 \<Rightarrow> 'h soc_state \<Rightarrow> 'h soc_state" where
  "hal_gpio_toggle_port_level b port pins s = port_toggle_level b port pins s"

definition hal_gpio_toggle_pin_level :: "'h soc_bus \<Rightarrow> u8 \<Rightarrow> 'h soc_state \<Rightarrow> 'h soc_state" where
  "hal_gpio_toggle_pin_level b pin s = port_toggle_level b (GPIO_PORT (ucast pin)) (gpio_mask (ucast pin)) s"

definition hal_gpio_get_port_level :: "'h soc_bus \<Rightarrow> u8 \<Rightarrow> 'h soc_state \<Rightarrow> u32 \<times> 'h soc_state" where
  "hal_gpio_get_port_level b port s = port_get_level b port s"

definition hal_gpio_get_pin_level :: "'h soc_bus \<Rightarrow> u8 \<Rightarrow> 'h soc_state \<Rightarrow> bool \<times> 'h soc_state" where
  "hal_gpio_get_pin_level b pin s =
     (case port_get_level b (GPIO_PORT (ucast pin)) s of (v, s) \<Rightarrow> (v AND gpio_mask (ucast pin) \<noteq> 0, s))"

subsection \<open>What a pin is\<close>

text \<open>
  The state of one pin, read off the registers: its direction, output level, pull and input
  enables, and the peripheral that drives it, if one does.
\<close>

record pin_view =
  pin_out :: bool
  pin_level :: bool
  pin_input :: bool
  pin_pull :: bool
  pin_function :: "u32 option"

definition view_pin :: "(soc_reg \<Rightarrow> u32) \<Rightarrow> u8 \<Rightarrow> u8 \<Rightarrow> pin_view" where
  "view_pin f g p =
     \<lparr>pin_out = bit (f (PORT_DIR g)) (unat p), pin_level = bit (f (PORT_OUT g)) (unat p),
      pin_input = bit (f (PORT_PINCFG g p)) 1, pin_pull = bit (f (PORT_PINCFG g p)) 2,
      pin_function =
        (if bit (f (PORT_PINCFG g p)) 0
         then Some (take_bit 4 (drop_bit (if odd (unat p) then 4 else 0) (f (PORT_PMUX g (drop_bit 1 p)))))
         else None)\<rparr>"

definition pin_mask :: "u8 \<Rightarrow> u32" where "pin_mask p = push_bit (unat p) 1"

lemma bit_pin_mask [simp]: "bit (pin_mask p) n \<longleftrightarrow> n = unat p \<and> unat p < 32"
  by (auto simp: pin_mask_def bit_simps)

lemma unat_eq_u8 [simp]: "unat q = unat p \<longleftrightarrow> q = p" for p q :: u8
  by (simp add: word_unat_eq_iff)

lemma view_set_level:
  assumes "soc_ok b kept" and "unat p < 32" and "unat q < 32"
  shows "view_pin (kept (soc_hw (port_set_level b g (pin_mask p) level s))) g' q
    = (if g' = g \<and> q = p then (view_pin (kept (soc_hw s)) g p)\<lparr>pin_level := level\<rparr> else view_pin (kept (soc_hw s)) g' q)"
  using assms(2,3) by (auto simp: port_set_level_def soc_ok_accesses [OF assms(1)] soc_effect_def view_pin_def bit_simps)

lemma view_toggle_level:
  assumes "soc_ok b kept" and "unat p < 32" and "unat q < 32"
  shows "view_pin (kept (soc_hw (port_toggle_level b g (pin_mask p) s))) g' q
    = (if g' = g \<and> q = p then (view_pin (kept (soc_hw s)) g p)\<lparr>pin_level := \<not> pin_level (view_pin (kept (soc_hw s)) g p)\<rparr>
       else view_pin (kept (soc_hw s)) g' q)"
  using assms(2,3) by (auto simp: port_toggle_level_def soc_ok_accesses [OF assms(1)] soc_effect_def view_pin_def bit_simps)

lemma wrconfig_bits:
  "bit (0x40000000 :: u32) n \<longleftrightarrow> n = 30" "bit (0x80000000 :: u32) n \<longleftrightarrow> n = 31" "bit (0x20000 :: u32) n \<longleftrightarrow> n = 17"
  "bit (0xFFFF :: u32) n \<longleftrightarrow> n < 16" "bit (0xFFFF0000 :: u32) n \<longleftrightarrow> 16 \<le> n \<and> n < 32"
proof -
  have e: "(0x40000000 :: u32) = push_bit 30 1" "(0x80000000 :: u32) = push_bit 31 1" "(0x20000 :: u32) = push_bit 17 1"
    "(0xFFFF :: u32) = mask 16" "(0xFFFF0000 :: u32) = push_bit 16 (mask 16)"
    by (simp_all add: mask_eq_exp_minus_1)
  show "bit (0x40000000 :: u32) n \<longleftrightarrow> n = 30" "bit (0x80000000 :: u32) n \<longleftrightarrow> n = 31" "bit (0x20000 :: u32) n \<longleftrightarrow> n = 17"
    "bit (0xFFFF :: u32) n \<longleftrightarrow> n < 16" "bit (0xFFFF0000 :: u32) n \<longleftrightarrow> 16 \<le> n \<and> n < 32"
    unfolding e by (auto simp only: bit_push_bit_iff bit_1_iff bit_mask_iff) auto
qed

lemma view_wrconfig:
  assumes "soc_ok b kept" and "unat p < 32" and "unat q < 32" and "extra = (if inen then 0x20000 else 0)"
  shows "view_pin (kept (soc_hw (write_wrconfig b g (pin_mask p) extra s))) g' q
    = (if g' = g \<and> q = p
       then (view_pin (kept (soc_hw s)) g p)\<lparr>pin_input := inen, pin_pull := False, pin_function := None\<rparr>
       else view_pin (kept (soc_hw s)) g' q)"
proof -
  have x: "bit extra n \<longleftrightarrow> inen \<and> n = 17" for n using assms(4) wrconfig_bits(3) by simp
  let ?lo = "0x40000000 OR extra OR (pin_mask p AND 0xFFFF)"
  let ?hi = "0x80000000 OR 0x40000000 OR extra OR drop_bit 16 (pin_mask p AND 0xFFFF0000)"
  have b47: "bit (0x47 :: u32) 0" "bit (0x47 :: u32) (Suc 0)" "bit (0x47 :: u32) 2" by (simp_all add: bit_iff_odd_drop_bit)
  note [simp del] = bit_numeral_word_iff and [simp] = x wrconfig_bits bit_or_iff bit_and_iff bit_drop_bit_eq
  have sel: "wrconfig_pins ?lo q \<longleftrightarrow> q = p \<and> unat p < 16" "wrconfig_pins ?hi q \<longleftrightarrow> q = p \<and> 16 \<le> unat p"
    using assms(2,3) by (auto simp: wrconfig_pins_def simp del: or_numerals)
  have on: "bit ?lo 30" "bit ?hi 30" "\<not> bit ?lo 28" "\<not> bit ?hi 28" using assms(2) by (auto simp del: or_numerals)
  have cfg: "bit (pincfg_of_wrconfig v) n \<longleftrightarrow> n = 1 \<and> inen" if "v = ?lo \<or> v = ?hi" "n \<in> {0, 1, 2}" for v n
    using that assms(2) by (auto simp: pincfg_of_wrconfig_def b47 simp del: or_numerals)
  let ?f = "kept (soc_hw s)"
  have k: "kept (soc_hw (write_wrconfig b g (pin_mask p) extra s)) = soc_effect (PORT_WRCONFIG g) ?hi (soc_effect (PORT_WRCONFIG g) ?lo ?f)"
    by (simp only: write_wrconfig_def Let_def soc_ok_accesses(3) [OF assms(1)])
  show ?thesis
    unfolding k soc_effect_def soc_reg.case view_pin_def
    using sel on cfg by (auto simp del: or_numerals)
qed

lemma gpio_pins:
  "gpio_mask pin = pin_mask (GPIO_PIN pin)" "unat (GPIO_PIN pin) < 32" "pin_mask p = push_bit (unat p) 1"
proof -
  have "GPIO_PIN pin = ucast (take_bit 5 pin)" by (simp add: GPIO_PIN_def take_bit_eq_mask mask_eq_exp_minus_1)
  then have "unat (GPIO_PIN pin) \<le> unat (take_bit 5 pin)"
    by (simp add: unsigned_ucast_eq)
  also have "\<dots> < 32" by (simp add: take_bit_eq_mod unat_mod)
  finally show "unat (GPIO_PIN pin) < 32" .
qed (simp_all add: gpio_mask_def pin_mask_def)

lemma view_set_direction:
  assumes "soc_ok b kept" and "unat p < 32" and "unat q < 32"
  shows "view_pin (kept (soc_hw (port_set_direction b g (pin_mask p) d s))) g' q
    = (if g' = g \<and> q = p
       then (view_pin (kept (soc_hw s)) g p)\<lparr>pin_out := d = GPIO_DIRECTION_OUT, pin_input := d = GPIO_DIRECTION_IN,
              pin_pull := False, pin_function := None\<rparr>
       else view_pin (kept (soc_hw s)) g' q)"
proof -
  have dir: "view_pin (soc_effect (PORT_DIRSET g) (pin_mask p) f) g'' r
      = (if g'' = g \<and> r = p then (view_pin f g p)\<lparr>pin_out := True\<rparr> else view_pin f g'' r)"
    "view_pin (soc_effect (PORT_DIRCLR g) (pin_mask p) f) g'' r
      = (if g'' = g \<and> r = p then (view_pin f g p)\<lparr>pin_out := False\<rparr> else view_pin f g'' r)" if "unat r < 32" for f g'' r
    using assms(2) that by (auto simp: soc_effect_def view_pin_def bit_simps)
  have w: "extra = (if inen then 0x20000 else 0) \<Longrightarrow> view_pin (kept (soc_hw (write_wrconfig b g (pin_mask p) extra s'))) g' q
    = (if g' = g \<and> q = p
       then (view_pin (kept (soc_hw s')) g p)\<lparr>pin_input := inen, pin_pull := False, pin_function := None\<rparr>
       else view_pin (kept (soc_hw s')) g' q)" for extra inen s'
    by (rule view_wrconfig [OF assms])
  show ?thesis
    by (cases d) (auto simp: port_set_direction_def w [of _ False] w [of _ True] soc_ok_accesses(3) [OF assms(1)] dir assms(2,3))
qed

lemma view_pull:
  assumes "soc_ok b kept" and "unat p < 32" and "unat q < 32"
  shows "view_pin (kept (soc_hw (port_set_pin_pull_mode b g p m s))) g' q
    = (if g' = g \<and> q = p
       then (let v = view_pin (kept (soc_hw s)) g p in
             case m of GPIO_PULL_OFF \<Rightarrow> v\<lparr>pin_pull := False\<rparr>
             | GPIO_PULL_UP \<Rightarrow> v\<lparr>pin_out := False, pin_level := True, pin_pull := True\<rparr>
             | GPIO_PULL_DOWN \<Rightarrow> v\<lparr>pin_out := False, pin_level := False, pin_pull := True\<rparr>)
       else view_pin (kept (soc_hw s)) g' q)"
proof -
  have b4: "bit (4 :: u32) n \<longleftrightarrow> n = 2" for n
  proof -
    have "(4 :: u32) = push_bit 2 1" by simp
    then show ?thesis by (simp only:) (auto simp only: bit_push_bit_iff bit_1_iff, auto)
  qed
  note [simp del] = bit_numeral_word_iff
  show ?thesis
    using assms(2,3) unfolding port_set_pin_pull_mode_def gpio_pins(3) [symmetric] by (cases m) (auto simp: Let_def soc_ok_accesses(3,4) [OF assms(1)]
      status_reg_def soc_effect_def view_pin_def b4 bit_or_iff bit_and_iff bit_not_iff)
qed

lemma odd_and_1: "p AND 1 \<noteq> 0 \<longleftrightarrow> odd (unat p)" for p :: u8
proof -
  have "even p \<longleftrightarrow> even (unat p)" by transfer (simp add: even_nat_iff)
  then show ?thesis by (simp add: and_one_eq mod2_eq_if)
qed

lemma same_pmux: "drop_bit 1 q = drop_bit 1 p \<Longrightarrow> odd (unat q) = odd (unat p) \<Longrightarrow> q = p" for p q :: u8
proof -
  assume d: "drop_bit 1 q = drop_bit 1 p" and o: "odd (unat q) = odd (unat p)"
  have "unat (drop_bit 1 x) = unat x div 2" for x :: u8 by (simp add: drop_bit_eq_div unat_div)
  with d have "unat q div 2 = unat p div 2" by metis
  then have "unat q = unat p" using o by presburger
  then show ?thesis by simp
qed

lemma nibbles:
  fixes v d :: u32
  shows "take_bit 4 (drop_bit 4 ((v AND NOT 0xF0) OR (push_bit 4 d AND 0xF0))) = take_bit 4 d"
    "take_bit 4 ((v AND NOT 0xF0) OR (push_bit 4 d AND 0xF0)) = take_bit 4 v"
    "take_bit 4 ((v AND NOT 0xF) OR (d AND 0xF)) = take_bit 4 d"
    "take_bit 4 (drop_bit 4 ((v AND NOT 0xF) OR (d AND 0xF))) = take_bit 4 (drop_bit 4 v)"
proof -
  have e: "(0xF0 :: u32) = push_bit 4 (mask 4)" "(0xF :: u32) = mask 4" by (simp_all add: mask_eq_exp_minus_1)
  have b: "bit (0xF0 :: u32) n \<longleftrightarrow> 4 \<le> n \<and> n < 8" "bit (0xF :: u32) n \<longleftrightarrow> n < 4" for n
    unfolding e by (auto simp only: bit_push_bit_iff bit_mask_iff) auto
  note [simp del] = bit_numeral_word_iff push_bit_numeral_minus_1 and [simp] = b bit_take_bit_iff bit_drop_bit_eq bit_or_iff bit_and_iff bit_not_iff bit_push_bit_iff
  show "take_bit 4 (drop_bit 4 ((v AND NOT 0xF0) OR (push_bit 4 d AND 0xF0))) = take_bit 4 d"
    by (rule bit_word_eqI) auto
  show "take_bit 4 ((v AND NOT 0xF0) OR (push_bit 4 d AND 0xF0)) = take_bit 4 v"
    by (rule bit_word_eqI) auto
  show "take_bit 4 ((v AND NOT 0xF) OR (d AND 0xF)) = take_bit 4 d"
    by (rule bit_word_eqI) auto
  show "take_bit 4 (drop_bit 4 ((v AND NOT 0xF) OR (d AND 0xF))) = take_bit 4 (drop_bit 4 v)"
    by (rule bit_word_eqI) auto
qed

lemma view_function:
  assumes "soc_ok b kept" and "p = GPIO_PIN gpio" and "g = GPIO_PORT gpio"
  shows "view_pin (kept (soc_hw (port_set_pin_function b gpio function s))) g' q
    = (if g' = g \<and> q = p
       then (view_pin (kept (soc_hw s)) g p)\<lparr>pin_function := if function = GPIO_PIN_FUNCTION_OFF then None else Some (take_bit 4 function)\<rparr>
       else view_pin (kept (soc_hw s)) g' q)"
proof -
  have nb: "q = p" if "drop_bit (Suc 0) q = drop_bit (Suc 0) p" "odd (unat q) = odd (unat p)"
    using that same_pmux by simp
  define d where "d = (ucast (ucast (function AND 0xFFFF) :: u8) :: u32)"
  have "function AND 0xFFFF = take_bit 16 function" by (simp add: take_bit_eq_mask mask_eq_exp_minus_1)
  then have d: "take_bit 4 d = take_bit 4 function"
    unfolding d_def by (simp only:) (rule bit_word_eqI, auto simp: bit_simps)
  define hi where "hi = (\<lambda>v. (v AND NOT 0xF0) OR (push_bit 4 d AND 0xF0))"
  define lo where "lo = (\<lambda>v. (v AND NOT 0xF) OR (d AND 0xF))"
  have n: "take_bit 4 (drop_bit 4 (hi v)) = take_bit 4 function" "take_bit 4 (hi v) = take_bit 4 v"
    "take_bit 4 (lo v) = take_bit 4 function" "take_bit 4 (drop_bit 4 (lo v)) = take_bit 4 (drop_bit 4 v)" for v
    unfolding hi_def lo_def by (simp_all only: nibbles d)
  have b1: "bit (1 :: u32) n \<longleftrightarrow> n = 0" for n by (simp add: bit_1_iff)
  show ?thesis
    unfolding port_set_pin_function_def Let_def assms(2,3) [symmetric] odd_and_1 d_def [symmetric] hi_def [symmetric] lo_def [symmetric]
    by (auto simp: soc_ok_accesses(4) [OF assms(1)] status_reg_def soc_effect_def view_pin_def n b1
        bit_or_iff bit_and_iff bit_not_iff dest: nb)
qed

subsection \<open>The driver as operations on pins\<close>

datatype pin_op =
    Pin_direction gpio_direction
  | Pin_level bool
  | Pin_toggle
  | Pin_pull gpio_pull_mode
  | Pin_function u32

fun run_pin_op :: "'h soc_bus \<Rightarrow> pin_op \<Rightarrow> u8 \<Rightarrow> 'h soc_state \<Rightarrow> 'h soc_state" where
  "run_pin_op b (Pin_direction d) pin s = hal_gpio_set_pin_direction b pin d s"
| "run_pin_op b (Pin_level l) pin s = hal_gpio_set_pin_level b pin l s"
| "run_pin_op b Pin_toggle pin s = hal_gpio_toggle_pin_level b pin s"
| "run_pin_op b (Pin_pull m) pin s = hal_gpio_set_pin_pull_mode b pin m s"
| "run_pin_op b (Pin_function f) pin s = hal_gpio_set_pin_function b (ucast pin) f s"

fun pin_op_spec :: "pin_op \<Rightarrow> pin_view \<Rightarrow> pin_view" where
  "pin_op_spec (Pin_direction d) v =
     v\<lparr>pin_out := d = GPIO_DIRECTION_OUT, pin_input := d = GPIO_DIRECTION_IN, pin_pull := False, pin_function := None\<rparr>"
| "pin_op_spec (Pin_level l) v = v\<lparr>pin_level := l\<rparr>"
| "pin_op_spec Pin_toggle v = v\<lparr>pin_level := \<not> pin_level v\<rparr>"
| "pin_op_spec (Pin_pull GPIO_PULL_OFF) v = v\<lparr>pin_pull := False\<rparr>"
| "pin_op_spec (Pin_pull GPIO_PULL_UP) v = v\<lparr>pin_out := False, pin_level := True, pin_pull := True\<rparr>"
| "pin_op_spec (Pin_pull GPIO_PULL_DOWN) v = v\<lparr>pin_out := False, pin_level := False, pin_pull := True\<rparr>"
| "pin_op_spec (Pin_function f) v =
     v\<lparr>pin_function := if f = GPIO_PIN_FUNCTION_OFF then None else Some (take_bit 4 f)\<rparr>"

definition port_of :: "u8 \<Rightarrow> u8" where "port_of pin = drop_bit 5 pin"

definition bit_of :: "u8 \<Rightarrow> u8" where "bit_of pin = take_bit 5 pin"

lemma pin_numbers:
  "GPIO_PORT (ucast pin) = port_of pin" "GPIO_PIN (ucast pin) = bit_of pin" "pin AND 0x1F = bit_of pin" "unat (bit_of pin) < 32"
proof -
  show "GPIO_PORT (ucast pin) = port_of pin" by (rule bit_word_eqI) (auto simp: GPIO_PORT_def port_of_def bit_simps)
  have "(0x1F :: u32) = mask 5" "(0x1F :: u8) = mask 5" by (simp_all add: mask_eq_exp_minus_1)
  then show "GPIO_PIN (ucast pin) = bit_of pin" "pin AND 0x1F = bit_of pin"
    unfolding GPIO_PIN_def bit_of_def by (simp_all only: flip: take_bit_eq_mask) (rule bit_word_eqI, auto simp: bit_simps)
  show "unat (bit_of pin) < 32" by (simp add: bit_of_def take_bit_eq_mod unat_mod)
qed

lemma run_pin_op_spec:
  assumes "soc_ok b kept" and "unat q < 32"
  shows "view_pin (kept (soc_hw (run_pin_op b op pin s))) g q
    = (if g = port_of pin \<and> q = bit_of pin then pin_op_spec op (view_pin (kept (soc_hw s)) g q) else view_pin (kept (soc_hw s)) g q)"
proof (cases op)
  case (Pin_pull m)
  then show ?thesis
    by (cases m) (auto simp: hal_gpio_set_pin_pull_mode_def pin_numbers view_pull [OF assms(1) pin_numbers(4) assms(2)] Let_def)
next
  case (Pin_function f)
  then show ?thesis
    by (auto simp: hal_gpio_set_pin_function_def view_function [OF assms(1) refl refl] pin_numbers)
qed (auto simp: hal_gpio_set_pin_direction_def hal_gpio_set_pin_level_def hal_gpio_toggle_pin_level_def gpio_pins(1)
    pin_numbers(1,2) view_set_direction [OF assms(1) pin_numbers(4) assms(2)] view_set_level [OF assms(1) pin_numbers(4) assms(2)]
    view_toggle_level [OF assms(1) pin_numbers(4) assms(2)])

subsection \<open>Pins and the rest of the chip\<close>

definition port_reg :: "soc_reg \<Rightarrow> bool" where
  "port_reg r \<longleftrightarrow> (case r of PORT_DIR g \<Rightarrow> True | PORT_OUT g \<Rightarrow> True | PORT_PINCFG g p \<Rightarrow> True | PORT_PMUX g i \<Rightarrow> True | _ \<Rightarrow> False)"

lemma run_pin_op_other:
  assumes "soc_ok b kept" and "\<not> port_reg r"
  shows "kept (soc_hw (run_pin_op b op pin s)) r = kept (soc_hw s) r"
proof -
  have w: "kept (soc_hw (soc_write b r' v s)) r = kept (soc_hw s) r"
    if "r' = PORT_DIRSET g \<or> r' = PORT_DIRCLR g \<or> r' = PORT_OUTSET g \<or> r' = PORT_OUTCLR g \<or> r' = PORT_OUTTGL g \<or> r' = PORT_WRCONFIG g" for r' v s g
    using that assms(2) by (auto simp: soc_ok_accesses(3) [OF assms(1)] soc_effect_def port_reg_def split: soc_reg.splits)
  have m: "kept (soc_hw (soc_modify b r' f s)) r = kept (soc_hw s) r" if "r' = PORT_PINCFG g p \<or> r' = PORT_PMUX g p" for r' f s g p
    using that assms(2) by (auto simp: soc_ok_accesses(4) [OF assms(1)] status_reg_def soc_effect_def port_reg_def)
  show ?thesis
  proof (cases op)
    case (Pin_direction d)
    then show ?thesis by (cases d) (simp_all add: hal_gpio_set_pin_direction_def port_set_direction_def write_wrconfig_def Let_def w)
  next
    case (Pin_pull p)
    then show ?thesis by (cases p) (simp_all add: hal_gpio_set_pin_pull_mode_def port_set_pin_pull_mode_def Let_def w m)
  qed (simp_all add: hal_gpio_set_pin_level_def port_set_level_def hal_gpio_toggle_pin_level_def port_toggle_level_def
      hal_gpio_set_pin_function_def port_set_pin_function_def Let_def w m)
qed

lemma view_pin_update: "\<not> port_reg r \<Longrightarrow> view_pin (f(r := x)) g q = view_pin f g q"
  by (auto simp: view_pin_def port_reg_def)

subsection \<open>Sequences of operations\<close>

definition apply_pins :: "'h soc_bus \<Rightarrow> (pin_op \<times> u8) list \<Rightarrow> 'h soc_state \<Rightarrow> 'h soc_state" where
  "apply_pins b ops s = fold (\<lambda>(op, pin). run_pin_op b op pin) ops s"

lemma apply_pins_view:
  assumes "soc_ok b kept"
  shows "unat q < 32 \<Longrightarrow> view_pin (kept (soc_hw (apply_pins b ops s))) g q
      = fold pin_op_spec (map fst (filter (\<lambda>(op, pin). g = port_of pin \<and> q = bit_of pin) ops)) (view_pin (kept (soc_hw s)) g q)"
    and "\<not> port_reg r \<Longrightarrow> kept (soc_hw (apply_pins b ops s)) r = kept (soc_hw s) r"
proof -
  show "unat q < 32 \<Longrightarrow> view_pin (kept (soc_hw (apply_pins b ops s))) g q
      = fold pin_op_spec (map fst (filter (\<lambda>(op, pin). g = port_of pin \<and> q = bit_of pin) ops)) (view_pin (kept (soc_hw s)) g q)"
    unfolding apply_pins_def by (induction ops arbitrary: s) (simp_all add: split_beta run_pin_op_spec [OF assms])
  show "\<not> port_reg r \<Longrightarrow> kept (soc_hw (apply_pins b ops s)) r = kept (soc_hw s) r"
    unfolding apply_pins_def by (induction ops arbitrary: s) (simp_all add: split_beta run_pin_op_other [OF assms])
qed

text \<open>
  C11. The port driver refines operations on independent pins: after any sequence of direction,
  level, pull and function settings on pins of any port, each pin is what its own
  operations make of it, in their order.  A direction takes the pin from its peripheral.
\<close>

theorem gpio_refines_pins:
  assumes "soc_ok b kept" and "unat q < 32"
  shows "view_pin (kept (soc_hw (fold (\<lambda>(op, pin). run_pin_op b op pin) ops s))) g q
    = fold pin_op_spec (map fst (filter (\<lambda>(op, pin). g = port_of pin \<and> q = bit_of pin) ops)) (view_pin (kept (soc_hw s)) g q)"
  using apply_pins_view(1) [OF assms, of ops s g] by (simp add: apply_pins_def)

lemma gpio_refines_pins_witness:
  "view_pin (soc_hw (fold (\<lambda>(op, pin). run_pin_op plain_soc op pin)
      [(Pin_level True, 24), (Pin_direction GPIO_DIRECTION_OUT, 24), (Pin_level True, 25), (Pin_function 0x180006, 24)]
      \<lparr>soc_hw = (\<lambda>_. 0), soc_log = [], primask = 0, irq_table = (\<lambda>_. 0)\<rparr>)) 0 24
    = \<lparr>pin_out = True, pin_level = True, pin_input = False, pin_pull = False, pin_function = Some 6\<rparr>"
proof -
  have "unat (24 :: u8) < 32" by simp
  note run = gpio_refines_pins [OF plain_soc_ok this]
  show ?thesis unfolding run by (simp add: port_of_def bit_of_def view_pin_def)
qed

end
