(* ===== verification/DriverInit.thy ===== *)
theory DriverInit
  imports Clocks Gpio HalI2c HalTimer UsbOpen
begin

text \<open>
  Start-up of the board, \<open>driver_init.c\<close> and \<open>atmel_start.c\<close>: the clocks and pins of the
  peripherals, and the initialisation of their drivers.  The board's state is the system
  registers, and the states of the three drivers.
\<close>

record ('h, 'p, 'f) board =
  board_soc :: "'h soc_state"
  i2c_0 :: "'p hal_i2c_state"
  timer_0 :: "'f timer_state"
  usb_0 :: cdcdf

text \<open>What the drivers are started with: the accessors of the two chips' parts, the tables of the driver configurations, the call through a USB callback, and the address of the timer's device.\<close>

record ('h, 'p) board_conf =
  soc_b :: "'h soc_bus"
  i2c_b :: "'p sercom_bus"
  conf_macros :: conf
  conf_gens :: "nat \<Rightarrow> gen_conf"
  conf_i2cms :: "i2cm_configuration list"
  conf_tcs :: "tc_configuration list"
  conf_call :: "unit cdc_call"
  conf_timer_device :: ptr

abbreviation (input) PA00 :: u8 where "PA00 \<equiv> 0"
abbreviation (input) PA01 :: u8 where "PA01 \<equiv> 1"
abbreviation (input) PA02 :: u8 where "PA02 \<equiv> 2"
abbreviation (input) PA08 :: u8 where "PA08 \<equiv> 8"
abbreviation (input) PA09 :: u8 where "PA09 \<equiv> 9"
abbreviation (input) PA24 :: u8 where "PA24 \<equiv> 24"
abbreviation (input) PA25 :: u8 where "PA25 \<equiv> 25"

abbreviation (input) PINMUX_PA08C_SERCOM0_PAD0 :: u32 where "PINMUX_PA08C_SERCOM0_PAD0 \<equiv> 0x80002"
abbreviation (input) PINMUX_PA09C_SERCOM0_PAD1 :: u32 where "PINMUX_PA09C_SERCOM0_PAD1 \<equiv> 0x90002"
abbreviation (input) PINMUX_PA24G_USB_DM :: u32 where "PINMUX_PA24G_USB_DM \<equiv> 0x180006"
abbreviation (input) PINMUX_PA25G_USB_DP :: u32 where "PINMUX_PA25G_USB_DP \<equiv> 0x190006"

subsection \<open>I2C\<close>

definition I2C_0_PORT_init :: "'h soc_bus \<Rightarrow> 'h soc_state \<Rightarrow> 'h soc_state" where
  "I2C_0_PORT_init b s =
     (let s = hal_gpio_set_pin_pull_mode b PA08 GPIO_PULL_OFF s;
          s = hal_gpio_set_pin_function b (ucast PA08) PINMUX_PA08C_SERCOM0_PAD0 s;
          s = hal_gpio_set_pin_pull_mode b PA09 GPIO_PULL_OFF s
      in hal_gpio_set_pin_function b (ucast PA09) PINMUX_PA09C_SERCOM0_PAD1 s)"

definition I2C_0_CLOCK_init :: "'h soc_bus \<Rightarrow> 'h soc_state \<Rightarrow> 'h soc_state" where
  \<comment> \<open>channels 20 (core) and 19 (slow), from generators 0 and 1\<close>
  "I2C_0_CLOCK_init b s =
     (let s = pm_enable_bus_clock b PM_BUS_APBC SERCOM0 s;
          s = gclk_enable_channel b 20 0 s
      in gclk_enable_channel b 19 1 s)"

definition I2C_0_init :: "('h, 'p) board_conf \<Rightarrow> ('h, 'p, 'f) board \<Rightarrow> ('h, 'p, 'f) board option" where
  "I2C_0_init c s =
     (let s = s\<lparr>board_soc := I2C_0_CLOCK_init (soc_b c) (board_soc s)\<rparr> in
      case i2c_m_sync_init (i2c_b c) (conf_i2cms c) SERCOM0 (i2c_0 s) of
        None \<Rightarrow> None
      | Some (_, t) \<Rightarrow>
          (let s = s\<lparr>i2c_0 := t\<rparr> in Some (s\<lparr>board_soc := I2C_0_PORT_init (soc_b c) (board_soc s)\<rparr>)))"

subsection \<open>Timer\<close>

definition TIMER_0_init :: "('h, 'p) board_conf \<Rightarrow> ('h, 'p, 'f) board \<Rightarrow> ('h, 'p, 'f) board option" where
  \<comment> \<open>channel 27 from generator 0\<close>
  "TIMER_0_init c s =
     (let s = s\<lparr>board_soc := pm_enable_bus_clock (soc_b c) PM_BUS_APBC TC3 (board_soc s)\<rparr>;
          s = s\<lparr>board_soc := gclk_enable_channel (soc_b c) 27 0 (board_soc s)\<rparr> in
      case timer_init (conf_tcs c) (conf_timer_device c) TC3 (timer_0 s) of
        None \<Rightarrow> None
      | Some (_, t) \<Rightarrow> Some (s\<lparr>timer_0 := t\<rparr>))"

subsection \<open>USB\<close>

definition USB_0_PORT_init :: "'h soc_bus \<Rightarrow> 'h soc_state \<Rightarrow> 'h soc_state" where
  "USB_0_PORT_init b s =
     (let s = hal_gpio_set_pin_direction b PA24 GPIO_DIRECTION_OUT s;
          s = hal_gpio_set_pin_level b PA24 False s;
          s = hal_gpio_set_pin_pull_mode b PA24 GPIO_PULL_OFF s;
          s = hal_gpio_set_pin_function b (ucast PA24) PINMUX_PA24G_USB_DM s;
          s = hal_gpio_set_pin_direction b PA25 GPIO_DIRECTION_OUT s;
          s = hal_gpio_set_pin_level b PA25 False s;
          s = hal_gpio_set_pin_pull_mode b PA25 GPIO_PULL_OFF s
      in hal_gpio_set_pin_function b (ucast PA25) PINMUX_PA25G_USB_DP s)"

definition USB_0_CLOCK_init :: "'h soc_bus \<Rightarrow> 'h soc_state \<Rightarrow> 'h soc_state" where
  "USB_0_CLOCK_init b s =
     (let s = pm_enable_bus_clock b PM_BUS_APBB USB_base s;
          s = pm_enable_bus_clock b PM_BUS_AHB USB_base s
      in gclk_enable_channel b 6 0 s)"

definition USB_0_init :: "('h, 'p) board_conf \<Rightarrow> ('h, 'p, 'f) board \<Rightarrow> ('h, 'p, 'f) board option" where
  "USB_0_init c s =
     (let s = s\<lparr>board_soc := USB_0_CLOCK_init (soc_b c) (board_soc s)\<rparr> in
      case usb_d_init (conf_call c) (usb_0 s) of
        None \<Rightarrow> None
      | Some (_, u) \<Rightarrow>
          (let s = s\<lparr>usb_0 := u\<rparr> in Some (s\<lparr>board_soc := USB_0_PORT_init (soc_b c) (board_soc s)\<rparr>)))"

subsection \<open>The board\<close>

definition output_pin_init :: "'h soc_bus \<Rightarrow> u8 \<Rightarrow> 'h soc_state \<Rightarrow> 'h soc_state" where
  \<comment> \<open>the three calls for each of the LED pins\<close>
  "output_pin_init b pin s =
     (let s = hal_gpio_set_pin_level b pin False s;
          s = hal_gpio_set_pin_direction b pin GPIO_DIRECTION_OUT s
      in hal_gpio_set_pin_function b (ucast pin) GPIO_PIN_FUNCTION_OFF s)"

definition system_init :: "bool \<Rightarrow> ('h, 'p) board_conf \<Rightarrow> ('h, 'p, 'f) board \<Rightarrow> ('h, 'p, 'f) board option" where
  \<comment> \<open>\<open>samd21j\<close>: \<open>__SAMD21J18A__\<close> is defined; \<open>PB30\<close> is 62\<close>
  "system_init samd21j c s =
     (let b = soc_b c in
      case init_chip b (conf_macros c) (conf_gens c) (board_soc s) of
        None \<Rightarrow> None
      | Some t \<Rightarrow>
          (let t = output_pin_init b PA00 t;
               t = output_pin_init b PA01 t;
               t = output_pin_init b PA02 t;
               t = (if samd21j then output_pin_init b 62 t else t)
           in Option.bind (I2C_0_init c (s\<lparr>board_soc := t\<rparr>)) (\<lambda>s. Option.bind (TIMER_0_init c s) (USB_0_init c))))"

definition atmel_start_init :: "bool \<Rightarrow> bool \<Rightarrow> ('h, 'p) board_conf \<Rightarrow> ('h, 'p, 'f) board \<Rightarrow> (rc \<times> ('h, 'p, 'f) board) option" where
  "atmel_start_init samd21j debug c s =
     (case system_init samd21j c s of
        None \<Rightarrow> None
      | Some s \<Rightarrow>
          (case usb_init debug (conf_call c) (usb_0 s) of
             None \<Rightarrow> None
           | Some (rv, u) \<Rightarrow> Some (rv, s\<lparr>usb_0 := u\<rparr>)))"

subsection \<open>The pins and clocks of a started board\<close>

lemmas pin_ops = run_pin_op.simps [symmetric]

lemma bus_clock_kept:
  assumes "soc_ok b kept"
  shows "kept (soc_hw (pm_enable_bus_clock b PM_BUS_APBC SERCOM0 s)) = (kept (soc_hw s))(PM_APBCMASK := kept (soc_hw s) PM_APBCMASK OR 0x4)"
    "kept (soc_hw (pm_enable_bus_clock b PM_BUS_APBC TC3 s)) = (kept (soc_hw s))(PM_APBCMASK := kept (soc_hw s) PM_APBCMASK OR 0x800)"
    "kept (soc_hw (pm_enable_bus_clock b PM_BUS_APBB USB_base s)) = (kept (soc_hw s))(PM_APBBMASK := kept (soc_hw s) PM_APBBMASK OR 0x20)"
    "kept (soc_hw (pm_enable_bus_clock b PM_BUS_AHB USB_base s)) = (kept (soc_hw s))(PM_AHBMASK := kept (soc_hw s) PM_AHBMASK OR 0x40)"
    "kept (soc_hw (gclk_enable_channel b ch src s))
      = (kept (soc_hw s))(GCLK_CLKCTRL := field 0 6 (ucast ch) OR field 8 4 (ucast src) OR push_bit 14 1)"
  by (simp_all add: pm_enable_bus_clock_def gclk_enable_channel_def soc_ok_accesses [OF assms] status_reg_def soc_effect_def
      peripheral_index_def SERCOM0_def TC3_def pm_get_ahb_index_def pm_get_apbb_index_def pm_bus_value_def set_bits_def)

text \<open>What start-up does to the pins, in order.\<close>

definition output_pin_ops :: "u8 \<Rightarrow> (pin_op \<times> u8) list" where
  "output_pin_ops p = [(Pin_level False, p), (Pin_direction GPIO_DIRECTION_OUT, p), (Pin_function GPIO_PIN_FUNCTION_OFF, p)]"

definition i2c_pin_ops :: "(pin_op \<times> u8) list" where
  "i2c_pin_ops =
     [(Pin_pull GPIO_PULL_OFF, PA08), (Pin_function PINMUX_PA08C_SERCOM0_PAD0, PA08),
      (Pin_pull GPIO_PULL_OFF, PA09), (Pin_function PINMUX_PA09C_SERCOM0_PAD1, PA09)]"

definition usb_pin_ops :: "u8 \<Rightarrow> u32 \<Rightarrow> (pin_op \<times> u8) list" where
  "usb_pin_ops p f = [(Pin_direction GPIO_DIRECTION_OUT, p), (Pin_level False, p), (Pin_pull GPIO_PULL_OFF, p), (Pin_function f, p)]"

definition start_pins :: "(pin_op \<times> u8) list" where
  "start_pins =
     output_pin_ops PA00 @ output_pin_ops PA01 @ output_pin_ops PA02 @ i2c_pin_ops
     @ usb_pin_ops PA24 PINMUX_PA24G_USB_DM @ usb_pin_ops PA25 PINMUX_PA25G_USB_DP"

lemma port_inits:
  "output_pin_init b p s = apply_pins b (output_pin_ops p) s"
  "I2C_0_PORT_init b s = apply_pins b i2c_pin_ops s"
  "USB_0_PORT_init b s = apply_pins b (usb_pin_ops PA25 PINMUX_PA25G_USB_DP) (apply_pins b (usb_pin_ops PA24 PINMUX_PA24G_USB_DM) s)"
  by (simp_all add: apply_pins_def output_pin_init_def I2C_0_PORT_init_def USB_0_PORT_init_def output_pin_ops_def i2c_pin_ops_def usb_pin_ops_def)

lemma reset_epts_loop_returns: "cb_done s = None \<Longrightarrow> \<exists>s'. reset_epts_loop call is s = Some s' \<and> cb_done s' = None"
  by (induction call "is" s rule: reset_epts_loop.induct) (auto simp: trans_done_def Let_def invoke_proc_def split: option.splits)

lemma driver_inits_return:
  "get_i2cm_index i2cms hw \<noteq> None \<Longrightarrow> \<exists>r s'. i2c_m_sync_init b i2cms hw s = Some (r, s')"
  "get_tc_index tcs hw \<noteq> None \<Longrightarrow> \<exists>r s'. timer_init tcs dev hw t = Some (r, s')"
  "\<exists>r s'. usb_d_init call u = Some (r, s')"
proof -
  show "get_i2cm_index i2cms hw \<noteq> None \<Longrightarrow> \<exists>r s'. i2c_m_sync_init b i2cms hw s = Some (r, s')"
    by (auto simp: i2c_m_sync_init_def hpl_i2c_m_sync_init_def i2c_m_sync_init_impl_def Let_def split: prod.split)
  show "get_tc_index tcs hw \<noteq> None \<Longrightarrow> \<exists>r s'. timer_init tcs dev hw t = Some (r, s')"
    by (auto simp: timer_init_def hpl_timer_init_def Let_def)
  have "\<exists>s'. reset_epts call (s\<lparr>cb_setup := None, cb_more := None, cb_done := None\<rparr>) = Some s'" for s
    using reset_epts_loop_returns [of "s\<lparr>cb_setup := None, cb_more := None, cb_done := None\<rparr>" call "[0..<USB_D_N_EP]"]
    by (auto simp: reset_epts_def)
  then show "\<exists>r s'. usb_d_init call u = Some (r, s')"
    by (simp add: usb_d_init_def usb_dev_init_def Let_def split: option.split) (metis option.distinct(1))
qed

lemma system_init_soc:
  assumes "init_chip (soc_b c) (conf_macros c) (conf_gens c) (board_soc s) = Some t"
    and "get_i2cm_index (conf_i2cms c) SERCOM0 \<noteq> None" and "get_tc_index (conf_tcs c) TC3 \<noteq> None"
  shows "\<exists>s'. system_init False c s = Some s' \<and> board_soc s' =
    USB_0_PORT_init (soc_b c) (USB_0_CLOCK_init (soc_b c)
      (gclk_enable_channel (soc_b c) 27 0 (pm_enable_bus_clock (soc_b c) PM_BUS_APBC TC3
        (I2C_0_PORT_init (soc_b c) (I2C_0_CLOCK_init (soc_b c)
          (output_pin_init (soc_b c) PA02 (output_pin_init (soc_b c) PA01 (output_pin_init (soc_b c) PA00 t))))))))"
proof -
  obtain r i where "i2c_m_sync_init (i2c_b c) (conf_i2cms c) SERCOM0 (i2c_0 s) = Some (r, i)"
    using driver_inits_return(1) [OF assms(2)] by blast
  moreover obtain r' t' where "timer_init (conf_tcs c) (conf_timer_device c) TC3 (timer_0 s) = Some (r', t')"
    using driver_inits_return(2) [OF assms(3)] by blast
  moreover obtain r'' u where "usb_d_init (conf_call c) (usb_0 s) = Some (r'', u)"
    using driver_inits_return(3) by blast
  ultimately show ?thesis
    using assms(1) by (simp add: system_init_def I2C_0_init_def TIMER_0_init_def USB_0_init_def Let_def)
qed

lemma view_clock_kept:
  assumes "soc_ok b kept"
  shows "view_pin (kept (soc_hw (I2C_0_CLOCK_init b s))) g q = view_pin (kept (soc_hw s)) g q"
    "view_pin (kept (soc_hw (USB_0_CLOCK_init b s))) g q = view_pin (kept (soc_hw s)) g q"
    "view_pin (kept (soc_hw (gclk_enable_channel b ch src (pm_enable_bus_clock b PM_BUS_APBC TC3 s)))) g q = view_pin (kept (soc_hw s)) g q"
  by (simp_all add: I2C_0_CLOCK_init_def USB_0_CLOCK_init_def Let_def bus_clock_kept [OF assms] view_pin_update port_reg_def)

text \<open>
  C9. A board whose clocks come up and whose drivers have a configuration starts
  with each pin as its own settings leave it, the others untouched, and the bus clocks of
  exactly the three peripherals switched on: the I2C and timer modules on bridge C, USB
  on bridge B and on the AHB.
\<close>

theorem board_started:
  assumes "soc_ok (soc_b c) kept" and "chip_ready (soc_b c) kept"
    and "get_i2cm_index (conf_i2cms c) SERCOM0 \<noteq> None" and "get_tc_index (conf_tcs c) TC3 \<noteq> None"
  shows "\<exists>s'. system_init False c s = Some s'
    \<and> (\<forall>g q. unat q < 32 \<longrightarrow> view_pin (kept (soc_hw (board_soc s'))) g q
         = fold pin_op_spec (map fst (filter (\<lambda>(op, pin). g = port_of pin \<and> q = bit_of pin) start_pins))
             (view_pin (kept (soc_hw (board_soc s))) g q))
    \<and> (\<forall>r. r \<in> {PM_AHBMASK, PM_APBAMASK, PM_APBBMASK, PM_APBCMASK} \<longrightarrow> kept (soc_hw (board_soc s')) r
         = kept (soc_hw (board_soc s)) r
           OR (if r = PM_APBCMASK then 0x804 else if r = PM_APBBMASK then 0x20 else if r = PM_AHBMASK then 0x40 else 0))"
proof -
  let ?b = "soc_b c"
  note ok = assms(1)
  obtain t where t: "init_chip ?b (conf_macros c) (conf_gens c) (board_soc s) = Some t"
    using init_chip_returns [OF assms(1,2)] by blast
  from system_init_soc [OF t assms(3,4)] obtain s' where s': "system_init False c s = Some s'"
    and soc: "board_soc s' = USB_0_PORT_init ?b (USB_0_CLOCK_init ?b
      (gclk_enable_channel ?b 27 0 (pm_enable_bus_clock ?b PM_BUS_APBC TC3
        (I2C_0_PORT_init ?b (I2C_0_CLOCK_init ?b
          (output_pin_init ?b PA02 (output_pin_init ?b PA01 (output_pin_init ?b PA00 t))))))))" by blast
  have port: "view_pin (kept (soc_hw t)) g q = view_pin (kept (soc_hw (board_soc s))) g q" for g q
    by (simp add: view_pin_def init_chip_elsewhere [OF t ok] clock_regs_def)
  have regs: "r \<notin> clock_regs" "\<not> port_reg r" if "r \<in> {PM_AHBMASK, PM_APBAMASK, PM_APBBMASK, PM_APBCMASK}" for r
    using that by (auto simp: clock_regs_def port_reg_def)
  have "view_pin (kept (soc_hw (board_soc s'))) g q
      = fold pin_op_spec (map fst (filter (\<lambda>(op, pin). g = port_of pin \<and> q = bit_of pin) start_pins))
          (view_pin (kept (soc_hw (board_soc s))) g q)" if "unat q < 32" for g q
    unfolding soc port_inits apply_pins_view(1) [OF ok that] view_clock_kept [OF ok] port start_pins_def
    by (simp only: filter_append map_append fold_append o_apply)
  moreover have "kept (soc_hw (board_soc s')) r = kept (soc_hw (board_soc s)) r
      OR (if r = PM_APBCMASK then 0x804 else if r = PM_APBBMASK then 0x20 else if r = PM_AHBMASK then 0x40 else 0)"
    if "r \<in> {PM_AHBMASK, PM_APBAMASK, PM_APBBMASK, PM_APBCMASK}" for r
    using regs [OF that] that
    by (auto simp: soc port_inits apply_pins_view(2) [OF ok] I2C_0_CLOCK_init_def USB_0_CLOCK_init_def Let_def
        bus_clock_kept [OF ok] init_chip_elsewhere [OF t ok] or.assoc)
  ultimately show ?thesis using s' by blast
qed

definition sample_conf :: "(soc_reg \<Rightarrow> u32, sercom_reg \<Rightarrow> u32) board_conf" where
  "sample_conf =
     \<lparr>soc_b = plain_soc, i2c_b = regs_bus, conf_macros = powerlog_conf, conf_gens = powerlog_gens,
      conf_i2cms = [\<lparr>i2cm_number = 0, i2cm_ctrl_a = 0x200014, i2cm_ctrl_b = 0x100, i2cm_baud = 0xE6E5, i2cm_dbgctrl = 0,
        i2cm_trise = 215, i2cm_clk = 48000000\<rparr>],
      conf_tcs = [\<lparr>cfg_number = 3, cfg_ctrl_a = 0, cfg_dbg_ctrl = 0, cfg_event_ctrl = 0, cfg_per = 0, cfg_cc0 = 0, cfg_cc1 = 0\<rparr>],
      conf_call = (\<lambda>_ _ s. Some (False, s)), conf_timer_device = 0x20000200\<rparr>"

definition sample_board :: "(soc_reg \<Rightarrow> u32, sercom_reg \<Rightarrow> u32, unit) board" where
  "sample_board =
     \<lparr>board_soc = \<lparr>soc_hw = (\<lambda>_. 0), soc_log = [], primask = 0, irq_table = (\<lambda>_. 0)\<rparr>,
      i2c_0 = \<lparr>periph = (\<lambda>_. 0), imem = (\<lambda>_. 0), sercom_irq_on = False, sercom_irq_pending = False, svc_msg = mk_msg 0 0 0 0,
        svc_mode = 0, svc_trise = 0, i2c_hw = 0, slave_addr = 0, io_ready = False, reg_slot = 0x20000F00\<rparr>,
      timer_0 = sample_timer, usb_0 = fresh_dev\<rparr>"

lemma board_started_witness:
  "\<exists>s'. system_init False sample_conf sample_board = Some s'
    \<and> view_pin (soc_hw (board_soc s')) 0 24
        = \<lparr>pin_out = True, pin_level = False, pin_input = False, pin_pull = False, pin_function = Some 6\<rparr>
    \<and> pin_function (view_pin (soc_hw (board_soc s')) 0 9) = Some 2
    \<and> soc_hw (board_soc s') PM_APBCMASK = 0x804"
proof -
  have "soc_ok (soc_b sample_conf) (\<lambda>h. h)" "chip_ready (soc_b sample_conf) (\<lambda>h. h)"
    "get_i2cm_index (conf_i2cms sample_conf) SERCOM0 \<noteq> None" "get_tc_index (conf_tcs sample_conf) TC3 \<noteq> None"
    by (simp_all add: sample_conf_def plain_soc_ok plain_soc_ready get_i2cm_index_def sercom_get_hardware_index_def get_tc_index_def
        tc_get_hardware_index_def SERCOM0_def TC3_def)
  from board_started [OF this, of sample_board] obtain s' where s': "system_init False sample_conf sample_board = Some s'"
    and v: "\<And>g q. unat q < 32 \<Longrightarrow> view_pin (soc_hw (board_soc s')) g q
       = fold pin_op_spec (map fst (filter (\<lambda>(op, pin). g = port_of pin \<and> q = bit_of pin) start_pins)) (view_pin (soc_hw (board_soc sample_board)) g q)"
    and r: "soc_hw (board_soc s') PM_APBCMASK = soc_hw (board_soc sample_board) PM_APBCMASK OR 0x804" by auto
  show ?thesis
    using s' r v [of 24 0] v [of 9 0]
    by (simp add: start_pins_def output_pin_ops_def i2c_pin_ops_def usb_pin_ops_def port_of_def bit_of_def sample_board_def view_pin_def)
qed

end
