(* ===== verification/Startup.thy ===== *)
theory Startup
  imports Soc HplTc
begin

text \<open>
  The reset of the core, \<open>samd21a/gcc/gcc/startup_samd21.c\<close>: the vector table, the copy of the
  initialised data and the clearing of the rest, and the heap of \<open>utils_syscalls.c\<close>.
  The symbols of the linker are a record; memory is addressed by the byte address of a word.
  \<open>__libc_init_array\<close> is a parameter.
\<close>

subsection \<open>The vector table\<close>

definition exception_table :: "(string \<Rightarrow> bool) \<Rightarrow> string list" where
  \<comment> \<open>the handler in each slot after the initial stack pointer, \<open>''''\<close> for a reserved one; \<open>has x\<close>: the macro \<open>x\<close> is defined\<close>
  "exception_table has =
     (let opt = (\<lambda>x h. if has x then h else '''') in
      [''Reset_Handler'', ''NonMaskableInt_Handler'', ''HardFault_Handler'', '''', '''', '''', '''', '''', '''', '''',
       ''SVCall_Handler'', '''', '''', ''PendSV_Handler'', ''SysTick_Handler'',
       ''PM_Handler'', ''SYSCTRL_Handler'', ''WDT_Handler'', ''RTC_Handler'', ''EIC_Handler'', ''NVMCTRL_Handler'', ''DMAC_Handler'',
       opt ''ID_USB'' ''USB_Handler'', ''EVSYS_Handler'', ''SERCOM0_Handler'', ''SERCOM1_Handler'', ''SERCOM2_Handler'', ''SERCOM3_Handler'',
       opt ''ID_SERCOM4'' ''SERCOM4_Handler'', opt ''ID_SERCOM5'' ''SERCOM5_Handler'',
       ''TCC0_Handler'', ''TCC1_Handler'', ''TCC2_Handler'', ''TC3_Handler'', ''TC4_Handler'', ''TC5_Handler'',
       opt ''ID_TC6'' ''TC6_Handler'', opt ''ID_TC7'' ''TC7_Handler'', opt ''ID_ADC'' ''ADC_Handler'', opt ''ID_AC'' ''AC_Handler'',
       opt ''ID_DAC'' ''DAC_Handler'', opt ''ID_PTC'' ''PTC_Handler'', ''I2S_Handler'', ''''])"

text \<open>Exception \<open>n\<close> takes slot \<open>n\<close> of the table, and interrupt \<open>n\<close> is exception \<open>16 + n\<close>; slot 0 is the stack pointer.\<close>

definition handler_of_irq :: "(string \<Rightarrow> bool) \<Rightarrow> nat \<Rightarrow> string" where
  "handler_of_irq has n = exception_table has ! (16 + n - 1)"

lemma driver_handlers:
  "handler_of_irq has (tc_irqn TC3) = ''TC3_Handler''"
  "map (handler_of_irq has) [9..<13] = [''SERCOM0_Handler'', ''SERCOM1_Handler'', ''SERCOM2_Handler'', ''SERCOM3_Handler'']"
  "has ''ID_USB'' \<Longrightarrow> handler_of_irq has 7 = ''USB_Handler''" "handler_of_irq has 6 = ''DMAC_Handler''"
  by (simp_all add: handler_of_irq_def exception_table_def Let_def tc_irqn_def tc_get_hardware_index_def TC3_def numeral_eq_Suc)

subsection \<open>Reset\<close>

record segments =
  sfixed :: ptr
  etext :: ptr
  srelocate :: ptr
  erelocate :: ptr
  szero :: ptr
  ezero :: ptr

record 'h boot_state =
  boot_soc :: "'h soc_state"
  memory :: "ptr \<Rightarrow> u32"

partial_function (option) copy_words :: "ptr \<Rightarrow> ptr \<Rightarrow> ptr \<Rightarrow> (ptr \<Rightarrow> u32) \<Rightarrow> (ptr \<Rightarrow> u32) option" where
  "copy_words pDest pSrc e m =
     (if pDest < e then copy_words (pDest + 4) (pSrc + 4) e (m(pDest := m pSrc)) else Some m)"

partial_function (option) zero_words :: "ptr \<Rightarrow> ptr \<Rightarrow> (ptr \<Rightarrow> u32) \<Rightarrow> (ptr \<Rightarrow> u32) option" where
  "zero_words pDest e m = (if pDest < e then zero_words (pDest + 4) e (m(pDest := 0)) else Some m)"

definition reset_registers :: "bool \<Rightarrow> 'h soc_bus \<Rightarrow> segments \<Rightarrow> 'h soc_state \<Rightarrow> 'h soc_state" where
  \<comment> \<open>from \<open>SCB->VTOR\<close> on; \<open>has_usb\<close>: \<open>ID_USB\<close> is defined\<close>
  "reset_registers has_usb b g s =
     (let s = soc_write b SCB_VTOR (sfixed g AND 0xFFFFFF00) s;
          s = soc_write b SBMATRIX_SFR_HMCRAMC0 2 s;
          s = (if has_usb
               then (let s = soc_modify b USB_QOSCTRL (\<lambda>v. (v AND NOT 0x3) OR 0x2) s
                     in soc_modify b USB_QOSCTRL (\<lambda>v. (v AND NOT 0xC) OR 0x8) s)
               else s);
          s = soc_modify b DMAC_QOSCTRL (\<lambda>v. (v AND NOT 0x30) OR 0x20) s;
          s = soc_modify b DMAC_QOSCTRL (\<lambda>v. (v AND NOT 0xC) OR 0x8) s;
          s = soc_modify b DMAC_QOSCTRL (\<lambda>v. (v AND NOT 0x3) OR 0x2) s
      in soc_modify b NVM_CTRLB (\<lambda>v. v OR 0x80) s)"

definition reset_handler ::
    "bool \<Rightarrow> 'h soc_bus \<Rightarrow> segments \<Rightarrow> ('h boot_state \<Rightarrow> 'h boot_state) \<Rightarrow> 'h boot_state \<Rightarrow> 'h boot_state option" where
  \<comment> \<open>the state in which \<open>main\<close> is called; after \<open>main\<close> the handler loops for ever\<close>
  "reset_handler has_usb b g libc_init_array s =
     Option.bind (if etext g \<noteq> srelocate g then copy_words (srelocate g) (etext g) (erelocate g) (memory s) else Some (memory s)) (\<lambda>m.
     Option.bind (zero_words (szero g) (ezero g) m) (\<lambda>m.
     Some (libc_init_array (s\<lparr>boot_soc := reset_registers has_usb b g (boot_soc s), memory := m\<rparr>))))"

subsection \<open>What \<open>main\<close> finds\<close>

definition words_of :: "ptr \<Rightarrow> nat \<Rightarrow> ptr set" where
  \<comment> \<open>the addresses of \<open>n\<close> words from \<open>p\<close> on\<close>
  "words_of p n = (\<lambda>k. p + of_nat (4 * k)) ` {..<n}"

lemma words_of_Suc: "words_of p (Suc n) = insert p (words_of (p + 4) n)"
  by (simp add: words_of_def lessThan_Suc_eq_insert_0 image_image algebra_simps)

lemma not_in_later:
  assumes "unat d + 4 * Suc n < 2 ^ 32"
  shows "d \<notin> words_of (d + 4) n"
proof
  assume "d \<in> words_of (d + 4) n"
  then obtain k where k: "k < n" "d = d + 4 + of_nat (4 * k)" by (auto simp: words_of_def)
  then have "(of_nat (4 * k + 4) :: ptr) = 0" by (simp add: algebra_simps)
  moreover have "unat (of_nat i :: ptr) = i" if "i < 2 ^ 32" for i using that by (simp add: unat_of_nat take_bit_nat_eq_self)
  moreover have "4 * k + 4 < 2 ^ 32" using k(1) assms by simp
  ultimately show False by (metis add_is_0 unsigned_0 zero_neq_numeral)
qed

lemma next_word:
  fixes d e :: ptr
  assumes "unat d + 4 * Suc n = unat e"
  shows "d < e" "unat d + 4 * Suc n < 2 ^ 32" "unat (d + 4) + 4 * n = unat e"
proof -
  show big: "unat d + 4 * Suc n < 2 ^ 32" using assms u32_lt [of e] by simp
  then have "unat (d + 4) = unat d + 4" by (simp add: unat_word_ariths(1))
  then show "unat (d + 4) + 4 * n = unat e" using assms by simp
  show "d < e" using assms by (simp add: word_less_nat_alt)
qed

lemma copy_words_run:
  assumes "unat d + 4 * n = unat e" and "words_of s n \<inter> words_of d n = {}"
  shows "\<exists>m'. copy_words d s e m = Some m' \<and> (\<forall>k < n. m' (d + of_nat (4 * k)) = m (s + of_nat (4 * k)))
    \<and> (\<forall>a. a \<notin> words_of d n \<longrightarrow> m' a = m a)"
  using assms
proof (induction n arbitrary: d s m)
  case 0
  then have "\<not> d < e" by (simp add: word_less_nat_alt)
  then show ?case by (subst copy_words.simps) (simp add: words_of_def)
next
  case (Suc n)
  note less = next_word(1) [OF Suc.prems(1)] and big = next_word(2) [OF Suc.prems(1)]
  have "unat (d + 4) + 4 * n = unat e" by (rule next_word(3) [OF Suc.prems(1)])
  moreover have "words_of (s + 4) n \<inter> words_of (d + 4) n = {}" using Suc.prems(2) by (auto simp: words_of_Suc)
  ultimately obtain m' where m': "copy_words (d + 4) (s + 4) e (m(d := m s)) = Some m'"
    and new: "\<And>k. k < n \<Longrightarrow> m' (d + 4 + of_nat (4 * k)) = (m(d := m s)) (s + 4 + of_nat (4 * k))"
    and old: "\<And>a. a \<notin> words_of (d + 4) n \<Longrightarrow> m' a = (m(d := m s)) a"
    using Suc.IH by blast
  have "m' (d + of_nat (4 * k)) = m (s + of_nat (4 * k))" if "k < Suc n" for k
  proof (cases k)
    case 0
    then show ?thesis using old [OF not_in_later [OF big]] by simp
  next
    case (Suc j)
    then have "s + 4 + of_nat (4 * j) \<in> words_of (s + 4) n" using that by (auto simp: words_of_def)
    then have "s + 4 + of_nat (4 * j) \<noteq> d" using Suc.prems(2) by (auto simp: words_of_Suc)
    then show ?thesis using new [of j] Suc that by (simp add: algebra_simps)
  qed
  then show ?case
    using m' old less by (subst copy_words.simps) (auto simp: words_of_Suc)
qed

lemma zero_words_run:
  assumes "unat d + 4 * n = unat e"
  shows "zero_words d e m = Some (\<lambda>a. if a \<in> words_of d n then 0 else m a)"
  using assms
proof (induction n arbitrary: d m)
  case 0
  then have "\<not> d < e" by (simp add: word_less_nat_alt)
  then show ?case by (subst zero_words.simps) (simp add: words_of_def)
next
  case (Suc n)
  show ?case
    using next_word [OF Suc.prems] Suc.IH by (subst zero_words.simps) (auto simp: words_of_Suc)
qed

lemma words_of_bounds:
  assumes "a \<in> words_of p n" and "unat p + 4 * n < 2 ^ 32"
  shows "unat p \<le> unat a" "unat a < unat p + 4 * n"
proof -
  obtain k where k: "k < n" "a = p + of_nat (4 * k)" using assms(1) by (auto simp: words_of_def)
  have small: "unat p + 4 * k < 2 ^ 32" using k(1) assms(2) by simp
  have of_nat: "unat (of_nat i :: ptr) = i" if "i < 2 ^ 32" for i using that by (simp add: unat_of_nat take_bit_nat_eq_self)
  have "4 * k < 2 ^ 32" using small by simp
  then have "unat (of_nat (4 * k) :: ptr) = 4 * k" by (rule of_nat)
  then have "unat a = unat p + 4 * k" using k(2) small by (simp only: unat_word_ariths(1)) simp
  then show "unat p \<le> unat a" "unat a < unat p + 4 * n" using k(1) by simp_all
qed

lemma words_of_disjoint:
  assumes "unat p + 4 * n \<le> unat q" and "unat q + 4 * k < 2 ^ 32"
  shows "words_of p n \<inter> words_of q k = {}"
  using words_of_bounds [of _ p n] words_of_bounds [of _ q k] assms by fastforce

definition linked :: "segments \<Rightarrow> nat \<Rightarrow> nat \<Rightarrow> bool" where
  \<comment> \<open>the layout of the linker script: \<open>nd\<close> words of data, whose values follow the code unless they are
      loaded in place, and behind them \<open>nz\<close> words without value\<close>
  "linked g nd nz \<longleftrightarrow>
     unat (srelocate g) + 4 * nd = unat (erelocate g) \<and> unat (szero g) + 4 * nz = unat (ezero g) \<and> erelocate g \<le> szero g
     \<and> (unat (etext g) + 4 * nd \<le> unat (srelocate g) \<or> etext g = srelocate g)"

lemma reset_registers_kept:
  assumes "soc_ok b kept"
  shows "kept (soc_hw (reset_registers has_usb b g s)) SCB_VTOR = sfixed g AND 0xFFFFFF00"
    "kept (soc_hw (reset_registers has_usb b g s)) NVM_CTRLB = kept (soc_hw s) NVM_CTRLB OR 0x80"
    "r \<notin> {SCB_VTOR, SBMATRIX_SFR_HMCRAMC0, USB_QOSCTRL, DMAC_QOSCTRL, NVM_CTRLB}
      \<Longrightarrow> kept (soc_hw (reset_registers has_usb b g s)) r = kept (soc_hw s) r"
  by (simp_all add: reset_registers_def Let_def soc_ok_accesses [OF assms] status_reg_def soc_effect_def)


definition sample_segments :: segments where
  \<comment> \<open>two words of data and two without value, behind 12 KB of code\<close>
  "sample_segments =
     \<lparr>sfixed = 0, etext = 0x3000, srelocate = 0x20000000, erelocate = 0x20000008, szero = 0x20000008, ezero = 0x20000010\<rparr>"


subsection \<open>The heap\<close>

definition sbrk :: "ptr \<Rightarrow> int \<Rightarrow> ptr \<Rightarrow> ptr \<times> ptr" where
  \<comment> \<open>\<open>e\<close> is \<open>&_end\<close>; the second result is the static \<open>heap\<close>\<close>
  "sbrk e incr heap = (let heap = (if heap = NULL then e else heap) in (heap, heap + word_of_int incr))"

text \<open>
  Nothing limits the heap: with the 4 KB of memory of the part that the firmware is built for,
  a request for more than all of it succeeds.
\<close>

lemma sbrk_past_memory: "sbrk 0x20000800 0x1000 NULL = (0x20000800, 0x20001800)" "(0x20001000 :: ptr) < 0x20001800"
  by (simp_all add: sbrk_def)

subsection \<open>The other system calls\<close>

text \<open>Without files and processes the calls have fixed answers.\<close>

definition sys_link :: "ptr \<Rightarrow> ptr \<Rightarrow> int" where "sys_link old new = -1"
definition sys_close :: "int \<Rightarrow> int" where "sys_close file = -1"
definition sys_fstat :: "int \<Rightarrow> ptr \<Rightarrow> (ptr \<Rightarrow> u32) \<Rightarrow> int \<times> (ptr \<Rightarrow> u32)" where
  \<comment> \<open>\<open>S_IFCHR\<close> of newlib; \<open>st\<close> is the address of the member \<open>st_mode\<close>\<close>
  "sys_fstat file st m = (0, m(st := 0x2000))"
definition sys_isatty :: "int \<Rightarrow> int" where "sys_isatty file = 1"
definition sys_lseek :: "int \<Rightarrow> int \<Rightarrow> int \<Rightarrow> int" where "sys_lseek file pos dir = 0"
definition sys_exit :: "(int \<Rightarrow> 's \<Rightarrow> 's) \<Rightarrow> int \<Rightarrow> 's \<Rightarrow> 's option" where
  \<comment> \<open>the message is the parameter \<open>report\<close>; then the call loops for ever\<close>
  "sys_exit report status s = (let s = report status s in None)"
definition sys_kill :: "int \<Rightarrow> int \<Rightarrow> 's \<Rightarrow> 's" where "sys_kill pid sig s = s"
definition sys_getpid :: int where "sys_getpid = -1"

end
