(* ===== verification/Dmac.thy ===== *)
theory Dmac
  imports Clocks
begin

text \<open>
  The DMA controller driver \<open>hpl/dmac/hpl_dmac.c\<close>.  The registers of a channel are behind a
  window: \<open>CHID\<close> selects the channel whose registers are seen.  The descriptors are memory that the
  controller reads.  A channel number past the tables is undefined in C: \<open>None\<close>.
\<close>

datatype dmac_reg =
    DMAC_CTRL | DMAC_DBGCTRL | DMAC_PRICTRL0 | DMAC_BASEADDR | DMAC_WRBADDR | DMAC_INTPEND | DMAC_SWTRIGCTRL
  | DMAC_CHID | DMAC_CHCTRLA | DMAC_CHCTRLB | DMAC_CHINTENSET | DMAC_CHINTENCLR | DMAC_CHINTFLAG

record 'h dmac_bus =
  dmac_rd :: "dmac_reg \<Rightarrow> 'h \<Rightarrow> u32 \<times> 'h"
  dmac_wr :: "dmac_reg \<Rightarrow> u32 \<Rightarrow> 'h \<Rightarrow> 'h"

record dma_descriptor =
  btctrl :: u16
  btcnt :: u16
  srcaddr :: u32
  dstaddr :: u32
  descaddr :: u32

record 'f dma_resource =
  transfer_done :: "'f option"
  dma_error :: "'f option"

datatype dma_callback_type = DMA_TRANSFER_COMPLETE_CB | DMA_TRANSFER_ERROR_CB

record dmac_channel_cfg =
  cfg_ctrla :: u8
  cfg_ctrlb :: u32
  cfg_btctrl :: u16

record ('h, 'f) dmac_state =
  dmac_hw :: 'h
  descriptor_section :: "u8 \<Rightarrow> dma_descriptor"
  resources :: "u8 \<Rightarrow> 'f dma_resource"
  dmac_irq_on :: bool
  dmac_irq_pending :: bool

abbreviation (input) DMAC_CH_NUM :: nat where "DMAC_CH_NUM \<equiv> 12"

subsection \<open>Accesses\<close>

definition dmac_read :: "'h dmac_bus \<Rightarrow> dmac_reg \<Rightarrow> ('h, 'f) dmac_state \<Rightarrow> u32 \<times> ('h, 'f) dmac_state" where
  "dmac_read b r s = (case dmac_rd b r (dmac_hw s) of (v, h) \<Rightarrow> (v, s\<lparr>dmac_hw := h\<rparr>))"

definition dmac_write :: "'h dmac_bus \<Rightarrow> dmac_reg \<Rightarrow> u32 \<Rightarrow> ('h, 'f) dmac_state \<Rightarrow> ('h, 'f) dmac_state" where
  "dmac_write b r v s = s\<lparr>dmac_hw := dmac_wr b r v (dmac_hw s)\<rparr>"

definition dmac_modify :: "'h dmac_bus \<Rightarrow> dmac_reg \<Rightarrow> (u32 \<Rightarrow> u32) \<Rightarrow> ('h, 'f) dmac_state \<Rightarrow> ('h, 'f) dmac_state" where
  "dmac_modify b r f s = (case dmac_read b r s of (v, s) \<Rightarrow> dmac_write b r (f v) s)"

definition with_descriptor :: "u8 \<Rightarrow> (dma_descriptor \<Rightarrow> dma_descriptor) \<Rightarrow> ('h, 'f) dmac_state \<Rightarrow> ('h, 'f) dmac_state option" where
  "with_descriptor channel f s =
     (if unat channel < DMAC_CH_NUM
      then Some (s\<lparr>descriptor_section := (descriptor_section s)(channel := f (descriptor_section s channel))\<rparr>) else None)"

subsection \<open>Initialisation\<close>

definition dmac_channel_cfg :: "(string \<Rightarrow> nat \<Rightarrow> u32) \<Rightarrow> nat \<Rightarrow> dmac_channel_cfg" where
  \<comment> \<open>\<open>DMAC_CHANNEL_CFG\<close>; \<open>c m n\<close> is the value of the macro \<open>m\<close> for channel \<open>n\<close>\<close>
  "dmac_channel_cfg c n =
     \<lparr>cfg_ctrla = ucast (push_bit 1 (c ''CONF_DMAC_ENABLE'' n)),
      cfg_ctrlb = field 22 2 (c ''CONF_DMAC_TRIGACT'' n) OR field 8 6 (c ''CONF_DMAC_TRIGSRC'' n)
        OR field 5 2 (c ''CONF_DMAC_LVL'' n) OR push_bit 4 (c ''CONF_DMAC_EVOE'' n)
        OR push_bit 3 (c ''CONF_DMAC_EVIE'' n) OR field 0 3 (c ''CONF_DMAC_EVACT'' n),
      cfg_btctrl = ucast (field 13 3 (c ''CONF_DMAC_STEPSIZE'' n) OR push_bit 12 (c ''CONF_DMAC_STEPSEL'' n)
        OR push_bit 11 (c ''CONF_DMAC_DSTINC'' n) OR push_bit 10 (c ''CONF_DMAC_SRCINC'' n)
        OR field 8 2 (c ''CONF_DMAC_BEATSIZE'' n) OR field 3 2 (c ''CONF_DMAC_BLOCKACT'' n)
        OR field 1 2 (c ''CONF_DMAC_EVOSEL'' n))\<rparr>"

definition dma_init_channel :: "'h dmac_bus \<Rightarrow> (nat \<Rightarrow> dmac_channel_cfg) \<Rightarrow> nat \<Rightarrow> ('h, 'f) dmac_state \<Rightarrow> ('h, 'f) dmac_state" where
  \<comment> \<open>one round of the loop\<close>
  "dma_init_channel b cfgs i s =
     (let s = dmac_write b DMAC_CHID (of_nat i) s;
          s = dmac_write b DMAC_CHCTRLB (cfg_ctrlb (cfgs i)) s;
          d = descriptor_section s (of_nat i)
      in s\<lparr>descriptor_section := (descriptor_section s)(of_nat i := d\<lparr>btctrl := cfg_btctrl (cfgs i), descaddr := 0\<rparr>)\<rparr>)"

definition dma_init ::
    "'h dmac_bus \<Rightarrow> conf \<Rightarrow> (nat \<Rightarrow> dmac_channel_cfg) \<Rightarrow> ptr \<Rightarrow> ptr \<Rightarrow> ('h, 'f) dmac_state \<Rightarrow> rc \<times> ('h, 'f) dmac_state" where
  \<comment> \<open>\<open>descs\<close> and \<open>wrb\<close> are the addresses of the two sections\<close>
  "dma_init b cfg cfgs descs wrb s =
     (let s = dmac_modify b DMAC_CTRL (\<lambda>v. v AND NOT 0x2) s;
          s = dmac_modify b DMAC_CTRL (\<lambda>v. v AND NOT 0x4) s;
          s = dmac_modify b DMAC_CHCTRLA (\<lambda>v. v OR 0x1) s;
          s = dmac_write b DMAC_CTRL
                (push_bit 8 (cfg ''CONF_DMAC_LVLEN0'') OR push_bit 9 (cfg ''CONF_DMAC_LVLEN1'')
                 OR push_bit 10 (cfg ''CONF_DMAC_LVLEN2'') OR push_bit 11 (cfg ''CONF_DMAC_LVLEN3'')) s;
          s = dmac_modify b DMAC_DBGCTRL (\<lambda>v. (v AND NOT 0x1) OR (if cfg ''CONF_DMAC_DBGRUN'' \<noteq> 0 then 1 else 0)) s;
          s = dmac_write b DMAC_PRICTRL0
                (field 0 4 (cfg ''CONF_DMAC_LVLPRI0'') OR field 8 4 (cfg ''CONF_DMAC_LVLPRI1'')
                 OR field 16 4 (cfg ''CONF_DMAC_LVLPRI2'') OR field 24 4 (cfg ''CONF_DMAC_LVLPRI3'')
                 OR push_bit 7 (cfg ''CONF_DMAC_RRLVLEN0'') OR push_bit 15 (cfg ''CONF_DMAC_RRLVLEN1'')
                 OR push_bit 23 (cfg ''CONF_DMAC_RRLVLEN2'') OR push_bit 31 (cfg ''CONF_DMAC_RRLVLEN3'')) s;
          s = dmac_write b DMAC_BASEADDR descs s;
          s = dmac_write b DMAC_WRBADDR wrb s;
          s = fold (dma_init_channel b cfgs) [0..<DMAC_CH_NUM] s;
          s = s\<lparr>dmac_irq_on := False\<rparr>;
          s = s\<lparr>dmac_irq_pending := False\<rparr>;
          s = s\<lparr>dmac_irq_on := True\<rparr>
      in (ERR_NONE, dmac_modify b DMAC_CTRL (\<lambda>v. v OR 0x2) s))"

subsection \<open>Operations\<close>

definition dma_set_irq_state :: "'h dmac_bus \<Rightarrow> u8 \<Rightarrow> dma_callback_type \<Rightarrow> bool \<Rightarrow> ('h, 'f) dmac_state \<Rightarrow> ('h, 'f) dmac_state" where
  "dma_set_irq_state b channel type state s =
     (let s = dmac_write b DMAC_CHID (ucast channel) s;
          r = (if state then DMAC_CHINTENSET else DMAC_CHINTENCLR)
      in case type of
           DMA_TRANSFER_COMPLETE_CB \<Rightarrow> dmac_write b r 0x2 s
         | DMA_TRANSFER_ERROR_CB \<Rightarrow> dmac_write b r 0x1 s)"

definition dma_set_destination_address :: "u8 \<Rightarrow> ptr \<Rightarrow> ('h, 'f) dmac_state \<Rightarrow> (rc \<times> ('h, 'f) dmac_state) option" where
  "dma_set_destination_address channel dst s = map_option (Pair ERR_NONE) (with_descriptor channel (\<lambda>d. d\<lparr>dstaddr := dst\<rparr>) s)"

definition dma_set_source_address :: "u8 \<Rightarrow> ptr \<Rightarrow> ('h, 'f) dmac_state \<Rightarrow> (rc \<times> ('h, 'f) dmac_state) option" where
  "dma_set_source_address channel src s = map_option (Pair ERR_NONE) (with_descriptor channel (\<lambda>d. d\<lparr>srcaddr := src\<rparr>) s)"

definition dma_set_next_descriptor :: "ptr \<Rightarrow> u8 \<Rightarrow> u8 \<Rightarrow> ('h, 'f) dmac_state \<Rightarrow> (rc \<times> ('h, 'f) dmac_state) option" where
  \<comment> \<open>a descriptor has 16 bytes\<close>
  "dma_set_next_descriptor descs current_channel next_channel s =
     map_option (Pair ERR_NONE) (with_descriptor current_channel (\<lambda>d. d\<lparr>descaddr := descs + 16 * ucast next_channel\<rparr>) s)"

definition dma_srcinc_enable :: "u8 \<Rightarrow> bool \<Rightarrow> ('h, 'f) dmac_state \<Rightarrow> (rc \<times> ('h, 'f) dmac_state) option" where
  "dma_srcinc_enable channel enable s =
     map_option (Pair ERR_NONE)
       (with_descriptor channel (\<lambda>d. d\<lparr>btctrl := (btctrl d AND NOT 0x400) OR (if enable then 0x400 else 0)\<rparr>) s)"

definition dma_dstinc_enable :: "u8 \<Rightarrow> bool \<Rightarrow> ('h, 'f) dmac_state \<Rightarrow> (rc \<times> ('h, 'f) dmac_state) option" where
  "dma_dstinc_enable channel enable s =
     map_option (Pair ERR_NONE)
       (with_descriptor channel (\<lambda>d. d\<lparr>btctrl := (btctrl d AND NOT 0x800) OR (if enable then 0x800 else 0)\<rparr>) s)"

definition beat_size :: "dma_descriptor \<Rightarrow> nat" where
  \<comment> \<open>the field \<open>BEATSIZE\<close>: a beat has \<open>1 << beat_size\<close> bytes\<close>
  "beat_size d = unat (take_bit 2 (drop_bit 8 (btctrl d)))"

definition dma_set_data_amount :: "u8 \<Rightarrow> u32 \<Rightarrow> ('h, 'f) dmac_state \<Rightarrow> (rc \<times> ('h, 'f) dmac_state) option" where
  "dma_set_data_amount channel amount s =
     map_option (Pair ERR_NONE)
       (with_descriptor channel
          (\<lambda>d. (let len = amount * push_bit (beat_size d) 1;
                    d = (if bit (btctrl d) 11 then d\<lparr>dstaddr := dstaddr d + len\<rparr> else d);
                    d = (if bit (btctrl d) 10 then d\<lparr>srcaddr := srcaddr d + len\<rparr> else d)
                in d\<lparr>btcnt := ucast amount\<rparr>)) s)"

definition dma_enable_transaction :: "'h dmac_bus \<Rightarrow> u8 \<Rightarrow> bool \<Rightarrow> ('h, 'f) dmac_state \<Rightarrow> (rc \<times> ('h, 'f) dmac_state) option" where
  \<comment> \<open>the test of the channel, which is that of the descriptor, comes after the write of \<open>CHID\<close>\<close>
  "dma_enable_transaction b channel software_trigger s =
     (let s = dmac_write b DMAC_CHID (ucast channel) s in
      case with_descriptor channel (\<lambda>d. d\<lparr>btctrl := btctrl d OR 0x1\<rparr>) s of
        None \<Rightarrow> None
      | Some s \<Rightarrow>
          (let s = dmac_modify b DMAC_CHCTRLA (\<lambda>v. v OR 0x2) s;
               s = (if software_trigger then dmac_modify b DMAC_SWTRIGCTRL (\<lambda>v. v OR push_bit (unat channel) 1) s else s)
           in Some (ERR_NONE, s)))"

definition dma_get_channel_resource :: "u8 \<Rightarrow> ('h, 'f) dmac_state \<Rightarrow> rc \<times> u8" where
  \<comment> \<open>the address of a resource is the number of its channel\<close>
  "dma_get_channel_resource channel s = (ERR_NONE, channel)"

definition call_resource ::
    "('f \<Rightarrow> u8 \<Rightarrow> ('h, 'f) dmac_state \<Rightarrow> ('h, 'f) dmac_state option) \<Rightarrow> 'f option \<Rightarrow> u8 \<Rightarrow> ('h, 'f) dmac_state \<Rightarrow> ('h, 'f) dmac_state option" where
  "call_resource run f channel s =
     (if unat channel < DMAC_CH_NUM then (case f of None \<Rightarrow> None | Some f \<Rightarrow> run f channel s) else None)"

definition dmac_handler ::
    "'h dmac_bus \<Rightarrow> ('f \<Rightarrow> u8 \<Rightarrow> ('h, 'f) dmac_state \<Rightarrow> ('h, 'f) dmac_state option) \<Rightarrow> ('h, 'f) dmac_state \<Rightarrow> ('h, 'f) dmac_state option" where
  "dmac_handler b run s =
     (case dmac_read b DMAC_INTPEND s of (v, s) \<Rightarrow>
      case dmac_read b DMAC_CHID s of (w, s) \<Rightarrow>
        (let channel = ucast (v AND 0xF); current_channel = (ucast w :: u8);
             s = dmac_write b DMAC_CHID (ucast channel) s in
         case dmac_read b DMAC_CHINTFLAG s of (x, s) \<Rightarrow>
           (let flag_status = x AND 0x7 in
            Option.bind
              (if flag_status AND 0x1 \<noteq> 0
               then call_resource run (dma_error (resources s channel)) channel (dmac_write b DMAC_CHINTFLAG 0x1 s)
               else if flag_status AND 0x2 \<noteq> 0
               then call_resource run (transfer_done (resources s channel)) channel (dmac_write b DMAC_CHINTFLAG 0x2 s)
               else Some s)
              (\<lambda>s. Some (dmac_write b DMAC_CHID (ucast current_channel) s)))))"

subsection \<open>The beats of a transfer\<close>

definition dma_beats :: "dma_descriptor \<Rightarrow> (u32 \<times> u32) list" where
  \<comment> \<open>source and destination of each beat, from the register description: with an increment the address
      in the descriptor is the end of the block, and \<open>STEPSEL\<close> says which side takes the step \<open>STEPSIZE\<close>\<close>
  "dma_beats d =
     (let n = unat (btcnt d); bytes = 2 ^ beat_size d; step = 2 ^ unat (take_bit 3 (drop_bit 13 (btctrl d)));
          on_src = bit (btctrl d) 12;
          src = (\<lambda>k. if bit (btctrl d) 10 then srcaddr d - of_nat ((n - k) * (bytes * (if on_src then step else 1))) else srcaddr d);
          dst = (\<lambda>k. if bit (btctrl d) 11 then dstaddr d - of_nat ((n - k) * (bytes * (if on_src then 1 else step))) else dstaddr d)
      in map (\<lambda>k. (src k, dst k)) [0..<n])"


subsection \<open>The controller's registers\<close>

record dmac_view =
  v_chid :: u8
  v_bank :: "u8 \<Rightarrow> dmac_reg \<Rightarrow> u32"
  v_glob :: "dmac_reg \<Rightarrow> u32"

definition dmac_effect :: "dmac_reg \<Rightarrow> u32 \<Rightarrow> dmac_view \<Rightarrow> dmac_view" where
  \<comment> \<open>what a write changes, from the register descriptions: flags are cleared by writing 1, and a
      channel is reset by \<open>SWRST\<close>\<close>
  "dmac_effect r v w =
     (let c = v_chid w; f = v_bank w c; set_bank = (\<lambda>f. w\<lparr>v_bank := (v_bank w)(c := f)\<rparr>) in
      case r of
        DMAC_CHID \<Rightarrow> w\<lparr>v_chid := take_bit 4 (ucast v)\<rparr>
      | DMAC_CHINTFLAG \<Rightarrow> set_bank (f(DMAC_CHINTFLAG := f DMAC_CHINTFLAG AND NOT v))
      | DMAC_CHINTENSET \<Rightarrow> set_bank (f(DMAC_CHINTENSET := f DMAC_CHINTENSET OR v))
      | DMAC_CHINTENCLR \<Rightarrow> set_bank (f(DMAC_CHINTENSET := f DMAC_CHINTENSET AND NOT v))
      | DMAC_CHCTRLA \<Rightarrow> set_bank (if bit v 0 then (\<lambda>_. 0) else f(DMAC_CHCTRLA := v))
      | DMAC_CHCTRLB \<Rightarrow> set_bank (f(DMAC_CHCTRLB := v))
      | _ \<Rightarrow> w\<lparr>v_glob := (v_glob w)(r := v)\<rparr>)"

definition pending_on :: "dmac_view \<Rightarrow> u8 \<Rightarrow> bool" where
  "pending_on w c \<longleftrightarrow> v_bank w c DMAC_CHINTFLAG AND v_bank w c DMAC_CHINTENSET AND 0x7 \<noteq> 0"

definition pending_channel :: "dmac_view \<Rightarrow> u8 option" where
  \<comment> \<open>the lowest channel with an enabled interrupt\<close>
  "pending_channel w = find (pending_on w) (map of_nat [0..<DMAC_CH_NUM])"

definition dmac_ok :: "'h dmac_bus \<Rightarrow> ('h \<Rightarrow> dmac_view) \<Rightarrow> bool" where
  \<comment> \<open>while the handler runs no transfer ends\<close>
  "dmac_ok b view \<longleftrightarrow>
     (\<forall>r h. view (snd (dmac_rd b r h)) = view h) \<and> (\<forall>r v h. view (dmac_wr b r v h) = dmac_effect r v (view h))
   \<and> (\<forall>h. unat (v_chid (view h)) < 16 \<and> fst (dmac_rd b DMAC_CHID h) = ucast (v_chid (view h))
        \<and> fst (dmac_rd b DMAC_CHINTFLAG h) = v_bank (view h) (v_chid (view h)) DMAC_CHINTFLAG
        \<and> (\<forall>c. pending_channel (view h) = Some c \<longrightarrow> fst (dmac_rd b DMAC_INTPEND h) AND 0xF = ucast c))"

lemma dmac_accesses:
  assumes "dmac_ok b view"
  shows "view (dmac_hw (snd (dmac_read b r s))) = view (dmac_hw s)"
    "view (dmac_hw (dmac_write b r v s)) = dmac_effect r v (view (dmac_hw s))"
    "fst (dmac_read b DMAC_CHID s) = ucast (v_chid (view (dmac_hw s)))"
    "fst (dmac_read b DMAC_CHINTFLAG s) = v_bank (view (dmac_hw s)) (v_chid (view (dmac_hw s))) DMAC_CHINTFLAG"
    "pending_channel (view (dmac_hw s)) = Some c \<Longrightarrow> fst (dmac_read b DMAC_INTPEND s) AND 0xF = ucast c"
    "take_bit 4 (v_chid (view (dmac_hw s))) = v_chid (view (dmac_hw s))"
proof -
  note ok = assms [unfolded dmac_ok_def]
  show "view (dmac_hw (snd (dmac_read b r s))) = view (dmac_hw s)" "view (dmac_hw (dmac_write b r v s)) = dmac_effect r v (view (dmac_hw s))"
    "fst (dmac_read b DMAC_CHID s) = ucast (v_chid (view (dmac_hw s)))"
    "fst (dmac_read b DMAC_CHINTFLAG s) = v_bank (view (dmac_hw s)) (v_chid (view (dmac_hw s))) DMAC_CHINTFLAG"
    "pending_channel (view (dmac_hw s)) = Some c \<Longrightarrow> fst (dmac_read b DMAC_INTPEND s) AND 0xF = ucast c"
    using ok by (simp_all add: dmac_read_def dmac_write_def split_beta)
  have "unat (v_chid (view (dmac_hw s))) < 2 ^ 4" using ok by simp
  then show "take_bit 4 (v_chid (view (dmac_hw s))) = v_chid (view (dmac_hw s))"
    by (simp add: word_unat_eq_iff unsigned_take_bit_eq take_bit_nat_eq_self)
qed

lemma dmac_access_frame [simp]:
  "resources (snd (dmac_read b r s)) = resources s" "resources (dmac_write b r v s) = resources s"
  "descriptor_section (snd (dmac_read b r s)) = descriptor_section s" "descriptor_section (dmac_write b r v s) = descriptor_section s"
  by (simp_all add: dmac_read_def dmac_write_def split_beta)

lemma pending_channelD:
  assumes "pending_channel w = Some c"
  shows "unat c < DMAC_CH_NUM" "pending_on w c"
proof -
  obtain i where "i < DMAC_CH_NUM" "c = of_nat i" "pending_on w c"
    using assms by (auto simp: pending_channel_def find_Some_iff)
  then show "unat c < DMAC_CH_NUM" "pending_on w c" by (simp_all add: unat_of_nat take_bit_nat_eq_self)
qed

lemma pendingD: "pending_on w c \<Longrightarrow> v_bank w c DMAC_CHINTFLAG AND v_bank w c DMAC_CHINTENSET AND 0x7 \<noteq> 0"
  by (simp add: pending_on_def)

subsection \<open>Interrupts\<close>

text \<open>The flag that the handler takes: an error before a completed transfer.\<close>

definition served_flag :: "u32 \<Rightarrow> u32" where
  "served_flag flags = (if bit flags 0 then 0x1 else 0x2)"

definition acknowledged :: "u8 \<Rightarrow> dmac_view \<Rightarrow> dmac_view" where
  "acknowledged c w =
     (let f = v_bank w c
      in w\<lparr>v_chid := c, v_bank := (v_bank w)(c := f(DMAC_CHINTFLAG := f DMAC_CHINTFLAG AND NOT (served_flag (f DMAC_CHINTFLAG))))\<rparr>)"

lemma taken_flag:
  fixes x en :: u32
  shows "(x AND 0x7) AND 0x1 = 0 \<longleftrightarrow> \<not> bit x 0" "(x AND 0x7) AND 0x2 = 0 \<longleftrightarrow> \<not> bit x 1"
    and "x AND en AND 0x7 \<noteq> 0 \<Longrightarrow> en AND 0x4 = 0 \<Longrightarrow> \<not> bit x 0 \<Longrightarrow> bit x 1"
proof -
  show "(x AND 0x7) AND 0x1 = 0 \<longleftrightarrow> \<not> bit x 0" "(x AND 0x7) AND 0x2 = 0 \<longleftrightarrow> \<not> bit x 1"
    by (simp_all add: bit_iff_and_push_bit_not_eq_0 and.assoc)
  show "bit x 1" if some: "x AND en AND 0x7 \<noteq> 0" and en: "en AND 0x4 = 0" and no: "\<not> bit x 0"
  proof (rule ccontr)
    assume no1: "\<not> bit x 1"
    have no2: "\<not> bit en 2" using en by (simp add: bit_iff_and_push_bit_not_eq_0)
    have "x AND en AND mask 3 = 0"
    proof (rule bit_word_eqI)
      fix n
      show "bit (x AND en AND mask 3) n \<longleftrightarrow> bit (0 :: u32) n"
        using no no1 no2 by (auto simp: bit_simps less_Suc_eq numeral_eq_Suc)
    qed
    then show False using some by (simp add: mask_eq_exp_minus_1)
  qed
qed

lemma dmac_handler_serves:
  assumes ok: "dmac_ok b view" and c: "pending_channel (view (dmac_hw s)) = Some c"
    and en: "v_bank (view (dmac_hw s)) c DMAC_CHINTENSET AND 0x4 = 0"
  defines "e \<equiv> bit (v_bank (view (dmac_hw s)) c DMAC_CHINTFLAG) 0"
  shows "\<exists>s1. view (dmac_hw s1) = acknowledged c (view (dmac_hw s)) \<and> resources s1 = resources s
    \<and> dmac_handler b run s =
        Option.bind (call_resource run (if e then dma_error (resources s c) else transfer_done (resources s c)) c s1)
          (\<lambda>s2. Some (dmac_write b DMAC_CHID (ucast (v_chid (view (dmac_hw s)))) s2))"
proof -
  let ?w = "view (dmac_hw s)"
  let ?fl = "v_bank ?w c DMAC_CHINTFLAG"
  define v where "v = fst (dmac_read b DMAC_INTPEND s)"
  define s1 where "s1 = snd (dmac_read b DMAC_INTPEND s)"
  define s2 where "s2 = snd (dmac_read b DMAC_CHID s1)"
  define s3 where "s3 = dmac_write b DMAC_CHID (ucast c) s2"
  define s4 where "s4 = snd (dmac_read b DMAC_CHINTFLAG s3)"
  note acc = dmac_accesses [OF ok]
  have c16: "take_bit 4 c = c"
    using pending_channelD(1) [OF c] by (simp add: word_unat_eq_iff unsigned_take_bit_eq take_bit_nat_eq_self)
  have reads: "dmac_read b DMAC_INTPEND s = (v, s1)"
    "dmac_read b DMAC_CHID s1 = (ucast (v_chid ?w), s2)" "dmac_read b DMAC_CHINTFLAG s3 = (?fl, s4)"
    by (simp_all add: prod_eq_iff v_def s1_def s2_def s3_def s4_def acc(1-4) dmac_effect_def c16)
  have ch: "ucast (v AND 0xF) = c" using acc(5) [OF c] by (simp add: v_def)
  have v4: "view (dmac_hw s4) = ?w\<lparr>v_chid := c\<rparr>" by (simp add: s4_def s3_def s2_def s1_def acc(1-4) dmac_effect_def c16)
  have r4: "resources s4 = resources s" by (simp add: s4_def s3_def s2_def s1_def)
  note two = taken_flag(3) [OF pendingD [OF pending_channelD(2) [OF c]] en]
  have "dmac_handler b run s =
      Option.bind
        (if (?fl AND 0x7) AND 0x1 \<noteq> 0 then call_resource run (dma_error (resources s4 c)) c (dmac_write b DMAC_CHINTFLAG 0x1 s4)
         else if (?fl AND 0x7) AND 0x2 \<noteq> 0 then call_resource run (transfer_done (resources s4 c)) c (dmac_write b DMAC_CHINTFLAG 0x2 s4)
         else Some s4)
        (\<lambda>s. Some (dmac_write b DMAC_CHID (ucast (ucast (ucast (v_chid ?w) :: u32) :: u8)) s))"
    by (simp only: dmac_handler_def reads prod.case Let_def ch s3_def [symmetric])
  then show ?thesis
    using two
    by (intro exI [of _ "dmac_write b DMAC_CHINTFLAG (served_flag ?fl) s4"])
      (simp add: taken_flag(1,2) e_def acc(2) v4 r4 served_flag_def acknowledged_def dmac_effect_def Let_def)
qed

text \<open>The handler is entered again as long as an interrupt is pending.\<close>

fun run_dma_interrupts ::
    "'h dmac_bus \<Rightarrow> ('h \<Rightarrow> dmac_view) \<Rightarrow> ('f \<Rightarrow> u8 \<Rightarrow> ('h, 'f) dmac_state \<Rightarrow> ('h, 'f) dmac_state option) \<Rightarrow> nat
      \<Rightarrow> ('h, 'f) dmac_state \<Rightarrow> ('h, 'f) dmac_state option" where
  "run_dma_interrupts b view run 0 s = Some s"
| "run_dma_interrupts b view run (Suc n) s =
     (if pending_channel (view (dmac_hw s)) = None then Some s
      else Option.bind (dmac_handler b run s) (run_dma_interrupts b view run n))"

definition quiet_dma :: "('h \<Rightarrow> dmac_view) \<Rightarrow> ('f \<Rightarrow> u8 \<Rightarrow> ('h, 'f) dmac_state \<Rightarrow> ('h, 'f) dmac_state option) \<Rightarrow> bool" where
  \<comment> \<open>callbacks that return and leave the controller and the callbacks alone\<close>
  "quiet_dma view run \<longleftrightarrow>
     (\<forall>f c s. \<exists>s'. run f c s = Some s' \<and> view (dmac_hw s') = view (dmac_hw s) \<and> resources s' = resources s)"

definition dma_served :: "dmac_view \<Rightarrow> ('h, 'f) dmac_state \<Rightarrow> bool" where
  \<comment> \<open>every channel of the tables has callbacks, and no channel interrupts when it is suspended\<close>
  "dma_served w s \<longleftrightarrow>
     (\<forall>c. unat c < DMAC_CH_NUM \<longrightarrow> transfer_done (resources s c) \<noteq> None \<and> dma_error (resources s c) \<noteq> None
        \<and> v_bank w c DMAC_CHINTENSET AND 0x4 = 0)"

definition flag_count :: "u32 \<Rightarrow> nat" where
  "flag_count x = of_bool (bit x 0) + of_bool (bit x 1)"

definition flags_left :: "dmac_view \<Rightarrow> nat" where
  "flags_left w = (\<Sum>i<DMAC_CH_NUM. flag_count (v_bank w (of_nat i) DMAC_CHINTFLAG))"

lemma flag_count_served:
  "flag_count (x AND NOT (served_flag x)) \<le> flag_count x" "bit x 0 \<or> bit x 1 \<Longrightarrow> flag_count (x AND NOT (served_flag x)) < flag_count x"
  by (auto simp: flag_count_def served_flag_def bit_and_iff bit_not_iff)

lemma pending_flag:
  assumes "pending_on w c" and "v_bank w c DMAC_CHINTENSET AND 0x4 = 0"
  shows "bit (v_bank w c DMAC_CHINTFLAG) 0 \<or> bit (v_bank w c DMAC_CHINTFLAG) 1"
  using taken_flag(3) [OF pendingD [OF assms(1)] assms(2)] by blast

lemma acknowledged_flags:
  assumes "unat c < DMAC_CH_NUM" and "bit (v_bank w c DMAC_CHINTFLAG) 0 \<or> bit (v_bank w c DMAC_CHINTFLAG) 1"
  shows "flags_left ((acknowledged c w)\<lparr>v_chid := d\<rparr>) < flags_left w"
proof -
  let ?f = "\<lambda>i. flag_count (v_bank ((acknowledged c w)\<lparr>v_chid := d\<rparr>) (of_nat i) DMAC_CHINTFLAG)"
  let ?g = "\<lambda>i. flag_count (v_bank w (of_nat i) DMAC_CHINTFLAG)"
  have le: "?f i \<le> ?g i" for i by (simp add: acknowledged_def Let_def flag_count_served)
  have less: "?f (unat c) < ?g (unat c)" using assms(2) by (simp add: acknowledged_def Let_def flag_count_served)
  have "sum ?f {..<DMAC_CH_NUM} < sum ?g {..<DMAC_CH_NUM}"
  proof (rule sum_strict_mono_ex1)
    show "\<exists>i\<in>{..<DMAC_CH_NUM}. ?f i < ?g i" using less assms(1) by (intro bexI [of _ "unat c"]) simp_all
  qed (use le in simp_all)
  then show ?thesis by (simp only: flags_left_def)
qed

lemma dmac_handler_step:
  assumes ok: "dmac_ok b view" and quiet: "quiet_dma view run" and served: "dma_served (view (dmac_hw s)) s"
    and c: "pending_channel (view (dmac_hw s)) = Some c"
  shows "\<exists>s'. dmac_handler b run s = Some s' \<and> resources s' = resources s
    \<and> view (dmac_hw s') = (acknowledged c (view (dmac_hw s)))\<lparr>v_chid := v_chid (view (dmac_hw s))\<rparr>"
proof -
  note c12 = pending_channelD(1) [OF c]
  have en: "v_bank (view (dmac_hw s)) c DMAC_CHINTENSET AND 0x4 = 0" using served c12 by (simp add: dma_served_def)
  obtain s1 where s1: "view (dmac_hw s1) = acknowledged c (view (dmac_hw s))" "resources s1 = resources s"
    "dmac_handler b run s =
       Option.bind (call_resource run (if bit (v_bank (view (dmac_hw s)) c DMAC_CHINTFLAG) 0 then dma_error (resources s c) else transfer_done (resources s c)) c s1)
         (\<lambda>s2. Some (dmac_write b DMAC_CHID (ucast (v_chid (view (dmac_hw s)))) s2))"
    using dmac_handler_serves [OF ok c en, of run] by blast
  obtain f where "(if bit (v_bank (view (dmac_hw s)) c DMAC_CHINTFLAG) 0 then dma_error (resources s c) else transfer_done (resources s c)) = Some f"
    using served c12 by (cases "bit (v_bank (view (dmac_hw s)) c DMAC_CHINTFLAG) 0") (auto simp: dma_served_def)
  moreover obtain s2 where "run f c s1 = Some s2" "view (dmac_hw s2) = view (dmac_hw s1)" "resources s2 = resources s1"
    using quiet unfolding quiet_dma_def by blast
  ultimately show ?thesis
    using s1 c12 by (simp add: call_resource_def dmac_effect_def dmac_accesses(2,6) [OF ok])
qed


subsection \<open>A controller\<close>

definition plain_dmac :: "dmac_view dmac_bus" where
  "plain_dmac =
     (let sel = (\<lambda>w. w\<lparr>v_chid := take_bit 4 (v_chid w)\<rparr>) in
      \<lparr>dmac_rd = (\<lambda>r w.
         (case r of
            DMAC_CHID \<Rightarrow> ucast (v_chid (sel w))
          | DMAC_INTPEND \<Rightarrow> (case pending_channel w of None \<Rightarrow> 0 | Some c \<Rightarrow> ucast c)
          | DMAC_CHINTFLAG \<Rightarrow> v_bank w (v_chid (sel w)) r | DMAC_CHINTENSET \<Rightarrow> v_bank w (v_chid (sel w)) r
          | DMAC_CHINTENCLR \<Rightarrow> v_bank w (v_chid (sel w)) DMAC_CHINTENSET
          | DMAC_CHCTRLA \<Rightarrow> v_bank w (v_chid (sel w)) r | DMAC_CHCTRLB \<Rightarrow> v_bank w (v_chid (sel w)) r
          | _ \<Rightarrow> v_glob w r, w)),
       dmac_wr = (\<lambda>r v w. dmac_effect r v (sel w))\<rparr>)"

lemma pending_channel_chid [simp]: "pending_channel (w\<lparr>v_chid := c\<rparr>) = pending_channel w"
proof -
  have "pending_on (w\<lparr>v_chid := c\<rparr>) = pending_on w" by (simp add: fun_eq_iff pending_on_def)
  then show ?thesis by (simp add: pending_channel_def)
qed

lemma plain_dmac_ok: "dmac_ok plain_dmac (\<lambda>w. w\<lparr>v_chid := take_bit 4 (v_chid w)\<rparr>)"
proof -
  have "unat (take_bit 4 (c :: u8)) < 16" for c
    using take_bit_nat_less_exp [of 4 "unat c"] by (simp add: unsigned_take_bit_eq)
  moreover have "(dmac_effect r v (w\<lparr>v_chid := take_bit 4 (v_chid w)\<rparr>))\<lparr>v_chid := take_bit 4 (v_chid (dmac_effect r v (w\<lparr>v_chid := take_bit 4 (v_chid w)\<rparr>)))\<rparr>
      = dmac_effect r v (w\<lparr>v_chid := take_bit 4 (v_chid w)\<rparr>)" for r v w
    by (cases r) (simp_all add: dmac_effect_def Let_def)
  moreover have "ucast c AND 0xF = (ucast c :: u32)" if "pending_channel w = Some c" for c w
  proof -
    have "unat (ucast c :: u32) < 2 ^ 4" using pending_channelD(1) [OF that] by simp
    then have "take_bit 4 (ucast c :: u32) = ucast c" by (simp add: word_unat_eq_iff unsigned_take_bit_eq take_bit_nat_eq_self)
    then show ?thesis by (simp add: take_bit_eq_mask mask_eq_exp_minus_1)
  qed
  ultimately show ?thesis by (simp add: dmac_ok_def plain_dmac_def Let_def)
qed

definition busy_dmac :: "(dmac_view, unit) dmac_state" where
  \<comment> \<open>channel 2 has ended a transfer and channel 5 has failed, while channel 7 is selected\<close>
  "busy_dmac =
     \<lparr>dmac_hw = \<lparr>v_chid = 7, v_bank = (\<lambda>c r. if r = DMAC_CHINTENSET then 0x3
         else if r = DMAC_CHINTFLAG then (if c = 2 then 0x2 else if c = 5 then 0x1 else 0) else 0), v_glob = (\<lambda>_. 0)\<rparr>,
      descriptor_section = (\<lambda>_. \<lparr>btctrl = 0xE00, btcnt = 0, srcaddr = 0, dstaddr = 0, descaddr = 0\<rparr>),
      resources = (\<lambda>_. \<lparr>transfer_done = Some (), dma_error = Some ()\<rparr>), dmac_irq_on = True, dmac_irq_pending = False\<rparr>"



text \<open>
  An error is delivered even if its interrupt is off, when the same channel completes a
  transfer: the handler looks at the flags and not at what is enabled.
\<close>

lemma disabled_error_delivered:
  assumes "dmac_ok b view" and "pending_channel (view (dmac_hw s)) = Some c"
    and "v_bank (view (dmac_hw s)) c DMAC_CHINTENSET = 0x2" and "bit (v_bank (view (dmac_hw s)) c DMAC_CHINTFLAG) 0"
  shows "\<exists>s1. dmac_handler b run s = Option.bind (call_resource run (dma_error (resources s c)) c s1)
      (\<lambda>s2. Some (dmac_write b DMAC_CHID (ucast (v_chid (view (dmac_hw s)))) s2))"
  using dmac_handler_serves [OF assms(1,2), of run] assms(3,4) by auto

text \<open>Setting the amount again moves the end of the block once more.\<close>

lemma amount_set_twice:
  assumes "dma_set_data_amount channel amount s = Some (r, s1)" and "dma_set_data_amount channel amount s1 = Some (r', s2)"
    and "bit (btctrl (descriptor_section s channel)) 10"
  shows "srcaddr (descriptor_section s2 channel)
    = srcaddr (descriptor_section s channel) + 2 * (amount * push_bit (beat_size (descriptor_section s channel)) 1)"
  using assms by (auto simp: dma_set_data_amount_def with_descriptor_def Let_def beat_size_def split: if_splits)

end
