(* ===== verification/BoardConfig.thy ===== *)
theory BoardConfig
  imports I2cBaud HplTc SercomUsart SercomI2cs SercomSpi Clocks
begin

text \<open>
  The tables that the drivers are configured with: the macros of \<open>hpl_sercom.c\<close> and
  \<open>hpl_tc.c\<close> that make them from the configuration, and the values that
  \<open>config/hpl_tc_config.h\<close> and \<open>config/hpl_sercom_config.h\<close> compute for the firmware: the length
  of a timer tick, in single precision, and the divider of the I2C bus, in integers whose width is
  64 bits in a condition of the preprocessor and 32 bits in the program.
\<close>

type_synonym module_conf = "string \<Rightarrow> nat \<Rightarrow> u32" \<comment> \<open>\<open>c m n\<close>: the macro \<open>m\<close> of module \<open>n\<close>\<close>

subsection \<open>Entries\<close>

definition tc_entry :: "module_conf \<Rightarrow> nat \<Rightarrow> tc_configuration" where
  "tc_entry c n =
     \<lparr>cfg_number = of_nat n,
      cfg_ctrl_a = ucast (field 2 2 (c ''CONF_TC_MODE'' n) OR field 5 2 3 OR field 8 3 (c ''CONF_TC_PRESCALER'' n)
        OR push_bit 11 (c ''CONF_TC_RUNSTDBY'' n) OR field 12 2 (c ''CONF_TC_PRESCSYNC'' n)),
      cfg_dbg_ctrl = ucast (c ''CONF_TC_DBGRUN'' n),
      cfg_event_ctrl = ucast (push_bit 8 (c ''CONF_TC_OVFEO'' n) OR push_bit 5 (c ''CONF_TC_TCEI'' n)
        OR push_bit 4 (c ''CONF_TC_TCINV'' n) OR c ''CONF_TC_EVACT'' n
        OR push_bit 12 (c ''CONF_TC_MCEO0'' n) OR push_bit 13 (c ''CONF_TC_MCEO1'' n)),
      cfg_per = ucast (c ''CONF_TC_PER'' n), cfg_cc0 = c ''CONF_TC_CC0'' n, cfg_cc1 = c ''CONF_TC_CC1'' n\<rparr>"

definition usart_entry :: "module_conf \<Rightarrow> nat \<Rightarrow> usart_configuration" where
  "usart_entry c n =
     \<lparr>us_number = of_nat n,
      us_ctrl_a = field 2 3 (c ''CONF_SERCOM_USART_MODE'' n) OR push_bit 7 (c ''CONF_SERCOM_USART_RUNSTDBY'' n)
        OR push_bit 8 (c ''CONF_SERCOM_USART_IBON'' n) OR field 13 3 (c ''CONF_SERCOM_USART_SAMPR'' n)
        OR field 16 2 (c ''CONF_SERCOM_USART_TXPO'' n) OR field 20 2 (c ''CONF_SERCOM_USART_RXPO'' n)
        OR field 22 2 (c ''CONF_SERCOM_USART_SAMPA'' n) OR field 24 4 (c ''CONF_SERCOM_USART_FORM'' n)
        OR push_bit 28 (c ''CONF_SERCOM_USART_CMODE'' n) OR push_bit 29 (c ''CONF_SERCOM_USART_CPOL'' n)
        OR push_bit 30 (c ''CONF_SERCOM_USART_DORD'' n),
      us_ctrl_b = field 0 3 (c ''CONF_SERCOM_USART_CHSIZE'' n) OR push_bit 6 (c ''CONF_SERCOM_USART_SBMODE'' n)
        OR push_bit 8 (c ''CONF_SERCOM_USART_CLODEN'' n) OR push_bit 9 (c ''CONF_SERCOM_USART_SFDE'' n)
        OR push_bit 10 (c ''CONF_SERCOM_USART_ENC'' n) OR push_bit 13 (c ''CONF_SERCOM_USART_PMODE'' n)
        OR push_bit 16 (c ''CONF_SERCOM_USART_TXEN'' n) OR push_bit 17 (c ''CONF_SERCOM_USART_RXEN'' n),
      us_baud = ucast (c ''CONF_SERCOM_USART_BAUD_RATE'' n), us_fractional = ucast (c ''CONF_SERCOM_USART_FRACTIONAL'' n),
      us_rxpl = ucast (c ''CONF_SERCOM_USART_RECEIVE_PULSE_LENGTH'' n),
      us_debug_ctrl = ucast (c ''CONF_SERCOM_USART_DEBUG_STOP_MODE'' n)\<rparr>"

definition i2cm_entry :: "module_conf \<Rightarrow> nat \<Rightarrow> i2cm_configuration" where
  "i2cm_entry c n =
     \<lparr>i2cm_number = of_nat n,
      i2cm_ctrl_a = 0x14 OR push_bit 7 (c ''CONF_SERCOM_I2CM_RUNSTDBY'' n) OR push_bit 24 (c ''CONF_SERCOM_I2CM_SPEED'' n)
        OR push_bit 22 (c ''CONF_SERCOM_I2CM_MEXTTOEN'' n) OR push_bit 23 (c ''CONF_SERCOM_I2CM_SEXTTOEN'' n)
        OR push_bit 28 (c ''CONF_SERCOM_I2CM_INACTOUT'' n) OR push_bit 30 (c ''CONF_SERCOM_I2CM_LOWTOUT'' n)
        OR push_bit 20 (c ''CONF_SERCOM_I2CM_SDAHOLD'' n),
      i2cm_ctrl_b = 0x100, i2cm_baud = c ''CONF_SERCOM_I2CM_BAUD_RATE'' n,
      i2cm_dbgctrl = ucast (c ''CONF_SERCOM_I2CM_DEBUG_STOP_MODE'' n), i2cm_trise = ucast (c ''CONF_SERCOM_I2CM_TRISE'' n),
      i2cm_clk = c ''CONF_GCLK_SERCOM_CORE_FREQUENCY'' n\<rparr>"

definition i2cs_entry :: "module_conf \<Rightarrow> nat \<Rightarrow> i2cs_configuration" where
  "i2cs_entry c n =
     \<lparr>i2cs_number = of_nat n,
      i2cs_ctrl_a = 0x10 OR push_bit 7 (c ''CONF_SERCOM_I2CS_RUNSTDBY'' n) OR field 20 2 (c ''CONF_SERCOM_I2CS_SDAHOLD'' n)
        OR push_bit 23 (c ''CONF_SERCOM_I2CS_SEXTTOEN'' n) OR push_bit 24 (c ''CONF_SERCOM_I2CS_SPEED'' n)
        OR push_bit 27 (c ''CONF_SERCOM_I2CS_SCLSM'' n) OR push_bit 30 (c ''CONF_SERCOM_I2CS_LOWTOUT'' n),
      i2cs_ctrl_b = 0x100 OR 0x400 OR field 14 2 (c ''CONF_SERCOM_I2CS_AMODE'' n),
      i2cs_address = c ''CONF_SERCOM_I2CS_GENCEN'' n OR field 1 10 (c ''CONF_SERCOM_I2CS_ADDRESS'' n)
        OR push_bit 15 (c ''CONF_SERCOM_I2CS_TENBITEN'' n) OR field 17 10 (c ''CONF_SERCOM_I2CS_ADDRESS_MASK'' n)\<rparr>"

definition spi_entry :: "module_conf \<Rightarrow> nat \<Rightarrow> sercomspi_regs_cfg" where
  "spi_entry c n =
     \<lparr>sr_ctrla = push_bit 30 (c ''CONF_SERCOM_SPI_DORD'' n) OR push_bit 29 (c ''CONF_SERCOM_SPI_CPOL'' n)
        OR push_bit 28 (c ''CONF_SERCOM_SPI_CPHA'' n)
        OR (if c ''CONF_SERCOM_SPI_AMODE_EN'' n \<noteq> 0 then field 24 4 2 else field 24 4 0)
        OR field 16 2 (c ''CONF_SERCOM_SPI_TXPO'' n) OR field 20 2 (c ''CONF_SERCOM_SPI_RXPO'' n)
        OR push_bit 8 (c ''CONF_SERCOM_SPI_IBON'' n) OR push_bit 7 (c ''CONF_SERCOM_SPI_RUNSTDBY'' n)
        OR field 2 3 (c ''CONF_SERCOM_SPI_MODE'' n),
      sr_ctrlb = push_bit 17 (c ''CONF_SERCOM_SPI_RXEN'' n) OR push_bit 13 (c ''CONF_SERCOM_SPI_MSSEN'' n)
        OR push_bit 9 (c ''CONF_SERCOM_SPI_SSDE'' n) OR push_bit 6 (c ''CONF_SERCOM_SPI_PLOADEN'' n)
        OR field 14 2 (c ''CONF_SERCOM_SPI_AMODE'' n) OR field 0 3 (c ''CONF_SERCOM_SPI_CHSIZE'' n),
      sr_addr = field 0 8 (c ''CONF_SERCOM_SPI_ADDR'' n) OR field 16 8 (c ''CONF_SERCOM_SPI_ADDRMASK'' n),
      sr_baud = ucast (c ''CONF_SERCOM_SPI_BAUD_RATE'' n), sr_dbgctrl = ucast (c ''CONF_SERCOM_SPI_DBGSTOP'' n),
      sr_dummy_byte = ucast (c ''CONF_SERCOM_SPI_DUMMYBYTE'' n), sr_n = of_nat n\<rparr>"

subsection \<open>Tables\<close>

text \<open>
  A table has the entries of the modules whose macro is 1.  That of a serial interface has one
  entry of zeros when the macros add up to less than 1.
\<close>

definition amount :: "(nat \<Rightarrow> u32) \<Rightarrow> nat" where
  "amount enable = (\<Sum>n<8. unat (enable n))"

definition sercom_table :: "(nat \<Rightarrow> u32) \<Rightarrow> (nat \<Rightarrow> 'c) \<Rightarrow> 'c \<Rightarrow> 'c list" where
  "sercom_table enable f zero =
     (if amount enable < 1 then [zero] else map f (filter (\<lambda>n. enable n = 1) [0..<8]))"

definition tc_table :: "module_conf \<Rightarrow> tc_configuration list" where
  "tc_table c = map (tc_entry c) (filter (\<lambda>n. c ''CONF_TC_ENABLE'' n = 1) [3..<8])"

definition usart_table :: "module_conf \<Rightarrow> usart_configuration list" where
  "usart_table c = sercom_table (c ''CONF_SERCOM_USART_ENABLE'') (usart_entry c)
     \<lparr>us_number = 0, us_ctrl_a = 0, us_ctrl_b = 0, us_baud = 0, us_fractional = 0, us_rxpl = 0, us_debug_ctrl = 0\<rparr>"

definition i2cm_table :: "module_conf \<Rightarrow> i2cm_configuration list" where
  "i2cm_table c = sercom_table (c ''CONF_SERCOM_I2CM_ENABLE'') (i2cm_entry c)
     \<lparr>i2cm_number = 0, i2cm_ctrl_a = 0, i2cm_ctrl_b = 0, i2cm_baud = 0, i2cm_dbgctrl = 0, i2cm_trise = 0, i2cm_clk = 0\<rparr>"

definition i2cs_table :: "module_conf \<Rightarrow> i2cs_configuration list" where
  "i2cs_table c = sercom_table (c ''CONF_SERCOM_I2CS_ENABLE'') (i2cs_entry c)
     \<lparr>i2cs_number = 0, i2cs_ctrl_a = 0, i2cs_ctrl_b = 0, i2cs_address = 0\<rparr>"

definition spi_table :: "module_conf \<Rightarrow> sercomspi_regs_cfg list" where
  \<comment> \<open>here a module is enabled by any value but 0\<close>
  "spi_table c =
     (if amount (c ''CONF_SERCOM_SPI_ENABLE'') < 1
      then [\<lparr>sr_ctrla = 0, sr_ctrlb = 0, sr_addr = 0, sr_baud = 0, sr_dbgctrl = 0, sr_dummy_byte = 0, sr_n = 0\<rparr>]
      else map (spi_entry c) (filter (\<lambda>n. c ''CONF_SERCOM_SPI_ENABLE'' n \<noteq> 0) [0..<8]))"

subsection \<open>The values of the configuration files\<close>

definition conf_tc_prescale :: "u32 \<Rightarrow> u32" where
  \<comment> \<open>\<open>CONF_TC3_PRESCALE\<close>: the later definitions replace the earlier\<close>
  "conf_tc_prescale prescaler =
     (if 6 < prescaler then 1024 else if 5 < prescaler then 256 else if 4 < prescaler then 64
      else push_bit (unat prescaler) 1)"

definition conf_tc_cc0 :: "u32 \<Rightarrow> u32 \<Rightarrow> u32 \<Rightarrow> u32 option" where
  \<comment> \<open>\<open>CONF_TC3_CC0\<close>, in single precision; \<open>None\<close>: the cast is undefined\<close>
  "conf_tc_cc0 tick freq prescaler =
     (let seconds = flt_round (flt_round (of_nat (unat tick)) / 1000000);
          step = flt_round (1 / flt_round (of_nat (unat (freq div conf_tc_prescale prescaler))))
      in double_to_u32 (flt_round (seconds / step)))"

definition conf_tc3 :: "u32 \<Rightarrow> u32 \<Rightarrow> u32 \<Rightarrow> module_conf option" where
  \<comment> \<open>the values other than 0, for a length of the tick in microseconds, a clock and a prescaler\<close>
  "conf_tc3 tick freq prescaler =
     map_option (\<lambda>cc0 m n.
         if n = 3 then
           (case map_of [(''CONF_TC_ENABLE'', 1), (''CONF_TC_PRESCALER'', prescaler), (''CONF_TC_MCEO0'', 1),
                         (''CONF_TC_MODE'', 2), (''CONF_TC_CC0'', cc0)] m of None \<Rightarrow> 0 | Some v \<Rightarrow> v)
         else 0)
       (conf_tc_cc0 tick freq prescaler)"

definition conf_trise :: "u32 \<Rightarrow> u32" where
  "conf_trise trise = (if trise < 215 \<or> 300 < trise then 215 else trise)"

definition baud_baudlow :: "'w::len word \<Rightarrow> 'w word \<Rightarrow> 'w word \<Rightarrow> 'w word" where
  "baud_baudlow freq baud trise =
     ((freq - baud * 10 - trise * (baud div 100) * (freq div 10000) div 1000) * 10 + 5) div (baud * 10)"

definition conf_baud_rate :: "u32 \<Rightarrow> u32 \<Rightarrow> u32 \<Rightarrow> u32" where
  \<comment> \<open>the conditions are the preprocessor's\<close>
  "conf_baud_rate freq baud trise =
     (let k64 = baud_baudlow (ucast freq) (ucast baud) (ucast trise) :: 64 word; k = baud_baudlow freq baud trise in
      if 0xFF * 2 < k64 then 0xFF else if k64 \<le> 1 then 1
      else if k AND 1 \<noteq> 0 then k div 2 + push_bit 8 (k div 2 + 1) else k div 2)"

definition conf_sercom0 :: "u32 \<Rightarrow> u32 \<Rightarrow> u32 \<Rightarrow> module_conf" where
  \<comment> \<open>the values other than 0, for a clock, a bus rate and a rise time in nanoseconds\<close>
  "conf_sercom0 freq baud trise m n =
     (if n = 0 then
        (case map_of [(''CONF_SERCOM_I2CM_ENABLE'', 1), (''CONF_SERCOM_I2CM_SDAHOLD'', 2),
                      (''CONF_SERCOM_I2CM_TRISE'', conf_trise trise), (''CONF_GCLK_SERCOM_CORE_FREQUENCY'', freq),
                      (''CONF_SERCOM_I2CM_BAUD_RATE'', conf_baud_rate freq baud (conf_trise trise))] m
         of None \<Rightarrow> 0 | Some v \<Rightarrow> v)
      else 0)"

subsection \<open>What the drivers find\<close>

text \<open>
  A driver searches its table for the number of a module: the first entry with it, whatever the
  loop counts with.
\<close>

locale numbered_table =
  fixes number :: "'c \<Rightarrow> u8" and find_entry :: "'c list \<Rightarrow> u8 \<Rightarrow> 'c option" and entry :: "module_conf \<Rightarrow> nat \<Rightarrow> 'c"
  assumes find_Nil: "find_entry [] k = None"
    and find_Cons: "find_entry (e # es) k = (if number e = k then Some e else find_entry es k)"
    and entry_number: "number (entry c n) = of_nat n"
begin

lemma find_map:
  assumes "\<forall>m \<in> set ns. m < 256" and "n < 256"
  shows "find_entry (map (entry c) ns) (of_nat n) = (if n \<in> set ns then Some (entry c n) else None)"
  using assms(1)
proof (induction ns)
  case (Cons m ns)
  have "(of_nat m :: u8) = of_nat n \<longleftrightarrow> m = n"
    using Cons.prems assms(2) by (simp add: word_of_nat_eq_iff take_bit_nat_eq_self)
  then show ?case using Cons by (auto simp: find_Cons entry_number)
qed (simp add: find_Nil)

lemma find_sercom:
  assumes "n < 8" and "0 < amount enable"
  shows "find_entry (sercom_table enable (entry c) zero) (of_nat n) = (if enable n = 1 then Some (entry c n) else None)"
  using assms find_map [of "filter (\<lambda>n. enable n = 1) [0..<8]" n c] by (simp add: sercom_table_def)

end

lemma amount_pos: "n < 8 \<Longrightarrow> enable n \<noteq> 0 \<Longrightarrow> 0 < amount enable"
  by (auto simp: amount_def unat_eq_0 intro!: sum_pos2 [of _ n] simp flip: neq0_conv)

text \<open>The loops that return an index.\<close>

abbreviation (input) at_index :: "'c list \<Rightarrow> nat option \<Rightarrow> 'c option" where
  "at_index cs i \<equiv> map_option ((!) cs) i"

lemma tc_index_shift: "get_tc_index_loop cs k (Suc i) = map_option Suc (get_tc_index_loop cs k i)"
  by (induction cs arbitrary: i) simp_all

lemma usart_index_shift: "get_sercom_index_loop cs k (Suc i) = map_option Suc (get_sercom_index_loop cs k i)"
  by (induction cs arbitrary: i) simp_all

lemma i2cm_index_shift: "get_i2cm_index_loop cs k (Suc i) = map_option Suc (get_i2cm_index_loop cs k i)"
  by (induction cs arbitrary: i) simp_all

lemma at_index_Suc: "at_index (c # cs) (map_option Suc i) = at_index cs i"
  by (cases i) simp_all

definition i2cs_index :: "i2cs_configuration list \<Rightarrow> u8 \<Rightarrow> nat option" where
  "i2cs_index cs k = (let i = get_i2c_s_index_loop cs k 0 in if i = - 1 then None else Some (nat i))"

lemma i2cs_index_shift:
  assumes "0 \<le> i"
  shows "get_i2c_s_index_loop cs k (i + 1) = (if get_i2c_s_index_loop cs k i = - 1 then - 1 else get_i2c_s_index_loop cs k i + 1)
    \<and> (get_i2c_s_index_loop cs k i = - 1 \<or> i \<le> get_i2c_s_index_loop cs k i)"
  using assms
proof (induction cs arbitrary: i)
  case (Cons c cs)
  have "0 \<le> i + 1" using Cons.prems by simp
  from Cons.IH [OF this] show ?case using Cons.prems by auto
qed simp

lemma i2cs_index_simps:
  "i2cs_index [] k = None"
  "i2cs_index (c # cs) k = (if i2cs_number c = k then Some 0 else map_option Suc (i2cs_index cs k))"
  using i2cs_index_shift [of 0 cs k] by (auto simp: i2cs_index_def Let_def nat_add_distrib)

interpretation tcs: numbered_table cfg_number "\<lambda>cs k. at_index cs (get_tc_index_loop cs k 0)" tc_entry
  by unfold_locales (simp_all add: tc_entry_def tc_index_shift at_index_Suc)

interpretation usarts: numbered_table us_number "\<lambda>cs k. at_index cs (get_sercom_index_loop cs k 0)" usart_entry
  by unfold_locales (simp_all add: usart_entry_def usart_index_shift at_index_Suc)

interpretation i2cms: numbered_table i2cm_number "\<lambda>cs k. at_index cs (get_i2cm_index_loop cs k 0)" i2cm_entry
  by unfold_locales (simp_all add: i2cm_entry_def i2cm_index_shift at_index_Suc)

interpretation i2css: numbered_table i2cs_number "\<lambda>cs k. at_index cs (i2cs_index cs k)" i2cs_entry
  by unfold_locales (simp_all add: i2cs_entry_def i2cs_index_simps at_index_Suc)

interpretation spis: numbered_table sr_n "\<lambda>cs k. spi_get_regs_loop k cs" spi_entry
  by unfold_locales (simp_all add: spi_entry_def)

lemma sercom_base_index: "n < 8 \<Longrightarrow> sercom_get_hardware_index (SERCOM0 + of_nat (0x400 * n)) = of_nat n"
proof -
  assume "n < 8"
  then have "n = 0 \<or> n = 1 \<or> n = 2 \<or> n = 3 \<or> n = 4 \<or> n = 5 \<or> n = 6 \<or> n = 7" by arith
  then show ?thesis by (elim disjE) (simp_all add: sercom_get_hardware_index_def)
qed



text \<open>With no USART enabled the first module still finds an entry, of zeros.\<close>

lemma disabled_usart_found:
  assumes "\<forall>n. c ''CONF_SERCOM_USART_ENABLE'' n = 0"
  shows "get_sercom_index debug (usart_table c) SERCOM0 = Some 0 \<and> us_ctrl_a (usart_table c ! 0) = 0"
proof -
  have "amount (c ''CONF_SERCOM_USART_ENABLE'') = 0" using assms by (simp add: amount_def)
  then show ?thesis by (simp add: get_sercom_index_def usart_table_def sercom_table_def sercom_get_hardware_index_def)
qed

subsection \<open>The length of a timer tick\<close>

definition btw :: "rat \<Rightarrow> rat \<Rightarrow> rat \<Rightarrow> rat \<Rightarrow> bool" where
  \<comment> \<open>\<open>x\<close> is \<open>y\<close> times a factor between \<open>lo\<close> and \<open>hi\<close>\<close>
  "btw lo hi x y \<longleftrightarrow> 0 < lo \<and> 0 < y \<and> y * lo \<le> x \<and> x \<le> y * hi"

lemma btw_flt:
  assumes "btw lo hi x y"
  shows "btw (lo * (1 - 1 / 2 ^ 24)) (hi * (1 + 1 / 2 ^ 24)) (flt_round x) y"
proof -
  have y: "0 < lo" "0 < y" "y * lo \<le> x" "x \<le> y * hi" using assms by (simp_all add: btw_def)
  then have "0 \<le> y * lo" by simp
  then have x: "0 \<le> x" using y(3) by linarith
  note r = fp_round_near [OF x, of 24]
  have "y * lo * (1 - 1 / 2 ^ 24) \<le> x * (1 - 1 / 2 ^ 24)" using y(3) by (rule mult_right_mono) simp
  also have "\<dots> \<le> flt_round x" using r(1) by simp
  finally have low: "y * lo * (1 - 1 / 2 ^ 24) \<le> flt_round x" .
  have "flt_round x \<le> x * (1 + 1 / 2 ^ 24)" using r(2) by simp
  also have "\<dots> \<le> y * hi * (1 + 1 / 2 ^ 24)" using y(4) by (rule mult_right_mono) simp
  finally show ?thesis using low y(1,2) by (simp add: btw_def mult.assoc)
qed

lemma btw_divide:
  assumes "btw lo hi x y" and "btw lo' hi' z w"
  shows "btw (lo / hi') (hi / lo') (x / z) (y / w)"
proof -
  have y: "0 < lo" "0 < y" "y * lo \<le> x" "x \<le> y * hi" and w: "0 < lo'" "0 < w" "w * lo' \<le> z" "z \<le> w * hi'"
    using assms by (simp_all add: btw_def)
  have z: "0 < w * lo'" "0 < z" "0 < y * lo" "0 < x" using y w by (auto intro: less_le_trans [OF mult_pos_pos])
  then have "0 < w * hi'" using w(4) by linarith
  then have hi: "0 < hi'" using w(2) by (simp add: zero_less_mult_iff)
  have "(y * lo) / (w * hi') \<le> x / z" using y(3) w(4) z by (intro frac_le) simp_all
  moreover have "x / z \<le> (y * hi) / (w * lo')" using y(4) w(3) z by (intro frac_le) simp_all
  ultimately show ?thesis using y(1,2) w(1,2) hi by (simp add: btw_def)
qed

lemma btw_refl: "0 < y \<Longrightarrow> btw 1 1 y y"
  by (simp add: btw_def)

text \<open>The three rounded operations and two conversions of \<open>CONF_TC3_CC0\<close> lose less than a millionth.\<close>

lemma cc0_quotient:
  assumes "0 < t" and "0 < f"
  shows "btw (1 - 1 / 2 ^ 20) (1 + 1 / 2 ^ 20)
    (flt_round (flt_round (flt_round t / 1000000) / flt_round (1 / flt_round f))) (t * f / 1000000)"
proof -
  have "btw ((1 - 1 / 2 ^ 24) / 1) ((1 + 1 / 2 ^ 24) / 1) (flt_round t / 1000000) (t / 1000000)"
    using btw_divide [OF btw_flt [OF btw_refl [OF assms(1)]] btw_refl [of 1000000]] by simp
  note seconds = btw_flt [OF this]
  note step = btw_flt [OF btw_divide [OF btw_refl [of 1] btw_flt [OF btw_refl [OF assms(2)]]], simplified]
  show ?thesis
    using btw_flt [OF btw_divide [OF seconds step]] assms
    by (auto simp: btw_def field_simps elim!: order_trans [rotated] order_trans)
qed

lemma cc0_near:
  assumes "0 < unat tick" and "f = unat (freq div conf_tc_prescale prescaler)" and "0 < f"
    and "C = of_nat (unat tick * f) / (1000000 :: rat)" and "C \<le> 2 ^ 31"
  shows "\<exists>v. conf_tc_cc0 tick freq prescaler = Some v \<and> \<bar>of_nat (unat v) - C\<bar> \<le> 1 + C / 2 ^ 20"
proof -
  define q where "q = flt_round (flt_round (flt_round (of_nat (unat tick)) / 1000000) / flt_round (1 / flt_round (of_nat f)))"
  have cc0: "conf_tc_cc0 tick freq prescaler = double_to_u32 q"
    by (simp add: conf_tc_cc0_def q_def assms(2) Let_def)
  have "btw (1 - 1 / 2 ^ 20) (1 + 1 / 2 ^ 20) q (of_nat (unat tick) * of_nat f / 1000000)"
    unfolding q_def using assms(1,3) by (intro cc0_quotient) (simp_all del: of_nat_unat)
  then have "btw (1 - 1 / 2 ^ 20) (1 + 1 / 2 ^ 20) q C" by (simp only: assms(4) of_nat_mult)
  then have q: "0 < C" "C - C / 2 ^ 20 \<le> q" "q \<le> C + C / 2 ^ 20" by (simp_all add: btw_def algebra_simps)
  then have "0 \<le> q" by simp
  then obtain n where n: "\<lfloor>q\<rfloor> = int n" by (metis nonneg_int_cases zero_le_floor)
  have nq: "of_nat n \<le> q" "q < of_nat n + 1" using floor_correct [of q] by (simp_all add: n)
  have "q < 2 ^ 32" using q(3) assms(5) by simp
  then have "of_nat n < (of_nat (2 ^ 32) :: rat)" using nq(1) by simp
  then have small: "n < 2 ^ 32" unfolding of_nat_less_iff .
  have "conf_tc_cc0 tick freq prescaler = Some (of_nat n)"
    using \<open>q < 2 ^ 32\<close> \<open>0 \<le> q\<close> by (simp add: cc0 double_to_u32_def n)
  moreover have "\<bar>of_nat n - C\<bar> \<le> 1 + C / 2 ^ 20" using nq q unfolding abs_le_iff by linarith
  moreover have "unat (of_nat n :: u32) = n" using small by (simp add: unat_of_nat take_bit_nat_eq_self)
  ultimately show ?thesis by (metis of_nat_unat)
qed

lemma timer_init_single:
  assumes "cfg_number e = 3" and "cfg_ctrl_a e AND 1 = 0" and "cfg_ctrl_a e AND 0xC = 8"
  shows "\<exists>s'. hpl_timer_init [e] device TC3 s = Some (ERR_NONE, s') \<and> tc_ctrla (tc_of s' TC3) = cfg_ctrl_a e
    \<and> hpl_timer_get_period device s' = cfg_cc0 e"
proof -
  have "get_tc_index [e] TC3 = Some 0" using assms(1) by (simp add: get_tc_index_def TC3_def tc_get_hardware_index_def)
  moreover have "tc_cc (tc_configure e r) 0 = cfg_cc0 e" for r
    using assms(3) by (simp add: tc_configure_def write_CC_reg_def Let_def)
  ultimately show ?thesis
    using assms(3) tc_configure_mode(1) [OF assms(2)]
    by (simp add: hpl_timer_init_def tc_init_irq_param_def tc_update_def hpl_timer_get_period_def tc_mode_def Let_def)
qed

definition tc_division :: "nat list" where
  \<comment> \<open>what each value of the field \<open>PRESCALER\<close> divides the clock by, from the register description\<close>
  "tc_division = [1, 2, 4, 8, 16, 64, 256, 1024]"

lemma less_eight: "unat x < 8 \<Longrightarrow> x = 0 \<or> x = 1 \<or> x = 2 \<or> x = 3 \<or> x = 4 \<or> x = 5 \<or> x = 6 \<or> x = 7" for x :: u32
  by (simp add: word_unat_eq_iff; arith)

lemma prescaler_divides: "unat prescaler < 8 \<Longrightarrow> unat (conf_tc_prescale prescaler) = tc_division ! unat prescaler"
  by (drule less_eight, elim disjE) (simp_all add: conf_tc_prescale_def tc_division_def)


text \<open>
  The firmware's tick, 1000 microseconds of a clock of 48 MHz divided by 8, has the top value 6000.  A counter that
  counts from 0 to its top value takes 6001 steps: the tick is a six thousandth too long.
\<close>

lemma firmware_tick: "conf_tc_cc0 1000 48000000 3 = Some 6000"
proof -
  have p: "conf_tc_prescale 3 = 8" by (simp add: conf_tc_prescale_def)
  have "flt_round 1000 = 1000" "flt_round 6000000 = 6000000"
    using fp_round_int [of 1000 24] fp_round_int [of 6000000 24] by simp_all
  moreover have "flt_round (1 / 1000) = of_int 8589935 * 2 powi (- 33)"
    by (rule fp_round_eq [of 23]) (simp_all add: power_int_def power_one_over)
  moreover have "of_int 8589935 * 2 powi (- 33) = (8589935 / 8589934592 :: rat)" by (simp add: power_int_def power_one_over)
  moreover have "flt_round (1 / 6000000) = of_int 11728124 * 2 powi (- 46)"
    by (rule fp_round_eq [of 23]) (simp_all add: power_int_def power_one_over)
  moreover have "of_int 11728124 * 2 powi (- 46) = (11728124 / 70368744177664 :: rat)" by (simp add: power_int_def power_one_over)
  moreover have "flt_round (8589935 / 8589934592 / (11728124 / 70368744177664)) = of_int 12288001 * 2 powi (- 11)"
    by (rule fp_round_eq [of 23]) (simp_all add: power_int_def power_one_over)
  moreover have "of_int 12288001 * 2 powi (- 11) = (12288001 / 2048 :: rat)" by (simp add: power_int_def power_one_over)
  moreover have "1000 / 1000000 = (1 / 1000 :: rat)" "unat (1000 :: u32) = 1000" "unat (48000000 div 8 :: u32) = 6000000" by simp_all
  ultimately have "conf_tc_cc0 1000 48000000 3 = double_to_u32 (12288001 / 2048)"
    by (simp only: conf_tc_cc0_def Let_def p of_nat_numeral)
  also have "\<dots> = Some 6000" by (simp add: double_to_u32_def floor_divide_of_int_eq [where 'a=rat, of 12288001 2048, simplified])
  finally show ?thesis .
qed


subsection \<open>The divider of the I2C bus\<close>

definition scl_cycles :: "u32 \<Rightarrow> nat" where
  \<comment> \<open>the low and the high phase of the bus clock for a value of the divider register, without the rise
      time, as the configuration file says: a high byte of 0 stands for the low byte\<close>
  "scl_cycles v =
     (let low = unat (take_bit 8 v); high = unat (take_bit 8 (drop_bit 8 v))
      in 10 + low + (if high = 0 then low else high))"

lemma baud_baudlow_exact:
  fixes freq baud trise :: "'w::len word"
  assumes "f = unat freq" and "b = unat baud" and "t = unat trise" and "R = t * (b div 100) * (f div 10000) div 1000"
    and "t * (b div 100) * (f div 10000) < 2 ^ LENGTH('w)" and "10 * f + 5 < 2 ^ LENGTH('w)"
    and "(10000 :: nat) < 2 ^ LENGTH('w)" and "0 < b" and "10 * b + R \<le> f"
  shows "unat (baud_baudlow freq baud trise) = (f - 10 * b - R) div b"
proof -
  have num: "unat (numeral n :: 'w word) = numeral n" if "numeral n < (2 :: nat) ^ LENGTH('w)" for n
    using that by (simp add: take_bit_nat_eq_self)
  have n: "unat (10 :: 'w word) = 10" "unat (5 :: 'w word) = 5" "unat (100 :: 'w word) = 100" "unat (1000 :: 'w word) = 1000"
    "unat (10000 :: 'w word) = 10000"
    using assms(7) by (intro num; linarith)+
  have d: "unat (baud div 100) = b div 100" "unat (freq div 10000) = f div 10000"
    by (simp_all only: unat_div assms(1,2) n)
  have "unat (x * y * z) = unat x * unat y * unat z" if "unat x * unat y * unat z < 2 ^ LENGTH('w)" for x y z :: "'w word"
  proof -
    have "unat x * unat y < 2 ^ LENGTH('w) \<or> unat z = 0" using that by (cases "unat z") auto
    then show ?thesis using that by (auto simp: unat_word_ariths)
  qed
  then have "unat (trise * (baud div 100) * (freq div 10000)) = t * (b div 100) * (f div 10000)"
    using assms(5) by (simp only: d assms(3))
  then have r: "unat (trise * (baud div 100) * (freq div 10000) div 1000) = R" by (simp only: unat_div n assms(4))
  have b10: "unat (baud * 10) = b * 10" unfolding unat_word_ariths(2) n using assms(1,2,6,9) by simp
  have s1: "unat (freq - baud * 10) = f - b * 10" using assms(1,9) b10 by (simp add: unat_sub word_le_nat_alt)
  have s2: "unat (freq - baud * 10 - trise * (baud div 100) * (freq div 10000) div 1000) = f - b * 10 - R"
    using assms(9) s1 r by (simp add: unat_sub word_le_nat_alt)
  have "unat (x * 10 + 5) = unat x * 10 + 5" if "unat x \<le> f" for x :: "'w word"
    unfolding unat_word_ariths(1,2) n using that assms(6) by simp
  then have "unat (baud_baudlow freq baud trise) = ((f - b * 10 - R) * 10 + 5) div (b * 10)"
    by (simp only: baud_baudlow_def unat_div b10 s2 diff_le_self le_trans [OF diff_le_self diff_le_self])
  also have "\<dots> = (f - b * 10 - R) div b"
    by (simp add: div_mult2_eq [of _ 10 b, simplified mult.commute [of 10]])
  finally show ?thesis by (simp add: mult.commute)
qed

lemma unat_ucast64 [simp]: "unat (ucast (x :: u32) :: 64 word) = unat x"
proof -
  have "unat x < 2 ^ 64" by (rule less_trans [OF u32_lt]) simp
  then show ?thesis by (simp add: unsigned_ucast_eq take_bit_nat_eq_self)
qed

lemma divider_split:
  fixes k :: u32
  assumes "2 \<le> unat k" and "unat k \<le> 510"
  shows "scl_cycles (if k AND 1 \<noteq> 0 then k div 2 + push_bit 8 (k div 2 + 1) else k div 2) = 10 + unat k"
proof -
  define h where "h = unat k div 2"
  have h: "1 \<le> h" "h \<le> 255" using assms by (simp_all add: h_def)
  have low: "unat (of_nat h :: u32) = h" using h by (simp add: unat_of_nat take_bit_nat_eq_self)
  have kh: "k div 2 = of_nat h" unfolding word_unat_eq_iff low by (simp add: unat_div h_def)
  have parity: "k AND 1 = 0 \<longleftrightarrow> even (unat k)"
    by (simp add: and_one_eq word_unat_eq_iff [of "k mod 2"] unat_mod even_iff_mod_2_eq_zero)
  show ?thesis
  proof (cases "k AND 1 = 0")
    case True
    then have "unat k = 2 * h" by (simp add: h_def parity)
    moreover have "unat (take_bit 8 (of_nat h :: u32)) = h" "unat (take_bit 8 (drop_bit 8 (of_nat h :: u32))) = 0"
      using h by (simp_all only: unsigned_take_bit_eq unsigned_drop_bit_eq low) (simp_all add: take_bit_eq_mod drop_bit_eq_div)
    ultimately show ?thesis using True by (simp only: scl_cycles_def kh Let_def) simp
  next
    case False
    then have k: "unat k = 2 * h + 1" by (simp add: h_def parity)
    then have h': "h \<le> 254" using assms(2) by simp
    define w where "w = (of_nat h + push_bit 8 (of_nat h + 1) :: u32)"
    have "unat w = h + 256 * (h + 1)"
      using h' by (simp add: w_def push_bit_eq_mult unat_word_ariths low)
    moreover have "(h + 256 * (h + 1)) mod 256 = h" using h' by (subst mod_mult_self2) simp
    moreover have "(h + 256 * (h + 1)) div 256 mod 256 = h + 1" using h' by (subst div_mult_self2) simp_all
    moreover have "unat (2 ^ 8 :: u32) = 256" by simp
    ultimately have "unat (take_bit 8 w) = h" "unat (take_bit 8 (drop_bit 8 w)) = h + 1"
      by (simp_all only: take_bit_eq_mod drop_bit_eq_div unat_mod unat_div)
    then show ?thesis using False k by (simp add: scl_cycles_def kh flip: w_def)
  qed
qed

lemma i2cm_table_single: "i2cm_table (conf_sercom0 freq baud trise) = [i2cm_entry (conf_sercom0 freq baud trise) 0]"
  by (simp add: i2cm_table_def sercom_table_def amount_def conf_sercom0_def upt_rec eval_nat_numeral)


lemma firmware_i2cms: "i2cm_table (conf_sercom0 48000000 100000 215) = sample_i2cms"
proof -
  have "conf_trise 215 = 215" by (simp add: conf_trise_def)
  moreover have "conf_baud_rate 48000000 100000 215 = 0xE6E5" by (simp add: conf_baud_rate_def baud_baudlow_def word_le_nat_alt)
  ultimately show ?thesis
    by (simp add: i2cm_table_single i2cm_entry_def conf_sercom0_def sample_i2cms_def)
qed


text \<open>
  Outside of those bounds: a rate too high for the clock wraps around to the slowest divider, and at
  400 kHz a rise time of 300 ns overflows 32 bits, so that a bit takes 106 cycles and not 95.
\<close>

lemma rate_too_high_is_slowest: "conf_baud_rate 48000000 5000000 215 = 0xFF"
  by (simp add: conf_baud_rate_def baud_baudlow_def)

lemma rise_time_overflows:
  "baud_baudlow 48000000 400000 300 = (106 :: 32 word)" "baud_baudlow 48000000 400000 300 = (95 :: 64 word)"
  by (simp_all add: baud_baudlow_def)

end
