(* ===== verification/EpTable.thy ===== *)
theory EpTable
  imports HalUsb
begin

text \<open>
  The table of endpoints of the USB device HAL stays well typed.  The controller driver
  touches the layers above it only through its callbacks, so a property of their state that
  callbacks keep is kept by every operation of the driver; the HAL's operations then keep the typing of
  the table, by which an address belongs to one entry.
\<close>

subsection \<open>The driver and the state of the layers above\<close>

named_theorems upper_kept \<open>what the driver's register accesses leave of the layers above\<close>

lemma helpers_keep [upper_kept]:
  "usb_hpl.more (upd_ept i f s) = usb_hpl.more s" "usb_hpl.more (upd_epr n g s) = usb_hpl.more s"
  "usb_hpl.more (upd_bank n b h s) = usb_hpl.more s" "usb_hpl.more (memcpy d a k s) = usb_hpl.more s"
  by (simp_all add: upd_ept_def upd_epr_def upd_bank_def memcpy_def)

lemma accesses_keep [upper_kept]:
  "usb_hpl.more (ep_int_ack n m s) = usb_hpl.more s" "usb_hpl.more (ep_int_en n m s) = usb_hpl.more s"
  "usb_hpl.more (ep_int_dis n m s) = usb_hpl.more s" "usb_hpl.more (ep_int_stall_en n b en s) = usb_hpl.more s"
  "usb_hpl.more (ep_stop_setup n s) = usb_hpl.more s" "usb_hpl.more (ep_ack_setup n s) = usb_hpl.more s"
  "usb_hpl.more (ep_ack_io_cpt n b s) = usb_hpl.more s" "usb_hpl.more (ep_set_buf n b k s) = usb_hpl.more s"
  "usb_hpl.more (ep_set_in_trans n b sz c s) = usb_hpl.more s" "usb_hpl.more (ep_set_out_trans n b sz c s) = usb_hpl.more s"
  "usb_hpl.more (ep_clear_bank_status n b s) = usb_hpl.more s" "usb_hpl.more (ep_set_in_rdy n b rdy s) = usb_hpl.more s"
  "usb_hpl.more (ep_set_out_rdy n b rdy s) = usb_hpl.more s"
  by (simp_all add: usb_helpers upper_kept)

lemma transactions_keep [upper_kept]:
  "usb_hpl.more (out_copy i p s) = usb_hpl.more s" "usb_hpl.more (in_arm i epn c isr s) = usb_hpl.more s"
  "usb_hpl.more (out_rx_exec epn c isr s) = usb_hpl.more s" "usb_hpl.more (in_tx_exec epn c isr s) = usb_hpl.more s"
  "usb_hpl.more (setup_clear i s) = usb_hpl.more s" "usb_hpl.more (trans_setup i s) = usb_hpl.more s"
  "usb_hpl.more (set_pcksize n b m k sz s) = usb_hpl.more s"
  by (simp_all add: out_copy_def in_arm_def setup_clear_def trans_setup_def set_pcksize_def usb_helpers upper_kept Let_def)

lemma device_keeps [upper_kept]:
  "usb_hpl.more (dev_int_ack m s) = usb_hpl.more s" "usb_hpl.more (dev_int_en m s) = usb_hpl.more s"
  "usb_hpl.more (dev_int_dis m s) = usb_hpl.more s" "usb_hpl.more (wait_for_sync k s) = usb_hpl.more s"
  "usb_hpl.more (write_swrst s) = usb_hpl.more s" "usb_hpl.more (usb_load_calib s) = usb_hpl.more s"
  by (simp_all add: dev_int_ack_def dev_int_en_def dev_int_dis_def wait_for_sync_def write_swrst_def usb_load_calib_def Let_def)

lemma find_lpm_keeps [upper_kept]: "usb_hpl.more (snd (find_lpm ns s)) = usb_hpl.more s"
  by (induction ns) (simp_all add: upper_kept)

lemma ep_operations_keep [upper_kept]:
  "usb_hpl.more (snd (usb_dev_ep_stall ep c s)) = usb_hpl.more s"
  "usb_hpl.more (snd (usb_dev_ep_init ep attr k s)) = usb_hpl.more s"
  "usb_hpl.more (snd (usb_dev_ep_enable ep s)) = usb_hpl.more s"
  "usb_hpl.more (snd (usb_dev_ep_read_req ep b s)) = usb_hpl.more s"
  by (simp_all add: usb_dev_ep_stall_def ep_stall_set_def ep_stall_clr_def usb_dev_ep_init_def usb_dev_ep_enable_def
      usb_dev_ep_read_req_def usb_helpers upper_kept Let_def split: usb_ep_stall_ctrl.split)

locale upcalls =
  fixes call :: "('f, 'a) usb_call" and P :: "'a \<Rightarrow> bool"
  assumes upcall: "call f arg s = Some (r, t) \<Longrightarrow> P (usb_hpl.more s) \<Longrightarrow> P (usb_hpl.more t)"
begin

lemma invoke_keeps: "invoke call f arg s = Some (r, t) \<Longrightarrow> P (usb_hpl.more s) \<Longrightarrow> P (usb_hpl.more t)"
  by (auto simp: invoke_def upcall split: option.splits)

lemma invoke_proc_keeps: "invoke_proc call f arg s = Some t \<Longrightarrow> P (usb_hpl.more s) \<Longrightarrow> P (usb_hpl.more t)"
  by (auto simp: invoke_proc_def dest: invoke_keeps)

lemma trans_done_keeps: "trans_done call i code s = Some t \<Longrightarrow> P (usb_hpl.more s) \<Longrightarrow> P (usb_hpl.more t)"
  by (auto simp: trans_done_def Let_def upper_kept split: if_splits dest!: invoke_proc_keeps)

lemma trans_stop_keeps: "trans_stop call i dir code s = Some t \<Longrightarrow> P (usb_hpl.more s) \<Longrightarrow> P (usb_hpl.more t)"
  by (auto simp: trans_stop_def Let_def upper_kept split: if_splits dest!: trans_done_keeps)

lemma in_complete_keeps: "in_complete call i epn c k s = Some t \<Longrightarrow> P (usb_hpl.more s) \<Longrightarrow> P (usb_hpl.more t)"
  by (auto simp: in_complete_def Let_def upper_kept split: if_splits option.splits
      dest!: trans_done_keeps invoke_keeps)

lemma in_next_keeps: "in_next call i isr s = Some t \<Longrightarrow> P (usb_hpl.more s) \<Longrightarrow> P (usb_hpl.more t)"
  by (auto simp: in_next_def Let_def upper_kept split: if_splits dest!: in_complete_keeps)

lemma out_finish_keeps: "out_finish call i epn c s = Some t \<Longrightarrow> P (usb_hpl.more s) \<Longrightarrow> P (usb_hpl.more t)"
  by (auto simp: out_finish_def Let_def upper_kept split: if_splits dest!: trans_done_keeps)

lemma out_next_keeps: "out_next call i isr s = Some t \<Longrightarrow> P (usb_hpl.more s) \<Longrightarrow> P (usb_hpl.more t)"
  by (auto simp: out_next_def Let_def upper_kept split: if_splits dest!: out_finish_keeps)


lemma handle_setup_keeps: "handle_setup call i s = Some t \<Longrightarrow> P (usb_hpl.more s) \<Longrightarrow> P (usb_hpl.more t)"
  by (auto simp: handle_setup_def Let_def upper_kept split: if_splits dest!: invoke_proc_keeps)

lemma handle_stall_keeps: "handle_stall call i b s = Some t \<Longrightarrow> P (usb_hpl.more s) \<Longrightarrow> P (usb_hpl.more t)"
  by (auto simp: handle_stall_def Let_def upper_kept dest!: invoke_proc_keeps)

lemma handle_trfail_keeps: "handle_trfail call i b s = Some t \<Longrightarrow> P (usb_hpl.more s) \<Longrightarrow> P (usb_hpl.more t)"
  by (auto simp: handle_trfail_def Let_def upper_kept split: if_splits dest!: trans_stop_keeps)

lemmas ep_interrupts_keep = handle_setup_keeps handle_stall_keeps handle_trfail_keeps in_next_keeps out_next_keeps

lemma handle_eps_keeps: "handle_eps call epint i s = Some t \<Longrightarrow> P (usb_hpl.more s) \<Longrightarrow> P (usb_hpl.more t)"
  by (auto simp: handle_eps_def trans_setup_isr_def trans_in_isr_def trans_out_isr_def Let_def split: if_splits
      dest: ep_interrupts_keep)

lemma reset_epts_loop_keeps: "reset_epts_loop call is s = Some t \<Longrightarrow> P (usb_hpl.more s) \<Longrightarrow> P (usb_hpl.more t)"
  by (induction "is" arbitrary: s) (auto simp: upper_kept split: option.splits dest: trans_done_keeps)

lemma reset_epts_keeps: "reset_epts call s = Some t \<Longrightarrow> P (usb_hpl.more s) \<Longrightarrow> P (usb_hpl.more t)"
  by (auto simp: reset_epts_def split: option.splits dest: reset_epts_loop_keeps)

lemma handle_nep_keeps: "handle_nep call s = Some (r, t) \<Longrightarrow> P (usb_hpl.more s) \<Longrightarrow> P (usb_hpl.more t)"
  by (auto simp: handle_nep_def dev_sof_def dev_lpmsusp_def dev_ramerr_def dev_wakeup_def dev_reset_def dev_suspend_def
      wait_dfll_rdy_def Let_def split_beta upper_kept split: if_splits option.splits
      dest!: invoke_proc_keeps reset_epts_keeps)

lemma handle_all_eps_keeps: "handle_all_eps call epint is s = Some t \<Longrightarrow> P (usb_hpl.more s) \<Longrightarrow> P (usb_hpl.more t)"
  by (induction "is" arbitrary: s) (auto split: if_splits option.splits dest: handle_eps_keeps)

lemma interrupt_keeps:
  assumes "USB_Handler call s = Some t" and "P (usb_hpl.more s)"
  shows "P (usb_hpl.more t)"
proof -
  obtain r u where u: "(if ep_intsmry s = 0 then handle_nep call s else Some (False, s)) = Some (r, u)"
    and t: "(if r then Some u else handle_all_eps call (ep_intsmry s) [0..<USB_D_N_EP] u) = Some t"
    using assms(1) by (auto simp: USB_Handler_def dev_handler_def Let_def split: option.splits bool.splits if_splits)
  have "P (usb_hpl.more u)" using u assms(2) handle_nep_keeps by (auto split: if_splits)
  then show ?thesis using t handle_all_eps_keeps by (auto split: if_splits)
qed

lemma dev_init_keeps: "usb_dev_init call s = Some (r, t) \<Longrightarrow> P (usb_hpl.more s) \<Longrightarrow> P (usb_hpl.more t)"
  by (auto simp: usb_dev_init_def Let_def upper_kept split: if_splits option.splits dest!: reset_epts_keeps)

lemma ep_deinit_keeps: "usb_dev_ep_deinit call ep s = Some t \<Longrightarrow> P (usb_hpl.more s) \<Longrightarrow> P (usb_hpl.more t)"
  by (auto simp: usb_dev_ep_deinit_def Let_def upper_kept split: if_splits option.splits dest: trans_stop_keeps)

lemma ep_disable_keeps: "usb_dev_ep_disable call ep s = Some t \<Longrightarrow> P (usb_hpl.more s) \<Longrightarrow> P (usb_hpl.more t)"
  by (auto simp: usb_dev_ep_disable_def Let_def upper_kept split: if_splits option.splits dest: trans_stop_keeps)

lemma ep_abort_keeps: "usb_dev_ep_abort call ep s = Some t \<Longrightarrow> P (usb_hpl.more s) \<Longrightarrow> P (usb_hpl.more t)"
  by (auto simp: usb_dev_ep_abort_def Let_def split: if_splits dest: trans_stop_keeps)

lemma ep_trans_keeps: "usb_dev_ep_trans call xfer s = Some (r, t) \<Longrightarrow> P (usb_hpl.more s) \<Longrightarrow> P (usb_hpl.more t)"
  by (auto simp: usb_dev_ep_trans_def Let_def upper_kept split: if_splits dest!: in_next_keeps out_next_keeps)

end

subsection \<open>The table\<close>

definition in_use :: "(int \<Rightarrow> usb_d_ep) \<Rightarrow> nat set" where
  "in_use h = {i. i < CONF_USB_D_NUM_EP_SP \<and> xep (h (int i)) \<noteq> 0xFF}"

definition ep_table :: "(int \<Rightarrow> usb_d_ep) \<Rightarrow> bool" where
  \<comment> \<open>every entry has a type of transfer, and no two entries in use have the same address\<close>
  "ep_table h \<longleftrightarrow>
     (\<forall>i < CONF_USB_D_NUM_EP_SP. xtype (h (int i)) \<le> 3) \<and> inj_on (\<lambda>i. xep (h (int i))) (in_use h)"

definition typed :: "'a usb_hal_scheme \<Rightarrow> bool" where
  "typed s \<longleftrightarrow> ep_table (hal_ep s)"

definition typed_upper :: "'a usb_hal_ext \<Rightarrow> bool" where
  \<comment> \<open>the same of the state of the upper layers alone\<close>
  "typed_upper m \<longleftrightarrow> (\<exists>s :: 'a usb_hal_scheme. usb_hpl.more s = m \<and> typed s)"

definition keeps_table :: "'a hal_call \<Rightarrow> bool" where
  "keeps_table call \<longleftrightarrow> (\<forall>f arg s r t. call f arg s = Some (r, t) \<longrightarrow> typed s \<longrightarrow> typed t)"

lemma typed_upper [simp]: "typed_upper (usb_hpl.more s) = typed s" for s :: "'a usb_hal_scheme"
proof -
  have "hal_ep t = hal_ep s" if "usb_hpl.more t = usb_hpl.more s" for t :: "'a usb_hal_scheme"
    using that by (cases s; cases t) simp
  then show ?thesis unfolding typed_upper_def typed_def by metis
qed

interpretation table: upcalls call "\<lambda>m. keeps_table call \<longrightarrow> typed_upper m"
  for call :: "'a hal_call"
  by unfold_locales (auto simp: keeps_table_def)

lemmas driver_typed = table.ep_deinit_keeps table.ep_disable_keeps table.ep_abort_keeps table.ep_trans_keeps
  table.dev_init_keeps table.interrupt_keeps table.invoke_keeps table.invoke_proc_keeps

lemma typed_more: "usb_hpl.more t = usb_hpl.more s \<Longrightarrow> typed t = typed s" for s t :: "'a usb_hal_scheme"
  using typed_upper [of s] typed_upper [of t] by simp

lemma typed_quiet [simp]:
  fixes s :: "'a usb_hal_scheme"
  shows "typed (snd (usb_dev_ep_stall ep c s)) = typed s" "typed (snd (usb_dev_ep_init ep attr k s)) = typed s"
    "typed (snd (usb_dev_ep_enable ep s)) = typed s" "typed (snd (usb_dev_ep_read_req ep b s)) = typed s"
  by (rule typed_more [OF ep_operations_keep(1)] typed_more [OF ep_operations_keep(2)]
      typed_more [OF ep_operations_keep(3)] typed_more [OF ep_operations_keep(4)])+

lemma typed_upd [simp]:
  assumes "\<And>e. xep (f e) = xep e" and "\<And>e. xtype (f e) = xtype e"
  shows "typed (upd_hal i f s) = typed s"
proof -
  have "xep (hal_ep (upd_hal i f s) j) = xep (hal_ep s j) \<and> xtype (hal_ep (upd_hal i f s) j) = xtype (hal_ep s j)" for j
    by (simp add: upd_hal_def assms(1,2))
  then show ?thesis by (simp add: typed_def ep_table_def in_use_def)
qed

lemma typed_free: "typed s \<Longrightarrow> typed (upd_hal i (\<lambda>e. e\<lparr>xep := 0xFF\<rparr>) s)"
  by (auto simp: typed_def ep_table_def in_use_def upd_hal_def inj_on_def)

lemma find_ep_loop_none: "find_ep_loop ep is h < 0 \<Longrightarrow> i \<in> set is \<Longrightarrow> xep (h (int i)) \<noteq> ep"
  by (induction "is") (auto split: if_splits)

lemma typed_new:
  assumes "typed s" and "usb_d_find_ep ep s < 0"
  shows "typed (upd_hal i (\<lambda>e. e\<lparr>xep := ep, xtype := attr AND 3\<rparr>) s)"
proof -
  have "xep (hal_ep s (int j)) \<noteq> ep" if "j < CONF_USB_D_NUM_EP_SP" for j
    using find_ep_loop_none [OF assms(2) [unfolded usb_d_find_ep_def]] that by simp
  moreover have "attr AND 3 \<le> 3" by (simp add: word_and_le1)
  ultimately show ?thesis using assms(1)
    by (auto simp: typed_def ep_table_def in_use_def upd_hal_def inj_on_def split: if_splits)
qed

lemma typed_zero: "\<forall>i < CONF_USB_D_NUM_EP_SP. h (int i) = zero_ep \<Longrightarrow> ep_table h"
  by (auto simp: ep_table_def in_use_def zero_ep_def inj_on_def)

subsection \<open>The operations of the HAL\<close>

lemma set_up_keeps [upper_kept]:
  "usb_hpl.more (usb_dev_register_callback cb func s) = usb_hpl.more s"
  "usb_hpl.more (usb_dev_register_ep_callback ecb func s) = usb_hpl.more s"
  "usb_hpl.more (usb_dev_attach s) = usb_hpl.more s" "usb_hpl.more (usb_dev_detach s) = usb_hpl.more s"
  "usb_hpl.more (usb_dev_set_address addr s) = usb_hpl.more s"
  "usb_hpl.more (snd (usb_dev_enable s)) = usb_hpl.more s" "usb_hpl.more (snd (usb_dev_disable s)) = usb_hpl.more s"
  by (simp_all add: usb_dev_register_callback_def usb_dev_register_ep_callback_def usb_dev_attach_def usb_dev_detach_def
      usb_dev_set_address_def usb_dev_enable_def usb_dev_disable_def upper_kept Let_def
      split: usb_d_cb_type.split usb_d_dev_ep_cb_type.split)

lemma wakeup_loop_keeps [upper_kept]: "usb_hpl.more (remote_wakeup_loop k s) = usb_hpl.more s"
  by (induction k arbitrary: s) simp_all

lemma typed_set_up [simp]:
  fixes s :: "'a usb_hal_scheme"
  shows "typed (usb_d_register_callback cb func s) = typed s"
    and "typed (usb_dev_register_ep_callback ecb func s) = typed s"
    and "typed (usb_d_attach s) = typed s" and "typed (usb_d_detach s) = typed s"
    and "typed (usb_d_set_address addr s) = typed s"
    and "typed (snd (usb_d_enable s)) = typed s" and "typed (usb_d_disable s) = typed s"
  unfolding usb_d_register_callback_def usb_d_attach_def usb_d_detach_def usb_d_set_address_def usb_d_enable_def usb_d_disable_def
  by (rule typed_more, simp only: upper_kept)+

lemma typed_wakeup: "usb_d_send_remotewakeup s = Some t \<Longrightarrow> typed t = typed s"
  by (rule typed_more)
    (auto simp: usb_d_send_remotewakeup_def usb_dev_send_remotewakeup_def wait_dfll_rdy_def upper_kept split: if_splits)

named_theorems typed_keep \<open>operations that keep the table, if the callbacks do\<close>

lemma invoke_typed [typed_keep]: "invoke call f arg s = Some (r, t) \<Longrightarrow> keeps_table call \<Longrightarrow> typed s \<Longrightarrow> typed t"
  for s :: "'a usb_hal_scheme"
  using table.invoke_keeps [of call f arg s r t] by simp

lemma invoke_proc_typed [typed_keep]: "invoke_proc call f arg s = Some t \<Longrightarrow> keeps_table call \<Longrightarrow> typed s \<Longrightarrow> typed t"
  for s :: "'a usb_hal_scheme"
  using table.invoke_proc_keeps [of call f arg s t] by simp

lemma interrupt_typed [typed_keep]: "USB_Handler call s = Some t \<Longrightarrow> keeps_table call \<Longrightarrow> typed s \<Longrightarrow> typed t"
  for s :: "'a usb_hal_scheme"
  using table.interrupt_keeps [of call s t] by simp

lemma trans_typed [typed_keep]: "usb_d_trans call ep dir buf n zlp s = Some (r, t) \<Longrightarrow> keeps_table call \<Longrightarrow> typed s \<Longrightarrow> typed t"
  for s :: "'a usb_hal_scheme"
  using table.ep_trans_keeps [of call _ s r t] by (auto simp: usb_d_trans_def)

lemma init_typed:
  assumes "usb_d_init call s = Some (r, t)" and "0 \<le> r"
  shows "typed t"
proof -
  have "typed (u\<lparr>hal_ep := \<lambda>i. if 0 \<le> i \<and> i < int CONF_USB_D_NUM_EP_SP then zero_ep else h i, umem := m\<rparr>)" for u :: "'a usb_hal_scheme" and h m
    by (simp add: typed_def typed_zero)
  with assms show ?thesis by (auto simp: usb_d_init_def Let_def split: option.splits if_splits)
qed

lemma ep_init_typed [simp]: "typed s \<Longrightarrow> typed (snd (usb_d_ep_init ep attr k s))"
proof -
  assume s: "typed s"
  obtain rc t where t: "usb_dev_ep_init ep attr k s = (rc, t)" by fastforce
  then have more: "usb_hpl.more t = usb_hpl.more s" using ep_operations_keep(2) [of ep attr k s] by simp
  then have "hal_ep t = hal_ep s" by (cases s; cases t) simp
  then have "usb_d_find_ep ep t = usb_d_find_ep ep s" by (simp add: usb_d_find_ep_def)
  with s t typed_more [OF more] show ?thesis by (auto simp: usb_d_ep_init_def Let_def typed_new)
qed

lemma ep0_init_typed [simp]: "typed s \<Longrightarrow> typed (snd (usb_d_ep0_init k s))"
  by (simp add: usb_d_ep0_init_def)

lemma enable_typed: "usb_dev_ep_enable ep s = (r, t) \<Longrightarrow> typed t = typed s" for s :: "'a usb_hal_scheme"
  using typed_quiet(3) [of ep s] by simp

lemma ep_enable_typed [simp]: "typed s \<Longrightarrow> typed (snd (usb_d_ep_enable ep s))"
  by (auto simp: usb_d_ep_enable_def Let_def enable_typed split: prod.split)

lemma register_typed [simp]: "typed (usb_d_ep_register_callback ep type func s) = typed s"
  by (simp add: usb_d_ep_register_callback_def Let_def split: usb_d_ep_cb_type.split)

lemma ep_deinit_typed [typed_keep]: "usb_d_ep_deinit call ep s = Some t \<Longrightarrow> keeps_table call \<Longrightarrow> typed s \<Longrightarrow> typed t"
  using table.ep_deinit_keeps [of call ep s] by (auto simp: usb_d_ep_deinit_def Let_def typed_free split: if_splits)

lemma ep_disable_typed [typed_keep]: "usb_d_ep_disable call ep s = Some t \<Longrightarrow> keeps_table call \<Longrightarrow> typed s \<Longrightarrow> typed t"
  using table.ep_disable_keeps [of call ep s] by (auto simp: usb_d_ep_disable_def Let_def split: if_splits)

lemma ep_abort_typed [typed_keep]: "usb_d_ep_abort call ep s = Some t \<Longrightarrow> keeps_table call \<Longrightarrow> typed s \<Longrightarrow> typed t"
  using table.ep_abort_keeps [of call ep s] by (auto simp: usb_d_ep_abort_def Let_def split: if_splits)

lemma ep_transfer_typed [typed_keep]: "usb_d_ep_transfer call xfer s = Some (r, t) \<Longrightarrow> keeps_table call \<Longrightarrow> typed s \<Longrightarrow> typed t"
  by (auto simp: usb_d_ep_transfer_def Let_def split: if_splits dest: trans_typed)

lemma stall_typed: "usb_dev_ep_stall ep c s = (r, t) \<Longrightarrow> typed t = typed s" for s :: "'a usb_hal_scheme"
  using typed_quiet(1) [of ep c s] by simp

lemma ep_halt_typed [typed_keep]: "usb_d_ep_halt call ep c s = Some (r, t) \<Longrightarrow> keeps_table call \<Longrightarrow> typed s \<Longrightarrow> typed t"
  by (auto simp: usb_d_ep_halt_def usb_d_ep_halt_clr_def Let_def stall_typed split: if_splits prod.splits
      dest!: invoke_proc_typed dest: stall_typed)

subsection \<open>The callbacks of the driver\<close>

lemma stall_both_typed [simp]: "typed (stall_both ep c s) = typed s"
  by (simp add: stall_both_def)

lemma read_req_typed: "usb_dev_ep_read_req ep b s = (r, t) \<Longrightarrow> typed t = typed s" for s :: "'a usb_hal_scheme"
  using typed_quiet(4) [of ep b s] by simp

lemma cb_setup_typed [typed_keep]: "usb_d_cb_trans_setup call ep s = Some t \<Longrightarrow> keeps_table call \<Longrightarrow> typed s \<Longrightarrow> typed t"
  by (auto simp: usb_d_cb_trans_setup_def Let_def read_req_typed split: if_splits prod.splits option.splits
      dest!: invoke_typed)

lemma cb_more_typed [typed_keep]: "usb_d_cb_trans_more call ep n s = Some (r, t) \<Longrightarrow> keeps_table call \<Longrightarrow> typed s \<Longrightarrow> typed t"
  by (auto simp: usb_d_cb_trans_more_def Let_def split: if_splits dest: invoke_typed)

lemma ctrl_done_typed: "ctrl_trans_done call i s = Some t \<Longrightarrow> keeps_table call \<Longrightarrow> typed s \<Longrightarrow> typed t"
  by (auto simp: ctrl_trans_done_def Let_def split: if_splits option.splits dest!: invoke_typed trans_typed)

lemma cb_done_typed [typed_keep]: "usb_d_cb_trans_done call ep code n s = Some t \<Longrightarrow> keeps_table call \<Longrightarrow> typed s \<Longrightarrow> typed t"
  by (auto simp: usb_d_cb_trans_done_def Let_def split: if_splits dest!: invoke_proc_typed dest: ctrl_done_typed)

end
