(* ===== verification/UsbTable.thy ===== *)
theory UsbTable
  imports UsbControl EpTable DriverInit
begin

text \<open>
  The endpoint table through the whole USB stack: the device core, the serial port function
  and the application keep its typing, hence so do the calls through function pointers, and
  with them every interrupt and every operation of a running firmware.
\<close>

subsection \<open>The device core\<close>

lemma typed_fields [simp]:
  fixes s :: "'a usbdc_scheme"
  shows "typed (s\<lparr>ls_fs := a\<rparr>) = typed s" "typed (s\<lparr>dc_links := b\<rparr>) = typed s" "typed (s\<lparr>dc_cb := c\<rparr>) = typed s"
    "typed (s\<lparr>sof_list := d\<rparr>) = typed s" "typed (s\<lparr>req_list := e\<rparr>) = typed s" "typed (s\<lparr>change_list := f\<rparr>) = typed s"
    "typed (s\<lparr>func_list := g\<rparr>) = typed s" "typed (s\<lparr>ctrl_buf := h\<rparr>) = typed s" "typed (s\<lparr>dc_state := i\<rparr>) = typed s"
    "typed (s\<lparr>cfg_value := j\<rparr>) = typed s" "typed (s\<lparr>ctrl_size := k\<rparr>) = typed s" "typed (s\<lparr>ifc_alt_map := l\<rparr>) = typed s"
    "typed (write_mem p bs s) = typed s" "typed (usbdc_set_address m s) = typed s"
  by (simp_all add: typed_def write_mem_def) (simp add: usbdc_set_address_def flip: typed_def)

definition keeps_fns :: "'a dc_fns \<Rightarrow> bool" where
  \<comment> \<open>the functions registered with the device core keep the table\<close>
  "keeps_fns fns \<longleftrightarrow>
     (\<forall>f s t. fn_sof fns f s = Some t \<longrightarrow> typed s \<longrightarrow> typed t)
     \<and> (\<forall>f c v s t. fn_change fns f c v s = Some t \<longrightarrow> typed s \<longrightarrow> typed t)
     \<and> (\<forall>f ep req st s r t. fn_req fns f ep req st s = Some (r, t) \<longrightarrow> typed s \<longrightarrow> typed t)
     \<and> (\<forall>f c s r d t. fn_ctrl fns f c s = Some (r, d, t) \<longrightarrow> typed s \<longrightarrow> typed t)"

lemma fns_typed [typed_keep]:
  "fn_sof fns f s = Some t \<Longrightarrow> keeps_fns fns \<Longrightarrow> typed s \<Longrightarrow> typed t"
  "fn_change fns f c v s = Some t \<Longrightarrow> keeps_fns fns \<Longrightarrow> typed s \<Longrightarrow> typed t"
  "fn_req fns f ep req st s = Some (r, t) \<Longrightarrow> keeps_fns fns \<Longrightarrow> typed s \<Longrightarrow> typed t"
  "fn_ctrl fns f k s = Some (r, d, t) \<Longrightarrow> keeps_fns fns \<Longrightarrow> typed s \<Longrightarrow> typed t"
  by (simp_all only: keeps_fns_def)

lemma xfer_typed [typed_keep]: "usbdc_xfer call ep buf n zlp s = Some (r, t) \<Longrightarrow> keeps_table call \<Longrightarrow> typed s \<Longrightarrow> typed t"
  by (auto simp: usbdc_xfer_def dest: ep_transfer_typed)

lemma answer_typed [typed_keep]:
  "answer (usbdc_xfer call ep buf n zlp s) = Some (r, t) \<Longrightarrow> keeps_table call \<Longrightarrow> typed s \<Longrightarrow> typed t"
  "answer_true (usbdc_xfer call ep buf n zlp s) = Some (r, t) \<Longrightarrow> keeps_table call \<Longrightarrow> typed s \<Longrightarrow> typed t"
  by (auto simp: answer_def answer_true_def dest: xfer_typed)

subsubsection \<open>Requests\<close>

lemma get_desc_typed [typed_keep]: "usbdc_get_desc_req call ep req s = Some (r, t) \<Longrightarrow> keeps_table call \<Longrightarrow> typed s \<Longrightarrow> typed t"
  by (auto simp: usbdc_get_desc_req_def usbdc_get_dev_desc_def usbdc_get_cfg_desc_def usbdc_get_str_desc_def Let_def
      split: if_splits option.splits prod.splits dest: answer_typed)

lemma get_status_typed [typed_keep]: "usbdc_get_status_req call ep req s = Some (r, t) \<Longrightarrow> keeps_table call \<Longrightarrow> typed s \<Longrightarrow> typed t"
  by (auto simp: usbdc_get_status_req_def Let_def split: if_splits option.splits dest!: answer_typed ep_halt_typed)

lemma get_iface_loop_typed:
  "get_iface_loop fns func req s = Some y \<Longrightarrow> keeps_fns fns \<Longrightarrow> typed s \<Longrightarrow> typed (snd y)"
proof (induction fns func req s y rule: get_iface_loop.raw_induct [rotated, consumes 1])
  case (1 rec fns func req s y)
  from 1(2-4) show ?case by (auto split: if_splits option.splits dest!: 1(1) fns_typed)
qed

lemma get_interface_typed [typed_keep]:
  "usbdc_get_interface call fns req s = Some (r, t) \<Longrightarrow> keeps_table call \<Longrightarrow> keeps_fns fns \<Longrightarrow> typed s \<Longrightarrow> typed t"
  by (auto simp: usbdc_get_interface_def Let_def split: if_splits option.splits dest!: get_iface_loop_typed answer_typed)

lemma get_req_typed [typed_keep]:
  "usbdc_get_req call fns ep req s = Some (r, t) \<Longrightarrow> keeps_table call \<Longrightarrow> keeps_fns fns \<Longrightarrow> typed s \<Longrightarrow> typed t"
  by (auto simp: usbdc_get_req_def Let_def split: if_splits
      dest: get_desc_typed get_status_typed get_interface_typed dest!: answer_typed)

lemma feature_typed [typed_keep]:
  "usbdc_clear_ftr_req call ep req s = Some (r, t) \<Longrightarrow> keeps_table call \<Longrightarrow> typed s \<Longrightarrow> typed t"
  "usbdc_set_ftr_req call ep req s = Some (r, t) \<Longrightarrow> keeps_table call \<Longrightarrow> typed s \<Longrightarrow> typed t"
  by (auto simp: usbdc_clear_ftr_req_def usbdc_set_ftr_req_def split: if_splits option.splits dest!: answer_typed ep_halt_typed)

lemma unconfig_typed [typed_keep]: "usbdc_unconfig fns s = Some t \<Longrightarrow> keeps_fns fns \<Longrightarrow> typed s \<Longrightarrow> typed t"
proof -
  have "unconfig_loop fns func s = Some t \<Longrightarrow> keeps_fns fns \<Longrightarrow> typed s \<Longrightarrow> typed t" for func
  proof (induction fns func s t rule: unconfig_loop.raw_induct [rotated, consumes 1])
    case (1 rec fns func s t)
    from 1(2-4) show ?case by (auto split: if_splits option.splits dest!: 1(1) fns_typed)
  qed
  then show "usbdc_unconfig fns s = Some t \<Longrightarrow> keeps_fns fns \<Longrightarrow> typed s \<Longrightarrow> typed t"
    by (simp add: usbdc_unconfig_def)
qed

lemma enable_funcs_typed: "enable_funcs fns func d s = Some y \<Longrightarrow> keeps_fns fns \<Longrightarrow> typed s \<Longrightarrow> typed (snd y)"
proof (induction fns func d s y rule: enable_funcs.raw_induct [rotated, consumes 1])
  case (1 rec fns func d s y)
  from 1(2-4) show ?case by (auto split: if_splits option.splits dest!: 1(1) fns_typed)
qed

lemma set_config_loop_typed: "set_config_loop fns n d s = Some t \<Longrightarrow> keeps_fns fns \<Longrightarrow> typed s \<Longrightarrow> typed t"
proof (induction fns n d s t rule: set_config_loop.raw_induct [rotated, consumes 1])
  case (1 rec fns n d s t)
  from 1(2-4) show ?case by (auto simp: Let_def split: if_splits option.splits dest!: 1(1) enable_funcs_typed)
qed

lemma set_config_typed [typed_keep]: "usbdc_set_config fns c s = Some (r, t) \<Longrightarrow> keeps_fns fns \<Longrightarrow> typed s \<Longrightarrow> typed t"
  by (auto simp: usbdc_set_config_def Let_def split: if_splits option.splits dest: unconfig_typed set_config_loop_typed)

lemma set_alt_loop_typed:
  "set_alt_loop call fns func d alt ifc s = Some y \<Longrightarrow> keeps_table call \<Longrightarrow> keeps_fns fns \<Longrightarrow> typed s \<Longrightarrow> typed (snd y)"
proof (induction call fns func d alt ifc s y rule: set_alt_loop.raw_induct [rotated, consumes 1])
  case (1 rec call fns func d alt ifc s y)
  obtain r t where y: "y = (r, t)" by fastforce
  from 1(2-5) show ?case unfolding y by (auto simp: Let_def split: if_splits option.splits dest!: 1(1) fns_typed answer_typed)
qed

lemma set_interface_typed [typed_keep]:
  "usbdc_set_interface call fns alt ifc s = Some (r, t) \<Longrightarrow> keeps_table call \<Longrightarrow> keeps_fns fns \<Longrightarrow> typed s \<Longrightarrow> typed t"
  by (auto simp: usbdc_set_interface_def Let_def split: if_splits option.splits dest!: set_alt_loop_typed)

lemma set_req_typed [typed_keep]:
  "usbdc_set_req call fns ep req s = Some (r, t) \<Longrightarrow> keeps_table call \<Longrightarrow> keeps_fns fns \<Longrightarrow> typed s \<Longrightarrow> typed t"
  by (auto simp: usbdc_set_req_def Let_def split: if_splits option.splits
      dest: feature_typed set_interface_typed dest!: answer_typed set_config_typed)

subsubsection \<open>Notifications\<close>

lemma sof_typed [typed_keep]: "usbd_sof_cb fns s = Some t \<Longrightarrow> keeps_fns fns \<Longrightarrow> typed s \<Longrightarrow> typed t"
proof -
  have "sof_loop fns h s = Some t \<Longrightarrow> keeps_fns fns \<Longrightarrow> typed s \<Longrightarrow> typed t" for h
  proof (induction fns h s t rule: sof_loop.raw_induct [rotated, consumes 1])
    case (1 rec fns h s t)
    from 1(2-4) show ?case by (auto split: if_splits option.splits dest: 1(1) dest!: fns_typed)
  qed
  then show "usbd_sof_cb fns s = Some t \<Longrightarrow> keeps_fns fns \<Longrightarrow> typed s \<Longrightarrow> typed t"
    by (simp add: usbd_sof_cb_def usbdc_sof_notify_def)
qed

lemma change_typed [typed_keep]: "usbdc_change_notify fns c v s = Some t \<Longrightarrow> keeps_fns fns \<Longrightarrow> typed s \<Longrightarrow> typed t"
proof -
  have "change_loop fns h c v s = Some t \<Longrightarrow> keeps_fns fns \<Longrightarrow> typed s \<Longrightarrow> typed t" for h
  proof (induction fns h c v s t rule: change_loop.raw_induct [rotated, consumes 1])
    case (1 rec fns h c v s t)
    from 1(2-4) show ?case by (auto split: if_splits option.splits dest: 1(1) dest!: fns_typed)
  qed
  then show "usbdc_change_notify fns c v s = Some t \<Longrightarrow> keeps_fns fns \<Longrightarrow> typed s \<Longrightarrow> typed t"
    by (simp add: usbdc_change_notify_def)
qed

lemma request_typed [typed_keep]: "usbdc_request_handler fns ep req st s = Some (r, t) \<Longrightarrow> keeps_fns fns \<Longrightarrow> typed s \<Longrightarrow> typed t"
proof -
  have "request_loop fns h ep req st s = Some y \<Longrightarrow> keeps_fns fns \<Longrightarrow> typed s \<Longrightarrow> typed (snd y)" for h y
  proof (induction fns h ep req st s y rule: request_loop.raw_induct [rotated, consumes 1])
    case (1 rec fns h ep req st s y)
    from 1(2-4) show ?case by (auto split: if_splits option.splits dest: 1(1) dest!: fns_typed)
  qed
  from this [of _ "(r, t)"] show "usbdc_request_handler fns ep req st s = Some (r, t) \<Longrightarrow> keeps_fns fns \<Longrightarrow> typed s \<Longrightarrow> typed t"
    by (simp add: usbdc_request_handler_def)
qed

lemma ctl_req_typed [typed_keep]:
  "usbdc_cb_ctl_req call fns ep req s = Some (r, t) \<Longrightarrow> keeps_table call \<Longrightarrow> keeps_fns fns \<Longrightarrow> typed s \<Longrightarrow> typed t"
  by (auto simp: usbdc_cb_ctl_req_def Let_def split: if_splits option.splits
      dest!: request_typed dest: set_req_typed get_req_typed)

lemma ctl_done_typed [typed_keep]:
  "usbdc_cb_ctl_done fns ep code req s = Some (r, t) \<Longrightarrow> keeps_fns fns \<Longrightarrow> typed s \<Longrightarrow> typed t"
  by (auto simp: usbdc_cb_ctl_done_def usbdc_ctrl_status_end_def usbdc_ctrl_data_end_def Let_def
      split: usb_xfer_code.splits if_splits dest!: request_typed change_typed)

lemma event_typed [typed_keep]:
  "usbd_event_cb call fns ev p s = Some t \<Longrightarrow> keeps_table call \<Longrightarrow> keeps_fns fns \<Longrightarrow> typed s \<Longrightarrow> typed t"
  by (auto simp: usbd_event_cb_def usbdc_reset_def Let_def split: if_splits option.splits
      dest: change_typed dest!: unconfig_typed ep_deinit_typed)

subsubsection \<open>Set-up\<close>

lemma dc_init_typed: "usbdc_init debug call buf s = Some (0, t) \<Longrightarrow> typed t"
  by (auto simp: usbdc_init_def c_assert_def Let_def split: if_splits option.splits bool.splits dest!: init_typed)

lemma register_handler_typed: "usbdc_register_handler debug type h s = Some t \<Longrightarrow> typed t = typed s"
  by (auto simp: usbdc_register_handler_def split: usbdc_handler_type.splits)

lemma register_function_typed: "usbdc_register_function debug func s = Some t \<Longrightarrow> typed t = typed s"
  by (auto simp: usbdc_register_function_def)

lemma start_typed [simp]: "typed (snd (usbdc_start d s)) = typed s"
  by (simp add: usbdc_start_def Let_def split: option.split)

lemma started_typed: "usbdc_start d s = (r, t) \<Longrightarrow> typed t = typed s"
  using start_typed [of d s] by simp

lemma attach_typed [simp]: "typed (usbdc_attach s) = typed s" by (simp add: usbdc_attach_def)

subsection \<open>The serial port\<close>

lemma typed_acm_fields [simp]:
  fixes s :: "'a cdcdf_scheme"
  shows "typed (s\<lparr>func_iface := a\<rparr>) = typed s" "typed (s\<lparr>func_ep_in := b\<rparr>) = typed s"
    "typed (s\<lparr>func_ep_out := c\<rparr>) = typed s" "typed (s\<lparr>cdc_enabled := d\<rparr>) = typed s"
    "typed (s\<lparr>notify_state := e\<rparr>) = typed s" "typed (s\<lparr>set_line_coding := f\<rparr>) = typed s"
  by (simp_all add: typed_def)

lemma open_typed: "usb_d_ep_init ep attr k s = (r, t) \<Longrightarrow> typed s \<Longrightarrow> typed t"
  using ep_init_typed [of s ep attr k] by simp

lemma install_typed: "install_eps i ep d s = Some y \<Longrightarrow> typed s \<Longrightarrow> typed (snd (snd y))"
proof (induction i ep d s y rule: install_eps.raw_induct [rotated, consumes 1])
  case (1 rec i ep d s y)
  from 1(2-3) show ?case by (auto simp: Let_def split: if_splits option.splits prod.splits dest!: 1(1) open_typed)
qed

lemma ifaces_typed: "enable_ifaces is ifc d s = Some (r, e, t) \<Longrightarrow> typed s \<Longrightarrow> typed t"
  by (induction "is" arbitrary: ifc d s) (auto simp: Let_def split: if_splits option.splits dest!: install_typed)

lemma close_ifaces_typed: "disable_ifaces call is s = Some t \<Longrightarrow> keeps_table call \<Longrightarrow> typed s \<Longrightarrow> typed t"
  by (induction "is" arbitrary: s) (auto simp: Let_def split: if_splits option.splits dest!: ep_deinit_typed)

lemma acm_enable_typed: "cdcdf_acm_enable d s = Some (r, e, t) \<Longrightarrow> typed s \<Longrightarrow> typed t"
  unfolding cdcdf_acm_enable_def by (rule ifaces_typed)

lemma acm_disable_typed: "cdcdf_acm_disable call d s = Some (r, t) \<Longrightarrow> keeps_table call \<Longrightarrow> typed s \<Longrightarrow> typed t"
  by (auto simp: cdcdf_acm_disable_def Let_def simp del: disable_ifaces.simps split: if_splits option.splits
      dest!: close_ifaces_typed ep_deinit_typed)

lemma acm_ctrl_typed [typed_keep]:
  "cdcdf_acm_ctrl call c s = Some (r, d, t) \<Longrightarrow> keeps_table call \<Longrightarrow> typed s \<Longrightarrow> typed t"
  by (auto simp: cdcdf_acm_ctrl_def split: usbdf_control.splits dest: acm_enable_typed acm_disable_typed)

definition keeps_app :: "'a cdc_app \<Rightarrow> bool" where
  \<comment> \<open>the same of the application's callbacks\<close>
  "keeps_app app \<longleftrightarrow>
     (\<forall>f c s r t. app_coding app f c s = Some (r, t) \<longrightarrow> typed s \<longrightarrow> typed t)
     \<and> (\<forall>f v s t. app_state app f v s = Some t \<longrightarrow> typed s \<longrightarrow> typed t)"

lemma app_typed [typed_keep]:
  "app_coding app f c s = Some (r, t) \<Longrightarrow> keeps_app app \<Longrightarrow> typed s \<Longrightarrow> typed t"
  "app_state app f v s = Some t \<Longrightarrow> keeps_app app \<Longrightarrow> typed s \<Longrightarrow> typed t"
  by (simp_all only: keeps_app_def)

lemma acm_req_typed [typed_keep]:
  "cdcdf_acm_req call app ep req st s = Some (r, t) \<Longrightarrow> keeps_table call \<Longrightarrow> keeps_app app \<Longrightarrow> typed s \<Longrightarrow> typed t"
  by (auto simp: cdcdf_acm_req_def cdcdf_acm_set_req_def cdcdf_acm_get_req_def Let_def
      split: if_splits option.splits dest!: xfer_typed app_typed)

lemma acm_init_typed: "cdcdf_acm_init debug s = Some (r, t) \<Longrightarrow> typed t = typed s"
  by (auto simp: cdcdf_acm_init_def Let_def split: if_splits option.splits
      dest!: register_function_typed register_handler_typed)

lemma acm_io_typed [typed_keep]:
  "cdcdf_acm_read call buf n s = Some (r, t) \<Longrightarrow> keeps_table call \<Longrightarrow> typed s \<Longrightarrow> typed t"
  "cdcdf_acm_write call buf n s = Some (r, t) \<Longrightarrow> keeps_table call \<Longrightarrow> typed s \<Longrightarrow> typed t"
  by (auto simp: cdcdf_acm_read_def cdcdf_acm_write_def split: if_splits dest: xfer_typed)

lemma acm_stop_typed [typed_keep]: "cdcdf_acm_stop_xfer call s = Some t \<Longrightarrow> keeps_table call \<Longrightarrow> typed s \<Longrightarrow> typed t"
  by (auto simp: cdcdf_acm_stop_xfer_def split: option.splits dest!: ep_abort_typed)

lemma acm_register_typed [simp]: "typed (snd (cdcdf_acm_register_callback cb s)) = typed s"
  by (simp add: cdcdf_acm_register_callback_def split: cdcdf_acm_cb.split)

subsection \<open>The stack\<close>

lemma stack_fns_keep: "keeps_fns user \<Longrightarrow> keeps_app app \<Longrightarrow> keeps_table call \<Longrightarrow> keeps_fns (stack_fns user app call)"
  unfolding keeps_fns_def [of "stack_fns user app call"]
  by (auto simp: stack_fns_def split: if_splits dest: fns_typed acm_ctrl_typed acm_req_typed)

lemma bulk_typed [typed_keep]:
  "usb_device_cb_bulk_out call ep rc k s = Some (r, t) \<Longrightarrow> keeps_table call \<Longrightarrow> typed s \<Longrightarrow> typed t"
  "usb_device_cb_bulk_in call ep rc k s = Some (r, t) \<Longrightarrow> keeps_table call \<Longrightarrow> typed s \<Longrightarrow> typed t"
  by (auto simp: usb_device_cb_bulk_out_def usb_device_cb_bulk_in_def dest: acm_io_typed)

lemma usb_call_keeps: "keeps_fns user \<Longrightarrow> keeps_app app \<Longrightarrow> keeps_table (usb_call user app n)"
proof (induction n)
  case 0
  show ?case by (simp add: keeps_table_def usb_call.simps)
next
  case (Suc n)
  let ?call = "usb_call user app n"
  have call: "keeps_table ?call" and fns: "keeps_fns (stack_fns user app ?call)"
    using Suc by (auto intro: stack_fns_keep)
  have "typed t" if "usb_call user app (Suc n) f arg s = Some (r, t)" and "typed s" for f arg s r t
    using that(1) call fns that(2)
    by (cases f; cases arg)
      (auto simp: usb_call.simps Let_def dest: cb_setup_typed cb_more_typed cb_done_typed sof_typed event_typed
        ctl_req_typed ctl_done_typed bulk_typed)
  then show ?case by (simp add: keeps_table_def)
qed

lemma usb_init_typed: "usb_init debug call s = Some (0, t) \<Longrightarrow> typed t"
  by (auto simp: usb_init_def cdc_device_acm_init_def split: option.splits if_splits prod.splits
      dest!: dc_init_typed acm_init_typed started_typed) 

lemma example_typed [typed_keep]: "cdcd_acm_example call s = Some t \<Longrightarrow> keeps_table call \<Longrightarrow> typed s \<Longrightarrow> typed t"
  by (auto simp: cdcd_acm_example_def Let_def split: if_splits dest!: acm_io_typed)

subsection \<open>A running firmware\<close>

inductive usb_run :: "'a cdcdf_ext dc_fns \<Rightarrow> 'a cdc_app \<Rightarrow> nat \<Rightarrow> 'a cdcdf_scheme \<Rightarrow> bool" for user app n where
  started: "usb_init debug (usb_call user app n) s = Some (0, t) \<Longrightarrow> usb_run user app n t"
| echoing: "usb_run user app n s \<Longrightarrow> cdcd_acm_example (usb_call user app n) s = Some t \<Longrightarrow> usb_run user app n t"
| interrupted: "usb_run user app n s \<Longrightarrow> usb_hpl.more u = usb_hpl.more s \<Longrightarrow> USB_Handler (usb_call user app n) u = Some t
    \<Longrightarrow> usb_run user app n t"  \<comment> \<open>whatever host and controller made of the driver's state and the memory\<close>
| reading: "usb_run user app n s \<Longrightarrow> cdcdf_acm_read (usb_call user app n) buf k s = Some (r, t) \<Longrightarrow> usb_run user app n t"
| writing: "usb_run user app n s \<Longrightarrow> cdcdf_acm_write (usb_call user app n) buf k s = Some (r, t) \<Longrightarrow> usb_run user app n t"
| stopping: "usb_run user app n s \<Longrightarrow> cdcdf_acm_stop_xfer (usb_call user app n) s = Some t \<Longrightarrow> usb_run user app n t"
| registering: "usb_run user app n s \<Longrightarrow> usb_run user app n (snd (cdcdf_acm_register_callback cb s))"

lemma usb_run_typed:
  assumes "keeps_fns user" and "keeps_app app" and "usb_run user app n s"
  shows "typed s"
proof -
  note call = usb_call_keeps [OF assms(1,2), of n]
  from assms(3) show ?thesis
  proof induction
    case (interrupted s u t)
    then show ?case using interrupt_typed [OF _ call] typed_more by blast
  qed (use call in \<open>auto dest: usb_init_typed example_typed acm_io_typed acm_stop_typed\<close>)
qed

lemma find_ep_loop_in:
  "i \<in> set is \<Longrightarrow> xep (h (int i)) = ep \<Longrightarrow>
    \<exists>j \<in> set is. find_ep_loop ep is h = int j
      \<and> (xep (h (int j)) = ep \<or> xtype (h (int j)) = XTYPE_CTRL \<and> xep (h (int j)) = ep AND 0x0F)"
  by (induction "is") auto


lemma usb_init_succeeds: "\<exists>t. usb_init False call s = Some (0, t)"
proof -
  have "usb_d_init call s = Some (r, t) \<Longrightarrow> r = 0" for r t
    by (auto simp: usb_d_init_def usb_dev_init_def Let_def split: option.splits if_splits)
  then obtain u where u: "usb_d_init call s = Some (0, u)" using driver_inits_return(3) [of call s] by blast
  then obtain v where v: "usbdc_init False call ctrl_buffer s = Some (0, v)"
    and f: "dc_state v = 0" "func_list v = NULL" "req_list v = NULL" "dc_state v = USBD_S_OFF"
    by (auto simp: usbdc_init_def c_assert_def Let_def usb_d_register_callback_def usb_dev_register_callback_def)
  from f show ?thesis
    by (simp add: usb_init_def cdc_device_acm_init_def v cdcdf_acm_init_def usbdc_get_state_def Let_def
        usbdc_register_function_def usbdc_register_handler_def list_insert_at_end_def c_assert_def usbdc_start_def)
qed


end
