(* ===== verification/Spec2Isabelle.thy ===== *)
theory Spec2Isabelle
  imports PowerlogReport UtilsEvent Ornament Ipv4Ext SercomUsart SercomI2cs SpiTransfer Dlhdr LinuxTools I2cBaud DriverInit Startup Dmac BoardConfig UsbTable
begin

text \<open>
  \<^bold>\<open>Verification development for the C programs of this repository\<close>

  The repository is a collection of independent projects.  Its C code is two firmwares,
  an extension of SQLite and a few small Linux programs:

    \<^item> \<open>pcbs/powerlog/firmware\<close>: a power logger on a SAM D21 (Cortex-M0+).  A timer task asks for a
      sample every 200 ticks; the main loop then reads the three channels of an INA3221 power monitor
      over I2C and sends one line of text through a USB serial port.  The code is the application
      (\<open>main.c\<close>, \<open>ina3221.c\<close>, \<open>usb_start.c\<close>, \<open>driver_init.c\<close>) on Atmel's layers: \<open>hal\<close> (drivers
      independent of the chip), \<open>hpl\<close> (drivers of the chip) and \<open>usb\<close> (device core and serial port).
    \<^item> \<open>pcbs/ornament2020/fw\<close>: an ornament with LEDs on an ATtiny84: patterns of brightness, played by
      pulse width modulation, and switched by a touch sensor.
    \<^item> \<open>go/gopot/analysis/sqlite3-inet/ipv4-ext.c\<close>: SQL functions on IPv4 addresses and networks.
    \<^item> \<open>linux/elf/symbols/dlhdr.c\<close>, \<open>docker/wrtbuilder/fixperms.c\<close>, \<open>shellcode/runners/linux.c\<close>,
      \<open>docker/vuln_boxes/trans2open/smbd_wrapper.c\<close>.

  \<^bold>\<open>Conventions.\<close>  An \<open>n\<close>-bit unsigned integer is a word of \<open>n\<close> bits, and arithmetic wraps as in C; a
  status code is an integer, as it is only compared; a pointer is a 32-bit word.  A structure of which there
  are several is a group of functions from its address to the members, one that is a single static object a
  record.  A call that may not return (an endless loop, an \<open>ASSERT\<close> that stops the core, a jump through a
  null pointer) has an option as its result, with \<open>None\<close> for not returning; where C leaves the behaviour
  undefined, and the code can get there, the result is \<open>None\<close> as well, and the definition says so.  State is
  passed explicitly: a definition takes the state last and returns it last.  Hardware registers are
  reached through a record of access functions (\<open>soc_bus\<close>, \<open>sercom_bus\<close>) over an arbitrary state of the
  hardware, so that a read may change it; what a theorem needs of the hardware is a hypothesis
  from its documentation (\<open>soc_ok\<close>, \<open>chip_ready\<close>, \<open>spi_link\<close>, \<open>ina_ready\<close>), and the witness of the theorem
  gives a concrete one.  Loops are recursive functions; the ones that wait for hardware or walk
  over memory the code does not check are \<open>partial_function (option)\<close>, and returning is proved where it is claimed.

  \<^bold>\<open>Theories.\<close>
    \<^item> \<open>Prelude\<close>: words, status codes, \<open>ASSERT\<close>, bytes in memory, decimal digits.  \<open>Ieee\<close>: the
      rounding of \<open>float\<close> and \<open>double\<close>, over the rational numbers, with its error bounds.
    \<^item> \<open>UtilsList\<close> (\<open>utils_list.c\<close>): the intrusive list over a map of next pointers, refined to a list of
      addresses.  The laws of insertion and deletion are a locale, interpreted on
      the code's functions.  \<open>UtilsEvent\<close> (\<open>utils_event.c\<close>): events with a mask of subscribed numbers.
    \<^item> \<open>HplTc\<close> (\<open>hpl_tc.c\<close>) and \<open>HalTimer\<close> (\<open>hal_timer.c\<close>): the counter and the queue of timer tasks, kept in the
      order in which they expire modulo \<open>2 ^ 32\<close>.
    \<^item> \<open>Sercom\<close> (register access), and the four drivers of \<open>hpl_sercom.c\<close>: \<open>SercomI2cm\<close> with \<open>I2cBaud\<close> (I2C master),
      \<open>SercomI2cs\<close> (I2C slave), \<open>SercomSpi\<close> with \<open>SpiTransfer\<close> (SPI), \<open>SercomUsart\<close>.  \<open>HalI2c\<close> (\<open>hal_i2c_m_sync.c\<close>)
      also has a reference peripheral with the monitor behind it; \<open>Ina3221\<close> is \<open>ina3221.c\<close> on it.
    \<^item> \<open>HplUsb\<close> (\<open>hpl_usb.c\<close>) and \<open>UsbTransfer\<close>: the controller driver, and the packets of an IN transfer.
      \<open>HalUsb\<close> (\<open>hal_usb_device.c\<close>): endpoints with transfer states.  \<open>UsbProtocol\<close> (\<open>usb_protocol.c\<close>): walks over
      descriptors.  \<open>UsbDc\<close> (\<open>usbdc.c\<close>): the device core.  \<open>CdcAcm\<close> (\<open>cdcdf_acm.c\<close>): the serial port.
      \<open>UsbStack\<close> (\<open>usb_start.c\<close>) closes the stack: \<open>usb_call\<close> is the call through a function pointer.
      \<open>UsbControl\<close>, \<open>UsbConfig\<close>, \<open>UsbOpen\<close> and \<open>UsbSerial\<close> hold what the layers do together: control transfers from
      the interrupt to the status stage, refused requests and the abstract device, the opening of the
      port by \<open>SET_CONFIGURATION\<close>, and data on the open port.  \<open>EpTable\<close> and \<open>UsbTable\<close>: the table of endpoints stays well
      typed.  The locale \<open>upcalls\<close> carries any property of the upper layers' state through the driver, given
      that its callbacks keep it; the stack's callbacks then keep it by induction on the depth of the calls, and
      \<open>usb_run\<close> is the reachability relation of the running firmware.
    \<^item> \<open>PowerlogMain\<close> (\<open>main.c\<close>): the application and its main loop, as a step relation in which the timer
      interrupt may come between any two steps.  \<open>PowerlogReport\<close>: one report, from the monitor's registers to the host.
    \<^item> \<open>Soc\<close> (system registers), \<open>Core\<close> (delays, interrupts, critical sections, sleep), \<open>Clocks\<close> (power manager,
      generators, oscillators, \<open>_init_chip\<close>), \<open>Gpio\<close> (port driver), \<open>DriverInit\<close> (\<open>driver_init.c\<close>, \<open>atmel_start.c\<close>):
      the board's start.  \<open>Startup\<close> (\<open>startup_samd21.c\<close>, \<open>utils_syscalls.c\<close>): the vector table, the reset handler that
      copies and clears the segments of memory, and the system calls.  \<open>BoardConfig\<close>: the tables of configurations that the drivers search
      (locale \<open>numbered_table\<close>, interpreted for each driver), and the values that \<open>hpl_tc_config.h\<close> and
      \<open>hpl_sercom_config.h\<close> compute.  \<open>Clocks\<close> holds the values of \<open>hpl_pm_config.h\<close>, \<open>hpl_sysctrl_config.h\<close> and \<open>hpl_gclk_config.h\<close>.
    \<^item> \<open>Dmac\<close> (\<open>hpl_dmac.c\<close>): the DMA controller's driver, for any configuration; the firmware as shipped compiles it out.
    \<^item> \<open>Ornament\<close>, \<open>Ipv4Ext\<close>, \<open>Dlhdr\<close> and \<open>LinuxTools\<close>: the other programs.

  \<^bold>\<open>What is shown.\<close>  The list, the event list, the timer queue, the main loop and the ornament have a
  well-formedness invariant that every operation keeps, also under interrupts.  The timer queue stays in order and fires each task
  at its time; the application's task fires every 200 ticks, and every request is answered or reported on the LED.
  The device core refines the states of chapter 9 of the USB specification; an address is used only after its
  status stage; a refused request stalls and changes nothing; \<open>SET_CONFIGURATION\<close> opens exactly the endpoints of the
  descriptors; the line coding comes back as it was set; what the application writes reaches the host complete, in order and
  ended by a short packet, and so does the line of a report.  In every reachable state
  of the running stack an endpoint address belongs to one entry of the table.  A transfer of the I2C, SPI or USB driver writes
  only into its buffer.  The start of the chip never runs the core faster than the flash allows, and
  the board starts with each pin and clock as configured; \<open>main\<close> finds the initialised and the zero
  segments of its memory as C promises.  A DMA transfer covers exactly its block, and the DMA interrupts end.  The computed divisors and delays keep their bounds,
  single and double precision included.  The
  IPv4 functions agree with prefix arithmetic and are inverse where they should be.
  Where the code does not do what it means to do, a theorem or lemma shows it: the report is read from the stack after its
  function has returned; a zero interval never returns; a packet received through the
  cache is lost if it is full; a bus rate too low for the divider becomes a high one.

  \<^bold>\<open>Bounds and fuel.\<close>  \<open>usb_call\<close> takes a depth: the callbacks of the stack call each other at most twice before
  they reach the controller driver, and depth 2 is shown to suffice where a theorem needs a call to return.  All
  other loops are structural, have a measure, or are partial functions.

  \<^bold>\<open>Not modelled.\<close>  The register accessors of \<open>hri\<close> are generated, one for each field of each register of the chip: those the
  code calls are written out where it calls them, and their waits for synchronisation are taken to end.  The device headers and
  CMSIS are the vendor's.  The remaining files of \<open>config\<close> are macros with numbers, which appear as parameters (\<open>hpl_dmac_config.h\<close>) or as
  the values in the definitions that use them.  Two wrappers that pass function pointers on (\<open>hal_io.c\<close>) and version getters have nothing to state.
  The requests for descriptors of high speed in \<open>usbdc.c\<close> are compiled out.
  \<open>driver_examples.c\<close> is not called.  The other tool chain's files are not built.  \<open>avr_mcu_section.h\<close>
  only marks data for a simulator, and \<open>syscallent_*.h\<close> are tables of names for a Go program.  The sketches under \<open>arduino\<close> are C++ on a vendor's library.
  The accuracy of clocks in time and the electrical behaviour of the ports are outside the model.
\<close>

end
